(* ===== verification/Citius_Prelude.thy ===== *)
theory Citius_Prelude
  imports Main "HOL-Library.Word" "HOL-Library.List_Lexorder" "HOL-Library.Char_ord"
    "HOL-Library.Multiset"
begin

text \<open>
  What every component shares: the error values and gRPC statuses of the server, the
  parameters that stand for the errors package of citius-core, Go's slices, integer
  parsing and printing at 64 bits, and the lemma collections the component proofs use.

  Go strings are byte sequences; \<^typ>\<open>string\<close> is a list of 8-bit characters, so a Go string
  and the byte slice converted from it are the same list. Numeric bytes of the cryptographic
  code are \<open>8 word\<close> lists.
\<close>

named_theorems go_result "unfolding rules for result values"
named_theorems op_defs "definitions of the operations of the component at hand"

section \<open>Errors\<close>

text \<open>
  The codes of \<open>citius-core/errors\<close> that the sources name, and the gRPC codes the sources
  and their tests name.
\<close>

datatype code =
    CodeInvalidArgument | CodeNotImplemented | CodeInternal | CodeAlreadyExists
  | CodeKeyNotFound | CodePolicyNotFound | CodeTemplateNotFound | CodeProviderNotFound
  | CodePolicyViolation | CodeUnauthenticated | CodeFailedPrecondition | CodeUnavailable

datatype grpc_code =
    GOk | GInvalidArgument | GNotFound | GAlreadyExists | GPermissionDenied
  | GUnauthenticated | GFailedPrecondition | GUnimplemented | GInternal | GUnavailable

text \<open>
  An error value records how it was made: \<open>errors.New\<close>, \<open>errors.Wrap\<close> (with the message of
  \<open>WithMessage\<close> when given), or an error of another library. What the errors package reads
  back from such a value is a parameter, \<open>errors_pkg\<close>.
\<close>

datatype error =
    ErrNew string code string
  | ErrWrap string "string option" error
  | ErrPlain string

type_synonym 'a result = "error + 'a"

record errors_pkg =
  asDomain :: "error \<Rightarrow> string option"
  hasCode :: "code \<Rightarrow> error \<Rightarrow> bool"
  grpcCodeOf :: "error \<Rightarrow> grpc_code"

text \<open>
  The documented behaviour the code relies on: \<open>errors.As\<close> finds the outermost domain error
  and its message (empty when \<open>Wrap\<close> was given none), a wrapped error keeps its code, and a
  foreign error has none. The gRPC codes are those \<open>internal/grpc/status\<close> documents and
  tests; \<open>CodeUnavailable\<close> is only raised while the server is put together and reaches no RPC.
\<close>

fun documented_grpc :: "code \<Rightarrow> grpc_code" where
  "documented_grpc CodeInvalidArgument = GInvalidArgument"
| "documented_grpc CodeNotImplemented = GUnimplemented"
| "documented_grpc CodeInternal = GInternal"
| "documented_grpc CodeAlreadyExists = GAlreadyExists"
| "documented_grpc CodeKeyNotFound = GNotFound"
| "documented_grpc CodePolicyNotFound = GNotFound"
| "documented_grpc CodeTemplateNotFound = GNotFound"
| "documented_grpc CodeProviderNotFound = GNotFound"
| "documented_grpc CodePolicyViolation = GPermissionDenied"
| "documented_grpc CodeUnauthenticated = GUnauthenticated"
| "documented_grpc CodeFailedPrecondition = GFailedPrecondition"
| "documented_grpc CodeUnavailable = GUnavailable"

definition errors_pkg_ok :: "errors_pkg \<Rightarrow> bool" where
  "errors_pkg_ok P \<longleftrightarrow>
     (\<forall>op c m. asDomain P (ErrNew op c m) = Some m) \<and>
     (\<forall>op m e. asDomain P (ErrWrap op m e) = Some (case m of None \<Rightarrow> [] | Some s \<Rightarrow> s)) \<and>
     (\<forall>s. asDomain P (ErrPlain s) = None) \<and>
     (\<forall>c op c' m. hasCode P c (ErrNew op c' m) = (c = c')) \<and>
     (\<forall>c op m e. hasCode P c (ErrWrap op m e) = hasCode P c e) \<and>
     (\<forall>c s. \<not> hasCode P c (ErrPlain s)) \<and>
     (\<forall>op c m. grpcCodeOf P (ErrNew op c m) = documented_grpc c) \<and>
     (\<forall>op m e. grpcCodeOf P (ErrWrap op m e) = grpcCodeOf P e)"

text \<open>An instance with that behaviour, for the examples.\<close>

fun ref_code :: "error \<Rightarrow> code option" where
  "ref_code (ErrNew _ c _) = Some c"
| "ref_code (ErrWrap _ _ e) = ref_code e"
| "ref_code (ErrPlain _) = None"

fun ref_message :: "error \<Rightarrow> string option" where
  "ref_message (ErrNew _ _ m) = Some m"
| "ref_message (ErrWrap _ m _) = Some (case m of None \<Rightarrow> [] | Some s \<Rightarrow> s)"
| "ref_message (ErrPlain _) = None"

definition ref_errors :: errors_pkg where
  "ref_errors = \<lparr>asDomain = ref_message, hasCode = (\<lambda>c e. ref_code e = Some c),
     grpcCodeOf = (\<lambda>e. case ref_code e of None \<Rightarrow> GInternal | Some c \<Rightarrow> documented_grpc c)\<rparr>"

lemma ref_errors_ok [simp]: "errors_pkg_ok ref_errors"
  by (auto simp: errors_pkg_ok_def ref_errors_def)

lemma ref_errors_simps [simp]:
  "asDomain ref_errors e = ref_message e"
  "hasCode ref_errors c e = (ref_code e = Some c)"
  "grpcCodeOf ref_errors e = (case ref_code e of None \<Rightarrow> GInternal | Some c \<Rightarrow> documented_grpc c)"
  by (simp_all add: ref_errors_def)

lemma errors_pkg_okD:
  assumes "errors_pkg_ok P"
  shows "asDomain P (ErrNew op c m) = Some m"
    and "asDomain P (ErrWrap op n e) = Some (case n of None \<Rightarrow> [] | Some s \<Rightarrow> s)"
    and "asDomain P (ErrPlain s) = None"
    and "hasCode P c' (ErrNew op c m) = (c' = c)"
    and "hasCode P c' (ErrWrap op n e) = hasCode P c' e"
    and "\<not> hasCode P c' (ErrPlain s)"
    and "grpcCodeOf P (ErrNew op c m) = documented_grpc c"
    and "grpcCodeOf P (ErrWrap op n e) = grpcCodeOf P e"
  using assms by (simp_all add: errors_pkg_ok_def)

section \<open>Decimal integers\<close>

text \<open>
  \<open>strconv.Itoa\<close> and \<open>fmt.Sprintf("%d")\<close> print without padding; \<open>strconv.Atoi\<close> accepts an
  optional sign and decimal digits and fails on anything else and on values outside 64 bits.
\<close>

definition digit_char :: "nat \<Rightarrow> char" where
  "digit_char d = char_of (48 + d)"

definition is_digit :: "char \<Rightarrow> bool" where
  "is_digit c \<longleftrightarrow> 48 \<le> (of_char c :: nat) \<and> (of_char c :: nat) \<le> 57"

definition digit_val :: "char \<Rightarrow> nat" where
  "digit_val c = of_char c - 48"

fun show_nat :: "nat \<Rightarrow> string" where
  "show_nat n = (if n < 10 then [digit_char n] else show_nat (n div 10) @ [digit_char (n mod 10)])"

declare show_nat.simps [simp del]

definition read_digits :: "string \<Rightarrow> nat" where
  "read_digits s = foldl (\<lambda>a c. 10 * a + digit_val c) 0 s"

definition Itoa :: "int \<Rightarrow> string" where
  "Itoa i = (if i < 0 then CHR ''-'' # show_nat (nat (- i)) else show_nat (nat i))"

definition in_int64 :: "int \<Rightarrow> bool" where
  "in_int64 i \<longleftrightarrow> - (2 ^ 63) \<le> i \<and> i < 2 ^ 63"

definition Atoi :: "string \<Rightarrow> int option" where
  "Atoi s =
     (let neg = (case s of [] \<Rightarrow> False | c # _ \<Rightarrow> c = CHR ''-'');
          rest = (case s of [] \<Rightarrow> [] | c # cs \<Rightarrow> if c = CHR ''-'' \<or> c = CHR ''+'' then cs else s)
      in if rest = [] \<or> \<not> list_all is_digit rest then None
         else let v = (if neg then - int (read_digits rest) else int (read_digits rest))
              in if in_int64 v then Some v else None)"

lemma digit_char_simps [simp]:
  assumes "d < 10"
  shows "is_digit (digit_char d)" "digit_val (digit_char d) = d"
    "digit_char d \<noteq> CHR ''-''" "digit_char d \<noteq> CHR ''+''"
proof -
  have "d \<in> {0,1,2,3,4,5,6,7,8,9}" using assms by auto
  then show "is_digit (digit_char d)" "digit_val (digit_char d) = d"
    "digit_char d \<noteq> CHR ''-''" "digit_char d \<noteq> CHR ''+''"
    by (auto simp: digit_char_def is_digit_def digit_val_def char_of_eq_iff)
qed

lemma show_nat_digits [simp]: "list_all is_digit (show_nat n)"
  by (induction n rule: show_nat.induct) (subst show_nat.simps, auto)

lemma show_nat_not_Nil [simp]: "show_nat n \<noteq> []"
  by (subst show_nat.simps) simp

lemma read_digits_snoc [simp]: "read_digits (s @ [c]) = 10 * read_digits s + digit_val c"
  by (simp add: read_digits_def)

lemma read_show_nat [simp]: "read_digits (show_nat n) = n"
proof (induction n rule: show_nat.induct)
  case (1 n)
  show ?case
  proof (cases "n < 10")
    case True
    then show ?thesis by (subst show_nat.simps) (simp add: read_digits_def)
  next
    case False
    with 1 have "read_digits (show_nat (n div 10)) = n div 10" by simp
    with False show ?thesis by (subst show_nat.simps) simp
  qed
qed

lemma show_nat_inject [simp]: "show_nat m = show_nat n \<longleftrightarrow> m = n"
  by (metis read_show_nat)

lemma digit_not_punct:
  "is_digit c \<Longrightarrow> c \<noteq> CHR '':''" "is_digit c \<Longrightarrow> c \<noteq> CHR ''/''"
  "is_digit c \<Longrightarrow> c \<noteq> CHR ''-''" "is_digit c \<Longrightarrow> c \<noteq> CHR ''+''"
  by (auto simp: is_digit_def)

lemma show_nat_no_punct [simp]:
  "CHR '':'' \<notin> set (show_nat n)" "CHR ''/'' \<notin> set (show_nat n)"
  "CHR ''-'' \<notin> set (show_nat n)" "CHR ''+'' \<notin> set (show_nat n)"
  using show_nat_digits [of n] by (auto simp: list_all_iff dest: digit_not_punct)

lemma hd_show_nat_no_sign:
  "hd (show_nat n) \<noteq> CHR ''-''" "hd (show_nat n) \<noteq> CHR ''+''"
  by (metis show_nat_no_punct(3,4) hd_in_set show_nat_not_Nil)+

lemma Atoi_Itoa:
  assumes "in_int64 i"
  shows "Atoi (Itoa i) = Some i"
proof (cases "i < 0")
  case True
  with assms show ?thesis by (simp add: Atoi_def Itoa_def Let_def)
next
  case False
  obtain c cs where s: "show_nat (nat i) = c # cs" by (cases "show_nat (nat i)") auto
  with hd_show_nat_no_sign [of "nat i"] have "c \<noteq> CHR ''-''" "c \<noteq> CHR ''+''" by auto
  moreover have "list_all is_digit (c # cs)" "read_digits (c # cs) = nat i"
    using s [symmetric] by simp_all
  ultimately show ?thesis using False assms by (simp add: Atoi_def Itoa_def Let_def s)
qed

lemma Itoa_not_Nil [simp]: "Itoa i \<noteq> []" "[] \<noteq> Itoa i"
  by (simp_all add: Itoa_def) (metis show_nat_not_Nil)

lemma Atoi_range: "Atoi s = Some v \<Longrightarrow> in_int64 v"
  by (auto simp: Atoi_def Let_def split: if_splits)

section \<open>Prefixes\<close>

text \<open>\<open>strings.CutPrefix\<close>: the rest of a string after a prefix.\<close>

fun strip_prefix :: "string \<Rightarrow> string \<Rightarrow> string option" where
  "strip_prefix [] t = Some t"
| "strip_prefix (c # cs) [] = None"
| "strip_prefix (c # cs) (d # ds) = (if c = d then strip_prefix cs ds else None)"

lemma strip_prefix_Some [simp]: "strip_prefix p t = Some u \<longleftrightarrow> t = p @ u"
  by (induction p t rule: strip_prefix.induct) auto

lemma Some_strip_prefix [simp]: "Some u = strip_prefix p t \<longleftrightarrow> t = p @ u"
  by (metis strip_prefix_Some)

lemma split_last_sep:
  assumes "a @ c # x = b @ c # y" "c \<notin> set x" "c \<notin> set y"
  shows "a = b \<and> x = y"
proof -
  from assms(1) obtain us where
    "a = b @ us \<and> us @ c # x = c # y \<or> a @ us = b \<and> c # x = us @ c # y"
    unfolding append_eq_append_conv2 by blast
  then show ?thesis using assms(2,3) by (cases us) auto
qed

section \<open>Slices\<close>

text \<open>\<open>xs[a:b]\<close> for bounds the caller has checked.\<close>

definition subslice :: "'a list \<Rightarrow> int \<Rightarrow> int \<Rightarrow> 'a list" where
  "subslice xs a b = take (nat (b - a)) (drop (nat a) xs)"

lemma subslice_all [simp]: "subslice xs 0 (int (length xs)) = xs"
  by (simp add: subslice_def)

lemma subslice_append:
  assumes "0 \<le> a" "a \<le> b" "b \<le> c"
  shows "subslice xs a b @ subslice xs b c = subslice xs a c"
proof -
  have "nat (c - a) = nat (b - a) + nat (c - b)" "nat b = nat a + nat (b - a)"
    using assms by linarith+
  then show ?thesis by (simp add: subslice_def take_add add.commute)
qed

lemma length_subslice:
  assumes "0 \<le> a" "a \<le> b" "b \<le> int (length xs)"
  shows "int (length (subslice xs a b)) = b - a"
  using assms by (simp add: subslice_def min_def) linarith

lemma subslice_subset: "set (subslice xs a b) \<subseteq> set xs"
  by (auto simp: subslice_def dest: in_set_takeD in_set_dropD)

section \<open>Order of sorted listings\<close>

text \<open>
  \<open>slices.SortFunc\<close> returns some sorted permutation; with distinct keys there is only one,
  so \<open>sort_key\<close> is that permutation.
\<close>

lemma sorted_perm_unique:
  assumes "mset xs = mset ys" "sorted (map f xs)" "sorted (map f ys)" "distinct (map f xs)"
  shows "xs = (ys :: 'a list)"
proof -
  have inj: "inj_on f (set xs)" using assms(4) by (simp add: distinct_map)
  have "map f xs = map f ys"
    using assms by (metis mset_map properties_for_sort)
  moreover have "set xs = set ys" using assms(1) by (metis set_mset_mset)
  ultimately show ?thesis using inj by (simp add: inj_on_map_eq_map)
qed

end
