(* ===== verification/Paging.thy ===== *)
theory Paging
  imports Citius_Prelude
begin

text \<open>
  The offset page tokens the list RPCs share (\<open>internal/grpc/paging\<close>). \<open>Window\<close> picks the
  half-open range of a sorted listing that one page covers and the token of the next page.
  The locale \<open>pager\<close> is what a client of a list RPC relies on: following the tokens visits
  the whole listing, in order, without gaps or repeats, and stops.
\<close>

definition ErrInvalid :: error where
  "ErrInvalid = ErrPlain ''invalid page_size or page_token''"

text \<open>
  \<open>tot\<close> is the length of a slice, \<open>psize\<close> a 32-bit signed page size. The start offset is
  read with \<open>strconv.Atoi\<close>; \<open>tot - start\<close> cannot overflow because the guard has put
  \<open>start\<close> between 0 and \<open>tot\<close>.
\<close>

definition Window :: "int \<Rightarrow> 32 word \<Rightarrow> string \<Rightarrow> (int \<times> int \<times> string) result" where
  "Window tot psize token =
     (if sint psize < 0 then Inl ErrInvalid
      else
        let parsed = (if token \<noteq> [] then
                        (case Atoi token of
                           None \<Rightarrow> None
                         | Some start \<Rightarrow> if start < 0 \<or> start > tot then None else Some start)
                      else Some 0)
        in case parsed of
             None \<Rightarrow> Inl ErrInvalid
           | Some start \<Rightarrow>
               let stop = (if sint psize > 0 \<and> sint psize < tot - start
                           then start + sint psize else tot);
                   token' = (if stop < tot then Itoa stop else [])
               in Inr (start, stop, token'))"

section \<open>What a caller of a list RPC does\<close>

text \<open>
  A client asks for pages until the next token is empty and appends what it gets. The fuel
  bounds the number of requests; \<open>None\<close> is running out of it or a refused page.
\<close>

fun fetch_all ::
  "(int \<Rightarrow> 32 word \<Rightarrow> string \<Rightarrow> (int \<times> int \<times> string) result) \<Rightarrow> nat \<Rightarrow> 'a list \<Rightarrow> 32 word \<Rightarrow> string
     \<Rightarrow> 'a list option" where
  "fetch_all window 0 xs psize token = None"
| "fetch_all window (Suc fuel) xs psize token =
     (case window (int (length xs)) psize token of
        Inl _ \<Rightarrow> None
      | Inr (start, stop, token') \<Rightarrow>
          if token' = [] then Some (subslice xs start stop)
          else map_option (\<lambda>rest. subslice xs start stop @ rest)
                 (fetch_all window fuel xs psize token'))"

locale pager =
  fixes window :: "int \<Rightarrow> 32 word \<Rightarrow> string \<Rightarrow> (int \<times> int \<times> string) result"
  assumes first_page:
      "0 \<le> tot \<Longrightarrow> 0 \<le> sint psize \<Longrightarrow> \<exists>stop tok'. window tot psize [] = Inr (0, stop, tok')"
    and page_bounds:
      "0 \<le> tot \<Longrightarrow> window tot psize tok = Inr (start, stop, tok') \<Longrightarrow>
         0 \<le> start \<and> start \<le> stop \<and> stop \<le> tot"
    and last_page: "window tot psize tok = Inr (start, stop, []) \<Longrightarrow> stop = tot"
    and next_page:
      "0 \<le> tot \<Longrightarrow> tot < 2 ^ 63 \<Longrightarrow> window tot psize tok = Inr (start, stop, tok') \<Longrightarrow>
         tok' \<noteq> [] \<Longrightarrow> \<exists>stop' tok''. window tot psize tok' = Inr (stop, stop', tok'')"
    and page_progress:
      "0 \<le> tot \<Longrightarrow> window tot psize tok = Inr (start, stop, tok') \<Longrightarrow> tok' \<noteq> [] \<Longrightarrow> start < stop"
begin

lemma fetch_rest:
  assumes "window (int (length xs)) psize tok = Inr (start, stop, tok')"
    and "int (length xs) < 2 ^ 63" and "nat (int (length xs) - start) < fuel"
  shows "fetch_all window fuel xs psize tok = Some (subslice xs start (int (length xs)))"
  using assms
proof (induction fuel arbitrary: tok start stop tok')
  case 0
  then show ?case by simp
next
  case (Suc fuel)
  let ?n = "int (length xs)"
  have b: "0 \<le> start \<and> start \<le> stop \<and> stop \<le> ?n"
    using page_bounds [OF _ Suc.prems(1)] by simp
  show ?case
  proof (cases "tok' = []")
    case True
    with Suc.prems(1) last_page [of ?n psize tok start stop] show ?thesis by simp
  next
    case False
    obtain stop' tok'' where w: "window ?n psize tok' = Inr (stop, stop', tok'')"
      using next_page [OF _ Suc.prems(2) Suc.prems(1) False] by auto
    have "start < stop" using page_progress [OF _ Suc.prems(1) False] by simp
    with b Suc.prems(3) have "nat (?n - stop) < fuel" by linarith
    with Suc.IH [OF w Suc.prems(2)]
    have "fetch_all window fuel xs psize tok' = Some (subslice xs stop ?n)" .
    with False Suc.prems(1) b show ?thesis by (simp add: subslice_append)
  qed
qed

lemma fetch_all_complete:
  assumes "0 \<le> sint psize" and "int (length xs) < 2 ^ 63" and "length xs < fuel"
  shows "fetch_all window fuel xs psize [] = Some xs"
proof -
  obtain stop tok' where w: "window (int (length xs)) psize [] = Inr (0, stop, tok')"
    using first_page [of "int (length xs)" psize] assms(1) by auto
  have "nat (int (length xs) - 0) < fuel" using assms(3) by simp
  from fetch_rest [OF w assms(2) this] show ?thesis by simp
qed

end

section \<open>Window keeps the contract\<close>

lemma Window_ok_iff:
  "Window tot psize tok = Inr (start, stop, tok') \<longleftrightarrow>
     0 \<le> sint psize \<and>
     (if tok = [] then start = 0 else Atoi tok = Some start \<and> 0 \<le> start \<and> start \<le> tot) \<and>
     stop = (if sint psize > 0 \<and> sint psize < tot - start then start + sint psize else tot) \<and>
     tok' = (if stop < tot then Itoa stop else [])"
  by (auto simp: Window_def Let_def split: option.splits if_splits)

lemma Window_bounds:
  assumes "0 \<le> tot" and "Window tot psize tok = Inr (start, stop, tok')"
  shows "0 \<le> start \<and> start \<le> stop \<and> stop \<le> tot"
  using assms by (auto simp: Window_ok_iff split: if_splits)

lemma Window_progress:
  assumes "Window tot psize tok = Inr (start, stop, tok')" and "tok' \<noteq> []"
  shows "start < stop \<and> stop < tot \<and> tok' = Itoa stop"
  using assms by (auto simp: Window_ok_iff split: if_splits)

lemma Window_next:
  assumes "0 \<le> tot" "tot < 2 ^ 63" "Window tot psize tok = Inr (start, stop, tok')" "tok' \<noteq> []"
  shows "\<exists>stop' tok''. Window tot psize tok' = Inr (stop, stop', tok'')"
proof -
  from Window_progress [OF assms(3,4)] Window_bounds [OF assms(1,3)]
  have s: "tok' = Itoa stop" "0 \<le> stop" "stop \<le> tot" by auto
  with assms(2) have "Atoi tok' = Some stop" by (auto intro!: Atoi_Itoa simp: in_int64_def)
  moreover have "0 \<le> sint psize" using assms(3) by (simp add: Window_ok_iff)
  ultimately show ?thesis using s assms(4) by (simp add: Window_ok_iff)
qed

interpretation window: pager Window
proof
  show "\<exists>stop tok'. Window tot psize [] = Inr (0, stop, tok')" if "0 \<le> sint psize" for tot psize
    using that by (simp add: Window_ok_iff)
  show "0 \<le> start \<and> start \<le> stop \<and> stop \<le> tot"
    if "0 \<le> tot" "Window tot psize tok = Inr (start, stop, tok')" for tot psize tok start stop tok'
    using that by (rule Window_bounds)
  show "stop = tot" if "Window tot psize tok = Inr (start, stop, [])" for tot psize tok start stop
    using that by (auto simp: Window_ok_iff split: if_splits)
  show "\<exists>stop' tok''. Window tot psize tok' = Inr (stop, stop', tok'')"
    if "0 \<le> tot" "tot < 2 ^ 63" "Window tot psize tok = Inr (start, stop, tok')" "tok' \<noteq> []"
    for tot psize tok start stop tok'
    using that by (rule Window_next)
  show "start < stop" if "Window tot psize tok = Inr (start, stop, tok')" "tok' \<noteq> []"
    for tot psize tok start stop tok'
    using Window_progress [OF that] by simp
qed

section \<open>Properties\<close>

text \<open>
  C20: Following the page tokens that \<open>Window\<close> issues, from the empty token until an empty one
  comes back, returns every item of the listing exactly once and in order, for every page size
  that is not negative, within one request more than there are items.
\<close>

theorem Window_pages_cover_listing:
  assumes "0 \<le> sint psize" and "int (length xs) < 2 ^ 63" and "length xs < fuel"
  shows "fetch_all Window fuel xs psize [] = Some xs"
  using assms by (rule window.fetch_all_complete)

theorem Window_pages_cover_listing_witness:
  "fetch_all Window 6 [10, 20, 30, 40, 50 :: nat] 2 [] = Some [10, 20, 30, 40, 50]"
  by (rule Window_pages_cover_listing) simp_all

text \<open>
  C21: \<open>Window\<close> refuses a page exactly when the page size is negative or a non-empty token is
  not a decimal integer between 0 and the length of the listing; otherwise the page holds at
  most \<open>psize\<close> items (every remaining one when \<open>psize\<close> is 0) and lies inside the listing.
\<close>

theorem Window_refuses_iff:
  "(Window tot psize tok = Inl ErrInvalid \<longleftrightarrow>
      sint psize < 0 \<or> (tok \<noteq> [] \<and> (\<forall>i. Atoi tok = Some i \<longrightarrow> i < 0 \<or> tot < i))) \<and>
   (0 \<le> tot \<longrightarrow> Window tot psize tok = Inr (start, stop, tok') \<longrightarrow>
      0 \<le> start \<and> start \<le> stop \<and> stop \<le> tot \<and>
      (0 < sint psize \<longrightarrow> stop - start \<le> sint psize) \<and> (sint psize = 0 \<longrightarrow> stop = tot))"
proof (intro conjI impI)
  show "Window tot psize tok = Inl ErrInvalid \<longleftrightarrow>
      sint psize < 0 \<or> (tok \<noteq> [] \<and> (\<forall>i. Atoi tok = Some i \<longrightarrow> i < 0 \<or> tot < i))"
    by (auto simp: Window_def Let_def split: option.splits if_splits)
qed (auto simp: Window_ok_iff split: if_splits)

theorem Window_refuses_iff_witness:
  "Window 5 2 ''4'' = Inr (4, 5, []) \<and> 4 \<le> (5 :: int) \<and> 5 - 4 \<le> sint (2 :: 32 word)"
proof -
  have w: "Window 5 2 ''4'' = Inr (4, 5, [])" by code_simp
  with Window_refuses_iff [of 5 2 "''4''" 4 5 "[]"] show ?thesis by simp
qed

end
