(* ===== verification/Lru_Cache.thy ===== *)
theory Lru_Cache
  imports Citius_Prelude
begin

text \<open>
  The name cache of the key repository (\<open>vault-storage/key/cache.go\<close>): an interface with
  \<open>get\<close>, \<open>put\<close> and \<open>remove\<close>, and its LRU implementation, a map from keys to list elements
  and a doubly linked list in order of use. List elements are modelled by their addresses, so
  that the agreement of the map with the list is an invariant to prove rather than a
  consequence of the representation.

  The locale \<open>name_cache\<close> is the contract a client of the interface relies on; the LRU cache
  is its interpretation.
\<close>

section \<open>The implementation\<close>

text \<open>
  \<open>items\<close> maps a key to the address of its element, \<open>order\<close> is the linked list from front
  (most recently used) to back, each element with the \<open>cacheEntry\<close> it holds, and \<open>fresh\<close>
  is the next unused address.
\<close>

record ('k, 'v) lruCache =
  capacity :: int
  items :: "'k \<rightharpoonup> nat"
  order :: "(nat \<times> 'k \<times> 'v) list"
  fresh :: nat

definition newLRUCache :: "int \<Rightarrow> ('k, 'v) lruCache" where
  "newLRUCache cap = \<lparr>capacity = cap, items = Map.empty, order = [], fresh = 0\<rparr>"

text \<open>\<open>container/list\<close>: remove an element, and move one to the front.\<close>

definition list_remove :: "nat \<Rightarrow> (nat \<times> 'e) list \<Rightarrow> (nat \<times> 'e) list" where
  "list_remove el l = filter (\<lambda>x. fst x \<noteq> el) l"

definition list_set_front :: "nat \<Rightarrow> 'e \<Rightarrow> (nat \<times> 'e) list \<Rightarrow> (nat \<times> 'e) list" where
  "list_set_front el e l = (el, e) # list_remove el l"

definition cache_get :: "'k \<Rightarrow> ('k, 'v) lruCache \<Rightarrow> 'v option \<times> ('k, 'v) lruCache" where
  "cache_get k c =
     (case items c k of
        None \<Rightarrow> (None, c)
      | Some el \<Rightarrow>
          (case map_of (order c) el of
             None \<Rightarrow> (None, c)
           | Some entry \<Rightarrow>
               (Some (snd entry), c\<lparr>order := list_set_front el entry (order c)\<rparr>)))"

definition cache_put :: "'k \<Rightarrow> 'v \<Rightarrow> ('k, 'v) lruCache \<Rightarrow> ('k, 'v) lruCache" where
  "cache_put k v c =
     (case items c k of
        Some el \<Rightarrow> c\<lparr>order := list_set_front el (k, v) (order c)\<rparr>
      | None \<Rightarrow>
          let c1 = (if int (length (order c)) \<ge> capacity c \<and> order c \<noteq> []
                    then let oldest = last (order c)
                         in c\<lparr>order := list_remove (fst oldest) (order c),
                              items := (items c)(fst (snd oldest) := None)\<rparr>
                    else c)
          in c1\<lparr>order := (fresh c1, k, v) # order c1, items := (items c1)(k \<mapsto> fresh c1),
                fresh := Suc (fresh c1)\<rparr>)"

definition cache_remove :: "'k \<Rightarrow> ('k, 'v) lruCache \<Rightarrow> ('k, 'v) lruCache" where
  "cache_remove k c =
     (case items c k of
        None \<Rightarrow> c
      | Some el \<Rightarrow> c\<lparr>order := list_remove el (order c), items := (items c)(k := None)\<rparr>)"

lemmas cache_defs [op_defs] = cache_get_def cache_put_def cache_remove_def newLRUCache_def
  list_remove_def list_set_front_def

section \<open>Invariant and abstraction\<close>

text \<open>The entries in order of use: what the cache is, without addresses.\<close>

definition entries :: "('k, 'v) lruCache \<Rightarrow> ('k \<times> 'v) list" where
  "entries c = map snd (order c)"

definition cached :: "('k, 'v) lruCache \<Rightarrow> 'k \<rightharpoonup> 'v" where
  "cached c = map_of (entries c)"

definition lru_inv :: "('k, 'v) lruCache \<Rightarrow> bool" where
  "lru_inv c \<longleftrightarrow>
     distinct (map fst (order c)) \<and> distinct (map fst (entries c)) \<and>
     (\<forall>k el. items c k = Some el \<longleftrightarrow> (\<exists>v. (el, k, v) \<in> set (order c))) \<and>
     (\<forall>x \<in> set (order c). fst x < fresh c) \<and>
     int (length (order c)) \<le> max 1 (capacity c)"

lemma lru_invD:
  assumes "lru_inv c"
  shows "distinct (map fst (order c))" "distinct (map fst (entries c))"
    "items c k = Some el \<longleftrightarrow> (\<exists>v. (el, k, v) \<in> set (order c))"
    "x \<in> set (order c) \<Longrightarrow> fst x < fresh c"
    "int (length (order c)) \<le> max 1 (capacity c)"
  using assms by (simp_all add: lru_inv_def)

lemma filter_addr_key:
  assumes "distinct (map fst l)" "distinct (map (fst \<circ> snd) l)" "(el, k, v) \<in> set l"
  shows "filter (\<lambda>x. fst x \<noteq> el) l = filter (\<lambda>x. fst (snd x) \<noteq> k) l"
proof (rule filter_cong [OF refl])
  fix x assume x: "x \<in> set l"
  have i1: "inj_on fst (set l)" and i2: "inj_on (fst \<circ> snd) (set l)"
    using assms(1,2) by (simp_all add: distinct_map)
  show "(fst x \<noteq> el) = (fst (snd x) \<noteq> k)"
    using inj_onD [OF i1 _ x assms(3)] inj_onD [OF i2 _ x assms(3)] by fastforce
qed

lemma items_cases:
  assumes "lru_inv c"
  obtains (miss) "items c k = None" "k \<notin> fst ` set (entries c)" "cached c k = None"
  | (hit) el v where "items c k = Some el" "map_of (order c) el = Some (k, v)"
      "(el, k, v) \<in> set (order c)" "cached c k = Some v"
      "list_remove el (order c) = filter (\<lambda>x. fst (snd x) \<noteq> k) (order c)"
proof (cases "items c k")
  case None
  have "k \<notin> fst ` set (entries c)"
  proof
    assume "k \<in> fst ` set (entries c)"
    then obtain el v where "(el, k, v) \<in> set (order c)" by (auto simp: entries_def)
    with lru_invD(3) [OF assms, of k el] None show False by auto
  qed
  with None show ?thesis by (intro miss) (simp_all add: cached_def map_of_eq_None_iff)
next
  case (Some el)
  then obtain v where m: "(el, k, v) \<in> set (order c)" using lru_invD(3) [OF assms] by auto
  moreover have "map_of (order c) el = Some (k, v)"
    using m lru_invD(1) [OF assms] by simp
  moreover have "cached c k = Some v"
    using m lru_invD(2) [OF assms] by (force simp: cached_def entries_def)
  moreover have "list_remove el (order c) = filter (\<lambda>x. fst (snd x) \<noteq> k) (order c)"
    unfolding list_remove_def
    by (rule filter_addr_key [OF lru_invD(1) [OF assms] _ m])
       (use lru_invD(2) [OF assms] in \<open>simp add: entries_def\<close>)
  ultimately show ?thesis using Some by (intro hit)
qed

text \<open>Reordering by a filter keeps the invariant's distinctness, and moving to the front keeps it.\<close>

lemma lru_inv_move_front:
  assumes "lru_inv c" "(el, k, v) \<in> set (order c)"
  shows "lru_inv (c\<lparr>order := (el, k, v') # filter (\<lambda>x. fst (snd x) \<noteq> k) (order c)\<rparr>)"
proof -
  let ?o = "filter (\<lambda>x. fst (snd x) \<noteq> k) (order c)"
  note d = lru_invD [OF assms(1)]
  have "?o = filter (\<lambda>x. fst x \<noteq> el) (order c)"
    using filter_addr_key [OF d(1) _ assms(2)] d(2) by (simp add: entries_def)
  then have el: "el \<notin> fst ` set ?o" by auto
  have len: "length ?o < length (order c)"
    using assms(2) by (auto intro: length_filter_less)
  have "items c k' = Some el' \<longleftrightarrow> (\<exists>w. (el', k', w) \<in> set ((el, k, v') # ?o))" for k' el'
    using d(3) [of k' el'] d(3) [of k el] assms(2) by auto (metis option.inject)
  moreover have "fst x < fresh c" if "x \<in> set ((el, k, v') # ?o)" for x
    using that d(4) [OF assms(2)] d(4) [of x] by auto
  moreover have "distinct (map fst ((el, k, v') # ?o))"
    using el d(1) by (auto simp: distinct_map_filter)
  moreover have "distinct (map (fst \<circ> snd) ((el, k, v') # ?o))"
    using d(2) by (auto simp: entries_def distinct_map_filter)
  moreover have "int (length ((el, k, v') # ?o)) \<le> max 1 (capacity c)"
    using len d(5) by simp
  ultimately show ?thesis by (auto simp: lru_inv_def entries_def)
qed

lemma lru_inv_new: "lru_inv (newLRUCache cap)"
  by (simp add: lru_inv_def newLRUCache_def entries_def)

text \<open>Dropping the entry of one key.\<close>

lemma lru_inv_drop:
  assumes "lru_inv c"
  shows "lru_inv (c\<lparr>order := filter (\<lambda>x. fst (snd x) \<noteq> k) (order c), items := (items c)(k := None)\<rparr>)"
proof -
  note d = lru_invD [OF assms]
  have "length (filter (\<lambda>x. fst (snd x) \<noteq> k) (order c)) \<le> length (order c)" by simp
  with d(5) have "int (length (filter (\<lambda>x. fst (snd x) \<noteq> k) (order c))) \<le> max 1 (capacity c)"
    by linarith
  with d(1,2) d(4) show ?thesis
    by (auto simp: lru_inv_def entries_def distinct_map_filter d(3))
qed

text \<open>Pushing an entry for a key that is not in the cache.\<close>

lemma lru_inv_push:
  assumes "lru_inv c" "items c k = None" "int (length (order c)) < max 1 (capacity c)"
  shows "lru_inv (c\<lparr>order := (fresh c, k, v) # order c, items := (items c)(k \<mapsto> fresh c),
                    fresh := Suc (fresh c)\<rparr>)"
proof -
  note d = lru_invD [OF assms(1)]
  have k: "(el, k, w) \<notin> set (order c)" for el w
    using d(3) [of k el] assms(2) by auto
  then have kn: "k \<notin> fst ` set (map snd (order c))" by auto
  have f: "(fresh c, k', w) \<notin> set (order c)" for k' w
    using d(4) [of "(fresh c, k', w)"] by auto
  then have fn: "fresh c \<notin> fst ` set (order c)" by auto
  have lt: "\<forall>x \<in> set (order c). fst x < Suc (fresh c)" using d(4) by (simp add: less_SucI)
  have it: "((items c)(k \<mapsto> fresh c)) k' = Some el \<longleftrightarrow>
      (\<exists>w. (el, k', w) \<in> set ((fresh c, k, v) # order c))" for k' el
  proof (cases "k' = k")
    case True
    then show ?thesis using k by auto
  next
    case False
    then show ?thesis using d(3) [of k' el] by auto
  qed
  have "int (length ((fresh c, k, v) # order c)) \<le> max 1 (capacity c)" using assms(3) by simp
  moreover have "distinct (map fst ((fresh c, k, v) # order c))" using d(1) fn by simp
  moreover have "distinct (map fst (map snd ((fresh c, k, v) # order c)))"
    using d(2) kn by (auto simp: entries_def)
  ultimately show ?thesis using lt it unfolding lru_inv_def entries_def by simp
qed

lemma last_addr_key:
  assumes "lru_inv c" "order c \<noteq> []"
  shows "list_remove (fst (last (order c))) (order c) =
           filter (\<lambda>x. fst (snd x) \<noteq> fst (snd (last (order c)))) (order c)"
    and "list_remove (fst (last (order c))) (order c) = butlast (order c)"
proof -
  note d = lru_invD [OF assms(1)]
  obtain el k v where l: "last (order c) = (el, k, v)" by (cases "last (order c)")
  then have m: "(el, k, v) \<in> set (order c)" using assms(2) by (metis last_in_set)
  show "list_remove (fst (last (order c))) (order c) =
           filter (\<lambda>x. fst (snd x) \<noteq> fst (snd (last (order c)))) (order c)"
    using filter_addr_key [OF d(1) _ m] d(2) by (simp add: l list_remove_def entries_def)
  obtain xs where xs: "order c = xs @ [(el, k, v)]" using assms(2) l by (metis append_butlast_last_id)
  then have "\<forall>x \<in> set xs. fst x \<noteq> el" using d(1) by auto
  then show "list_remove (fst (last (order c))) (order c) = butlast (order c)"
    by (simp add: xs list_remove_def filter_id_conv)
qed

section \<open>The operations on entries\<close>

text \<open>
  The abstract cache: a list of entries, most recently used first. A hit moves the entry to
  the front; a put puts the new entry in front and keeps as many of the others as fit.
\<close>

definition spec_get :: "'k \<Rightarrow> ('k \<times> 'v) list \<Rightarrow> ('k \<times> 'v) list" where
  "spec_get k l =
     (case map_of l k of None \<Rightarrow> l | Some v \<Rightarrow> (k, v) # filter (\<lambda>e. fst e \<noteq> k) l)"

definition spec_put :: "int \<Rightarrow> 'k \<Rightarrow> 'v \<Rightarrow> ('k \<times> 'v) list \<Rightarrow> ('k \<times> 'v) list" where
  "spec_put cap k v l = (k, v) # take (nat (cap - 1)) (filter (\<lambda>e. fst e \<noteq> k) l)"

definition spec_remove :: "'k \<Rightarrow> ('k \<times> 'v) list \<Rightarrow> ('k \<times> 'v) list" where
  "spec_remove k l = filter (\<lambda>e. fst e \<noteq> k) l"

lemma map_snd_filter [simp]:
  "map snd (filter (\<lambda>x. fst (snd x) \<noteq> k) l) = filter (\<lambda>e. fst e \<noteq> k) (map snd l)"
  by (induction l) auto

lemma filter_absent_key: "k \<notin> fst ` set l \<Longrightarrow> filter (\<lambda>e. fst e \<noteq> k) l = l"
  by (force simp: filter_id_conv)

lemma entries_order_update [simp]: "entries (c\<lparr>order := l\<rparr>) = map snd l"
  by (simp add: entries_def)

lemma entries_items_update [simp]:
  "entries (c\<lparr>items := m\<rparr>) = entries c" "entries (c\<lparr>fresh := n\<rparr>) = entries c"
  by (simp_all add: entries_def)

lemma cache_get_cases:
  assumes "lru_inv c"
  obtains (miss) "cache_get k c = (None, c)" "cached c k = None"
  | (hit) el v where "(el, k, v) \<in> set (order c)" "cached c k = Some v"
      "cache_get k c = (Some v, c\<lparr>order := (el, k, v) # filter (\<lambda>x. fst (snd x) \<noteq> k) (order c)\<rparr>)"
proof (cases rule: items_cases [OF assms, of k])
  case 1
  then show ?thesis by (intro miss) (simp_all add: cache_get_def)
next
  case (2 el v)
  then show ?thesis by (intro hit [of el v]) (simp_all add: cache_get_def list_set_front_def)
qed

lemma cache_get_refines:
  assumes "lru_inv c"
  shows "fst (cache_get k c) = cached c k"
    and "entries (snd (cache_get k c)) = spec_get k (entries c)"
    and "lru_inv (snd (cache_get k c))"
    and "capacity (snd (cache_get k c)) = capacity c"
proof -
  have "fst (cache_get k c) = cached c k \<and>
    entries (snd (cache_get k c)) = spec_get k (entries c) \<and>
    lru_inv (snd (cache_get k c)) \<and> capacity (snd (cache_get k c)) = capacity c"
  proof (cases rule: cache_get_cases [OF assms, of k])
    case 1
    then show ?thesis using assms by (simp add: spec_get_def cached_def)
  next
    case (2 el v)
    then show ?thesis
      using lru_inv_move_front [OF assms 2(1), of v]
      by (simp add: spec_get_def cached_def) (simp add: entries_def)
  qed
  then show "fst (cache_get k c) = cached c k"
    and "entries (snd (cache_get k c)) = spec_get k (entries c)"
    and "lru_inv (snd (cache_get k c))"
    and "capacity (snd (cache_get k c)) = capacity c" by simp_all
qed

lemma cache_remove_refines:
  assumes "lru_inv c"
  shows "entries (cache_remove k c) = spec_remove k (entries c)"
    and "lru_inv (cache_remove k c)"
    and "capacity (cache_remove k c) = capacity c"
proof -
  have "entries (cache_remove k c) = spec_remove k (entries c) \<and> lru_inv (cache_remove k c) \<and>
    capacity (cache_remove k c) = capacity c"
  proof (cases rule: items_cases [OF assms, of k])
    case 1
    then show ?thesis using assms by (simp add: cache_remove_def spec_remove_def filter_absent_key)
  next
    case (2 el v)
    then show ?thesis
      using lru_inv_drop [OF assms, of k]
      by (simp add: cache_remove_def spec_remove_def) (simp add: entries_def)
  qed
  then show "entries (cache_remove k c) = spec_remove k (entries c)"
    and "lru_inv (cache_remove k c)"
    and "capacity (cache_remove k c) = capacity c" by simp_all
qed

lemma cache_put_hit:
  assumes "lru_inv c" "items c k = Some el"
  shows "lru_inv (cache_put k v c) \<and> capacity (cache_put k v c) = capacity c \<and>
    entries (cache_put k v c) = (k, v) # filter (\<lambda>e. fst e \<noteq> k) (entries c)"
proof (cases rule: items_cases [OF assms(1), of k])
  case 1
  then show ?thesis using assms(2) by simp
next
  case (2 el' w)
  then have "cache_put k v c =
      c\<lparr>order := (el', k, v) # filter (\<lambda>x. fst (snd x) \<noteq> k) (order c)\<rparr>"
    by (simp add: cache_put_def list_set_front_def)
  then show ?thesis
    using lru_inv_move_front [OF assms(1) 2(3), of v] by (simp add: entries_def)
qed

lemma cache_put_miss:
  assumes "lru_inv c" "items c k = None"
  shows "lru_inv (cache_put k v c) \<and> capacity (cache_put k v c) = capacity c \<and>
    entries (cache_put k v c) =
      (k, v) # (if int (length (entries c)) \<ge> capacity c then butlast (entries c) else entries c)"
proof (cases "int (length (order c)) \<ge> capacity c \<and> order c \<noteq> []")
  case True
  define c1 where "c1 = c\<lparr>order := filter (\<lambda>x. fst (snd x) \<noteq> fst (snd (last (order c)))) (order c),
    items := (items c)(fst (snd (last (order c))) := None)\<rparr>"
  note r = last_addr_key [OF assms(1)]
  have o: "order c1 = butlast (order c)"
    using True r unfolding c1_def by simp
  have i: "lru_inv c1" unfolding c1_def by (rule lru_inv_drop [OF assms(1)])
  have "cache_put k v c = c1\<lparr>order := (fresh c1, k, v) # order c1,
      items := (items c1)(k \<mapsto> fresh c1), fresh := Suc (fresh c1)\<rparr>"
    using True assms(2) r by (simp add: cache_put_def c1_def Let_def)
  moreover have "int (length (order c1)) < max 1 (capacity c1)"
  proof -
    have "length (order c1) < length (order c)" using True o by (cases "order c") auto
    with lru_invD(5) [OF assms(1)] show ?thesis by (simp add: c1_def)
  qed
  moreover have "items c1 k = None" using assms(2) by (simp add: c1_def)
  ultimately show ?thesis
    using lru_inv_push [OF i] True o
    by (simp add: entries_def map_butlast) (simp add: c1_def)
next
  case False
  then have "cache_put k v c = c\<lparr>order := (fresh c, k, v) # order c,
      items := (items c)(k \<mapsto> fresh c), fresh := Suc (fresh c)\<rparr>"
    using assms(2) by (auto simp: cache_put_def Let_def)
  moreover have "int (length (order c)) < max 1 (capacity c)" using False by auto
  ultimately show ?thesis
    using lru_inv_push [OF assms] False by (auto simp: entries_def)
qed

lemma length_filter_key:
  assumes "distinct (map fst l)" "k \<in> fst ` set l"
  shows "Suc (length (filter (\<lambda>e. fst e \<noteq> k) l)) = length l"
  using assms
proof (induction l)
  case Nil
  then show ?case by simp
next
  case (Cons x l)
  show ?case
  proof (cases "fst x = k")
    case True
    with Cons.prems(1) have "k \<notin> fst ` set l" by simp
    with True show ?thesis by (simp add: filter_absent_key)
  next
    case False
    with Cons show ?thesis by auto
  qed
qed

lemma cache_put_refines:
  assumes "lru_inv c"
  shows "entries (cache_put k v c) = spec_put (capacity c) k v (entries c)"
    and "lru_inv (cache_put k v c)"
    and "capacity (cache_put k v c) = capacity c"
proof -
  have len: "int (length (entries c)) \<le> max 1 (capacity c)"
    using lru_invD(5) [OF assms] by (simp add: entries_def)
  have "entries (cache_put k v c) = spec_put (capacity c) k v (entries c)"
  proof (cases "items c k")
    case None
    then have a: "filter (\<lambda>e. fst e \<noteq> k) (entries c) = entries c"
      by (cases rule: items_cases [OF assms, of k]) (simp_all add: filter_absent_key)
    show ?thesis
    proof (cases "int (length (entries c)) \<ge> capacity c")
      case True
      with len have "length (entries c) - 1 = nat (capacity c - 1) \<or> entries c = []"
        by (cases "entries c") auto
      with True show ?thesis
        using cache_put_miss [OF assms None, of v] by (auto simp: spec_put_def a butlast_conv_take)
    next
      case False
      then show ?thesis
        using cache_put_miss [OF assms None, of v] by (simp add: spec_put_def a)
    qed
  next
    case (Some el)
    then obtain w where "(k, w) \<in> set (entries c)"
      by (cases rule: items_cases [OF assms, of k]) (auto simp: cached_def dest: map_of_SomeD)
    then have "k \<in> fst ` set (entries c)" by force
    then have "Suc (length (filter (\<lambda>e. fst e \<noteq> k) (entries c))) = length (entries c)"
      by (rule length_filter_key [OF lru_invD(2) [OF assms]])
    with len have "length (filter (\<lambda>e. fst e \<noteq> k) (entries c)) \<le> nat (capacity c - 1)" by linarith
    then show ?thesis using cache_put_hit [OF assms Some, of v] by (simp add: spec_put_def)
  qed
  then show "entries (cache_put k v c) = spec_put (capacity c) k v (entries c)" .
  show "lru_inv (cache_put k v c)" "capacity (cache_put k v c) = capacity c"
    using cache_put_hit [OF assms, of k] cache_put_miss [OF assms, of k] by (cases "items c k"; simp)+
qed

section \<open>The contract of a cache\<close>

text \<open>
  A cache may forget entries but never invents one: a lookup that hits returns what was put
  last for that key. \<open>remembers\<close> is what the cache currently holds, as a map.
\<close>

locale name_cache =
  fixes get :: "'k \<Rightarrow> 'c \<Rightarrow> 'v option \<times> 'c"
    and put :: "'k \<Rightarrow> 'v \<Rightarrow> 'c \<Rightarrow> 'c"
    and remove :: "'k \<Rightarrow> 'c \<Rightarrow> 'c"
    and remembers :: "'c \<Rightarrow> 'k \<rightharpoonup> 'v"
    and invar :: "'c \<Rightarrow> bool"
  assumes get_result: "invar c \<Longrightarrow> fst (get k c) = remembers c k"
    and get_keeps: "invar c \<Longrightarrow> remembers (snd (get k c)) = remembers c \<and> invar (snd (get k c))"
    and put_hits: "invar c \<Longrightarrow> remembers (put k v c) k = Some v"
    and put_keeps: "invar c \<Longrightarrow> invar (put k v c)"
    and put_forgets: "invar c \<Longrightarrow> remembers (put k v c) \<subseteq>\<^sub>m (remembers c)(k \<mapsto> v)"
    and remove_forgets: "invar c \<Longrightarrow> remembers (remove k c) = (remembers c)(k := None)"
    and remove_keeps: "invar c \<Longrightarrow> invar (remove k c)"
begin

text \<open>
  The client's view: a cache in front of a map \<open>m\<close> stays a part of \<open>m\<close> when hits are served
  from it, misses are filled from \<open>m\<close>, new associations are put in both, and removed ones are
  removed from both.
\<close>

lemma get_coherent:
  assumes "invar c" "remembers c \<subseteq>\<^sub>m m" "get k c = (r, c')"
  shows "(r = None \<or> r = m k) \<and> remembers c' \<subseteq>\<^sub>m m \<and> invar c'"
  using get_result [OF assms(1), of k] get_keeps [OF assms(1), of k] assms(2,3)
  by (cases r) (auto simp: map_le_def dom_def)

lemma fill_coherent:
  assumes "invar c" "remembers c \<subseteq>\<^sub>m m" "m k = Some v"
  shows "remembers (put k v c) \<subseteq>\<^sub>m m \<and> invar (put k v c)"
proof -
  have "(remembers c)(k \<mapsto> v) \<subseteq>\<^sub>m m(k \<mapsto> v)" using assms(2) by (rule map_le_upd)
  moreover have "m(k \<mapsto> v) = m" using assms(3) by (simp add: fun_upd_idem)
  ultimately show ?thesis
    using put_forgets [OF assms(1), of k v] put_keeps [OF assms(1)] map_le_trans by metis
qed

lemma put_coherent:
  assumes "invar c" "remembers c \<subseteq>\<^sub>m m"
  shows "remembers (put k v c) \<subseteq>\<^sub>m m(k \<mapsto> v) \<and> invar (put k v c)"
  using put_forgets [OF assms(1), of k v] put_keeps [OF assms(1)] map_le_upd [OF assms(2)]
    map_le_trans by metis

lemma remove_coherent:
  assumes "invar c" "remembers c \<subseteq>\<^sub>m m"
  shows "remembers (remove k c) \<subseteq>\<^sub>m m(k := None) \<and> invar (remove k c)"
  using remove_forgets [OF assms(1)] remove_keeps [OF assms(1)] assms(2)
  by (auto simp: map_le_def)

end

section \<open>The LRU cache keeps the contract\<close>

lemma map_of_filter_key:
  "map_of (filter (\<lambda>e. fst e \<noteq> k) l) = (map_of l)(k := None)"
  by (induction l) auto

lemma cached_get: "lru_inv c \<Longrightarrow> cached (snd (cache_get k c)) = cached c"
  by (auto simp: cached_def cache_get_refines spec_get_def map_of_filter_key split: option.splits)

lemma map_of_take_le:
  assumes "distinct (map fst l)"
  shows "map_of (take n l) \<subseteq>\<^sub>m map_of l"
proof -
  show ?thesis
  proof (unfold map_le_def, intro ballI)
    fix k assume "k \<in> dom (map_of (take n l))"
    then obtain v where v: "map_of (take n l) k = Some v" by blast
    then have "(k, v) \<in> set l" by (meson map_of_SomeD in_set_takeD)
    with assms v show "map_of (take n l) k = map_of l k" by simp
  qed
qed

lemma cached_put:
  assumes "lru_inv c"
  shows "cached (cache_put k v c) k = Some v"
    and "cached (cache_put k v c) \<subseteq>\<^sub>m (cached c)(k \<mapsto> v)"
proof -
  let ?f = "filter (\<lambda>e. fst e \<noteq> k) (entries c)"
  have e: "cached (cache_put k v c) = (map_of (take (nat (capacity c - 1)) ?f))(k \<mapsto> v)"
    by (simp add: cached_def cache_put_refines [OF assms] spec_put_def)
  then show "cached (cache_put k v c) k = Some v" by simp
  have "distinct (map fst ?f)" using lru_invD(2) [OF assms] by (rule distinct_map_filter)
  then have "map_of (take (nat (capacity c - 1)) ?f) \<subseteq>\<^sub>m (cached c)(k := None)"
    using map_of_take_le map_of_filter_key unfolding cached_def by metis
  from map_le_upd [OF this, of k "Some v"] show "cached (cache_put k v c) \<subseteq>\<^sub>m (cached c)(k \<mapsto> v)"
    unfolding e by simp
qed

interpretation lru: name_cache cache_get cache_put cache_remove cached lru_inv
proof
  fix c :: "('a, 'b) lruCache" and k v
  assume i: "lru_inv c"
  show "fst (cache_get k c) = cached c k" using i by (rule cache_get_refines)
  show "cached (snd (cache_get k c)) = cached c \<and> lru_inv (snd (cache_get k c))"
    using i by (simp add: cached_get cache_get_refines)
  show "cached (cache_put k v c) k = Some v" and "cached (cache_put k v c) \<subseteq>\<^sub>m (cached c)(k \<mapsto> v)"
    using i by (rule cached_put)+
  show "lru_inv (cache_put k v c)" using i by (rule cache_put_refines)
  show "cached (cache_remove k c) = (cached c)(k := None)"
    using i by (simp add: cached_def cache_remove_refines spec_remove_def map_of_filter_key)
  show "lru_inv (cache_remove k c)" using i by (rule cache_remove_refines)
qed

section \<open>Runs\<close>

datatype ('k, 'v) cache_op = CGet 'k | CPut 'k 'v | CRemove 'k

fun cache_step :: "('k, 'v) cache_op \<Rightarrow> ('k, 'v) lruCache \<Rightarrow> ('k, 'v) lruCache" where
  "cache_step (CGet k) c = snd (cache_get k c)"
| "cache_step (CPut k v) c = cache_put k v c"
| "cache_step (CRemove k) c = cache_remove k c"

fun spec_step :: "int \<Rightarrow> ('k, 'v) cache_op \<Rightarrow> ('k \<times> 'v) list \<Rightarrow> ('k \<times> 'v) list" where
  "spec_step cap (CGet k) l = spec_get k l"
| "spec_step cap (CPut k v) l = spec_put cap k v l"
| "spec_step cap (CRemove k) l = spec_remove k l"

lemma cache_step_refines:
  assumes "lru_inv c"
  shows "lru_inv (cache_step a c) \<and> capacity (cache_step a c) = capacity c \<and>
    entries (cache_step a c) = spec_step (capacity c) a (entries c)"
  using assms
  by (cases a) (simp_all add: cache_get_refines cache_put_refines cache_remove_refines)

lemma cache_run_refines:
  assumes "lru_inv c"
  shows "lru_inv (fold cache_step ops c) \<and> capacity (fold cache_step ops c) = capacity c \<and>
    entries (fold cache_step ops c) = fold (spec_step (capacity c)) ops (entries c)"
  using assms
proof (induction ops arbitrary: c)
  case Nil
  then show ?case by simp
next
  case (Cons a ops)
  have "lru_inv (cache_step a c) \<and> capacity (cache_step a c) = capacity c \<and>
    entries (cache_step a c) = spec_step (capacity c) a (entries c)"
    by (rule cache_step_refines [OF Cons.prems])
  with Cons.IH [of "cache_step a c"] show ?case by simp
qed

lemma take_filter_take:
  "distinct l \<Longrightarrow> take n (filter (\<lambda>x. x \<noteq> k) (take (Suc n) l)) = take n (filter (\<lambda>x. x \<noteq> k) l)"
proof (induction l arbitrary: n)
  case Nil
  then show ?case by simp
next
  case (Cons x l)
  show ?case
  proof (cases "x = k")
    case True
    with Cons.prems have "filter (\<lambda>x. x \<noteq> k) l = l" "filter (\<lambda>x. x \<noteq> k) (take n l) = take n l"
      by (auto simp: filter_id_conv dest: in_set_takeD)
    with True show ?thesis by simp
  next
    case False
    with Cons show ?thesis by (cases n) auto
  qed
qed

lemma remdups_snoc: "remdups (xs @ [k]) = filter (\<lambda>x. x \<noteq> k) (remdups xs) @ [k]"
  by (induction xs) auto

lemma rev_remdups_snoc:
  "rev (remdups (xs @ [k])) = k # filter (\<lambda>x. x \<noteq> k) (rev (remdups xs))"
  by (simp add: remdups_snoc rev_filter)

lemma puts_keep_recent:
  assumes "0 < cap"
  shows "map fst (fold (spec_step cap) (map (\<lambda>(k, v). CPut k v) ps) []) =
           take (nat cap) (rev (remdups (map fst ps)))"
proof (induction ps rule: rev_induct)
  case Nil
  then show ?case by simp
next
  case (snoc p ps)
  obtain k v where p: "p = (k, v)" by (cases p)
  let ?l = "fold (spec_step cap) (map (\<lambda>(k, v). CPut k v) ps) []"
  obtain n where n: "nat cap = Suc n" using assms by (cases "nat cap") auto
  then have n': "nat (cap - 1) = n" by linarith
  have "map fst (spec_put cap k v ?l) = k # take n (filter (\<lambda>x. x \<noteq> k) (map fst ?l))"
    by (simp add: spec_put_def n' take_map filter_map comp_def)
  also have "\<dots> = k # take n (filter (\<lambda>x. x \<noteq> k) (rev (remdups (map fst ps))))"
    by (simp add: snoc.IH n take_filter_take)
  also have "\<dots> = take (nat cap) (rev (remdups (map fst ps @ [k])))"
    by (simp only: rev_remdups_snoc n take_Suc_Cons)
  finally show ?case by (simp add: p)
qed

section \<open>Properties\<close>

text \<open>
  C11: The pointer-and-map LRU cache implements the abstract LRU list: after any sequence of
  \<open>get\<close>, \<open>put\<close> and \<open>remove\<close> calls on a new cache its entries, in order of use, are those of
  the abstract list, its map and its list agree, it holds at most \<open>capacity\<close> entries (one
  when the capacity is not positive), and a further \<open>get\<close> returns the abstract lookup.
\<close>

theorem lru_implements_spec:
  "let c = fold cache_step ops (newLRUCache cap); l = fold (spec_step cap) ops []
   in entries c = l \<and> lru_inv c \<and> int (length (order c)) \<le> max 1 cap \<and>
      fst (cache_get k c) = map_of l k"
proof -
  let ?c = "fold cache_step ops (newLRUCache cap)"
  have "lru_inv ?c \<and> capacity ?c = cap \<and> entries ?c = fold (spec_step cap) ops []"
    using cache_run_refines [OF lru_inv_new [of cap], of ops]
    by (simp add: newLRUCache_def entries_def)
  then show ?thesis
    using lru_invD(5) [of ?c] cache_get_refines(1) [of ?c k] by (simp add: cached_def Let_def)
qed

text \<open>
  C25: What the cache evicts is the least recently used name: after putting a sequence of
  associations into a new cache of capacity \<open>cap\<close>, the cached keys are exactly the \<open>cap\<close>
  distinct keys that were put last, the latest first.
\<close>

theorem lru_keeps_most_recent:
  assumes "0 < cap"
  shows "map fst (entries (fold cache_step (map (\<lambda>(k, v). CPut k v) ps) (newLRUCache cap))) =
           take (nat cap) (rev (remdups (map fst ps)))"
  using cache_run_refines [OF lru_inv_new [of cap], of "map (\<lambda>(k, v). CPut k v) ps"]
    puts_keep_recent [OF assms, of ps]
  by (simp add: newLRUCache_def entries_def)

theorem lru_keeps_most_recent_witness:
  "map fst (entries (fold cache_step (map (\<lambda>(k, v). CPut k v)
      [(''a'', 1), (''b'', 2), (''a'', 3), (''c'', 4 :: nat)]) (newLRUCache 2))) = [''c'', ''a'']"
  using lru_keeps_most_recent [of 2 "[(''a'', 1), (''b'', 2), (''a'', 3), (''c'', 4 :: nat)]"]
  by simp

end
