(* ===== verification/Vault_Storage.thy ===== *)
theory Vault_Storage
  imports Citius_Prelude
begin

text \<open>
  The storage the repositories of \<open>vault-storage\<close> write to. \<open>logical.Storage\<close> and
  \<open>logical.NewStorageView\<close> belong to the Vault SDK, protobuf encoding to the protobuf library:
  they are parameters, an environment of functions over an arbitrary storage state \<open>'s\<close>. A view
  is identified by its prefix; its calls take the key inside the view.

  \<open>storage_laws\<close> states what the SDK documents: a view reads and writes the entries whose
  physical key is its prefix followed by the key, a call that reports an error has not changed
  the storage, and \<open>List\<close> returns the names directly below a prefix, directories with a
  trailing slash. Any call may report an error.
\<close>

type_synonym blob = string

record 's storage =
  vGet :: "string \<Rightarrow> string \<Rightarrow> 's \<Rightarrow> blob option result \<times> 's"
  vPut :: "string \<Rightarrow> string \<Rightarrow> blob \<Rightarrow> 's \<Rightarrow> unit result \<times> 's"
  vDelete :: "string \<Rightarrow> string \<Rightarrow> 's \<Rightarrow> unit result \<times> 's"
  vList :: "string \<Rightarrow> string \<Rightarrow> 's \<Rightarrow> string list result \<times> 's"

text \<open>The name \<open>List\<close> reports for an entry \<open>t\<close> below the listed prefix.\<close>

definition child :: "string \<Rightarrow> string" where
  "child t = (if CHR ''/'' \<in> set t then takeWhile (\<lambda>c. c \<noteq> CHR ''/'') t @ ''/'' else t)"

definition storage_laws :: "('s, 'z) storage_scheme \<Rightarrow> ('s \<Rightarrow> string \<rightharpoonup> blob) \<Rightarrow> bool" where
  "storage_laws S C \<longleftrightarrow>
     (\<forall>p k s. C (snd (vGet S p k s)) = C s \<and>
        (\<forall>v. fst (vGet S p k s) = Inr v \<longrightarrow> v = C s (p @ k))) \<and>
     (\<forall>p k b s. C (snd (vPut S p k b s)) =
        (if isl (fst (vPut S p k b s)) then C s else (C s)(p @ k \<mapsto> b))) \<and>
     (\<forall>p k s. C (snd (vDelete S p k s)) =
        (if isl (fst (vDelete S p k s)) then C s else (C s)(p @ k := None))) \<and>
     (\<forall>p q s. C (snd (vList S p q s)) = C s \<and>
        (\<forall>xs. fst (vList S p q s) = Inr xs \<longrightarrow>
           set xs = child ` {t. C s (p @ q @ t) \<noteq> None} \<and> distinct xs))"

text \<open>Storage whose calls never fail, as the in-memory storage of the server binary.\<close>

definition storage_reliable :: "('s, 'z) storage_scheme \<Rightarrow> bool" where
  "storage_reliable S \<longleftrightarrow>
     (\<forall>p k s. \<not> isl (fst (vGet S p k s))) \<and> (\<forall>p k b s. \<not> isl (fst (vPut S p k b s))) \<and>
     (\<forall>p k s. \<not> isl (fst (vDelete S p k s))) \<and> (\<forall>p q s. \<not> isl (fst (vList S p q s)))"

lemma vGet_law:
  assumes "storage_laws S C" "vGet S p k s = (r, s')"
  shows "C s' = C s" and "r = Inr v \<Longrightarrow> v = C s (p @ k)"
  using assms unfolding storage_laws_def by (metis fst_conv snd_conv)+

lemma vPut_law:
  assumes "storage_laws S C" "vPut S p k b s = (r, s')"
  shows "r = Inr u \<Longrightarrow> C s' = (C s)(p @ k \<mapsto> b)" and "r = Inl e \<Longrightarrow> C s' = C s"
  using assms unfolding storage_laws_def by (metis fst_conv snd_conv sum.disc)+

lemma vDelete_law:
  assumes "storage_laws S C" "vDelete S p k s = (r, s')"
  shows "r = Inr u \<Longrightarrow> C s' = (C s)(p @ k := None)" and "r = Inl e \<Longrightarrow> C s' = C s"
  using assms unfolding storage_laws_def by (metis fst_conv snd_conv sum.disc)+

lemma vList_law:
  assumes "storage_laws S C" "vList S p q s = (r, s')"
  shows "C s' = C s"
    and "r = Inr xs \<Longrightarrow> set xs = child ` {t. C s (p @ q @ t) \<noteq> None} \<and> distinct xs"
  using assms unfolding storage_laws_def by (metis fst_conv snd_conv)+

lemma storage_reliableD:
  assumes "storage_reliable S"
  shows "\<exists>v s'. vGet S p k s = (Inr v, s')" "\<exists>s'. vPut S p k b s = (Inr (), s')"
    "\<exists>s'. vDelete S p k s = (Inr (), s')" "\<exists>xs s'. vList S p q s = (Inr xs, s')"
proof -
  have ru: "\<exists>s'. x = (Inr (), s')" if "\<not> isl (fst x)" for x :: "unit result \<times> 'a"
    using that by (cases x; cases "fst x") auto
  have rl: "\<exists>v s'. x = (Inr v, s')" if "\<not> isl (fst x)" for x :: "string list result \<times> 'a"
    using that by (cases x; cases "fst x") auto
  have rb: "\<exists>v s'. x = (Inr v, s')" if "\<not> isl (fst x)" for x :: "blob option result \<times> 'a"
    using that by (cases x; cases "fst x") auto
  show "\<exists>v s'. vGet S p k s = (Inr v, s')" "\<exists>s'. vPut S p k b s = (Inr (), s')"
    "\<exists>s'. vDelete S p k s = (Inr (), s')" "\<exists>xs s'. vList S p q s = (Inr xs, s')"
    using assms by (auto simp: storage_reliable_def intro: ru rl rb)
qed

section \<open>An in-memory instance\<close>

text \<open>
  An association list from physical keys to entries, in the manner of the SDK's in-memory
  storage, for the examples.
\<close>

definition below :: "string \<Rightarrow> (string \<times> blob) list \<Rightarrow> string list" where
  "below pq s = concat (map (\<lambda>e. case strip_prefix pq (fst e) of None \<Rightarrow> [] | Some t \<Rightarrow> [t]) s)"

lemma set_below: "set (below pq s) = {t. map_of s (pq @ t) \<noteq> None}"
proof -
  have "t \<in> set (below pq s) \<longleftrightarrow> pq @ t \<in> fst ` set s" for t
    by (induction s) (auto simp: below_def split: option.splits)
  then show ?thesis by (auto simp: map_of_eq_None_iff)
qed

definition mem_storage :: "(string \<times> blob) list storage" where
  "mem_storage =
     \<lparr>vGet = (\<lambda>p k s. (Inr (map_of s (p @ k)), s)),
      vPut = (\<lambda>p k b s. (Inr (), (p @ k, b) # filter (\<lambda>e. fst e \<noteq> p @ k) s)),
      vDelete = (\<lambda>p k s. (Inr (), filter (\<lambda>e. fst e \<noteq> p @ k) s)),
      vList = (\<lambda>p q s. (Inr (remdups (map child (below (p @ q) s))), s))\<rparr>"

lemma map_of_filter_key': "map_of (filter (\<lambda>e. fst e \<noteq> k) s) = (map_of s)(k := None)"
  by (induction s) auto

lemma mem_storage_laws [simp]: "storage_laws mem_storage map_of"
  unfolding storage_laws_def mem_storage_def by (simp add: map_of_filter_key' set_below)

lemma mem_storage_reliable [simp]: "storage_reliable mem_storage"
  by (simp add: storage_reliable_def mem_storage_def)

end
