(* ===== verification/Key_Repository.thy ===== *)
theory Key_Repository
  imports Lru_Cache Vault_Storage
begin

text \<open>
  The key repository of \<open>vault-storage/key/vault_repository.go\<close>: keys, their versions and the
  index from names to key ids, in three views of one storage, with a cache in front of the
  index. Every operation is a function of the environment (storage calls, protobuf encoding,
  write vetting, clock) and of the repository state; it returns the error or the result and the
  new state. The calls on the repository's lock are the subject of \<open>Repo_Locking\<close>.
\<close>

section \<open>Data\<close>

type_synonym timestamp = int

text \<open>\<open>store.Key\<close> and \<open>store.KeyVersion\<close>, field by field.\<close>

record key =
  kPublicId :: string
  kName :: string
  kCreateTime :: timestamp
  kUpdateTime :: timestamp
  kDestroyTime :: "timestamp option"
  kPrimitive :: string
  kPolicyId :: string
  kCurrentVersion :: "32 word"
  kLabels :: "(string \<times> string) list"
  kState :: int

record version =
  vPublicId :: string
  vVersion :: "32 word"
  vKeyId :: string
  vCreateTime :: timestamp
  vUpdateTime :: timestamp
  vCtKeyMaterial :: blob
  vKeyMaterial :: blob
  vTemplateId :: string
  vDigest :: blob
  vDigestAlgorithm :: string
  vWrappingKeyId :: string
  vProviderId :: string
  vState :: int
  vScope :: blob

datatype write_op = OpCreate | OpUpdate

text \<open>
  The environment: the storage, the errors package, the protobuf codec, \<open>VetForWrite\<close> of
  keys and versions, and the clock, which may depend on the storage state.
\<close>

record 's vault_env = "'s storage" +
  errs :: errors_pkg
  marshalKey :: "key \<Rightarrow> blob result"
  unmarshalKey :: "blob \<Rightarrow> key result"
  marshalVersion :: "version \<Rightarrow> blob result"
  unmarshalVersion :: "blob \<Rightarrow> version result"
  vetKey :: "write_op \<Rightarrow> key \<Rightarrow> error option"
  vetVersion :: "write_op \<Rightarrow> version \<Rightarrow> error option"
  clock :: "'s \<Rightarrow> timestamp"

text \<open>
  \<open>VaultRepository\<close>: the optional name resolver, the name cache and the storage state. The
  views are named by their prefixes.
\<close>

record 's repo =
  keyNameToIDFunc :: "(string \<Rightarrow> string result) option"
  keyNameToIDCache :: "(string, string) lruCache"
  store :: 's

definition keyStoragePrefix :: string where "keyStoragePrefix = ''key/''"
definition keyVersionStoragePrefix :: string where "keyVersionStoragePrefix = ''key_version/''"
definition keyNameToIDStoragePrefix :: string where "keyNameToIDStoragePrefix = ''key_name_to_id/''"
definition versionSep :: string where "versionSep = '':''"

text \<open>\<open>getVaultRepositoryOpts\<close> and \<open>NewVaultRepository\<close>: the default cache holds 1000 names.\<close>

record repo_options =
  optNameFunc :: "(string \<Rightarrow> string result) option"
  optCacheSize :: int
  optCacheFactory :: "int \<Rightarrow> (string, string) lruCache"

definition getVaultRepositoryOpts :: "(repo_options \<Rightarrow> repo_options) option list \<Rightarrow> repo_options" where
  "getVaultRepositoryOpts opts =
     fold (\<lambda>o1 acc. case o1 of None \<Rightarrow> acc | Some f \<Rightarrow> f acc) opts
       \<lparr>optNameFunc = None, optCacheSize = 1000, optCacheFactory = newLRUCache\<rparr>"

definition WithKeyNameToIDFunc :: "(string \<Rightarrow> string result) option \<Rightarrow> repo_options \<Rightarrow> repo_options" where
  "WithKeyNameToIDFunc f opts = opts\<lparr>optNameFunc := f\<rparr>"

definition WithKeyNameToIDCacheSize :: "int \<Rightarrow> repo_options \<Rightarrow> repo_options" where
  "WithKeyNameToIDCacheSize n opts = opts\<lparr>optCacheSize := n\<rparr>"

definition WithCacheFactoryFunc :: "(int \<Rightarrow> (string, string) lruCache) \<Rightarrow> repo_options \<Rightarrow> repo_options" where
  "WithCacheFactoryFunc f opts = opts\<lparr>optCacheFactory := f\<rparr>"

definition NewVaultRepository ::
  "'s option \<Rightarrow> (repo_options \<Rightarrow> repo_options) option list \<Rightarrow> 's repo result" where
  "NewVaultRepository storage opt =
     (case storage of
        None \<Rightarrow> Inl (ErrNew ''key.NewVaultRepository'' CodeInvalidArgument ''nil storage'')
      | Some s \<Rightarrow>
          let opts = getVaultRepositoryOpts opt
          in if optNameFunc opts \<noteq> None
             then Inr \<lparr>keyNameToIDFunc = optNameFunc opts,
                       keyNameToIDCache = newLRUCache 0, store = s\<rparr>
             else Inr \<lparr>keyNameToIDFunc = None,
                       keyNameToIDCache = optCacheFactory opts (optCacheSize opts), store = s\<rparr>)"

section \<open>The name index\<close>

definition storeKeyNameToID ::
  "'s vault_env \<Rightarrow> string \<Rightarrow> string \<Rightarrow> 's repo \<Rightarrow> unit result \<times> 's repo" where
  "storeKeyNameToID E name pid r =
     (if keyNameToIDFunc r \<noteq> None then (Inr (), r)
      else if name = [] then
        (Inl (ErrNew ''key.(VaultRepository).storeKeyNameToID'' CodeInvalidArgument ''name must not be empty''), r)
      else if pid = [] then
        (Inl (ErrNew ''key.(VaultRepository).storeKeyNameToID'' CodeInvalidArgument ''id must not be empty''), r)
      else case vGet E keyNameToIDStoragePrefix name (store r) of
        (Inl e, s) \<Rightarrow> (Inl (ErrWrap ''key.(VaultRepository).storeKeyNameToID'' None e), r\<lparr>store := s\<rparr>)
      | (Inr (Some v), s) \<Rightarrow>
          (Inl (ErrNew ''key.(VaultRepository).storeKeyNameToID'' CodeAlreadyExists
             (''key name already exists: '' @ name)), r\<lparr>store := s\<rparr>)
      | (Inr None, s) \<Rightarrow>
          (case vPut E keyNameToIDStoragePrefix name pid s of
             (Inl e, s') \<Rightarrow> (Inl (ErrWrap ''key.(VaultRepository).storeKeyNameToID'' None e), r\<lparr>store := s'\<rparr>)
           | (Inr _, s') \<Rightarrow>
               (Inr (), r\<lparr>store := s', keyNameToIDCache := cache_put name pid (keyNameToIDCache r)\<rparr>)))"

definition deleteKeyNameToID ::
  "'s vault_env \<Rightarrow> string \<Rightarrow> 's repo \<Rightarrow> unit result \<times> 's repo" where
  "deleteKeyNameToID E name r =
     (if keyNameToIDFunc r \<noteq> None then (Inr (), r)
      else if name = [] then
        (Inl (ErrNew ''key.(VaultRepository).deleteKeyNameToID'' CodeInvalidArgument ''name must not be empty''), r)
      else
        let r1 = r\<lparr>keyNameToIDCache := cache_remove name (keyNameToIDCache r)\<rparr>
        in case vDelete E keyNameToIDStoragePrefix name (store r1) of
             (Inl e, s) \<Rightarrow> (Inl (ErrWrap ''key.(VaultRepository).deleteKeyNameToID'' None e), r1\<lparr>store := s\<rparr>)
           | (Inr _, s) \<Rightarrow> (Inr (), r1\<lparr>store := s\<rparr>))"

definition resolveKeyNameToID ::
  "'s vault_env \<Rightarrow> string \<Rightarrow> 's repo \<Rightarrow> string result \<times> 's repo" where
  "resolveKeyNameToID E name r =
     (case keyNameToIDFunc r of
        Some f \<Rightarrow> (f name, r)
      | None \<Rightarrow>
          if name = [] then
            (Inl (ErrNew ''key.(VaultRepository).resolveKeyNameToID'' CodeInvalidArgument ''name must not be empty''), r)
          else case cache_get name (keyNameToIDCache r) of
            (Some pid, c) \<Rightarrow> (Inr pid, r\<lparr>keyNameToIDCache := c\<rparr>)
          | (None, c) \<Rightarrow>
              (case vGet E keyNameToIDStoragePrefix name (store r) of
                 (Inl e, s) \<Rightarrow>
                   (Inl (ErrWrap ''key.(VaultRepository).resolveKeyNameToID'' None e),
                    r\<lparr>keyNameToIDCache := c, store := s\<rparr>)
               | (Inr None, s) \<Rightarrow>
                   (Inl (ErrNew ''key.(VaultRepository).resolveKeyNameToID'' CodeKeyNotFound
                      (''key name not found: '' @ name)), r\<lparr>keyNameToIDCache := c, store := s\<rparr>)
               | (Inr (Some v), s) \<Rightarrow>
                   (Inr v, r\<lparr>keyNameToIDCache := cache_put name v c, store := s\<rparr>)))"

section \<open>Entries\<close>

text \<open>
  \<open>put\<close> and \<open>get\<close> of the package: encode and write, read and decode. The encoder's result and
  the decoder are arguments, since Go passes the message.
\<close>

definition put_entry ::
  "'s vault_env \<Rightarrow> string \<Rightarrow> string \<Rightarrow> blob result \<Rightarrow> 's repo \<Rightarrow> unit result \<times> 's repo" where
  "put_entry E view k encoded r =
     (case encoded of
        Inl e \<Rightarrow> (Inl (ErrWrap ''key.put'' None e), r)
      | Inr b \<Rightarrow>
          (case vPut E view k b (store r) of
             (Inl e, s) \<Rightarrow> (Inl (ErrWrap ''key.put'' None e), r\<lparr>store := s\<rparr>)
           | (Inr _, s) \<Rightarrow> (Inr (), r\<lparr>store := s\<rparr>)))"

definition get_entry ::
  "'s vault_env \<Rightarrow> string \<Rightarrow> string \<Rightarrow> (blob \<Rightarrow> 'm result) \<Rightarrow> 's repo \<Rightarrow> 'm result \<times> 's repo" where
  "get_entry E view k decode r =
     (case vGet E view k (store r) of
        (Inl e, s) \<Rightarrow> (Inl (ErrWrap ''key.get'' None e), r\<lparr>store := s\<rparr>)
      | (Inr None, s) \<Rightarrow>
          (Inl (ErrNew ''key.get'' CodeKeyNotFound (''key not found: '' @ k)), r\<lparr>store := s\<rparr>)
      | (Inr (Some b), s) \<Rightarrow>
          (case decode b of
             Inl e \<Rightarrow> (Inl (ErrWrap ''key.get'' None e), r\<lparr>store := s\<rparr>)
           | Inr m \<Rightarrow> (Inr m, r\<lparr>store := s\<rparr>)))"

definition versionKeyStr :: "string \<Rightarrow> string \<Rightarrow> string" where
  "versionKeyStr keyID ver = keyID @ versionSep @ ver"

definition versionKey :: "string \<Rightarrow> 32 word \<Rightarrow> string" where
  "versionKey keyID ver = versionKeyStr keyID (show_nat (unat ver))"

definition versionPrefix :: "string \<Rightarrow> string" where
  "versionPrefix keyID = keyID @ versionSep"

definition getKey :: "'s vault_env \<Rightarrow> string \<Rightarrow> 's repo \<Rightarrow> key result \<times> 's repo" where
  "getKey E pid r =
     (case get_entry E keyStoragePrefix pid (unmarshalKey E) r of
        (Inl e, r1) \<Rightarrow>
          if hasCode (errs E) CodeKeyNotFound e
          then (Inl (ErrNew ''key.(VaultRepository).getKey'' CodeKeyNotFound (''Key not found: '' @ pid)), r1)
          else (Inl (ErrWrap ''key.(VaultRepository).getKey'' None e), r1)
      | (Inr k, r1) \<Rightarrow> (Inr k, r1))"

definition getKeyVersion ::
  "'s vault_env \<Rightarrow> string \<Rightarrow> 32 word \<Rightarrow> 's repo \<Rightarrow> version result \<times> 's repo" where
  "getKeyVersion E keyID ver r =
     (case get_entry E keyVersionStoragePrefix (versionKey keyID ver) (unmarshalVersion E) r of
        (Inl e, r1) \<Rightarrow>
          if hasCode (errs E) CodeKeyNotFound e
          then (Inl (ErrNew ''key.(VaultRepository).getKeyVersion'' CodeKeyNotFound
                  (''Key version not found (keyId='' @ keyID @ '',version='' @ show_nat (unat ver) @ '')'')), r1)
          else (Inl (ErrWrap ''key.(VaultRepository).getKeyVersion'' None e), r1)
      | (Inr v, r1) \<Rightarrow> (Inr v, r1))"

section \<open>Writing keys\<close>

text \<open>
  Success returns the key as stored: Go sets the times in the caller's object. The best-effort
  cleanup ignores the error of its own call but keeps its effect on the state.
\<close>

definition putKey :: "'s vault_env \<Rightarrow> key \<Rightarrow> bool \<Rightarrow> 's repo \<Rightarrow> key result \<times> 's repo" where
  "putKey E val vetForWrite r =
     (case (if vetForWrite then vetKey E OpCreate val else None) of
        Some e \<Rightarrow> (Inl (ErrWrap ''key.(VaultRepository).putKey'' None e), r)
      | None \<Rightarrow>
          (case getKey E (kPublicId val) r of
             (Inr old, r1) \<Rightarrow>
               (Inl (ErrNew ''key.(VaultRepository).putKey'' CodeAlreadyExists
                  (''key already exists: '' @ kPublicId val)), r1)
           | (Inl e, r1) \<Rightarrow>
               if \<not> hasCode (errs E) CodeKeyNotFound e
               then (Inl (ErrWrap ''key.(VaultRepository).putKey'' None e), r1)
               else
                 let now = clock E (store r1);
                     val' = val\<lparr>kCreateTime := now, kUpdateTime := now\<rparr>
                 in case storeKeyNameToID E (kName val') (kPublicId val') r1 of
                      (Inl e', r2) \<Rightarrow> (Inl (ErrWrap ''key.(VaultRepository).putKey'' None e'), r2)
                    | (Inr _, r2) \<Rightarrow>
                        (case put_entry E keyStoragePrefix (kPublicId val') (marshalKey E val') r2 of
                           (Inl e', r3) \<Rightarrow>
                             (Inl (ErrWrap ''key.(VaultRepository).putKey'' None e'),
                              snd (deleteKeyNameToID E (kName val') r3))
                         | (Inr _, r3) \<Rightarrow> (Inr val', r3))))"

definition updateKey :: "'s vault_env \<Rightarrow> key \<Rightarrow> bool \<Rightarrow> 's repo \<Rightarrow> key result \<times> 's repo" where
  "updateKey E val vetForWrite r =
     (case (if vetForWrite then vetKey E OpUpdate val else None) of
        Some e \<Rightarrow> (Inl (ErrWrap ''key.(VaultRepository).updateKey'' None e), r)
      | None \<Rightarrow>
          (case getKey E (kPublicId val) r of
             (Inl e, r1) \<Rightarrow> (Inl (ErrWrap ''key.(VaultRepository).updateKey'' None e), r1)
           | (Inr old, r1) \<Rightarrow>
               if kName old \<noteq> kName val
               then (Inl (ErrNew ''key.(VaultRepository).updateKey'' CodeInvalidArgument
                       ''key name cannot be updated''), r1)
               else
                 let val' = val\<lparr>kUpdateTime := clock E (store r1)\<rparr>
                 in case put_entry E keyStoragePrefix (kPublicId val') (marshalKey E val') r1 of
                      (Inl e, r2) \<Rightarrow> (Inl (ErrWrap ''key.(VaultRepository).updateKey'' None e), r2)
                    | (Inr _, r2) \<Rightarrow> (Inr val', r2)))"

definition deleteKey :: "'s vault_env \<Rightarrow> string \<Rightarrow> 's repo \<Rightarrow> unit result \<times> 's repo" where
  "deleteKey E pid r =
     (case getKey E pid r of
        (Inl e, r1) \<Rightarrow> (Inl (ErrWrap ''key.(VaultRepository).deleteKey'' None e), r1)
      | (Inr k, r1) \<Rightarrow>
          (case deleteKeyNameToID E (kName k) r1 of
             (Inl e, r2) \<Rightarrow> (Inl (ErrWrap ''key.(VaultRepository).deleteKey'' None e), r2)
           | (Inr _, r2) \<Rightarrow>
               (case vDelete E keyStoragePrefix pid (store r2) of
                  (res, s) \<Rightarrow> (res, r2\<lparr>store := s\<rparr>))))"

definition putKeyVersion ::
  "'s vault_env \<Rightarrow> version \<Rightarrow> bool \<Rightarrow> 's repo \<Rightarrow> version result \<times> 's repo" where
  "putKeyVersion E val vetForWrite r =
     (case (if vetForWrite then vetVersion E OpCreate val else None) of
        Some e \<Rightarrow> (Inl (ErrWrap ''key.(VaultRepository).putKeyVersion'' None e), r)
      | None \<Rightarrow>
          (case getKeyVersion E (vKeyId val) (vVersion val) r of
             (Inr old, r1) \<Rightarrow>
               (Inl (ErrNew ''key.(VaultRepository).putKeyVersion'' CodeAlreadyExists
                  (''key version already exists: (keyId: '' @ vKeyId val @ '', version: '' @
                     show_nat (unat (vVersion val)) @ '')'')), r1)
           | (Inl e, r1) \<Rightarrow>
               if \<not> hasCode (errs E) CodeKeyNotFound e
               then (Inl (ErrWrap ''key.(VaultRepository).putKeyVersion'' None e), r1)
               else
                 let now = clock E (store r1);
                     val' = val\<lparr>vCreateTime := now, vUpdateTime := now\<rparr>
                 in case put_entry E keyVersionStoragePrefix (versionKey (vKeyId val') (vVersion val'))
                           (marshalVersion E val') r1 of
                      (Inl e', r2) \<Rightarrow> (Inl e', r2)
                    | (Inr _, r2) \<Rightarrow> (Inr val', r2)))"

section \<open>The repository's operations\<close>

text \<open>\<open>vetW\<close> and \<open>initialVersion\<close> are what \<open>corekey.GetVaultOptions\<close> makes of the options.\<close>

definition CreateKey ::
  "'s vault_env \<Rightarrow> bool \<Rightarrow> 32 word \<Rightarrow> key option \<Rightarrow> version option \<Rightarrow> 's repo
     \<Rightarrow> (key \<times> version) result \<times> 's repo" where
  "CreateKey E vetW optInitial k0 v0 r =
     (case k0 of
        None \<Rightarrow> (Inl (ErrNew ''key.(VaultRepository).CreateKey'' CodeInvalidArgument ''key must not be nil''), r)
      | Some k \<Rightarrow>
          (case v0 of
             None \<Rightarrow> (Inl (ErrNew ''key.(VaultRepository).CreateKey'' CodeInvalidArgument
                       ''initialVersion must not be nil''), r)
           | Some v \<Rightarrow>
               if kPublicId k \<noteq> vKeyId v
               then (Inl (ErrNew ''key.(VaultRepository).CreateKey'' CodeInvalidArgument
                       ''key PublicId and initialVersion KeyId must match''), r)
               else if vVersion v \<noteq> optInitial
               then (Inl (ErrNew ''key.(VaultRepository).CreateKey'' CodeInvalidArgument
                       (''invalid initial version number (expected: '' @ show_nat (unat optInitial) @
                        '', got: '' @ show_nat (unat (vVersion v)) @ '')'')), r)
               else
                 (case putKey E k vetW r of
                    (Inl e, r1) \<Rightarrow> (Inl (ErrWrap ''key.(VaultRepository).CreateKey'' None e), r1)
                  | (Inr k', r1) \<Rightarrow>
                      (case putKeyVersion E v vetW r1 of
                         (Inl e, r2) \<Rightarrow>
                           (Inl (ErrWrap ''key.(VaultRepository).CreateKey'' None e),
                            snd (deleteKey E (kPublicId k') r2))
                       | (Inr v', r2) \<Rightarrow> (Inr (k', v'), r2)))))"

definition GetKeyByID :: "'s vault_env \<Rightarrow> string \<Rightarrow> 's repo \<Rightarrow> key result \<times> 's repo" where
  "GetKeyByID E publicID r =
     (case getKey E publicID r of
        (Inl e, r1) \<Rightarrow> (Inl (ErrWrap ''key.(VaultRepository).GetKey'' None e), r1)
      | (Inr k, r1) \<Rightarrow> (Inr k, r1))"

definition GetKeyByName :: "'s vault_env \<Rightarrow> string \<Rightarrow> 's repo \<Rightarrow> key result \<times> 's repo" where
  "GetKeyByName E name r =
     (case resolveKeyNameToID E name r of
        (Inl e, r1) \<Rightarrow> (Inl (ErrWrap ''key.(VaultRepository).GetKeyByName'' None e), r1)
      | (Inr pid, r1) \<Rightarrow> GetKeyByID E pid r1)"

fun collectKeys :: "'s vault_env \<Rightarrow> string list \<Rightarrow> 's repo \<Rightarrow> key list result \<times> 's repo" where
  "collectKeys E [] r = (Inr [], r)"
| "collectKeys E (pid # ids) r =
     (case getKey E pid r of
        (Inl e, r1) \<Rightarrow> (Inl (ErrWrap ''key.(VaultRepository).ListKeys'' None e), r1)
      | (Inr k, r1) \<Rightarrow>
          (case collectKeys E ids r1 of
             (Inl e, r2) \<Rightarrow> (Inl e, r2)
           | (Inr ks, r2) \<Rightarrow> (Inr (k # ks), r2)))"

definition ListKeys :: "'s vault_env \<Rightarrow> 's repo \<Rightarrow> key list result \<times> 's repo" where
  "ListKeys E r =
     (case vList E keyStoragePrefix [] (store r) of
        (Inl e, s) \<Rightarrow> (Inl (ErrWrap ''key.(VaultRepository).ListKeys'' None e), r\<lparr>store := s\<rparr>)
      | (Inr ids, s) \<Rightarrow> collectKeys E ids (r\<lparr>store := s\<rparr>))"

definition UpdateKey :: "'s vault_env \<Rightarrow> bool \<Rightarrow> key option \<Rightarrow> 's repo \<Rightarrow> key result \<times> 's repo" where
  "UpdateKey E vetW k0 r =
     (case k0 of
        None \<Rightarrow> (Inl (ErrNew ''key.(VaultRepository).UpdateKey'' CodeInvalidArgument ''key must not be nil''), r)
      | Some k \<Rightarrow>
          (case updateKey E k vetW r of
             (Inl e, r1) \<Rightarrow> (Inl (ErrWrap ''key.(VaultRepository).UpdateKey'' None e), r1)
           | (Inr k', r1) \<Rightarrow> (Inr k', r1)))"

fun deleteVersions :: "'s vault_env \<Rightarrow> string \<Rightarrow> string list \<Rightarrow> 's repo \<Rightarrow> unit result \<times> 's repo" where
  "deleteVersions E pid [] r = (Inr (), r)"
| "deleteVersions E pid (v # vs) r =
     (case vDelete E keyVersionStoragePrefix (versionKeyStr pid v) (store r) of
        (Inl e, s) \<Rightarrow> (Inl (ErrWrap ''key.(VaultRepository).DeleteKey'' None e), r\<lparr>store := s\<rparr>)
      | (Inr _, s) \<Rightarrow> deleteVersions E pid vs (r\<lparr>store := s\<rparr>))"

definition DeleteKey :: "'s vault_env \<Rightarrow> string \<Rightarrow> 's repo \<Rightarrow> unit result \<times> 's repo" where
  "DeleteKey E pid r =
     (case deleteKey E pid r of
        (Inl e, r1) \<Rightarrow> (Inl (ErrWrap ''key.(VaultRepository).DeleteKey'' None e), r1)
      | (Inr _, r1) \<Rightarrow>
          (case vList E keyVersionStoragePrefix (versionPrefix pid) (store r1) of
             (Inl e, s) \<Rightarrow> (Inl (ErrWrap ''key.(VaultRepository).DeleteKey'' None e), r1\<lparr>store := s\<rparr>)
           | (Inr vs, s) \<Rightarrow> deleteVersions E pid vs (r1\<lparr>store := s\<rparr>)))"

definition AddVersion :: "'s vault_env \<Rightarrow> bool \<Rightarrow> version \<Rightarrow> 's repo \<Rightarrow> version result \<times> 's repo" where
  "AddVersion E vetW ver r =
     (if vKeyId ver = [] then
        (Inl (ErrNew ''key.(VaultRepository).AddVersion'' CodeInvalidArgument ''keyId is required''), r)
      else case getKey E (vKeyId ver) r of
        (Inl e, r1) \<Rightarrow> (Inl (ErrWrap ''key.(VaultRepository).AddVersion'' None e), r1)
      | (Inr k, r1) \<Rightarrow>
          if vVersion ver \<noteq> kCurrentVersion k + 1
          then (Inl (ErrNew ''key.(VaultRepository).AddVersion'' CodeInvalidArgument
                  (''invalid next version number (expected: '' @ show_nat (unat (kCurrentVersion k + 1)) @
                   '', got: '' @ show_nat (unat (vVersion ver)) @ '')'')), r1)
          else
            let newKey = k\<lparr>kCurrentVersion := kCurrentVersion k + 1\<rparr>
            in case putKeyVersion E ver vetW r1 of
                 (Inl e, r2) \<Rightarrow> (Inl (ErrWrap ''key.(VaultRepository).AddVersion'' None e), r2)
               | (Inr ver', r2) \<Rightarrow>
                   (case updateKey E newKey vetW r2 of
                      (Inl e, r3) \<Rightarrow>
                        (Inl (ErrWrap ''key.(VaultRepository).AddVersion'' None e),
                         r3\<lparr>store := snd (vDelete E keyVersionStoragePrefix
                                      (versionKey (vKeyId ver) (vVersion ver)) (store r3))\<rparr>)
                    | (Inr _, r3) \<Rightarrow> (Inr ver', r3)))"

definition getCurrentVersionInternal ::
  "'s vault_env \<Rightarrow> string \<Rightarrow> 's repo \<Rightarrow> version result \<times> 's repo" where
  "getCurrentVersionInternal E keyID r =
     (case getKey E keyID r of
        (Inl e, r1) \<Rightarrow> (Inl (ErrWrap ''key.(VaultRepository).getCurrentVersionInternal'' None e), r1)
      | (Inr k, r1) \<Rightarrow>
          (case getKeyVersion E keyID (kCurrentVersion k) r1 of
             (Inl e, r2) \<Rightarrow> (Inl (ErrWrap ''key.(VaultRepository).getCurrentVersionInternal'' None e), r2)
           | (Inr v, r2) \<Rightarrow> (Inr v, r2)))"

definition GetCurrentVersion :: "'s vault_env \<Rightarrow> string \<Rightarrow> 's repo \<Rightarrow> version result \<times> 's repo" where
  "GetCurrentVersion E keyID r =
     (case getCurrentVersionInternal E keyID r of
        (Inl e, r1) \<Rightarrow> (Inl (ErrWrap ''key.(VaultRepository).GetCurrentVersion'' None e), r1)
      | (Inr v, r1) \<Rightarrow> (Inr v, r1))"

definition getVersionInternal ::
  "'s vault_env \<Rightarrow> string \<Rightarrow> 32 word \<Rightarrow> 's repo \<Rightarrow> version result \<times> 's repo" where
  "getVersionInternal E keyID n r =
     (case getKeyVersion E keyID n r of
        (Inl e, r1) \<Rightarrow> (Inl (ErrWrap ''key.(VaultRepository).getVersionInternal'' None e), r1)
      | (Inr v, r1) \<Rightarrow> (Inr v, r1))"

definition GetVersion ::
  "'s vault_env \<Rightarrow> string \<Rightarrow> 32 word \<Rightarrow> 's repo \<Rightarrow> version result \<times> 's repo" where
  "GetVersion E keyID n r =
     (case (if n = 0 then getCurrentVersionInternal E keyID r else getVersionInternal E keyID n r) of
        (Inl e, r1) \<Rightarrow> (Inl (ErrWrap ''key.(VaultRepository).GetVersion'' None e), r1)
      | (Inr v, r1) \<Rightarrow> (Inr v, r1))"

end
