(* ===== verification/Key_Repository_Effects.thy ===== *)
theory Key_Repository_Effects
  imports Key_Repository
begin

text \<open>
  What each operation of the key repository does to the storage contents and to the name
  cache, on success and on failure, for any storage that keeps the documented laws. The
  contracts of \<open>Key_Repository_Spec\<close> rest on these lemmas.
\<close>

named_theorems repo_splits "case splits for results paired with a state"

lemmas result_splits [repo_splits] = prod.splits sum.splits option.splits

section \<open>The environment\<close>

text \<open>
  What the repository relies on: the storage laws for a contents function \<open>C\<close>, the errors
  package, decoding inverts encoding, and neither the storage nor the codec returns an error
  with one of the server's codes.
\<close>

definition env_ok :: "'s vault_env \<Rightarrow> ('s \<Rightarrow> string \<rightharpoonup> blob) \<Rightarrow> bool" where
  "env_ok E C \<longleftrightarrow> storage_laws E C \<and> errors_pkg_ok (errs E) \<and>
     (\<forall>k b. marshalKey E k = Inr b \<longrightarrow> unmarshalKey E b = Inr k) \<and>
     (\<forall>v b. marshalVersion E v = Inr b \<longrightarrow> unmarshalVersion E b = Inr v) \<and>
     (\<forall>p k s c e. fst (vGet E p k s) = Inl e \<longrightarrow> \<not> hasCode (errs E) c e) \<and>
     (\<forall>b c e. unmarshalKey E b = Inl e \<longrightarrow> \<not> hasCode (errs E) c e) \<and>
     (\<forall>b c e. unmarshalVersion E b = Inl e \<longrightarrow> \<not> hasCode (errs E) c e)"

lemma env_okD:
  assumes "env_ok E C"
  shows "storage_laws E C" "errors_pkg_ok (errs E)"
    "marshalKey E k = Inr b \<Longrightarrow> unmarshalKey E b = Inr k"
    "marshalVersion E v = Inr b \<Longrightarrow> unmarshalVersion E b = Inr v"
    "vGet E p n s = (Inl e, s') \<Longrightarrow> \<not> hasCode (errs E) c e"
    "unmarshalKey E b = Inl e \<Longrightarrow> \<not> hasCode (errs E) c e"
    "unmarshalVersion E b = Inl e \<Longrightarrow> \<not> hasCode (errs E) c e"
  using assms unfolding env_ok_def by (simp_all, metis fst_conv)

definition deletes_reliable :: "'s vault_env \<Rightarrow> bool" where
  "deletes_reliable E \<longleftrightarrow> (\<forall>p k s. \<not> isl (fst (vDelete E p k s)))"

definition reads_reliable :: "'s vault_env \<Rightarrow> bool" where
  "reads_reliable E \<longleftrightarrow> (\<forall>p k s. \<not> isl (fst (vGet E p k s)))"

text \<open>The contents of the repository's storage.\<close>

abbreviation mem :: "('s \<Rightarrow> string \<rightharpoonup> blob) \<Rightarrow> 's repo \<Rightarrow> string \<rightharpoonup> blob" where
  "mem C r \<equiv> C (store r)"

definition same_repo :: "('s \<Rightarrow> string \<rightharpoonup> blob) \<Rightarrow> 's repo \<Rightarrow> 's repo \<Rightarrow> bool" where
  "same_repo C r r' \<longleftrightarrow> mem C r' = mem C r \<and> keyNameToIDCache r' = keyNameToIDCache r \<and>
     keyNameToIDFunc r' = keyNameToIDFunc r"

lemma same_repo_refl [simp]: "same_repo C r r"
  by (simp add: same_repo_def)

lemma same_repo_trans: "same_repo C r1 r2 \<Longrightarrow> same_repo C r2 r3 \<Longrightarrow> same_repo C r1 r3"
  by (simp add: same_repo_def)

lemma same_repo_store [simp]: "same_repo C r (r\<lparr>store := s\<rparr>) \<longleftrightarrow> C s = mem C r"
  by (auto simp: same_repo_def)

section \<open>Physical keys\<close>

lemmas prefix_defs = keyStoragePrefix_def keyVersionStoragePrefix_def keyNameToIDStoragePrefix_def

lemma prefix_disjoint [simp]:
  "keyStoragePrefix @ a \<noteq> keyVersionStoragePrefix @ b"
  "keyStoragePrefix @ a \<noteq> keyNameToIDStoragePrefix @ b"
  "keyVersionStoragePrefix @ a \<noteq> keyStoragePrefix @ b"
  "keyVersionStoragePrefix @ a \<noteq> keyNameToIDStoragePrefix @ b"
  "keyNameToIDStoragePrefix @ a \<noteq> keyStoragePrefix @ b"
  "keyNameToIDStoragePrefix @ a \<noteq> keyVersionStoragePrefix @ b"
  by (simp_all add: prefix_defs)

lemma versionKey_inject [simp]: "versionKey a m = versionKey b n \<longleftrightarrow> a = b \<and> m = n"
proof
  assume "versionKey a m = versionKey b n"
  then have "a @ CHR '':'' # show_nat (unat m) = b @ CHR '':'' # show_nat (unat n)"
    by (simp add: versionKey_def versionKeyStr_def versionSep_def)
  from split_last_sep [OF this] show "a = b \<and> m = n" by (simp add: word_unat_eq_iff)
qed simp

section \<open>Reading entries\<close>

lemma get_entry_cases:
  assumes "env_ok E C" "get_entry E p k decode r = (res, r')"
  obtains (failed) e where "same_repo C r r'" "res = Inl (ErrWrap ''key.get'' None e)"
      "\<not> reads_reliable E" "\<not> hasCode (errs E) CodeKeyNotFound e"
  | (absent) msg where "same_repo C r r'" "res = Inl (ErrNew ''key.get'' CodeKeyNotFound msg)"
      "mem C r (p @ k) = None"
  | (corrupt) b e where "same_repo C r r'" "res = Inl (ErrWrap ''key.get'' None e)"
      "mem C r (p @ k) = Some b" "decode b = Inl e"
  | (found) b m where "same_repo C r r'" "res = Inr m" "mem C r (p @ k) = Some b" "decode b = Inr m"
proof -
  note env = env_okD [OF assms(1)]
  obtain g s where g: "vGet E p k (store r) = (g, s)" by fastforce
  note law = vGet_law [OF env(1) g]
  have r': "same_repo C r (r\<lparr>store := s\<rparr>)" using law(1) by simp
  show thesis
  proof (cases g)
    case (Inl e)
    have "\<not> reads_reliable E" unfolding reads_reliable_def using g Inl by (metis fst_conv sum.disc(1))
    with Inl g r' env(5) assms(2) show thesis by (auto simp: get_entry_def intro: failed)
  next
    case (Inr bo)
    with law(2) have m: "mem C r (p @ k) = bo" by simp
    show thesis
    proof (cases bo)
      case None
      with Inr g r' m assms(2) show thesis by (auto simp: get_entry_def intro: absent)
    next
      case (Some b)
      with Inr g assms(2) have "r' = r\<lparr>store := s\<rparr>"
        "res = (case decode b of Inl e \<Rightarrow> Inl (ErrWrap ''key.get'' None e) | Inr x \<Rightarrow> Inr x)"
        by (auto simp: get_entry_def split: sum.splits)
      with r' m Some show thesis
        by (cases "decode b") (simp_all add: corrupt found)
    qed
  qed
qed

text \<open>The key, version and name that storage contents hold.\<close>

definition key_at :: "'s vault_env \<Rightarrow> (string \<rightharpoonup> blob) \<Rightarrow> string \<rightharpoonup> key" where
  "key_at E m pid =
     (case m (keyStoragePrefix @ pid) of
        None \<Rightarrow> None
      | Some b \<Rightarrow> (case unmarshalKey E b of Inl _ \<Rightarrow> None | Inr k \<Rightarrow> Some k))"

definition version_at :: "'s vault_env \<Rightarrow> (string \<rightharpoonup> blob) \<Rightarrow> string \<times> 32 word \<rightharpoonup> version" where
  "version_at E m = (\<lambda>(pid, n).
     (case m (keyVersionStoragePrefix @ versionKey pid n) of
        None \<Rightarrow> None
      | Some b \<Rightarrow> (case unmarshalVersion E b of Inl _ \<Rightarrow> None | Inr v \<Rightarrow> Some v)))"

definition names_of :: "(string \<rightharpoonup> blob) \<Rightarrow> string \<rightharpoonup> string" where
  "names_of m = (\<lambda>n. m (keyNameToIDStoragePrefix @ n))"

lemma getKey_effect:
  assumes "env_ok E C" "getKey E pid r = (res, r')"
  shows "same_repo C r r'"
    and "res = Inr k \<Longrightarrow> key_at E (mem C r) pid = Some k"
    and "res = Inl e \<Longrightarrow> hasCode (errs E) CodeKeyNotFound e \<Longrightarrow> mem C r (keyStoragePrefix @ pid) = None"
    and "reads_reliable E \<Longrightarrow> mem C r (keyStoragePrefix @ pid) = None \<Longrightarrow>
           \<exists>e. res = Inl e \<and> hasCode (errs E) CodeKeyNotFound e"
    and "reads_reliable E \<Longrightarrow> key_at E (mem C r) pid = Some k \<Longrightarrow> res = Inr k"
proof -
  note ep = errors_pkg_okD [OF env_okD(2) [OF assms(1)]] and dec = env_okD(6) [OF assms(1)]
  obtain g r1 where g: "get_entry E keyStoragePrefix pid (unmarshalKey E) r = (g, r1)" by fastforce
  from assms(1) g
  show "same_repo C r r'" "res = Inr k \<Longrightarrow> key_at E (mem C r) pid = Some k"
    "res = Inl e \<Longrightarrow> hasCode (errs E) CodeKeyNotFound e \<Longrightarrow> mem C r (keyStoragePrefix @ pid) = None"
    "reads_reliable E \<Longrightarrow> mem C r (keyStoragePrefix @ pid) = None \<Longrightarrow>
           \<exists>e. res = Inl e \<and> hasCode (errs E) CodeKeyNotFound e"
    "reads_reliable E \<Longrightarrow> key_at E (mem C r) pid = Some k \<Longrightarrow> res = Inr k"
    using assms(2) dec
    by (cases rule: get_entry_cases; auto simp: getKey_def key_at_def ep g)+
qed

lemma getKeyVersion_effect:
  assumes "env_ok E C" "getKeyVersion E pid n r = (res, r')"
  shows "same_repo C r r'"
    and "res = Inr v \<Longrightarrow> version_at E (mem C r) (pid, n) = Some v"
    and "res = Inl e \<Longrightarrow> hasCode (errs E) CodeKeyNotFound e \<Longrightarrow>
           mem C r (keyVersionStoragePrefix @ versionKey pid n) = None"
    and "reads_reliable E \<Longrightarrow> mem C r (keyVersionStoragePrefix @ versionKey pid n) = None \<Longrightarrow>
           \<exists>e. res = Inl e \<and> hasCode (errs E) CodeKeyNotFound e"
    and "reads_reliable E \<Longrightarrow> version_at E (mem C r) (pid, n) = Some v \<Longrightarrow> res = Inr v"
proof -
  note ep = errors_pkg_okD [OF env_okD(2) [OF assms(1)]] and dec = env_okD(7) [OF assms(1)]
  obtain g r1 where
    g: "get_entry E keyVersionStoragePrefix (versionKey pid n) (unmarshalVersion E) r = (g, r1)"
    by fastforce
  from assms(1) g
  show "same_repo C r r'" "res = Inr v \<Longrightarrow> version_at E (mem C r) (pid, n) = Some v"
    "res = Inl e \<Longrightarrow> hasCode (errs E) CodeKeyNotFound e \<Longrightarrow>
           mem C r (keyVersionStoragePrefix @ versionKey pid n) = None"
    "reads_reliable E \<Longrightarrow> mem C r (keyVersionStoragePrefix @ versionKey pid n) = None \<Longrightarrow>
           \<exists>e. res = Inl e \<and> hasCode (errs E) CodeKeyNotFound e"
    "reads_reliable E \<Longrightarrow> version_at E (mem C r) (pid, n) = Some v \<Longrightarrow> res = Inr v"
    using assms(2) dec
    by (cases rule: get_entry_cases; auto simp: getKeyVersion_def version_at_def ep g)+
qed

section \<open>The name index and its cache\<close>

text \<open>
  The default repository resolves names by its index; its cache remembers only what the index
  holds.
\<close>

definition coherent :: "('s \<Rightarrow> string \<rightharpoonup> blob) \<Rightarrow> 's repo \<Rightarrow> bool" where
  "coherent C r \<longleftrightarrow> keyNameToIDFunc r = None \<and> lru_inv (keyNameToIDCache r) \<and>
     cached (keyNameToIDCache r) \<subseteq>\<^sub>m names_of (mem C r)"

lemma coherent_same: "same_repo C r r' \<Longrightarrow> coherent C r' \<longleftrightarrow> coherent C r"
  by (simp add: same_repo_def coherent_def)

lemma names_of_upd [simp]:
  "names_of (m(keyNameToIDStoragePrefix @ n := x)) = (names_of m)(n := x)"
  "names_of (m(keyStoragePrefix @ n := x)) = names_of m"
  "names_of (m(keyVersionStoragePrefix @ n := x)) = names_of m"
  by (auto simp: names_of_def fun_eq_iff)

lemma storeKeyNameToID_effect:
  assumes "env_ok E C" "coherent C r" "storeKeyNameToID E name pid r = (res, r')"
  shows "coherent C r'"
    and "res = Inr u \<Longrightarrow> name \<noteq> [] \<and> pid \<noteq> [] \<and> names_of (mem C r) name = None \<and>
           mem C r' = (mem C r)(keyNameToIDStoragePrefix @ name \<mapsto> pid)"
    and "res = Inl e \<Longrightarrow> same_repo C r r'"
    and "storage_reliable E \<Longrightarrow> name \<noteq> [] \<Longrightarrow> pid \<noteq> [] \<Longrightarrow> names_of (mem C r) name = None \<Longrightarrow>
           res = Inr ()"
proof -
  note env = env_okD [OF assms(1)]
  obtain g s where g: "vGet E keyNameToIDStoragePrefix name (store r) = (g, s)" by fastforce
  note law = vGet_law [OF env(1) g]
  have fn: "keyNameToIDFunc r = None" and inv: "lru_inv (keyNameToIDCache r)"
    and le: "cached (keyNameToIDCache r) \<subseteq>\<^sub>m names_of (mem C r)"
    using assms(2) by (auto simp: coherent_def)
  obtain q s' where q: "vPut E keyNameToIDStoragePrefix name pid s = (q, s')" by fastforce
  note law' = vPut_law [OF env(1) q]
  note pc = lru.put_coherent [OF inv le, of name pid]
  show 2: "res = Inr u \<Longrightarrow> name \<noteq> [] \<and> pid \<noteq> [] \<and> names_of (mem C r) name = None \<and>
           mem C r' = (mem C r)(keyNameToIDStoragePrefix @ name \<mapsto> pid)"
    using assms(3) g law q law' fn
    by (auto simp: storeKeyNameToID_def names_of_def split: if_splits sum.splits option.splits)
  show 3: "res = Inl e \<Longrightarrow> same_repo C r r'" for e
    using assms(3) g law q law' fn
    by (auto simp: storeKeyNameToID_def split: if_splits sum.splits option.splits)
  show "coherent C r'"
  proof (cases res)
    case (Inl e)
    then show ?thesis using 3 coherent_same assms(2) by blast
  next
    case (Inr u)
    then have "keyNameToIDFunc r' = None \<and> keyNameToIDCache r' = cache_put name pid (keyNameToIDCache r) \<and>
        mem C r' = (mem C r)(keyNameToIDStoragePrefix @ name \<mapsto> pid)"
      using assms(3) g law q law' fn
      by (auto simp: storeKeyNameToID_def split: if_splits sum.splits option.splits)
    then show ?thesis using pc by (simp add: coherent_def)
  qed
  show "res = Inr ()" if "storage_reliable E" "name \<noteq> []" "pid \<noteq> []" "names_of (mem C r) name = None"
    using assms(3) g law q that fn storage_reliableD(1) [OF that(1), of keyNameToIDStoragePrefix name "store r"]
      storage_reliableD(2) [OF that(1), of keyNameToIDStoragePrefix name pid s]
    by (auto simp: storeKeyNameToID_def names_of_def split: sum.splits option.splits)
qed

lemma map_le_del: "f \<subseteq>\<^sub>m g \<Longrightarrow> f(k := None) \<subseteq>\<^sub>m g"
  by (auto simp: map_le_def)

lemma deleteKeyNameToID_effect:
  assumes "env_ok E C" "coherent C r" "deleteKeyNameToID E name r = (res, r')"
  shows "coherent C r'"
    and "res = Inr u \<Longrightarrow> name \<noteq> [] \<and> mem C r' = (mem C r)(keyNameToIDStoragePrefix @ name := None)"
    and "res = Inl e \<Longrightarrow> mem C r' = mem C r"
    and "deletes_reliable E \<Longrightarrow> name \<noteq> [] \<Longrightarrow> res = Inr ()"
proof -
  note env = env_okD [OF assms(1)]
  obtain g s where g: "vDelete E keyNameToIDStoragePrefix name (store r) = (g, s)" by fastforce
  note law = vDelete_law [OF env(1) g]
  have fn: "keyNameToIDFunc r = None" and inv: "lru_inv (keyNameToIDCache r)"
    and le: "cached (keyNameToIDCache r) \<subseteq>\<^sub>m names_of (mem C r)"
    using assms(2) by (auto simp: coherent_def)
  note rc = lru.remove_coherent [OF inv le, of name]
  have rf: "cached (cache_remove name (keyNameToIDCache r)) \<subseteq>\<^sub>m names_of (mem C r)"
    using lru.remove_forgets [OF inv, of name] map_le_del [OF le] by metis
  show "coherent C r'"
    using assms(2,3) g law fn rc rf
    by (auto simp: deleteKeyNameToID_def coherent_def Let_def split: if_splits sum.splits)
  show "res = Inr u \<Longrightarrow> name \<noteq> [] \<and> mem C r' = (mem C r)(keyNameToIDStoragePrefix @ name := None)"
    "res = Inl e \<Longrightarrow> mem C r' = mem C r"
    using assms(3) g law fn
    by (auto simp: deleteKeyNameToID_def Let_def split: if_splits sum.splits)
  show "res = Inr ()" if "deletes_reliable E" "name \<noteq> []"
    using assms(3) g law fn that
    by (auto simp: deleteKeyNameToID_def deletes_reliable_def Let_def split: if_splits sum.splits)
       (metis fst_conv sum.disc(1))
qed

lemma resolveKeyNameToID_effect:
  assumes "env_ok E C" "coherent C r" "resolveKeyNameToID E name r = (res, r')"
  shows "coherent C r'" and "mem C r' = mem C r"
    and "res = Inr pid \<Longrightarrow> name \<noteq> [] \<and> names_of (mem C r) name = Some pid"
    and "res = Inl e \<Longrightarrow> hasCode (errs E) CodeKeyNotFound e \<Longrightarrow> names_of (mem C r) name = None"
    and "reads_reliable E \<Longrightarrow> name \<noteq> [] \<Longrightarrow> names_of (mem C r) name = Some pid \<Longrightarrow> res = Inr pid"
    and "reads_reliable E \<Longrightarrow> name \<noteq> [] \<Longrightarrow> names_of (mem C r) name = None \<Longrightarrow>
           \<exists>e. res = Inl e \<and> hasCode (errs E) CodeKeyNotFound e"
proof -
  note env = env_okD [OF assms(1)] and ep = errors_pkg_okD [OF env_okD(2) [OF assms(1)]]
  have fn: "keyNameToIDFunc r = None" and inv: "lru_inv (keyNameToIDCache r)"
    and le: "cached (keyNameToIDCache r) \<subseteq>\<^sub>m names_of (mem C r)"
    using assms(2) by (auto simp: coherent_def)
  obtain h c where h: "cache_get name (keyNameToIDCache r) = (h, c)" by fastforce
  note gc = lru.get_coherent [OF inv le h]
  obtain g s where g: "vGet E keyNameToIDStoragePrefix name (store r) = (g, s)" by fastforce
  note law = vGet_law [OF env(1) g]
  have le2: "cached c \<subseteq>\<^sub>m names_of (mem C r)" and inv2: "lru_inv c" using gc by auto
  note fc = lru.fill_coherent [OF inv2 le2]
  have rr: "\<exists>v. g = Inr v" if "reads_reliable E" using that g unfolding reads_reliable_def
    by (cases g) (metis fst_conv sum.disc(1), blast)
  have law: "C s = mem C r" "\<And>v. g = Inr v \<Longrightarrow> v = names_of (mem C r) name"
    using law by (auto simp: names_of_def)
  note un = resolveKeyNameToID_def
  show "coherent C r'"
    using assms(2,3) g law fn h gc fc
    by (auto simp: coherent_def un split: if_splits sum.splits option.splits)
  show "mem C r' = mem C r"
    using assms(3) g law fn h by (auto simp: un split: if_splits sum.splits option.splits)
  show "res = Inr pid \<Longrightarrow> name \<noteq> [] \<and> names_of (mem C r) name = Some pid"
    using assms(3) g law fn h gc by (auto simp: un split: if_splits sum.splits option.splits)
  show "res = Inl e \<Longrightarrow> hasCode (errs E) CodeKeyNotFound e \<Longrightarrow> names_of (mem C r) name = None"
    using assms(3) g law fn h gc
    by (auto simp: un ep dest: env(5) split: if_splits sum.splits option.splits)
  show "reads_reliable E \<Longrightarrow> name \<noteq> [] \<Longrightarrow> names_of (mem C r) name = Some pid \<Longrightarrow> res = Inr pid"
    using assms(3) g law fn h gc rr by (auto simp: un split: if_splits sum.splits option.splits)
  show "reads_reliable E \<Longrightarrow> name \<noteq> [] \<Longrightarrow> names_of (mem C r) name = None \<Longrightarrow>
           \<exists>e. res = Inl e \<and> hasCode (errs E) CodeKeyNotFound e"
    using assms(3) g law fn h gc rr by (auto simp: un ep split: if_splits sum.splits option.splits)
qed

end
