(* ===== verification/Key_Repository_Writes.thy ===== *)
theory Key_Repository_Writes
  imports Key_Repository_Effects
begin

text \<open>
  The effect of the write operations of the key repository on the storage contents: what a
  successful call has written, that a failed call is undone, and when a call succeeds.
\<close>

section \<open>Entries\<close>

lemma storage_reliable_parts:
  assumes "storage_reliable (E :: 's vault_env)"
  shows "reads_reliable E" "deletes_reliable E"
  using assms by (simp_all add: storage_reliable_def reads_reliable_def deletes_reliable_def)

lemma put_entry_effect:
  assumes "env_ok E C" "coherent C r" "put_entry E p k enc r = (res, r')"
    and p: "p = keyStoragePrefix \<or> p = keyVersionStoragePrefix"
  shows "coherent C r'"
    and "res = Inr u \<Longrightarrow> \<exists>b. enc = Inr b \<and> mem C r' = (mem C r)(p @ k \<mapsto> b)"
    and "res = Inl e \<Longrightarrow> same_repo C r r'"
    and "storage_reliable E \<Longrightarrow> \<not> isl enc \<Longrightarrow> res = Inr ()"
proof -
  note env = env_okD [OF assms(1)]
  obtain q s where q: "vPut E p k (projr enc) (store r) = (q, s)" by fastforce
  note law = vPut_law [OF env(1) q]
  show 2: "res = Inr u \<Longrightarrow> \<exists>b. enc = Inr b \<and> mem C r' = (mem C r)(p @ k \<mapsto> b)" for u
    using assms(3) q law by (auto simp: put_entry_def split: sum.splits)
  show 3: "res = Inl e \<Longrightarrow> same_repo C r r'" for e
    using assms(3) q law by (auto simp: put_entry_def split: sum.splits)
  have "keyNameToIDCache r' = keyNameToIDCache r" "keyNameToIDFunc r' = keyNameToIDFunc r"
    using assms(3) by (auto simp: put_entry_def split: sum.splits prod.splits)
  then show "coherent C r'" using assms(2) 2 3 p
    by (cases res) (auto simp: coherent_def same_repo_def)
  show "res = Inr ()" if "storage_reliable E" "\<not> isl enc"
    using assms(3) q storage_reliableD(2) [OF that(1), of p k "projr enc" "store r"] that(2)
    by (auto simp: put_entry_def split: sum.splits)
qed

lemma mem_same: "same_repo C r r' \<Longrightarrow> mem C r' = mem C r"
  by (simp add: same_repo_def)

section \<open>Keys\<close>

definition stamped :: "key \<Rightarrow> key \<Rightarrow> bool" where
  "stamped k k' \<longleftrightarrow> (\<exists>now. k' = k\<lparr>kCreateTime := now, kUpdateTime := now\<rparr>)"

lemma stamped_simps [simp]:
  assumes "stamped k k'"
  shows "kPublicId k' = kPublicId k" "kName k' = kName k" "kCurrentVersion k' = kCurrentVersion k"
    "kPolicyId k' = kPolicyId k" "kState k' = kState k"
  using assms by (auto simp: stamped_def)

lemma putKey_effect:
  assumes "env_ok E C" "coherent C r" "putKey E k vet r = (res, r')"
  shows "coherent C r'"
    and "res = Inr k' \<Longrightarrow> stamped k k' \<and> kName k \<noteq> [] \<and> kPublicId k \<noteq> [] \<and>
           mem C r (keyStoragePrefix @ kPublicId k) = None \<and> names_of (mem C r) (kName k) = None \<and>
           (\<exists>b. marshalKey E k' = Inr b \<and>
              mem C r' = (mem C r)(keyNameToIDStoragePrefix @ kName k \<mapsto> kPublicId k,
                                   keyStoragePrefix @ kPublicId k \<mapsto> b))"
    and "res = Inl e \<Longrightarrow> deletes_reliable E \<Longrightarrow> mem C r' = mem C r"
    and "storage_reliable E \<Longrightarrow> (vet \<longrightarrow> vetKey E OpCreate k = None) \<Longrightarrow> (\<And>s. \<not> isl (marshalKey E (k\<lparr>kCreateTime := clock E s, kUpdateTime := clock E s\<rparr>))) \<Longrightarrow>
           kName k \<noteq> [] \<Longrightarrow> kPublicId k \<noteq> [] \<Longrightarrow> mem C r (keyStoragePrefix @ kPublicId k) = None \<Longrightarrow>
           names_of (mem C r) (kName k) = None \<Longrightarrow> \<exists>k'. res = Inr k'"
proof -
  obtain g r1 where g: "getKey E (kPublicId k) r = (g, r1)" by fastforce
  note ge = getKey_effect [OF assms(1) g]
  have c1: "coherent C r1" using coherent_same [OF ge(1)] assms(2) by simp
  define k1 where "k1 = k\<lparr>kCreateTime := clock E (store r1), kUpdateTime := clock E (store r1)\<rparr>"
  have k1: "stamped k k1" unfolding stamped_def k1_def by (rule exI, rule refl)
  obtain h r2 where h: "storeKeyNameToID E (kName k) (kPublicId k) r1 = (h, r2)" by fastforce
  note he = storeKeyNameToID_effect [OF assms(1) c1 h]
  obtain q r3 where q: "put_entry E keyStoragePrefix (kPublicId k) (marshalKey E k1) r2 = (q, r3)"
    by fastforce
  note qe = put_entry_effect [OF assms(1) he(1) q disjI1 [OF refl]]
  obtain d r4 where d: "deleteKeyNameToID E (kName k) r3 = (d, r4)" by fastforce
  note de = deleteKeyNameToID_effect [OF assms(1) qe(1) d]
  have un: "putKey E k vet r =
      (case (if vet then vetKey E OpCreate k else None) of
         Some e \<Rightarrow> (Inl (ErrWrap ''key.(VaultRepository).putKey'' None e), r)
       | None \<Rightarrow> (case g of
           Inr old \<Rightarrow> (Inl (ErrNew ''key.(VaultRepository).putKey'' CodeAlreadyExists
                          (''key already exists: '' @ kPublicId k)), r1)
         | Inl e \<Rightarrow> if \<not> hasCode (errs E) CodeKeyNotFound e
             then (Inl (ErrWrap ''key.(VaultRepository).putKey'' None e), r1)
             else (case h of
                 Inl e' \<Rightarrow> (Inl (ErrWrap ''key.(VaultRepository).putKey'' None e'), r2)
               | Inr _ \<Rightarrow> (case q of
                     Inl e' \<Rightarrow> (Inl (ErrWrap ''key.(VaultRepository).putKey'' None e'), r4)
                   | Inr _ \<Rightarrow> (Inr k1, r3)))))"
    using g h q d k1 by (auto simp: putKey_def Let_def k1_def split: option.splits sum.splits)
  show "coherent C r'"
    using assms(2,3) c1 he(1) qe(1) de(1) un by (auto split: option.splits sum.splits if_splits)
  show "stamped k k' \<and> kName k \<noteq> [] \<and> kPublicId k \<noteq> [] \<and>
           mem C r (keyStoragePrefix @ kPublicId k) = None \<and> names_of (mem C r) (kName k) = None \<and>
           (\<exists>b. marshalKey E k' = Inr b \<and>
              mem C r' = (mem C r)(keyNameToIDStoragePrefix @ kName k \<mapsto> kPublicId k,
                                   keyStoragePrefix @ kPublicId k \<mapsto> b))"
    if "res = Inr k'"
  proof -
    from assms(3) un that obtain e where "k' = k1" "r' = r3" and hc: "g = Inl e"
      "hasCode (errs E) CodeKeyNotFound e" "h = Inr ()" "q = Inr ()"
      by (simp split: option.splits sum.splits if_splits)
    with ge(3) [OF hc(1,2)] he(2) [OF hc(3)] qe(2) [OF hc(4)] mem_same [OF ge(1)] k1
    show ?thesis by simp
  qed
  show "mem C r' = mem C r" if "res = Inl e" and del: "deletes_reliable E"
  proof -
    from assms(3) un that(1) consider "r' = r" | "r' = r1" | e' where "h = Inl e'" "r' = r2"
      | e' where "h = Inr ()" "q = Inl e'" "r' = r4"
      by (auto split: option.splits sum.splits if_splits)
    then show ?thesis
    proof cases
      case 3
      then show ?thesis using mem_same [OF he(3) [OF 3(1)]] mem_same [OF ge(1)] by simp
    next
      case 4
      note h2 = he(2) [OF 4(1)]
      then have "d = Inr ()" using de(4) del by simp
      from de(2) [OF this] mem_same [OF qe(3) [OF 4(2)]] h2 mem_same [OF ge(1)] 4(3)
      show ?thesis by (simp add: names_of_def fun_upd_idem)
    qed (simp_all add: mem_same [OF ge(1)])
  qed
  show "\<exists>k'. res = Inr k'"
    if "storage_reliable E" "vet \<longrightarrow> vetKey E OpCreate k = None" "\<And>s. \<not> isl (marshalKey E (k\<lparr>kCreateTime := clock E s, kUpdateTime := clock E s\<rparr>))"
      "kName k \<noteq> []" "kPublicId k \<noteq> []" "mem C r (keyStoragePrefix @ kPublicId k) = None"
      "names_of (mem C r) (kName k) = None"
    using assms(3) un that ge(4) he(4) qe(4) mem_same [OF ge(1)] storage_reliable_parts [OF that(1)]
      that(3) [of "store r1"]
    by (auto simp: k1_def split: option.splits sum.splits if_splits)
qed

lemma updateKey_effect:
  assumes "env_ok E C" "coherent C r" "updateKey E k vet r = (res, r')"
  shows "coherent C r'"
    and "res = Inr k' \<Longrightarrow> (\<exists>now. k' = k\<lparr>kUpdateTime := now\<rparr>) \<and>
           (\<exists>old. key_at E (mem C r) (kPublicId k) = Some old \<and> kName old = kName k) \<and>
           (\<exists>b. marshalKey E k' = Inr b \<and> mem C r' = (mem C r)(keyStoragePrefix @ kPublicId k \<mapsto> b))"
    and "res = Inl e \<Longrightarrow> same_repo C r r'"
    and "storage_reliable E \<Longrightarrow> (vet \<longrightarrow> vetKey E OpUpdate k = None) \<Longrightarrow> (\<And>x. \<not> isl (marshalKey E x)) \<Longrightarrow>
           key_at E (mem C r) (kPublicId k) = Some old \<Longrightarrow> kName old = kName k \<Longrightarrow> \<exists>k'. res = Inr k'"
proof -
  obtain g r1 where g: "getKey E (kPublicId k) r = (g, r1)" by fastforce
  note ge = getKey_effect [OF assms(1) g]
  have c1: "coherent C r1" using coherent_same [OF ge(1)] assms(2) by simp
  obtain k1 where k1: "k1 = k\<lparr>kUpdateTime := clock E (store r1)\<rparr>" by simp
  obtain q r2 where q: "put_entry E keyStoragePrefix (kPublicId k) (marshalKey E k1) r1 = (q, r2)"
    by fastforce
  note qe = put_entry_effect [OF assms(1) c1 q disjI1 [OF refl]]
  have un: "updateKey E k vet r =
      (case (if vet then vetKey E OpUpdate k else None) of
         Some e \<Rightarrow> (Inl (ErrWrap ''key.(VaultRepository).updateKey'' None e), r)
       | None \<Rightarrow> (case g of
           Inl e \<Rightarrow> (Inl (ErrWrap ''key.(VaultRepository).updateKey'' None e), r1)
         | Inr old \<Rightarrow> if kName old \<noteq> kName k
             then (Inl (ErrNew ''key.(VaultRepository).updateKey'' CodeInvalidArgument
                       ''key name cannot be updated''), r1)
             else (case q of
                 Inl e \<Rightarrow> (Inl (ErrWrap ''key.(VaultRepository).updateKey'' None e), r2)
               | Inr _ \<Rightarrow> (Inr k1, r2))))"
    using g q k1 by (auto simp: updateKey_def Let_def split: option.splits sum.splits)
  show "coherent C r'"
    using assms(2,3) c1 qe(1) un by (auto split: option.splits sum.splits if_splits)
  show "(\<exists>now. k' = k\<lparr>kUpdateTime := now\<rparr>) \<and>
           (\<exists>old. key_at E (mem C r) (kPublicId k) = Some old \<and> kName old = kName k) \<and>
           (\<exists>b. marshalKey E k' = Inr b \<and> mem C r' = (mem C r)(keyStoragePrefix @ kPublicId k \<mapsto> b))"
    if "res = Inr k'"
  proof -
    from assms(3) un that obtain old where o: "g = Inr old" "kName old = kName k" "q = Inr ()"
      "k' = k1" "r' = r2"
      by (simp split: option.splits sum.splits if_splits)
    moreover have "\<exists>now. k' = k\<lparr>kUpdateTime := now\<rparr>" unfolding o(4) k1 by (rule exI, rule refl)
    ultimately show ?thesis using ge(2) [OF o(1)] qe(2) [OF o(3)] mem_same [OF ge(1)] by simp
  qed
  show "same_repo C r r'" if "res = Inl e"
  proof -
    from assms(3) un that consider "r' = r" | "r' = r1" | e' where "q = Inl e'" "r' = r2"
      by (auto split: option.splits sum.splits if_splits)
    then show ?thesis using ge(1) qe(3) by cases (simp_all add: same_repo_def)
  qed
  show "\<exists>k'. res = Inr k'"
    if "storage_reliable E" "vet \<longrightarrow> vetKey E OpUpdate k = None" "\<And>x. \<not> isl (marshalKey E x)"
      "key_at E (mem C r) (kPublicId k) = Some old" "kName old = kName k"
  proof -
    have "g = Inr old" using ge(5) that(4) storage_reliable_parts [OF that(1)] by simp
    moreover have "q = Inr ()" using qe(4) that(1,3) by simp
    ultimately show ?thesis using assms(3) un that(2,5) by (auto split: if_splits)
  qed
qed

lemma deleteKey_effect:
  assumes "env_ok E C" "coherent C r" "deleteKey E pid r = (res, r')"
  shows "coherent C r'"
    and "res = Inr u \<Longrightarrow> \<exists>k. key_at E (mem C r) pid = Some k \<and> kName k \<noteq> [] \<and>
           mem C r' = (mem C r)(keyNameToIDStoragePrefix @ kName k := None, keyStoragePrefix @ pid := None)"
    and "res = Inl e \<Longrightarrow> deletes_reliable E \<Longrightarrow> mem C r' = mem C r"
    and "deletes_reliable E \<Longrightarrow> reads_reliable E \<Longrightarrow> key_at E (mem C r) pid = Some k \<Longrightarrow> kName k \<noteq> [] \<Longrightarrow>
           res = Inr ()"
    and "reads_reliable E \<Longrightarrow> mem C r (keyStoragePrefix @ pid) = None \<Longrightarrow>
           \<exists>e. res = Inl e \<and> hasCode (errs E) CodeKeyNotFound e"
proof -
  note env = env_okD [OF assms(1)] and ep = errors_pkg_okD [OF env_okD(2) [OF assms(1)]]
  obtain g r1 where g: "getKey E pid r = (g, r1)" by fastforce
  note ge = getKey_effect [OF assms(1) g]
  have c1: "coherent C r1" using coherent_same [OF ge(1)] assms(2) by simp
  obtain d r2 where d: "deleteKeyNameToID E (kName (projr g)) r1 = (d, r2)" by fastforce
  note de = deleteKeyNameToID_effect [OF assms(1) c1 d]
  obtain q s where q: "vDelete E keyStoragePrefix pid (store r2) = (q, s)" by fastforce
  note law = vDelete_law [OF env(1) q]
  have un: "deleteKey E pid r = (case g of
      Inl e \<Rightarrow> (Inl (ErrWrap ''key.(VaultRepository).deleteKey'' None e), r1)
    | Inr k \<Rightarrow> (case d of
        Inl e \<Rightarrow> (Inl (ErrWrap ''key.(VaultRepository).deleteKey'' None e), r2)
      | Inr _ \<Rightarrow> (q, r2\<lparr>store := s\<rparr>)))"
    using g d q by (auto simp: deleteKey_def split: sum.splits)
  have "coherent C (r2\<lparr>store := s\<rparr>)"
    using de(1) law by (cases q) (auto simp: coherent_def)
  then show "coherent C r'"
    using assms(3) un c1 de(1) by (auto split: sum.splits)
  show "res = Inr u \<Longrightarrow> \<exists>k. key_at E (mem C r) pid = Some k \<and> kName k \<noteq> [] \<and>
           mem C r' = (mem C r)(keyNameToIDStoragePrefix @ kName k := None, keyStoragePrefix @ pid := None)"
    using assms(3) un ge(2) mem_same [OF ge(1)] de(2) law by (auto split: sum.splits)
  have qok: "q = Inr ()" if "deletes_reliable E"
    using that q unfolding deletes_reliable_def by (cases q) (metis fst_conv sum.disc(1), simp)
  show "res = Inl e \<Longrightarrow> deletes_reliable E \<Longrightarrow> mem C r' = mem C r"
    using assms(3) un mem_same [OF ge(1)] de(3) qok by (auto split: sum.splits)
  show "res = Inr ()" if "deletes_reliable E" "reads_reliable E" "key_at E (mem C r) pid = Some k" "kName k \<noteq> []"
    using assms(3) un ge(5) [OF that(2,3)] de(4) [OF that(1)] qok [OF that(1)] that(4)
    by (auto split: sum.splits)
  show "\<exists>e. res = Inl e \<and> hasCode (errs E) CodeKeyNotFound e"
    if "reads_reliable E" "mem C r (keyStoragePrefix @ pid) = None"
    using ge(4) [OF that] assms(3) un ep by (auto split: sum.splits)
qed

section \<open>Versions\<close>

definition stampedV :: "version \<Rightarrow> version \<Rightarrow> bool" where
  "stampedV v v' \<longleftrightarrow> (\<exists>now. v' = v\<lparr>vCreateTime := now, vUpdateTime := now\<rparr>)"

lemma stampedV_simps [simp]:
  assumes "stampedV v v'"
  shows "vKeyId v' = vKeyId v" "vVersion v' = vVersion v"
  using assms by (auto simp: stampedV_def)

lemma putKeyVersion_effect:
  assumes "env_ok E C" "coherent C r" "putKeyVersion E v vet r = (res, r')"
  shows "coherent C r'"
    and "res = Inr v' \<Longrightarrow> stampedV v v' \<and>
           mem C r (keyVersionStoragePrefix @ versionKey (vKeyId v) (vVersion v)) = None \<and>
           (\<exists>b. marshalVersion E v' = Inr b \<and>
              mem C r' = (mem C r)(keyVersionStoragePrefix @ versionKey (vKeyId v) (vVersion v) \<mapsto> b))"
    and "res = Inl e \<Longrightarrow> same_repo C r r'"
    and "storage_reliable E \<Longrightarrow> (vet \<longrightarrow> vetVersion E OpCreate v = None) \<Longrightarrow>
           (\<And>s. \<not> isl (marshalVersion E (v\<lparr>vCreateTime := clock E s, vUpdateTime := clock E s\<rparr>))) \<Longrightarrow>
           mem C r (keyVersionStoragePrefix @ versionKey (vKeyId v) (vVersion v)) = None \<Longrightarrow> \<exists>v'. res = Inr v'"
proof -
  obtain g r1 where g: "getKeyVersion E (vKeyId v) (vVersion v) r = (g, r1)" by fastforce
  note ge = getKeyVersion_effect [OF assms(1) g]
  have c1: "coherent C r1" using coherent_same [OF ge(1)] assms(2) by simp
  obtain v1 where v1: "v1 = v\<lparr>vCreateTime := clock E (store r1), vUpdateTime := clock E (store r1)\<rparr>" by simp
  have st: "stampedV v v1" unfolding stampedV_def v1 by (rule exI, rule refl)
  obtain q r2 where q: "put_entry E keyVersionStoragePrefix (versionKey (vKeyId v) (vVersion v))
      (marshalVersion E v1) r1 = (q, r2)" by fastforce
  note qe = put_entry_effect [OF assms(1) c1 q disjI2 [OF refl]]
  have un: "putKeyVersion E v vet r =
      (case (if vet then vetVersion E OpCreate v else None) of
         Some e \<Rightarrow> (Inl (ErrWrap ''key.(VaultRepository).putKeyVersion'' None e), r)
       | None \<Rightarrow> (case g of
           Inr old \<Rightarrow> (Inl (ErrNew ''key.(VaultRepository).putKeyVersion'' CodeAlreadyExists
                  (''key version already exists: (keyId: '' @ vKeyId v @ '', version: '' @
                     show_nat (unat (vVersion v)) @ '')'')), r1)
         | Inl e \<Rightarrow> if \<not> hasCode (errs E) CodeKeyNotFound e
             then (Inl (ErrWrap ''key.(VaultRepository).putKeyVersion'' None e), r1)
             else (case q of Inl e' \<Rightarrow> (Inl e', r2) | Inr _ \<Rightarrow> (Inr v1, r2))))"
    using g q v1 by (auto simp: putKeyVersion_def Let_def split: option.splits sum.splits)
  show "coherent C r'"
    using assms(2,3) c1 qe(1) un by (auto split: option.splits sum.splits if_splits)
  show "stampedV v v' \<and>
           mem C r (keyVersionStoragePrefix @ versionKey (vKeyId v) (vVersion v)) = None \<and>
           (\<exists>b. marshalVersion E v' = Inr b \<and>
              mem C r' = (mem C r)(keyVersionStoragePrefix @ versionKey (vKeyId v) (vVersion v) \<mapsto> b))"
    if "res = Inr v'"
  proof -
    from assms(3) un that obtain e where o: "g = Inl e" "hasCode (errs E) CodeKeyNotFound e" "q = Inr ()"
      "v' = v1" "r' = r2"
      by (simp split: option.splits sum.splits if_splits)
    then show ?thesis using ge(3) [OF o(1,2)] qe(2) [OF o(3)] mem_same [OF ge(1)] st by simp
  qed
  show "same_repo C r r'" if "res = Inl e"
  proof -
    from assms(3) un that consider "r' = r" | "r' = r1" | e' where "q = Inl e'" "r' = r2"
      by (auto split: option.splits sum.splits if_splits)
    then show ?thesis using ge(1) qe(3) by cases (simp_all add: same_repo_def)
  qed
  show "\<exists>v'. res = Inr v'"
    if "storage_reliable E" "vet \<longrightarrow> vetVersion E OpCreate v = None" "\<And>s. \<not> isl (marshalVersion E (v\<lparr>vCreateTime := clock E s, vUpdateTime := clock E s\<rparr>))"
      "mem C r (keyVersionStoragePrefix @ versionKey (vKeyId v) (vVersion v)) = None"
  proof -
    from ge(4) that(4) storage_reliable_parts [OF that(1)] obtain e where
      "g = Inl e" "hasCode (errs E) CodeKeyNotFound e" by auto
    moreover have "q = Inr ()" using qe(4) that(1) that(3) [of "store r1"] by (simp add: v1)
    ultimately show ?thesis using assms(3) un that(2) by (auto split: if_splits)
  qed
qed

section \<open>Whole operations\<close>

abbreviation name_slot :: "string \<Rightarrow> string" where "name_slot n \<equiv> keyNameToIDStoragePrefix @ n"
abbreviation key_slot :: "string \<Rightarrow> string" where "key_slot i \<equiv> keyStoragePrefix @ i"
abbreviation version_slot :: "string \<Rightarrow> 32 word \<Rightarrow> string" where
  "version_slot i n \<equiv> keyVersionStoragePrefix @ versionKey i n"

text \<open>The contents after a successful creation.\<close>

definition created ::
  "'s vault_env \<Rightarrow> key \<Rightarrow> version \<Rightarrow> (string \<rightharpoonup> blob) \<Rightarrow> key \<Rightarrow> version \<Rightarrow> (string \<rightharpoonup> blob) \<Rightarrow> bool" where
  "created E k v m k' v' m' \<longleftrightarrow> stamped k k' \<and> stampedV v v' \<and> kName k \<noteq> [] \<and> kPublicId k \<noteq> [] \<and>
     vKeyId v = kPublicId k \<and> m (key_slot (kPublicId k)) = None \<and> names_of m (kName k) = None \<and>
     m (version_slot (kPublicId k) (vVersion v)) = None \<and>
     (\<exists>bk bv. marshalKey E k' = Inr bk \<and> marshalVersion E v' = Inr bv \<and>
        m' = m(name_slot (kName k) \<mapsto> kPublicId k, key_slot (kPublicId k) \<mapsto> bk,
               version_slot (kPublicId k) (vVersion v) \<mapsto> bv))"

lemma key_at_upd [simp]:
  "key_at E (m(key_slot i \<mapsto> b)) =
     (key_at E m)(i := (case unmarshalKey E b of Inl _ \<Rightarrow> None | Inr k \<Rightarrow> Some k))"
  "key_at E (m(key_slot i := None)) = (key_at E m)(i := None)"
  "key_at E (m(name_slot n := x)) = key_at E m"
  "key_at E (m(keyVersionStoragePrefix @ t := x)) = key_at E m"
  by (auto simp: key_at_def fun_eq_iff)

lemma CreateKey_effect:
  assumes "env_ok E C" "coherent C r" "CreateKey E vet n k0 v0 r = (res, r')"
  shows "coherent C r'"
    and "res = Inr (k', v') \<Longrightarrow> \<exists>k v. k0 = Some k \<and> v0 = Some v \<and> vVersion v = n \<and>
           created E k v (mem C r) k' v' (mem C r')"
    and "res = Inl e \<Longrightarrow> deletes_reliable E \<Longrightarrow> reads_reliable E \<Longrightarrow> mem C r' = mem C r"
proof -
  have "coherent C r' \<and>
    (\<forall>k' v'. res = Inr (k', v') \<longrightarrow> (\<exists>k v. k0 = Some k \<and> v0 = Some v \<and> vVersion v = n \<and>
           created E k v (mem C r) k' v' (mem C r'))) \<and>
    (\<forall>e. res = Inl e \<longrightarrow> deletes_reliable E \<longrightarrow> reads_reliable E \<longrightarrow> mem C r' = mem C r)"
  proof (cases "\<exists>k v. k0 = Some k \<and> v0 = Some v \<and> kPublicId k = vKeyId v \<and> vVersion v = n")
    case False
    then have "r' = r \<and> isl res" using assms(3) by (auto simp: CreateKey_def split: option.splits if_splits)
    then show ?thesis using assms(2) by auto
  next
    case True
    then obtain k v where kv: "k0 = Some k" "v0 = Some v" "kPublicId k = vKeyId v" "vVersion v = n" by blast
    obtain g r1 where g: "putKey E k vet r = (g, r1)" by fastforce
    note ge = putKey_effect [OF assms(1,2) g]
    obtain q r2 where q: "putKeyVersion E v vet r1 = (q, r2)" by fastforce
    note qe = putKeyVersion_effect [OF assms(1) ge(1) q]
    obtain d r3 where d: "deleteKey E (kPublicId (projr g)) r2 = (d, r3)" by fastforce
    note de = deleteKey_effect [OF assms(1) qe(1) d]
    have un: "CreateKey E vet n k0 v0 r = (case g of
        Inl e \<Rightarrow> (Inl (ErrWrap ''key.(VaultRepository).CreateKey'' None e), r1)
      | Inr k' \<Rightarrow> (case q of
          Inl e \<Rightarrow> (Inl (ErrWrap ''key.(VaultRepository).CreateKey'' None e), r3)
        | Inr v' \<Rightarrow> (Inr (k', v'), r2)))"
      using g q d kv by (auto simp: CreateKey_def split: sum.splits)
    show ?thesis
    proof (cases g)
      case (Inl e)
      then show ?thesis using un assms(3) ge(1,3) by auto
    next
      case (Inr k')
      from ge(2) [OF Inr] obtain b where gk: "stamped k k'" "kName k \<noteq> []" "kPublicId k \<noteq> []"
        "mem C r (key_slot (kPublicId k)) = None" "names_of (mem C r) (kName k) = None"
        "marshalKey E k' = Inr b"
        "mem C r1 = (mem C r)(name_slot (kName k) \<mapsto> kPublicId k, key_slot (kPublicId k) \<mapsto> b)"
        by blast
      show ?thesis
      proof (cases q)
        case (Inl e)
        have m2: "mem C r2 = mem C r1" by (rule mem_same [OF qe(3) [OF Inl]])
        have "mem C r3 = mem C r" if "deletes_reliable E" "reads_reliable E"
        proof -
          have ka: "key_at E (mem C r2) (kPublicId (projr g)) = Some k'"
            using m2 gk(1,6,7) Inr env_okD(3) [OF assms(1)] by simp
          from de(4) [OF that ka] gk(1,2) have "d = Inr ()" by simp
          from de(2) [OF this] ka gk m2 Inr show ?thesis
            by (auto simp: names_of_def fun_upd_twist fun_upd_idem)
        qed
        then show ?thesis using un assms(3) Inr Inl de(1) by auto
      next
        case (Inr v')
        from qe(2) [OF Inr] gk kv(3) obtain bv where "stampedV v v'" "marshalVersion E v' = Inr bv"
          "mem C r (version_slot (vKeyId v) (vVersion v)) = None"
          "mem C r2 = (mem C r1)(version_slot (vKeyId v) (vVersion v) \<mapsto> bv)" by auto
        then have "created E k v (mem C r) k' v' (mem C r2)"
          unfolding created_def using gk kv(3) by auto
        then show ?thesis using un assms(3) Inr \<open>g = Inr k'\<close> qe(1) kv by auto
      qed
    qed
  qed
  then show "coherent C r'"
    and "res = Inr (k', v') \<Longrightarrow> \<exists>k v. k0 = Some k \<and> v0 = Some v \<and> vVersion v = n \<and>
           created E k v (mem C r) k' v' (mem C r')"
    and "res = Inl e \<Longrightarrow> deletes_reliable E \<Longrightarrow> reads_reliable E \<Longrightarrow> mem C r' = mem C r"
    by simp_all
qed

end
