(* ===== verification/Key_Repository_Spec.thy ===== *)
theory Key_Repository_Spec
  imports Key_Repository_Writes
begin

text \<open>
  The contract of the key repository: the well-formedness of its storage, that every operation
  keeps it, that failed operations change nothing, the abstract repository of keys and versions
  the operations implement, and the interface clients rely on.
\<close>

section \<open>The remaining operations\<close>

lemma guarded_write_cases:
  assumes "(if p then (Inl e0, r) else case g of
      Inl e \<Rightarrow> (Inl (f e), r1)
    | Inr k \<Rightarrow> if c k then (Inl (e1 k), r1)
        else case q of
          Inl e \<Rightarrow> (Inl (f e), r2)
        | Inr v \<Rightarrow> (case h of Inl e \<Rightarrow> (Inl (f e), r4) | Inr _ \<Rightarrow> (Inr v, r3))) = (res, r')"
  shows "isl res \<and> (r' = r \<or> r' = r1 \<or> isl q \<and> r' = r2 \<or> \<not> isl q \<and> isl h \<and> r' = r4) \<or>
    res = Inr (projr q) \<and> \<not> isl g \<and> \<not> c (projr g) \<and> \<not> p \<and> \<not> isl q \<and> \<not> isl h \<and> r' = r3"
  using assms by (cases p; cases g; cases q; cases h) (auto split: if_splits)

lemma AddVersion_effect:
  assumes "env_ok E C" "coherent C r" "AddVersion E vet v r = (res, r')"
  shows "coherent C r'"
    and "res = Inr v' \<Longrightarrow> \<exists>k now bk bv. key_at E (mem C r) (vKeyId v) = Some k \<and>
           vVersion v = kCurrentVersion k + 1 \<and> stampedV v v' \<and> vKeyId v \<noteq> [] \<and>
           mem C r (version_slot (vKeyId v) (vVersion v)) = None \<and> marshalVersion E v' = Inr bv \<and>
           marshalKey E (k\<lparr>kCurrentVersion := kCurrentVersion k + 1, kUpdateTime := now\<rparr>) = Inr bk \<and>
           (\<exists>old. key_at E (mem C r) (kPublicId k) = Some old \<and> kName old = kName k) \<and>
           mem C r' = (mem C r)(version_slot (vKeyId v) (vVersion v) \<mapsto> bv, key_slot (kPublicId k) \<mapsto> bk)"
    and "res = Inl e \<Longrightarrow> deletes_reliable E \<Longrightarrow> mem C r' = mem C r"
proof -
  note env = env_okD [OF assms(1)]
  obtain g r1 where g: "getKey E (vKeyId v) r = (g, r1)" by fastforce
  note ge = getKey_effect [OF assms(1) g]
  have c1: "coherent C r1" using coherent_same [OF ge(1)] assms(2) by simp
  let ?k = "projr g"
  let ?k1 = "?k\<lparr>kCurrentVersion := kCurrentVersion ?k + 1\<rparr>"
  obtain q r2 where q: "putKeyVersion E v vet r1 = (q, r2)" by fastforce
  note qe = putKeyVersion_effect [OF assms(1) c1 q]
  obtain h r3 where h: "updateKey E ?k1 vet r2 = (h, r3)" by fastforce
  note he = updateKey_effect [OF assms(1) qe(1) h]
  obtain d s where d: "vDelete E keyVersionStoragePrefix (versionKey (vKeyId v) (vVersion v)) (store r3) = (d, s)"
    by fastforce
  note law = vDelete_law [OF env(1) d]
  have c4: "coherent C (r3\<lparr>store := s\<rparr>)" using he(1) law by (cases d) (auto simp: coherent_def)
  have un: "AddVersion E vet v r = (if vKeyId v = [] then
      (Inl (ErrNew ''key.(VaultRepository).AddVersion'' CodeInvalidArgument ''keyId is required''), r)
    else case g of
      Inl e \<Rightarrow> (Inl (ErrWrap ''key.(VaultRepository).AddVersion'' None e), r1)
    | Inr k \<Rightarrow> if vVersion v \<noteq> kCurrentVersion k + 1
        then (Inl (ErrNew ''key.(VaultRepository).AddVersion'' CodeInvalidArgument
                  (''invalid next version number (expected: '' @ show_nat (unat (kCurrentVersion k + 1)) @
                   '', got: '' @ show_nat (unat (vVersion v)) @ '')'')), r1)
        else case q of
          Inl e \<Rightarrow> (Inl (ErrWrap ''key.(VaultRepository).AddVersion'' None e), r2)
        | Inr v1 \<Rightarrow> (case h of
            Inl e \<Rightarrow> (Inl (ErrWrap ''key.(VaultRepository).AddVersion'' None e), r3\<lparr>store := s\<rparr>)
          | Inr _ \<Rightarrow> (Inr v1, r3)))"
    using g q h d by (cases g; cases q; cases h; auto simp: AddVersion_def)
  have "isl res \<and> (r' = r \<or> r' = r1 \<or> (isl q \<and> r' = r2) \<or>
        (\<not> isl q \<and> isl h \<and> r' = r3\<lparr>store := s\<rparr>)) \<or>
      res = Inr (projr q) \<and> \<not> isl g \<and> vVersion v = kCurrentVersion ?k + 1 \<and> vKeyId v \<noteq> [] \<and>
        \<not> isl q \<and> \<not> isl h \<and> r' = r3"
    using guarded_write_cases [OF trans [OF un [symmetric] assms(3)]] by simp
  then consider (early) "isl res" "r' = r"
    | (lookup) "isl res" "r' = r1"
    | (put) "isl res" "isl q" "r' = r2"
    | (undo) "isl res" "\<not> isl q" "isl h" "r' = r3\<lparr>store := s\<rparr>"
    | (ok) "res = Inr (projr q)" "\<not> isl g" "vVersion v = kCurrentVersion ?k + 1" "vKeyId v \<noteq> []"
        "\<not> isl q" "\<not> isl h" "r' = r3"
    by blast
  then have "coherent C r' \<and> (\<forall>v'. res = Inr v' \<longrightarrow>
        (\<exists>k now bk bv. key_at E (mem C r) (vKeyId v) = Some k \<and>
           vVersion v = kCurrentVersion k + 1 \<and> stampedV v v' \<and> vKeyId v \<noteq> [] \<and>
           mem C r (version_slot (vKeyId v) (vVersion v)) = None \<and> marshalVersion E v' = Inr bv \<and>
           marshalKey E (k\<lparr>kCurrentVersion := kCurrentVersion k + 1, kUpdateTime := now\<rparr>) = Inr bk \<and>
           (\<exists>old. key_at E (mem C r) (kPublicId k) = Some old \<and> kName old = kName k) \<and>
           mem C r' = (mem C r)(version_slot (vKeyId v) (vVersion v) \<mapsto> bv, key_slot (kPublicId k) \<mapsto> bk))) \<and>
      (\<forall>e. res = Inl e \<longrightarrow> deletes_reliable E \<longrightarrow> mem C r' = mem C r)"
  proof cases
    case early then show ?thesis using assms(2) by auto
  next
    case lookup then show ?thesis using c1 mem_same [OF ge(1)] by auto
  next
    case put then show ?thesis
      using qe(1) mem_same [OF ge(1)] mem_same [OF qe(3)] by (auto simp: isl_def)
  next
    case undo
    then obtain e v1 where hq: "h = Inl e" "q = Inr v1" by (cases h; cases q; simp)
    note m = mem_same [OF he(3) [OF hq(1)]] and p = qe(2) [OF hq(2)]
    have "d = Inr ()" if "deletes_reliable E"
      using that d unfolding deletes_reliable_def by (cases d) (metis fst_conv sum.disc(1), simp)
    then have "mem C r' = mem C r" if "deletes_reliable E"
      using that law(1) m p mem_same [OF ge(1)] undo(4) by (auto simp: fun_upd_idem)
    then show ?thesis using undo c4 by auto
  next
    case ok
    then obtain k v1 k1 where gqh: "g = Inr k" "q = Inr v1" "h = Inr k1" by (cases g; cases q; cases h; simp)
    from qe(2) [OF gqh(2)] obtain bv where p: "stampedV v v1" "marshalVersion E v1 = Inr bv"
      "mem C r1 (version_slot (vKeyId v) (vVersion v)) = None"
      "mem C r2 = (mem C r1)(version_slot (vKeyId v) (vVersion v) \<mapsto> bv)" by blast
    from he(2) [OF gqh(3)] gqh(1) obtain now bk old where u: "k1 = k\<lparr>kCurrentVersion := kCurrentVersion k + 1, kUpdateTime := now\<rparr>"
      "marshalKey E k1 = Inr bk" "key_at E (mem C r2) (kPublicId k) = Some old" "kName old = kName k"
      "mem C r3 = (mem C r2)(key_slot (kPublicId k) \<mapsto> bk)" by auto
    have "key_at E (mem C r) (vKeyId v) = Some k" by (rule ge(2) [OF gqh(1)])
    with p u ok gqh he(1) mem_same [OF ge(1)] show ?thesis by auto
  qed
  then show "coherent C r'"
    and "res = Inr v' \<Longrightarrow> \<exists>k now bk bv. key_at E (mem C r) (vKeyId v) = Some k \<and>
           vVersion v = kCurrentVersion k + 1 \<and> stampedV v v' \<and> vKeyId v \<noteq> [] \<and>
           mem C r (version_slot (vKeyId v) (vVersion v)) = None \<and> marshalVersion E v' = Inr bv \<and>
           marshalKey E (k\<lparr>kCurrentVersion := kCurrentVersion k + 1, kUpdateTime := now\<rparr>) = Inr bk \<and>
           (\<exists>old. key_at E (mem C r) (kPublicId k) = Some old \<and> kName old = kName k) \<and>
           mem C r' = (mem C r)(version_slot (vKeyId v) (vVersion v) \<mapsto> bv, key_slot (kPublicId k) \<mapsto> bk)"
    and "res = Inl e \<Longrightarrow> deletes_reliable E \<Longrightarrow> mem C r' = mem C r"
    by simp_all
qed

text \<open>The version entries \<open>DeleteKey\<close> removes, given the contents it lists.\<close>

definition listed_versions :: "(string \<rightharpoonup> blob) \<Rightarrow> string \<Rightarrow> string set" where
  "listed_versions m pid =
     (\<lambda>t. keyVersionStoragePrefix @ versionKeyStr pid (child t)) `
       {t. m (keyVersionStoragePrefix @ versionPrefix pid @ t) \<noteq> None}"

lemma deleteVersions_effect:
  assumes "env_ok E C" "coherent C r" "deleteVersions E pid vs r = (res, r')"
  shows "coherent C r' \<and> (\<forall>u. res = Inr u \<longrightarrow> mem C r' =
      (\<lambda>x. if x \<in> (\<lambda>c. keyVersionStoragePrefix @ versionKeyStr pid c) ` set vs then None else mem C r x)) \<and>
    (deletes_reliable E \<longrightarrow> res = Inr ())"
  using assms
proof (induction vs arbitrary: r)
  case Nil
  then show ?case by simp
next
  case (Cons v vs)
  obtain d s where d: "vDelete E keyVersionStoragePrefix (versionKeyStr pid v) (store r) = (d, s)"
    by fastforce
  note law = vDelete_law [OF env_okD(1) [OF assms(1)] d]
  have c: "coherent C (r\<lparr>store := s\<rparr>)" using Cons.prems(2) law by (cases d) (auto simp: coherent_def)
  show ?case
  proof (cases d)
    case (Inl e)
    moreover have "\<not> deletes_reliable E" unfolding deletes_reliable_def using d Inl
      by (metis fst_conv sum.disc(1))
    ultimately show ?thesis using Cons.prems(3) d c by auto
  next
    case (Inr u)
    with Cons.IH [OF Cons.prems(1) c] Cons.prems(3) d law(1) show ?thesis
      by (auto simp: fun_eq_iff)
  qed
qed

lemma DeleteKey_effect:
  assumes "env_ok E C" "coherent C r" "DeleteKey E pid r = (res, r')"
  shows "coherent C r'"
    and "res = Inr u \<Longrightarrow> \<exists>k. key_at E (mem C r) pid = Some k \<and> kName k \<noteq> [] \<and>
           mem C r' = (\<lambda>x. if x \<in> listed_versions (mem C r) pid \<or> x = name_slot (kName k) \<or> x = key_slot pid
                           then None else mem C r x)"
    and "res = Inl e \<Longrightarrow> deletes_reliable E \<Longrightarrow> mem C r' = mem C r \<or>
           (\<exists>k. key_at E (mem C r) pid = Some k \<and> kName k \<noteq> [] \<and>
              mem C r' = (mem C r)(name_slot (kName k) := None, key_slot pid := None))"
    and "storage_reliable E \<Longrightarrow> key_at E (mem C r) pid = Some k \<Longrightarrow> kName k \<noteq> [] \<Longrightarrow> res = Inr ()"
    and "reads_reliable E \<Longrightarrow> mem C r (key_slot pid) = None \<Longrightarrow>
           \<exists>e. res = Inl e \<and> hasCode (errs E) CodeKeyNotFound e"
proof -
  note env = env_okD [OF assms(1)] and ep = errors_pkg_okD [OF env_okD(2) [OF assms(1)]]
  obtain g r1 where g: "deleteKey E pid r = (g, r1)" by fastforce
  note ge = deleteKey_effect [OF assms(1,2) g]
  obtain l s where l: "vList E keyVersionStoragePrefix (versionPrefix pid) (store r1) = (l, s)" by fastforce
  note law = vList_law [OF env(1) l]
  have c2: "coherent C (r1\<lparr>store := s\<rparr>)" using ge(1) law(1) by (simp add: coherent_def)
  obtain h r2 where h: "deleteVersions E pid (projr l) (r1\<lparr>store := s\<rparr>) = (h, r2)" by fastforce
  note he = deleteVersions_effect [OF assms(1) c2 h]
  have un: "DeleteKey E pid r = (case g of
      Inl e \<Rightarrow> (Inl (ErrWrap ''key.(VaultRepository).DeleteKey'' None e), r1)
    | Inr _ \<Rightarrow> (case l of
        Inl e \<Rightarrow> (Inl (ErrWrap ''key.(VaultRepository).DeleteKey'' None e), r1\<lparr>store := s\<rparr>)
      | Inr vs \<Rightarrow> (h, r2)))"
    using g l h by (auto simp: DeleteKey_def split: sum.splits)
  show "coherent C r'" using un assms(3) ge(1) c2 he by (auto split: sum.splits)
  show "\<exists>k. key_at E (mem C r) pid = Some k \<and> kName k \<noteq> [] \<and>
           mem C r' = (\<lambda>x. if x \<in> listed_versions (mem C r) pid \<or> x = name_slot (kName k) \<or> x = key_slot pid
                           then None else mem C r x)" if "res = Inr u"
  proof -
    from un assms(3) that obtain vs where 1: "g = Inr ()" "l = Inr vs" "h = Inr u" "r' = r2"
      by (auto split: sum.splits)
    from ge(2) [OF 1(1)] obtain k where k: "key_at E (mem C r) pid = Some k" "kName k \<noteq> []"
      "mem C r1 = (mem C r)(name_slot (kName k) := None, key_slot pid := None)" by blast
    have "(\<lambda>c. keyVersionStoragePrefix @ versionKeyStr pid c) ` set vs = listed_versions (mem C r) pid"
      using law(2) [OF 1(2)] k(3) by (simp add: listed_versions_def image_image)
    with he 1 k law(1) have "mem C r' = (\<lambda>x. if x \<in> listed_versions (mem C r) pid then None else mem C r1 x)"
      by (simp cong: if_cong)
    with k show ?thesis by (auto simp: fun_eq_iff)
  qed
  show "mem C r' = mem C r \<or> (\<exists>k. key_at E (mem C r) pid = Some k \<and> kName k \<noteq> [] \<and>
        mem C r' = (mem C r)(name_slot (kName k) := None, key_slot pid := None))"
    if "res = Inl e" "deletes_reliable E"
    using un assms(3) that ge(2,3) he law(1) by (auto split: sum.splits)
  show "res = Inr ()" if "storage_reliable E" "key_at E (mem C r) pid = Some k" "kName k \<noteq> []"
    using un assms(3) ge(4) [OF _ _ that(2,3)] storage_reliable_parts [OF that(1)] he l
      storage_reliableD(4) [OF that(1), of keyVersionStoragePrefix "versionPrefix pid" "store r1"]
    by (auto split: sum.splits)
  show "\<exists>e. res = Inl e \<and> hasCode (errs E) CodeKeyNotFound e"
    if "reads_reliable E" "mem C r (key_slot pid) = None"
    using un assms(3) ge(5) [OF that] ep by (auto split: sum.splits)
qed

section \<open>Well-formed storage\<close>

text \<open>
  Every key entry decodes to a key with that id and a non-empty name that the index maps back
  to the id; every index entry names such a key; every version entry decodes to the version
  its storage key spells.
\<close>

definition wf_keys :: "'s vault_env \<Rightarrow> (string \<rightharpoonup> blob) \<Rightarrow> bool" where
  "wf_keys E m \<longleftrightarrow> (\<forall>i b. m (key_slot i) = Some b \<longrightarrow>
     (\<exists>k. unmarshalKey E b = Inr k \<and> kPublicId k = i \<and> kName k \<noteq> [] \<and> names_of m (kName k) = Some i))"

definition wf_names :: "'s vault_env \<Rightarrow> (string \<rightharpoonup> blob) \<Rightarrow> bool" where
  "wf_names E m \<longleftrightarrow> (\<forall>n i. names_of m n = Some i \<longrightarrow> (\<exists>k. key_at E m i = Some k \<and> kName k = n))"

definition wf_versions :: "'s vault_env \<Rightarrow> (string \<rightharpoonup> blob) \<Rightarrow> bool" where
  "wf_versions E m \<longleftrightarrow> (\<forall>t b. m (keyVersionStoragePrefix @ t) = Some b \<longrightarrow>
     (\<exists>v. unmarshalVersion E b = Inr v \<and> t = versionKey (vKeyId v) (vVersion v)))"

definition wf_store :: "'s vault_env \<Rightarrow> (string \<rightharpoonup> blob) \<Rightarrow> bool" where
  "wf_store E m \<longleftrightarrow> wf_keys E m \<and> wf_names E m \<and> wf_versions E m"

definition repo_inv :: "'s vault_env \<Rightarrow> ('s \<Rightarrow> string \<rightharpoonup> blob) \<Rightarrow> 's repo \<Rightarrow> bool" where
  "repo_inv E C r \<longleftrightarrow> coherent C r \<and> wf_store E (mem C r)"

lemma repo_invD:
  assumes "repo_inv E C r"
  shows "coherent C r" "wf_keys E (mem C r)" "wf_names E (mem C r)" "wf_versions E (mem C r)"
  using assms by (simp_all add: repo_inv_def wf_store_def)

lemma key_at_SomeD:
  assumes "wf_keys E m" "key_at E m i = Some k"
  shows "kPublicId k = i" "kName k \<noteq> []" "names_of m (kName k) = Some i"
  using assms by (fastforce simp: wf_keys_def key_at_def split: option.splits sum.splits)+

lemma key_at_None:
  assumes "wf_keys E m"
  shows "key_at E m i = None \<longleftrightarrow> m (key_slot i) = None"
  using assms by (fastforce simp: wf_keys_def key_at_def split: option.splits sum.splits)

lemma version_at_None:
  assumes "wf_versions E m"
  shows "version_at E m (i, n) = None \<longleftrightarrow> m (version_slot i n) = None"
  using assms by (fastforce simp: wf_versions_def version_at_def split: option.splits sum.splits)

lemma version_at_SomeD:
  assumes "wf_versions E m" "version_at E m (i, n) = Some v"
  shows "vKeyId v = i" "vVersion v = n"
  using assms by (fastforce simp: wf_versions_def version_at_def split: option.splits sum.splits)+

lemma names_of_iff:
  assumes "wf_keys E m" "wf_names E m"
  shows "names_of m n = Some i \<longleftrightarrow> (\<exists>k. key_at E m i = Some k \<and> kName k = n)"
  using assms by (metis wf_names_def key_at_SomeD(3))

lemma wf_created:
  assumes env: "env_ok E C" and wf: "wf_store E m" and cr: "created E k v m k' v' m'"
  shows "wf_store E m'" and "key_at E m' = (key_at E m)(kPublicId k \<mapsto> k')"
    and "version_at E m' = (version_at E m)((kPublicId k, vVersion v) \<mapsto> v')"
proof -
  from cr obtain bk bv where c: "stamped k k'" "stampedV v v'" "kName k \<noteq> []" "vKeyId v = kPublicId k"
    "m (key_slot (kPublicId k)) = None" "names_of m (kName k) = None"
    "unmarshalKey E bk = Inr k'" "unmarshalVersion E bv = Inr v'"
    and m': "m' = m(name_slot (kName k) \<mapsto> kPublicId k, key_slot (kPublicId k) \<mapsto> bk,
               version_slot (kPublicId k) (vVersion v) \<mapsto> bv)"
    unfolding created_def using env_okD(3,4) [OF env] by blast
  show ka: "key_at E m' = (key_at E m)(kPublicId k \<mapsto> k')" by (simp add: m' c(7))
  show "version_at E m' = (version_at E m)((kPublicId k, vVersion v) \<mapsto> v')"
    using c(8) by (auto simp: m' version_at_def fun_eq_iff)
  have wk: "wf_keys E m" and wn: "wf_names E m" and wv: "wf_versions E m"
    using wf by (simp_all add: wf_store_def)
  have nm: "names_of m' = (names_of m)(kName k \<mapsto> kPublicId k)" by (simp add: m')
  have "wf_keys E m'" unfolding wf_keys_def
  proof (intro allI impI)
    fix i b assume b: "m' (key_slot i) = Some b"
    show "\<exists>x. unmarshalKey E b = Inr x \<and> kPublicId x = i \<and> kName x \<noteq> [] \<and> names_of m' (kName x) = Some i"
    proof (cases "i = kPublicId k")
      case True
      then show ?thesis using b c by (simp add: m' nm)
    next
      case False
      with b have "m (key_slot i) = Some b" by (simp add: m')
      with wk obtain x where x: "unmarshalKey E b = Inr x" "kPublicId x = i" "kName x \<noteq> []"
        "names_of m (kName x) = Some i" unfolding wf_keys_def by blast
      with c(6) have "kName x \<noteq> kName k" by auto
      with x show ?thesis by (simp add: nm)
    qed
  qed
  moreover have "wf_names E m'" unfolding wf_names_def nm ka
    using wn c(1,5) key_at_None [OF wk] by (auto simp: wf_names_def) (metis option.simps(3))
  moreover have "wf_versions E m'" using wv c by (auto simp: wf_versions_def m')
  ultimately show "wf_store E m'" by (simp add: wf_store_def)
qed

lemma wf_key_written:
  assumes wf: "wf_store E m" and old: "key_at E m i = Some old" "kName old = kName k"
    and k: "kPublicId k = i" "unmarshalKey E b = Inr k"
  shows "wf_store E (m(key_slot i \<mapsto> b))"
proof -
  have wk: "wf_keys E m" and wn: "wf_names E m" and wv: "wf_versions E m"
    using wf by (simp_all add: wf_store_def)
  note o = key_at_SomeD [OF wk old(1)]
  have "wf_keys E (m(key_slot i \<mapsto> b))" using wk k o old(2) by (simp add: wf_keys_def)
  moreover have "wf_names E (m(key_slot i \<mapsto> b))"
    using wn k old by (fastforce simp: wf_names_def)
  moreover have "wf_versions E (m(key_slot i \<mapsto> b))" using wv by (simp add: wf_versions_def)
  ultimately show ?thesis by (simp add: wf_store_def)
qed

lemma wf_version_written:
  assumes "wf_store E m" "unmarshalVersion E b = Inr v"
  shows "wf_store E (m(version_slot (vKeyId v) (vVersion v) \<mapsto> b))"
  using assms by (auto simp: wf_store_def wf_keys_def wf_names_def wf_versions_def)

lemma wf_removed:
  assumes wf: "wf_store E m" and k: "key_at E m i = Some k"
    and m': "\<And>n. m' (name_slot n) = (if n = kName k then None else m (name_slot n))"
      "\<And>j. m' (key_slot j) = (if j = i then None else m (key_slot j))"
      "\<And>t. m' (keyVersionStoragePrefix @ t) = None \<or>
        m' (keyVersionStoragePrefix @ t) = m (keyVersionStoragePrefix @ t)"
  shows "wf_store E m'" and "key_at E m' = (key_at E m)(i := None)"
proof -
  have wk: "wf_keys E m" and wn: "wf_names E m" and wv: "wf_versions E m"
    using wf by (simp_all add: wf_store_def)
  have nm: "names_of m' = (names_of m)(kName k := None)" using m'(1) by (auto simp: names_of_def fun_eq_iff)
  show ka: "key_at E m' = (key_at E m)(i := None)" using m'(2) by (auto simp: key_at_def fun_eq_iff)
  have "wf_keys E m'" using wk m'(2) k key_at_SomeD(3) [OF wk k]
    by (auto simp: wf_keys_def nm split: if_splits) (metis option.inject)
  moreover have "wf_names E m'" using wn k by (fastforce simp: wf_names_def nm ka)
  moreover have "wf_versions E m'" using wv m'(3) unfolding wf_versions_def by (metis option.simps(3))
  ultimately show "wf_store E m'" by (simp add: wf_store_def)
qed

end
