(* ===== verification/Key_Repository_Contract.thy ===== *)
theory Key_Repository_Contract
  imports Key_Repository_Spec
begin

text \<open>
  The key repository as its clients see it. Every operation keeps the invariant; the interface
  \<open>key_repository\<close> states what creation, lookup and deletion promise each other, and is
  interpreted on the Vault repository; the abstract repository \<open>a_step\<close> is what any run of
  operations implements.
\<close>

section \<open>Invariant\<close>

abbreviation sound_env :: "'s vault_env \<Rightarrow> ('s \<Rightarrow> string \<rightharpoonup> blob) \<Rightarrow> bool" where
  "sound_env E C \<equiv> env_ok E C \<and> reads_reliable E \<and> deletes_reliable E"

lemma repo_inv_new:
  assumes "C s = Map.empty" "list_all (\<lambda>x. x \<in> {None, Some (WithKeyNameToIDCacheSize n)}) opts"
    "NewVaultRepository (Some s) opts = Inr r"
  shows "repo_inv E C r" "mem C r = Map.empty"
proof -
  have "optNameFunc (getVaultRepositoryOpts opts) = None \<and>
        optCacheFactory (getVaultRepositoryOpts opts) = newLRUCache"
  proof -
    have "optNameFunc (fold (\<lambda>o1 acc. case o1 of None \<Rightarrow> acc | Some f \<Rightarrow> f acc) opts a) = optNameFunc a \<and>
      optCacheFactory (fold (\<lambda>o1 acc. case o1 of None \<Rightarrow> acc | Some f \<Rightarrow> f acc) opts a) = optCacheFactory a" for a
      using assms(2) by (induction opts arbitrary: a) (auto simp: WithKeyNameToIDCacheSize_def)
    then show ?thesis by (simp add: getVaultRepositoryOpts_def)
  qed
  with assms(3) obtain c where r: "r = \<lparr>keyNameToIDFunc = None, keyNameToIDCache = newLRUCache c, store = s\<rparr>"
    by (auto simp: NewVaultRepository_def Let_def)
  have "cached (newLRUCache c :: (string, string) lruCache) = Map.empty"
    by (simp add: cached_def newLRUCache_def entries_def fun_eq_iff)
  with assms(1) show "repo_inv E C r" "mem C r = Map.empty"
    by (auto simp: r repo_inv_def coherent_def lru_inv_new wf_store_def wf_keys_def wf_names_def
      wf_versions_def names_of_def)
qed

lemma repo_inv_same: "mem C r' = mem C r \<Longrightarrow> coherent C r' \<Longrightarrow> repo_inv E C r \<Longrightarrow> repo_inv E C r'"
  by (simp add: repo_inv_def)

lemma CreateKey_inv:
  assumes "sound_env E C" "repo_inv E C r" "CreateKey E vet n k0 v0 r = (res, r')"
  shows "repo_inv E C r'"
proof -
  have env: "env_ok E C" "reads_reliable E" "deletes_reliable E" using assms(1) by auto
  note ce = CreateKey_effect [OF env(1) repo_invD(1) [OF assms(2)] assms(3)]
  show ?thesis
  proof (cases res)
    case (Inl e)
    with ce(1) ce(3) [OF Inl env(3,2)] assms(2) show ?thesis by (simp add: repo_inv_same)
  next
    case (Inr kv)
    with ce(2) obtain k v where "created E k v (mem C r) (fst kv) (snd kv) (mem C r')"
      by (metis prod.collapse)
    from wf_created(1) [OF env(1) _ this] assms(2) ce(1) show ?thesis by (simp add: repo_inv_def)
  qed
qed

lemma updateKey_inv:
  assumes "env_ok E C" "repo_inv E C r" "updateKey E k vet r = (res, r')"
  shows "repo_inv E C r'"
proof -
  note ue = updateKey_effect [OF assms(1) repo_invD(1) [OF assms(2)] assms(3)]
  show ?thesis
  proof (cases res)
    case (Inl e)
    with mem_same [OF ue(3) [OF Inl]] ue(1) assms(2) show ?thesis by (simp add: repo_inv_same)
  next
    case (Inr k')
    from ue(2) [OF Inr] obtain now old b where "k' = k\<lparr>kUpdateTime := now\<rparr>"
      "key_at E (mem C r) (kPublicId k) = Some old" "kName old = kName k" "marshalKey E k' = Inr b"
      "mem C r' = (mem C r)(key_slot (kPublicId k) \<mapsto> b)" by blast
    with wf_key_written [of E "mem C r" "kPublicId k" old k' b] env_okD(3) [OF assms(1)] assms(2) ue(1)
    show ?thesis by (simp add: repo_inv_def)
  qed
qed

lemma UpdateKey_inv:
  assumes "env_ok E C" "repo_inv E C r" "UpdateKey E vet k0 r = (res, r')"
  shows "repo_inv E C r'"
proof (cases k0)
  case (Some k)
  obtain g r1 where "updateKey E k vet r = (g, r1)" by fastforce
  with Some assms(3) updateKey_inv [OF assms(1,2)] show ?thesis
    by (auto simp: UpdateKey_def split: sum.splits)
qed (use assms in \<open>simp add: UpdateKey_def\<close>)

lemma AddVersion_step:
  assumes "sound_env E C" "repo_inv E C r" "AddVersion E vet v r = (res, r')"
  shows "repo_inv E C r'"
    and "res = Inl e \<Longrightarrow> mem C r' = mem C r"
    and "res = Inr v' \<Longrightarrow> \<exists>k now. key_at E (mem C r) (vKeyId v) = Some k \<and>
           vVersion v = kCurrentVersion k + 1 \<and> stampedV v v' \<and>
           version_at E (mem C r) (vKeyId v, vVersion v) = None \<and>
           key_at E (mem C r') =
             (key_at E (mem C r))(vKeyId v \<mapsto> k\<lparr>kCurrentVersion := vVersion v, kUpdateTime := now\<rparr>) \<and>
           version_at E (mem C r') = (version_at E (mem C r))((vKeyId v, vVersion v) \<mapsto> v')"
proof -
  have env: "env_ok E C" "reads_reliable E" "deletes_reliable E" using assms(1) by auto
  note inv = repo_invD [OF assms(2)]
  note ae = AddVersion_effect [OF env(1) inv(1) assms(3)]
  show f: "res = Inl e \<Longrightarrow> mem C r' = mem C r" for e using ae(3) env(3) by simp
  have s: "wf_store E (mem C r') \<and> (\<exists>k now. key_at E (mem C r) (vKeyId v) = Some k \<and>
           vVersion v = kCurrentVersion k + 1 \<and> stampedV v v' \<and>
           version_at E (mem C r) (vKeyId v, vVersion v) = None \<and>
           key_at E (mem C r') =
             (key_at E (mem C r))(vKeyId v \<mapsto> k\<lparr>kCurrentVersion := vVersion v, kUpdateTime := now\<rparr>) \<and>
           version_at E (mem C r') = (version_at E (mem C r))((vKeyId v, vVersion v) \<mapsto> v'))"
    if "res = Inr v'" for v'
  proof -
    from ae(2) [OF that] obtain k now bk bv where a: "key_at E (mem C r) (vKeyId v) = Some k"
      "vVersion v = kCurrentVersion k + 1" "stampedV v v'"
      "mem C r (version_slot (vKeyId v) (vVersion v)) = None" "marshalVersion E v' = Inr bv"
      "marshalKey E (k\<lparr>kCurrentVersion := kCurrentVersion k + 1, kUpdateTime := now\<rparr>) = Inr bk"
      "mem C r' = (mem C r)(version_slot (vKeyId v) (vVersion v) \<mapsto> bv, key_slot (kPublicId k) \<mapsto> bk)"
      by blast
    let ?k = "k\<lparr>kCurrentVersion := kCurrentVersion k + 1, kUpdateTime := now\<rparr>"
    have dk: "unmarshalKey E bk = Inr ?k" and dv: "unmarshalVersion E bv = Inr v'"
      using env_okD(3,4) [OF env(1)] a by auto
    have pid: "kPublicId k = vKeyId v" using key_at_SomeD(1) [OF inv(2) a(1)] .
    have w1: "wf_store E ((mem C r)(version_slot (vKeyId v) (vVersion v) \<mapsto> bv))"
      using wf_version_written [OF _ dv, of "mem C r"] assms(2) a(3) by (simp add: repo_inv_def)
    have "key_at E ((mem C r)(version_slot (vKeyId v) (vVersion v) \<mapsto> bv)) (kPublicId ?k) = Some k"
      using a(1) pid by simp
    from wf_key_written [OF w1 this, of ?k bk] dk a(7) have "wf_store E (mem C r')" by simp
    moreover have "version_at E (mem C r') = (version_at E (mem C r))((vKeyId v, vVersion v) \<mapsto> v')"
      using a(7) dv by (auto simp: version_at_def fun_eq_iff)
    moreover have "key_at E (mem C r') =
        (key_at E (mem C r))(vKeyId v \<mapsto> k\<lparr>kCurrentVersion := vVersion v, kUpdateTime := now\<rparr>)"
      using a(2,7) dk pid by simp
    ultimately show ?thesis using a(1-4) version_at_None [OF inv(4)] by blast
  qed
  show "repo_inv E C r'"
  proof (cases res)
    case (Inl e)
    with f ae(1) assms(2) show ?thesis by (simp add: repo_inv_same)
  next
    case (Inr v')
    with s ae(1) show ?thesis by (simp add: repo_inv_def)
  qed
  show "res = Inr v' \<Longrightarrow> \<exists>k now. key_at E (mem C r) (vKeyId v) = Some k \<and>
           vVersion v = kCurrentVersion k + 1 \<and> stampedV v v' \<and>
           version_at E (mem C r) (vKeyId v, vVersion v) = None \<and>
           key_at E (mem C r') =
             (key_at E (mem C r))(vKeyId v \<mapsto> k\<lparr>kCurrentVersion := vVersion v, kUpdateTime := now\<rparr>) \<and>
           version_at E (mem C r') = (version_at E (mem C r))((vKeyId v, vVersion v) \<mapsto> v')"
    using s by blast
qed

text \<open>
  \<open>DeleteKey\<close> removes the versions it lists below \<open>id:\<close>. When key ids contain no colon these are
  exactly the versions of the key.
\<close>

definition plain_id :: "string \<Rightarrow> bool" where
  "plain_id i \<longleftrightarrow> CHR '':'' \<notin> set i"

definition plain_versions :: "(string \<rightharpoonup> blob) \<Rightarrow> bool" where
  "plain_versions m \<longleftrightarrow> (\<forall>i n. m (version_slot i n) \<noteq> None \<longrightarrow> plain_id i)"

lemma split_plain:
  assumes "p @ CHR '':'' # t = j @ CHR '':'' # show_nat x" "plain_id j"
  shows "p = j \<and> t = show_nat x"
proof -
  from assms(1) obtain us where
    "p = j @ us \<and> us @ CHR '':'' # t = CHR '':'' # show_nat x \<or>
     p @ us = j \<and> CHR '':'' # t = us @ CHR '':'' # show_nat x"
    unfolding append_eq_append_conv2 by blast
  then show ?thesis
  proof
    assume a: "p = j @ us \<and> us @ CHR '':'' # t = CHR '':'' # show_nat x"
    show ?thesis
    proof (cases us)
      case (Cons c us')
      with a have "show_nat x = us' @ CHR '':'' # t" by simp
      then have "CHR '':'' \<in> set (show_nat x)" by simp
      then show ?thesis by simp
    qed (use a in simp)
  next
    assume "p @ us = j \<and> CHR '':'' # t = us @ CHR '':'' # show_nat x"
    then show ?thesis using assms(2) by (cases us) (auto simp: plain_id_def)
  qed
qed

lemma child_show_nat [simp]: "child (show_nat n) = show_nat n"
  by (simp add: child_def)

lemma listed_versions_exact:
  assumes "wf_versions E m" "plain_versions m"
  shows "version_slot j n \<in> listed_versions m i \<longleftrightarrow> j = i \<and> m (version_slot j n) \<noteq> None"
proof -
  have t: "\<exists>n. t = show_nat (unat n) \<and> m (version_slot i n) \<noteq> None"
    if "m (keyVersionStoragePrefix @ versionPrefix i @ t) \<noteq> None" for t
  proof -
    from that obtain b where "m (keyVersionStoragePrefix @ versionPrefix i @ t) = Some b" by blast
    with assms(1) obtain v :: version where v: "versionPrefix i @ t = versionKey (vKeyId v) (vVersion v)"
      unfolding wf_versions_def by blast
    with that assms(2) have "plain_id (vKeyId v)" unfolding plain_versions_def by metis
    from split_plain [OF _ this, of i t "unat (vVersion v)"] v
    have "i = vKeyId v \<and> t = show_nat (unat (vVersion v))"
      by (simp add: versionPrefix_def versionKey_def versionKeyStr_def versionSep_def)
    with v that show ?thesis by metis
  qed
  show ?thesis
  proof
    assume "version_slot j n \<in> listed_versions m i"
    then obtain t where "m (keyVersionStoragePrefix @ versionPrefix i @ t) \<noteq> None"
      and e: "versionKey j n = versionKeyStr i (child t)" by (auto simp: listed_versions_def)
    with t obtain n' where "t = show_nat (unat n')" "m (version_slot i n') \<noteq> None" by blast
    with e show "j = i \<and> m (version_slot j n) \<noteq> None" by (simp flip: versionKey_def)
  next
    assume a: "j = i \<and> m (version_slot j n) \<noteq> None"
    then have "m (keyVersionStoragePrefix @ versionPrefix i @ show_nat (unat n)) \<noteq> None"
      by (auto simp: versionPrefix_def versionKey_def versionKeyStr_def)
    then show "version_slot j n \<in> listed_versions m i"
      unfolding listed_versions_def using a by (force simp: versionKey_def)
  qed
qed

lemma DeleteKey_step:
  assumes "sound_env E C" "repo_inv E C r" "DeleteKey E pid r = (res, r')"
  shows "repo_inv E C r'"
    and "res = Inr u \<Longrightarrow> key_at E (mem C r) pid \<noteq> None \<and>
           key_at E (mem C r') = (key_at E (mem C r))(pid := None)"
    and "res = Inr u \<Longrightarrow> plain_versions (mem C r) \<Longrightarrow>
           version_at E (mem C r') (j, n) = (if j = pid then None else version_at E (mem C r) (j, n))"
    and "res = Inl e \<Longrightarrow> mem C r' = mem C r \<or> key_at E (mem C r) pid \<noteq> None \<and>
           key_at E (mem C r') = (key_at E (mem C r))(pid := None) \<and>
           version_at E (mem C r') = version_at E (mem C r)"
    and "plain_versions (mem C r) \<Longrightarrow> plain_versions (mem C r')"
proof -
  have env: "env_ok E C" "reads_reliable E" "deletes_reliable E" using assms(1) by auto
  note inv = repo_invD [OF assms(2)]
  have wf: "wf_store E (mem C r)" using assms(2) by (simp add: repo_inv_def)
  note de = DeleteKey_effect [OF env(1) inv(1) assms(3)]
  have ls: "name_slot x \<notin> listed_versions m i" "key_slot x \<notin> listed_versions m i" for x m i
    by (auto simp: listed_versions_def)
  have ok: "wf_store E (mem C r') \<and> key_at E (mem C r) pid \<noteq> None \<and>
      key_at E (mem C r') = (key_at E (mem C r))(pid := None)" if "res = Inr u" for u
  proof -
    from de(2) [OF that] obtain k where k: "key_at E (mem C r) pid = Some k"
      "mem C r' = (\<lambda>x. if x \<in> listed_versions (mem C r) pid \<or> x = name_slot (kName k) \<or> x = key_slot pid
                      then None else mem C r x)" by blast
    have "wf_store E (mem C r') \<and> key_at E (mem C r') = (key_at E (mem C r))(pid := None)"
      by (intro conjI; rule wf_removed [OF wf k(1)]) (simp_all add: k(2) ls)
    with k(1) show ?thesis by simp
  qed
  then show "res = Inr u \<Longrightarrow> key_at E (mem C r) pid \<noteq> None \<and>
           key_at E (mem C r') = (key_at E (mem C r))(pid := None)" by blast
  show "version_at E (mem C r') (j, n) = (if j = pid then None else version_at E (mem C r) (j, n))"
    if "res = Inr u" "plain_versions (mem C r)"
  proof -
    from de(2) [OF that(1)] obtain k where "key_at E (mem C r) pid = Some k"
      "mem C r' = (\<lambda>x. if x \<in> listed_versions (mem C r) pid \<or> x = name_slot (kName k) \<or> x = key_slot pid
                      then None else mem C r x)" by blast
    then show ?thesis using listed_versions_exact [OF inv(4) that(2), of j n pid]
      by (auto simp: version_at_def)
  qed
  have bad: "mem C r' = mem C r \<or> wf_store E (mem C r') \<and> key_at E (mem C r) pid \<noteq> None \<and>
      key_at E (mem C r') = (key_at E (mem C r))(pid := None) \<and>
      version_at E (mem C r') = version_at E (mem C r)" if "res = Inl e" for e
  proof (cases "mem C r' = mem C r")
    case False
    with de(3) [OF that env(3)] obtain k where k: "key_at E (mem C r) pid = Some k"
      "mem C r' = (mem C r)(name_slot (kName k) := None, key_slot pid := None)" by blast
    have "wf_store E (mem C r') \<and> key_at E (mem C r') = (key_at E (mem C r))(pid := None)"
      by (intro conjI; rule wf_removed [OF wf k(1)]) (simp_all add: k(2))
    moreover have "version_at E (mem C r') = version_at E (mem C r)"
      by (simp add: k(2) version_at_def fun_eq_iff)
    ultimately show ?thesis using k(1) by blast
  qed blast
  then show "res = Inl e \<Longrightarrow> mem C r' = mem C r \<or> key_at E (mem C r) pid \<noteq> None \<and>
           key_at E (mem C r') = (key_at E (mem C r))(pid := None) \<and>
           version_at E (mem C r') = version_at E (mem C r)" by blast
  show "repo_inv E C r'" using ok bad de(1) wf by (cases res) (auto simp: repo_inv_def)
  have "mem C r' x = None \<or> mem C r' x = mem C r x" for x
    using de(2,3) env(3) by (cases res) (fastforce split: if_splits)+
  then show "plain_versions (mem C r) \<Longrightarrow> plain_versions (mem C r')"
    unfolding plain_versions_def by metis
qed

section \<open>Lookups\<close>

lemma GetKeyByID_step:
  assumes "sound_env E C" "repo_inv E C r" "GetKeyByID E pid r = (res, r')"
  shows "repo_inv E C r'" and "mem C r' = mem C r"
    and "key_at E (mem C r) pid = Some k \<Longrightarrow> res = Inr k"
    and "key_at E (mem C r) pid = None \<Longrightarrow> \<exists>e. res = Inl e \<and> hasCode (errs E) CodeKeyNotFound e"
proof -
  have env: "env_ok E C" "reads_reliable E" using assms(1) by auto
  note ep = errors_pkg_okD [OF env_okD(2) [OF env(1)]] and inv = repo_invD [OF assms(2)]
  obtain g r1 where g: "getKey E pid r = (g, r1)" by fastforce
  note ge = getKey_effect [OF env(1) g]
  have r1: "r' = r1" and res: "res = (case g of Inl e \<Rightarrow> Inl (ErrWrap ''key.(VaultRepository).GetKey'' None e) | Inr k \<Rightarrow> Inr k)"
    using assms(3) g by (auto simp: GetKeyByID_def split: sum.splits)
  show m: "mem C r' = mem C r" using mem_same [OF ge(1)] r1 by simp
  show "repo_inv E C r'" using repo_inv_same [OF m _ assms(2)] coherent_same [OF ge(1)] inv(1) r1 by simp
  show "key_at E (mem C r) pid = Some k \<Longrightarrow> res = Inr k" using ge(5) env(2) res by simp
  show "key_at E (mem C r) pid = None \<Longrightarrow> \<exists>e. res = Inl e \<and> hasCode (errs E) CodeKeyNotFound e"
    using ge(4) env(2) res key_at_None [OF inv(2)] by (auto simp: ep)
qed

lemma GetKeyByName_step:
  assumes "sound_env E C" "repo_inv E C r" "GetKeyByName E name r = (res, r')"
  shows "repo_inv E C r'" and "mem C r' = mem C r"
    and "key_at E (mem C r) pid = Some k \<Longrightarrow> kName k = name \<Longrightarrow> res = Inr k"
    and "name \<noteq> [] \<Longrightarrow> \<forall>i k. key_at E (mem C r) i = Some k \<longrightarrow> kName k \<noteq> name \<Longrightarrow>
           \<exists>e. res = Inl e \<and> hasCode (errs E) CodeKeyNotFound e"
proof -
  have env: "env_ok E C" "reads_reliable E" using assms(1) by auto
  note ep = errors_pkg_okD [OF env_okD(2) [OF env(1)]] and inv = repo_invD [OF assms(2)]
  obtain g r1 where g: "resolveKeyNameToID E name r = (g, r1)" by fastforce
  note ge = resolveKeyNameToID_effect [OF env(1) inv(1) g]
  have i1: "repo_inv E C r1" by (rule repo_inv_same [OF ge(2,1) assms(2)])
  show "repo_inv E C r'" "mem C r' = mem C r"
    using assms(1,3) g i1 ge(2) GetKeyByID_step(1,2) [OF assms(1) i1, of "projr g" res r']
    by (auto simp: GetKeyByName_def split: sum.splits)
  show "res = Inr k" if "key_at E (mem C r) pid = Some k" "kName k = name"
  proof -
    note ks = key_at_SomeD [OF inv(2) that(1)]
    have "g = Inr pid" using ge(5) [OF env(2)] ks that(2) by simp
    then show ?thesis
      using assms(3) g GetKeyByID_step(3) [OF assms(1) i1] ge(2) that(1)
      by (auto simp: GetKeyByName_def)
  qed
  show "\<exists>e. res = Inl e \<and> hasCode (errs E) CodeKeyNotFound e"
    if "name \<noteq> []" "\<forall>i k. key_at E (mem C r) i = Some k \<longrightarrow> kName k \<noteq> name"
  proof -
    have "names_of (mem C r) name = None"
      using that(2) inv(3) unfolding wf_names_def by (metis not_Some_eq)
    from ge(6) [OF env(2) that(1) this] assms(3) g show ?thesis by (auto simp: GetKeyByName_def ep)
  qed
qed

section \<open>The interface\<close>

text \<open>
  What a client of a key repository relies on. \<open>stored\<close> is the map from ids to keys the
  repository stands for.
\<close>

locale key_repository =
  fixes create :: "key option \<Rightarrow> version option \<Rightarrow> 'r \<Rightarrow> (key \<times> version) result \<times> 'r"
    and by_id :: "string \<Rightarrow> 'r \<Rightarrow> key result \<times> 'r"
    and by_name :: "string \<Rightarrow> 'r \<Rightarrow> key result \<times> 'r"
    and remove :: "string \<Rightarrow> 'r \<Rightarrow> unit result \<times> 'r"
    and stored :: "'r \<Rightarrow> string \<rightharpoonup> key"
    and not_found :: "error \<Rightarrow> bool"
    and invar :: "'r \<Rightarrow> bool"
  assumes create_ok: "invar r \<Longrightarrow> create k0 v0 r = (Inr (k', v'), r') \<Longrightarrow>
      invar r' \<and> stored r (kPublicId k') = None \<and> stored r' = (stored r)(kPublicId k' \<mapsto> k')"
    and create_failed: "invar r \<Longrightarrow> create k0 v0 r = (Inl e, r') \<Longrightarrow> invar r' \<and> stored r' = stored r"
    and by_id_found: "invar r \<Longrightarrow> stored r i = Some k \<Longrightarrow> fst (by_id i r) = Inr k"
    and by_id_absent: "invar r \<Longrightarrow> stored r i = None \<Longrightarrow> \<exists>e. fst (by_id i r) = Inl e \<and> not_found e"
    and by_id_keeps: "invar r \<Longrightarrow> invar (snd (by_id i r)) \<and> stored (snd (by_id i r)) = stored r"
    and by_name_found: "invar r \<Longrightarrow> stored r i = Some k \<Longrightarrow> fst (by_name (kName k) r) = Inr k"
    and by_name_absent: "invar r \<Longrightarrow> n \<noteq> [] \<Longrightarrow> \<forall>i k. stored r i = Some k \<longrightarrow> kName k \<noteq> n \<Longrightarrow>
      \<exists>e. fst (by_name n r) = Inl e \<and> not_found e"
    and by_name_keeps: "invar r \<Longrightarrow> invar (snd (by_name n r)) \<and> stored (snd (by_name n r)) = stored r"
    and remove_ok: "invar r \<Longrightarrow> remove i r = (Inr u, r') \<Longrightarrow>
      invar r' \<and> stored r i \<noteq> None \<and> stored r' = (stored r)(i := None)"
    and stored_id: "invar r \<Longrightarrow> stored r i = Some k \<Longrightarrow> kPublicId k = i"
    and stored_name: "invar r \<Longrightarrow> stored r i = Some k \<Longrightarrow> kName k \<noteq> []"
begin

lemma names_unique:
  assumes "invar r" "stored r i = Some k" "stored r j = Some k'" "kName k = kName k'"
  shows "i = j"
  using by_name_found [OF assms(1,2)] by_name_found [OF assms(1,3)] assms stored_id
  by (metis sum.inject(2))

lemma create_lookup:
  assumes "invar r" "create k v r = (Inr (k', v'), r')"
  shows "fst (by_id (kPublicId k') r') = Inr k' \<and> fst (by_name (kName k') r') = Inr k'"
  using create_ok [OF assms] by_id_found [of r' "kPublicId k'"] by_name_found [of r' "kPublicId k'"] by simp

lemma create_frame:
  assumes "invar r" "create k v r = (Inr (k', v'), r')" "fst (by_name n r) = Inr x" "stored r (kPublicId x) = Some x"
    "kName x = n"
  shows "fst (by_name n r') = Inr x"
proof -
  note c = create_ok [OF assms(1,2)]
  have "kPublicId x \<noteq> kPublicId k'" using c assms(4) by auto
  with c assms(4) have "stored r' (kPublicId x) = Some x" by simp
  from by_name_found [OF _ this] c assms(5) show ?thesis by simp
qed

lemma remove_lookup:
  assumes "invar r" "stored r i = Some k" "remove i r = (Inr u, r')"
  shows "\<exists>e e'. fst (by_id i r') = Inl e \<and> not_found e \<and> fst (by_name (kName k) r') = Inl e' \<and> not_found e'"
proof -
  note m = remove_ok [OF assms(1,3)]
  have "\<forall>j x. stored r' j = Some x \<longrightarrow> kName x \<noteq> kName k"
    using m names_unique [OF assms(1) _ assms(2)] by (metis fun_upd_apply option.simps(3))
  then show ?thesis using m by_id_absent [of r' i] by_name_absent [of r' "kName k"]
      stored_name [OF assms(1,2)] by simp
qed

lemma create_refuses_taken_name:
  assumes "invar r" "stored r i = Some k" "create k0 v0 r = (Inr (k', v'), r')"
  shows "kName k' \<noteq> kName k"
proof
  assume n: "kName k' = kName k"
  note c = create_ok [OF assms(1,3)]
  then have "i \<noteq> kPublicId k'" using assms(2) by auto
  moreover have "i = kPublicId k'"
    using names_unique [of r' i k "kPublicId k'" k'] c assms(2) n \<open>i \<noteq> kPublicId k'\<close> by simp
  ultimately show False by simp
qed

end

interpretation vault: key_repository "CreateKey E vet n" "GetKeyByID E" "GetKeyByName E" "DeleteKey E"
    "\<lambda>r. key_at E (mem C r)" "hasCode (errs E) CodeKeyNotFound"
    "\<lambda>r. sound_env E C \<and> repo_inv E C r"
  for E :: "'s vault_env" and C :: "'s \<Rightarrow> string \<rightharpoonup> blob" and vet n
proof unfold_locales
  fix r k0 v0 k' v' r' e
  assume i: "sound_env E C \<and> repo_inv E C r"
  then have env: "env_ok E C" "reads_reliable E" "deletes_reliable E" and inv: "repo_inv E C r" by auto
  note ce = CreateKey_effect [OF env(1) repo_invD(1) [OF inv]]
  {
    assume c: "CreateKey E vet n k0 v0 r = (Inr (k', v'), r')"
    from ce(2) [OF c refl] obtain k v where cr: "created E k v (mem C r) k' v' (mem C r')" by blast
    with wf_created(2) [OF env(1) _ cr] inv CreateKey_inv [OF _ inv c] i
    show "(sound_env E C \<and> repo_inv E C r') \<and> key_at E (mem C r) (kPublicId k') = None \<and>
      key_at E (mem C r') = (key_at E (mem C r))(kPublicId k' \<mapsto> k')"
      by (auto simp: created_def repo_inv_def wf_store_def key_at_None)
  next
    assume c: "CreateKey E vet n k0 v0 r = (Inl e, r')"
    from ce(3) [OF c refl env(3,2)] CreateKey_inv [OF _ inv c] i
    show "(sound_env E C \<and> repo_inv E C r') \<and> key_at E (mem C r') = key_at E (mem C r)" by simp
  }
next
  fix r i k n u r'
  assume i: "sound_env E C \<and> repo_inv E C r"
  then have env: "sound_env E C" and inv: "repo_inv E C r" by auto
  note gi = GetKeyByID_step [OF env inv surjective_pairing]
    and gn = GetKeyByName_step [OF env inv surjective_pairing] and ks = key_at_SomeD [OF repo_invD(2) [OF inv]]
  show "key_at E (mem C r) i = Some k \<Longrightarrow> fst (GetKeyByID E i r) = Inr k" using gi(3) by simp
  show "key_at E (mem C r) i = None \<Longrightarrow>
      \<exists>e. fst (GetKeyByID E i r) = Inl e \<and> hasCode (errs E) CodeKeyNotFound e" using gi(4) by simp
  show "(sound_env E C \<and> repo_inv E C (snd (GetKeyByID E i r))) \<and>
      key_at E (mem C (snd (GetKeyByID E i r))) = key_at E (mem C r)" using gi(1,2) env by simp
  show "key_at E (mem C r) i = Some k \<Longrightarrow> fst (GetKeyByName E (kName k) r) = Inr k" using gn(3) by simp
  show "n \<noteq> [] \<Longrightarrow> \<forall>i k. key_at E (mem C r) i = Some k \<longrightarrow> kName k \<noteq> n \<Longrightarrow>
      \<exists>e. fst (GetKeyByName E n r) = Inl e \<and> hasCode (errs E) CodeKeyNotFound e" using gn(4) by simp
  show "(sound_env E C \<and> repo_inv E C (snd (GetKeyByName E n r))) \<and>
      key_at E (mem C (snd (GetKeyByName E n r))) = key_at E (mem C r)" using gn(1,2) env by simp
  show "DeleteKey E i r = (Inr u, r') \<Longrightarrow> (sound_env E C \<and> repo_inv E C r') \<and>
      key_at E (mem C r) i \<noteq> None \<and> key_at E (mem C r') = (key_at E (mem C r))(i := None)"
    using DeleteKey_step(1,2) [OF env inv] env by blast
  show "key_at E (mem C r) i = Some k \<Longrightarrow> kPublicId k = i" by (rule ks(1))
  show "key_at E (mem C r) i = Some k \<Longrightarrow> kName k \<noteq> []" by (rule ks(2))
qed

end
