(* ===== verification/Key_Repository_Runs.thy ===== *)
theory Key_Repository_Runs
  imports Key_Repository_Contract
begin

text \<open>
  Runs of the key repository: the abstract repository \<open>a_step\<close> of keys and versions, and the
  lemmas that every sequence of operations on the Vault repository, with storage writes and listings
  failing at will, is a run of it, answer by answer.
\<close>

section \<open>The abstract repository\<close>

record arepo =
  akeys :: "string \<rightharpoonup> key"
  avers :: "string \<times> 32 word \<rightharpoonup> version"

datatype repo_op =
    RCreate "key option" "version option"
  | RUpdate "key option"
  | RAddVersion version
  | RDelete string
  | RGetByID string
  | RGetByName string
  | RGetVersion string "32 word"
  | RListKeys

text \<open>What an operation answers: an error, told apart by its not-found code, or its result.\<close>

datatype repo_answer =
    Refused
  | NotFound
  | Done
  | Created key version
  | TheKey key
  | TheVersion version
  | TheKeys "key list"

fun lookup_op :: "repo_op \<Rightarrow> bool" where
  "lookup_op (RGetByID _) = True"
| "lookup_op (RGetByName _) = True"
| "lookup_op (RGetVersion _ _) = True"
| "lookup_op _ = False"

definition found :: "('a \<Rightarrow> repo_answer) \<Rightarrow> 'a option \<Rightarrow> repo_answer" where
  "found f x = (case x of None \<Rightarrow> NotFound | Some y \<Rightarrow> f y)"

text \<open>The version a number stands for; 0 is the current one.\<close>

definition numbered :: "arepo \<Rightarrow> string \<Rightarrow> 32 word \<Rightarrow> version option" where
  "numbered a i w =
     (if w = 0 then (case akeys a i of None \<Rightarrow> None | Some k \<Rightarrow> avers a (i, kCurrentVersion k)) else avers a (i, w))"

text \<open>
  A step of the abstract repository: the operation, its answer, and the new contents. Creation
  needs a fresh id, a fresh non-empty name and a fresh version slot; an update keeps the name; a new
  version has the next number; a deletion takes the key's versions with it, and leaves them only
  when it reports an error. A lookup answers what the contents hold and an error only when they hold
  nothing; a listing that succeeds holds stored keys only, and each of them once when no id contains
  a slash.
\<close>

inductive a_step :: "arepo \<Rightarrow> repo_op \<Rightarrow> repo_answer \<Rightarrow> arepo \<Rightarrow> bool" where
  create_ok: "akeys a (kPublicId k) = None \<Longrightarrow> \<forall>i x. akeys a i = Some x \<longrightarrow> kName x \<noteq> kName k \<Longrightarrow>
    kName k \<noteq> [] \<Longrightarrow> vKeyId v = kPublicId k \<Longrightarrow> avers a (kPublicId k, vVersion v) = None \<Longrightarrow>
    stamped k k' \<Longrightarrow> stampedV v v' \<Longrightarrow>
    a_step a (RCreate (Some k) (Some v)) (Created k' v')
      (a\<lparr>akeys := (akeys a)(kPublicId k \<mapsto> k'), avers := (avers a)((kPublicId k, vVersion v) \<mapsto> v')\<rparr>)"
| update_ok: "akeys a (kPublicId k) = Some old \<Longrightarrow> kName old = kName k \<Longrightarrow>
    a_step a (RUpdate (Some k)) (TheKey (k\<lparr>kUpdateTime := now\<rparr>)) (a\<lparr>akeys := (akeys a)(kPublicId k \<mapsto> k\<lparr>kUpdateTime := now\<rparr>)\<rparr>)"
| add_ok: "akeys a (vKeyId v) = Some k \<Longrightarrow> vVersion v = kCurrentVersion k + 1 \<Longrightarrow>
    avers a (vKeyId v, vVersion v) = None \<Longrightarrow> stampedV v v' \<Longrightarrow>
    a_step a (RAddVersion v) (TheVersion v')
      (a\<lparr>akeys := (akeys a)(vKeyId v \<mapsto> k\<lparr>kCurrentVersion := vVersion v, kUpdateTime := now\<rparr>),
         avers := (avers a)((vKeyId v, vVersion v) \<mapsto> v')\<rparr>)"
| delete_ok: "akeys a i \<noteq> None \<Longrightarrow>
    a_step a (RDelete i) Done
      (a\<lparr>akeys := (akeys a)(i := None), avers := (\<lambda>(j, n). if j = i then None else avers a (j, n))\<rparr>)"
| delete_partly: "akeys a i \<noteq> None \<Longrightarrow> ans \<in> {Refused, NotFound} \<Longrightarrow>
    a_step a (RDelete i) ans (a\<lparr>akeys := (akeys a)(i := None)\<rparr>)"
| failed: "\<not> lookup_op op \<Longrightarrow> ans \<in> {Refused, NotFound} \<Longrightarrow> a_step a op ans a"
| get_id: "a_step a (RGetByID i) (found TheKey (akeys a i)) a"
| get_name: "akeys a i = Some k \<Longrightarrow> a_step a (RGetByName (kName k)) (TheKey k) a"
| no_name: "\<forall>i k. akeys a i = Some k \<longrightarrow> kName k \<noteq> n \<Longrightarrow>
    a_step a (RGetByName n) (if n = [] then Refused else NotFound) a"
| get_version: "a_step a (RGetVersion i w) (found TheVersion (numbered a i w)) a"
| list_all: "set ks = ran (akeys a) \<Longrightarrow> distinct ks \<Longrightarrow> a_step a RListKeys (TheKeys ks) a"
| list_some: "set ks \<subseteq> ran (akeys a) \<Longrightarrow> \<exists>i \<in> dom (akeys a). CHR ''/'' \<in> set i \<Longrightarrow> a_step a RListKeys (TheKeys ks) a"

definition names_distinct :: "arepo \<Rightarrow> bool" where
  "names_distinct a \<longleftrightarrow> (\<forall>i j k k'. akeys a i = Some k \<longrightarrow> akeys a j = Some k' \<longrightarrow> kName k = kName k' \<longrightarrow> i = j)"

inductive_cases a_step_cases: "a_step a op ans a'"

lemma a_step_names_distinct: "a_step a op ans a' \<Longrightarrow> names_distinct a \<Longrightarrow> names_distinct a'"
proof (induction rule: a_step.induct)
  case (create_ok a k v k' v')
  then show ?case unfolding names_distinct_def
    by (auto split: if_splits) (metis stamped_simps(2))+
next
  case (update_ok a k old now)
  then show ?case unfolding names_distinct_def by (auto split: if_splits)
next
  case (add_ok a v k v' now)
  then show ?case unfolding names_distinct_def by (auto split: if_splits)
qed (auto simp: names_distinct_def split: if_splits)

text \<open>A run with the answers given on the way.\<close>

inductive a_run :: "arepo \<Rightarrow> (repo_op \<times> repo_answer) list \<Rightarrow> arepo \<Rightarrow> bool" where
  a_nil: "a_run a [] a"
| a_cons: "a_step a op ans a' \<Longrightarrow> a_run a' tr a'' \<Longrightarrow> a_run a ((op, ans) # tr) a''"

section \<open>Runs of the Vault repository\<close>

fun answer :: "'s vault_env \<Rightarrow> ('a \<Rightarrow> repo_answer) \<Rightarrow> 'a result \<times> 's repo \<Rightarrow> repo_answer \<times> 's repo" where
  "answer E f (Inl e, r) = (if hasCode (errs E) CodeKeyNotFound e then NotFound else Refused, r)"
| "answer E f (Inr x, r) = (f x, r)"

fun run_op :: "'s vault_env \<Rightarrow> bool \<Rightarrow> 32 word \<Rightarrow> repo_op \<Rightarrow> 's repo \<Rightarrow> repo_answer \<times> 's repo" where
  "run_op E vet n (RCreate k v) r = answer E (\<lambda>(k', v'). Created k' v') (CreateKey E vet n k v r)"
| "run_op E vet n (RUpdate k) r = answer E TheKey (UpdateKey E vet k r)"
| "run_op E vet n (RAddVersion v) r = answer E TheVersion (AddVersion E vet v r)"
| "run_op E vet n (RDelete i) r = answer E (\<lambda>_. Done) (DeleteKey E i r)"
| "run_op E vet n (RGetByID i) r = answer E TheKey (GetKeyByID E i r)"
| "run_op E vet n (RGetByName nm) r = answer E TheKey (GetKeyByName E nm r)"
| "run_op E vet n (RGetVersion i w) r = answer E TheVersion (GetVersion E i w r)"
| "run_op E vet n RListKeys r = answer E TheKeys (ListKeys E r)"

fun run_ops :: "'s vault_env \<Rightarrow> bool \<Rightarrow> 32 word \<Rightarrow> repo_op list \<Rightarrow> 's repo \<Rightarrow> repo_answer list \<times> 's repo" where
  "run_ops E vet n [] r = ([], r)"
| "run_ops E vet n (op # ops) r =
     (let (ans, r1) = run_op E vet n op r; (rest, r2) = run_ops E vet n ops r1 in (ans # rest, r2))"

lemma answer_Inl: "fst x = Inl e \<Longrightarrow> answer E f x = (if hasCode (errs E) CodeKeyNotFound e then NotFound else Refused, snd x)"
  by (cases x) simp

lemma answer_Inr: "fst x = Inr y \<Longrightarrow> answer E f x = (f y, snd x)"
  by (cases x) simp

lemma answer_state [simp]: "snd (answer E f x) = snd x"
  by (cases "(E, f, x)" rule: answer.cases) auto

lemma answer_error: "fst (answer E f (Inl e, r)) \<in> {Refused, NotFound}"
  by simp

lemma run_ops_length: "length (fst (run_ops E vet n ops r)) = length ops"
  by (induction ops arbitrary: r) (simp_all add: split_beta Let_def)

text \<open>Operations whose versions belong to key ids without a colon.\<close>

fun plain_op :: "repo_op \<Rightarrow> bool" where
  "plain_op (RCreate k v) = (case v of None \<Rightarrow> True | Some w \<Rightarrow> plain_id (vKeyId w))"
| "plain_op (RAddVersion v) = plain_id (vKeyId v)"
| "plain_op _ = True"

definition abs_repo :: "'s vault_env \<Rightarrow> (string \<rightharpoonup> blob) \<Rightarrow> arepo" where
  "abs_repo E m = \<lparr>akeys = key_at E m, avers = version_at E m\<rparr>"

lemma abs_repo_simps [simp]: "akeys (abs_repo E m) = key_at E m" "avers (abs_repo E m) = version_at E m"
  by (simp_all add: abs_repo_def)

lemma abs_repo_eqI:
  assumes "key_at E m' = f" "version_at E m' = g"
  shows "abs_repo E m' = (abs_repo E m)\<lparr>akeys := f, avers := g\<rparr>"
  using assms by (simp add: abs_repo_def)

lemma plain_versions_iff:
  assumes "wf_versions E m"
  shows "plain_versions m \<longleftrightarrow> (\<forall>i n. version_at E m (i, n) \<noteq> None \<longrightarrow> plain_id i)"
  using version_at_None [OF assms] unfolding plain_versions_def by auto

lemma plain_versions_upd:
  assumes "repo_inv E C r" "repo_inv E C r'" "plain_versions (mem C r)" "plain_id i"
    "version_at E (mem C r') = (version_at E (mem C r))((i, n) := x)"
  shows "plain_versions (mem C r')"
  using assms(3-5) unfolding plain_versions_iff [OF repo_invD(4) [OF assms(1)]]
    plain_versions_iff [OF repo_invD(4) [OF assms(2)]] by (auto split: if_splits)

section \<open>Reads\<close>

lemma same_repo_inv:
  assumes "same_repo C r r'" "repo_inv E C r"
  shows "repo_inv E C r' \<and> mem C r' = mem C r"
  using assms coherent_same [OF assms(1)] by (simp add: repo_inv_def mem_same)

lemma getKey_reads: "env_ok E C \<Longrightarrow> same_repo C r (snd (getKey E i r))"
  using getKey_effect(1) [OF _ surjective_pairing] .

lemma getKeyVersion_reads: "env_ok E C \<Longrightarrow> same_repo C r (snd (getKeyVersion E i n r))"
  using getKeyVersion_effect(1) [OF _ surjective_pairing] .

lemma GetVersion_reads:
  assumes "env_ok E C"
  shows "same_repo C r (snd (GetVersion E i n r))"
proof -
  obtain g r1 where g: "getKey E i r = (g, r1)" by fastforce
  note g1 = getKey_effect(1) [OF assms g]
  have "same_repo C r (snd (getCurrentVersionInternal E i r))"
  proof (cases g)
    case (Inr k)
    from same_repo_trans [OF g1 getKeyVersion_reads [OF assms, of r1 i "kCurrentVersion k"]] g Inr
    show ?thesis by (auto simp: getCurrentVersionInternal_def split: prod.splits sum.splits)
  qed (simp add: getCurrentVersionInternal_def g g1)
  moreover have "same_repo C r (snd (getVersionInternal E i n r))"
    using getKeyVersion_reads [OF assms, of r i n]
    by (auto simp: getVersionInternal_def split: prod.splits sum.splits)
  ultimately show ?thesis by (auto simp: GetVersion_def split: prod.splits sum.splits)
qed

lemma collectKeys_reads:
  assumes "env_ok E C"
  shows "same_repo C r (snd (collectKeys E ids r))"
proof (induction ids arbitrary: r)
  case (Cons i ids)
  obtain g r1 where g: "getKey E i r = (g, r1)" by fastforce
  have "same_repo C r r1" using getKey_effect(1) [OF assms g] .
  with Cons.IH [of r1] g show ?case
    by (auto split: prod.splits sum.splits dest: same_repo_trans)
qed simp

lemma ListKeys_reads:
  assumes "env_ok E C"
  shows "same_repo C r (snd (ListKeys E r))"
proof -
  obtain l s where l: "vList E keyStoragePrefix [] (store r) = (l, s)" by fastforce
  have s: "same_repo C r (r\<lparr>store := s\<rparr>)" using vList_law(1) [OF env_okD(1) [OF assms] l] by simp
  from same_repo_trans [OF s collectKeys_reads [OF assms]] s l show ?thesis
    by (auto simp: ListKeys_def split: sum.splits)
qed

section \<open>What lookups and listings answer\<close>

lemma answer_by_id:
  assumes "sound_env E C" "repo_inv E C r"
  shows "answer E TheKey (GetKeyByID E i r) = (found TheKey (key_at E (mem C r) i), snd (GetKeyByID E i r))"
  using GetKeyByID_step(3,4) [OF assms surjective_pairing, of i]
  by (cases "key_at E (mem C r) i") (auto simp: found_def answer_Inl answer_Inr)

lemma GetKeyByName_empty:
  assumes "env_ok E C" "coherent C r"
  shows "\<exists>e. fst (GetKeyByName E [] r) = Inl e \<and> \<not> hasCode (errs E) CodeKeyNotFound e"
  using assms errors_pkg_okD [OF env_okD(2) [OF assms(1)]]
  by (auto simp: GetKeyByName_def resolveKeyNameToID_def coherent_def)

lemma answer_by_name:
  assumes "sound_env E C" "repo_inv E C r"
  shows "a_step (abs_repo E (mem C r)) (RGetByName n) (fst (answer E TheKey (GetKeyByName E n r))) (abs_repo E (mem C r))"
proof (cases "\<exists>i k. key_at E (mem C r) i = Some k \<and> kName k = n")
  case True
  then obtain i k where k: "key_at E (mem C r) i = Some k" "kName k = n" by blast
  from GetKeyByName_step(3) [OF assms surjective_pairing this] have "fst (GetKeyByName E n r) = Inr k" .
  then show ?thesis using a_step.get_name [of "abs_repo E (mem C r)" i k] k by (simp add: answer_Inr)
next
  case False
  have env: "env_ok E C" using assms(1) by simp
  have "fst (answer E TheKey (GetKeyByName E n r)) = (if n = [] then Refused else NotFound)"
    using GetKeyByName_empty [OF env repo_invD(1) [OF assms(2)]] GetKeyByName_step(4) [OF assms surjective_pairing, of n] False
    by (auto simp: answer_Inl)
  then show ?thesis using a_step.no_name [of "abs_repo E (mem C r)" n] False by simp
qed

lemma answer_current:
  assumes "sound_env E C" "repo_inv E C r"
  shows "fst (answer E TheVersion (getCurrentVersionInternal E i r)) = found TheVersion (numbered (abs_repo E (mem C r)) i 0)"
proof -
  have env: "env_ok E C" "reads_reliable E" using assms(1) by auto
  note inv = repo_invD [OF assms(2)] and ep = errors_pkg_okD [OF env_okD(2) [OF env(1)]]
  obtain g r1 where g: "getKey E i r = (g, r1)" by fastforce
  note ge = getKey_effect [OF env(1) g]
  show ?thesis
  proof (cases "key_at E (mem C r) i")
    case None
    from ge(4) [OF env(2) iffD1 [OF key_at_None [OF inv(2)] None]]
    obtain e where "g = Inl e" "hasCode (errs E) CodeKeyNotFound e" by blast
    with g None show ?thesis by (simp add: getCurrentVersionInternal_def numbered_def found_def ep)
  next
    case (Some k)
    then have gk: "g = Inr k" by (rule ge(5) [OF env(2)])
    obtain q r2 where q: "getKeyVersion E i (kCurrentVersion k) r1 = (q, r2)" by fastforce
    note qe = getKeyVersion_effect(4,5) [OF env(1) q env(2)]
    show ?thesis using g gk q qe Some iffD1 [OF version_at_None [OF inv(4), of i "kCurrentVersion k"]] mem_same [OF ge(1)]
      by (cases "version_at E (mem C r) (i, kCurrentVersion k)")
        (auto simp: getCurrentVersionInternal_def numbered_def found_def ep)
  qed
qed

lemma answer_version:
  assumes "sound_env E C" "repo_inv E C r"
  shows "fst (answer E TheVersion (GetVersion E i w r)) = found TheVersion (numbered (abs_repo E (mem C r)) i w)"
proof -
  have env: "env_ok E C" "reads_reliable E" using assms(1) by auto
  note inv = repo_invD [OF assms(2)] and ep = errors_pkg_okD [OF env_okD(2) [OF env(1)]]
  have w: "fst (answer E TheVersion (GetVersion E i w r)) =
      fst (answer E TheVersion (if w = 0 then getCurrentVersionInternal E i r else getVersionInternal E i w r))"
    by (auto simp: GetVersion_def ep split: prod.splits sum.splits)
  obtain q r1 where q: "getKeyVersion E i w r = (q, r1)" by fastforce
  note qe = getKeyVersion_effect(4,5) [OF env(1) q env(2)]
  have "fst (answer E TheVersion (getVersionInternal E i w r)) = found TheVersion (version_at E (mem C r) (i, w))"
    using q qe iffD1 [OF version_at_None [OF inv(4), of i w]]
    by (cases "version_at E (mem C r) (i, w)") (auto simp: getVersionInternal_def found_def ep)
  with w answer_current [OF assms] show ?thesis by (simp add: numbered_def)
qed

lemma collectKeys_step:
  assumes "sound_env E C" "\<forall>i \<in> set ids. key_at E (mem C r) i \<noteq> None"
  shows "fst (collectKeys E ids r) = Inr (map (\<lambda>i. the (key_at E (mem C r) i)) ids)"
  using assms(2)
proof (induction ids arbitrary: r)
  case (Cons i ids)
  have env: "env_ok E C" "reads_reliable E" using assms(1) by auto
  obtain g r1 where g: "getKey E i r = (g, r1)" by fastforce
  note ge = getKey_effect [OF env(1) g]
  from Cons.prems obtain k where k: "key_at E (mem C r) i = Some k" by auto
  have gk: "g = Inr k" by (rule ge(5) [OF env(2) k])
  obtain l r2 where l: "collectKeys E ids r1 = (l, r2)" by fastforce
  with Cons.IH [of r1] Cons.prems mem_same [OF ge(1)]
  have "l = Inr (map (\<lambda>i. the (key_at E (mem C r) i)) ids)" by simp
  with g gk l k show ?case by simp
qed simp

lemma collectKeys_stored:
  assumes "env_ok E C" "fst (collectKeys E ids r) = Inr ks"
  shows "set ks \<subseteq> ran (key_at E (mem C r))"
  using assms(2)
proof (induction ids arbitrary: r ks)
  case (Cons i ids)
  obtain g r1 where g: "getKey E i r = (g, r1)" by fastforce
  note ge = getKey_effect(1,2) [OF assms(1) g]
  obtain l r2 where l: "collectKeys E ids r1 = (l, r2)" by fastforce
  from Cons.prems g l obtain k ks' where k: "g = Inr k" "l = Inr ks'" "ks = k # ks'" by (auto split: sum.splits)
  with Cons.IH [of r1 ks'] l mem_same [OF ge(1)] ge(2) [OF k(1)] show ?case by (auto simp: ran_def)
qed simp

lemma ListKeys_stored:
  assumes "env_ok E C" "fst (ListKeys E r) = Inr ks"
  shows "set ks \<subseteq> ran (key_at E (mem C r))"
proof -
  obtain l s where l: "vList E keyStoragePrefix [] (store r) = (l, s)" by fastforce
  have "C s = mem C r" using vList_law(1) [OF env_okD(1) [OF assms(1)] l] .
  with assms(2) l collectKeys_stored [OF assms(1), of _ "r\<lparr>store := s\<rparr>"] show ?thesis
    by (auto simp: ListKeys_def split: sum.splits)
qed

lemma ListKeys_exact:
  assumes "sound_env E C" "repo_inv E C r" "vList E keyStoragePrefix [] (store r) = (Inr ids, s)"
    and "\<forall>i \<in> dom (key_at E (mem C r)). CHR ''/'' \<notin> set i"
  shows "\<exists>ks. fst (ListKeys E r) = Inr ks \<and> set ks = ran (key_at E (mem C r)) \<and> distinct ks"
proof -
  have env: "env_ok E C" using assms(1) by simp
  note inv = repo_invD [OF assms(2)] and law = vList_law [OF env_okD(1) [OF env] assms(3)]
  let ?m = "mem C r" and ?r = "r\<lparr>store := s\<rparr>"
  have "child t = t" if "?m (keyStoragePrefix @ t) \<noteq> None" for t
    using that assms(4) key_at_None [OF inv(2), of t] by (simp add: child_def domIff)
  then have "child ` {t. ?m (keyStoragePrefix @ t) \<noteq> None} = {t. ?m (keyStoragePrefix @ t) \<noteq> None}"
    by (auto simp: image_def)
  with law have ids: "set ids = dom (key_at E ?m)" "distinct ids" and m: "C s = ?m"
    using key_at_None [OF inv(2)] by (auto simp: dom_def)
  have "\<forall>i \<in> set ids. key_at E (mem C ?r) i \<noteq> None" using ids m by auto
  from collectKeys_step [OF assms(1) this] assms(3) m
  have res: "fst (ListKeys E r) = Inr (map (\<lambda>i. the (key_at E ?m i)) ids)" by (simp add: ListKeys_def)
  have "inj_on (\<lambda>i. the (key_at E ?m i)) (set ids)"
  proof (rule inj_onI)
    fix i j assume "i \<in> set ids" "j \<in> set ids" "the (key_at E ?m i) = the (key_at E ?m j)"
    with ids(1) obtain k where "key_at E ?m i = Some k" "key_at E ?m j = Some k" by auto
    then show "i = j" using key_at_SomeD(1) [OF inv(2)] by blast
  qed
  then have "distinct (map (\<lambda>i. the (key_at E ?m i)) ids)" using ids(2) by (simp add: distinct_map)
  moreover have "set (map (\<lambda>i. the (key_at E ?m i)) ids) = ran (key_at E ?m)"
    using ids(1) by (auto simp: ran_def image_iff dom_def) (metis option.sel)
  ultimately show ?thesis using res by blast
qed

lemma answer_list:
  assumes "sound_env E C" "repo_inv E C r"
  shows "a_step (abs_repo E (mem C r)) RListKeys (fst (answer E TheKeys (ListKeys E r))) (abs_repo E (mem C r))"
proof (cases "fst (ListKeys E r)")
  case (Inl e)
  then show ?thesis by (auto simp: answer_Inl intro: a_step.failed)
next
  case (Inr ks)
  have env: "env_ok E C" using assms(1) by simp
  note sub = ListKeys_stored [OF env Inr]
  show ?thesis
  proof (cases "\<forall>i \<in> dom (key_at E (mem C r)). CHR ''/'' \<notin> set i")
    case True
    from Inr obtain ids s where "vList E keyStoragePrefix [] (store r) = (Inr ids, s)"
      by (auto simp: ListKeys_def split: prod.splits sum.splits)
    from ListKeys_exact [OF assms this True] Inr show ?thesis by (auto simp: answer_Inr intro: a_step.list_all)
  next
    case False
    with sub a_step.list_some [of ks "abs_repo E (mem C r)"] Inr show ?thesis by (simp add: answer_Inr)
  qed
qed

section \<open>Refinement\<close>

lemma UpdateKey_step:
  assumes "env_ok E C" "repo_inv E C r" "UpdateKey E vet k0 r = (res, r')"
  shows "res = Inl e \<Longrightarrow> mem C r' = mem C r"
    and "res = Inr k' \<Longrightarrow> \<exists>k old now. k0 = Some k \<and> key_at E (mem C r) (kPublicId k) = Some old \<and>
           kName old = kName k \<and> k' = k\<lparr>kUpdateTime := now\<rparr> \<and>
           key_at E (mem C r') = (key_at E (mem C r))(kPublicId k \<mapsto> k') \<and>
           version_at E (mem C r') = version_at E (mem C r)"
proof -
  have "\<exists>g. updateKey E k vet r = (g, r') \<and> (isl g = isl res) \<and> (\<forall>x. res = Inr x \<longrightarrow> g = Inr x)"
    if "k0 = Some k" for k
    using that assms(3) by (cases "updateKey E k vet r"; cases "fst (updateKey E k vet r)")
      (auto simp: UpdateKey_def)
  note g = this
  show "mem C r' = mem C r" if "res = Inl e"
  proof (cases k0)
    case (Some k)
    from g [OF this] that obtain e' where "updateKey E k vet r = (Inl e', r')" by (auto simp: isl_def)
    from mem_same [OF updateKey_effect(3) [OF assms(1) repo_invD(1) [OF assms(2)] this refl]] show ?thesis .
  qed (use assms in \<open>simp add: UpdateKey_def\<close>)
  show "\<exists>k old now. k0 = Some k \<and> key_at E (mem C r) (kPublicId k) = Some old \<and>
           kName old = kName k \<and> k' = k\<lparr>kUpdateTime := now\<rparr> \<and>
           key_at E (mem C r') = (key_at E (mem C r))(kPublicId k \<mapsto> k') \<and>
           version_at E (mem C r') = version_at E (mem C r)" if "res = Inr k'"
  proof (cases k0)
    case (Some k)
    from g [OF this] that have u: "updateKey E k vet r = (Inr k', r')" by auto
    from updateKey_effect(2) [OF assms(1) repo_invD(1) [OF assms(2)] u refl] obtain now old b
      where o: "k' = k\<lparr>kUpdateTime := now\<rparr>" "key_at E (mem C r) (kPublicId k) = Some old"
        "kName old = kName k" "marshalKey E k' = Inr b" "mem C r' = (mem C r)(key_slot (kPublicId k) \<mapsto> b)"
      by blast
    have "version_at E (mem C r') = version_at E (mem C r)" by (simp add: o(5) version_at_def fun_eq_iff)
    moreover have "key_at E (mem C r') = (key_at E (mem C r))(kPublicId k \<mapsto> k')"
      using env_okD(3) [OF assms(1) o(4)] by (simp add: o(5))
    ultimately show ?thesis using Some o(1-3) by blast
  qed (use assms that in \<open>simp add: UpdateKey_def\<close>)
qed

lemma run_create_refines:
  assumes "sound_env E C" "repo_inv E C r" "plain_versions (mem C r)" "plain_op (RCreate k0 v0)"
    "CreateKey E vet n k0 v0 r = (res, r')"
  shows "plain_versions (mem C r') \<and> a_step (abs_repo E (mem C r)) (RCreate k0 v0) (fst (answer E (\<lambda>(k', v'). Created k' v') (res, r'))) (abs_repo E (mem C r'))"
proof -
  have env: "env_ok E C" "reads_reliable E" "deletes_reliable E" using assms(1) by auto
  note inv = repo_invD [OF assms(2)]
  note ce = CreateKey_effect [OF env(1) inv(1) assms(5)]
  show ?thesis
  proof (cases res)
    case (Inl e)
    with ce(3) [OF Inl env(3,2)] assms(3) show ?thesis by (simp add: a_step.failed)
  next
    case (Inr kv)
    then obtain k' v' where res: "res = Inr (k', v')" by (cases kv) auto
    from ce(2) [OF res] obtain k v where kv: "k0 = Some k" "v0 = Some v"
      and cr: "created E k v (mem C r) k' v' (mem C r')" by blast
    from cr have c: "stamped k k'" "stampedV v v'" "kName k \<noteq> []" "vKeyId v = kPublicId k"
      "mem C r (key_slot (kPublicId k)) = None" "names_of (mem C r) (kName k) = None"
      "mem C r (version_slot (kPublicId k) (vVersion v)) = None" by (simp_all add: created_def)
    have wf: "wf_store E (mem C r)" using assms(2) by (simp add: repo_inv_def)
    note w = wf_created [OF env(1) wf cr]
    have "plain_versions (mem C r')"
      using plain_versions_upd [OF assms(2) CreateKey_inv [OF assms(1,2,5)] assms(3) _ w(3)] assms(4) kv c(4)
      by simp
    moreover have "\<forall>i x. key_at E (mem C r) i = Some x \<longrightarrow> kName x \<noteq> kName k"
      using key_at_SomeD(3) [OF inv(2)] c(6) by (metis option.simps(3))
    then have "a_step (abs_repo E (mem C r)) (RCreate k0 v0) (Created k' v') (abs_repo E (mem C r'))"
      unfolding kv abs_repo_eqI [OF w(2,3), of "mem C r"]
      using a_step.create_ok [of "abs_repo E (mem C r)" k v k' v'] c key_at_None [OF inv(2)] version_at_None [OF inv(4)]
      by simp
    ultimately show ?thesis using res by simp
  qed
qed

lemma run_add_refines:
  assumes "sound_env E C" "repo_inv E C r" "plain_versions (mem C r)" "plain_op (RAddVersion v)"
    "AddVersion E vet v r = (res, r')"
  shows "plain_versions (mem C r') \<and> a_step (abs_repo E (mem C r)) (RAddVersion v) (fst (answer E TheVersion (res, r'))) (abs_repo E (mem C r'))"
proof -
  note as = AddVersion_step [OF assms(1,2,5)]
  show ?thesis
  proof (cases res)
    case (Inl e)
    with as(2) [OF Inl] assms(3) show ?thesis by (simp add: a_step.failed)
  next
    case (Inr v')
    from as(3) [OF Inr] obtain k now where a: "key_at E (mem C r) (vKeyId v) = Some k"
      "vVersion v = kCurrentVersion k + 1" "stampedV v v'"
      "version_at E (mem C r) (vKeyId v, vVersion v) = None"
      and w: "key_at E (mem C r') =
             (key_at E (mem C r))(vKeyId v \<mapsto> k\<lparr>kCurrentVersion := vVersion v, kUpdateTime := now\<rparr>)"
        "version_at E (mem C r') = (version_at E (mem C r))((vKeyId v, vVersion v) \<mapsto> v')" by blast
    have "plain_versions (mem C r')"
      using plain_versions_upd [OF assms(2) as(1) assms(3) _ w(2)] assms(4) by simp
    moreover have "a_step (abs_repo E (mem C r)) (RAddVersion v) (TheVersion v') (abs_repo E (mem C r'))"
      unfolding abs_repo_eqI [OF w, of "mem C r"]
      using a_step.add_ok [of "abs_repo E (mem C r)" v k v' now] a by simp
    ultimately show ?thesis using Inr by simp
  qed
qed

lemma run_update_refines:
  assumes "sound_env E C" "repo_inv E C r" "plain_versions (mem C r)" "UpdateKey E vet k0 r = (res, r')"
  shows "plain_versions (mem C r') \<and> a_step (abs_repo E (mem C r)) (RUpdate k0) (fst (answer E TheKey (res, r'))) (abs_repo E (mem C r'))"
proof -
  have env: "env_ok E C" using assms(1) by simp
  note us = UpdateKey_step [OF env assms(2,4)] and ui = UpdateKey_inv [OF env assms(2,4)]
  show ?thesis
  proof (cases res)
    case (Inl e)
    with us(1) [OF Inl] assms(3) show ?thesis by (simp add: a_step.failed)
  next
    case (Inr k')
    from us(2) [OF Inr] obtain k old now where a: "k0 = Some k"
      "key_at E (mem C r) (kPublicId k) = Some old" "kName old = kName k" "k' = k\<lparr>kUpdateTime := now\<rparr>"
      and w: "key_at E (mem C r') = (key_at E (mem C r))(kPublicId k \<mapsto> k')"
        "version_at E (mem C r') = version_at E (mem C r)" by blast
    have "plain_versions (mem C r')"
      using assms(3) w(2) unfolding plain_versions_iff [OF repo_invD(4) [OF assms(2)]]
        plain_versions_iff [OF repo_invD(4) [OF ui]] by simp
    moreover have "a_step (abs_repo E (mem C r)) (RUpdate k0) (TheKey k') (abs_repo E (mem C r'))"
      unfolding a(1,4) abs_repo_eqI [OF w, of "mem C r"]
      using a_step.update_ok [of "abs_repo E (mem C r)" k old now] a by (simp add: abs_repo_def)
    ultimately show ?thesis using Inr by simp
  qed
qed

lemma run_delete_refines:
  assumes "sound_env E C" "repo_inv E C r" "plain_versions (mem C r)" "DeleteKey E i r = (res, r')"
  shows "a_step (abs_repo E (mem C r)) (RDelete i) (fst (answer E (\<lambda>_. Done) (res, r'))) (abs_repo E (mem C r'))"
proof -
  note ds = DeleteKey_step [OF assms(1,2,4)]
  show ?thesis
  proof (cases res)
    case (Inl e)
    show ?thesis
    proof (cases "mem C r' = mem C r")
      case False
      with ds(4) [OF Inl] have w: "key_at E (mem C r') = (key_at E (mem C r))(i := None)"
        "version_at E (mem C r') = version_at E (mem C r)" and k: "key_at E (mem C r) i \<noteq> None" by auto
      show ?thesis unfolding abs_repo_eqI [OF w, of "mem C r"] Inl
        using a_step.delete_partly [of "abs_repo E (mem C r)" i] k by (simp add: abs_repo_def)
    qed (simp add: Inl a_step.failed)
  next
    case (Inr u)
    have w: "version_at E (mem C r') = (\<lambda>(j, n). if j = i then None else version_at E (mem C r) (j, n))"
      using ds(3) [OF Inr assms(3)] by (auto simp: fun_eq_iff)
    show ?thesis unfolding abs_repo_eqI [OF conjunct2 [OF ds(2) [OF Inr]] w, of "mem C r"]
      using a_step.delete_ok [of "abs_repo E (mem C r)" i] ds(2) [OF Inr] Inr by (simp cong: if_cong)
  qed
qed

lemma run_op_refines:
  assumes "sound_env E C" "repo_inv E C r" "plain_versions (mem C r)" "plain_op op"
    "run_op E vet n op r = (ans, r')"
  shows "repo_inv E C r' \<and> plain_versions (mem C r') \<and>
    a_step (abs_repo E (mem C r)) op ans (abs_repo E (mem C r'))"
proof -
  have env: "env_ok E C" using assms(1) by simp
  note sr = same_repo_inv [OF _ assms(2)]
  have ans: "ans = fst (run_op E vet n op r)" "r' = snd (run_op E vet n op r)" using assms(5) by simp_all
  show ?thesis
  proof (cases op)
    case (RCreate k v)
    obtain res r1 where c: "CreateKey E vet n k v r = (res, r1)" by fastforce
    with run_create_refines [OF assms(1-3) _ c] CreateKey_inv [OF assms(1,2) c] assms(4) RCreate ans
    show ?thesis by simp
  next
    case (RUpdate k)
    obtain res r1 where c: "UpdateKey E vet k r = (res, r1)" by fastforce
    with run_update_refines [OF assms(1-3) c] UpdateKey_inv [OF env assms(2) c] RUpdate ans
    show ?thesis by simp
  next
    case (RAddVersion v)
    obtain res r1 where c: "AddVersion E vet v r = (res, r1)" by fastforce
    with run_add_refines [OF assms(1-3) _ c] AddVersion_step(1) [OF assms(1,2) c] assms(4) RAddVersion ans
    show ?thesis by simp
  next
    case (RDelete i)
    obtain res r1 where c: "DeleteKey E i r = (res, r1)" by fastforce
    with run_delete_refines [OF assms(1-3) c] DeleteKey_step(1,5) [OF assms(1,2) c] assms(3) RDelete ans
    show ?thesis by simp
  next
    case (RGetByID i)
    with GetKeyByID_step(1,2) [OF assms(1,2) surjective_pairing, of i] assms(3) ans
      a_step.get_id [of "abs_repo E (mem C r)" i]
    show ?thesis by (simp add: answer_by_id [OF assms(1,2)])
  next
    case (RGetByName i)
    with GetKeyByName_step(1,2) [OF assms(1,2) surjective_pairing, of i] assms(3) ans answer_by_name [OF assms(1,2), of i]
    show ?thesis by simp
  next
    case (RGetVersion i w)
    with sr [OF GetVersion_reads [OF env, of r i w]] assms(3) ans a_step.get_version [of "abs_repo E (mem C r)" i w]
    show ?thesis by (simp add: answer_version [OF assms(1,2)])
  next
    case RListKeys
    with sr [OF ListKeys_reads [OF env, of r]] assms(3) ans answer_list [OF assms(1,2)]
    show ?thesis by simp
  qed
qed

lemma run_ops_refines:
  assumes "sound_env E C" "repo_inv E C r" "plain_versions (mem C r)" "\<forall>op \<in> set ops. plain_op op"
    "run_ops E vet n ops r = (answers, r')"
  shows "repo_inv E C r' \<and> plain_versions (mem C r') \<and>
    a_run (abs_repo E (mem C r)) (zip ops answers) (abs_repo E (mem C r'))"
  using assms(2-)
proof (induction ops arbitrary: r answers)
  case Nil
  then show ?case by (simp add: a_run.a_nil)
next
  case (Cons op ops)
  obtain ans r1 where 1: "run_op E vet n op r = (ans, r1)" by fastforce
  obtain rest where 2: "run_ops E vet n ops r1 = (rest, r')" "answers = ans # rest"
    using Cons.prems(4) 1 by (auto split: prod.splits)
  from run_op_refines [OF assms(1) Cons.prems(1,2) _ 1] Cons.prems(3)
  have "repo_inv E C r1" "plain_versions (mem C r1)"
    "a_step (abs_repo E (mem C r)) op ans (abs_repo E (mem C r1))" by auto
  with Cons.IH [OF this(1,2) _ 2(1)] Cons.prems(3) 2(2) show ?case by (auto intro: a_run.a_cons)
qed

end
