(* ===== verification/Key_Repository_Properties.thy ===== *)
theory Key_Repository_Properties
  imports Key_Repository_Runs
begin

text \<open>
  The properties of the key repository that its clients rely on, each with an example over the
  in-memory storage.
\<close>

section \<open>Current versions and listings\<close>

lemma getCurrentVersionInternal_step:
  assumes "sound_env E C" "key_at E (mem C r) pid = Some k"
    "version_at E (mem C r) (pid, kCurrentVersion k) = Some v"
  shows "fst (getCurrentVersionInternal E pid r) = Inr v"
proof -
  have env: "env_ok E C" "reads_reliable E" using assms(1) by auto
  obtain g r1 where g: "getKey E pid r = (g, r1)" by fastforce
  note ge = getKey_effect [OF env(1) g]
  have gk: "g = Inr k" by (rule ge(5) [OF env(2) assms(2)])
  obtain q r2 where q: "getKeyVersion E pid (kCurrentVersion k) r1 = (q, r2)" by fastforce
  have "q = Inr v"
    using getKeyVersion_effect(5) [OF env(1) q env(2)] assms(3) mem_same [OF ge(1)] by simp
  with g gk q show ?thesis by (simp add: getCurrentVersionInternal_def)
qed

lemma GetVersion_zero:
  "fst (GetVersion E pid 0 r) = Inr v \<longleftrightarrow> fst (getCurrentVersionInternal E pid r) = Inr v"
  by (auto simp: GetVersion_def split: prod.splits sum.splits)

lemma GetCurrentVersion_ok:
  "fst (GetCurrentVersion E pid r) = Inr v \<longleftrightarrow> fst (getCurrentVersionInternal E pid r) = Inr v"
  by (auto simp: GetCurrentVersion_def split: prod.splits sum.splits)

section \<open>Example environment\<close>

text \<open>
  A codec over finite tables of keys and versions, the in-memory storage and a clock that
  stands still.
\<close>

definition position :: "'a list \<Rightarrow> 'a \<Rightarrow> nat" where
  "position xs x = length (takeWhile (\<lambda>y. y \<noteq> x) xs)"

lemma nth_position: "x \<in> set xs \<Longrightarrow> position xs x < length xs \<and> xs ! position xs x = x"
  by (induction xs) (auto simp: position_def)

definition table_marshal :: "'a list \<Rightarrow> 'a \<Rightarrow> blob result" where
  "table_marshal xs x = (if x \<in> set xs then Inr (show_nat (position xs x)) else Inl (ErrPlain ''unknown message''))"

definition table_unmarshal :: "'a list \<Rightarrow> blob \<Rightarrow> 'a result" where
  "table_unmarshal xs b =
     (if read_digits b < length xs then Inr (xs ! read_digits b) else Inl (ErrPlain ''malformed message''))"

lemma table_codec: "table_marshal xs x = Inr b \<Longrightarrow> table_unmarshal xs b = Inr x"
  using nth_position [of x xs] by (auto simp: table_marshal_def table_unmarshal_def split: if_splits)

lemma table_unmarshal_error: "table_unmarshal xs b = Inl e \<Longrightarrow> e = ErrPlain ''malformed message''"
  by (simp add: table_unmarshal_def split: if_splits)

definition demo_env :: "key list \<Rightarrow> version list \<Rightarrow> (string \<times> blob) list vault_env" where
  "demo_env ks vs =
     \<lparr>vGet = vGet mem_storage, vPut = vPut mem_storage, vDelete = vDelete mem_storage,
      vList = vList mem_storage, errs = ref_errors,
      marshalKey = table_marshal ks, unmarshalKey = table_unmarshal ks,
      marshalVersion = table_marshal vs, unmarshalVersion = table_unmarshal vs,
      vetKey = (\<lambda>_ _. None), vetVersion = (\<lambda>_ _. None), clock = (\<lambda>_. 0)\<rparr>"

lemma demo_env_ok [simp]:
  "env_ok (demo_env ks vs) map_of" "storage_reliable (demo_env ks vs)"
proof -
  have "storage_laws (demo_env ks vs) map_of"
    using mem_storage_laws by (simp add: storage_laws_def demo_env_def)
  then show "env_ok (demo_env ks vs) map_of"
    unfolding env_ok_def
    by (auto simp: demo_env_def mem_storage_def dest: table_codec table_unmarshal_error)
  show "storage_reliable (demo_env ks vs)"
    using mem_storage_reliable by (simp add: storage_reliable_def demo_env_def)
qed

lemma demo_sound [simp]: "reads_reliable (demo_env ks vs)" "deletes_reliable (demo_env ks vs)"
  using storage_reliable_parts [OF demo_env_ok(2)] by auto

definition demo_key :: "string \<Rightarrow> string \<Rightarrow> 32 word \<Rightarrow> key" where
  "demo_key i n cur = \<lparr>kPublicId = i, kName = n, kCreateTime = 0, kUpdateTime = 0, kDestroyTime = None,
     kPrimitive = ''aead'', kPolicyId = ''pol'', kCurrentVersion = cur, kLabels = [], kState = 1\<rparr>"

definition demo_version :: "string \<Rightarrow> 32 word \<Rightarrow> version" where
  "demo_version i n = \<lparr>vPublicId = ''kv'', vVersion = n, vKeyId = i, vCreateTime = 0, vUpdateTime = 0,
     vCtKeyMaterial = [], vKeyMaterial = [], vTemplateId = ''t'', vDigest = [], vDigestAlgorithm = [],
     vWrappingKeyId = [], vProviderId = ''p'', vState = 1, vScope = []\<rparr>"

definition demo_repo :: "(string \<times> blob) list \<Rightarrow> (string \<times> blob) list repo" where
  "demo_repo s = \<lparr>keyNameToIDFunc = None, keyNameToIDCache = newLRUCache 1000, store = s\<rparr>"

lemma demo_new: "NewVaultRepository (Some s) [] = Inr (demo_repo s)"
  by (simp add: NewVaultRepository_def getVaultRepositoryOpts_def demo_repo_def)

lemma demo_repo_inv: "repo_inv (demo_env ks vs) map_of (demo_repo [])"
  using repo_inv_new(1) [of map_of "[]" 0 "[]" "demo_repo []"] demo_new by simp

definition demo1 :: "(string \<times> blob) list vault_env" where
  "demo1 = demo_env [demo_key ''k1'' ''alpha'' 1, demo_key ''k1'' ''alpha'' 2]
     [demo_version ''k1'' 1, demo_version ''k1'' 2]"

lemma demo1_simps:
  "env_ok demo1 map_of" "storage_reliable demo1" "reads_reliable demo1" "deletes_reliable demo1"
  "errs demo1 = ref_errors" "clock demo1 s = 0" "vetKey demo1 wop k = None" "vetVersion demo1 wop v = None"
  "marshalKey demo1 = table_marshal [demo_key ''k1'' ''alpha'' 1, demo_key ''k1'' ''alpha'' 2]"
  "marshalVersion demo1 = table_marshal [demo_version ''k1'' 1, demo_version ''k1'' 2]"
  "repo_inv demo1 map_of (demo_repo [])"
  unfolding demo1_def by (simp_all add: demo_repo_inv) (simp_all add: demo_env_def)

definition demo1_created :: "(string \<times> blob) list repo" where
  "demo1_created = snd (CreateKey demo1 True 1 (Some (demo_key ''k1'' ''alpha'' 1)) (Some (demo_version ''k1'' 1)) (demo_repo []))"

lemma demo1_create:
  "CreateKey demo1 True 1 (Some (demo_key ''k1'' ''alpha'' 1)) (Some (demo_version ''k1'' 1)) (demo_repo []) =
     (Inr (demo_key ''k1'' ''alpha'' 1, demo_version ''k1'' 1), demo1_created)"
proof -
  have "fst (CreateKey demo1 True 1 (Some (demo_key ''k1'' ''alpha'' 1)) (Some (demo_version ''k1'' 1)) (demo_repo [])) =
     Inr (demo_key ''k1'' ''alpha'' 1, demo_version ''k1'' 1)" by code_simp
  then show ?thesis by (simp add: demo1_created_def prod_eq_iff)
qed

section \<open>Properties\<close>

text \<open>
  C1: Take any sequence of repository operations on a new repository over empty storage whose reads
  and deletions succeed, for versions whose key ids contain no colon; storage writes, listings,
  encoding and vetting may fail at will. Answer by answer it behaves as the abstract repository of keys
  and versions: each success is one of its steps and answers what it stored, each reported failure
  changes nothing (a failed deletion may have removed the key), a lookup by id, name or version answers
  exactly what the contents hold and not-found when they hold nothing, a listing answers stored keys,
  all of them when no id contains a slash, and names stay unique.
\<close>

theorem repository_run_refines:
  assumes "env_ok E C" "reads_reliable E" "deletes_reliable E" "C s = Map.empty"
    and "NewVaultRepository (Some s) [] = Inr r" "\<forall>op \<in> set ops. plain_op op"
    and "run_ops E vet n ops r = (answers, r')"
  shows "length answers = length ops \<and> a_run \<lparr>akeys = Map.empty, avers = Map.empty\<rparr> (zip ops answers) (abs_repo E (C (store r'))) \<and>
    names_distinct (abs_repo E (C (store r')))"
proof -
  note new = repo_inv_new [of C s 0 "[]" r, OF assms(4) _ assms(5)]
  have env: "sound_env E C" using assms(1-3) by simp
  have "plain_versions (mem C r)" using new(2) by (simp add: plain_versions_def)
  from run_ops_refines [OF env new(1) this assms(6,7)]
  have run: "repo_inv E C r'" "a_run (abs_repo E (mem C r)) (zip ops answers) (abs_repo E (mem C r'))" by auto
  have "abs_repo E (mem C r) = \<lparr>akeys = Map.empty, avers = Map.empty\<rparr>"
    using new(2) by (auto simp: abs_repo_def key_at_def version_at_def fun_eq_iff)
  moreover have "names_distinct (abs_repo E (mem C r'))"
    unfolding names_distinct_def using vault.names_unique [of E C r'] env run(1) by auto
  moreover have "length answers = length ops" using run_ops_length [of E vet n ops r] assms(7) by simp
  ultimately show ?thesis using run(2) by simp
qed

theorem repository_run_refines_witness:
  "let ops = [RCreate (Some (demo_key ''k1'' ''alpha'' 1)) (Some (demo_version ''k1'' 1)),
              RAddVersion (demo_version ''k1'' 2), RGetByName ''alpha'', RGetVersion ''k1'' 0, RListKeys, RDelete ''k2''];
       run = run_ops demo1 True 1 ops (demo_repo [])
   in fst run = [Created (demo_key ''k1'' ''alpha'' 1) (demo_version ''k1'' 1), TheVersion (demo_version ''k1'' 2),
        TheKey (demo_key ''k1'' ''alpha'' 2), TheVersion (demo_version ''k1'' 2), TheKeys [demo_key ''k1'' ''alpha'' 2], NotFound] \<and>
      a_run \<lparr>akeys = Map.empty, avers = Map.empty\<rparr> (zip ops (fst run)) (abs_repo demo1 (map_of (store (snd run))))"
proof -
  let ?ops = "[RCreate (Some (demo_key ''k1'' ''alpha'' 1)) (Some (demo_version ''k1'' 1)),
              RAddVersion (demo_version ''k1'' 2), RGetByName ''alpha'', RGetVersion ''k1'' 0, RListKeys, RDelete ''k2'']"
  have "fst (run_ops demo1 True 1 ?ops (demo_repo [])) = [Created (demo_key ''k1'' ''alpha'' 1) (demo_version ''k1'' 1),
      TheVersion (demo_version ''k1'' 2), TheKey (demo_key ''k1'' ''alpha'' 2), TheVersion (demo_version ''k1'' 2),
      TheKeys [demo_key ''k1'' ''alpha'' 2], NotFound]" by code_simp
  moreover have "\<forall>op \<in> set ?ops. plain_op op" by (simp add: demo_version_def plain_id_def)
  ultimately show ?thesis
    using repository_run_refines [of demo1 map_of "[]" "demo_repo []" ?ops True 1] demo_new
    by (simp only: Let_def) (metis demo1_def demo_env_ok(1) demo_sound map_of.simps(1) prod.collapse)
qed

text \<open>
  A key that was created is found under its id and under its name, as it was stored, and
  its initial version is the one stored for it.
\<close>

theorem CreateKey_then_lookup:
  assumes "env_ok E C" "reads_reliable E" "deletes_reliable E" "repo_inv E C r"
    and "CreateKey E vet n (Some k) (Some v) r = (Inr (k', v'), r')"
  shows "fst (GetKeyByID E (kPublicId k) r') = Inr k' \<and> fst (GetKeyByName E (kName k) r') = Inr k' \<and>
    (n \<noteq> 0 \<longrightarrow> fst (GetVersion E (kPublicId k) n r') = Inr v')"
proof -
  have env: "sound_env E C" using assms(1-3) by simp
  from CreateKey_effect(2) [OF assms(1) repo_invD(1) [OF assms(4)] assms(5) refl]
  have cr: "created E k v (mem C r) k' v' (mem C r')" and n: "vVersion v = n" by auto
  then have st: "stamped k k'" "vKeyId v = kPublicId k" by (simp_all add: created_def)
  from vault.create_lookup [of E C r vet n "Some k" "Some v" k' v' r'] env assms(4,5) st
  have "fst (GetKeyByID E (kPublicId k) r') = Inr k' \<and> fst (GetKeyByName E (kName k) r') = Inr k'" by simp
  moreover have "version_at E (mem C r') (kPublicId k, n) = Some v'"
    using wf_created(3) [OF assms(1) _ cr] assms(4) n by (simp add: repo_inv_def)
  then have "fst (getKeyVersion E (kPublicId k) n r') = Inr v'"
    using getKeyVersion_effect(5) [OF assms(1) surjective_pairing assms(2)] by simp
  then have "n \<noteq> 0 \<longrightarrow> fst (GetVersion E (kPublicId k) n r') = Inr v'"
    by (auto simp: GetVersion_def getVersionInternal_def split: prod.splits sum.splits)
  ultimately show ?thesis by blast
qed

theorem CreateKey_then_lookup_witness:
  "fst (GetKeyByName demo1 ''alpha'' demo1_created) = Inr (demo_key ''k1'' ''alpha'' 1) \<and>
   fst (GetVersion demo1 ''k1'' 1 demo1_created) = Inr (demo_version ''k1'' 1)"
  using CreateKey_then_lookup [of demo1 map_of "demo_repo []" True 1 "demo_key ''k1'' ''alpha'' 1"
      "demo_version ''k1'' 1"] demo1_create demo_repo_inv
  by (simp add: demo1_def demo_key_def)

text \<open>
  C2: A creation that reports an error leaves the storage contents and the stored keys as they
  were, whichever write, encoding or vetting failed.
\<close>

theorem CreateKey_failure_leaves_no_trace:
  assumes "env_ok E C" "reads_reliable E" "deletes_reliable E" "repo_inv E C r"
    and "CreateKey E vet n k v r = (Inl e, r')"
  shows "C (store r') = C (store r) \<and> repo_inv E C r' \<and>
    (\<forall>name x. fst (GetKeyByName E name r) = Inr x \<longrightarrow> fst (GetKeyByName E name r') = Inr x)"
proof -
  have env: "sound_env E C" using assms(1-3) by simp
  have m: "C (store r') = C (store r)"
    by (rule CreateKey_effect(3) [OF assms(1) repo_invD(1) [OF assms(4)] assms(5) refl assms(3,2)])
  have i: "repo_inv E C r'" by (rule CreateKey_inv [OF env assms(4,5)])
  have "fst (GetKeyByName E name r') = Inr x" if "fst (GetKeyByName E name r) = Inr x" for name x
  proof -
    from that obtain r1 where n: "GetKeyByName E name r = (Inr x, r1)" by (cases "GetKeyByName E name r") auto
  have "name \<noteq> []" using n resolveKeyNameToID_effect(3) [OF assms(1) repo_invD(1) [OF assms(4)] surjective_pairing]
    by (auto simp: GetKeyByName_def split: prod.splits sum.splits)
  with GetKeyByName_step(3,4) [OF env assms(4) n] obtain j k0
    where "key_at E (mem C r) j = Some k0" "kName k0 = name" "x = k0"
    by (metis sum.distinct(1) sum.inject(2))
  with GetKeyByName_step(3) [OF env i surjective_pairing, of j k0 name] m
  show ?thesis by simp
  qed
  with m i show ?thesis by blast
qed

theorem CreateKey_failure_leaves_no_trace_witness:
  "isl (fst (CreateKey demo1 True 1 (Some (demo_key ''k2'' ''beta'' 1)) (Some (demo_version ''k2'' 1)) demo1_created)) \<and>
   fst (GetKeyByName demo1 ''alpha''
     (snd (CreateKey demo1 True 1 (Some (demo_key ''k2'' ''beta'' 1)) (Some (demo_version ''k2'' 1)) demo1_created)))
     = Inr (demo_key ''k1'' ''alpha'' 1)"
proof -
  let ?c = "CreateKey demo1 True 1 (Some (demo_key ''k2'' ''beta'' 1)) (Some (demo_version ''k2'' 1)) demo1_created"
  have i: "repo_inv demo1 map_of demo1_created"
    using CreateKey_inv [OF _ _ demo1_create] demo_repo_inv by (simp add: demo1_def)
  have "isl (fst ?c)" by code_simp
  then obtain e where e: "?c = (Inl e, snd ?c)" by (cases "fst ?c") (auto simp: prod_eq_iff)
  have "fst (GetKeyByName demo1 ''alpha'' demo1_created) = Inr (demo_key ''k1'' ''alpha'' 1)" by code_simp
  with CreateKey_failure_leaves_no_trace [OF _ _ _ i e] \<open>isl (fst ?c)\<close> show ?thesis by (simp add: demo1_def)
qed

text \<open>
  C22: On storage that answers, with encoding and vetting accepting the key and the version,
  creation succeeds exactly for a non-empty fresh id and name and a fresh version slot, when
  the version belongs to the key and has the initial number.
\<close>

theorem CreateKey_succeeds_iff:
  assumes "env_ok E C" "storage_reliable E" "repo_inv E C r"
    and vk: "vet \<longrightarrow> vetKey E OpCreate k = None" and vv: "vet \<longrightarrow> vetVersion E OpCreate v = None"
    and mk: "\<And>s. \<not> isl (marshalKey E (k\<lparr>kCreateTime := clock E s, kUpdateTime := clock E s\<rparr>))"
    and mv: "\<And>s. \<not> isl (marshalVersion E (v\<lparr>vCreateTime := clock E s, vUpdateTime := clock E s\<rparr>))"
  shows "\<not> isl (fst (CreateKey E vet n (Some k) (Some v) r)) \<longleftrightarrow>
    kPublicId k = vKeyId v \<and> vVersion v = n \<and> kPublicId k \<noteq> [] \<and> kName k \<noteq> [] \<and>
    key_at E (C (store r)) (kPublicId k) = None \<and>
    (\<forall>i x. key_at E (C (store r)) i = Some x \<longrightarrow> kName x \<noteq> kName k) \<and>
    version_at E (C (store r)) (vKeyId v, vVersion v) = None"
    (is "?ok \<longleftrightarrow> ?cond")
proof -
  note inv = repo_invD [OF assms(3)] and rel = storage_reliable_parts [OF assms(2)]
  have nm: "(\<forall>i x. key_at E (mem C r) i = Some x \<longrightarrow> kName x \<noteq> kName k) \<longleftrightarrow> names_of (mem C r) (kName k) = None"
    using names_of_iff [OF inv(2,3)] by (metis not_Some_eq)
  show ?thesis
  proof
    assume ?ok
    then obtain k' v' r' where "CreateKey E vet n (Some k) (Some v) r = (Inr (k', v'), r')"
      by (cases "CreateKey E vet n (Some k) (Some v) r"; cases "fst (CreateKey E vet n (Some k) (Some v) r)") auto
    from CreateKey_effect(2) [OF assms(1) inv(1) this refl]
    show ?cond using nm key_at_None [OF inv(2)] version_at_None [OF inv(4)] by (auto simp: created_def)
  next
    assume c: ?cond
    obtain g r1 where g: "putKey E k vet r = (g, r1)" by fastforce
    note ge = putKey_effect [OF assms(1) inv(1) g]
    from ge(4) [OF assms(2) vk mk] c nm key_at_None [OF inv(2)] obtain k' where k': "g = Inr k'" by auto
    obtain q r2 where q: "putKeyVersion E v vet r1 = (q, r2)" by fastforce
    have "mem C r1 (version_slot (vKeyId v) (vVersion v)) = None"
      using ge(2) [OF k'] c version_at_None [OF inv(4)] by auto
    from putKeyVersion_effect(4) [OF assms(1) ge(1) q assms(2) vv mv this] obtain v' where "q = Inr v'" by blast
    with c g k' q show ?ok by (simp add: CreateKey_def)
  qed
qed

theorem CreateKey_succeeds_iff_witness:
  "\<not> isl (fst (CreateKey demo1 True 1 (Some (demo_key ''k1'' ''alpha'' 1)) (Some (demo_version ''k1'' 1)) (demo_repo [])))"
proof -
  let ?k = "demo_key ''k1'' ''alpha'' 1" and ?v = "demo_version ''k1'' 1"
  have "\<not> isl (marshalKey demo1 (?k\<lparr>kCreateTime := clock demo1 s, kUpdateTime := clock demo1 s\<rparr>))"
    "\<not> isl (marshalVersion demo1 (?v\<lparr>vCreateTime := clock demo1 s, vUpdateTime := clock demo1 s\<rparr>))" for s
    by (simp_all add: demo1_simps table_marshal_def demo_key_def demo_version_def)
  from CreateKey_succeeds_iff [OF demo1_simps(1,2,11) _ _ this, of True 1] show ?thesis
    by (simp add: demo1_simps key_at_def version_at_def demo_repo_def)
       (simp add: demo_key_def demo_version_def)
qed

text \<open>
  C12: Over storage whose reads and deletions succeed, in which no stored version belongs to a key id
  with a colon, a deletion that succeeds leaves neither the key, its name nor any of its versions to
  be found, and leaves the versions of every other key as they were.
\<close>

theorem DeleteKey_cascades:
  assumes "env_ok E C" "reads_reliable E" "deletes_reliable E" "repo_inv E C r" "plain_versions (C (store r))"
    and "fst (GetKeyByID E i r) = Inr k" "DeleteKey E i r = (Inr u, r')"
  shows "(\<exists>e. fst (GetKeyByID E i r') = Inl e \<and> hasCode (errs E) CodeKeyNotFound e) \<and>
    (\<exists>e. fst (GetKeyByName E (kName k) r') = Inl e \<and> hasCode (errs E) CodeKeyNotFound e) \<and>
    (\<forall>j n. version_at E (C (store r')) (j, n) = (if j = i then None else version_at E (C (store r)) (j, n)))"
proof -
  have env: "sound_env E C" using assms(1-3) by simp
  have "key_at E (mem C r) i = Some k"
    using GetKeyByID_step(3,4) [OF env assms(4) surjective_pairing, of i] assms(6)
    by (cases "key_at E (mem C r) i") auto
  from vault.remove_lookup [of E C r i k u r'] env assms(4,7) this DeleteKey_step(3) [OF env assms(4,7) refl assms(5)]
  show ?thesis by auto
qed

theorem DeleteKey_cascades_witness:
  "\<exists>e. fst (GetKeyByName demo1 ''alpha'' (snd (DeleteKey demo1 ''k1'' demo1_created))) = Inl e \<and>
       hasCode ref_errors CodeKeyNotFound e"
proof -
  have i: "repo_inv demo1 map_of demo1_created" and p: "plain_versions (map_of (store demo1_created))"
    using CreateKey_inv [OF _ demo1_simps(11) demo1_create]
      run_create_refines [OF _ demo1_simps(11) _ _ demo1_create] demo1_simps(1,3,4)
    by (auto simp: plain_versions_def demo_repo_def demo_version_def plain_id_def)
  have g: "fst (GetKeyByID demo1 ''k1'' demo1_created) = Inr (demo_key ''k1'' ''alpha'' 1)"
    "fst (DeleteKey demo1 ''k1'' demo1_created) = Inr ()" by code_simp+
  from DeleteKey_cascades [OF demo1_simps(1,3,4) i p g(1), of "()" "snd (DeleteKey demo1 ''k1'' demo1_created)"] g(2)
  show ?thesis by (simp add: prod_eq_iff demo1_simps(5)) (simp add: demo_key_def)
qed

text \<open>
  C23: After a version was added it is the current version: the key's counter has moved to its
  number, and both \<open>GetCurrentVersion\<close> and \<open>GetVersion\<close> with number 0 return it. The number is
  the successor of the current one modulo \<open>2 ^ 32\<close>, and the slot was free.
\<close>

theorem AddVersion_becomes_current:
  assumes "env_ok E C" "reads_reliable E" "deletes_reliable E" "repo_inv E C r"
    and "AddVersion E vet v r = (Inr v', r')"
  shows "(\<exists>k k'. fst (GetKeyByID E (vKeyId v) r) = Inr k \<and> fst (GetKeyByID E (vKeyId v) r') = Inr k' \<and>
      unat (vVersion v) = (unat (kCurrentVersion k) + 1) mod 2 ^ 32 \<and> kCurrentVersion k' = vVersion v) \<and>
    fst (GetCurrentVersion E (vKeyId v) r') = Inr v' \<and> fst (GetVersion E (vKeyId v) 0 r') = Inr v' \<and>
    version_at E (C (store r)) (vKeyId v, vVersion v) = None"
proof -
  have env: "sound_env E C" using assms(1-3) by simp
  note as = AddVersion_step [OF env assms(4,5)]
  from as(3) [OF refl] obtain k now where a: "key_at E (mem C r) (vKeyId v) = Some k"
    "vVersion v = kCurrentVersion k + 1" "version_at E (mem C r) (vKeyId v, vVersion v) = None"
    and k': "key_at E (mem C r') (vKeyId v) = Some (k\<lparr>kCurrentVersion := vVersion v, kUpdateTime := now\<rparr>)"
    and v': "version_at E (mem C r') (vKeyId v, vVersion v) = Some v'" by auto
  let ?k' = "k\<lparr>kCurrentVersion := vVersion v, kUpdateTime := now\<rparr>"
  have "version_at E (mem C r') (vKeyId v, kCurrentVersion ?k') = Some v'" using v' by simp
  from getCurrentVersionInternal_step [OF env k' this]
  have "fst (GetCurrentVersion E (vKeyId v) r') = Inr v'" "fst (GetVersion E (vKeyId v) 0 r') = Inr v'"
    by (simp_all add: GetCurrentVersion_ok GetVersion_zero)
  moreover have "fst (GetKeyByID E (vKeyId v) r) = Inr k" "fst (GetKeyByID E (vKeyId v) r') = Inr ?k'"
    using GetKeyByID_step(3) [OF env assms(4) surjective_pairing] GetKeyByID_step(3) [OF env as(1) surjective_pairing]
      a(1) k' by auto
  moreover have "unat (vVersion v) = (unat (kCurrentVersion k) + 1) mod 2 ^ 32"
    by (simp add: a(2) unat_word_ariths)
  ultimately show ?thesis using a(3) by (intro conjI exI [of _ k] exI [of _ ?k']) simp_all
qed

theorem AddVersion_becomes_current_witness:
  "fst (GetVersion demo1 ''k1'' 0 (snd (AddVersion demo1 True (demo_version ''k1'' 2) demo1_created)))
     = Inr (demo_version ''k1'' 2)"
proof -
  let ?a = "AddVersion demo1 True (demo_version ''k1'' 2) demo1_created"
  have i: "repo_inv demo1 map_of demo1_created"
    using CreateKey_inv [OF _ demo1_simps(11) demo1_create] demo1_simps(1,3,4) by simp
  have "fst ?a = Inr (demo_version ''k1'' 2)" by code_simp
  then have "?a = (Inr (demo_version ''k1'' 2), snd ?a)" by (simp add: prod_eq_iff)
  from AddVersion_becomes_current [OF demo1_simps(1,3,4) i this] show ?thesis by (simp add: demo_version_def)
qed

text \<open>
  C24: \<open>ListKeys\<close> returns every stored key exactly once, provided the storage lists and no key id
  contains a slash.
\<close>

theorem ListKeys_lists_stored:
  assumes "env_ok E C" "storage_reliable E" "repo_inv E C r"
    and "\<forall>i. key_at E (C (store r)) i \<noteq> None \<longrightarrow> CHR ''/'' \<notin> set i"
  shows "\<exists>ks. fst (ListKeys E r) = Inr ks \<and> set ks = ran (key_at E (C (store r))) \<and> distinct ks"
proof -
  have env: "sound_env E C" using assms(1) storage_reliable_parts [OF assms(2)] by simp
  from storage_reliableD(4) [OF assms(2)] obtain ids s
    where "vList E keyStoragePrefix [] (store r) = (Inr ids, s)" by blast
  from ListKeys_exact [OF env assms(3) this] assms(4) show ?thesis by (simp add: domIff)
qed

theorem ListKeys_lists_stored_witness:
  "\<exists>ks. fst (ListKeys demo1 demo1_created) = Inr ks \<and> ks \<noteq> [] \<and>
     set ks = ran (key_at demo1 (map_of (store demo1_created)))"
proof -
  have i: "repo_inv demo1 map_of demo1_created"
    using CreateKey_inv [OF _ demo1_simps(11) demo1_create] demo1_simps(1,3,4) by simp
  from CreateKey_effect(2) [OF demo1_simps(1) repo_invD(1) [OF demo1_simps(11)] demo1_create refl]
    wf_created(2) [OF demo1_simps(1)] demo1_simps(11)
  have "key_at demo1 (map_of (store demo1_created)) =
      (key_at demo1 (map_of (store (demo_repo []))))(''k1'' \<mapsto> demo_key ''k1'' ''alpha'' 1)"
    by (fastforce simp: repo_inv_def demo_key_def)
  then have "\<forall>i. key_at demo1 (map_of (store demo1_created)) i \<noteq> None \<longrightarrow> CHR ''/'' \<notin> set i"
    by (auto simp: key_at_def demo_repo_def)
  from ListKeys_lists_stored [OF demo1_simps(1,2) i this] obtain ks where
    ks: "fst (ListKeys demo1 demo1_created) = Inr ks" "set ks = ran (key_at demo1 (map_of (store demo1_created)))"
    by blast
  have "fst (ListKeys demo1 demo1_created) = Inr [demo_key ''k1'' ''alpha'' 1]" by code_simp
  with ks show ?thesis by auto
qed

text \<open>
  Deleting a key also deletes the versions of keys whose id extends its id by a colon: the
  listing of \<open>id:\<close> cannot tell them apart.
\<close>

definition demo2 :: "(string \<times> blob) list vault_env" where
  "demo2 = demo_env [demo_key ''a'' ''alpha'' 1, demo_key ''a:b'' ''beta'' 1]
     [demo_version ''a'' 1, demo_version ''a:b'' 1]"

theorem DeleteKey_takes_colon_versions:
  "let r = snd (run_ops demo2 True 1
       [RCreate (Some (demo_key ''a'' ''alpha'' 1)) (Some (demo_version ''a'' 1)),
        RCreate (Some (demo_key ''a:b'' ''beta'' 1)) (Some (demo_version ''a:b'' 1))] (demo_repo []));
       (res, r') = DeleteKey demo2 ''a'' r
   in fst (GetVersion demo2 ''a:b'' 1 r) = Inr (demo_version ''a:b'' 1) \<and> res = Inr () \<and>
      isl (fst (GetVersion demo2 ''a:b'' 1 r')) \<and>
      fst (GetKeyByID demo2 ''a:b'' r') = Inr (demo_key ''a:b'' ''beta'' 1)"
  by code_simp

end
