(* ===== verification/Repository_Locking.thy ===== *)
theory Repository_Locking
  imports Main
begin

text \<open>
  The locking of the key repository (\<open>vault-storage/key/vault_repository.go\<close>): every method takes the
  \<open>sync.RWMutex\<close> of its repository for reading or for writing, works, and releases it. Threads run
  their methods in small steps and in any order. \<open>'s\<close> is what the threads share; a method is the list
  of its accesses, so that nothing is assumed about how an operation is made up of storage calls.

  A lock behaves as \<open>sync.RWMutex\<close> documents: a blocked \<open>Lock\<close> keeps new readers out, so \<open>Lock\<close> is two
  steps, announcing the writer and acquiring the lock. \<open>lockOf\<close> says which lock a thread uses:
  constant for methods of one repository (or of repositories that share a lock through \<open>WithLock\<close>),
  the identity for repositories with a lock of their own.
\<close>

datatype 's instr = RLock | RUnlock | Lock | Unlock | Read | Write "'s \<Rightarrow> 's"

text \<open>
  The methods: readers (\<open>GetKeyByID\<close>, \<open>ListKeys\<close>, \<open>GetCurrentVersion\<close>, \<open>GetVersion\<close>), writers
  (\<open>CreateKey\<close>, \<open>UpdateKey\<close>, \<open>DeleteKey\<close>, \<open>AddVersion\<close>), and \<open>GetKeyByName\<close>, which resolves the name under
  the read lock, changing the name cache, and then calls \<open>GetKeyByID\<close>, which takes the read lock again.
\<close>

datatype 's repo_method = Reader nat | Writer "('s \<Rightarrow> 's) list" | ByName "('s \<Rightarrow> 's) list" nat

fun lockProgram :: "'s repo_method \<Rightarrow> 's instr list" where
  "lockProgram (Reader n) = RLock # replicate n Read @ [RUnlock]"
| "lockProgram (Writer body) = Lock # map Write body @ [Unlock]"
| "lockProgram (ByName cache n) = RLock # map Write cache @ (RLock # replicate n Read @ [RUnlock]) @ [RUnlock]"

record 's sys =
  readers :: "nat \<Rightarrow> nat"
  pending :: "nat \<Rightarrow> nat option"
  held :: "nat \<Rightarrow> nat option"
  progs :: "nat \<Rightarrow> 's instr list"
  shared :: 's
  wlog :: "nat list"

text \<open>\<open>wlog\<close> is not in the code: it records which threads acquired the lock for writing, in order.\<close>

inductive sync_step :: "(nat \<Rightarrow> nat) \<Rightarrow> 's sys \<Rightarrow> 's sys \<Rightarrow> bool" for lockOf where
  do_rlock: "progs s i = RLock # p \<Longrightarrow> pending s (lockOf i) = None \<Longrightarrow> held s (lockOf i) = None \<Longrightarrow>
    sync_step lockOf s (s\<lparr>readers := (readers s)(lockOf i := readers s (lockOf i) + 1), progs := (progs s)(i := p)\<rparr>)"
| do_runlock: "progs s i = RUnlock # p \<Longrightarrow>
    sync_step lockOf s (s\<lparr>readers := (readers s)(lockOf i := readers s (lockOf i) - 1), progs := (progs s)(i := p)\<rparr>)"
| do_announce: "progs s i = Lock # p \<Longrightarrow> pending s (lockOf i) = None \<Longrightarrow> held s (lockOf i) = None \<Longrightarrow>
    sync_step lockOf s (s\<lparr>pending := (pending s)(lockOf i := Some i)\<rparr>)"
| do_acquire: "progs s i = Lock # p \<Longrightarrow> pending s (lockOf i) = Some i \<Longrightarrow> readers s (lockOf i) = 0 \<Longrightarrow>
    sync_step lockOf s (s\<lparr>pending := (pending s)(lockOf i := None), held := (held s)(lockOf i := Some i),
      progs := (progs s)(i := p), wlog := wlog s @ [i]\<rparr>)"
| do_unlock: "progs s i = Unlock # p \<Longrightarrow>
    sync_step lockOf s (s\<lparr>held := (held s)(lockOf i := None), progs := (progs s)(i := p)\<rparr>)"
| do_read: "progs s i = Read # p \<Longrightarrow> sync_step lockOf s (s\<lparr>progs := (progs s)(i := p)\<rparr>)"
| do_write: "progs s i = Write f # p \<Longrightarrow>
    sync_step lockOf s (s\<lparr>shared := f (shared s), progs := (progs s)(i := p)\<rparr>)"

inductive_cases sync_stepE: "sync_step lockOf s s'"

definition init_sys :: "'s repo_method list \<Rightarrow> 's \<Rightarrow> 's sys" where
  "init_sys calls x = \<lparr>readers = (\<lambda>_. 0), pending = (\<lambda>_. None), held = (\<lambda>_. None),
     progs = (\<lambda>i. if i < length calls then lockProgram (calls ! i) else []), shared = x, wlog = []\<rparr>"

text \<open>Inside the lock: a thread whose next access or release is that of a reader, or of a writer.\<close>

fun reading :: "'s instr list \<Rightarrow> bool" where
  "reading (Read # p) = True" | "reading (RUnlock # p) = True" | "reading _ = False"

fun writing :: "'s instr list \<Rightarrow> bool" where
  "writing (Write f # p) = True" | "writing (Unlock # p) = True" | "writing _ = False"

fun bodyOf :: "'s repo_method \<Rightarrow> ('s \<Rightarrow> 's) list" where
  "bodyOf (Writer body) = body" | "bodyOf _ = []"

definition runBodies :: "'s repo_method list \<Rightarrow> nat list \<Rightarrow> 's \<Rightarrow> 's" where
  "runBodies calls log x = fold (\<lambda>i. fold id (bodyOf (calls ! i))) log x"

lemma runBodies_snoc [simp]: "runBodies calls (log @ [i]) x = fold id (bodyOf (calls ! i)) (runBodies calls log x)"
  by (simp add: runBodies_def)

section \<open>The invariant\<close>

fun isByName :: "'s repo_method \<Rightarrow> bool" where
  "isByName (ByName _ _) = True" | "isByName _ = False"

fun isWriter :: "'s repo_method \<Rightarrow> bool" where
  "isWriter (Writer _) = True" | "isWriter _ = False"

text \<open>How far a thread can be: not started, inside, or done.\<close>

definition inside :: "'s repo_method \<Rightarrow> 's instr list \<Rightarrow> bool" where
  "inside c p \<longleftrightarrow>
     (case c of
        Reader n \<Rightarrow> \<exists>k. p = replicate k Read @ [RUnlock]
      | Writer body \<Rightarrow> \<exists>pre rest. body = pre @ rest \<and> p = map Write rest @ [Unlock]
      | ByName _ _ \<Rightarrow> False)"

definition thread_ok :: "'s repo_method \<Rightarrow> 's instr list \<Rightarrow> bool" where
  "thread_ok c p \<longleftrightarrow> p = lockProgram c \<or> inside c p \<or> p = []"

definition inv :: "'s repo_method list \<Rightarrow> 's \<Rightarrow> 's sys \<Rightarrow> bool" where
  "inv calls x s \<longleftrightarrow>
     (\<forall>i. if i < length calls then thread_ok (calls ! i) (progs s i) else progs s i = []) \<and>
     readers s 0 = card {i. reading (progs s i)} \<and>
     (\<forall>i. (held s 0 = Some i) = writing (progs s i)) \<and>
     (held s 0 \<noteq> None \<longrightarrow> readers s 0 = 0 \<and> pending s 0 = None) \<and>
     (\<forall>i. pending s 0 = Some i \<longrightarrow> (\<exists>p. progs s i = Lock # p)) \<and>
     (held s 0 = None \<longrightarrow> shared s = runBodies calls (wlog s) x) \<and>
     (\<forall>i. held s 0 = Some i \<longrightarrow> (\<exists>log pre rest. wlog s = log @ [i] \<and> bodyOf (calls ! i) = pre @ rest \<and>
        progs s i = map Write rest @ [Unlock] \<and> shared s = fold id pre (runBodies calls log x))) \<and>
     distinct (wlog s) \<and> set (wlog s) = {i. i < length calls \<and> isWriter (calls ! i) \<and> progs s i \<noteq> lockProgram (calls ! i)}"

lemma invI:
  assumes "\<And>i. i < length calls \<Longrightarrow> thread_ok (calls ! i) (progs s i)" "\<And>i. \<not> i < length calls \<Longrightarrow> progs s i = []"
    "readers s 0 = card {i. reading (progs s i)}" "\<And>i. (held s 0 = Some i) = writing (progs s i)"
    "held s 0 \<noteq> None \<Longrightarrow> readers s 0 = 0" "held s 0 \<noteq> None \<Longrightarrow> pending s 0 = None"
    "\<And>i. pending s 0 = Some i \<Longrightarrow> \<exists>p. progs s i = Lock # p"
    "held s 0 = None \<Longrightarrow> shared s = runBodies calls (wlog s) x"
    "\<And>i. held s 0 = Some i \<Longrightarrow> \<exists>log pre rest. wlog s = log @ [i] \<and> bodyOf (calls ! i) = pre @ rest \<and>
        progs s i = map Write rest @ [Unlock] \<and> shared s = fold id pre (runBodies calls log x)"
    "distinct (wlog s)" "set (wlog s) = {i. i < length calls \<and> isWriter (calls ! i) \<and> progs s i \<noteq> lockProgram (calls ! i)}"
  shows "inv calls x s"
  unfolding inv_def using assms by (intro conjI) (simp_all del: not_None_eq)

lemma invD:
  assumes "inv calls x s"
  shows "i < length calls \<Longrightarrow> thread_ok (calls ! i) (progs s i)" "\<not> i < length calls \<Longrightarrow> progs s i = []"
    "readers s 0 = card {i. reading (progs s i)}" "(held s 0 = Some i) = writing (progs s i)"
    "held s 0 \<noteq> None \<Longrightarrow> readers s 0 = 0" "held s 0 \<noteq> None \<Longrightarrow> pending s 0 = None"
    "pending s 0 = Some i \<Longrightarrow> \<exists>p. progs s i = Lock # p"
    "held s 0 = None \<Longrightarrow> shared s = runBodies calls (wlog s) x"
    "held s 0 = Some i \<Longrightarrow> \<exists>log pre rest. wlog s = log @ [i] \<and> bodyOf (calls ! i) = pre @ rest \<and>
        progs s i = map Write rest @ [Unlock] \<and> shared s = fold id pre (runBodies calls log x)"
    "distinct (wlog s)" "set (wlog s) = {i. i < length calls \<and> isWriter (calls ! i) \<and> progs s i \<noteq> lockProgram (calls ! i)}"
  using assms unfolding inv_def by (meson, meson, blast, blast, blast, blast, blast, blast, blast, blast, blast)

lemma inv_init: "inv calls x (init_sys calls x)"
proof -
  have head: "\<not> reading (lockProgram c) \<and> \<not> writing (lockProgram c)" for c :: "'a repo_method" by (cases c) auto
  have "\<not> reading (progs (init_sys calls x) i) \<and> \<not> writing (progs (init_sys calls x) i)" for i
    by (simp add: init_sys_def head)
  then show ?thesis by (simp add: inv_def) (simp add: init_sys_def thread_ok_def runBodies_def)
qed

text \<open>What a thread that follows its method can do next.\<close>

lemma reader_rest:
  "replicate k Read @ [RUnlock] = ins # p \<Longrightarrow>
     ins = RUnlock \<and> p = [] \<or> ins = Read \<and> (\<exists>j. p = replicate j Read @ [RUnlock])"
  by (cases k) auto

lemma writer_rest:
  "map Write rest @ [Unlock] = ins # p \<Longrightarrow>
     ins = Unlock \<and> p = [] \<or> (\<exists>g rest'. rest = g # rest' \<and> ins = Write g \<and> p = map Write rest' @ [Unlock])"
  by (cases rest) auto

lemma reading_rest [simp]: "reading (replicate k Read @ [RUnlock])" "\<not> writing (replicate k Read @ [RUnlock])"
  by (cases k; simp)+

lemma writing_rest [simp]: "writing (map Write rest @ [Unlock])" "\<not> reading (map Write rest @ [Unlock])"
  by (cases rest; simp)+

lemma thread_ok_cases:
  assumes "thread_ok c (ins # p)" "\<not> isByName c"
  shows "ins = RLock \<Longrightarrow> thread_ok c p \<and> reading p \<and> \<not> writing p \<and> \<not> isWriter c"
    and "ins = RUnlock \<Longrightarrow> p = [] \<and> \<not> isWriter c"
    and "ins = Read \<Longrightarrow> thread_ok c p \<and> reading p \<and> \<not> writing p \<and> \<not> isWriter c"
    and "ins = Lock \<Longrightarrow> ins # p = lockProgram c \<and> p = map Write (bodyOf c) @ [Unlock] \<and> isWriter c \<and> thread_ok c p"
    and "ins = Unlock \<Longrightarrow> p = [] \<and> isWriter c"
    and "ins = Write f \<Longrightarrow> thread_ok c p \<and> writing p \<and> \<not> reading p \<and> isWriter c"
proof -
  note ok = assms(1) [unfolded thread_ok_def inside_def] and rest = reader_rest [OF sym] writer_rest [OF sym]
  have "(ins = RLock \<longrightarrow> thread_ok c p \<and> reading p \<and> \<not> writing p \<and> \<not> isWriter c) \<and>
    (ins = RUnlock \<longrightarrow> p = [] \<and> \<not> isWriter c) \<and>
    (ins = Read \<longrightarrow> thread_ok c p \<and> reading p \<and> \<not> writing p \<and> \<not> isWriter c) \<and>
    (ins = Lock \<longrightarrow> ins # p = lockProgram c \<and> p = map Write (bodyOf c) @ [Unlock] \<and> isWriter c \<and> thread_ok c p) \<and>
    (ins = Unlock \<longrightarrow> p = [] \<and> isWriter c) \<and>
    (ins = Write f \<longrightarrow> thread_ok c p \<and> writing p \<and> \<not> reading p \<and> isWriter c)"
  proof (cases c)
    case (Reader n)
    with ok have "ins # p = RLock # replicate n Read @ [RUnlock] \<or> (\<exists>k. ins # p = replicate k Read @ [RUnlock])" by simp
    then show ?thesis using Reader by (auto simp: thread_ok_def inside_def dest!: rest)
  next
    case (Writer body)
    with ok have "ins # p = Lock # map Write body @ [Unlock] \<or>
      (\<exists>pre r. body = pre @ r \<and> ins # p = map Write r @ [Unlock])" by simp
    then show ?thesis
    proof
      assume "ins # p = Lock # map Write body @ [Unlock]"
      then show ?thesis using Writer by (auto simp: thread_ok_def inside_def intro: exI [of _ "[]"])
    next
      assume "\<exists>pre r. body = pre @ r \<and> ins # p = map Write r @ [Unlock]"
      then obtain pre r where r: "body = pre @ r" "ins # p = map Write r @ [Unlock]" by blast
      from rest(2) [OF r(2)] show ?thesis
      proof
        assume "\<exists>g r'. r = g # r' \<and> ins = Write g \<and> p = map Write r' @ [Unlock]"
        then obtain g r' where g: "ins = Write g" "p = map Write r' @ [Unlock]" "body = (pre @ [g]) @ r'" using r by auto
        then have "thread_ok c p" unfolding thread_ok_def inside_def Writer repo_method.case by blast
        then show ?thesis using g Writer by auto
      qed (simp add: Writer)
    qed
  qed (use assms in simp)
  then show "ins = RLock \<Longrightarrow> thread_ok c p \<and> reading p \<and> \<not> writing p \<and> \<not> isWriter c"
    "ins = RUnlock \<Longrightarrow> p = [] \<and> \<not> isWriter c"
    "ins = Read \<Longrightarrow> thread_ok c p \<and> reading p \<and> \<not> writing p \<and> \<not> isWriter c"
    "ins = Lock \<Longrightarrow> ins # p = lockProgram c \<and> p = map Write (bodyOf c) @ [Unlock] \<and> isWriter c \<and> thread_ok c p"
    "ins = Unlock \<Longrightarrow> p = [] \<and> isWriter c"
    "ins = Write f \<Longrightarrow> thread_ok c p \<and> writing p \<and> \<not> reading p \<and> isWriter c" by blast+
qed

lemma finite_reading: "inv calls x s \<Longrightarrow> finite {j. reading (progs s j)}"
  by (rule finite_subset [of _ "{..<length calls}"]) (use invD(2) in force, simp)

lemma reading_thread:
  assumes "inv calls x s" "reading (progs s i)"
  shows "held s 0 = None" "readers s 0 > 0"
proof -
  show "readers s 0 > 0" using invD(3) [OF assms(1)] finite_reading [OF assms(1)] assms(2) by (auto simp: card_gt_0_iff)
  then show "held s 0 = None" using invD(5) [OF assms(1)] by fastforce
qed

lemma card_reading_upd:
  assumes "inv calls x s"
  shows "card {j. reading (((progs s)(i := p)) j)} =
    readers s 0 - (if reading (progs s i) then 1 else 0) + (if reading p then 1 else 0)"
proof -
  let ?R = "{j. reading (progs s j)}"
  have f: "finite ?R" "readers s 0 = card ?R" using finite_reading [OF assms] invD(3) [OF assms] by auto
  have "{j. reading (((progs s)(i := p)) j)} = (if reading p then insert i (?R - {i}) else ?R - {i})" by auto
  moreover have "card ?R > 0" if "reading (progs s i)" using f(1) that by (auto simp: card_gt_0_iff)
  ultimately show ?thesis using f by (auto simp: card_insert_if card_Diff_singleton_if)
qed

text \<open>A thread runs a method, so a thread with something left to do is one of the calls.\<close>

lemma live_thread: "inv calls x s \<Longrightarrow> progs s i = ins # p \<Longrightarrow> i < length calls \<and> thread_ok (calls ! i) (ins # p)"
  using invD(1,2) by (metis list.distinct(1))

lemma inv_reader_advance:
  assumes s: "inv calls x s" and i: "i < length calls" "\<not> isWriter (calls ! i)" "progs s i = ins # q" "ins \<noteq> Lock"
    and p: "thread_ok (calls ! i) p" "\<not> writing p" "\<not> writing (progs s i)"
    and rd: "rd = card {j. reading (((progs s)(i := p)) j)}" "held s 0 \<noteq> None \<Longrightarrow> rd = 0"
  shows "inv calls x (s\<lparr>readers := (readers s)(0 := rd), progs := (progs s)(i := p)\<rparr>)"
proof -
  note d = invD [OF s]
  have "held s 0 \<noteq> Some i" using d(4) p(3) by blast
  moreover have "pending s 0 \<noteq> Some i" using d(7) i(3,4) by force
  ultimately show ?thesis
    by (intro invI; simp only: sys.simps fun_upd_apply) (use d i p rd in \<open>auto split: if_splits\<close>)
qed

lemma inv_announce:
  assumes "inv calls x s" "progs s i = Lock # p" "held s 0 = None"
  shows "inv calls x (s\<lparr>pending := (pending s)(0 := Some i)\<rparr>)"
  using invD [OF assms(1)] assms(2,3)
  by (intro invI; simp only: sys.simps fun_upd_apply) (auto split: if_splits)

lemma inv_acquire:
  assumes s: "inv calls x s" and i: "progs s i = Lock # p" "\<not> isByName (calls ! i)" "pending s 0 = Some i" "readers s 0 = 0"
  shows "inv calls x (s\<lparr>pending := (pending s)(0 := None), held := (held s)(0 := Some i),
    progs := (progs s)(i := p), wlog := wlog s @ [i]\<rparr>)"
proof -
  note d = invD [OF s]
  have t: "i < length calls" "thread_ok (calls ! i) (Lock # p)" using live_thread [OF s i(1)] by auto
  have w: "Lock # p = lockProgram (calls ! i)" "p = map Write (bodyOf (calls ! i)) @ [Unlock]" "isWriter (calls ! i)"
    "thread_ok (calls ! i) p" using thread_ok_cases(4) [OF t(2) i(2) refl] by auto
  have h: "held s 0 = None" using d(6) i(3) by fastforce
  have r: "card {j. reading (((progs s)(i := p)) j)} = 0" using card_reading_upd [OF s, of i p] i(1,4) w(2) by simp
  have nw: "\<not> writing (progs s j)" for j using d(4) h by auto
  have ni: "i \<notin> set (wlog s)" using d(11) i(1) w(1) by simp
  have "p \<noteq> lockProgram (calls ! i)" unfolding w(1) [symmetric] by simp
  then have l: "set (wlog s @ [i]) = {j. j < length calls \<and> isWriter (calls ! j) \<and> ((progs s)(i := p)) j \<noteq> lockProgram (calls ! j)}"
    using d(11) t(1) w(3) by auto
  show ?thesis
  proof (rule invI, goal_cases)
    case (9 j)
    then show ?case using w(2) d(8) [OF h] by (intro exI [of _ "wlog s"] exI [of _ "[]"] exI [of _ "bodyOf (calls ! i)"]) simp
  qed (use d(1,2,10) t w(2,4) r i(4) nw ni l in \<open>auto split: if_splits\<close>)
qed

lemma inv_release:
  assumes s: "inv calls x s" and i: "progs s i = Unlock # p" "\<not> isByName (calls ! i)"
  shows "inv calls x (s\<lparr>held := (held s)(0 := None), progs := (progs s)(i := p)\<rparr>)"
proof -
  note d = invD [OF s]
  have t: "i < length calls" "thread_ok (calls ! i) (Unlock # p)" using live_thread [OF s i(1)] by auto
  have w: "p = []" "isWriter (calls ! i)" using thread_ok_cases(5) [OF t(2) i(2) refl] by auto
  have h: "held s 0 = Some i" using d(4) i(1) by simp
  obtain log pre rest where l: "wlog s = log @ [i]" "bodyOf (calls ! i) = pre @ rest"
    "progs s i = map Write rest @ [Unlock]" "shared s = fold id pre (runBodies calls log x)" using d(9) [OF h] by blast
  then have "rest = []" using i(1) by (cases rest) auto
  with l have x: "shared s = runBodies calls (wlog s) x" by simp
  have r: "card {j. reading (((progs s)(i := p)) j)} = readers s 0" using card_reading_upd [OF s, of i p] i(1) w(1) by simp
  have nw: "\<not> writing (progs s j)" if "j \<noteq> i" for j using d(4) [of j] h that by auto
  have "progs s i \<noteq> lockProgram (calls ! i)" "[] \<noteq> lockProgram (calls ! i)" using i w(2) by (cases "calls ! i"; simp)+
  then have "set (wlog s) = {j. j < length calls \<and> isWriter (calls ! j) \<and> ((progs s)(i := p)) j \<noteq> lockProgram (calls ! j)}"
    using d(11) w(1) by auto
  then show ?thesis
    by (intro invI) (use d(1,2,6,10) h t w(1) r nw x in \<open>auto simp: thread_ok_def split: if_splits\<close>)
qed

lemma inv_write:
  assumes s: "inv calls x s" and i: "progs s i = Write f # p" "\<not> isByName (calls ! i)"
  shows "inv calls x (s\<lparr>shared := f (shared s), progs := (progs s)(i := p)\<rparr>)"
proof -
  note d = invD [OF s]
  have t: "i < length calls" "thread_ok (calls ! i) (Write f # p)" using live_thread [OF s i(1)] by auto
  have w: "thread_ok (calls ! i) p" "writing p" "\<not> reading p" "isWriter (calls ! i)"
    using thread_ok_cases(6) [OF t(2) i(2) refl] by auto
  have h: "held s 0 = Some i" using d(4) i(1) by simp
  obtain log pre rest where l: "wlog s = log @ [i]" "bodyOf (calls ! i) = pre @ rest"
    "progs s i = map Write rest @ [Unlock]" "shared s = fold id pre (runBodies calls log x)" using d(9) [OF h] by blast
  then obtain rest' where r': "rest = f # rest'" "p = map Write rest' @ [Unlock]" using i(1) by (cases rest) auto
  have r: "card {j. reading (((progs s)(i := p)) j)} = readers s 0" using card_reading_upd [OF s, of i p] i(1) w(3) by simp
  have "progs s i \<noteq> lockProgram (calls ! i)" "p \<noteq> lockProgram (calls ! i)" using i w(2) by (cases "calls ! i"; auto)+
  then have g: "set (wlog s) = {j. j < length calls \<and> isWriter (calls ! j) \<and> ((progs s)(i := p)) j \<noteq> lockProgram (calls ! j)}"
    using d(11) by auto
  show ?thesis
  proof (rule invI, goal_cases)
    case (9 j)
    then show ?case using h l r' by (intro exI [of _ log] exI [of _ "pre @ [f]"] exI [of _ rest']) simp
  qed (use d(1,2,4-7,10) h t i(1) w r g in \<open>auto split: if_splits\<close>)
qed

lemma inv_step:
  assumes "sync_step (\<lambda>_. 0) s s'" "inv calls x s" "\<forall>c \<in> set calls. \<not> isByName c"
  shows "inv calls x s'"
proof -
  note s = assms(2) and d = invD [OF assms(2)]
  have c: "i < length calls" "thread_ok (calls ! i) (ins # p)" "\<not> isByName (calls ! i)" if "progs s i = ins # p" for i ins p
    using live_thread [OF s that] assms(3) by auto
  note tc = thread_ok_cases [OF c(2,3) refl]
  from assms(1) show ?thesis
  proof (cases rule: sync_step.cases)
    case (do_rlock i p)
    with tc(1) [of i p] card_reading_upd [OF s, of i p] c(1) show ?thesis by (auto intro!: inv_reader_advance [OF s])
  next
    case (do_runlock i p)
    with tc(2) [of i p] card_reading_upd [OF s, of i p] c(1) reading_thread [OF s, of i]
    show ?thesis by (auto intro!: inv_reader_advance [OF s] simp: thread_ok_def)
  next
    case (do_read i p)
    from tc(3) [OF this(2)] card_reading_upd [OF s, of i p] this(2) c(1) [OF this(2)] reading_thread [OF s, of i]
    have "inv calls x (s\<lparr>readers := (readers s)(0 := readers s 0), progs := (progs s)(i := p)\<rparr>)"
      by (intro inv_reader_advance [OF s]) auto
    with do_read(1) show ?thesis by simp
  qed (use c(3) in \<open>simp_all add: inv_announce [OF s] inv_acquire [OF s] inv_release [OF s] inv_write [OF s]\<close>)
qed

section \<open>Work and progress\<close>

definition lockWork :: "nat \<Rightarrow> 's sys \<Rightarrow> nat" where
  "lockWork n s = (\<Sum>i<n. 2 * length (progs s i)) + (if pending s 0 = None then 1 else 0)"

lemma lockWork_upd:
  assumes "i < n" "progs s i = ins # p"
  shows "(\<Sum>j<n. 2 * length (((progs s)(i := p)) j)) + 2 = (\<Sum>j<n. 2 * length (progs s j))"
proof -
  have "(\<Sum>j<n. 2 * length (q j)) = 2 * length (q i) + (\<Sum>j\<in>{..<n} - {i}. 2 * length (q j))" for q :: "nat \<Rightarrow> 'a instr list"
    using assms(1) by (simp add: sum.remove)
  from this [of "(progs s)(i := p)"] this [of "progs s"] assms(2) show ?thesis by simp
qed

lemma lockWork_decreases:
  assumes "sync_step (\<lambda>_. 0) s s'" "inv calls x s"
  shows "lockWork (length calls) s' < lockWork (length calls) s"
proof -
  have u: "(\<Sum>j<length calls. 2 * length (((progs s)(i := p)) j)) + 2 = (\<Sum>j<length calls. 2 * length (progs s j))"
    if "progs s i = ins # p" for i ins p
    using lockWork_upd live_thread [OF assms(2) that] that by blast
  from assms(1) show ?thesis
    by (cases rule: sync_stepE) (use u in \<open>force simp: lockWork_def\<close>)+
qed

lemma sync_progress:
  assumes s: "inv calls x s" "\<forall>c \<in> set calls. \<not> isByName c" "progs s i \<noteq> []"
  shows "\<exists>s'. sync_step (\<lambda>_. 0) s s'"
proof -
  have adv: ?thesis if "reading (progs s j) \<or> writing (progs s j)" for j
    using that by (cases "progs s j" rule: reading.cases; cases "progs s j" rule: writing.cases) (auto intro: sync_step.intros)
  show ?thesis
  proof (cases "\<exists>j. reading (progs s j) \<or> writing (progs s j)")
    case False
    then have r: "readers s 0 = 0" using invD(3) [OF s(1)] by simp
    have h: "held s 0 = None" using invD(4) [OF s(1)] False by (cases "held s 0") auto
    show ?thesis
    proof (cases "pending s 0")
      case None
      obtain ins p where "progs s i = ins # p" using s(3) by (cases "progs s i") auto
      with False None h show ?thesis by (cases ins) (auto intro: sync_step.intros)
    next
      case (Some j)
      with invD(7) [OF s(1) this] r show ?thesis by (auto intro: sync_step.do_acquire)
    qed
  qed (use adv in blast)
qed

lemma inv_reach:
  assumes "(sync_step (\<lambda>_. 0) ^^ k) (init_sys calls x) s" "\<forall>c \<in> set calls. \<not> isByName c"
  shows "inv calls x s \<and> k + lockWork (length calls) s \<le> lockWork (length calls) (init_sys calls x)"
  using assms(1)
proof (induction k arbitrary: s)
  case (Suc k)
  then obtain t where "(sync_step (\<lambda>_. 0) ^^ k) (init_sys calls x) t" and t: "sync_step (\<lambda>_. 0) t s" by auto
  with Suc.IH have "inv calls x t" "k + lockWork (length calls) t \<le> lockWork (length calls) (init_sys calls x)" by auto
  with inv_step [OF t _ assms(2)] lockWork_decreases [OF t] show ?case by fastforce
qed (simp add: inv_init)

end
