(* ===== verification/Locked_Repository.thy ===== *)
theory Locked_Repository
  imports Repository_Locking
begin

text \<open>
  What a lock gives a repository, stated once for every repository: the interface
  \<open>locked_repository\<close> asks that the operations of the writers keep an invariant, and then concurrent
  calls that share a lock are serial. It is interpreted for the key repository and for the
  registries of policies and provider instances.
\<close>

section \<open>States between whole writes\<close>

definition writers :: "'x repo_method list \<Rightarrow> nat set" where
  "writers calls = {i. i < length calls \<and> isWriter (calls ! i)}"

text \<open>A state in which no writer is inside is the outcome of writers that ran one after the other.\<close>

lemma quiet_state:
  assumes "inv calls x s" "\<And>i. \<not> writing (progs s i)"
  shows "shared s = runBodies calls (wlog s) x" "distinct (wlog s)" "set (wlog s) \<subseteq> writers calls"
    and "(\<And>i. progs s i = []) \<Longrightarrow> set (wlog s) = writers calls"
proof -
  note d = invD [OF assms(1)]
  have "held s 0 = None" using d(4) assms(2) by (cases "held s 0") auto
  then show "shared s = runBodies calls (wlog s) x" by (rule d(8))
  show "distinct (wlog s)" by (rule d(10))
  show "set (wlog s) \<subseteq> writers calls" using d(11) by (auto simp: writers_def)
  have "lockProgram c \<noteq> []" for c :: "'a repo_method" by (cases c) auto
  then show "(\<And>i. progs s i = []) \<Longrightarrow> set (wlog s) = writers calls"
    using d(11) by (auto simp: writers_def) metis+
qed

lemma exclusion:
  assumes "inv calls x s" "writing (progs s i)"
  shows "\<not> reading (progs s j)" "writing (progs s j) \<Longrightarrow> j = i"
  using invD(4) [OF assms(1)] reading_thread(1) [OF assms(1)] assms(2) by (metis option.distinct(1), metis option.inject)

text \<open>The work of a set of calls bounds the number of steps they take together.\<close>

lemma init_work: "lockWork (length calls) (init_sys calls x) = 2 * (\<Sum>c\<leftarrow>calls. length (lockProgram c)) + 1"
proof -
  have "(\<Sum>i<length calls. 2 * length (progs (init_sys calls x) i)) = (\<Sum>i<length calls. 2 * length (lockProgram (calls ! i)))"
    by (rule sum.cong) (simp_all add: init_sys_def)
  also have "\<dots> = 2 * (\<Sum>c\<leftarrow>calls. length (lockProgram c))"
    by (simp add: sum_distrib_left [symmetric] sum_list_sum_nth atLeast0LessThan)
  finally show ?thesis by (simp add: lockWork_def init_sys_def)
qed

text \<open>A call that finds the lock free can run to its end.\<close>

lemma one_step: "sync_step L s s' \<Longrightarrow> (sync_step L)\<^sup>*\<^sup>* s' t \<Longrightarrow> (sync_step L)\<^sup>*\<^sup>* s t"
  by (rule converse_rtranclp_into_rtranclp)

lemma writes_run:
  assumes "progs s i = map Write body @ q"
  shows "(sync_step L)\<^sup>*\<^sup>* s (s\<lparr>shared := fold id body (shared s), progs := (progs s)(i := q)\<rparr>)"
  using assms
proof (induction body arbitrary: s)
  case Nil
  then have "(progs s)(i := q) = progs s" by auto
  then show ?case by simp
next
  case (Cons f body)
  let ?t = "s\<lparr>shared := f (shared s), progs := (progs s)(i := map Write body @ q)\<rparr>"
  have "sync_step L s ?t" by (rule sync_step.do_write) (use Cons.prems in simp)
  moreover have "(sync_step L)\<^sup>*\<^sup>* ?t (?t\<lparr>shared := fold id body (shared ?t), progs := (progs ?t)(i := q)\<rparr>)"
    by (rule Cons.IH) simp
  moreover have "?t\<lparr>shared := fold id body (shared ?t), progs := (progs ?t)(i := q)\<rparr> =
      s\<lparr>shared := fold id (f # body) (shared s), progs := (progs s)(i := q)\<rparr>" by simp
  ultimately show ?case by (metis one_step)
qed

lemma writer_runs:
  assumes "progs s i = lockProgram (Writer body)" "pending s (L i) = None" "held s (L i) = None" "readers s (L i) = 0"
  shows "(sync_step L)\<^sup>*\<^sup>* s (s\<lparr>wlog := wlog s @ [i], shared := fold id body (shared s), progs := (progs s)(i := [])\<rparr>)"
proof -
  let ?q = "map Write body @ [Unlock]"
  let ?a = "s\<lparr>pending := (pending s)(L i := Some i)\<rparr>"
  let ?h = "s\<lparr>held := (held s)(L i := Some i), progs := (progs s)(i := ?q), wlog := wlog s @ [i]\<rparr>"
  let ?b = "?h\<lparr>shared := fold id body (shared s), progs := (progs s)(i := [Unlock])\<rparr>"
  have p: "(pending s)(L i := None) = pending s" "(held s)(L i := None) = held s" using assms by auto
  have "sync_step L s ?a" using assms by (auto intro: sync_step.do_announce)
  moreover have "sync_step L ?a ?h" using sync_step.do_acquire [of ?a i ?q L] assms p by simp
  moreover have "(sync_step L)\<^sup>*\<^sup>* ?h ?b" using writes_run [of ?h i body "[Unlock]" L] by simp
  moreover have "sync_step L ?b (s\<lparr>wlog := wlog s @ [i], shared := fold id body (shared s), progs := (progs s)(i := [])\<rparr>)"
    using sync_step.do_unlock [of ?b i "[]" L] p by simp
  ultimately show ?thesis by (meson one_step rtranclp.rtrancl_into_rtrancl)
qed

section \<open>The interface\<close>

text \<open>
  The method that carries out an operation: a reader for an operation that reads, and a writer for
  any other. A writer may spread its work over any number of accesses, and may keep intermediate
  values in the shared state, as long as the accesses together have the operation's effect on the
  repository, which \<open>view\<close> projects out.
\<close>

fun carries_out :: "('op \<Rightarrow> bool) \<Rightarrow> ('op \<Rightarrow> 'r \<Rightarrow> 'r) \<Rightarrow> ('x \<Rightarrow> 'r) \<Rightarrow> 'op \<Rightarrow> 'x repo_method \<Rightarrow> bool" where
  "carries_out reads step view op (Reader k) = reads op"
| "carries_out reads step view op (Writer body) = (\<not> reads op \<and> (\<forall>x. view (fold id body x) = step op (view x)))"
| "carries_out reads step view op (ByName cache k) = False"

lemma carries_out_not_ByName:
  assumes "list_all2 (carries_out reads step view) ops calls" "c \<in> set calls"
  shows "\<not> isByName c"
proof -
  from assms obtain op where "carries_out reads step view op c"
    by (metis in_set_conv_nth list_all2_nthD2)
  then show ?thesis by (cases c) auto
qed

lemma carries_out_writer:
  "carries_out reads step view op c \<Longrightarrow> isWriter c \<Longrightarrow> \<not> reads op \<and> view (fold id (bodyOf c) x) = step op (view x)"
  by (cases c) auto

lemma runBodies_serial:
  assumes "list_all2 (carries_out reads step view) ops calls" "set log \<subseteq> writers calls"
  shows "view (runBodies calls log x) = fold step (map ((!) ops) log) (view x)"
  using assms(2)
proof (induction log arbitrary: x)
  case (Cons i log)
  then have i: "i < length calls" "isWriter (calls ! i)" "set log \<subseteq> writers calls" by (auto simp: writers_def)
  then have "carries_out reads step view (ops ! i) (calls ! i)" using assms(1) by (simp add: list_all2_conv_all_nth)
  from carries_out_writer [OF this i(2)] Cons.IH [OF i(3), of "fold id (bodyOf (calls ! i)) x"]
  show ?case by (simp add: runBodies_def)
qed (simp add: runBodies_def)

locale locked_repository =
  fixes reads :: "'op \<Rightarrow> bool"
    and step :: "'op \<Rightarrow> 'r \<Rightarrow> 'r"
    and good :: "'r \<Rightarrow> bool"
    and admissible :: "'op \<Rightarrow> bool"
  assumes step_good: "\<not> reads op \<Longrightarrow> admissible op \<Longrightarrow> good r \<Longrightarrow> good (step op r)"
begin

lemma run_good:
  "\<forall>op \<in> set ops. \<not> reads op \<and> admissible op \<Longrightarrow> good r \<Longrightarrow> good (fold step ops r)"
  by (induction ops arbitrary: r) (auto intro: step_good)

lemma quiet_serial:
  assumes "list_all2 (carries_out reads step view) ops calls" "\<forall>op \<in> set ops. admissible op" "good (view x)"
    and "inv calls x s" "\<And>i. \<not> writing (progs s i)"
  shows "view (shared s) = fold step (map ((!) ops) (wlog s)) (view x)" "good (view (shared s))"
proof -
  note q = quiet_state [OF assms(4,5)]
  show v: "view (shared s) = fold step (map ((!) ops) (wlog s)) (view x)"
    unfolding q(1) by (rule runBodies_serial [OF assms(1) q(3)])
  have "\<not> reads (ops ! i) \<and> admissible (ops ! i)" if "i \<in> writers calls" for i
    using that assms(1,2) carries_out_writer [of reads step view "ops ! i" "calls ! i"]
    by (auto simp: writers_def list_all2_conv_all_nth)
  then show "good (view (shared s))" unfolding v using q(3) assms(3) by (intro run_good) auto
qed

lemma calls_serialise:
  assumes c: "list_all2 (carries_out reads step view) ops calls" and a: "\<forall>op \<in> set ops. admissible op" "good (view x)"
    and s: "(sync_step (\<lambda>_. 0) ^^ k) (init_sys calls x) s"
  shows "k \<le> 2 * (\<Sum>c\<leftarrow>calls. length (lockProgram c)) + 1"
    and "(\<forall>i. progs s i = []) \<or> (\<exists>s'. sync_step (\<lambda>_. 0) s s')"
    and "\<forall>i j. writing (progs s i) \<longrightarrow> \<not> reading (progs s j) \<and> (writing (progs s j) \<longrightarrow> j = i)"
    and "(\<exists>i. reading (progs s i)) \<or> (\<forall>i. progs s i = []) \<Longrightarrow>
      \<exists>order. distinct order \<and> set order \<subseteq> writers calls \<and> ((\<forall>i. progs s i = []) \<longrightarrow> set order = writers calls) \<and>
        view (shared s) = fold step (map ((!) ops) order) (view x) \<and> good (view (shared s))"
proof -
  have n: "\<forall>c \<in> set calls. \<not> isByName c" using carries_out_not_ByName [OF c] by blast
  from inv_reach [OF s n] have i: "inv calls x s"
    and w: "k + lockWork (length calls) s \<le> lockWork (length calls) (init_sys calls x)" by auto
  show "k \<le> 2 * (\<Sum>c\<leftarrow>calls. length (lockProgram c)) + 1" using w unfolding init_work by simp
  show "(\<forall>i. progs s i = []) \<or> (\<exists>s'. sync_step (\<lambda>_. 0) s s')" using sync_progress [OF i n] by blast
  show "\<forall>i j. writing (progs s i) \<longrightarrow> \<not> reading (progs s j) \<and> (writing (progs s j) \<longrightarrow> j = i)"
    using exclusion [OF i] by blast
  assume "(\<exists>i. reading (progs s i)) \<or> (\<forall>i. progs s i = [])"
  then have nw: "\<not> writing (progs s j)" for j using exclusion(1) [OF i] by auto
  from quiet_serial [OF c a i nw] quiet_state(2-4) [OF i nw]
  show "\<exists>order. distinct order \<and> set order \<subseteq> writers calls \<and> ((\<forall>i. progs s i = []) \<longrightarrow> set order = writers calls) \<and>
        view (shared s) = fold step (map ((!) ops) order) (view x) \<and> good (view (shared s))" by blast
qed

end

end
