(* ===== verification/Repository_Concurrency.thy ===== *)
theory Repository_Concurrency
  imports Locked_Repository Key_Repository_Properties
begin

text \<open>
  Concurrent calls on one key repository, that is one lock, one name cache and one storage: calls to
  the readers and writers of \<open>vault_repository.go\<close> behave as the writers did one after the other, so
  that the theorems about sequences of operations apply. \<open>GetKeyByName\<close> and repositories that share a
  lock over one storage, each with a cache of its own, are left out of that, for the reasons the last
  section proves.
\<close>

section \<open>The methods a call makes\<close>

text \<open>
  \<open>performs\<close> relates an operation of the key repository to the method that runs it; \<open>view\<close> is the one
  repository, store and cache, that all calls act on.
\<close>

fun performs :: "('x \<Rightarrow> 's repo) \<Rightarrow> 's vault_env \<Rightarrow> bool \<Rightarrow> 32 word \<Rightarrow> repo_op \<Rightarrow> 'x repo_method \<Rightarrow> bool" where
  "performs view E vet n (RGetByID _) c = (\<exists>k. c = Reader k)"
| "performs view E vet n (RGetVersion _ _) c = (\<exists>k. c = Reader k)"
| "performs view E vet n RListKeys c = (\<exists>k. c = Reader k)"
| "performs view E vet n (RGetByName _) c = (\<exists>cache k. c = ByName cache k)"
| "performs view E vet n op c =
     (\<exists>body. c = Writer body \<and> (\<forall>x. view (fold id body x) = snd (run_op E vet n op (view x))))"

fun key_reads :: "repo_op \<Rightarrow> bool" where
  "key_reads (RGetByID _) = True"
| "key_reads (RGetByName _) = True"
| "key_reads (RGetVersion _ _) = True"
| "key_reads RListKeys = True"
| "key_reads _ = False"

lemma performs_carries_out:
  assumes "performs view E vet n op c" "\<not> isByName c"
  shows "carries_out key_reads (\<lambda>op r. snd (run_op E vet n op r)) view op c"
  using assms by (cases "(view, E, vet, n, op, c)" rule: performs.cases) auto

lemma fold_run_op: "fold (\<lambda>op r. snd (run_op E vet n op r)) ops r = snd (run_ops E vet n ops r)"
  by (induction ops arbitrary: r) (simp_all add: split_beta Let_def)

text \<open>The key repository is a locked repository: its operations keep the invariant of \<open>Key_Repository_Spec\<close>.\<close>

interpretation keys: locked_repository key_reads "\<lambda>op r. snd (run_op E vet n op r)"
    "\<lambda>r. sound_env E C \<and> repo_inv E C r \<and> plain_versions (mem C r)" plain_op
  for E :: "'s vault_env" and C vet n
  by unfold_locales (use run_op_refines [OF _ _ _ _ surjective_pairing] in blast)

section \<open>Properties\<close>

text \<open>
  C3: Take any number of concurrent calls to the readers and writers of one key repository (one lock
  and one name cache), over storage whose reads and deletions succeed and for versions whose key ids
  contain no colon. In every state they can reach, the steps taken are bounded and some call can go on
  until all have returned (no deadlock, no endless run); a writer inside the lock is alone; while a
  reader is inside, and at the end, the repository is well formed and is what some of the writers (at
  the end: all of them) leave when they run one after the other, a run of the abstract repository.
\<close>

theorem concurrent_calls_serialise:
  assumes "env_ok E C" "reads_reliable E" "deletes_reliable E" "repo_inv E C (view x)"
    and "plain_versions (C (store (view x)))" "\<forall>op \<in> set ops. plain_op op"
    and "list_all2 (performs view E vet n) ops calls" "\<forall>c \<in> set calls. \<not> isByName c"
    and "(sync_step (\<lambda>_. 0) ^^ k) (init_sys calls x) s"
  shows "k \<le> 2 * (\<Sum>c\<leftarrow>calls. length (lockProgram c)) + 1 \<and>
    ((\<forall>i. progs s i = []) \<or> (\<exists>s'. sync_step (\<lambda>_. 0) s s')) \<and>
    (\<forall>i j. writing (progs s i) \<longrightarrow> \<not> reading (progs s j) \<and> (writing (progs s j) \<longrightarrow> j = i)) \<and>
    ((\<exists>i. reading (progs s i)) \<or> (\<forall>i. progs s i = []) \<longrightarrow>
      (\<exists>order answers. distinct order \<and> set order \<subseteq> writers calls \<and>
        ((\<forall>i. progs s i = []) \<longrightarrow> set order = writers calls) \<and>
        run_ops E vet n (map ((!) ops) order) (view x) = (answers, view (shared s)) \<and>
        repo_inv E C (view (shared s)) \<and>
        a_run (abs_repo E (C (store (view x)))) (zip (map ((!) ops) order) answers)
          (abs_repo E (C (store (view (shared s)))))))"
proof -
  have env: "sound_env E C" using assms(1-3) by simp
  have c: "list_all2 (carries_out key_reads (\<lambda>op r. snd (run_op E vet n op r)) view) ops calls"
    using assms(7,8) by (auto simp: list_all2_conv_all_nth intro: performs_carries_out)
  have "sound_env E C \<and> repo_inv E C (view x) \<and> plain_versions (mem C (view x))" using env assms(4,5) by simp
  note ser = keys.calls_serialise [OF c assms(6) this assms(9)]
  have "\<exists>order answers. distinct order \<and> set order \<subseteq> writers calls \<and>
      ((\<forall>i. progs s i = []) \<longrightarrow> set order = writers calls) \<and>
      run_ops E vet n (map ((!) ops) order) (view x) = (answers, view (shared s)) \<and> repo_inv E C (view (shared s)) \<and>
      a_run (abs_repo E (C (store (view x)))) (zip (map ((!) ops) order) answers) (abs_repo E (C (store (view (shared s)))))"
    if "(\<exists>i. reading (progs s i)) \<or> (\<forall>i. progs s i = [])"
  proof -
    from ser(4) [OF that] obtain order where o: "distinct order" "set order \<subseteq> writers calls"
      "(\<forall>i. progs s i = []) \<longrightarrow> set order = writers calls" "repo_inv E C (view (shared s))"
      "view (shared s) = snd (run_ops E vet n (map ((!) ops) order) (view x))" unfolding fold_run_op by blast
    then have "\<forall>op \<in> set (map ((!) ops) order). plain_op op"
      using assms(6) list_all2_lengthD [OF c] by (auto simp: writers_def)
    from run_ops_refines [OF env assms(4,5) this surjective_pairing] o show ?thesis by (metis prod.collapse)
  qed
  with ser(1-3) show ?thesis by blast
qed

definition demo_ops :: "repo_op list" where
  "demo_ops = [RCreate (Some (demo_key ''k1'' ''alpha'' 1)) (Some (demo_version ''k1'' 1)), RDelete ''k1'', RListKeys]"

definition demo_calls :: "(string \<times> blob) list repo repo_method list" where
  "demo_calls = [Writer [snd \<circ> run_op demo1 True 1 (demo_ops ! 0)], Writer [snd \<circ> run_op demo1 True 1 (demo_ops ! 1)], Reader 0]"

lemma demo_calls_perform: "list_all2 (performs id demo1 True 1) demo_ops demo_calls"
  by (simp add: demo_calls_def demo_ops_def)

text \<open>The two writers run, and the third call is inside the lock as a reader.\<close>

lemma demo_calls_run:
  "\<exists>s. (sync_step (\<lambda>_. 0))\<^sup>*\<^sup>* (init_sys demo_calls (demo_repo [])) s \<and> reading (progs s 2) \<and>
     progs s 0 = [] \<and> progs s 1 = []"
proof -
  let ?i = "init_sys demo_calls (demo_repo [])"
  let ?f = "snd \<circ> run_op demo1 True 1 (demo_ops ! 0)" and ?g = "snd \<circ> run_op demo1 True 1 (demo_ops ! 1)"
  let ?s = "?i\<lparr>wlog := wlog ?i @ [0], shared := fold id [?f] (shared ?i), progs := (progs ?i)(0 := [])\<rparr>"
  let ?t = "?s\<lparr>wlog := wlog ?s @ [1], shared := fold id [?g] (shared ?s), progs := (progs ?s)(1 := [])\<rparr>"
  have "(sync_step (\<lambda>_. 0))\<^sup>*\<^sup>* ?i ?s" by (rule writer_runs) (simp_all add: init_sys_def demo_calls_def)
  moreover have "(sync_step (\<lambda>_. 0))\<^sup>*\<^sup>* ?s ?t" by (rule writer_runs) (simp_all add: init_sys_def demo_calls_def)
  moreover have "sync_step (\<lambda>_. 0) ?t (?t\<lparr>readers := (readers ?t)(0 := readers ?t 0 + 1), progs := (progs ?t)(2 := [RUnlock])\<rparr>)"
    by (rule sync_step.do_rlock [of ?t 2 "[RUnlock]" "\<lambda>_. 0"]) (simp_all add: init_sys_def demo_calls_def)
  ultimately show ?thesis
    by (intro exI [of _ "?t\<lparr>readers := (readers ?t)(0 := readers ?t 0 + 1), progs := (progs ?t)(2 := [RUnlock])\<rparr>"])
      (auto intro: rtranclp_trans rtranclp.rtrancl_into_rtrancl)
qed

theorem concurrent_calls_serialise_witness:
  "\<exists>k s. (sync_step (\<lambda>_. 0) ^^ k) (init_sys demo_calls (demo_repo [])) s \<and> reading (progs s 2) \<and>
     progs s 0 = [] \<and> progs s 1 = [] \<and> k \<le> 17 \<and> repo_inv demo1 map_of (shared s)"
proof -
  from demo_calls_run obtain s where s: "(sync_step (\<lambda>_. 0))\<^sup>*\<^sup>* (init_sys demo_calls (demo_repo [])) s"
    "reading (progs s 2)" "progs s 0 = []" "progs s 1 = []" by blast
  from rtranclp_imp_relpowp [OF s(1)] obtain k where k: "(sync_step (\<lambda>_. 0) ^^ k) (init_sys demo_calls (demo_repo [])) s" ..
  have "env_ok demo1 map_of" "reads_reliable demo1" "deletes_reliable demo1" "repo_inv demo1 map_of (demo_repo [])"
    using demo_repo_inv demo_env_ok(1) demo_sound by (auto simp: demo1_def)
  moreover have "plain_versions (map_of (store (demo_repo [])))" by (simp add: plain_versions_def demo_repo_def)
  moreover have "\<forall>op \<in> set demo_ops. plain_op op" by (simp add: demo_ops_def demo_version_def plain_id_def)
  moreover have "\<forall>c \<in> set demo_calls. \<not> isByName c" by (simp add: demo_calls_def)
  ultimately have "k \<le> 2 * (\<Sum>c\<leftarrow>demo_calls. length (lockProgram c)) + 1 \<and> repo_inv demo1 map_of (shared s)"
    using concurrent_calls_serialise [of demo1 map_of id "demo_repo []" demo_ops True 1 demo_calls k s]
      demo_calls_perform k s(2) unfolding id_apply by blast
  then have "k \<le> 17" "repo_inv demo1 map_of (shared s)" by (simp_all add: demo_calls_def)
  with k s show ?thesis by blast
qed

section \<open>What the locking does not give\<close>

text \<open>
  \<open>GetKeyByName\<close> takes the read lock twice: when a writer asks for the lock in between, both wait for ever.
\<close>

theorem GetKeyByName_can_deadlock:
  "\<exists>s. (sync_step (\<lambda>_. 0))\<^sup>*\<^sup>* (init_sys [ByName cache k, Writer body] x) s \<and>
     progs s 0 \<noteq> [] \<and> progs s 1 \<noteq> [] \<and> (\<forall>s'. \<not> sync_step (\<lambda>_. 0) s s')"
proof -
  let ?i = "init_sys [ByName cache k, Writer body] x" and ?q = "RLock # replicate k Read @ [RUnlock, RUnlock]"
  let ?r = "?i\<lparr>readers := (readers ?i)(0 := 1), progs := (progs ?i)(0 := map Write cache @ ?q)\<rparr>"
  let ?c = "?r\<lparr>shared := fold id cache (shared ?r), progs := (progs ?r)(0 := ?q)\<rparr>"
  let ?s = "?c\<lparr>pending := (pending ?c)(0 := Some 1)\<rparr>"
  have "sync_step (\<lambda>_. 0) ?i ?r"
    using sync_step.do_rlock [of ?i 0 "map Write cache @ ?q" "\<lambda>_. 0"] by (simp add: init_sys_def)
  moreover have "(sync_step (\<lambda>_. 0))\<^sup>*\<^sup>* ?r ?c" by (rule writes_run) simp
  moreover have "sync_step (\<lambda>_. 0) ?c ?s"
    using sync_step.do_announce [of ?c 1 "map Write body @ [Unlock]" "\<lambda>_. 0"] by (simp add: init_sys_def)
  ultimately have "(sync_step (\<lambda>_. 0))\<^sup>*\<^sup>* ?i ?s" by (meson one_step rtranclp.rtrancl_into_rtrancl)
  moreover have "progs ?s j = (if j = 0 then ?q else if j = 1 then Lock # map Write body @ [Unlock] else [])" for j
    by (simp add: init_sys_def)
  then have "\<not> sync_step (\<lambda>_. 0) ?s s'" for s'
    by (auto elim!: sync_stepE simp: init_sys_def split: if_splits)
  ultimately show ?thesis by (intro exI [of _ ?s]) (simp add: init_sys_def)
qed

text \<open>Two calls to \<open>GetKeyByName\<close> can be about to change the name cache at the same time.\<close>

theorem GetKeyByName_races_on_cache:
  "\<exists>s. (sync_step (\<lambda>_. 0))\<^sup>*\<^sup>* (init_sys [ByName [f] k, ByName [g] m] x) s \<and> writing (progs s 0) \<and> writing (progs s 1)"
proof -
  let ?i = "init_sys [ByName [f] k, ByName [g] m] x"
  let ?r = "?i\<lparr>readers := (readers ?i)(0 := readers ?i 0 + 1), progs := (progs ?i)(0 := tl (progs ?i 0))\<rparr>"
  let ?s = "?r\<lparr>readers := (readers ?r)(0 := readers ?r 0 + 1), progs := (progs ?r)(1 := tl (progs ?r 1))\<rparr>"
  have "sync_step (\<lambda>_. 0) ?i ?r" by (rule sync_step.do_rlock) (simp_all add: init_sys_def)
  moreover have "sync_step (\<lambda>_. 0) ?r ?s" by (rule sync_step.do_rlock) (simp_all add: init_sys_def)
  ultimately show ?thesis by (intro exI [of _ ?s]) (auto simp: init_sys_def intro: one_step)
qed

text \<open>Repositories with a lock of their own over one storage let two writers in at once.\<close>

theorem own_locks_admit_two_writers:
  "\<exists>s. (sync_step id)\<^sup>*\<^sup>* (init_sys [Writer (f # body), Writer (g # body')] x) s \<and> writing (progs s 0) \<and> writing (progs s 1)"
proof -
  let ?i = "init_sys [Writer (f # body), Writer (g # body')] x"
  let ?enter = "\<lambda>s j. s\<lparr>pending := (pending s)(j := None), held := (held s)(j := Some j),
    progs := (progs s)(j := tl (progs s j)), wlog := wlog s @ [j]\<rparr>"
  have enter: "(sync_step id)\<^sup>*\<^sup>* s (?enter s j)"
    if "progs s j = Lock # p" "pending s j = None" "held s j = None" "readers s j = 0" for s :: "'a sys" and j p
    using sync_step.do_announce [of s j p id] sync_step.do_acquire [of "s\<lparr>pending := (pending s)(j := Some j)\<rparr>" j p id] that
    by (auto intro: one_step)
  have "(sync_step id)\<^sup>*\<^sup>* ?i (?enter ?i 0)" by (rule enter) (simp_all add: init_sys_def)
  moreover have "(sync_step id)\<^sup>*\<^sup>* (?enter ?i 0) (?enter (?enter ?i 0) 1)" by (rule enter) (simp_all add: init_sys_def)
  ultimately show ?thesis
    by (intro exI [of _ "?enter (?enter ?i 0) 1"]) (auto simp: init_sys_def intro: rtranclp_trans)
qed

text \<open>
  A shared lock does not keep two repositories over one storage together: each has a name cache of its
  own. After another repository deleted the key and gave its name to a new one, a cached name leads to
  the deleted key.
\<close>

definition demo3 :: "(string \<times> blob) list vault_env" where
  "demo3 = demo_env [demo_key ''k1'' ''alpha'' 1, demo_key ''k2'' ''alpha'' 1]
     [demo_version ''k1'' 1, demo_version ''k2'' 1]"

theorem shared_lock_stale_names:
  "let first = snd (CreateKey demo3 True 1 (Some (demo_key ''k1'' ''alpha'' 1)) (Some (demo_version ''k1'' 1)) (demo_repo []));
       (got, other) = GetKeyByName demo3 ''alpha'' (demo_repo (store first));
       (gone, second) = DeleteKey demo3 ''k1'' (first\<lparr>store := store other\<rparr>);
       third = snd (CreateKey demo3 True 1 (Some (demo_key ''k2'' ''alpha'' 1)) (Some (demo_version ''k2'' 1)) second)
   in got = Inr (demo_key ''k1'' ''alpha'' 1) \<and> gone = Inr () \<and>
      fst (GetKeyByName demo3 ''alpha'' third) = Inr (demo_key ''k2'' ''alpha'' 1) \<and>
      isl (fst (GetKeyByName demo3 ''alpha'' (other\<lparr>store := store third\<rparr>)))"
  by code_simp

end
