(* ===== verification/Vault_Registries.thy ===== *)
theory Vault_Registries
  imports Vault_Storage
begin

text \<open>
  The registries of \<open>vault-storage\<close> besides the key repository: policies
  (\<open>policy/vault_repository.go\<close>), provider instances (\<open>provider/vault_repository.go\<close>) and
  templates (\<open>template/vault_registry.go\<close>). Their state is the storage; what they store is a
  parameter \<open>'a\<close> with its name and its protobuf codec. The interface \<open>registry\<close> states the
  laws the first two promise and is interpreted on both.
\<close>

record ('s, 'a) registry_env = "'s storage" +
  itemName :: "'a \<Rightarrow> string"
  encodeItem :: "'a \<Rightarrow> blob result"
  decodeItem :: "blob \<Rightarrow> 'a result"

text \<open>
  What the registries rely on: the storage laws, and decoding inverts encoding.
\<close>

definition registry_ok :: "('s, 'a) registry_env \<Rightarrow> ('s \<Rightarrow> string \<rightharpoonup> blob) \<Rightarrow> bool" where
  "registry_ok E C \<longleftrightarrow> storage_laws E C \<and> (\<forall>x b. encodeItem E x = Inr b \<longrightarrow> decodeItem E b = Inr x)"

lemma registry_okD:
  assumes "registry_ok E C"
  shows "storage_laws E C" "encodeItem E x = Inr b \<Longrightarrow> decodeItem E b = Inr x"
  using assms by (simp_all add: registry_ok_def)

section \<open>Policies\<close>

definition policyStoragePrefix :: string where "policyStoragePrefix = ''policy/''"

definition NewPolicyRepository :: "'s option \<Rightarrow> 's result" where
  "NewPolicyRepository storage =
     (case storage of
        None \<Rightarrow> Inl (ErrNew ''policy.NewVaultRepository'' CodeInvalidArgument ''nil storage'')
      | Some s \<Rightarrow> Inr s)"

definition PutPolicy :: "('s, 'p) registry_env \<Rightarrow> 'p option \<Rightarrow> 's \<Rightarrow> unit result \<times> 's" where
  "PutPolicy E p0 s =
     (case p0 of
        None \<Rightarrow> (Inl (ErrNew ''policy.(VaultRepository).PutPolicy'' CodeInvalidArgument ''policy must not be nil''), s)
      | Some p \<Rightarrow>
          (case encodeItem E p of
             Inl e \<Rightarrow> (Inl (ErrWrap ''policy.(VaultRepository).PutPolicy'' None e), s)
           | Inr b \<Rightarrow>
               (case vPut E policyStoragePrefix (itemName E p) b s of
                  (Inl e, s1) \<Rightarrow> (Inl (ErrWrap ''policy.(VaultRepository).PutPolicy'' None e), s1)
                | (Inr _, s1) \<Rightarrow> (Inr (), s1))))"

definition GetPolicy :: "('s, 'p) registry_env \<Rightarrow> string \<Rightarrow> 's \<Rightarrow> 'p result \<times> 's" where
  "GetPolicy E name s =
     (case vGet E policyStoragePrefix name s of
        (Inl e, s1) \<Rightarrow> (Inl (ErrWrap ''policy.(VaultRepository).GetPolicy'' None e), s1)
      | (Inr None, s1) \<Rightarrow>
          (Inl (ErrNew ''policy.(VaultRepository).GetPolicy'' CodePolicyNotFound (''policy not found: '' @ name)), s1)
      | (Inr (Some b), s1) \<Rightarrow>
          (case decodeItem E b of
             Inl e \<Rightarrow> (Inl (ErrWrap ''policy.(VaultRepository).GetPolicy'' None e), s1)
           | Inr p \<Rightarrow> (Inr p, s1)))"

definition DeletePolicy :: "('s, 'p) registry_env \<Rightarrow> string \<Rightarrow> 's \<Rightarrow> unit result \<times> 's" where
  "DeletePolicy E name s =
     (case vGet E policyStoragePrefix name s of
        (Inl e, s1) \<Rightarrow> (Inl (ErrWrap ''policy.(VaultRepository).DeletePolicy'' None e), s1)
      | (Inr None, s1) \<Rightarrow>
          (Inl (ErrNew ''policy.(VaultRepository).DeletePolicy'' CodePolicyNotFound (''policy not found: '' @ name)), s1)
      | (Inr (Some b), s1) \<Rightarrow> vDelete E policyStoragePrefix name s1)"

definition ListPolicies :: "('s, 'p) registry_env \<Rightarrow> 's \<Rightarrow> string list result \<times> 's" where
  "ListPolicies E s =
     (case vList E policyStoragePrefix [] s of
        (Inl e, s1) \<Rightarrow> (Inl (ErrWrap ''policy.(VaultRepository).ListPolicies'' None e), s1)
      | (Inr names, s1) \<Rightarrow> (Inr names, s1))"

section \<open>Provider instances\<close>

definition providerInstanceStoragePrefix :: string where
  "providerInstanceStoragePrefix = ''provider_instance/''"

definition NewProviderRepository :: "'s option \<Rightarrow> 's result" where
  "NewProviderRepository storage =
     (case storage of
        None \<Rightarrow> Inl (ErrNew ''provider.NewVaultRepository'' CodeInvalidArgument ''nil storage'')
      | Some s \<Rightarrow> Inr s)"

definition PutProviderInstance :: "('s, 'i) registry_env \<Rightarrow> 'i option \<Rightarrow> 's \<Rightarrow> unit result \<times> 's" where
  "PutProviderInstance E i0 s =
     (case i0 of
        None \<Rightarrow> (Inl (ErrNew ''provider.(VaultRepository).PutProviderInstance'' CodeInvalidArgument
                   ''instance must not be nil''), s)
      | Some i \<Rightarrow>
          (case encodeItem E i of
             Inl e \<Rightarrow> (Inl (ErrWrap ''provider.(VaultRepository).PutProviderInstance'' None e), s)
           | Inr b \<Rightarrow>
               (case vPut E providerInstanceStoragePrefix (itemName E i) b s of
                  (Inl e, s1) \<Rightarrow> (Inl (ErrWrap ''provider.(VaultRepository).PutProviderInstance'' None e), s1)
                | (Inr _, s1) \<Rightarrow> (Inr (), s1))))"

definition GetProviderInstance :: "('s, 'i) registry_env \<Rightarrow> string \<Rightarrow> 's \<Rightarrow> 'i result \<times> 's" where
  "GetProviderInstance E publicID s =
     (case vGet E providerInstanceStoragePrefix publicID s of
        (Inl e, s1) \<Rightarrow> (Inl (ErrWrap ''provider.(VaultRepository).GetProviderInstance'' None e), s1)
      | (Inr None, s1) \<Rightarrow>
          (Inl (ErrNew ''provider.(VaultRepository).GetProviderInstance'' CodeProviderNotFound
             (''provider instance not found: '' @ publicID)), s1)
      | (Inr (Some b), s1) \<Rightarrow>
          (case decodeItem E b of
             Inl e \<Rightarrow> (Inl (ErrWrap ''provider.(VaultRepository).GetProviderInstance'' None e), s1)
           | Inr i \<Rightarrow> (Inr i, s1)))"

definition DeleteProviderInstance :: "('s, 'i) registry_env \<Rightarrow> string \<Rightarrow> 's \<Rightarrow> unit result \<times> 's" where
  "DeleteProviderInstance E publicID s =
     (case vGet E providerInstanceStoragePrefix publicID s of
        (Inl e, s1) \<Rightarrow> (Inl (ErrWrap ''provider.(VaultRepository).DeleteProviderInstance'' None e), s1)
      | (Inr None, s1) \<Rightarrow>
          (Inl (ErrNew ''provider.(VaultRepository).DeleteProviderInstance'' CodeProviderNotFound
             (''provider instance not found: '' @ publicID)), s1)
      | (Inr (Some b), s1) \<Rightarrow> vDelete E providerInstanceStoragePrefix publicID s1)"

definition ListProviderInstances :: "('s, 'i) registry_env \<Rightarrow> 's \<Rightarrow> string list result \<times> 's" where
  "ListProviderInstances E s =
     (case vList E providerInstanceStoragePrefix [] s of
        (Inl e, s1) \<Rightarrow> (Inl (ErrWrap ''provider.(VaultRepository).ListProviderInstances'' None e), s1)
      | (Inr ids, s1) \<Rightarrow> (Inr ids, s1))"

section \<open>Templates\<close>

definition templateStoragePrefix :: string where "templateStoragePrefix = ''template/''"

definition NewVaultRegistry :: "'s option \<Rightarrow> 's result" where
  "NewVaultRegistry storage =
     (case storage of
        None \<Rightarrow> Inl (ErrNew ''template.NewVaultRegistry'' CodeInvalidArgument ''nil storage'')
      | Some s \<Rightarrow> Inr s)"

definition Register :: "('s, 't) registry_env \<Rightarrow> 't option \<Rightarrow> 's \<Rightarrow> unit result \<times> 's" where
  "Register E t0 s =
     (case t0 of
        None \<Rightarrow> (Inl (ErrNew ''template.(VaultRegistry).Register'' CodeInvalidArgument ''template must not be nil''), s)
      | Some t \<Rightarrow>
          if itemName E t = [] then
            (Inl (ErrNew ''template.(VaultRegistry).Register'' CodeInvalidArgument ''template ID must not be empty''), s)
          else
          (case encodeItem E t of
             Inl e \<Rightarrow> (Inl (ErrWrap ''template.(VaultRegistry).Register'' None e), s)
           | Inr b \<Rightarrow>
               (case vPut E templateStoragePrefix (itemName E t) b s of
                  (Inl e, s1) \<Rightarrow> (Inl (ErrWrap ''template.(VaultRegistry).Register'' None e), s1)
                | (Inr _, s1) \<Rightarrow> (Inr (), s1))))"

definition GetTemplate :: "('s, 't) registry_env \<Rightarrow> string \<Rightarrow> 's \<Rightarrow> 't result \<times> 's" where
  "GetTemplate E templateID s =
     (case vGet E templateStoragePrefix templateID s of
        (Inl e, s1) \<Rightarrow> (Inl (ErrWrap ''template.(VaultRegistry).Get'' None e), s1)
      | (Inr None, s1) \<Rightarrow>
          (Inl (ErrNew ''template.(VaultRegistry).Get'' CodeTemplateNotFound (''template not found: '' @ templateID)), s1)
      | (Inr (Some b), s1) \<Rightarrow>
          (case decodeItem E b of
             Inl e \<Rightarrow> (Inl (ErrWrap ''template.(VaultRegistry).Get'' None e), s1)
           | Inr t \<Rightarrow> (Inr t, s1)))"

text \<open>The loop of \<open>List\<close>: entries that cannot be read or decoded are skipped.\<close>

fun loadTemplates :: "('s, 't) registry_env \<Rightarrow> string list \<Rightarrow> 's \<Rightarrow> 't list \<times> 's" where
  "loadTemplates E [] s = ([], s)"
| "loadTemplates E (i # ids) s =
     (case vGet E templateStoragePrefix i s of
        (Inr (Some b), s1) \<Rightarrow>
          (case decodeItem E b of
             Inl _ \<Rightarrow> loadTemplates E ids s1
           | Inr t \<Rightarrow> (let (ts, s2) = loadTemplates E ids s1 in (t # ts, s2)))
      | (_, s1) \<Rightarrow> loadTemplates E ids s1)"

definition ListTemplatesStored :: "('s, 't) registry_env \<Rightarrow> 's \<Rightarrow> 't list \<times> 's" where
  "ListTemplatesStored E s =
     (case vList E templateStoragePrefix [] s of
        (Inl e, s1) \<Rightarrow> ([], s1)
      | (Inr ids, s1) \<Rightarrow> loadTemplates E ids s1)"

fun selectTemplatesWithIDs ::
  "('s, 't) registry_env \<Rightarrow> ('t \<Rightarrow> bool result) \<Rightarrow> string list \<Rightarrow> 's \<Rightarrow> 't list result \<times> 's" where
  "selectTemplatesWithIDs E filterFn [] s = (Inr [], s)"
| "selectTemplatesWithIDs E filterFn (i # ids) s =
     (case vGet E templateStoragePrefix i s of
        (Inr (Some b), s1) \<Rightarrow>
          (case decodeItem E b of
             Inl _ \<Rightarrow> selectTemplatesWithIDs E filterFn ids s1
           | Inr t \<Rightarrow>
               (case filterFn t of
                  Inl e \<Rightarrow> (Inl (ErrWrap ''template.(VaultRegistry).getAllTemplatesWithIDs'' None e), s1)
                | Inr ok \<Rightarrow>
                    (case selectTemplatesWithIDs E filterFn ids s1 of
                       (Inl e, s2) \<Rightarrow> (Inl e, s2)
                     | (Inr ts, s2) \<Rightarrow> (Inr (if ok then t # ts else ts), s2))))
      | (_, s1) \<Rightarrow> selectTemplatesWithIDs E filterFn ids s1)"

text \<open>
  \<open>coretemplate.CandidateSet\<close>: unrestricted, or restricted to a list of ids. \<open>matches\<close> is
  \<open>coretemplate.MatchesScope\<close>.
\<close>

datatype candidate_set = Unrestricted | Restricted (candidateIDs: "string list")

definition selectFilter :: "('sc option \<Rightarrow> 't \<Rightarrow> bool result) \<Rightarrow> 'sc option \<Rightarrow> 't \<Rightarrow> bool result" where
  "selectFilter matches scopeSpec t =
     (case matches scopeSpec t of
        Inl e \<Rightarrow> Inl (ErrWrap ''template.(VaultRegistry).Select'' None e)
      | Inr ok \<Rightarrow> Inr ok)"

definition Select ::
  "('s, 't) registry_env \<Rightarrow> ('sc option \<Rightarrow> 't \<Rightarrow> bool result) \<Rightarrow> 'sc option \<Rightarrow> candidate_set \<Rightarrow> 's
     \<Rightarrow> 't result \<times> 's" where
  "Select E matches scopeSpec cs s =
     (let opS = ''template.(VaultRegistry).Select'' in
      if cs \<noteq> Unrestricted \<and> length (candidateIDs cs) = 1 \<and> scopeSpec = None then
        (case vGet E templateStoragePrefix (hd (candidateIDs cs)) s of
           (Inl e, s1) \<Rightarrow> (Inl (ErrWrap opS None e), s1)
         | (Inr None, s1) \<Rightarrow>
             (Inl (ErrNew opS CodeTemplateNotFound (''template not found: '' @ hd (candidateIDs cs))), s1)
         | (Inr (Some b), s1) \<Rightarrow>
             (case decodeItem E b of Inl e \<Rightarrow> (Inl (ErrWrap opS None e), s1) | Inr t \<Rightarrow> (Inr t, s1)))
      else
        case (case cs of
                Restricted ids \<Rightarrow> (Inr ids, s)
              | Unrestricted \<Rightarrow> vList E templateStoragePrefix [] s) of
          (Inl e, s1) \<Rightarrow> (Inl (ErrWrap opS None e), s1)
        | (Inr ids, s1) \<Rightarrow>
            (case selectTemplatesWithIDs E (selectFilter matches scopeSpec) ids s1 of
               (Inl e, s2) \<Rightarrow> (Inl (ErrWrap opS None e), s2)
             | (Inr candidates, s2) \<Rightarrow>
                 (case candidates of
                    [] \<Rightarrow> (Inl (ErrNew opS CodeTemplateNotFound ''no template matches the selection criteria''), s2)
                  | t # _ \<Rightarrow> (Inr t, s2))))"

section \<open>The registry interface\<close>

text \<open>
  \<open>held\<close> is the map from names to items a registry stands for. Reads return what is held,
  successful writes replace or remove one item, failed writes change nothing.
\<close>

locale registry =
  fixes put :: "'a option \<Rightarrow> 's \<Rightarrow> unit result \<times> 's"
    and get :: "string \<Rightarrow> 's \<Rightarrow> 'a result \<times> 's"
    and delete :: "string \<Rightarrow> 's \<Rightarrow> unit result \<times> 's"
    and name :: "'a \<Rightarrow> string"
    and held :: "'s \<Rightarrow> string \<rightharpoonup> 'a"
    and sound :: bool
  assumes put_ok: "sound \<Longrightarrow> put (Some x) s = (Inr u, s') \<Longrightarrow> held s' = (held s)(name x \<mapsto> x)"
    and put_failed: "sound \<Longrightarrow> put x0 s = (Inl e, s') \<Longrightarrow> held s' = held s"
    and get_ok: "sound \<Longrightarrow> get n s = (Inr x, s') \<Longrightarrow> held s n = Some x"
    and get_keeps: "sound \<Longrightarrow> get n s = (r, s') \<Longrightarrow> held s' = held s"
    and delete_ok: "sound \<Longrightarrow> delete n s = (Inr u, s') \<Longrightarrow> held s' = (held s)(n := None)"
    and delete_failed: "sound \<Longrightarrow> delete n s = (Inl e, s') \<Longrightarrow> held s' = held s"
begin

lemma put_get:
  assumes "sound" "put (Some x) s = (Inr u, s1)" "get n s1 = (Inr y, s2)"
  shows "y = (if n = name x then x else the (held s n))"
  using put_ok [OF assms(1,2)] get_ok [OF assms(1,3)] by (auto split: if_splits)

lemma delete_get:
  assumes "sound" "delete n s = (Inr u, s1)" "get n s1 = (r, s2)"
  shows "isl r"
proof (cases r)
  case (Inr x)
  with get_ok [OF assms(1), of n s1 x s2] delete_ok [OF assms(1,2)] assms(3) show ?thesis by simp
qed simp

lemma get_stable:
  assumes "sound" "get n s = (Inr x, s1)" "get n s1 = (Inr y, s2)"
  shows "x = y"
  using get_ok [OF assms(1,2)] get_keeps [OF assms(1,2)] get_ok [OF assms(1,3)] by simp

end

definition item_at :: "('s, 'a) registry_env \<Rightarrow> (string \<rightharpoonup> blob) \<Rightarrow> string \<Rightarrow> string \<rightharpoonup> 'a" where
  "item_at E m p n =
     (case m (p @ n) of None \<Rightarrow> None
      | Some b \<Rightarrow> (case decodeItem E b of Inl _ \<Rightarrow> None | Inr x \<Rightarrow> Some x))"

lemma item_at_upd:
  "item_at E (m(p @ n \<mapsto> b)) p = (item_at E m p)(n := (case decodeItem E b of Inl _ \<Rightarrow> None | Inr x \<Rightarrow> Some x))"
  "item_at E (m(p @ n := None)) p = (item_at E m p)(n := None)"
  by (auto simp: item_at_def fun_eq_iff)

lemma put_effect:
  assumes "registry_ok E C" "encodeItem E x = Inr b" "vPut E p (itemName E x) b s = (r, s')"
  shows "item_at E (C s') p = (if isl r then item_at E (C s) p else (item_at E (C s) p)(itemName E x \<mapsto> x))"
  using vPut_law [OF registry_okD(1) [OF assms(1)] assms(3)] registry_okD(2) [OF assms(1,2)]
  by (cases r) (auto simp: item_at_upd)

lemma delete_effect:
  assumes "registry_ok E C" "vDelete E p n s = (r, s')"
  shows "item_at E (C s') p = (if isl r then item_at E (C s) p else (item_at E (C s) p)(n := None))"
  using vDelete_law [OF registry_okD(1) [OF assms(1)] assms(2)] by (cases r) (auto simp: item_at_upd)

lemma get_effect:
  assumes "registry_ok E C" "vGet E p n s = (r, s')"
  shows "C s' = C s" and "r = Inr (Some b) \<Longrightarrow> decodeItem E b = Inr x \<Longrightarrow> item_at E (C s) p n = Some x"
proof -
  note law = vGet_law [OF registry_okD(1) [OF assms(1)] assms(2)]
  show "C s' = C s" by (rule law(1))
  assume "r = Inr (Some b)" "decodeItem E b = Inr x"
  with law(2) [of "Some b"] have "C s (p @ n) = Some b" by simp
  with \<open>decodeItem E b = Inr x\<close> show "item_at E (C s) p n = Some x" by (simp add: item_at_def)
qed

lemmas policy_defs = PutPolicy_def GetPolicy_def DeletePolicy_def
lemmas instance_defs = PutProviderInstance_def GetProviderInstance_def DeleteProviderInstance_def

interpretation policies: registry "PutPolicy E" "GetPolicy E" "DeletePolicy E" "itemName E"
    "\<lambda>s. item_at E (C s) policyStoragePrefix" "registry_ok E C"
  for E :: "('s, 'p) registry_env" and C
proof unfold_locales
  assume ok: "registry_ok E C"
  note pe = put_effect [OF ok, of _ _ policyStoragePrefix] and de = delete_effect [OF ok, of policyStoragePrefix]
    and ge = get_effect [OF ok, of policyStoragePrefix]
  show "PutPolicy E (Some x) s = (Inr u, s') \<Longrightarrow> item_at E (C s') policyStoragePrefix =
      (item_at E (C s) policyStoragePrefix)(itemName E x \<mapsto> x)" for x s u s'
    using pe by (fastforce simp: policy_defs split: sum.splits prod.splits)
  show "PutPolicy E x0 s = (Inl e, s') \<Longrightarrow>
      item_at E (C s') policyStoragePrefix = item_at E (C s) policyStoragePrefix" for x0 s e s'
    using pe by (fastforce simp: policy_defs split: sum.splits prod.splits option.splits)
  show "GetPolicy E n s = (Inr x, s') \<Longrightarrow> item_at E (C s) policyStoragePrefix n = Some x" for n s x s'
    using ge by (fastforce simp: policy_defs split: sum.splits prod.splits option.splits)
  show "GetPolicy E n s = (r, s') \<Longrightarrow>
      item_at E (C s') policyStoragePrefix = item_at E (C s) policyStoragePrefix" for n s r s'
    using ge(1) by (fastforce simp: policy_defs split: sum.splits prod.splits option.splits)
  show "DeletePolicy E n s = (Inr u, s') \<Longrightarrow>
      item_at E (C s') policyStoragePrefix = (item_at E (C s) policyStoragePrefix)(n := None)" for n s u s'
    using ge(1) de by (fastforce simp: policy_defs split: sum.splits prod.splits option.splits)
  show "DeletePolicy E n s = (Inl e, s') \<Longrightarrow>
      item_at E (C s') policyStoragePrefix = item_at E (C s) policyStoragePrefix" for n s e s'
    using ge(1) de by (fastforce simp: policy_defs split: sum.splits prod.splits option.splits)
qed

interpretation instances: registry "PutProviderInstance E" "GetProviderInstance E" "DeleteProviderInstance E"
    "itemName E" "\<lambda>s. item_at E (C s) providerInstanceStoragePrefix" "registry_ok E C"
  for E :: "('s, 'i) registry_env" and C
proof unfold_locales
  assume ok: "registry_ok E C"
  let ?p = providerInstanceStoragePrefix
  note pe = put_effect [OF ok, of _ _ ?p] and de = delete_effect [OF ok, of ?p]
    and ge = get_effect [OF ok, of ?p]
  show "PutProviderInstance E (Some x) s = (Inr u, s') \<Longrightarrow>
      item_at E (C s') ?p = (item_at E (C s) ?p)(itemName E x \<mapsto> x)" for x s u s'
    using pe by (fastforce simp: instance_defs split: sum.splits prod.splits)
  show "PutProviderInstance E x0 s = (Inl e, s') \<Longrightarrow> item_at E (C s') ?p = item_at E (C s) ?p" for x0 s e s'
    using pe by (fastforce simp: instance_defs split: sum.splits prod.splits option.splits)
  show "GetProviderInstance E n s = (Inr x, s') \<Longrightarrow> item_at E (C s) ?p n = Some x" for n s x s'
    using ge by (fastforce simp: instance_defs split: sum.splits prod.splits option.splits)
  show "GetProviderInstance E n s = (r, s') \<Longrightarrow> item_at E (C s') ?p = item_at E (C s) ?p" for n s r s'
    using ge(1) by (fastforce simp: instance_defs split: sum.splits prod.splits option.splits)
  show "DeleteProviderInstance E n s = (Inr u, s') \<Longrightarrow> item_at E (C s') ?p = (item_at E (C s) ?p)(n := None)" for n s u s'
    using ge(1) de by (fastforce simp: instance_defs split: sum.splits prod.splits option.splits)
  show "DeleteProviderInstance E n s = (Inl e, s') \<Longrightarrow> item_at E (C s') ?p = item_at E (C s) ?p" for n s e s'
    using ge(1) de by (fastforce simp: instance_defs split: sum.splits prod.splits option.splits)
qed

section \<open>Properties of the registries\<close>

text \<open>Storage whose reads do not fail; what \<open>GetPolicy\<close> then returns depends on the stored entry only.\<close>

definition gets_reliable :: "('s, 'z) storage_scheme \<Rightarrow> bool" where
  "gets_reliable S \<longleftrightarrow> (\<forall>p k s. \<not> isl (fst (vGet S p k s)))"

lemma reliable_get:
  assumes "storage_laws S C" "gets_reliable S"
  obtains s' where "vGet S p k s = (Inr (C s (p @ k)), s')" "C s' = C s"
proof -
  obtain r s' where g: "vGet S p k s = (r, s')" by fastforce
  moreover from assms(2) g obtain v where "r = Inr v" unfolding gets_reliable_def by (metis fst_conv isl_def sum.collapse(2))
  ultimately show thesis using vGet_law [OF assms(1) g] that by auto
qed

lemma GetPolicy_reliable:
  assumes "registry_ok E C" "gets_reliable E"
  shows "fst (GetPolicy E n s) =
    (case C s (policyStoragePrefix @ n) of
       None \<Rightarrow> Inl (ErrNew ''policy.(VaultRepository).GetPolicy'' CodePolicyNotFound (''policy not found: '' @ n))
     | Some b \<Rightarrow> (case decodeItem E b of
         Inl e \<Rightarrow> Inl (ErrWrap ''policy.(VaultRepository).GetPolicy'' None e) | Inr p \<Rightarrow> Inr p))"
proof -
  obtain s' where "vGet E policyStoragePrefix n s = (Inr (C s (policyStoragePrefix @ n)), s')"
    using reliable_get [OF registry_okD(1) [OF assms(1)] assms(2)] by metis
  then show ?thesis by (simp add: GetPolicy_def split: option.splits sum.splits)
qed

lemma PutPolicy_contents:
  assumes "registry_ok E C" "PutPolicy E (Some p) s = (Inr u, s1)"
  obtains b where "encodeItem E p = Inr b" "decodeItem E b = Inr p"
    "C s1 = (C s)(policyStoragePrefix @ itemName E p \<mapsto> b)"
proof -
  obtain b v where b: "encodeItem E p = Inr b" "vPut E policyStoragePrefix (itemName E p) b s = (Inr v, s1)"
    using assms(2) by (auto simp: PutPolicy_def split: sum.splits prod.splits)
  with vPut_law(1) [OF registry_okD(1) [OF assms(1)] b(2) refl] registry_okD(2) [OF assms(1) b(1)] show thesis by (intro that)
qed

lemma DeletePolicy_contents:
  assumes "registry_ok E C" "DeletePolicy E n s = (Inr u, s')"
  shows "C s' = (C s)(policyStoragePrefix @ n := None)"
proof -
  obtain b s1 where g: "vGet E policyStoragePrefix n s = (Inr (Some b), s1)" "vDelete E policyStoragePrefix n s1 = (Inr u, s')"
    using assms(2) by (auto simp: DeletePolicy_def split: sum.splits prod.splits option.splits)
  note law = registry_okD(1) [OF assms(1)]
  from vDelete_law(1) [OF law g(2) refl] vGet_law(1) [OF law g(1)] show ?thesis by simp
qed

text \<open>
  C26: Over storage whose reads succeed, a stored policy is what the next lookup of its name returns,
  the lookup of any other name returns what it returned before, and after a deletion the lookup
  reports that the policy is not found, under that error code.
\<close>

theorem policy_put_get_delete:
  assumes "registry_ok E C" "gets_reliable E" "PutPolicy E (Some p) s = (Inr u, s1)"
  shows "fst (GetPolicy E (itemName E p) s1) = Inr p \<and>
    (\<forall>n. n \<noteq> itemName E p \<longrightarrow> fst (GetPolicy E n s1) = fst (GetPolicy E n s)) \<and>
    (\<forall>n u' s3. DeletePolicy E n s1 = (Inr u', s3) \<longrightarrow>
       fst (GetPolicy E n s3) =
         Inl (ErrNew ''policy.(VaultRepository).GetPolicy'' CodePolicyNotFound (''policy not found: '' @ n)) \<and>
       (\<forall>m. m \<noteq> n \<longrightarrow> fst (GetPolicy E m s3) = fst (GetPolicy E m s1)))"
proof -
  obtain b where b: "decodeItem E b = Inr p" "C s1 = (C s)(policyStoragePrefix @ itemName E p \<mapsto> b)"
    using PutPolicy_contents [OF assms(1,3)] by metis
  then show ?thesis by (auto simp: GetPolicy_reliable [OF assms(1,2)] DeletePolicy_contents [OF assms(1)])
qed

definition demo_registry :: "(string \<times> string) list storage \<Rightarrow> ((string \<times> string) list, string \<times> string) registry_env" where
  "demo_registry S = storage.extend S (registry_env.fields fst
     (\<lambda>x. Inr (show_nat (length (fst x)) @ CHR '':'' # fst x @ snd x))
     (\<lambda>b. let n = read_digits (takeWhile (\<lambda>c. c \<noteq> CHR '':'') b);
               t = tl (dropWhile (\<lambda>c. c \<noteq> CHR '':'') b) in Inr (take n t, drop n t)))"

lemma demo_registry_simps:
  "vGet (demo_registry S) = vGet S" "vPut (demo_registry S) = vPut S" "vDelete (demo_registry S) = vDelete S"
  "vList (demo_registry S) = vList S" "itemName (demo_registry S) = fst"
  by (simp_all add: demo_registry_def storage.defs registry_env.defs)

lemma demo_registry_ok: "registry_ok (demo_registry mem_storage) map_of"
proof -
  have sp: "takeWhile (\<lambda>c. c \<noteq> CHR '':'') (show_nat n @ CHR '':'' # t) = show_nat n"
    "dropWhile (\<lambda>c. c \<noteq> CHR '':'') (show_nat n @ CHR '':'' # t) = CHR '':'' # t" for n t
    using show_nat_no_punct(1) [of n] by (auto simp: takeWhile_append dropWhile_append)
  have "storage_laws (demo_registry mem_storage) map_of"
    using mem_storage_laws by (simp add: storage_laws_def demo_registry_simps)
  then show ?thesis
    by (auto simp: registry_ok_def demo_registry_def storage.defs registry_env.defs sp Let_def)
qed

lemma demo_gets_reliable: "gets_reliable (demo_registry mem_storage)"
  by (simp add: gets_reliable_def demo_registry_simps mem_storage_def)

theorem policy_put_get_delete_witness:
  "let E = demo_registry mem_storage; s1 = snd (PutPolicy E (Some (''p1'', ''body'')) [])
   in fst (GetPolicy E ''p1'' s1) = Inr (''p1'', ''body'') \<and>
      fst (GetPolicy E ''p1'' (snd (DeletePolicy E ''p1'' s1))) =
        Inl (ErrNew ''policy.(VaultRepository).GetPolicy'' CodePolicyNotFound ''policy not found: p1'')"
proof -
  let ?E = "demo_registry mem_storage" and ?p = "PutPolicy (demo_registry mem_storage) (Some (''p1'', ''body'')) []"
  have 1: "fst ?p = Inr ()" "fst (DeletePolicy ?E ''p1'' (snd ?p)) = Inr ()" by code_simp+
  then have p: "?p = (Inr (), snd ?p)" and d: "DeletePolicy ?E ''p1'' (snd ?p) = (Inr (), snd (DeletePolicy ?E ''p1'' (snd ?p)))"
    by (simp_all add: prod_eq_iff)
  note props = policy_put_get_delete [OF demo_registry_ok demo_gets_reliable p]
  have "fst (GetPolicy ?E ''p1'' (snd ?p)) = Inr (''p1'', ''body'')" using conjunct1 [OF props] by (simp add: demo_registry_simps)
  moreover have "fst (GetPolicy ?E ''p1'' (snd (DeletePolicy ?E ''p1'' (snd ?p)))) =
      Inl (ErrNew ''policy.(VaultRepository).GetPolicy'' CodePolicyNotFound (''policy not found: '' @ ''p1''))"
    using props d by blast
  ultimately show ?thesis by (simp add: Let_def)
qed

lemma selectTemplatesWithIDs_sound:
  assumes "registry_ok E C" "selectTemplatesWithIDs E f ids s = (Inr ts, s')" "t \<in> set ts"
  shows "f t = Inr True \<and> (\<exists>i \<in> set ids. item_at E (C s) templateStoragePrefix i = Some t)"
  using assms(2,3)
proof (induction ids arbitrary: s ts s')
  case (Cons i ids)
  obtain g s1 where g: "vGet E templateStoragePrefix i s = (g, s1)" by fastforce
  note ge = get_effect [OF assms(1) g]
  show ?case
  proof (cases "\<exists>b x. g = Inr (Some b) \<and> decodeItem E b = Inr x")
    case True
    then obtain b x where bx: "g = Inr (Some b)" "decodeItem E b = Inr x" by blast
    with Cons.prems(1) g obtain ok ts' s2 where o: "f x = Inr ok"
      "selectTemplatesWithIDs E f ids s1 = (Inr ts', s2)" "ts = (if ok then x # ts' else ts')"
      by (auto split: sum.splits prod.splits)
    with Cons.IH [OF o(2)] Cons.prems(2) ge(1) ge(2) [OF bx] show ?thesis by (auto split: if_splits)
  next
    case False
    then have "selectTemplatesWithIDs E f ids s1 = (Inr ts, s')"
      using Cons.prems(1) g by (auto split: sum.splits option.splits)
    with Cons.IH [OF this] Cons.prems(2) ge(1) show ?thesis by auto
  qed
qed simp

text \<open>Over storage whose reads succeed, the first template selected is the first stored candidate that the filter accepts.\<close>

lemma selectTemplatesWithIDs_first:
  assumes "registry_ok E C" "gets_reliable E" "selectTemplatesWithIDs E f ids s = (Inr (t # ts), s')"
  shows "\<exists>pre i post. ids = pre @ i # post \<and> item_at E (C s) templateStoragePrefix i = Some t \<and> f t = Inr True \<and>
    (\<forall>j \<in> set pre. \<forall>x. item_at E (C s) templateStoragePrefix j = Some x \<longrightarrow> f x = Inr False)"
  using assms(3)
proof (induction ids arbitrary: s ts s')
  case (Cons i ids)
  let ?at = "\<lambda>s. item_at E (C s) templateStoragePrefix"
  obtain s1 where g: "vGet E templateStoragePrefix i s = (Inr (C s (templateStoragePrefix @ i)), s1)" "C s1 = C s"
    using reliable_get [OF registry_okD(1) [OF assms(1)] assms(2)] by metis
  show ?case
  proof (cases "\<exists>x. ?at s i = Some x \<and> f x = Inr True")
    case True
    then obtain x where x: "?at s i = Some x" "f x = Inr True" by blast
    then have "x = t" using Cons.prems g(1) by (auto simp: item_at_def split: option.splits sum.splits prod.splits)
    with x show ?thesis by (intro exI [of _ "[]"] exI [of _ i] exI [of _ ids]) simp
  next
    case False
    have skip: "\<forall>x. ?at s i = Some x \<longrightarrow> f x = Inr False"
    proof (intro allI impI)
      fix x assume x: "?at s i = Some x"
      with False obtain e where "f x = Inl e \<or> f x = Inr False" by (cases "f x") auto
      with Cons.prems g(1) x show "f x = Inr False"
        by (auto simp: item_at_def split: option.splits sum.splits prod.splits)
    qed
    then obtain s2 where r: "selectTemplatesWithIDs E f ids s1 = (Inr (t # ts), s2)"
      using Cons.prems g(1) by (auto simp: item_at_def split: option.splits sum.splits prod.splits)
    from Cons.IH [OF r] obtain pre j post where "ids = pre @ j # post" "?at s j = Some t" "f t = Inr True"
      "\<forall>k \<in> set pre. \<forall>x. ?at s k = Some x \<longrightarrow> f x = Inr False" unfolding g(2) by blast
    with skip show ?thesis by (intro exI [of _ "i # pre"] exI [of _ j] exI [of _ post]) simp
  qed
qed simp

text \<open>
  C18: Template selection never leaves the candidate set the policy allows: whatever fails on the
  way, a template it returns is stored under one of the candidate ids, and it matches the
  requested scope unless the request names one id and no scope. Over storage whose reads succeed it is
  the first that matches: every stored candidate before it does not match the scope. The order is that of
  the restriction, or that of the listing when there is none.
\<close>

theorem Select_respects_candidates:
  assumes "registry_ok E C" "Select E matches scopeSpec cs s = (Inr t, s')"
  shows "(\<exists>i. item_at E (C s) templateStoragePrefix i = Some t \<and> (\<forall>ids. cs = Restricted ids \<longrightarrow> i \<in> set ids)) \<and>
    (matches scopeSpec t = Inr True \<or> scopeSpec = None \<and> (\<exists>i. cs = Restricted [i])) \<and>
    (gets_reliable E \<longrightarrow> (\<exists>pre i post.
       (cs = Restricted (pre @ i # post) \<or>
        cs = Unrestricted \<and> fst (vList E templateStoragePrefix [] s) = Inr (pre @ i # post)) \<and>
       item_at E (C s) templateStoragePrefix i = Some t \<and>
       (\<forall>j \<in> set pre. \<forall>x. item_at E (C s) templateStoragePrefix j = Some x \<longrightarrow> matches scopeSpec x = Inr False)))"
proof (cases "cs \<noteq> Unrestricted \<and> length (candidateIDs cs) = 1 \<and> scopeSpec = None")
  case True
  then obtain i where cs: "cs = Restricted [i]" by (cases cs) (auto simp: length_Suc_conv)
  obtain g s1 where g: "vGet E templateStoragePrefix i s = (g, s1)" by fastforce
  with assms(2) True cs obtain b where "g = Inr (Some b)" "decodeItem E b = Inr t"
    by (auto simp: Select_def Let_def split: sum.splits option.splits)
  from get_effect(2) [OF assms(1) g this] have "item_at E (C s) templateStoragePrefix i = Some t" .
  then show ?thesis using cs True by (auto intro: exI [of _ "[]"])
next
  case False
  obtain idr s1 where l: "(case cs of Restricted ids \<Rightarrow> (Inr ids, s)
      | Unrestricted \<Rightarrow> vList E templateStoragePrefix [] s) = (idr, s1)" by fastforce
  have C1: "C s1 = C s" using l vList_law(1) [OF registry_okD(1) [OF assms(1)]]
    by (cases cs) auto
  have un: "Select E matches scopeSpec cs s =
      (case idr of Inl e \<Rightarrow> (Inl (ErrWrap ''template.(VaultRegistry).Select'' None e), s1)
       | Inr ids \<Rightarrow>
            (case selectTemplatesWithIDs E (selectFilter matches scopeSpec) ids s1 of
               (Inl e, s2) \<Rightarrow> (Inl (ErrWrap ''template.(VaultRegistry).Select'' None e), s2)
             | (Inr candidates, s2) \<Rightarrow>
                 (case candidates of
                    [] \<Rightarrow> (Inl (ErrNew ''template.(VaultRegistry).Select'' CodeTemplateNotFound
                            ''no template matches the selection criteria''), s2)
                  | t # _ \<Rightarrow> (Inr t, s2))))"
    unfolding Select_def Let_def if_not_P [OF False] l by simp
  from assms(2) obtain ids ts s2 where o: "idr = Inr ids"
    "selectTemplatesWithIDs E (selectFilter matches scopeSpec) ids s1 = (Inr (t # ts), s2)"
    unfolding un by (auto split: sum.splits prod.splits list.splits)
  from selectTemplatesWithIDs_sound [OF assms(1) o(2), of t] C1
  have "selectFilter matches scopeSpec t = Inr True"
    "\<exists>i\<in>set ids. item_at E (C s) templateStoragePrefix i = Some t" by auto
  moreover have ids: "cs = Restricted ids \<or> cs = Unrestricted \<and> fst (vList E templateStoragePrefix [] s) = Inr ids"
    using l o(1) by (cases cs) auto
  moreover have m: "matches scopeSpec x = Inr b" if "selectFilter matches scopeSpec x = Inr b" for x b
    using that by (auto simp: selectFilter_def split: sum.splits)
  moreover have "\<exists>pre i post. (cs = Restricted (pre @ i # post) \<or>
        cs = Unrestricted \<and> fst (vList E templateStoragePrefix [] s) = Inr (pre @ i # post)) \<and>
       item_at E (C s) templateStoragePrefix i = Some t \<and>
       (\<forall>j \<in> set pre. \<forall>x. item_at E (C s) templateStoragePrefix j = Some x \<longrightarrow> matches scopeSpec x = Inr False)"
    if "gets_reliable E"
    using selectTemplatesWithIDs_first [OF assms(1) that o(2)] ids m unfolding C1 by metis
  ultimately show ?thesis by auto
qed

theorem Select_respects_candidates_witness:
  "let E = demo_registry mem_storage;
       s = snd (Register E (Some (''t2'', ''gcm'')) (snd (Register E (Some (''t1'', ''cbc'')) [])));
       sel = Select E (\<lambda>_ t. Inr (snd t = ''gcm'')) (Some ()) (Restricted [''t1'', ''t2'']) s
   in fst sel = Inr (''t2'', ''gcm'') \<and>
      (\<exists>i \<in> {''t1'', ''t2''}. item_at E (map_of s) templateStoragePrefix i = Some (''t2'', ''gcm'')) \<and>
      (\<exists>pre i post. [''t1'', ''t2''] = pre @ i # post \<and> item_at E (map_of s) templateStoragePrefix i = Some (''t2'', ''gcm''))"
proof -
  let ?E = "demo_registry mem_storage"
  let ?s = "snd (Register ?E (Some (''t2'', ''gcm'')) (snd (Register ?E (Some (''t1'', ''cbc'')) [])))"
  let ?sel = "Select ?E (\<lambda>_ t. Inr (snd t = ''gcm'')) (Some ()) (Restricted [''t1'', ''t2'']) ?s"
  have 1: "fst ?sel = Inr (''t2'', ''gcm'')" by code_simp
  then have "?sel = (Inr (''t2'', ''gcm''), snd ?sel)" by (simp add: prod_eq_iff)
  note first = Select_respects_candidates [OF demo_registry_ok this]
  have "\<exists>pre i post. [''t1'', ''t2''] = pre @ i # post \<and> item_at ?E (map_of ?s) templateStoragePrefix i = Some (''t2'', ''gcm'')"
    using first demo_gets_reliable by (metis candidate_set.distinct(1) candidate_set.inject)
  with first 1 show ?thesis by (auto simp: Let_def)
qed

end
