(* ===== verification/Registry_Concurrency.thy ===== *)
theory Registry_Concurrency
  imports Locked_Repository Vault_Registries
begin

text \<open>
  Concurrent calls on the registries of policies (\<open>vault-storage/policy\<close>) and provider instances
  (\<open>vault-storage/provider\<close>): writing methods take the lock for writing, reading methods for reading, and
  none takes it twice, so that calls which share a lock are serial. The argument of a write is not
  nil: the methods refuse a nil argument before they take the lock.
\<close>

datatype 'a registry_op = GPut 'a | GGet string | GDelete string | GList

fun registry_reads :: "'a registry_op \<Rightarrow> bool" where
  "registry_reads (GGet _) = True"
| "registry_reads GList = True"
| "registry_reads _ = False"

fun registry_step ::
  "('a option \<Rightarrow> 's \<Rightarrow> unit result \<times> 's) \<Rightarrow> (string \<Rightarrow> 's \<Rightarrow> 'a result \<times> 's) \<Rightarrow> (string \<Rightarrow> 's \<Rightarrow> unit result \<times> 's)
     \<Rightarrow> ('s \<Rightarrow> string list result \<times> 's) \<Rightarrow> 'a registry_op \<Rightarrow> 's \<Rightarrow> 's" where
  "registry_step put get delete list (GPut x) s = snd (put (Some x) s)"
| "registry_step put get delete list (GGet n) s = snd (get n s)"
| "registry_step put get delete list (GDelete n) s = snd (delete n s)"
| "registry_step put get delete list GList s = snd (list s)"

text \<open>Every item is held under its own name.\<close>

definition well_named :: "('a \<Rightarrow> string) \<Rightarrow> (string \<rightharpoonup> 'a) \<Rightarrow> bool" where
  "well_named name m \<longleftrightarrow> (\<forall>n x. m n = Some x \<longrightarrow> name x = n)"

lemma well_named_upd [simp]:
  "well_named name m \<Longrightarrow> well_named name (m(name x \<mapsto> x))"
  "well_named name m \<Longrightarrow> well_named name (m(n := None))"
  by (auto simp: well_named_def)

context registry
begin

lemma writes_well_named:
  assumes "sound" "well_named name (held s)" "\<not> registry_reads op"
  shows "well_named name (held (registry_step put get delete list op s))"
proof (cases op)
  case (GPut x)
  obtain r s' where "put (Some x) s = (r, s')" by fastforce
  with put_ok [OF assms(1), of x s _ s'] put_failed [OF assms(1), of "Some x" s _ s'] assms(2) GPut
  show ?thesis by (cases r) auto
next
  case (GDelete n)
  obtain r s' where "delete n s = (r, s')" by fastforce
  with delete_ok [OF assms(1), of n s _ s'] delete_failed [OF assms(1), of n s _ s'] assms(2) GDelete
  show ?thesis by (cases r) auto
qed (use assms in simp_all)

end

interpretation locked_policies: locked_repository registry_reads
    "registry_step (PutPolicy E) (GetPolicy E) (DeletePolicy E) (ListPolicies E)"
    "\<lambda>s. registry_ok E C \<and> well_named (itemName E) (item_at E (C s) policyStoragePrefix)" "\<lambda>_. True"
  for E :: "('s, 'p) registry_env" and C
  by unfold_locales (auto intro: policies.writes_well_named)

interpretation locked_instances: locked_repository registry_reads
    "registry_step (PutProviderInstance E) (GetProviderInstance E) (DeleteProviderInstance E) (ListProviderInstances E)"
    "\<lambda>s. registry_ok E C \<and> well_named (itemName E) (item_at E (C s) providerInstanceStoragePrefix)" "\<lambda>_. True"
  for E :: "('s, 'i) registry_env" and C
  by unfold_locales (auto intro: instances.writes_well_named)

text \<open>
  Concurrent calls on policy repositories that share a lock end, and what a reader sees, and what is
  left at the end, is what some of the writers (at the end: all) leave one after the other, with every
  policy stored under its name. The same holds for provider instances.
\<close>

theorem policy_calls_serialise:
  assumes "registry_ok E C" "well_named (itemName E) (item_at E (C x) policyStoragePrefix)"
    and "list_all2 (carries_out registry_reads
          (registry_step (PutPolicy E) (GetPolicy E) (DeletePolicy E) (ListPolicies E)) id) ops calls"
    and "(sync_step (\<lambda>_. 0) ^^ k) (init_sys calls x) s"
  shows "k \<le> 2 * (\<Sum>c\<leftarrow>calls. length (lockProgram c)) + 1 \<and>
    ((\<forall>i. progs s i = []) \<or> (\<exists>s'. sync_step (\<lambda>_. 0) s s')) \<and>
    ((\<exists>i. reading (progs s i)) \<or> (\<forall>i. progs s i = []) \<longrightarrow>
      (\<exists>order. distinct order \<and> set order \<subseteq> writers calls \<and> ((\<forall>i. progs s i = []) \<longrightarrow> set order = writers calls) \<and>
        shared s = fold (registry_step (PutPolicy E) (GetPolicy E) (DeletePolicy E) (ListPolicies E)) (map ((!) ops) order) x \<and>
        well_named (itemName E) (item_at E (C (shared s)) policyStoragePrefix)))"
proof -
  have "registry_ok E C \<and> well_named (itemName E) (item_at E (C (id x)) policyStoragePrefix)" using assms(1,2) by simp
  note ser = locked_policies.calls_serialise [OF assms(3) _ this assms(4)]
  from ser(1,2,4) show ?thesis unfolding id_apply by blast
qed

theorem instance_calls_serialise:
  assumes "registry_ok E C" "well_named (itemName E) (item_at E (C x) providerInstanceStoragePrefix)"
    and "list_all2 (carries_out registry_reads (registry_step (PutProviderInstance E) (GetProviderInstance E)
          (DeleteProviderInstance E) (ListProviderInstances E)) id) ops calls"
    and "(sync_step (\<lambda>_. 0) ^^ k) (init_sys calls x) s"
  shows "k \<le> 2 * (\<Sum>c\<leftarrow>calls. length (lockProgram c)) + 1 \<and>
    ((\<forall>i. progs s i = []) \<or> (\<exists>s'. sync_step (\<lambda>_. 0) s s')) \<and>
    ((\<exists>i. reading (progs s i)) \<or> (\<forall>i. progs s i = []) \<longrightarrow>
      (\<exists>order. distinct order \<and> set order \<subseteq> writers calls \<and> ((\<forall>i. progs s i = []) \<longrightarrow> set order = writers calls) \<and>
        shared s = fold (registry_step (PutProviderInstance E) (GetProviderInstance E) (DeleteProviderInstance E)
          (ListProviderInstances E)) (map ((!) ops) order) x \<and>
        well_named (itemName E) (item_at E (C (shared s)) providerInstanceStoragePrefix)))"
proof -
  have "registry_ok E C \<and> well_named (itemName E) (item_at E (C (id x)) providerInstanceStoragePrefix)" using assms(1,2) by simp
  note ser = locked_instances.calls_serialise [OF assms(3) _ this assms(4)]
  from ser(1,2,4) show ?thesis unfolding id_apply by blast
qed

end
