(* ===== verification/Auth.thy ===== *)
theory Auth
  imports Citius_Prelude
begin

text \<open>
  Authentication configuration and authorization: \<open>internal/auth\<close>, \<open>internal/grpc/authz\<close> and
  the mapping of domain errors to gRPC statuses of \<open>internal/grpc/status\<close>. The token
  introspection, the interceptors and the glob matcher belong to zitadel-grpc-auth: what the
  sources use of it is the record \<open>zauth\<close>, with its documented behaviour as \<open>zauth_ok\<close>.
\<close>

section \<open>Statuses\<close>

definition internalErrorMessage :: string where "internalErrorMessage = ''internal error''"

text \<open>A gRPC status error: its code and the message the caller sees.\<close>

type_synonym status = "grpc_code \<times> string"

definition ToStatusError :: "errors_pkg \<Rightarrow> error option \<Rightarrow> status option" where
  "ToStatusError P err =
     (case err of
        None \<Rightarrow> None
      | Some e \<Rightarrow>
          (case asDomain P e of
             Some msg \<Rightarrow> Some (grpcCodeOf P e, msg)
           | None \<Rightarrow> Some (GInternal, internalErrorMessage)))"

section \<open>Permissions and methods\<close>

definition PermKeysCreate :: string where "PermKeysCreate = ''citius:keys:create''"
definition PermKeysRotate :: string where "PermKeysRotate = ''citius:keys:rotate''"
definition PermKeysUpdatePolicy :: string where "PermKeysUpdatePolicy = ''citius:keys:update-policy''"
definition PermKeysRead :: string where "PermKeysRead = ''citius:keys:read''"
definition PermCryptoEncrypt :: string where "PermCryptoEncrypt = ''citius:crypto:encrypt''"
definition PermCryptoDecrypt :: string where "PermCryptoDecrypt = ''citius:crypto:decrypt''"
definition PermCryptoSign :: string where "PermCryptoSign = ''citius:crypto:sign''"
definition PermCryptoVerify :: string where "PermCryptoVerify = ''citius:crypto:verify''"
definition PermCryptoMisc :: string where "PermCryptoMisc = ''citius:crypto:misc''"
definition PermPolicyRead :: string where "PermPolicyRead = ''citius:policy:read''"
definition PermPolicyWrite :: string where "PermPolicyWrite = ''citius:policy:write''"
definition PermDiscoveryRead :: string where "PermDiscoveryRead = ''citius:discovery:read''"
definition PermProviderRead :: string where "PermProviderRead = ''citius:provider:read''"
definition PermProviderWrite :: string where "PermProviderWrite = ''citius:provider:write''"

definition AllPermissions :: "string list" where
  "AllPermissions =
     [PermKeysCreate, PermKeysRotate, PermKeysUpdatePolicy, PermKeysRead,
      PermCryptoEncrypt, PermCryptoDecrypt, PermCryptoSign, PermCryptoVerify, PermCryptoMisc,
      PermPolicyRead, PermPolicyWrite, PermDiscoveryRead, PermProviderRead, PermProviderWrite]"

lemmas perm_defs = PermKeysCreate_def PermKeysRotate_def PermKeysUpdatePolicy_def PermKeysRead_def
  PermCryptoEncrypt_def PermCryptoDecrypt_def PermCryptoSign_def PermCryptoVerify_def PermCryptoMisc_def
  PermPolicyRead_def PermPolicyWrite_def PermDiscoveryRead_def PermProviderRead_def PermProviderWrite_def

definition methodPrefix :: string where "methodPrefix = ''/caas.crypto.v1.''"

text \<open>The fully qualified name of a method of a service.\<close>

definition serviceMethod :: "string \<Rightarrow> string \<Rightarrow> string" where
  "serviceMethod service m = methodPrefix @ service @ CHR ''/'' # m"

definition serviceMethods :: "(string \<times> string list) list" where
  "serviceMethods =
     [(''KeyManagementService'',
       [''CreateKey'', ''DeleteKey'', ''ImportKey'', ''RotateKey'', ''TransformKey'', ''UpdateKeyState'',
        ''MigrateKey'', ''UpdateKeyPolicy'', ''ReadKey'', ''ListKeys'', ''ValidateKeyOperation'',
        ''ExportKey'']),
      (''CryptoPolicyService'',
       [''CreateCryptoPolicy'', ''ReadCryptoPolicy'', ''DeleteCryptoPolicy'', ''UpdateCryptoPolicy'',
        ''ListCryptoPolicies'', ''EvaluatePolicy'', ''BatchEvaluatePolicy'']),
      (''CryptoService'',
       [''Encrypt'', ''Decrypt'', ''Sign'', ''Verify'', ''Digest'', ''Xof'', ''DigestSign'',
        ''DigestVerify'', ''GenerateRandom'', ''SeedRandom'', ''GenerateMAC'', ''VerifyMAC'']),
      (''StreamingCryptoService'',
       [''EncryptInit'', ''EncryptUpdate'', ''EncryptFinal'', ''EncryptMessage'', ''EncryptMessageInit'',
        ''EncryptMessageBegin'', ''EncryptMessageNext'', ''EncryptMessageFinal'', ''DecryptInit'',
        ''DecryptUpdate'', ''DecryptFinal'', ''DecryptMessage'', ''DecryptMessageInit'',
        ''DecryptMessageBegin'', ''DecryptMessageNext'', ''DecryptMessageFinal'', ''SignInit'',
        ''SignUpdate'', ''SignFinal'', ''SignMessage'', ''SignMessageInit'', ''SignMessageBegin'',
        ''SignMessageNext'', ''SignMessageFinal'', ''VerifyInit'', ''VerifyUpdate'', ''VerifyFinal'',
        ''VerifyMessage'', ''VerifyMessageInit'', ''VerifyMessageBegin'', ''VerifyMessageNext'',
        ''VerifyMessageFinal'', ''DigestInit'', ''DigestUpdate'', ''DigestFinal'', ''DigestKey'',
        ''GenerateMACInit'', ''GenerateMACUpdate'', ''GenerateMACFinal'', ''VerifyMACInit'',
        ''VerifyMACUpdate'', ''VerifyMACFinal'', ''XofInit'', ''XofUpdate'', ''XofFinal'',
        ''DigestEncryptUpdate'', ''DecryptDigestUpdate'', ''SignEncryptUpdate'', ''DecryptVerifyUpdate'',
        ''CancelOperation'']),
      (''KeyEstablishmentService'',
       [''WrapKey'', ''UnwrapKey'', ''DeriveKey'', ''KeyAgreement'', ''EncapsulateKey'', ''DecapsulateKey'']),
      (''AlgorithmDiscoveryService'',
       [''ListTemplates'', ''GetTemplate'', ''ListScopes'']),
      (''ProviderService'',
       [''ListProviders'', ''GetProvider'', ''MatchProviders'', ''ListProviderInstances'',
        ''GetProviderInstance'', ''RegisterProviderInstance'', ''UpdateProviderInstance'',
        ''DeleteProviderInstance''])]"

definition allMethods :: "string list" where
  "allMethods = concat (map (\<lambda>(s, ms). map (serviceMethod s) ms) serviceMethods)"

section \<open>Claims and policies\<close>

definition ClaimPermissions :: string where "ClaimPermissions = ''urn:citius:permissions''"
definition ClaimAllowedKeyPatterns :: string where "ClaimAllowedKeyPatterns = ''urn:citius:allowed_key_patterns''"
definition ClaimDenyKeyPatterns :: string where "ClaimDenyKeyPatterns = ''urn:citius:deny_key_patterns''"
definition ClaimAllowedPolicyPatterns :: string where "ClaimAllowedPolicyPatterns = ''urn:citius:allowed_policy_patterns''"
definition ClaimDenyPolicyPatterns :: string where "ClaimDenyPolicyPatterns = ''urn:citius:deny_policy_patterns''"

text \<open>
  What the sources use of zitadel-grpc-auth. \<open>'c\<close> is its type of claims; a request context
  carries claims or none.
\<close>

record 'c zauth =
  hasStringInSlice :: "'c \<Rightarrow> string \<Rightarrow> string \<Rightarrow> bool"
  stringSlice :: "'c \<Rightarrow> string \<Rightarrow> string list"
  authorizeGlobPatternStrict :: "string \<Rightarrow> string list \<Rightarrow> string list \<Rightarrow> error option"
  Forbidden :: "string \<Rightarrow> error"
  isForbidden :: "error \<Rightarrow> bool"
  isUnauthenticated :: "error \<Rightarrow> bool"
  errText :: "error \<Rightarrow> string"

text \<open>
  Strict glob authorization for a matcher \<open>glob\<close>: a name is allowed when a pattern of the
  allow-list matches it and none of the deny-list does, an empty allow-list denies, and denials
  are Forbidden errors.
\<close>

definition zauth_ok :: "'c zauth \<Rightarrow> (string \<Rightarrow> string \<Rightarrow> bool) \<Rightarrow> bool" where
  "zauth_ok Z glob \<longleftrightarrow> (\<forall>m. isForbidden Z (Forbidden Z m)) \<and>
     (\<forall>n allow deny. (authorizeGlobPatternStrict Z n allow deny = None) =
        ((\<exists>p \<in> set allow. glob p n) \<and> \<not> (\<exists>p \<in> set deny. glob p n))) \<and>
     (\<forall>n allow deny e. authorizeGlobPatternStrict Z n allow deny = Some e \<longrightarrow> isForbidden Z e)"

type_synonym 'c policy_func = "'c option \<Rightarrow> error option"

text \<open>\<open>%q\<close> of the permission: its characters need no escaping.\<close>

definition requirePerm :: "'c zauth \<Rightarrow> string \<Rightarrow> 'c policy_func" where
  "requirePerm Z p c =
     (case c of
        None \<Rightarrow> Some (Forbidden Z (''missing permission \"'' @ p @ ''\"''))
      | Some cl \<Rightarrow>
          if \<not> hasStringInSlice Z cl ClaimPermissions p
          then Some (Forbidden Z (''missing permission \"'' @ p @ ''\"'')) else None)"

text \<open>\<open>policyRegistry\<close>: each method with the permission its one policy function requires.\<close>

definition methodTable :: "(string \<times> string \<times> string) list" where
  "methodTable =
     [(''KeyManagementService'', ''CreateKey'', PermKeysCreate),
      (''KeyManagementService'', ''DeleteKey'', PermKeysCreate),
      (''KeyManagementService'', ''ImportKey'', PermKeysCreate),
      (''KeyManagementService'', ''RotateKey'', PermKeysRotate),
      (''KeyManagementService'', ''TransformKey'', PermKeysRotate),
      (''KeyManagementService'', ''UpdateKeyState'', PermKeysRotate),
      (''KeyManagementService'', ''MigrateKey'', PermKeysRotate),
      (''KeyManagementService'', ''UpdateKeyPolicy'', PermKeysUpdatePolicy),
      (''KeyManagementService'', ''ReadKey'', PermKeysRead),
      (''KeyManagementService'', ''ListKeys'', PermKeysRead),
      (''KeyManagementService'', ''ValidateKeyOperation'', PermKeysRead),
      (''KeyManagementService'', ''ExportKey'', PermKeysRead),
      (''CryptoPolicyService'', ''CreateCryptoPolicy'', PermPolicyWrite),
      (''CryptoPolicyService'', ''ReadCryptoPolicy'', PermPolicyRead),
      (''CryptoPolicyService'', ''DeleteCryptoPolicy'', PermPolicyWrite),
      (''CryptoPolicyService'', ''UpdateCryptoPolicy'', PermPolicyWrite),
      (''CryptoPolicyService'', ''ListCryptoPolicies'', PermPolicyRead),
      (''CryptoPolicyService'', ''EvaluatePolicy'', PermPolicyRead),
      (''CryptoPolicyService'', ''BatchEvaluatePolicy'', PermPolicyRead),
      (''CryptoService'', ''Encrypt'', PermCryptoEncrypt),
      (''StreamingCryptoService'', ''EncryptInit'', PermCryptoEncrypt),
      (''StreamingCryptoService'', ''EncryptUpdate'', PermCryptoEncrypt),
      (''StreamingCryptoService'', ''EncryptFinal'', PermCryptoEncrypt),
      (''StreamingCryptoService'', ''EncryptMessage'', PermCryptoEncrypt),
      (''StreamingCryptoService'', ''EncryptMessageInit'', PermCryptoEncrypt),
      (''StreamingCryptoService'', ''EncryptMessageBegin'', PermCryptoEncrypt),
      (''StreamingCryptoService'', ''EncryptMessageNext'', PermCryptoEncrypt),
      (''StreamingCryptoService'', ''EncryptMessageFinal'', PermCryptoEncrypt),
      (''CryptoService'', ''Decrypt'', PermCryptoDecrypt),
      (''StreamingCryptoService'', ''DecryptInit'', PermCryptoDecrypt),
      (''StreamingCryptoService'', ''DecryptUpdate'', PermCryptoDecrypt),
      (''StreamingCryptoService'', ''DecryptFinal'', PermCryptoDecrypt),
      (''StreamingCryptoService'', ''DecryptMessage'', PermCryptoDecrypt),
      (''StreamingCryptoService'', ''DecryptMessageInit'', PermCryptoDecrypt),
      (''StreamingCryptoService'', ''DecryptMessageBegin'', PermCryptoDecrypt),
      (''StreamingCryptoService'', ''DecryptMessageNext'', PermCryptoDecrypt),
      (''StreamingCryptoService'', ''DecryptMessageFinal'', PermCryptoDecrypt),
      (''CryptoService'', ''Sign'', PermCryptoSign),
      (''CryptoService'', ''DigestSign'', PermCryptoSign),
      (''StreamingCryptoService'', ''SignInit'', PermCryptoSign),
      (''StreamingCryptoService'', ''SignUpdate'', PermCryptoSign),
      (''StreamingCryptoService'', ''SignFinal'', PermCryptoSign),
      (''StreamingCryptoService'', ''SignMessage'', PermCryptoSign),
      (''StreamingCryptoService'', ''SignMessageInit'', PermCryptoSign),
      (''StreamingCryptoService'', ''SignMessageBegin'', PermCryptoSign),
      (''StreamingCryptoService'', ''SignMessageNext'', PermCryptoSign),
      (''StreamingCryptoService'', ''SignMessageFinal'', PermCryptoSign),
      (''CryptoService'', ''Verify'', PermCryptoVerify),
      (''CryptoService'', ''DigestVerify'', PermCryptoVerify),
      (''StreamingCryptoService'', ''VerifyInit'', PermCryptoVerify),
      (''StreamingCryptoService'', ''VerifyUpdate'', PermCryptoVerify),
      (''StreamingCryptoService'', ''VerifyFinal'', PermCryptoVerify),
      (''StreamingCryptoService'', ''VerifyMessage'', PermCryptoVerify),
      (''StreamingCryptoService'', ''VerifyMessageInit'', PermCryptoVerify),
      (''StreamingCryptoService'', ''VerifyMessageBegin'', PermCryptoVerify),
      (''StreamingCryptoService'', ''VerifyMessageNext'', PermCryptoVerify),
      (''StreamingCryptoService'', ''VerifyMessageFinal'', PermCryptoVerify),
      (''CryptoService'', ''Digest'', PermCryptoMisc),
      (''StreamingCryptoService'', ''DigestInit'', PermCryptoMisc),
      (''StreamingCryptoService'', ''DigestUpdate'', PermCryptoMisc),
      (''StreamingCryptoService'', ''DigestFinal'', PermCryptoMisc),
      (''StreamingCryptoService'', ''DigestKey'', PermCryptoMisc),
      (''CryptoService'', ''Xof'', PermCryptoMisc),
      (''StreamingCryptoService'', ''XofInit'', PermCryptoMisc),
      (''StreamingCryptoService'', ''XofUpdate'', PermCryptoMisc),
      (''StreamingCryptoService'', ''XofFinal'', PermCryptoMisc),
      (''StreamingCryptoService'', ''DigestEncryptUpdate'', PermCryptoMisc),
      (''StreamingCryptoService'', ''DecryptDigestUpdate'', PermCryptoMisc),
      (''StreamingCryptoService'', ''SignEncryptUpdate'', PermCryptoMisc),
      (''StreamingCryptoService'', ''DecryptVerifyUpdate'', PermCryptoMisc),
      (''CryptoService'', ''GenerateRandom'', PermCryptoMisc),
      (''CryptoService'', ''SeedRandom'', PermCryptoMisc),
      (''CryptoService'', ''GenerateMAC'', PermCryptoMisc),
      (''CryptoService'', ''VerifyMAC'', PermCryptoMisc),
      (''StreamingCryptoService'', ''GenerateMACInit'', PermCryptoMisc),
      (''StreamingCryptoService'', ''GenerateMACUpdate'', PermCryptoMisc),
      (''StreamingCryptoService'', ''GenerateMACFinal'', PermCryptoMisc),
      (''StreamingCryptoService'', ''VerifyMACInit'', PermCryptoMisc),
      (''StreamingCryptoService'', ''VerifyMACUpdate'', PermCryptoMisc),
      (''StreamingCryptoService'', ''VerifyMACFinal'', PermCryptoMisc),
      (''StreamingCryptoService'', ''CancelOperation'', PermCryptoMisc),
      (''KeyEstablishmentService'', ''WrapKey'', PermCryptoMisc),
      (''KeyEstablishmentService'', ''UnwrapKey'', PermCryptoMisc),
      (''KeyEstablishmentService'', ''DeriveKey'', PermCryptoMisc),
      (''KeyEstablishmentService'', ''KeyAgreement'', PermCryptoMisc),
      (''KeyEstablishmentService'', ''EncapsulateKey'', PermCryptoMisc),
      (''KeyEstablishmentService'', ''DecapsulateKey'', PermCryptoMisc),
      (''AlgorithmDiscoveryService'', ''ListTemplates'', PermDiscoveryRead),
      (''AlgorithmDiscoveryService'', ''GetTemplate'', PermDiscoveryRead),
      (''AlgorithmDiscoveryService'', ''ListScopes'', PermDiscoveryRead),
      (''ProviderService'', ''ListProviders'', PermProviderRead),
      (''ProviderService'', ''GetProvider'', PermProviderRead),
      (''ProviderService'', ''MatchProviders'', PermProviderRead),
      (''ProviderService'', ''ListProviderInstances'', PermProviderRead),
      (''ProviderService'', ''GetProviderInstance'', PermProviderRead),
      (''ProviderService'', ''RegisterProviderInstance'', PermProviderWrite),
      (''ProviderService'', ''UpdateProviderInstance'', PermProviderWrite),
      (''ProviderService'', ''DeleteProviderInstance'', PermProviderWrite)]"

definition methodPermissions :: "(string \<times> string) list" where
  "methodPermissions = map (\<lambda>(s, m, p). (serviceMethod s m, p)) methodTable"

definition policyRegistry :: "'c zauth \<Rightarrow> (string \<times> 'c policy_func list) list" where
  "policyRegistry Z = map (\<lambda>(m, p). (m, [requirePerm Z p])) methodPermissions"

definition RegisteredMethods :: "'c zauth \<Rightarrow> string list" where
  "RegisteredMethods Z = map fst (policyRegistry Z)"

section \<open>Resource scoping\<close>

text \<open>The flag \<open>authEnabled\<close> that \<open>Build\<close> sets is an argument.\<close>

definition AuthorizeKey :: "'c zauth \<Rightarrow> bool \<Rightarrow> 'c option \<Rightarrow> string \<Rightarrow> error option" where
  "AuthorizeKey Z authEnabled ctx name =
     (if \<not> authEnabled then None
      else case ctx of
        None \<Rightarrow> Some (Forbidden Z ''no claims in context'')
      | Some c \<Rightarrow> authorizeGlobPatternStrict Z name
          (stringSlice Z c ClaimAllowedKeyPatterns) (stringSlice Z c ClaimDenyKeyPatterns))"

definition AuthorizePolicy :: "'c zauth \<Rightarrow> bool \<Rightarrow> 'c option \<Rightarrow> string \<Rightarrow> error option" where
  "AuthorizePolicy Z authEnabled ctx name =
     (if \<not> authEnabled then None
      else case ctx of
        None \<Rightarrow> Some (Forbidden Z ''no claims in context'')
      | Some c \<Rightarrow> authorizeGlobPatternStrict Z name
          (stringSlice Z c ClaimAllowedPolicyPatterns) (stringSlice Z c ClaimDenyPolicyPatterns))"

definition IsForbidden :: "'c zauth \<Rightarrow> error \<Rightarrow> bool" where
  "IsForbidden Z e = isForbidden Z e"

definition IsUnauthenticated :: "'c zauth \<Rightarrow> error \<Rightarrow> bool" where
  "IsUnauthenticated Z e = isUnauthenticated Z e"

definition translate :: "'c zauth \<Rightarrow> string \<Rightarrow> error option \<Rightarrow> error option" where
  "translate Z opn err =
     (case err of
        None \<Rightarrow> None
      | Some e \<Rightarrow>
          if IsForbidden Z e then Some (ErrNew opn CodePolicyViolation (errText Z e))
          else if IsUnauthenticated Z e then Some (ErrNew opn CodeUnauthenticated (errText Z e))
          else Some (ErrWrap opn None e))"

definition AuthorizeKeyName :: "'c zauth \<Rightarrow> bool \<Rightarrow> 'c option \<Rightarrow> string \<Rightarrow> string \<Rightarrow> error option" where
  "AuthorizeKeyName Z authEnabled ctx opn name = translate Z opn (AuthorizeKey Z authEnabled ctx name)"

definition AuthorizePolicyName :: "'c zauth \<Rightarrow> bool \<Rightarrow> 'c option \<Rightarrow> string \<Rightarrow> string \<Rightarrow> error option" where
  "AuthorizePolicyName Z authEnabled ctx opn name = translate Z opn (AuthorizePolicy Z authEnabled ctx name)"

section \<open>Configuration\<close>

text \<open>
  \<open>time.Duration\<close> is a 64-bit count of nanoseconds; its product with \<open>time.Second\<close> wraps.
  \<open>getenv\<close> is the process environment, the empty string for a variable that is not set;
  \<open>quote\<close> is \<open>strconv.Quote\<close>.
\<close>

record config =
  Enabled :: bool
  Issuer :: string
  IntrospectClientID :: string
  IntrospectSecret :: string
  Insecure :: bool
  CacheTTL :: "64 word"
  CacheMaxEntries :: int
  ExpectedAudience :: "string list"
  PublicMethods :: "string list"
  AllowUnauthenticatedReflection :: bool

definition time_Second :: "64 word" where "time_Second = 1000000000"
definition defaultCacheTTL :: "64 word" where "defaultCacheTTL = 30 * time_Second"
definition defaultCacheMaxEntries :: int where "defaultCacheMaxEntries = 10000"

fun split_on :: "char \<Rightarrow> string \<Rightarrow> string list" where
  "split_on c [] = [[]]"
| "split_on c (d # ds) =
     (if d = c then [] # split_on c ds
      else case split_on c ds of [] \<Rightarrow> [[d]] | w # ws \<Rightarrow> (d # w) # ws)"

text \<open>The UTF-8 encodings of the characters \<open>unicode.IsSpace\<close> accepts.\<close>

definition go_spaces :: "string list" where
  "go_spaces =
     [[CHR 0x09], [CHR 0x0A], [CHR 0x0B], [CHR 0x0C], [CHR 0x0D], [CHR 0x20], [CHR 0xC2, CHR 0x85],
      [CHR 0xC2, CHR 0xA0], [CHR 0xE1, CHR 0x9A, CHR 0x80], [CHR 0xE2, CHR 0x80, CHR 0x80],
      [CHR 0xE2, CHR 0x80, CHR 0x81], [CHR 0xE2, CHR 0x80, CHR 0x82], [CHR 0xE2, CHR 0x80, CHR 0x83],
      [CHR 0xE2, CHR 0x80, CHR 0x84], [CHR 0xE2, CHR 0x80, CHR 0x85], [CHR 0xE2, CHR 0x80, CHR 0x86],
      [CHR 0xE2, CHR 0x80, CHR 0x87], [CHR 0xE2, CHR 0x80, CHR 0x88], [CHR 0xE2, CHR 0x80, CHR 0x89],
      [CHR 0xE2, CHR 0x80, CHR 0x8A], [CHR 0xE2, CHR 0x80, CHR 0xA8], [CHR 0xE2, CHR 0x80, CHR 0xA9],
      [CHR 0xE2, CHR 0x80, CHR 0xAF], [CHR 0xE2, CHR 0x81, CHR 0x9F], [CHR 0xE3, CHR 0x80, CHR 0x80]]"

fun first_rest :: "string list \<Rightarrow> string \<Rightarrow> string option" where
  "first_rest [] s = None"
| "first_rest (p # ps) s = (case strip_prefix p s of None \<Rightarrow> first_rest ps s | Some r \<Rightarrow> Some r)"

lemma strip_prefix_length: "strip_prefix p s = Some r \<Longrightarrow> p \<noteq> [] \<Longrightarrow> length r < length s"
  by (auto simp: strip_prefix_Some)

lemma first_rest_length: "first_rest ps s = Some r \<Longrightarrow> [] \<notin> set ps \<Longrightarrow> length r < length s"
  by (induction ps) (auto split: option.splits dest: strip_prefix_length)

lemma go_spaces_not_Nil: "[] \<notin> set go_spaces" "[] \<notin> set (map rev go_spaces)"
  by (simp_all add: go_spaces_def)

function trimPrefixes :: "string list \<Rightarrow> string \<Rightarrow> string" where
  "trimPrefixes ps s =
     (if [] \<in> set ps then s
      else case first_rest ps s of None \<Rightarrow> s | Some r \<Rightarrow> trimPrefixes ps r)"
  by auto
termination
  by (relation "measure (\<lambda>(ps, s). length s)") (auto dest: first_rest_length)

declare trimPrefixes.simps [simp del]

definition TrimSpace :: "string \<Rightarrow> string" where
  "TrimSpace s = rev (trimPrefixes (map rev go_spaces) (rev (trimPrefixes go_spaces s)))"

definition splitCSV :: "string \<Rightarrow> string list" where
  "splitCSV s = filter (\<lambda>t. t \<noteq> []) (map TrimSpace (split_on (CHR '','') s))"

definition AtoiError :: "(string \<Rightarrow> string) \<Rightarrow> string \<Rightarrow> string" where
  "AtoiError quote v =
     (let digits = (case v of [] \<Rightarrow> [] | c # cs \<Rightarrow> if c = CHR ''-'' \<or> c = CHR ''+'' then cs else v)
      in ''strconv.Atoi: parsing '' @ quote v @
         (if digits \<noteq> [] \<and> list_all is_digit digits then '': value out of range'' else '': invalid syntax''))"

text \<open>One of the two integer variables: absent, an error, or its value.\<close>

definition intSetting ::
  "(string \<Rightarrow> string) \<Rightarrow> (string \<Rightarrow> string) \<Rightarrow> string \<Rightarrow> int option result" where
  "intSetting quote getenv var =
     (let v = getenv var in
      if v = [] then Inr None
      else case Atoi v of
        None \<Rightarrow> Inl (ErrNew ''auth.LoadFromEnv'' CodeInvalidArgument
                  (''parse '' @ var @ ''='' @ quote v @ '': '' @ AtoiError quote v))
      | Some n \<Rightarrow>
          if n < 0 then Inl (ErrNew ''auth.LoadFromEnv'' CodeInvalidArgument
                         (var @ '' must be >= 0, got '' @ Itoa n))
          else Inr (Some n))"

definition LoadFromEnv :: "(string \<Rightarrow> string) \<Rightarrow> (string \<Rightarrow> string) \<Rightarrow> config result" where
  "LoadFromEnv quote getenv =
     (let cfg = \<lparr>Enabled = (getenv ''AUTH_ENABLED'' = ''true''), Issuer = getenv ''ZITADEL_ISSUER'',
                 IntrospectClientID = getenv ''INTROSPECT_ID'', IntrospectSecret = getenv ''INTROSPECT_SECRET'',
                 Insecure = (getenv ''ZITADEL_INSECURE'' = ''true''), CacheTTL = defaultCacheTTL,
                 CacheMaxEntries = defaultCacheMaxEntries, ExpectedAudience = [], PublicMethods = [],
                 AllowUnauthenticatedReflection = False\<rparr>
      in case intSetting quote getenv ''CACHE_TTL_SECONDS'' of
           Inl e \<Rightarrow> Inl e
         | Inr ttl \<Rightarrow>
             let cfg1 = (case ttl of None \<Rightarrow> cfg | Some n \<Rightarrow> cfg\<lparr>CacheTTL := of_int n * time_Second\<rparr>)
             in case intSetting quote getenv ''CACHE_MAX_ENTRIES'' of
                  Inl e \<Rightarrow> Inl e
                | Inr mx \<Rightarrow>
                    let cfg2 = (case mx of None \<Rightarrow> cfg1 | Some n \<Rightarrow> cfg1\<lparr>CacheMaxEntries := n\<rparr>);
                        aud = getenv ''EXPECTED_AUDIENCE'';
                        cfg3 = (if aud \<noteq> [] then cfg2\<lparr>ExpectedAudience := splitCSV aud\<rparr> else cfg2)
                    in if Enabled cfg3 \<and>
                          (Issuer cfg3 = [] \<or> IntrospectClientID cfg3 = [] \<or> IntrospectSecret cfg3 = [])
                       then Inl (ErrNew ''auth.LoadFromEnv'' CodeInvalidArgument
                              ''AUTH_ENABLED=true requires ZITADEL_ISSUER, INTROSPECT_ID and INTROSPECT_SECRET to be set'')
                       else Inr cfg3)"

text \<open>
  \<open>Build\<close>: the value of the flag \<open>authEnabled\<close> and the configuration it hands to the
  interceptors of zitadel-grpc-auth.
\<close>

record 'c server_config =
  RequireAuth :: bool
  sIssuer :: string
  IntrospectionClientID :: string
  IntrospectionClientSecret :: string
  sInsecure :: bool
  sCacheTTL :: "64 word"
  sCacheMaxEntries :: int
  sExpectedIssuer :: string
  sExpectedAudience :: "string list"
  sPublicMethods :: "string list"
  sAllowUnauthenticatedReflection :: bool
  Policies :: "(string \<times> 'c policy_func list) list"

definition Build :: "'c zauth \<Rightarrow> config \<Rightarrow> bool \<times> 'c server_config" where
  "Build Z cfg =
     (Enabled cfg,
      \<lparr>RequireAuth = Enabled cfg, sIssuer = Issuer cfg, IntrospectionClientID = IntrospectClientID cfg,
       IntrospectionClientSecret = IntrospectSecret cfg, sInsecure = Insecure cfg, sCacheTTL = CacheTTL cfg,
       sCacheMaxEntries = CacheMaxEntries cfg, sExpectedIssuer = Issuer cfg,
       sExpectedAudience = ExpectedAudience cfg, sPublicMethods = PublicMethods cfg,
       sAllowUnauthenticatedReflection = AllowUnauthenticatedReflection cfg, Policies = policyRegistry Z\<rparr>)"

end
