(* ===== verification/Auth_Properties.thy ===== *)
theory Auth_Properties
  imports Auth
begin

text \<open>
  The properties of authorization and of its configuration, and the interface \<open>name_gate\<close> the
  handlers see of a per-resource check.
\<close>

section \<open>The gate of a resource\<close>

text \<open>
  What a handler relies on of the check it is given: a permitted name passes, any other name
  is refused with a domain error that maps to PermissionDenied or Unauthenticated.
\<close>

locale name_gate =
  fixes check :: "'ctx \<Rightarrow> string \<Rightarrow> string \<Rightarrow> error option"
    and permitted :: "'ctx \<Rightarrow> string \<Rightarrow> bool"
    and P :: errors_pkg
    and sound :: bool
  assumes passes: "sound \<Longrightarrow> permitted ctx n \<Longrightarrow> check ctx opn n = None"
    and refuses: "sound \<Longrightarrow> \<not> permitted ctx n \<Longrightarrow>
      \<exists>e m. check ctx opn n = Some e \<and> asDomain P e = Some m \<and> grpcCodeOf P e \<in> {GPermissionDenied, GUnauthenticated}"
begin

lemma check_iff: "sound \<Longrightarrow> check ctx opn n = None \<longleftrightarrow> permitted ctx n"
  using passes refuses by (metis option.distinct(1))

lemma refusal_status:
  assumes "sound" "\<not> permitted ctx n"
  shows "\<exists>c m. ToStatusError P (check ctx opn n) = Some (c, m) \<and> c \<in> {GPermissionDenied, GUnauthenticated}"
  using refuses [OF assms, of opn] by (auto simp: ToStatusError_def)

end

text \<open>Who may use a name, for the claims of a request and a glob matcher.\<close>

definition scope_allows ::
  "'c zauth \<Rightarrow> (string \<Rightarrow> string \<Rightarrow> bool) \<Rightarrow> string \<Rightarrow> string \<Rightarrow> bool \<Rightarrow> 'c option \<Rightarrow> string \<Rightarrow> bool" where
  "scope_allows Z glob allowClaim denyClaim enabled ctx n \<longleftrightarrow> \<not> enabled \<or>
     (\<exists>c. ctx = Some c \<and> (\<exists>p \<in> set (stringSlice Z c allowClaim). glob p n) \<and>
          \<not> (\<exists>p \<in> set (stringSlice Z c denyClaim). glob p n))"

lemma zauth_okD:
  assumes "zauth_ok Z glob"
  shows "isForbidden Z (Forbidden Z m)"
    and "authorizeGlobPatternStrict Z n allow deny = None \<longleftrightarrow>
      (\<exists>p \<in> set allow. glob p n) \<and> \<not> (\<exists>p \<in> set deny. glob p n)"
    and "authorizeGlobPatternStrict Z n allow deny = Some e \<Longrightarrow> isForbidden Z e"
  using assms by (simp_all add: zauth_ok_def)

lemma zauth_denies:
  assumes "zauth_ok Z glob" "authorizeGlobPatternStrict Z n allow deny = Some e" "p \<in> set allow" "glob p n"
  shows "\<exists>q \<in> set deny. glob q n"
  using zauth_okD(2) [OF assms(1), of n allow deny] assms by auto

interpretation key_gate: name_gate "\<lambda>(enabled, ctx) opn n. AuthorizeKeyName Z enabled ctx opn n"
    "\<lambda>(enabled, ctx) n. scope_allows Z glob ClaimAllowedKeyPatterns ClaimDenyKeyPatterns enabled ctx n"
    P "zauth_ok Z glob \<and> errors_pkg_ok P"
  for Z :: "'c zauth" and glob P
  by unfold_locales
    (auto simp: AuthorizeKeyName_def AuthorizeKey_def translate_def scope_allows_def IsForbidden_def
       zauth_okD errors_pkg_okD split: option.splits if_splits, (meson zauth_denies)+)

interpretation policy_gate: name_gate "\<lambda>(enabled, ctx) opn n. AuthorizePolicyName Z enabled ctx opn n"
    "\<lambda>(enabled, ctx) n. scope_allows Z glob ClaimAllowedPolicyPatterns ClaimDenyPolicyPatterns enabled ctx n"
    P "zauth_ok Z glob \<and> errors_pkg_ok P"
  for Z :: "'c zauth" and glob P
  by unfold_locales
    (auto simp: AuthorizePolicyName_def AuthorizePolicy_def translate_def scope_allows_def IsForbidden_def
       zauth_okD errors_pkg_okD split: option.splits if_splits, (meson zauth_denies)+)

section \<open>Lemmas on the registry\<close>

lemma serviceMethod_inject:
  assumes "serviceMethod s m = serviceMethod s' m'" "CHR ''/'' \<notin> set m" "CHR ''/'' \<notin> set m'"
  shows "m = m'"
  using split_last_sep [of s "CHR ''/''" m s' m'] assms by (simp add: serviceMethod_def)

lemma methodTable_names:
  "distinct (map (\<lambda>(s, m, p). m) methodTable)"
  "list_all (\<lambda>(s, m, p). CHR ''/'' \<notin> set m) methodTable"
  "list_all (\<lambda>(s, m, p). case map_of serviceMethods s of None \<Rightarrow> False | Some ms \<Rightarrow> m \<in> set ms) methodTable"
  "length methodTable = length allMethods"
  by code_simp+

lemma registered_names:
  "distinct (map fst methodPermissions) \<and> set (map fst methodPermissions) = set allMethods"
proof -
  have f: "map fst methodPermissions = map (\<lambda>(s, m, p). serviceMethod s m) methodTable"
    by (simp add: methodPermissions_def case_prod_unfold)
  have inj: "inj_on (\<lambda>(s, m, p). serviceMethod s m) (set methodTable)"
  proof (rule inj_onI)
    fix x y assume xy: "x \<in> set methodTable" "y \<in> set methodTable"
      "(case x of (s, m, p) \<Rightarrow> serviceMethod s m) = (case y of (s, m, p) \<Rightarrow> serviceMethod s m)"
    then have "fst (snd x) = fst (snd y)"
      using serviceMethod_inject methodTable_names(2) by (fastforce simp: list_all_iff case_prod_unfold)
    with xy methodTable_names(1) show "x = y" by (auto simp: distinct_map case_prod_unfold inj_on_def)
  qed
  have d: "distinct (map fst methodPermissions)"
    unfolding f distinct_map using methodTable_names(1) inj by (simp add: distinct_map)
  have "set (map fst methodPermissions) \<subseteq> set allMethods"
  proof
    fix x assume "x \<in> set (map fst methodPermissions)"
    then obtain s m p where t: "(s, m, p) \<in> set methodTable" "x = serviceMethod s m" by (auto simp: f)
    with methodTable_names(3) obtain ms where "map_of serviceMethods s = Some ms" "m \<in> set ms"
      by (auto simp: list_all_iff split: option.splits)
    then show "x \<in> set allMethods" using t(2) map_of_SomeD [of serviceMethods s ms]
      by (auto simp: allMethods_def)
  qed
  moreover have "card (set (map fst methodPermissions)) \<ge> card (set allMethods)"
    using distinct_card [OF d] card_length [of allMethods] methodTable_names(4)
    by (simp add: methodPermissions_def)
  ultimately show ?thesis using d card_seteq [OF finite_set] by metis
qed

section \<open>Properties\<close>

text \<open>An instance of zitadel-grpc-auth for the examples: claims are association lists and a
  pattern matches itself, or any name when it is a star.\<close>

definition demo_glob :: "string \<Rightarrow> string \<Rightarrow> bool" where
  "demo_glob p n \<longleftrightarrow> p = ''*'' \<or> p = n"

definition demo_zauth :: "(string \<times> string list) list zauth" where
  "demo_zauth =
     \<lparr>hasStringInSlice = (\<lambda>c k v. case map_of c k of None \<Rightarrow> False | Some vs \<Rightarrow> v \<in> set vs),
      stringSlice = (\<lambda>c k. case map_of c k of None \<Rightarrow> [] | Some vs \<Rightarrow> vs),
      authorizeGlobPatternStrict = (\<lambda>n allow deny.
        if list_ex (\<lambda>p. demo_glob p n) allow \<and> \<not> list_ex (\<lambda>p. demo_glob p n) deny then None
        else Some (ErrPlain ''forbidden'')),
      Forbidden = ErrPlain, isForbidden = (\<lambda>_. True), isUnauthenticated = (\<lambda>_. False),
      errText = (\<lambda>e. case e of ErrPlain m \<Rightarrow> m | _ \<Rightarrow> [])\<rparr>"

lemma demo_zauth_ok [simp]: "zauth_ok demo_zauth demo_glob"
  by (auto simp: zauth_ok_def demo_zauth_def list_ex_iff)

text \<open>
  C6: With authorization enabled, a request may act on a key exactly when its claims are present,
  allow the name and do not deny it; every other request gets PermissionDenied, whatever
  credentials it carries. Without authorization every name passes.
\<close>

theorem AuthorizeKeyName_decides:
  assumes "zauth_ok Z glob" "errors_pkg_ok P"
  shows "(AuthorizeKeyName Z enabled ctx opn n = None \<longleftrightarrow> \<not> enabled \<or>
      (\<exists>c. ctx = Some c \<and> (\<exists>p \<in> set (stringSlice Z c ClaimAllowedKeyPatterns). glob p n) \<and>
          (\<forall>p \<in> set (stringSlice Z c ClaimDenyKeyPatterns). \<not> glob p n))) \<and>
    (AuthorizeKeyName Z enabled ctx opn n \<noteq> None \<longrightarrow>
      (\<exists>m. ToStatusError P (AuthorizeKeyName Z enabled ctx opn n) = Some (GPermissionDenied, m)))"
proof -
  have "AuthorizeKeyName Z enabled ctx opn n = None \<longleftrightarrow>
      scope_allows Z glob ClaimAllowedKeyPatterns ClaimDenyKeyPatterns enabled ctx n"
    using key_gate.check_iff [of Z glob P "(enabled, ctx)" opn n] assms by simp
  moreover have "\<exists>m. ToStatusError P (AuthorizeKeyName Z enabled ctx opn n) = Some (GPermissionDenied, m)"
    if "AuthorizeKeyName Z enabled ctx opn n \<noteq> None"
    using that assms
    by (auto simp: AuthorizeKeyName_def AuthorizeKey_def translate_def IsForbidden_def ToStatusError_def
        zauth_okD errors_pkg_okD split: option.splits if_splits)
  ultimately show ?thesis by (auto simp: scope_allows_def)
qed

theorem AuthorizeKeyName_decides_witness:
  "let c = [(ClaimAllowedKeyPatterns, [''*'']), (ClaimDenyKeyPatterns, [''prod''])]
   in AuthorizeKeyName demo_zauth True (Some c) ''op'' ''dev'' = None \<and>
      ToStatusError ref_errors (AuthorizeKeyName demo_zauth True (Some c) ''op'' ''prod'') =
        Some (GPermissionDenied, ''forbidden'') \<and>
      AuthorizeKeyName demo_zauth True None ''op'' ''dev'' \<noteq> None"
proof -
  let ?c = "[(ClaimAllowedKeyPatterns, [''*'']), (ClaimDenyKeyPatterns, [''prod''])]"
  note d = AuthorizeKeyName_decides [OF demo_zauth_ok ref_errors_ok, of True]
  have cl: "stringSlice demo_zauth ?c ClaimAllowedKeyPatterns = [''*'']"
    "stringSlice demo_zauth ?c ClaimDenyKeyPatterns = [''prod'']"
    by (simp_all add: demo_zauth_def ClaimAllowedKeyPatterns_def ClaimDenyKeyPatterns_def)
  have "AuthorizeKeyName demo_zauth True (Some ?c) ''op'' ''dev'' = None"
    using d [of "Some ?c" "''op''" "''dev''"] cl by (simp add: demo_glob_def)
  moreover have "AuthorizeKeyName demo_zauth True None ''op'' ''dev'' \<noteq> None"
    using d [of None "''op''" "''dev''"] by simp
  moreover have "ToStatusError ref_errors (AuthorizeKeyName demo_zauth True (Some ?c) ''op'' ''prod'') =
        Some (GPermissionDenied, ''forbidden'')" by code_simp
  ultimately show ?thesis by (simp only: Let_def) simp
qed

text \<open>
  C27: Every method the server declares has exactly one entry in the policy registry, each entry
  requires one of the declared permissions, and none lets a request without claims through.
\<close>

theorem policyRegistry_complete:
  "distinct (RegisteredMethods Z) \<and> set (RegisteredMethods Z) = set allMethods \<and>
   list_all (\<lambda>(m, fs). list_ex (\<lambda>p. fs = [requirePerm Z p]) AllPermissions \<and>
     fs \<noteq> [] \<and> list_all (\<lambda>f. f None \<noteq> None) fs) (policyRegistry Z)"
proof -
  have "list_all (\<lambda>(s, m, p). p \<in> set AllPermissions) methodTable" by code_simp
  then have "list_all (\<lambda>(m, p). p \<in> set AllPermissions) methodPermissions"
    by (auto simp: methodPermissions_def list_all_iff)
  then show ?thesis using registered_names
    by (auto simp: RegisteredMethods_def policyRegistry_def list_all_iff list_ex_iff requirePerm_def
        comp_def case_prod_unfold image_image)
qed

end
