(* ===== verification/Auth_Config_Properties.thy ===== *)
theory Auth_Config_Properties
  imports Auth
begin

text \<open>
  The properties of the authentication configuration read from the environment.
\<close>

section \<open>Lemmas\<close>

lemma intSetting_range: "intSetting q g v = Inr (Some n) \<Longrightarrow> 0 \<le> n \<and> n < 2 ^ 63"
  by (auto simp: intSetting_def Let_def in_int64_def dest!: Atoi_range split: if_splits option.splits)

lemma seconds_exact:
  assumes "0 \<le> n" "n \<le> 9223372036"
  shows "sint (of_int n * time_Second) = n * 1000000000"
proof -
  have "of_int n * time_Second = word_of_int (n * 1000000000)" by (simp add: time_Second_def)
  then have "sint (of_int n * time_Second) = signed_take_bit 63 (n * 1000000000)"
    by (simp only: sint_sbintrunc') simp
  also have "\<dots> = n * 1000000000" by (rule signed_take_bit_int_eq_self) (use assms in auto)
  finally show ?thesis .
qed

lemma set_split_on: "w \<in> set (split_on c s) \<Longrightarrow> c \<notin> set w \<and> set w \<subseteq> set s"
proof (induction s arbitrary: w)
  case (Cons d ds)
  have IH: "\<And>w. w \<in> set (split_on c ds) \<Longrightarrow> c \<notin> set w \<and> set w \<subseteq> set ds" by fact
  show ?case
  proof (cases "split_on c ds")
    case (Cons a list)
    then show ?thesis using IH [of a] IH [of w] \<open>w \<in> set (split_on c (d # ds))\<close>
      by (auto split: if_splits)
  qed (use \<open>w \<in> set (split_on c (d # ds))\<close> in \<open>auto split: if_splits\<close>)
qed simp

lemma first_rest_suffix: "first_rest ps s = Some r \<Longrightarrow> \<exists>p \<in> set ps. s = p @ r"
  by (induction ps) (auto split: option.splits)

lemma first_rest_None: "first_rest ps s = None \<longleftrightarrow> (\<forall>p \<in> set ps. \<forall>r. s \<noteq> p @ r)"
proof (induction ps)
  case (Cons p ps)
  show ?case
  proof (cases "strip_prefix p s")
    case None
    then have "\<forall>r. s \<noteq> p @ r" by (metis option.distinct(1) strip_prefix_Some)
    with None Cons show ?thesis by simp
  next
    case (Some r)
    then have "s = p @ r" by simp
    then show ?thesis using Some by (simp del: strip_prefix_Some)
  qed
qed simp

lemma trimPrefixes_props:
  assumes "[] \<notin> set ps"
  shows "first_rest ps (trimPrefixes ps s) = None \<and> (\<exists>u. s = u @ trimPrefixes ps s)"
  using assms
proof (induction ps s rule: trimPrefixes.induct)
  case (1 ps s)
  show ?case
  proof (cases "first_rest ps s")
    case None
    then show ?thesis using 1(2) by (subst (1 2) trimPrefixes.simps) simp
  next
    case (Some r)
    then have eq: "trimPrefixes ps s = trimPrefixes ps r" using 1(2) by (subst trimPrefixes.simps) simp
    from 1(1) [OF 1(2) Some 1(2)] first_rest_suffix [OF Some] show ?thesis unfolding eq by (metis append.assoc)
  qed
qed

lemma trimPrefixes_id: "first_rest ps s = None \<Longrightarrow> trimPrefixes ps s = s"
  by (subst trimPrefixes.simps) simp

lemma first_rest_prefix: "first_rest ps (a @ b) = None \<Longrightarrow> first_rest ps a = None"
  unfolding first_rest_None by (metis append.assoc)

lemma TrimSpace_props: "TrimSpace (TrimSpace s) = TrimSpace s" "set (TrimSpace s) \<subseteq> set s"
proof -
  let ?l = "trimPrefixes go_spaces" and ?r = "trimPrefixes (map rev go_spaces)"
  from trimPrefixes_props [OF go_spaces_not_Nil(1), of s] obtain u where
    l: "first_rest go_spaces (?l s) = None" "s = u @ ?l s" by blast
  from trimPrefixes_props [OF go_spaces_not_Nil(2), of "rev (?l s)"] obtain v where
    r: "first_rest (map rev go_spaces) (?r (rev (?l s))) = None" "rev (?l s) = v @ ?r (rev (?l s))" by blast
  have ls: "?l s = TrimSpace s @ rev v" using arg_cong [OF r(2), of rev] by (simp add: TrimSpace_def)
  have "first_rest go_spaces (TrimSpace s) = None" using l(1) ls first_rest_prefix by metis
  then have "?l (TrimSpace s) = TrimSpace s" by (rule trimPrefixes_id)
  moreover have "?r (rev (TrimSpace s)) = rev (TrimSpace s)"
    using trimPrefixes_id [OF r(1)] by (simp add: TrimSpace_def)
  ultimately show "TrimSpace (TrimSpace s) = TrimSpace s" by (simp add: TrimSpace_def [of "TrimSpace s"])
  show "set (TrimSpace s) \<subseteq> set s" using l(2) ls by (metis Un_iff set_append subsetI)
qed

lemma splitCSV_entries:
  assumes "w \<in> set (splitCSV s)"
  shows "w \<noteq> [] \<and> CHR '','' \<notin> set w \<and> TrimSpace w = w"
proof -
  from assms obtain x where "x \<in> set (split_on (CHR '','') s)" "w = TrimSpace x" "w \<noteq> []"
    by (auto simp: splitCSV_def)
  then show ?thesis using set_split_on TrimSpace_props by blast
qed

text \<open>A usable value of an integer variable: absent, or a number that is not negative.\<close>

definition usable :: "string \<Rightarrow> bool" where
  "usable v \<longleftrightarrow> v = [] \<or> (case Atoi v of None \<Rightarrow> False | Some n \<Rightarrow> 0 \<le> n)"

lemma intSetting_usable: "usable (getenv v) \<Longrightarrow> intSetting quote getenv v = Inr (if getenv v = [] then None else Some (the (Atoi (getenv v))))"
  by (auto simp: intSetting_def usable_def Let_def split: option.splits)

lemma intSetting_unusable:
  "\<not> usable (getenv v) \<Longrightarrow> \<exists>msg. intSetting quote getenv v = Inl (ErrNew ''auth.LoadFromEnv'' CodeInvalidArgument msg)"
  by (auto simp: intSetting_def usable_def Let_def split: option.splits)

definition complete :: "(string \<Rightarrow> string) \<Rightarrow> bool" where
  "complete getenv \<longleftrightarrow> (getenv ''AUTH_ENABLED'' = ''true'' \<longrightarrow>
     getenv ''ZITADEL_ISSUER'' \<noteq> [] \<and> getenv ''INTROSPECT_ID'' \<noteq> [] \<and> getenv ''INTROSPECT_SECRET'' \<noteq> [])"

lemma LoadFromEnv_refused:
  assumes "\<not> (usable (getenv ''CACHE_TTL_SECONDS'') \<and> usable (getenv ''CACHE_MAX_ENTRIES'') \<and> complete getenv)"
  shows "\<exists>msg. LoadFromEnv quote getenv = Inl (ErrNew ''auth.LoadFromEnv'' CodeInvalidArgument msg)"
proof (cases "usable (getenv ''CACHE_TTL_SECONDS'')")
  case False
  from intSetting_unusable [of getenv, OF this, of quote] show ?thesis by (auto simp: LoadFromEnv_def Let_def)
next
  case ttl: True
  show ?thesis
  proof (cases "usable (getenv ''CACHE_MAX_ENTRIES'')")
    case False
    from intSetting_unusable [of getenv, OF this, of quote] show ?thesis
      by (auto simp: LoadFromEnv_def Let_def intSetting_usable [of getenv, OF ttl])
  next
    case True
    with assms ttl have "\<not> complete getenv" by simp
    then show ?thesis
      by (auto simp: LoadFromEnv_def Let_def complete_def intSetting_usable [of getenv, OF ttl] intSetting_usable [of getenv, OF True]
          split: option.splits)
  qed
qed

lemma LoadFromEnv_accepted:
  assumes "usable (getenv ''CACHE_TTL_SECONDS'')" "usable (getenv ''CACHE_MAX_ENTRIES'')" "complete getenv"
  shows "LoadFromEnv quote getenv = Inr \<lparr>Enabled = (getenv ''AUTH_ENABLED'' = ''true''), Issuer = getenv ''ZITADEL_ISSUER'',
      IntrospectClientID = getenv ''INTROSPECT_ID'', IntrospectSecret = getenv ''INTROSPECT_SECRET'',
      Insecure = (getenv ''ZITADEL_INSECURE'' = ''true''),
      CacheTTL = (if getenv ''CACHE_TTL_SECONDS'' = [] then defaultCacheTTL
        else of_int (the (Atoi (getenv ''CACHE_TTL_SECONDS''))) * time_Second),
      CacheMaxEntries = (if getenv ''CACHE_MAX_ENTRIES'' = [] then defaultCacheMaxEntries
        else the (Atoi (getenv ''CACHE_MAX_ENTRIES''))),
      ExpectedAudience = splitCSV (getenv ''EXPECTED_AUDIENCE''), PublicMethods = [],
      AllowUnauthenticatedReflection = False\<rparr>"
proof -
  have "splitCSV [] = []" by (simp add: splitCSV_def TrimSpace_def trimPrefixes.simps go_spaces_def)
  then show ?thesis using assms(3)
    by (cases "getenv ''CACHE_TTL_SECONDS'' = []"; cases "getenv ''CACHE_MAX_ENTRIES'' = []"; cases "getenv ''EXPECTED_AUDIENCE'' = []")
      (simp_all add: LoadFromEnv_def Let_def complete_def intSetting_usable [of getenv, OF assms(1)]
        intSetting_usable [of getenv, OF assms(2)])
qed

section \<open>Properties\<close>

text \<open>
  C29: Configuration from the environment fails fast: it loads exactly when the two cache settings
  are absent or non-negative numbers and an enabled one has an issuer and both introspection
  credentials, and is refused as an invalid argument otherwise. A configuration that loads has the
  values of the environment; nothing is public; the cache bound is the number given and the lifetime
  its exact length up to 9223372036 seconds, or the default when absent; and the audiences are
  trimmed, non-empty and without commas.
\<close>

theorem LoadFromEnv_sound:
  "(isl (LoadFromEnv quote getenv) \<longleftrightarrow>
      \<not> (usable (getenv ''CACHE_TTL_SECONDS'') \<and> usable (getenv ''CACHE_MAX_ENTRIES'') \<and> complete getenv)) \<and>
   (\<forall>e. LoadFromEnv quote getenv = Inl e \<longrightarrow> (\<exists>msg. e = ErrNew ''auth.LoadFromEnv'' CodeInvalidArgument msg)) \<and>
   (\<forall>cfg. LoadFromEnv quote getenv = Inr cfg \<longrightarrow>
      Enabled cfg = (getenv ''AUTH_ENABLED'' = ''true'') \<and> Insecure cfg = (getenv ''ZITADEL_INSECURE'' = ''true'') \<and>
      Issuer cfg = getenv ''ZITADEL_ISSUER'' \<and> IntrospectClientID cfg = getenv ''INTROSPECT_ID'' \<and>
      IntrospectSecret cfg = getenv ''INTROSPECT_SECRET'' \<and>
      PublicMethods cfg = [] \<and> \<not> AllowUnauthenticatedReflection cfg \<and>
      (if getenv ''CACHE_MAX_ENTRIES'' = [] then CacheMaxEntries cfg = defaultCacheMaxEntries
       else Atoi (getenv ''CACHE_MAX_ENTRIES'') = Some (CacheMaxEntries cfg)) \<and>
      (getenv ''CACHE_TTL_SECONDS'' = [] \<longrightarrow> CacheTTL cfg = defaultCacheTTL) \<and>
      (\<forall>n. Atoi (getenv ''CACHE_TTL_SECONDS'') = Some n \<longrightarrow> n \<le> 9223372036 \<longrightarrow> sint (CacheTTL cfg) = n * 1000000000) \<and>
      ExpectedAudience cfg = splitCSV (getenv ''EXPECTED_AUDIENCE'') \<and>
      list_all (\<lambda>a. a \<noteq> [] \<and> CHR '','' \<notin> set a \<and> TrimSpace a = a) (ExpectedAudience cfg))"
proof (cases "usable (getenv ''CACHE_TTL_SECONDS'') \<and> usable (getenv ''CACHE_MAX_ENTRIES'') \<and> complete getenv")
  case False
  from LoadFromEnv_refused [OF this, of quote] False show ?thesis by auto
next
  case True
  then have u: "usable (getenv ''CACHE_TTL_SECONDS'')" "usable (getenv ''CACHE_MAX_ENTRIES'')" "complete getenv" by auto
  have "sint (of_int (the (Atoi (getenv ''CACHE_TTL_SECONDS''))) * time_Second) = n * 1000000000"
    if "Atoi (getenv ''CACHE_TTL_SECONDS'') = Some n" "n \<le> 9223372036" for n
    using seconds_exact [of n] that u(1) by (auto simp: usable_def Atoi_def)
  moreover have "Atoi [] = None" by (simp add: Atoi_def)
  moreover have "list_all (\<lambda>a. a \<noteq> [] \<and> CHR '','' \<notin> set a \<and> TrimSpace a = a) (splitCSV (getenv ''EXPECTED_AUDIENCE''))"
    using splitCSV_entries by (auto simp: list_all_iff)
  moreover have "getenv ''CACHE_MAX_ENTRIES'' \<noteq> [] \<Longrightarrow>
      Atoi (getenv ''CACHE_MAX_ENTRIES'') = Some (the (Atoi (getenv ''CACHE_MAX_ENTRIES'')))"
    using u(2) by (auto simp: usable_def split: option.splits)
  ultimately show ?thesis using True by (auto simp: LoadFromEnv_accepted [OF u])
qed

definition demo_environment :: "string \<Rightarrow> string" where
  "demo_environment = (\<lambda>_. [])(''AUTH_ENABLED'' := ''true'', ''ZITADEL_ISSUER'' := ''https://idp'',
     ''INTROSPECT_ID'' := ''id'', ''INTROSPECT_SECRET'' := ''s'', ''CACHE_TTL_SECONDS'' := ''60'',
     ''EXPECTED_AUDIENCE'' := ''a, b,,'')"

lemma demo_environment_loads:
  "Atoi (demo_environment ''CACHE_TTL_SECONDS'') = Some 60 \<and>
   (\<exists>cfg. LoadFromEnv (\<lambda>s. s) demo_environment = Inr cfg \<and> Enabled cfg \<and> ExpectedAudience cfg = [''a'', ''b''])"
proof -
  have at: "Atoi (demo_environment ''CACHE_TTL_SECONDS'') = Some 60"
    by (simp add: demo_environment_def Atoi_def read_digits_def digit_val_def is_digit_def in_int64_def)
  then have ttl: "intSetting (\<lambda>s. s) demo_environment ''CACHE_TTL_SECONDS'' = Inr (Some 60)"
    by (simp add: intSetting_def Let_def) (simp add: demo_environment_def)
  have mx: "intSetting (\<lambda>s. s) demo_environment ''CACHE_MAX_ENTRIES'' = Inr None"
    by (simp add: intSetting_def demo_environment_def)
  have aud: "splitCSV ''a, b,,'' = [''a'', ''b'']"
    by (simp add: splitCSV_def TrimSpace_def trimPrefixes.simps go_spaces_def)
  have "\<exists>cfg. LoadFromEnv (\<lambda>s. s) demo_environment = Inr cfg \<and> Enabled cfg \<and> ExpectedAudience cfg = [''a'', ''b'']"
    by (simp add: LoadFromEnv_def Let_def ttl mx) (simp add: demo_environment_def aud)
  with at show ?thesis by simp
qed

theorem LoadFromEnv_sound_witness:
  "(\<exists>cfg. LoadFromEnv (\<lambda>s. s) demo_environment = Inr cfg \<and> Enabled cfg \<and> Issuer cfg = ''https://idp'' \<and>
      sint (CacheTTL cfg) = 60000000000) \<and>
   isl (LoadFromEnv (\<lambda>s. s) (demo_environment(''CACHE_TTL_SECONDS'' := ''1h''))) \<and>
   isl (LoadFromEnv (\<lambda>s. s) (demo_environment(''INTROSPECT_SECRET'' := [])))"
proof -
  have "\<not> usable ((demo_environment(''CACHE_TTL_SECONDS'' := ''1h'')) ''CACHE_TTL_SECONDS'')" by code_simp
  moreover have "\<not> complete (demo_environment(''INTROSPECT_SECRET'' := []))"
    by (simp add: complete_def demo_environment_def)
  moreover obtain cfg where cfg: "LoadFromEnv (\<lambda>s. s) demo_environment = Inr cfg"
    using demo_environment_loads by blast
  have "demo_environment ''AUTH_ENABLED'' = ''true''" "demo_environment ''ZITADEL_ISSUER'' = ''https://idp''"
    by (simp_all add: demo_environment_def)
  moreover note LoadFromEnv_sound [of "\<lambda>s. s" demo_environment] demo_environment_loads cfg
  moreover note LoadFromEnv_sound [of "\<lambda>s. s" "demo_environment(''CACHE_TTL_SECONDS'' := ''1h'')"]
    LoadFromEnv_sound [of "\<lambda>s. s" "demo_environment(''INTROSPECT_SECRET'' := [])"]
  ultimately show ?thesis by simp
qed

text \<open>
  The check that the lifetime is not negative precedes the multiplication, which wraps: a large
  accepted value yields a negative lifetime.
\<close>

theorem LoadFromEnv_ttl_overflow:
  "let r = LoadFromEnv (\<lambda>s. s) ((\<lambda>_. [])(''CACHE_TTL_SECONDS'' := ''9223372037''))
   in \<not> isl r \<and> sint (CacheTTL (projr r)) < 0"
proof -
  have "Atoi ''9223372037'' = Some 9223372037"
    by (simp add: Atoi_def read_digits_def digit_val_def is_digit_def in_int64_def)
  moreover have "sint (9223372037 * 1000000000 :: 64 word) < 0" by simp
  ultimately show ?thesis
    by (simp add: LoadFromEnv_def intSetting_def Let_def time_Second_def)
qed

end
