(* ===== verification/Grpc_Common.thy ===== *)
theory Grpc_Common
  imports Auth
begin

text \<open>
  What the gRPC handlers share. A handler is a function of the request and of the world
  \<open>'w\<close> behind the orchestrator it obtains from its factory; it returns a status error or a
  response, and the new world. The orchestrators, the policy engine and their factories belong
  to citius-core: they are fields of the handler's record, as in the source, over an arbitrary
  world. The interface \<open>guarded_rpc\<close> is what makes an authorization check effective.
\<close>

type_synonym ('resp, 'w) rpc_result = "(status + 'resp) \<times> 'w"

text \<open>\<open>return nil, grpcstatus.ToStatusError(err)\<close>.\<close>

definition statusOf :: "errors_pkg \<Rightarrow> error \<Rightarrow> status" where
  "statusOf P e = the (ToStatusError P (Some e))"

lemma statusOf_simps:
  assumes "errors_pkg_ok P"
  shows "statusOf P (ErrNew opn c m) = (documented_grpc c, m)"
    and "statusOf P (ErrWrap opn n e) = (grpcCodeOf P e, case n of None \<Rightarrow> [] | Some t \<Rightarrow> t)"
    and "statusOf P (ErrPlain s) = (GInternal, ''internal error'')"
  using assms by (simp_all add: statusOf_def ToStatusError_def errors_pkg_okD internalErrorMessage_def)

text \<open>
  A request that its check refuses is answered with the status of the refusal and leaves the
  world as it was: the call behind the handler is never made.
\<close>

locale guarded_rpc =
  fixes rpc :: "'req \<Rightarrow> 'w \<Rightarrow> ('resp, 'w) rpc_result"
    and check :: "'req \<Rightarrow> error option"
    and P :: errors_pkg
  assumes refused: "check req = Some e \<Longrightarrow> rpc req w = (Inl (statusOf P e), w)"
begin

lemma success_authorized:
  assumes "rpc req w = (Inr resp, w')"
  shows "check req = None"
  using assms refused by (cases "check req") auto

lemma effect_authorized:
  assumes "snd (rpc req w) \<noteq> w"
  shows "check req = None"
  using assms refused by (cases "check req") auto

lemma refused_run:
  assumes "\<forall>req \<in> set reqs. check req \<noteq> None"
  shows "fold (\<lambda>req w. snd (rpc req w)) reqs w = w"
  using assms by (induction reqs arbitrary: w) (use refused in fastforce)+

end

text \<open>
  A method the handler leaves to the generated \<open>Unimplemented\<close> server: \<open>U\<close> is the status that
  server returns for a method name.
\<close>

definition unimplementedRPC :: "(string \<Rightarrow> status) \<Rightarrow> string \<Rightarrow> 'req \<Rightarrow> 'w \<Rightarrow> ('resp, 'w) rpc_result" where
  "unimplementedRPC U m req w = (Inl (U m), w)"

end
