(* ===== verification/Grpc_Crypto.thy ===== *)
theory Grpc_Crypto
  imports Grpc_Common
begin

text \<open>
  The one-shot cryptographic RPCs of \<open>internal/grpc/crypto\<close>: each authorizes the key name,
  obtains the orchestrator for the request, maps the request, calls the orchestrator and maps
  its result. Pointers to messages the handler only passes on are \<^typ>\<open>string option\<close>.
\<close>

section \<open>Messages\<close>

type_synonym msg_ptr = "string option"

text \<open>\<open>messagespb.OperationMetadata\<close>; \<open>user_context\<close> is a map of strings.\<close>

record op_metadata =
  mdKeyVersion :: "32 word"
  mdProviderOutput :: msg_ptr
  mdDigestHash :: int
  mdUserContext :: "(string \<times> string) list"

text \<open>The getters of a metadata pointer return zero values when it is nil.\<close>

definition getKeyVersion :: "op_metadata option \<Rightarrow> 32 word" where
  "getKeyVersion m = (case m of None \<Rightarrow> 0 | Some x \<Rightarrow> mdKeyVersion x)"

definition getProviderOutput :: "op_metadata option \<Rightarrow> msg_ptr" where
  "getProviderOutput m = (case m of None \<Rightarrow> None | Some x \<Rightarrow> mdProviderOutput x)"

definition getDigestHash :: "op_metadata option \<Rightarrow> int" where
  "getDigestHash m = (case m of None \<Rightarrow> 0 | Some x \<Rightarrow> mdDigestHash x)"

text \<open>The \<open>scope_params\<close> oneofs of the requests; \<^const>\<open>None\<close> is an unset oneof.\<close>

datatype encryption_scope =
    NoParams msg_ptr | AeadParams msg_ptr | XtsParams msg_ptr | AsymmetricParams msg_ptr | VendorParams msg_ptr

datatype signature_scope = NoContext msg_ptr | DomainContext msg_ptr | VendorContext msg_ptr

text \<open>\<open>crypto.EncryptionScopeFields\<close> and \<open>crypto.SignatureScopeFields\<close>.\<close>

record encryption_fields =
  fNoParams :: msg_ptr
  fAeadParams :: msg_ptr
  fXtsParams :: msg_ptr
  fAsymmetricParams :: msg_ptr
  fVendorParams :: msg_ptr

record signature_fields =
  fNoContext :: msg_ptr
  fDomainContext :: msg_ptr
  fVendorContext :: msg_ptr

definition noEncryptionFields :: encryption_fields where
  "noEncryptionFields = \<lparr>fNoParams = None, fAeadParams = None, fXtsParams = None,
     fAsymmetricParams = None, fVendorParams = None\<rparr>"

definition noSignatureFields :: signature_fields where
  "noSignatureFields = \<lparr>fNoContext = None, fDomainContext = None, fVendorContext = None\<rparr>"

definition extractEncryptScopeParams :: "encryption_scope option \<Rightarrow> encryption_fields \<Rightarrow> encryption_fields" where
  "extractEncryptScopeParams sp f =
     (case sp of
        Some (NoParams v) \<Rightarrow> f\<lparr>fNoParams := v\<rparr>
      | Some (AeadParams v) \<Rightarrow> f\<lparr>fAeadParams := v\<rparr>
      | Some (XtsParams v) \<Rightarrow> f\<lparr>fXtsParams := v\<rparr>
      | Some (AsymmetricParams v) \<Rightarrow> f\<lparr>fAsymmetricParams := v\<rparr>
      | Some (VendorParams v) \<Rightarrow> f\<lparr>fVendorParams := v\<rparr>
      | None \<Rightarrow> f)"

definition extractDecryptScopeParams :: "encryption_scope option \<Rightarrow> encryption_fields \<Rightarrow> encryption_fields" where
  "extractDecryptScopeParams sp f =
     (case sp of
        Some (NoParams v) \<Rightarrow> f\<lparr>fNoParams := v\<rparr>
      | Some (AeadParams v) \<Rightarrow> f\<lparr>fAeadParams := v\<rparr>
      | Some (XtsParams v) \<Rightarrow> f\<lparr>fXtsParams := v\<rparr>
      | Some (AsymmetricParams v) \<Rightarrow> f\<lparr>fAsymmetricParams := v\<rparr>
      | Some (VendorParams v) \<Rightarrow> f\<lparr>fVendorParams := v\<rparr>
      | None \<Rightarrow> f)"

definition extractSigningScopeParams :: "signature_scope option \<Rightarrow> signature_fields \<Rightarrow> signature_fields" where
  "extractSigningScopeParams sp f =
     (case sp of
        Some (NoContext v) \<Rightarrow> f\<lparr>fNoContext := v\<rparr>
      | Some (DomainContext v) \<Rightarrow> f\<lparr>fDomainContext := v\<rparr>
      | Some (VendorContext v) \<Rightarrow> f\<lparr>fVendorContext := v\<rparr>
      | None \<Rightarrow> f)"

definition extractVerifyScopeParams :: "signature_scope option \<Rightarrow> signature_fields \<Rightarrow> signature_fields" where
  "extractVerifyScopeParams sp f =
     (case sp of
        Some (NoContext v) \<Rightarrow> f\<lparr>fNoContext := v\<rparr>
      | Some (DomainContext v) \<Rightarrow> f\<lparr>fDomainContext := v\<rparr>
      | Some (VendorContext v) \<Rightarrow> f\<lparr>fVendorContext := v\<rparr>
      | None \<Rightarrow> f)"

definition extractDigestSignScopeParams :: "signature_scope option \<Rightarrow> signature_fields \<Rightarrow> signature_fields" where
  "extractDigestSignScopeParams sp f =
     (case sp of
        Some (NoContext v) \<Rightarrow> f\<lparr>fNoContext := v\<rparr>
      | Some (DomainContext v) \<Rightarrow> f\<lparr>fDomainContext := v\<rparr>
      | Some (VendorContext v) \<Rightarrow> f\<lparr>fVendorContext := v\<rparr>
      | None \<Rightarrow> f)"

definition extractDigestVerifyScopeParams :: "signature_scope option \<Rightarrow> signature_fields \<Rightarrow> signature_fields" where
  "extractDigestVerifyScopeParams sp f =
     (case sp of
        Some (NoContext v) \<Rightarrow> f\<lparr>fNoContext := v\<rparr>
      | Some (DomainContext v) \<Rightarrow> f\<lparr>fDomainContext := v\<rparr>
      | Some (VendorContext v) \<Rightarrow> f\<lparr>fVendorContext := v\<rparr>
      | None \<Rightarrow> f)"

text \<open>The requests of the API.\<close>

record encrypt_rpc =
  erKeyName :: string
  erPlaintext :: string
  erScopeParams :: "encryption_scope option"
  erUserContext :: "(string \<times> string) list"

record decrypt_rpc =
  drKeyName :: string
  drCiphertext :: string
  drMetadata :: "op_metadata option"
  drScopeParams :: "encryption_scope option"
  drUserContext :: "(string \<times> string) list"

record sign_rpc =
  srKeyName :: string
  srInput :: string
  srScopeParams :: "signature_scope option"
  srUserContext :: "(string \<times> string) list"

record verify_rpc =
  vrKeyName :: string
  vrInput :: string
  vrSignature :: string
  vrMetadata :: "op_metadata option"
  vrScopeParams :: "signature_scope option"
  vrUserContext :: "(string \<times> string) list"

record digest_sign_rpc =
  dsKeyName :: string
  dsDigest :: string
  dsHashAlgorithm :: int
  dsScopeParams :: "signature_scope option"
  dsUserContext :: "(string \<times> string) list"

record digest_verify_rpc =
  dvKeyName :: string
  dvDigest :: string
  dvSignature :: string
  dvMetadata :: "op_metadata option"
  dvScopeParams :: "signature_scope option"
  dvUserContext :: "(string \<times> string) list"

text \<open>The requests and results of the orchestrator.\<close>

record encrypt_request =
  eqKeyName :: string
  eqPlaintext :: string
  eqScope :: encryption_fields

record decrypt_request =
  dqKeyName :: string
  dqKeyVersion :: "32 word"
  dqCiphertext :: string
  dqOutput :: msg_ptr
  dqScope :: encryption_fields

record sign_request =
  sqKeyName :: string
  sqPayload :: string
  sqScope :: signature_fields

record verify_request =
  vqKeyName :: string
  vqPayload :: string
  vqSignature :: string
  vqKeyVersion :: "32 word"
  vqOutput :: msg_ptr
  vqScope :: signature_fields

record digest_sign_request =
  dsqKeyName :: string
  dsqDigest :: string
  dsqHashAlgorithm :: int
  dsqScope :: signature_fields

record digest_verify_request =
  dvqKeyName :: string
  dvqKeyVersion :: "32 word"
  dvqDigest :: string
  dvqSignature :: string
  dvqDigestHash :: int
  dvqOutput :: msg_ptr
  dvqScope :: signature_fields

record bytes_result =
  rBytes :: string
  rKeyVersion :: "32 word"
  rOutput :: msg_ptr
  rDigestHash :: int

record valid_result =
  rvValid :: bool
  rvKeyVersion :: "32 word"
  rvOutput :: msg_ptr
  rvDigestHash :: int

record ('ctx, 'w) crypto_ops =
  opEncrypt :: "'ctx \<Rightarrow> encrypt_request \<Rightarrow> 'w \<Rightarrow> bytes_result result \<times> 'w"
  opDecrypt :: "'ctx \<Rightarrow> decrypt_request \<Rightarrow> 'w \<Rightarrow> bytes_result result \<times> 'w"
  opSign :: "'ctx \<Rightarrow> sign_request \<Rightarrow> 'w \<Rightarrow> bytes_result result \<times> 'w"
  opVerify :: "'ctx \<Rightarrow> verify_request \<Rightarrow> 'w \<Rightarrow> valid_result result \<times> 'w"
  opDigestSign :: "'ctx \<Rightarrow> digest_sign_request \<Rightarrow> 'w \<Rightarrow> bytes_result result \<times> 'w"
  opDigestVerify :: "'ctx \<Rightarrow> digest_verify_request \<Rightarrow> 'w \<Rightarrow> valid_result result \<times> 'w"

record ('ctx, 'w) crypto_handler =
  chErrs :: errors_pkg
  chCrypto :: "'ctx \<Rightarrow> 'w \<Rightarrow> ('ctx, 'w) crypto_ops result \<times> 'w"
  chAuthorizeKey :: "'ctx \<Rightarrow> string \<Rightarrow> string \<Rightarrow> error option"

definition cryptoHandlerOp :: string where "cryptoHandlerOp = ''grpc.(CryptoHandler)''"

text \<open>The answer of an RPC: the bytes or verdict, and the metadata.\<close>

record bytes_response =
  brBytes :: string
  brMetadata :: op_metadata

record valid_response =
  vpValid :: bool
  vpMetadata :: op_metadata

section \<open>The handler\<close>

definition New_crypto ::
  "('ctx \<Rightarrow> 'w \<Rightarrow> ('ctx, 'w) crypto_ops result \<times> 'w) option \<Rightarrow> ('ctx \<Rightarrow> string \<Rightarrow> string \<Rightarrow> error option) option
     \<Rightarrow> errors_pkg \<Rightarrow> ('ctx, 'w) crypto_handler result" where
  "New_crypto newCrypto authorizeKey P =
     (case newCrypto of
        None \<Rightarrow> Inl (ErrNew ''grpc/crypto.New'' CodeInvalidArgument ''crypto orchestrator factory is required'')
      | Some f \<Rightarrow>
          (case authorizeKey of
             None \<Rightarrow> Inl (ErrNew ''grpc/crypto.New'' CodeInvalidArgument
               ''key authorization check is required; pass a check that always returns nil to run without authorization'')
           | Some a \<Rightarrow> Inr \<lparr>chErrs = P, chCrypto = f, chAuthorizeKey = a\<rparr>))"

definition Encrypt ::
  "('ctx, 'w) crypto_handler \<Rightarrow> 'ctx \<Rightarrow> encrypt_rpc \<Rightarrow> 'w \<Rightarrow> (bytes_response, 'w) rpc_result" where
  "Encrypt h ctx req w =
     (let encryptOp = cryptoHandlerOp @ ''.Encrypt''; st = statusOf (chErrs h) in
      case chAuthorizeKey h ctx encryptOp (erKeyName req) of
        Some e \<Rightarrow> (Inl (st e), w)
      | None \<Rightarrow>
          (case chCrypto h ctx w of
             (Inl e, w1) \<Rightarrow> (Inl (st (ErrWrap encryptOp None e)), w1)
           | (Inr ops, w1) \<Rightarrow>
               let encryptReq = \<lparr>eqKeyName = erKeyName req, eqPlaintext = erPlaintext req,
                     eqScope = extractEncryptScopeParams (erScopeParams req) noEncryptionFields\<rparr>
               in case opEncrypt ops ctx encryptReq w1 of
                    (Inl e, w2) \<Rightarrow> (Inl (st (ErrWrap encryptOp None e)), w2)
                  | (Inr res, w2) \<Rightarrow>
                      (Inr \<lparr>brBytes = rBytes res,
                            brMetadata = \<lparr>mdKeyVersion = rKeyVersion res, mdProviderOutput = rOutput res,
                              mdDigestHash = 0, mdUserContext = erUserContext req\<rparr>\<rparr>, w2)))"

definition Decrypt ::
  "('ctx, 'w) crypto_handler \<Rightarrow> 'ctx \<Rightarrow> decrypt_rpc \<Rightarrow> 'w \<Rightarrow> (bytes_response, 'w) rpc_result" where
  "Decrypt h ctx req w =
     (let decryptOp = cryptoHandlerOp @ ''.Decrypt''; st = statusOf (chErrs h) in
      case chAuthorizeKey h ctx decryptOp (drKeyName req) of
        Some e \<Rightarrow> (Inl (st e), w)
      | None \<Rightarrow>
          (case chCrypto h ctx w of
             (Inl e, w1) \<Rightarrow> (Inl (st (ErrWrap decryptOp None e)), w1)
           | (Inr ops, w1) \<Rightarrow>
               let decryptReq = \<lparr>dqKeyName = drKeyName req, dqKeyVersion = getKeyVersion (drMetadata req),
                     dqCiphertext = drCiphertext req, dqOutput = getProviderOutput (drMetadata req),
                     dqScope = extractDecryptScopeParams (drScopeParams req) noEncryptionFields\<rparr>
               in case opDecrypt ops ctx decryptReq w1 of
                    (Inl e, w2) \<Rightarrow> (Inl (st (ErrWrap decryptOp None e)), w2)
                  | (Inr res, w2) \<Rightarrow>
                      (Inr \<lparr>brBytes = rBytes res,
                            brMetadata = \<lparr>mdKeyVersion = rKeyVersion res, mdProviderOutput = rOutput res,
                              mdDigestHash = 0, mdUserContext = drUserContext req\<rparr>\<rparr>, w2)))"

definition Sign ::
  "('ctx, 'w) crypto_handler \<Rightarrow> 'ctx \<Rightarrow> sign_rpc \<Rightarrow> 'w \<Rightarrow> (bytes_response, 'w) rpc_result" where
  "Sign h ctx req w =
     (let signOp = cryptoHandlerOp @ ''.Sign''; st = statusOf (chErrs h) in
      case chAuthorizeKey h ctx signOp (srKeyName req) of
        Some e \<Rightarrow> (Inl (st e), w)
      | None \<Rightarrow>
          (case chCrypto h ctx w of
             (Inl e, w1) \<Rightarrow> (Inl (st (ErrWrap signOp None e)), w1)
           | (Inr ops, w1) \<Rightarrow>
               let signReq = \<lparr>sqKeyName = srKeyName req, sqPayload = srInput req,
                     sqScope = extractSigningScopeParams (srScopeParams req) noSignatureFields\<rparr>
               in case opSign ops ctx signReq w1 of
                    (Inl e, w2) \<Rightarrow> (Inl (st (ErrWrap signOp None e)), w2)
                  | (Inr res, w2) \<Rightarrow>
                      (Inr \<lparr>brBytes = rBytes res,
                            brMetadata = \<lparr>mdKeyVersion = rKeyVersion res, mdProviderOutput = rOutput res,
                              mdDigestHash = 0, mdUserContext = srUserContext req\<rparr>\<rparr>, w2)))"

definition Verify ::
  "('ctx, 'w) crypto_handler \<Rightarrow> 'ctx \<Rightarrow> verify_rpc \<Rightarrow> 'w \<Rightarrow> (valid_response, 'w) rpc_result" where
  "Verify h ctx req w =
     (let verifyOp = cryptoHandlerOp @ ''.Verify''; st = statusOf (chErrs h) in
      case chAuthorizeKey h ctx verifyOp (vrKeyName req) of
        Some e \<Rightarrow> (Inl (st e), w)
      | None \<Rightarrow>
          (case chCrypto h ctx w of
             (Inl e, w1) \<Rightarrow> (Inl (st (ErrWrap verifyOp None e)), w1)
           | (Inr ops, w1) \<Rightarrow>
               let verifyReq = \<lparr>vqKeyName = vrKeyName req, vqPayload = vrInput req, vqSignature = vrSignature req,
                     vqKeyVersion = getKeyVersion (vrMetadata req), vqOutput = getProviderOutput (vrMetadata req),
                     vqScope = extractVerifyScopeParams (vrScopeParams req) noSignatureFields\<rparr>
               in case opVerify ops ctx verifyReq w1 of
                    (Inl e, w2) \<Rightarrow> (Inl (st (ErrWrap verifyOp None e)), w2)
                  | (Inr res, w2) \<Rightarrow>
                      (Inr \<lparr>vpValid = rvValid res,
                            vpMetadata = \<lparr>mdKeyVersion = rvKeyVersion res, mdProviderOutput = rvOutput res,
                              mdDigestHash = 0, mdUserContext = vrUserContext req\<rparr>\<rparr>, w2)))"

definition DigestSign ::
  "('ctx, 'w) crypto_handler \<Rightarrow> 'ctx \<Rightarrow> digest_sign_rpc \<Rightarrow> 'w \<Rightarrow> (bytes_response, 'w) rpc_result" where
  "DigestSign h ctx req w =
     (let digestSignOp = cryptoHandlerOp @ ''.DigestSign''; st = statusOf (chErrs h) in
      case chAuthorizeKey h ctx digestSignOp (dsKeyName req) of
        Some e \<Rightarrow> (Inl (st e), w)
      | None \<Rightarrow>
          (case chCrypto h ctx w of
             (Inl e, w1) \<Rightarrow> (Inl (st (ErrWrap digestSignOp None e)), w1)
           | (Inr ops, w1) \<Rightarrow>
               let digestSignReq = \<lparr>dsqKeyName = dsKeyName req, dsqDigest = dsDigest req,
                     dsqHashAlgorithm = dsHashAlgorithm req,
                     dsqScope = extractDigestSignScopeParams (dsScopeParams req) noSignatureFields\<rparr>
               in case opDigestSign ops ctx digestSignReq w1 of
                    (Inl e, w2) \<Rightarrow> (Inl (st (ErrWrap digestSignOp None e)), w2)
                  | (Inr res, w2) \<Rightarrow>
                      (Inr \<lparr>brBytes = rBytes res,
                            brMetadata = \<lparr>mdKeyVersion = rKeyVersion res, mdProviderOutput = rOutput res,
                              mdDigestHash = rDigestHash res, mdUserContext = dsUserContext req\<rparr>\<rparr>, w2)))"

definition DigestVerify ::
  "('ctx, 'w) crypto_handler \<Rightarrow> 'ctx \<Rightarrow> digest_verify_rpc \<Rightarrow> 'w \<Rightarrow> (valid_response, 'w) rpc_result" where
  "DigestVerify h ctx req w =
     (let digestVerifyOp = cryptoHandlerOp @ ''.DigestVerify''; st = statusOf (chErrs h) in
      case chAuthorizeKey h ctx digestVerifyOp (dvKeyName req) of
        Some e \<Rightarrow> (Inl (st e), w)
      | None \<Rightarrow>
          (case chCrypto h ctx w of
             (Inl e, w1) \<Rightarrow> (Inl (st (ErrWrap digestVerifyOp None e)), w1)
           | (Inr ops, w1) \<Rightarrow>
               let digestVerifyReq = \<lparr>dvqKeyName = dvKeyName req, dvqKeyVersion = getKeyVersion (dvMetadata req),
                     dvqDigest = dvDigest req, dvqSignature = dvSignature req,
                     dvqDigestHash = getDigestHash (dvMetadata req),
                     dvqOutput = getProviderOutput (dvMetadata req),
                     dvqScope = extractDigestVerifyScopeParams (dvScopeParams req) noSignatureFields\<rparr>
               in case opDigestVerify ops ctx digestVerifyReq w1 of
                    (Inl e, w2) \<Rightarrow> (Inl (st (ErrWrap digestVerifyOp None e)), w2)
                  | (Inr res, w2) \<Rightarrow>
                      (Inr \<lparr>vpValid = rvValid res,
                            vpMetadata = \<lparr>mdKeyVersion = rvKeyVersion res, mdProviderOutput = rvOutput res,
                              mdDigestHash = rvDigestHash res, mdUserContext = dvUserContext req\<rparr>\<rparr>, w2)))"

lemmas crypto_rpc_defs = Encrypt_def Decrypt_def Sign_def Verify_def DigestSign_def DigestVerify_def

section \<open>Authorization is effective\<close>

interpretation encrypt: guarded_rpc "Encrypt h ctx" "\<lambda>req. chAuthorizeKey h ctx (cryptoHandlerOp @ ''.Encrypt'') (erKeyName req)" "chErrs h"
  for h ctx by unfold_locales (simp add: Encrypt_def Let_def)

interpretation decrypt: guarded_rpc "Decrypt h ctx" "\<lambda>req. chAuthorizeKey h ctx (cryptoHandlerOp @ ''.Decrypt'') (drKeyName req)" "chErrs h"
  for h ctx by unfold_locales (simp add: Decrypt_def Let_def)

interpretation sign: guarded_rpc "Sign h ctx" "\<lambda>req. chAuthorizeKey h ctx (cryptoHandlerOp @ ''.Sign'') (srKeyName req)" "chErrs h"
  for h ctx by unfold_locales (simp add: Sign_def Let_def)

interpretation verify: guarded_rpc "Verify h ctx" "\<lambda>req. chAuthorizeKey h ctx (cryptoHandlerOp @ ''.Verify'') (vrKeyName req)" "chErrs h"
  for h ctx by unfold_locales (simp add: Verify_def Let_def)

interpretation digest_sign: guarded_rpc "DigestSign h ctx" "\<lambda>req. chAuthorizeKey h ctx (cryptoHandlerOp @ ''.DigestSign'') (dsKeyName req)" "chErrs h"
  for h ctx by unfold_locales (simp add: DigestSign_def Let_def)

interpretation digest_verify: guarded_rpc "DigestVerify h ctx" "\<lambda>req. chAuthorizeKey h ctx (cryptoHandlerOp @ ''.DigestVerify'') (dvKeyName req)" "chErrs h"
  for h ctx by unfold_locales (simp add: DigestVerify_def Let_def)

section \<open>Properties\<close>

text \<open>
  C30: The metadata an Encrypt call returns is what Decrypt needs: when a client sends it back
  with the ciphertext, the key name and the scope of the request, the orchestrator is asked
  to decrypt with the key version and provider output it encrypted with. With an orchestrator
  that inverts its own encryption under these, the client gets its plaintext back.
\<close>

theorem Decrypt_after_Encrypt:
  assumes enc: "Encrypt h ctx req w = (Inr resp, w1)"
    and dec: "Decrypt h ctx \<lparr>drKeyName = erKeyName req, drCiphertext = brBytes resp,
        drMetadata = Some (brMetadata resp), drScopeParams = erScopeParams req, drUserContext = uc\<rparr> w2 = (Inr out, w3)"
    and inverse: "\<And>ops ops' q r u u' v r' v'. opEncrypt ops ctx q u = (Inr r, u') \<Longrightarrow>
        opDecrypt ops' ctx \<lparr>dqKeyName = eqKeyName q, dqKeyVersion = rKeyVersion r, dqCiphertext = rBytes r,
          dqOutput = rOutput r, dqScope = eqScope q\<rparr> v = (Inr r', v') \<Longrightarrow>
        chCrypto h ctx w = (Inr ops, u) \<Longrightarrow> chCrypto h ctx w2 = (Inr ops', v) \<Longrightarrow> rBytes r' = eqPlaintext q"
  shows "brBytes out = erPlaintext req"
proof -
  obtain ops u where o: "chCrypto h ctx w = (Inr ops, u)"
    using enc by (cases "chCrypto h ctx w"; cases "fst (chCrypto h ctx w)")
      (auto simp: Encrypt_def Let_def split: option.splits)
  obtain ops' v where o': "chCrypto h ctx w2 = (Inr ops', v)"
    using dec by (cases "chCrypto h ctx w2"; cases "fst (chCrypto h ctx w2)")
      (auto simp: Decrypt_def Let_def split: option.splits)
  have sc: "extractDecryptScopeParams = extractEncryptScopeParams"
    by (simp add: extractDecryptScopeParams_def extractEncryptScopeParams_def fun_eq_iff)
  let ?q = "\<lparr>eqKeyName = erKeyName req, eqPlaintext = erPlaintext req,
     eqScope = extractEncryptScopeParams (erScopeParams req) noEncryptionFields\<rparr>"
  from enc o obtain r u' where e: "opEncrypt ops ctx ?q u = (Inr r, u')"
    and resp: "brBytes resp = rBytes r" "mdKeyVersion (brMetadata resp) = rKeyVersion r"
      "mdProviderOutput (brMetadata resp) = rOutput r"
    by (auto simp: Encrypt_def Let_def split: option.splits prod.splits sum.splits)
  from dec o' obtain r' v' where d: "opDecrypt ops' ctx \<lparr>dqKeyName = eqKeyName ?q, dqKeyVersion = rKeyVersion r,
      dqCiphertext = rBytes r, dqOutput = rOutput r, dqScope = eqScope ?q\<rparr> v = (Inr r', v')"
    and out: "brBytes out = rBytes r'"
    by (auto simp: Decrypt_def Let_def getKeyVersion_def getProviderOutput_def resp sc
        split: option.splits prod.splits sum.splits)
  show ?thesis using inverse [OF e d o o'] out by simp
qed

text \<open>An orchestrator for the examples: it reverses the bytes and counts its calls.\<close>

definition demo_ops :: "(unit, nat) crypto_ops" where
  "demo_ops =
     \<lparr>opEncrypt = (\<lambda>_ q n. (Inr \<lparr>rBytes = rev (eqPlaintext q), rKeyVersion = 3, rOutput = Some ''iv'', rDigestHash = 0\<rparr>, n + 1)),
      opDecrypt = (\<lambda>_ q n. (if dqKeyVersion q = 3 \<and> dqOutput q = Some ''iv''
         then Inr \<lparr>rBytes = rev (dqCiphertext q), rKeyVersion = 3, rOutput = None, rDigestHash = 0\<rparr>
         else Inl (ErrPlain ''bad metadata''), n + 1)),
      opSign = (\<lambda>_ q n. (Inl (ErrPlain ''unused''), n)), opVerify = (\<lambda>_ q n. (Inl (ErrPlain ''unused''), n)),
      opDigestSign = (\<lambda>_ q n. (Inl (ErrPlain ''unused''), n)), opDigestVerify = (\<lambda>_ q n. (Inl (ErrPlain ''unused''), n))\<rparr>"

definition demo_handler :: "(string \<Rightarrow> error option) \<Rightarrow> (unit, nat) crypto_handler" where
  "demo_handler a = \<lparr>chErrs = ref_errors, chCrypto = (\<lambda>_ n. (Inr demo_ops, n)), chAuthorizeKey = (\<lambda>_ _ name. a name)\<rparr>"

definition demo_encrypt_rpc :: encrypt_rpc where
  "demo_encrypt_rpc = \<lparr>erKeyName = ''k'', erPlaintext = ''abc'', erScopeParams = None, erUserContext = []\<rparr>"

theorem Decrypt_after_Encrypt_witness:
  "let h = demo_handler (\<lambda>_. None); e = Encrypt h () demo_encrypt_rpc 0; resp = projr (fst e);
       d = Decrypt h () \<lparr>drKeyName = ''k'', drCiphertext = brBytes resp, drMetadata = Some (brMetadata resp),
             drScopeParams = None, drUserContext = []\<rparr> (snd e)
   in brBytes resp = ''cba'' \<and> \<not> isl (fst d) \<and> brBytes (projr (fst d)) = ''abc''"
proof -
  let ?h = "demo_handler (\<lambda>_. None)"
  let ?resp = "\<lparr>brBytes = ''cba'', brMetadata = \<lparr>mdKeyVersion = 3, mdProviderOutput = Some ''iv'',
      mdDigestHash = 0, mdUserContext = []\<rparr>\<rparr>"
  have e: "Encrypt ?h () demo_encrypt_rpc 0 = (Inr ?resp, 1)"
    by (simp add: Encrypt_def Let_def demo_handler_def demo_ops_def demo_encrypt_rpc_def)
  obtain out where d: "Decrypt ?h () \<lparr>drKeyName = erKeyName demo_encrypt_rpc, drCiphertext = brBytes ?resp,
      drMetadata = Some (brMetadata ?resp), drScopeParams = erScopeParams demo_encrypt_rpc, drUserContext = []\<rparr> 1
      = (Inr out, 2)"
    by (simp add: Decrypt_def Let_def demo_handler_def demo_ops_def getKeyVersion_def getProviderOutput_def)
  have "brBytes out = erPlaintext demo_encrypt_rpc"
    by (rule Decrypt_after_Encrypt [OF e d])
       (auto simp: demo_handler_def demo_ops_def split: if_splits)
  with e d show ?thesis by (simp add: demo_encrypt_rpc_def)
qed

end
