(* ===== verification/Grpc_Keys.thy ===== *)
theory Grpc_Keys
  imports Grpc_Common Paging
begin

text \<open>
  The key lifecycle RPCs of \<open>internal/grpc/keymanagement\<close>. The key orchestrator and the
  conversions between messages and domain values belong to citius-core: they are the fields of
  \<open>key_ops\<close> and \<open>key_codec\<close>. Messages the handler only hands on are strings, and pointers to
  them \<^typ>\<open>string option\<close>.
\<close>

section \<open>Messages\<close>

text \<open>\<open>service.KeyMetadata\<close>: the fields the handler reads, and the rest.\<close>

record key_metadata =
  kmName :: string
  kmVersion :: "32 word"
  kmTemplateID :: string
  kmProvider :: string
  kmPolicy :: string
  kmLifecycleState :: int
  kmSecurityGuarantees :: "string option"
  kmOther :: string

record create_key_rpc =
  ckName :: string
  ckPolicy :: string
  ckProviderId :: string
  ckTemplateId :: "string option"
  ckScopeSpec :: "string option"
  ckProviderRequirements :: "string option"
  ckProviderConfiguration :: "(string \<times> string) list"
  ckActivationTime :: "int option"
  ckExpirationTime :: "int option"

record key_creation_spec =
  csName :: string
  csPolicyID :: string
  csProviderInstanceID :: string
  csTemplateID :: string
  csScopeSpecification :: "string option"
  csProviderRequirements :: "string option"

record transform_key_rpc =
  tkName :: string
  tkTemplateId :: "string option"
  tkScopeSpec :: "string option"
  tkRetainKeyBytes :: bool

record transform_spec =
  tsKeyName :: string
  tsRetainBytes :: bool
  tsTemplateID :: string
  tsScopeSpecification :: "string option"

record migrate_spec =
  msKeyName :: string
  msTargetInstanceID :: string
  msTargetProviderID :: string
  msStrategy :: int

text \<open>
  \<open>MigrateKeyRequest\<close> is read by \<open>MigrateKeySpec.FromProto\<close> only; the intents of
  \<open>ValidateKeyOperationRequest\<close> are a oneof.
\<close>

record migrate_rpc =
  mkName :: string
  mkBody :: string

record migrate_intent =
  miTargetInstanceId :: string
  miTargetProviderId :: string
  miPreferredStrategy :: int

datatype validate_intent = IntentMigrate "migrate_intent option" | IntentTransform

record validate_rpc =
  vkName :: string
  vkIntent :: "validate_intent option"

record list_keys_rpc =
  lkProviderId :: string
  lkPolicy :: string
  lkLifecycleState :: int
  lkScopeSpec :: "string option"
  lkPageSize :: "32 word"
  lkPageToken :: string

section \<open>What the handler is given\<close>

record ('ctx, 'w) key_ops =
  opCreateKey :: "'ctx \<Rightarrow> key_creation_spec \<Rightarrow> 'w \<Rightarrow> key_metadata result \<times> 'w"
  opReadKey :: "'ctx \<Rightarrow> string \<Rightarrow> 32 word \<Rightarrow> 'w \<Rightarrow> key_metadata result \<times> 'w"
  opTransformKey :: "'ctx \<Rightarrow> transform_spec \<Rightarrow> 'w \<Rightarrow> key_metadata result \<times> 'w"
  opMigrateKey :: "'ctx \<Rightarrow> migrate_spec \<Rightarrow> 'w \<Rightarrow> string result \<times> 'w"
  opValidateMigration :: "'ctx \<Rightarrow> migrate_spec \<Rightarrow> 'w \<Rightarrow> string option result \<times> 'w"
  opListKeys :: "'ctx \<Rightarrow> 'w \<Rightarrow> key_metadata option list result \<times> 'w"

record 'p key_codec =
  scopeSpecFromProto :: "string \<Rightarrow> string result"
  providerRequirementsFromProto :: "string option \<Rightarrow> string option result"
  metadataToProto :: "key_metadata \<Rightarrow> 'p result"
  implementationProperties :: "'p \<Rightarrow> string option"
  migrateFromProto :: "migrate_rpc \<Rightarrow> migrate_spec result"
  migrationToProto :: "string \<Rightarrow> string result"
  validationToProto :: "string \<Rightarrow> string"

record ('ctx, 'w, 'p) key_handler =
  khErrs :: errors_pkg
  khCodec :: "'p key_codec"
  khKeys :: "'ctx \<Rightarrow> 'w \<Rightarrow> ('ctx, 'w) key_ops result \<times> 'w"
  khAuthorizeKey :: "'ctx \<Rightarrow> string \<Rightarrow> string \<Rightarrow> error option"
  khAuthorizePolicy :: "'ctx \<Rightarrow> string \<Rightarrow> string \<Rightarrow> error option"

definition keyManagementHandlerOp :: string where "keyManagementHandlerOp = ''grpc.(KeyManagementHandler)''"

definition New_keys ::
  "('ctx \<Rightarrow> 'w \<Rightarrow> ('ctx, 'w) key_ops result \<times> 'w) option \<Rightarrow> ('ctx \<Rightarrow> string \<Rightarrow> string \<Rightarrow> error option) option
     \<Rightarrow> ('ctx \<Rightarrow> string \<Rightarrow> string \<Rightarrow> error option) option \<Rightarrow> errors_pkg \<Rightarrow> 'p key_codec
     \<Rightarrow> ('ctx, 'w, 'p) key_handler result" where
  "New_keys newKeys authorizeKey authorizePolicy P C =
     (case newKeys of
        None \<Rightarrow> Inl (ErrNew ''grpc/keymanagement.New'' CodeInvalidArgument ''key orchestrator factory is required'')
      | Some f \<Rightarrow>
          (case authorizeKey of
             None \<Rightarrow> Inl (ErrNew ''grpc/keymanagement.New'' CodeInvalidArgument
               ''key authorization check is required; pass a check that always returns nil to run without authorization'')
           | Some a \<Rightarrow>
               (case authorizePolicy of
                  None \<Rightarrow> Inl (ErrNew ''grpc/keymanagement.New'' CodeInvalidArgument
                    ''policy authorization check is required; pass a check that always returns nil to run without authorization'')
                | Some b \<Rightarrow> Inr \<lparr>khErrs = P, khCodec = C, khKeys = f, khAuthorizeKey = a, khAuthorizePolicy = b\<rparr>)))"

section \<open>Creating and reading\<close>

record 'p create_key_response =
  crSuccess :: bool
  crMessage :: string
  crKeyMetadata :: 'p
  crSecurityGuarantees :: "string option"
  crImplementationProperties :: "string option"

definition rejectUnconsumedCreateFields :: "string \<Rightarrow> create_key_rpc \<Rightarrow> error option" where
  "rejectUnconsumedCreateFields opn req =
     (if length (ckProviderConfiguration req) > 0
      then Some (ErrNew opn CodeInvalidArgument ''provider_configuration is not supported'')
      else if ckActivationTime req \<noteq> None \<or> ckExpirationTime req \<noteq> None
      then Some (ErrNew opn CodeInvalidArgument ''activation_time and expiration_time are not supported'')
      else None)"

text \<open>\<open>fmt.Sprintf("%s version %d with template %s on %s")\<close> with the verb of the caller.\<close>

definition versionMessage :: "string \<Rightarrow> key_metadata \<Rightarrow> string" where
  "versionMessage verb md = verb @ '' version '' @ show_nat (unat (kmVersion md)) @ '' with template '' @
     kmTemplateID md @ '' on '' @ kmProvider md"

definition CreateKeyRPC ::
  "('ctx, 'w, 'p) key_handler \<Rightarrow> 'ctx \<Rightarrow> create_key_rpc \<Rightarrow> 'w \<Rightarrow> ('p create_key_response, 'w) rpc_result" where
  "CreateKeyRPC h ctx req w =
     (let createOp = keyManagementHandlerOp @ ''.CreateKey''; st = statusOf (khErrs h); cod = khCodec h in
      case khAuthorizeKey h ctx createOp (ckName req) of
        Some e \<Rightarrow> (Inl (st e), w)
      | None \<Rightarrow>
      case (if ckPolicy req \<noteq> [] then khAuthorizePolicy h ctx createOp (ckPolicy req) else None) of
        Some e \<Rightarrow> (Inl (st e), w)
      | None \<Rightarrow>
      case rejectUnconsumedCreateFields createOp req of
        Some e \<Rightarrow> (Inl (st e), w)
      | None \<Rightarrow>
      case khKeys h ctx w of
        (Inl e, w1) \<Rightarrow> (Inl (st (ErrWrap createOp None e)), w1)
      | (Inr keys, w1) \<Rightarrow>
      case (case ckScopeSpec req of
              None \<Rightarrow> Inr None
            | Some sp \<Rightarrow> (case scopeSpecFromProto cod sp of Inl e \<Rightarrow> Inl e | Inr x \<Rightarrow> Inr (Some x))) of
        Inl e \<Rightarrow> (Inl (st (ErrWrap createOp (Some ''invalid scope_spec'') e)), w1)
      | Inr scopeSpec \<Rightarrow>
      case providerRequirementsFromProto cod (ckProviderRequirements req) of
        Inl e \<Rightarrow> (Inl (st (ErrWrap createOp (Some ''invalid provider_requirements'') e)), w1)
      | Inr reqs \<Rightarrow>
      let spec = \<lparr>csName = ckName req, csPolicyID = ckPolicy req, csProviderInstanceID = ckProviderId req,
                  csTemplateID = (case ckTemplateId req of None \<Rightarrow> [] | Some t \<Rightarrow> t),
                  csScopeSpecification = scopeSpec, csProviderRequirements = reqs\<rparr> in
      case opCreateKey keys ctx spec w1 of
        (Inl e, w2) \<Rightarrow> (Inl (st (ErrWrap createOp None e)), w2)
      | (Inr md, w2) \<Rightarrow>
      case metadataToProto cod md of
        Inl e \<Rightarrow> (Inl (st (ErrWrap createOp None e)), w2)
      | Inr mp \<Rightarrow>
          (Inr \<lparr>crSuccess = True, crMessage = versionMessage ''created'' md, crKeyMetadata = mp,
                crSecurityGuarantees = kmSecurityGuarantees md,
                crImplementationProperties = implementationProperties cod mp\<rparr>, w2))"

definition ReadKeyRPC ::
  "('ctx, 'w, 'p) key_handler \<Rightarrow> 'ctx \<Rightarrow> string \<times> 32 word \<Rightarrow> 'w \<Rightarrow> ('p, 'w) rpc_result" where
  "ReadKeyRPC h ctx req w =
     (let readOp = keyManagementHandlerOp @ ''.ReadKey''; st = statusOf (khErrs h) in
      case khAuthorizeKey h ctx readOp (fst req) of
        Some e \<Rightarrow> (Inl (st e), w)
      | None \<Rightarrow>
      case khKeys h ctx w of
        (Inl e, w1) \<Rightarrow> (Inl (st (ErrWrap readOp None e)), w1)
      | (Inr keys, w1) \<Rightarrow>
      case opReadKey keys ctx (fst req) (snd req) w1 of
        (Inl e, w2) \<Rightarrow> (Inl (st (ErrWrap readOp None e)), w2)
      | (Inr md, w2) \<Rightarrow>
      case metadataToProto (khCodec h) md of
        Inl e \<Rightarrow> (Inl (st (ErrWrap readOp None e)), w2)
      | Inr mp \<Rightarrow> (Inr mp, w2))"

section \<open>Transforming and migrating\<close>

record 'p transform_response =
  trSuccess :: bool
  trMessage :: string
  trKeyMetadata :: 'p

definition TransformKeyRPC ::
  "('ctx, 'w, 'p) key_handler \<Rightarrow> 'ctx \<Rightarrow> transform_key_rpc \<Rightarrow> 'w \<Rightarrow> ('p transform_response, 'w) rpc_result" where
  "TransformKeyRPC h ctx req w =
     (let opn = keyManagementHandlerOp @ ''.TransformKey''; st = statusOf (khErrs h); cod = khCodec h in
      case khAuthorizeKey h ctx opn (tkName req) of
        Some e \<Rightarrow> (Inl (st e), w)
      | None \<Rightarrow>
      case khKeys h ctx w of
        (Inl e, w1) \<Rightarrow> (Inl (st (ErrWrap opn None e)), w1)
      | (Inr keys, w1) \<Rightarrow>
      case tkScopeSpec req of
        None \<Rightarrow> (Inl (st (ErrNew opn CodeInvalidArgument ''scope_spec is required with at least a scope set'')), w1)
      | Some sp \<Rightarrow>
      case scopeSpecFromProto cod sp of
        Inl e \<Rightarrow> (Inl (st (ErrWrap opn (Some ''invalid scope_spec'') e)), w1)
      | Inr scopeSpec \<Rightarrow>
      let spec = \<lparr>tsKeyName = tkName req, tsRetainBytes = tkRetainKeyBytes req,
                  tsTemplateID = (case tkTemplateId req of None \<Rightarrow> [] | Some t \<Rightarrow> t),
                  tsScopeSpecification = Some scopeSpec\<rparr> in
      case opTransformKey keys ctx spec w1 of
        (Inl e, w2) \<Rightarrow> (Inl (st (ErrWrap opn None e)), w2)
      | (Inr md, w2) \<Rightarrow>
      case metadataToProto cod md of
        Inl e \<Rightarrow> (Inl (st (ErrWrap opn None e)), w2)
      | Inr mp \<Rightarrow>
          (Inr \<lparr>trSuccess = True, trMessage = versionMessage ''transformed to'' md, trKeyMetadata = mp\<rparr>, w2))"

definition MigrateKeyRPC ::
  "('ctx, 'w, 'p) key_handler \<Rightarrow> 'ctx \<Rightarrow> migrate_rpc \<Rightarrow> 'w \<Rightarrow> (string, 'w) rpc_result" where
  "MigrateKeyRPC h ctx req w =
     (let opn = keyManagementHandlerOp @ ''.MigrateKey''; st = statusOf (khErrs h); cod = khCodec h in
      case khAuthorizeKey h ctx opn (mkName req) of
        Some e \<Rightarrow> (Inl (st e), w)
      | None \<Rightarrow>
      case migrateFromProto cod req of
        Inl e \<Rightarrow> (Inl (st (ErrWrap opn None e)), w)
      | Inr spec \<Rightarrow>
      case khKeys h ctx w of
        (Inl e, w1) \<Rightarrow> (Inl (st (ErrWrap opn None e)), w1)
      | (Inr keys, w1) \<Rightarrow>
      case opMigrateKey keys ctx spec w1 of
        (Inl e, w2) \<Rightarrow> (Inl (st (ErrWrap opn None e)), w2)
      | (Inr res, w2) \<Rightarrow>
      case migrationToProto cod res of
        Inl e \<Rightarrow> (Inl (st (ErrWrap opn None e)), w2)
      | Inr resp \<Rightarrow> (Inr resp, w2))"

text \<open>The getters of a nil intent return zero values.\<close>

definition intentSpec :: "string \<Rightarrow> migrate_intent option \<Rightarrow> migrate_spec" where
  "intentSpec name i =
     (case i of
        None \<Rightarrow> \<lparr>msKeyName = name, msTargetInstanceID = [], msTargetProviderID = [], msStrategy = 0\<rparr>
      | Some x \<Rightarrow> \<lparr>msKeyName = name, msTargetInstanceID = miTargetInstanceId x,
                   msTargetProviderID = miTargetProviderId x, msStrategy = miPreferredStrategy x\<rparr>)"

definition ValidateKeyOperationRPC ::
  "('ctx, 'w, 'p) key_handler \<Rightarrow> 'ctx \<Rightarrow> validate_rpc \<Rightarrow> 'w \<Rightarrow> (string, 'w) rpc_result" where
  "ValidateKeyOperationRPC h ctx req w =
     (let opn = keyManagementHandlerOp @ ''.ValidateKeyOperation''; st = statusOf (khErrs h) in
      case khAuthorizeKey h ctx opn (vkName req) of
        Some e \<Rightarrow> (Inl (st e), w)
      | None \<Rightarrow>
      case vkIntent req of
        None \<Rightarrow> (Inl (st (ErrNew opn CodeInvalidArgument ''an intent is required'')), w)
      | Some IntentTransform \<Rightarrow>
          (Inl (st (ErrNew opn CodeNotImplemented ''validating a transform is not implemented'')), w)
      | Some (IntentMigrate intent) \<Rightarrow>
      case khKeys h ctx w of
        (Inl e, w1) \<Rightarrow> (Inl (st (ErrWrap opn None e)), w1)
      | (Inr keys, w1) \<Rightarrow>
      case opValidateMigration keys ctx (intentSpec (vkName req) intent) w1 of
        (Inl e, w2) \<Rightarrow> (Inl (st (ErrWrap opn None e)), w2)
      | (Inr None, w2) \<Rightarrow> (Inl (st (ErrNew opn CodeInternal ''no migration validation'')), w2)
      | (Inr (Some v), w2) \<Rightarrow> (Inr (validationToProto (khCodec h) v), w2))"

section \<open>Listing\<close>

text \<open>\<open>KEY_LIFECYCLE_STATE_UNSPECIFIED\<close> is 0.\<close>

definition listFilterMatches :: "list_keys_rpc \<Rightarrow> key_metadata \<Rightarrow> bool" where
  "listFilterMatches req md =
     (if lkProviderId req \<noteq> [] \<and> lkProviderId req \<noteq> kmProvider md then False
      else if lkPolicy req \<noteq> [] \<and> lkPolicy req \<noteq> kmPolicy md then False
      else if lkLifecycleState req \<noteq> 0 \<and> lkLifecycleState req \<noteq> kmLifecycleState md then False
      else True)"

fun readableKeys ::
  "('ctx, 'w, 'p) key_handler \<Rightarrow> 'ctx \<Rightarrow> string \<Rightarrow> list_keys_rpc \<Rightarrow> key_metadata option list
     \<Rightarrow> key_metadata list result" where
  "readableKeys h ctx opn req [] = Inr []"
| "readableKeys h ctx opn req (None # mds) = readableKeys h ctx opn req mds"
| "readableKeys h ctx opn req (Some md # mds) =
     (if \<not> listFilterMatches req md then readableKeys h ctx opn req mds
      else case khAuthorizeKey h ctx opn (kmName md) of
        Some e \<Rightarrow> if hasCode (khErrs h) CodePolicyViolation e then readableKeys h ctx opn req mds else Inl e
      | None \<Rightarrow> (case readableKeys h ctx opn req mds of Inl e \<Rightarrow> Inl e | Inr ks \<Rightarrow> Inr (md # ks)))"

text \<open>
  \<open>slices.SortFunc\<close> by name. It is not stable; \<open>sort_key\<close> is the result it has when the names
  are distinct, which the repository guarantees.
\<close>

definition visibleKeys ::
  "('ctx, 'w, 'p) key_handler \<Rightarrow> 'ctx \<Rightarrow> string \<Rightarrow> list_keys_rpc \<Rightarrow> key_metadata option list
     \<Rightarrow> key_metadata list result" where
  "visibleKeys h ctx opn req mds =
     (case readableKeys h ctx opn req mds of Inl e \<Rightarrow> Inl e | Inr ks \<Rightarrow> Inr (sort_key kmName ks))"

fun keysToProto :: "'p key_codec \<Rightarrow> key_metadata list \<Rightarrow> 'p list result" where
  "keysToProto cod [] = Inr []"
| "keysToProto cod (md # mds) =
     (case metadataToProto cod md of
        Inl e \<Rightarrow> Inl e
      | Inr p \<Rightarrow> (case keysToProto cod mds of Inl e \<Rightarrow> Inl e | Inr ps \<Rightarrow> Inr (p # ps)))"

fun plainText :: "error \<Rightarrow> string" where
  "plainText (ErrPlain s) = s"
| "plainText _ = []"

definition ListKeysRPC ::
  "('ctx, 'w, 'p) key_handler \<Rightarrow> 'ctx \<Rightarrow> list_keys_rpc \<Rightarrow> 'w \<Rightarrow> ('p list \<times> string, 'w) rpc_result" where
  "ListKeysRPC h ctx req w =
     (let listOp = keyManagementHandlerOp @ ''.ListKeys''; st = statusOf (khErrs h) in
      case lkScopeSpec req of
        Some _ \<Rightarrow> (Inl (st (ErrNew listOp CodeInvalidArgument ''filtering by scope_spec is not supported'')), w)
      | None \<Rightarrow>
      case khKeys h ctx w of
        (Inl e, w1) \<Rightarrow> (Inl (st (ErrWrap listOp None e)), w1)
      | (Inr keys, w1) \<Rightarrow>
      case opListKeys keys ctx w1 of
        (Inl e, w2) \<Rightarrow> (Inl (st (ErrWrap listOp None e)), w2)
      | (Inr mds, w2) \<Rightarrow>
      case visibleKeys h ctx listOp req mds of
        Inl e \<Rightarrow> (Inl (st e), w2)
      | Inr matched \<Rightarrow>
      case Window (int (length matched)) (lkPageSize req) (lkPageToken req) of
        Inl e \<Rightarrow> (Inl (st (ErrNew listOp CodeInvalidArgument (plainText e))), w2)
      | Inr (start, stop, next) \<Rightarrow>
      case keysToProto (khCodec h) (subslice matched start stop) of
        Inl e \<Rightarrow> (Inl (st (ErrWrap listOp None e)), w2)
      | Inr ps \<Rightarrow> (Inr (ps, next), w2))"

end
