(* ===== verification/Grpc_Keys_Properties.thy ===== *)
theory Grpc_Keys_Properties
  imports Grpc_Keys
begin

text \<open>
  Properties of the key lifecycle RPCs: authorization precedes every effect, a listing shows
  exactly the keys the caller may read, and its pages cover it.
\<close>

section \<open>Authorization is effective\<close>

definition createCheck :: "('ctx, 'w, 'p) key_handler \<Rightarrow> 'ctx \<Rightarrow> create_key_rpc \<Rightarrow> error option" where
  "createCheck h ctx req =
     (let createOp = keyManagementHandlerOp @ ''.CreateKey'' in
      case khAuthorizeKey h ctx createOp (ckName req) of
        Some e \<Rightarrow> Some e
      | None \<Rightarrow> (if ckPolicy req \<noteq> [] then khAuthorizePolicy h ctx createOp (ckPolicy req) else None))"

interpretation create_key: guarded_rpc "CreateKeyRPC h ctx" "createCheck h ctx" "khErrs h"
  for h ctx by unfold_locales (auto simp: CreateKeyRPC_def createCheck_def Let_def split: option.splits)

interpretation read_key: guarded_rpc "ReadKeyRPC h ctx"
    "\<lambda>req. khAuthorizeKey h ctx (keyManagementHandlerOp @ ''.ReadKey'') (fst req)" "khErrs h"
  for h ctx by unfold_locales (simp add: ReadKeyRPC_def Let_def)

interpretation transform_key: guarded_rpc "TransformKeyRPC h ctx"
    "\<lambda>req. khAuthorizeKey h ctx (keyManagementHandlerOp @ ''.TransformKey'') (tkName req)" "khErrs h"
  for h ctx by unfold_locales (simp add: TransformKeyRPC_def Let_def)

interpretation migrate_key: guarded_rpc "MigrateKeyRPC h ctx"
    "\<lambda>req. khAuthorizeKey h ctx (keyManagementHandlerOp @ ''.MigrateKey'') (mkName req)" "khErrs h"
  for h ctx by unfold_locales (simp add: MigrateKeyRPC_def Let_def)

interpretation validate_key: guarded_rpc "ValidateKeyOperationRPC h ctx"
    "\<lambda>req. khAuthorizeKey h ctx (keyManagementHandlerOp @ ''.ValidateKeyOperation'') (vkName req)" "khErrs h"
  for h ctx by unfold_locales (simp add: ValidateKeyOperationRPC_def Let_def)

section \<open>Listings\<close>

definition visible :: "('ctx, 'w, 'p) key_handler \<Rightarrow> 'ctx \<Rightarrow> string \<Rightarrow> list_keys_rpc \<Rightarrow> key_metadata \<Rightarrow> bool" where
  "visible h ctx opn req md \<longleftrightarrow> listFilterMatches req md \<and> khAuthorizeKey h ctx opn (kmName md) = None"

lemma readableKeys_eq:
  assumes "\<forall>n e. khAuthorizeKey h ctx opn n = Some e \<longrightarrow> hasCode (khErrs h) CodePolicyViolation e"
  shows "readableKeys h ctx opn req mds = Inr (filter (visible h ctx opn req) (List.map_filter (\<lambda>m. m) mds))"
proof (induction mds)
  case (Cons m mds)
  then show ?case using assms
    by (cases m) (auto simp: visible_def List.map_filter_simps split: option.splits)
qed (simp add: List.map_filter_simps)

lemma keysToProto_map:
  assumes "\<forall>md \<in> set mds. metadataToProto cod md = Inr (f md)"
  shows "keysToProto cod mds = Inr (map f mds)"
  using assms by (induction mds) auto

text \<open>A client that follows the page tokens of \<open>ListKeys\<close>, in a world the calls leave as it is.\<close>

fun fetch_keys ::
  "('ctx, 'w, 'p) key_handler \<Rightarrow> 'ctx \<Rightarrow> list_keys_rpc \<Rightarrow> nat \<Rightarrow> string \<Rightarrow> 'w \<Rightarrow> 'p list option" where
  "fetch_keys h ctx req 0 tok w = None"
| "fetch_keys h ctx req (Suc fuel) tok w =
     (case ListKeysRPC h ctx (req\<lparr>lkPageToken := tok\<rparr>) w of
        (Inl e, w1) \<Rightarrow> None
      | (Inr (ps, next), w1) \<Rightarrow>
          if next = [] then Some ps
          else (case fetch_keys h ctx req fuel next w1 of None \<Rightarrow> None | Some qs \<Rightarrow> Some (ps @ qs)))"

lemma visible_token [simp]: "visible h ctx opn (req\<lparr>lkPageToken := tok\<rparr>) = visible h ctx opn req"
  by (simp add: visible_def listFilterMatches_def fun_eq_iff)

definition listing :: "('ctx, 'w, 'p) key_handler \<Rightarrow> 'ctx \<Rightarrow> list_keys_rpc \<Rightarrow> key_metadata option list \<Rightarrow> key_metadata list" where
  "listing h ctx req mds =
     sort_key kmName (filter (visible h ctx (keyManagementHandlerOp @ ''.ListKeys'') req) (List.map_filter (\<lambda>m. m) mds))"

lemma ListKeysRPC_page:
  assumes "khKeys h ctx w = (Inr keys, w)" "opListKeys keys ctx w = (Inr mds, w)" "lkScopeSpec req = None"
    and "\<forall>n opn e. khAuthorizeKey h ctx opn n = Some e \<longrightarrow> hasCode (khErrs h) CodePolicyViolation e"
    and "\<forall>md. Some md \<in> set mds \<longrightarrow> metadataToProto (khCodec h) md = Inr (f md)"
    and "Window (int (length (listing h ctx req mds))) (lkPageSize req) tok = Inr (start, stop, tok')"
  shows "ListKeysRPC h ctx (req\<lparr>lkPageToken := tok\<rparr>) w =
    (Inr (map f (subslice (listing h ctx req mds) start stop), tok'), w)"
proof -
  have "readableKeys h ctx (keyManagementHandlerOp @ ''.ListKeys'') (req\<lparr>lkPageToken := tok\<rparr>) mds =
      Inr (filter (visible h ctx (keyManagementHandlerOp @ ''.ListKeys'') req) (List.map_filter (\<lambda>m. m) mds))"
    using readableKeys_eq [of h ctx "keyManagementHandlerOp @ ''.ListKeys''" "req\<lparr>lkPageToken := tok\<rparr>" mds] assms(4)
    by simp
  then have v: "visibleKeys h ctx (keyManagementHandlerOp @ ''.ListKeys'') (req\<lparr>lkPageToken := tok\<rparr>) mds = Inr (listing h ctx req mds)"
    by (simp add: visibleKeys_def listing_def)
  have "set (subslice (listing h ctx req mds) start stop) \<subseteq> {md. Some md \<in> set mds}"
    using subslice_subset by (fastforce simp: listing_def List.map_filter_def)
  then have "keysToProto (khCodec h) (subslice (listing h ctx req mds) start stop) =
      Inr (map f (subslice (listing h ctx req mds) start stop))"
    by (intro keysToProto_map) (use assms(5) in auto)
  with v assms(1-3,6) show ?thesis by (simp add: ListKeysRPC_def Let_def)
qed

lemma fetch_keys_eq:
  assumes "khKeys h ctx w = (Inr keys, w)" "opListKeys keys ctx w = (Inr mds, w)" "lkScopeSpec req = None"
    and "\<forall>n opn e. khAuthorizeKey h ctx opn n = Some e \<longrightarrow> hasCode (khErrs h) CodePolicyViolation e"
    and "\<forall>md. Some md \<in> set mds \<longrightarrow> metadataToProto (khCodec h) md = Inr (f md)"
    and "fetch_all Window fuel (listing h ctx req mds) (lkPageSize req) tok = Some xs"
  shows "fetch_keys h ctx req fuel tok w = Some (map f xs)"
  using assms(6)
proof (induction fuel arbitrary: tok xs)
  case (Suc fuel)
  from Suc.prems obtain start stop tok' where
    win: "Window (int (length (listing h ctx req mds))) (lkPageSize req) tok = Inr (start, stop, tok')"
    by (auto split: sum.splits)
  note page = ListKeysRPC_page [OF assms(1-5) win]
  show ?case
  proof (cases "tok' = []")
    case True
    with Suc.prems win page show ?thesis by simp
  next
    case False
    with Suc.prems win obtain rest where
      r: "fetch_all Window fuel (listing h ctx req mds) (lkPageSize req) tok' = Some rest"
        "xs = subslice (listing h ctx req mds) start stop @ rest" by auto
    with Suc.IH [OF r(1)] page False show ?thesis by simp
  qed
qed simp

section \<open>Properties\<close>

text \<open>
  C31: A client that follows the page tokens of \<open>ListKeys\<close> receives the metadata of exactly the
  keys that match its filters and that it may read, ordered by name, without gaps or repeats,
  in at most one more request than there are keys.
\<close>

theorem ListKeys_pages_cover_visible:
  assumes "khKeys h ctx w = (Inr keys, w)" "opListKeys keys ctx w = (Inr mds, w)" "lkScopeSpec req = None"
    and "\<forall>n opn e. khAuthorizeKey h ctx opn n = Some e \<longrightarrow> hasCode (khErrs h) CodePolicyViolation e"
    and "\<forall>md. Some md \<in> set mds \<longrightarrow> metadataToProto (khCodec h) md = Inr (f md)"
    and "0 \<le> sint (lkPageSize req)" "int (length mds) < 2 ^ 63" "length mds < fuel"
  shows "\<exists>ks. fetch_keys h ctx req fuel [] w = Some (map f ks) \<and> sorted (map kmName ks) \<and>
    mset ks = mset (filter (\<lambda>md. listFilterMatches req md \<and>
      khAuthorizeKey h ctx (keyManagementHandlerOp @ ''.ListKeys'') (kmName md) = None) (List.map_filter (\<lambda>m. m) mds))"
proof -
  let ?L = "listing h ctx req mds"
  have "length ?L \<le> length (List.map_filter (\<lambda>m. m) mds)" by (simp add: listing_def)
  also have "\<dots> \<le> length mds" by (simp add: List.map_filter_def)
  finally have "length ?L \<le> length mds" .
  then have "fetch_all Window fuel ?L (lkPageSize req) [] = Some ?L"
    using window.fetch_all_complete [of "lkPageSize req" ?L fuel] assms(6-8) by simp
  from fetch_keys_eq [OF assms(1-5) this]
  have "fetch_keys h ctx req fuel [] w = Some (map f ?L)" .
  then show ?thesis
    by (intro exI [of _ ?L]) (simp add: listing_def visible_def [abs_def])
qed

text \<open>
  The matching keys of what the orchestrator returned, in its order, and the errors of their checks
  that are not policy violations.
\<close>

definition matchingKeys :: "list_keys_rpc \<Rightarrow> key_metadata option list \<Rightarrow> key_metadata list" where
  "matchingKeys req mds = filter (listFilterMatches req) (List.map_filter (\<lambda>m. m) mds)"

definition checkErrors ::
  "('ctx, 'w, 'p) key_handler \<Rightarrow> 'ctx \<Rightarrow> string \<Rightarrow> key_metadata list \<Rightarrow> error list" where
  "checkErrors h ctx opn mds =
     filter (\<lambda>e. \<not> hasCode (khErrs h) CodePolicyViolation e) (List.map_filter (\<lambda>md. khAuthorizeKey h ctx opn (kmName md)) mds)"

lemma readableKeys_exact:
  "readableKeys h ctx opn req mds =
     (case checkErrors h ctx opn (matchingKeys req mds) of
        e # _ \<Rightarrow> Inl e
      | [] \<Rightarrow> Inr (filter (\<lambda>md. khAuthorizeKey h ctx opn (kmName md) = None) (matchingKeys req mds)))"
  by (induction h ctx opn req mds rule: readableKeys.induct)
    (auto simp: matchingKeys_def checkErrors_def List.map_filter_simps split: option.splits sum.splits list.splits)

text \<open>
  C10: A listing shows exactly the matching keys whose name the caller may read, sorted by name: a
  key is hidden only by a policy violation, and the first check that fails in another way makes the
  listing fail with its error.
\<close>

theorem visibleKeys_exact:
  "visibleKeys h ctx opn req mds =
     (case checkErrors h ctx opn (matchingKeys req mds) of
        e # _ \<Rightarrow> Inl e
      | [] \<Rightarrow> Inr (sort_key kmName
          (filter (\<lambda>md. khAuthorizeKey h ctx opn (kmName md) = None) (matchingKeys req mds))))"
  by (simp add: visibleKeys_def readableKeys_exact split: list.splits)

text \<open>
  C9: A key is created only for a caller who may use both its name and the policy it names, and
  only when no field the server would drop is set; a refused request leaves the world as it was.
\<close>

theorem CreateKeyRPC_authorized:
  assumes "CreateKeyRPC h ctx req w = (res, w')" "\<not> isl res \<or> w' \<noteq> w"
  shows "khAuthorizeKey h ctx (keyManagementHandlerOp @ ''.CreateKey'') (ckName req) = None \<and>
    (ckPolicy req = [] \<or> khAuthorizePolicy h ctx (keyManagementHandlerOp @ ''.CreateKey'') (ckPolicy req) = None) \<and>
    ckProviderConfiguration req = [] \<and> ckActivationTime req = None \<and> ckExpirationTime req = None"
proof -
  have "createCheck h ctx req = None"
    using create_key.success_authorized [of h ctx req w] create_key.effect_authorized [of h ctx req w] assms
    by (cases res) auto
  moreover have "rejectUnconsumedCreateFields (keyManagementHandlerOp @ ''.CreateKey'') req = None"
    using assms calculation
    by (cases "rejectUnconsumedCreateFields (keyManagementHandlerOp @ ''.CreateKey'') req")
       (auto simp: CreateKeyRPC_def createCheck_def Let_def split: option.splits if_splits)
  ultimately show ?thesis
    by (auto simp: createCheck_def Let_def rejectUnconsumedCreateFields_def split: option.splits if_splits)
qed

section \<open>Examples\<close>

definition demo_md :: "string \<Rightarrow> key_metadata" where
  "demo_md n = \<lparr>kmName = n, kmVersion = 1, kmTemplateID = ''t'', kmProvider = ''p'', kmPolicy = ''pol'',
     kmLifecycleState = 1, kmSecurityGuarantees = None, kmOther = []\<rparr>"

definition demo_key_ops :: "(unit, nat) key_ops" where
  "demo_key_ops =
     \<lparr>opCreateKey = (\<lambda>_ spec n. (Inr (demo_md (csName spec)), n + 1)),
      opReadKey = (\<lambda>_ name _ n. (Inr (demo_md name), n)),
      opTransformKey = (\<lambda>_ spec n. (Inr (demo_md (tsKeyName spec)), n + 1)),
      opMigrateKey = (\<lambda>_ spec n. (Inr (msKeyName spec), n + 1)),
      opValidateMigration = (\<lambda>_ _ n. (Inr None, n)),
      opListKeys = (\<lambda>_ n. (Inr [Some (demo_md ''c''), None, Some (demo_md ''a''), Some (demo_md ''b'')], n))\<rparr>"

definition demo_codec :: "string key_codec" where
  "demo_codec = \<lparr>scopeSpecFromProto = Inr, providerRequirementsFromProto = Inr,
     metadataToProto = (\<lambda>md. Inr (kmName md)), implementationProperties = (\<lambda>_. None),
     migrateFromProto = (\<lambda>r. Inr \<lparr>msKeyName = mkName r, msTargetInstanceID = [], msTargetProviderID = [], msStrategy = 0\<rparr>),
     migrationToProto = Inr, validationToProto = (\<lambda>v. v)\<rparr>"

definition demo_key_handler :: "(unit, nat, string) key_handler" where
  "demo_key_handler = \<lparr>khErrs = ref_errors, khCodec = demo_codec, khKeys = (\<lambda>_ n. (Inr demo_key_ops, n)),
     khAuthorizeKey = (\<lambda>_ opn n. if n = ''b'' then Some (ErrNew opn CodePolicyViolation ''no'') else None),
     khAuthorizePolicy = (\<lambda>_ _ _. None)\<rparr>"

definition demo_list_rpc :: list_keys_rpc where
  "demo_list_rpc = \<lparr>lkProviderId = [], lkPolicy = ''pol'', lkLifecycleState = 0, lkScopeSpec = None,
     lkPageSize = 1, lkPageToken = []\<rparr>"

theorem ListKeys_pages_cover_visible_witness:
  "\<exists>ks. fetch_keys demo_key_handler () demo_list_rpc 9 [] 0 = Some (map kmName ks) \<and>
     mset ks = {#demo_md ''a'', demo_md ''c''#}"
proof -
  let ?mds = "[Some (demo_md ''c''), None, Some (demo_md ''a''), Some (demo_md ''b'')]"
  have "khKeys demo_key_handler () 0 = (Inr demo_key_ops, 0)" "opListKeys demo_key_ops () 0 = (Inr ?mds, 0)"
    "lkScopeSpec demo_list_rpc = None"
    "\<forall>n opn e. khAuthorizeKey demo_key_handler () opn n = Some e \<longrightarrow> hasCode (khErrs demo_key_handler) CodePolicyViolation e"
    "\<forall>md. Some md \<in> set ?mds \<longrightarrow> metadataToProto (khCodec demo_key_handler) md = Inr (kmName md)"
    "0 \<le> sint (lkPageSize demo_list_rpc)" "int (length ?mds) < 2 ^ 63" "length ?mds < 9"
    by (simp_all add: demo_key_handler_def demo_key_ops_def demo_codec_def demo_list_rpc_def)
  from ListKeys_pages_cover_visible [OF this] obtain ks where
    ks: "fetch_keys demo_key_handler () demo_list_rpc 9 [] 0 = Some (map kmName ks)"
    "mset ks = mset (filter (\<lambda>md. listFilterMatches demo_list_rpc md \<and>
      khAuthorizeKey demo_key_handler () (keyManagementHandlerOp @ ''.ListKeys'') (kmName md) = None)
      (List.map_filter (\<lambda>m. m) ?mds))" by blast
  have "mset ks = {#demo_md ''a'', demo_md ''c''#}"
    unfolding ks(2) by (simp add: List.map_filter_simps listFilterMatches_def demo_list_rpc_def
      demo_key_handler_def demo_md_def add_mset_commute)
  with ks(1) show ?thesis by blast
qed

theorem CreateKeyRPC_authorized_witness:
  "let req = \<lparr>ckName = ''a'', ckPolicy = ''pol'', ckProviderId = [], ckTemplateId = Some ''t'', ckScopeSpec = None,
        ckProviderRequirements = None, ckProviderConfiguration = [], ckActivationTime = None, ckExpirationTime = None\<rparr>
   in \<not> isl (fst (CreateKeyRPC demo_key_handler () req 0)) \<and>
      khAuthorizeKey demo_key_handler () (keyManagementHandlerOp @ ''.CreateKey'') (ckName req) = None"
proof -
  let ?req = "\<lparr>ckName = ''a'', ckPolicy = ''pol'', ckProviderId = [], ckTemplateId = Some ''t'', ckScopeSpec = None,
        ckProviderRequirements = None, ckProviderConfiguration = [], ckActivationTime = None, ckExpirationTime = None\<rparr>"
  have ok: "\<not> isl (fst (CreateKeyRPC demo_key_handler () ?req 0))" by code_simp
  with CreateKeyRPC_authorized [of demo_key_handler "()" ?req 0, OF surjective_pairing] show ?thesis
    by (simp add: Let_def)
qed

end
