(* ===== verification/Grpc_Policy.thy ===== *)
theory Grpc_Policy
  imports Grpc_Common
begin

text \<open>
  The policy document RPCs of \<open>internal/grpc/policy\<close>. The policy engine and the type of
  policies \<open>'pol\<close> belong to citius-core; what the handler uses of them is \<open>policy_ops\<close> and
  \<open>policy_pkg\<close>.
\<close>

record 'pol policy_pkg =
  newPolicy :: "string \<Rightarrow> string \<Rightarrow> string \<Rightarrow> 'pol"
  polName :: "'pol \<Rightarrow> string"
  polRulesJSON :: "'pol \<Rightarrow> string"
  polVersion :: "'pol \<Rightarrow> 32 word"
  polCreateTime :: "'pol \<Rightarrow> int option"
  polUpdateTime :: "'pol \<Rightarrow> int option"
  polQuote :: "string \<Rightarrow> string"

record ('ctx, 'w, 'pol) policy_ops =
  opCreatePolicy :: "'ctx \<Rightarrow> 'pol \<Rightarrow> 'w \<Rightarrow> 'pol result \<times> 'w"
  opGetPolicy :: "'ctx \<Rightarrow> string \<Rightarrow> 'w \<Rightarrow> 'pol result \<times> 'w"
  opUpdatePolicy :: "'ctx \<Rightarrow> 'pol \<Rightarrow> 32 word \<Rightarrow> 'w \<Rightarrow> 'pol result \<times> 'w"

record ('ctx, 'w, 'pol) policy_handler =
  phErrs :: errors_pkg
  phPkg :: "'pol policy_pkg"
  phPolicy :: "'ctx \<Rightarrow> 'w \<Rightarrow> ('ctx, 'w, 'pol) policy_ops result \<times> 'w"
  phAuthorizePolicy :: "'ctx \<Rightarrow> string \<Rightarrow> string \<Rightarrow> error option"

record write_policy_rpc =
  wpName :: string
  wpPolicyDocument :: string
  wpFormat :: string
  wpExpectedVersion :: "32 word"

record write_policy_response =
  wrSuccess :: bool
  wrMessage :: string
  wrVersion :: "32 word"

record read_policy_response =
  rpName :: string
  rpPolicyDocument :: string
  rpFormat :: string
  rpVersion :: "32 word"
  rpCreatedAt :: "int option"
  rpUpdatedAt :: "int option"

definition cryptoPolicyHandlerOp :: string where "cryptoPolicyHandlerOp = ''grpc.(CryptoPolicyHandler)''"
definition policyFormatJSON :: string where "policyFormatJSON = ''json''"

definition New_policy ::
  "('ctx \<Rightarrow> 'w \<Rightarrow> ('ctx, 'w, 'pol) policy_ops result \<times> 'w) option
     \<Rightarrow> ('ctx \<Rightarrow> string \<Rightarrow> string \<Rightarrow> error option) option \<Rightarrow> errors_pkg \<Rightarrow> 'pol policy_pkg
     \<Rightarrow> ('ctx, 'w, 'pol) policy_handler result" where
  "New_policy newPol authorizePolicy P K =
     (case newPol of
        None \<Rightarrow> Inl (ErrNew ''grpc/policy.New'' CodeInvalidArgument ''policy engine factory is required'')
      | Some f \<Rightarrow>
          (case authorizePolicy of
             None \<Rightarrow> Inl (ErrNew ''grpc/policy.New'' CodeInvalidArgument
               ''policy authorization check is required; pass a check that always returns nil to run without authorization'')
           | Some a \<Rightarrow> Inr \<lparr>phErrs = P, phPkg = K, phPolicy = f, phAuthorizePolicy = a\<rparr>))"

definition checkFormat :: "(string \<Rightarrow> string) \<Rightarrow> string \<Rightarrow> string \<Rightarrow> error option" where
  "checkFormat quote opn format =
     (if format = [] \<or> format = policyFormatJSON then None
      else Some (ErrNew opn CodeInvalidArgument
             (''unsupported policy format '' @ quote format @ '': only '' @ quote policyFormatJSON @ '' is supported'')))"

definition CreateCryptoPolicy ::
  "('ctx, 'w, 'pol) policy_handler \<Rightarrow> 'ctx \<Rightarrow> write_policy_rpc \<Rightarrow> 'w \<Rightarrow> (write_policy_response, 'w) rpc_result" where
  "CreateCryptoPolicy h ctx req w =
     (let createOp = cryptoPolicyHandlerOp @ ''.CreateCryptoPolicy''; st = statusOf (phErrs h); K = phPkg h in
      if wpName req = [] then (Inl (st (ErrNew createOp CodeInvalidArgument ''name is required'')), w)
      else
      case phAuthorizePolicy h ctx createOp (wpName req) of
        Some e \<Rightarrow> (Inl (st e), w)
      | None \<Rightarrow>
      case checkFormat (polQuote K) createOp (wpFormat req) of
        Some e \<Rightarrow> (Inl (st e), w)
      | None \<Rightarrow>
      case phPolicy h ctx w of
        (Inl e, w1) \<Rightarrow> (Inl (st (ErrWrap createOp None e)), w1)
      | (Inr engine, w1) \<Rightarrow>
      case opCreatePolicy engine ctx (newPolicy K (wpName req) (wpName req) (wpPolicyDocument req)) w1 of
        (Inl e, w2) \<Rightarrow> (Inl (st (ErrWrap createOp None e)), w2)
      | (Inr created, w2) \<Rightarrow>
          (Inr \<lparr>wrSuccess = True, wrMessage = ''policy created'', wrVersion = polVersion K created\<rparr>, w2))"

definition ReadCryptoPolicy ::
  "('ctx, 'w, 'pol) policy_handler \<Rightarrow> 'ctx \<Rightarrow> string \<Rightarrow> 'w \<Rightarrow> (read_policy_response, 'w) rpc_result" where
  "ReadCryptoPolicy h ctx name w =
     (let readOp = cryptoPolicyHandlerOp @ ''.ReadCryptoPolicy''; st = statusOf (phErrs h); K = phPkg h in
      if name = [] then (Inl (st (ErrNew readOp CodeInvalidArgument ''name is required'')), w)
      else
      case phAuthorizePolicy h ctx readOp name of
        Some e \<Rightarrow> (Inl (st e), w)
      | None \<Rightarrow>
      case phPolicy h ctx w of
        (Inl e, w1) \<Rightarrow> (Inl (st (ErrWrap readOp None e)), w1)
      | (Inr engine, w1) \<Rightarrow>
      case opGetPolicy engine ctx name w1 of
        (Inl e, w2) \<Rightarrow> (Inl (st (ErrWrap readOp None e)), w2)
      | (Inr p, w2) \<Rightarrow>
          (Inr \<lparr>rpName = polName K p, rpPolicyDocument = polRulesJSON K p, rpFormat = policyFormatJSON,
                rpVersion = polVersion K p, rpCreatedAt = polCreateTime K p, rpUpdatedAt = polUpdateTime K p\<rparr>, w2))"

definition UpdateCryptoPolicy ::
  "('ctx, 'w, 'pol) policy_handler \<Rightarrow> 'ctx \<Rightarrow> write_policy_rpc \<Rightarrow> 'w \<Rightarrow> (write_policy_response, 'w) rpc_result" where
  "UpdateCryptoPolicy h ctx req w =
     (let updateOp = cryptoPolicyHandlerOp @ ''.UpdateCryptoPolicy''; st = statusOf (phErrs h); K = phPkg h in
      if wpName req = [] then (Inl (st (ErrNew updateOp CodeInvalidArgument ''name is required'')), w)
      else
      case phAuthorizePolicy h ctx updateOp (wpName req) of
        Some e \<Rightarrow> (Inl (st e), w)
      | None \<Rightarrow>
      case checkFormat (polQuote K) updateOp (wpFormat req) of
        Some e \<Rightarrow> (Inl (st e), w)
      | None \<Rightarrow>
      case phPolicy h ctx w of
        (Inl e, w1) \<Rightarrow> (Inl (st (ErrWrap updateOp None e)), w1)
      | (Inr engine, w1) \<Rightarrow>
      case opUpdatePolicy engine ctx (newPolicy K (wpName req) (wpName req) (wpPolicyDocument req))
             (wpExpectedVersion req) w1 of
        (Inl e, w2) \<Rightarrow> (Inl (st (ErrWrap updateOp None e)), w2)
      | (Inr updated, w2) \<Rightarrow>
          (Inr \<lparr>wrSuccess = True, wrMessage = ''policy updated'', wrVersion = polVersion K updated\<rparr>, w2))"

text \<open>The whole guard of a policy write: the name, the caller, the format.\<close>

definition policyWriteCheck :: "('ctx, 'w, 'pol) policy_handler \<Rightarrow> 'ctx \<Rightarrow> string \<Rightarrow> write_policy_rpc \<Rightarrow> error option" where
  "policyWriteCheck h ctx opn req =
     (if wpName req = [] then Some (ErrNew opn CodeInvalidArgument ''name is required'')
      else case phAuthorizePolicy h ctx opn (wpName req) of
        Some e \<Rightarrow> Some e
      | None \<Rightarrow> checkFormat (polQuote (phPkg h)) opn (wpFormat req))"

interpretation create_policy: guarded_rpc "CreateCryptoPolicy h ctx"
    "policyWriteCheck h ctx (cryptoPolicyHandlerOp @ ''.CreateCryptoPolicy'')" "phErrs h"
  for h ctx
  by unfold_locales (auto simp: CreateCryptoPolicy_def policyWriteCheck_def Let_def split: option.splits if_splits)

interpretation update_policy: guarded_rpc "UpdateCryptoPolicy h ctx"
    "policyWriteCheck h ctx (cryptoPolicyHandlerOp @ ''.UpdateCryptoPolicy'')" "phErrs h"
  for h ctx
  by unfold_locales (auto simp: UpdateCryptoPolicy_def policyWriteCheck_def Let_def split: option.splits if_splits)

text \<open>
  C32: A policy document is written, by creation or update, only under a non-empty name the caller
  may use and in a format the server reads.
\<close>

theorem policy_writes_guarded:
  assumes "rpc = CreateCryptoPolicy \<and> opn = cryptoPolicyHandlerOp @ ''.CreateCryptoPolicy'' \<or>
           rpc = UpdateCryptoPolicy \<and> opn = cryptoPolicyHandlerOp @ ''.UpdateCryptoPolicy''"
    and "rpc h ctx req w = (res, w')" "\<not> isl res \<or> w' \<noteq> w"
  shows "wpName req \<noteq> [] \<and> phAuthorizePolicy h ctx opn (wpName req) = None \<and> wpFormat req \<in> {[], ''json''}"
proof -
  have "policyWriteCheck h ctx opn req = None"
    using assms create_policy.success_authorized [of h ctx req w] create_policy.effect_authorized [of h ctx req w]
      update_policy.success_authorized [of h ctx req w] update_policy.effect_authorized [of h ctx req w]
    by (cases res) auto
  then show ?thesis
    by (auto simp: policyWriteCheck_def checkFormat_def policyFormatJSON_def split: if_splits option.splits)
qed

definition demo_policy_handler :: "(unit, nat, string \<times> string) policy_handler" where
  "demo_policy_handler = \<lparr>phErrs = ref_errors,
     phPkg = \<lparr>newPolicy = (\<lambda>i n d. (n, d)), polName = fst, polRulesJSON = snd, polVersion = (\<lambda>_. 1),
       polCreateTime = (\<lambda>_. None), polUpdateTime = (\<lambda>_. None), polQuote = (\<lambda>s. s)\<rparr>,
     phPolicy = (\<lambda>_ n. (Inr \<lparr>opCreatePolicy = (\<lambda>_ p n. (Inr p, n + 1)), opGetPolicy = (\<lambda>_ m n. (Inr (m, []), n)),
       opUpdatePolicy = (\<lambda>_ p _ n. (Inr p, n + 1))\<rparr>, n)),
     phAuthorizePolicy = (\<lambda>_ opn n. if n = ''x'' then Some (ErrNew opn CodePolicyViolation ''no'') else None)\<rparr>"

theorem policy_writes_guarded_witness:
  "let req = \<lparr>wpName = ''p'', wpPolicyDocument = ''{}'', wpFormat = ''json'', wpExpectedVersion = 0\<rparr>
   in snd (CreateCryptoPolicy demo_policy_handler () req 0) = 1 \<and>
      phAuthorizePolicy demo_policy_handler () (cryptoPolicyHandlerOp @ ''.CreateCryptoPolicy'') (wpName req) = None"
proof -
  let ?req = "\<lparr>wpName = ''p'', wpPolicyDocument = ''{}'', wpFormat = ''json'', wpExpectedVersion = 0\<rparr>"
  have 1: "snd (CreateCryptoPolicy demo_policy_handler () ?req 0) = 1" by code_simp
  with policy_writes_guarded [of CreateCryptoPolicy "cryptoPolicyHandlerOp @ ''.CreateCryptoPolicy''"
      demo_policy_handler "()" ?req 0, OF _ surjective_pairing]
  show ?thesis by (simp add: Let_def)
qed

end
