(* ===== verification/Grpc_Catalog.thy ===== *)
theory Grpc_Catalog
  imports Grpc_Common Paging
begin

text \<open>
  The read-only catalogue RPCs: templates and scopes (\<open>internal/grpc/discovery\<close>), providers and
  their instances (\<open>internal/grpc/provider\<close>). The registries, scopes, backends and the ranking
  of backends belong to citius-core; what the handlers use of them is \<open>scope_pkg\<close> and
  \<open>backend_pkg\<close>. A nil template and a template without an entry are both \<^const>\<open>None\<close>: every
  use treats them alike. The errors of a page that \<open>Window\<close> refuses carry its text.
\<close>

definition pageError :: "string \<Rightarrow> error \<Rightarrow> error" where
  "pageError opn e = ErrNew opn CodeInvalidArgument (case e of ErrPlain s \<Rightarrow> s | _ \<Rightarrow> [])"

section \<open>Templates\<close>

record template_info =
  tiTemplateId :: string
  tiStatus :: int
  tiStandards :: "string list"
  tiScopedCapabilities :: "(string option \<times> int list) list"
  tiOther :: string

record 'sc scope_pkg =
  scSpecFromProto :: "string \<Rightarrow> 'sc result"
  scIsValid :: "'sc \<Rightarrow> bool"
  scString :: "'sc \<Rightarrow> string"
  scListScopes :: "'sc list"
  scNewSpecification :: "'sc \<Rightarrow> string result"
  scSpecToProto :: "string \<Rightarrow> string result"
  scMatchesScope :: "template_info \<Rightarrow> 'sc \<Rightarrow> bool result"

text \<open>The template registry of a request: \<open>Get\<close> and \<open>List\<close>.\<close>

record template_registry =
  regGet :: "string \<Rightarrow> template_info option result"
  regList :: "template_info option list"

record ('ctx, 'sc) discovery_handler =
  dhErrs :: errors_pkg
  dhScopes :: "'sc scope_pkg"
  dhTemplates :: "'ctx \<Rightarrow> template_registry result"

definition algorithmDiscoveryHandlerOp :: string where
  "algorithmDiscoveryHandlerOp = ''grpc.(AlgorithmDiscoveryHandler)''"

definition New_discovery ::
  "('ctx \<Rightarrow> template_registry result) option \<Rightarrow> errors_pkg \<Rightarrow> 'sc scope_pkg \<Rightarrow> ('ctx, 'sc) discovery_handler result" where
  "New_discovery newTemplates P K =
     (case newTemplates of
        None \<Rightarrow> Inl (ErrNew ''grpc/discovery.New'' CodeInvalidArgument ''template registry factory is required'')
      | Some f \<Rightarrow> Inr \<lparr>dhErrs = P, dhScopes = K, dhTemplates = f\<rparr>)"

definition GetTemplateRPC :: "('ctx, 'sc) discovery_handler \<Rightarrow> 'ctx \<Rightarrow> string \<Rightarrow> status + template_info" where
  "GetTemplateRPC h ctx templateId =
     (let opn = algorithmDiscoveryHandlerOp @ ''.GetTemplate''; st = statusOf (dhErrs h) in
      if templateId = [] then Inl (st (ErrNew opn CodeInvalidArgument ''template_id is required''))
      else case dhTemplates h ctx of
        Inl e \<Rightarrow> Inl (st (ErrWrap opn None e))
      | Inr reg \<Rightarrow>
          (case regGet reg templateId of
             Inl e \<Rightarrow> Inl (st (ErrWrap opn None e))
           | Inr None \<Rightarrow> Inl (st (ErrNew opn CodeTemplateNotFound (''template not found: '' @ templateId)))
           | Inr (Some t) \<Rightarrow> Inr t))"

record list_templates_rpc =
  ltScopeSpec :: "string option"
  ltAllowedStatuses :: "int list"
  ltRequiredStandards :: "string list"
  ltPageSize :: "32 word"
  ltPageToken :: string

definition templateMatches ::
  "'sc scope_pkg \<Rightarrow> list_templates_rpc \<Rightarrow> 'sc option \<Rightarrow> template_info option \<Rightarrow> bool result" where
  "templateMatches K req want t =
     (case t of
        None \<Rightarrow> Inr False
      | Some info \<Rightarrow>
          if length (ltAllowedStatuses req) > 0 \<and> tiStatus info \<notin> set (ltAllowedStatuses req) then Inr False
          else if list_ex (\<lambda>std. std \<notin> set (tiStandards info)) (ltRequiredStandards req) then Inr False
          else case want of None \<Rightarrow> Inr True | Some s \<Rightarrow> scMatchesScope K info s)"

fun matchTemplates ::
  "'sc scope_pkg \<Rightarrow> list_templates_rpc \<Rightarrow> 'sc option \<Rightarrow> template_info option list \<Rightarrow> template_info list result" where
  "matchTemplates K req want [] = Inr []"
| "matchTemplates K req want (t # ts) =
     (case templateMatches K req want t of
        Inl e \<Rightarrow> Inl e
      | Inr ok \<Rightarrow>
          (case matchTemplates K req want ts of
             Inl e \<Rightarrow> Inl e
           | Inr ms \<Rightarrow> Inr (case t of None \<Rightarrow> ms | Some info \<Rightarrow> if ok then info # ms else ms)))"

definition ListTemplates ::
  "('ctx, 'sc) discovery_handler \<Rightarrow> 'ctx \<Rightarrow> list_templates_rpc \<Rightarrow> status + template_info list \<times> string" where
  "ListTemplates h ctx req =
     (let opn = algorithmDiscoveryHandlerOp @ ''.ListTemplates''; st = statusOf (dhErrs h); K = dhScopes h in
      case (case ltScopeSpec req of
              None \<Rightarrow> Inr None
            | Some sp \<Rightarrow> (case scSpecFromProto K sp of Inl e \<Rightarrow> Inl e | Inr s \<Rightarrow> Inr (Some s))) of
        Inl e \<Rightarrow> Inl (st (ErrWrap opn (Some ''invalid scope_spec'') e))
      | Inr want \<Rightarrow>
      case dhTemplates h ctx of
        Inl e \<Rightarrow> Inl (st (ErrWrap opn None e))
      | Inr reg \<Rightarrow>
      case matchTemplates K req want (regList reg) of
        Inl e \<Rightarrow> Inl (st (ErrWrap opn None e))
      | Inr ms \<Rightarrow>
      let matched = sort_key tiTemplateId ms in
      case Window (int (length matched)) (ltPageSize req) (ltPageToken req) of
        Inl e \<Rightarrow> Inl (st (pageError opn e))
      | Inr (start, stop, next) \<Rightarrow> Inr (subslice matched start stop, next))"

section \<open>Scopes\<close>

definition templateScope :: "'sc scope_pkg \<Rightarrow> string \<Rightarrow> string \<Rightarrow> 'sc result" where
  "templateScope K templateId scope =
     (let opn = algorithmDiscoveryHandlerOp @ ''.templateScope'' in
      case scSpecFromProto K scope of
        Inl e \<Rightarrow> Inl (ErrNew opn CodeInternal
                 (''template '' @ templateId @ '' has a scope this server cannot read''))
      | Inr s \<Rightarrow>
          if \<not> scIsValid K s
          then Inl (ErrNew opn CodeInternal (''template '' @ templateId @ '' has an unknown scope''))
          else Inr s)"

text \<open>\<open>append(ops, o)\<close> for each operation not yet there.\<close>

definition addOperations :: "int list \<Rightarrow> int list \<Rightarrow> int list" where
  "addOperations ops new = fold (\<lambda>o1 acc. if o1 \<in> set acc then acc else acc @ [o1]) new ops"

fun offeredByCaps ::
  "'sc scope_pkg \<Rightarrow> string \<Rightarrow> (string option \<times> int list) list \<Rightarrow> ('sc \<rightharpoonup> int list) \<Rightarrow> ('sc \<rightharpoonup> int list) result" where
  "offeredByCaps K tid [] offered = Inr offered"
| "offeredByCaps K tid ((sc, ops) # caps) offered =
     (case sc of
        None \<Rightarrow> offeredByCaps K tid caps offered
      | Some scope \<Rightarrow>
          (case templateScope K tid scope of
             Inl e \<Rightarrow> Inl e
           | Inr s \<Rightarrow>
               offeredByCaps K tid caps
                 (offered(s \<mapsto> addOperations (case offered s of None \<Rightarrow> [] | Some os \<Rightarrow> os) ops))))"

fun offeredScopes ::
  "'sc scope_pkg \<Rightarrow> template_info option list \<Rightarrow> ('sc \<rightharpoonup> int list) \<Rightarrow> ('sc \<rightharpoonup> int list) result" where
  "offeredScopes K [] offered = Inr offered"
| "offeredScopes K (None # ts) offered = offeredScopes K ts offered"
| "offeredScopes K (Some t # ts) offered =
     (case offeredByCaps K (tiTemplateId t) (tiScopedCapabilities t) offered of
        Inl e \<Rightarrow> Inl e
      | Inr offered' \<Rightarrow> offeredScopes K ts offered')"

record scope_info =
  siSpecification :: string
  siName :: string
  siSupportedOperations :: "int list"

definition scopeInfo :: "'sc scope_pkg \<Rightarrow> 'sc \<Rightarrow> int list \<Rightarrow> scope_info result" where
  "scopeInfo K s ops =
     (case scNewSpecification K s of
        Inl e \<Rightarrow> Inl e
      | Inr spec \<Rightarrow>
          (case scSpecToProto K spec of
             Inl e \<Rightarrow> Inl e
           | Inr p \<Rightarrow> Inr \<lparr>siSpecification = p, siName = scString K s, siSupportedOperations = sort ops\<rparr>))"

fun describeScopes :: "'sc scope_pkg \<Rightarrow> ('sc \<rightharpoonup> int list) \<Rightarrow> 'sc list \<Rightarrow> scope_info list result" where
  "describeScopes K offered [] = Inr []"
| "describeScopes K offered (s # ss) =
     (case offered s of
        None \<Rightarrow> describeScopes K offered ss
      | Some ops \<Rightarrow>
          (case scopeInfo K s ops of
             Inl e \<Rightarrow> Inl e
           | Inr i \<Rightarrow> (case describeScopes K offered ss of Inl e \<Rightarrow> Inl e | Inr is \<Rightarrow> Inr (i # is))))"

definition ListScopes :: "('ctx, 'sc) discovery_handler \<Rightarrow> 'ctx \<Rightarrow> status + scope_info list" where
  "ListScopes h ctx =
     (let opn = algorithmDiscoveryHandlerOp @ ''.ListScopes''; st = statusOf (dhErrs h); K = dhScopes h in
      case dhTemplates h ctx of
        Inl e \<Rightarrow> Inl (st (ErrWrap opn None e))
      | Inr reg \<Rightarrow>
      case offeredScopes K (regList reg) Map.empty of
        Inl e \<Rightarrow> Inl (st (ErrWrap opn None e))
      | Inr offered \<Rightarrow>
      case describeScopes K offered (scListScopes K) of
        Inl e \<Rightarrow> Inl (st (ErrWrap opn None e))
      | Inr is \<Rightarrow> Inr is)"

section \<open>Providers\<close>

text \<open>
  \<open>supportedAlgorithms\<close> is \<^const>\<open>None\<close> for a backend that is not an
  \<open>AlgorithmCapabilityProvider\<close>. \<open>rank\<close> is \<open>provider.Rank\<close>.
\<close>

record 'b candidate =
  cBackend :: 'b
  cEligible :: bool
  cPreferred :: bool
  cImplementation :: "string option"

record provider_description =
  pdName :: string
  pdDescription :: string
  pdProviderType :: int
  pdDefaultImplementation :: "string option"

record ('b, 'rq) backend_pkg =
  bName :: "'b \<Rightarrow> string"
  bType :: "'b \<Rightarrow> string"
  supportedAlgorithms :: "'b \<Rightarrow> string list option"
  bImplementationOf :: "'b \<Rightarrow> string option"
  bInfoOf :: "'b \<Rightarrow> provider_description option"
  meets :: "'b \<Rightarrow> 'rq \<Rightarrow> bool"
  requirementsFromProto :: "string option \<Rightarrow> 'rq result"
  rank :: "'b option list \<Rightarrow> string \<Rightarrow> 'rq \<Rightarrow> 'b candidate list"

record 'b provider_registry =
  prList :: "'b option list"
  prGet :: "string \<Rightarrow> 'b result"

record ('ctx, 'b, 'rq) provider_handler =
  vhErrs :: errors_pkg
  vhBackends :: "('b, 'rq) backend_pkg"
  vhProviders :: "'ctx \<Rightarrow> 'b provider_registry result"

definition providerHandlerOp :: string where "providerHandlerOp = ''grpc.(ProviderHandler)''"

definition New_provider ::
  "('ctx \<Rightarrow> 'b provider_registry result) option \<Rightarrow> 'm option \<Rightarrow> errors_pkg \<Rightarrow> ('b, 'rq) backend_pkg
     \<Rightarrow> ('ctx, 'b, 'rq) provider_handler result" where
  "New_provider newCatalog newInstances P K =
     (case newCatalog of
        None \<Rightarrow> Inl (ErrNew ''grpc/provider.New'' CodeInvalidArgument ''provider registry factory is required'')
      | Some f \<Rightarrow>
          (case newInstances of
             None \<Rightarrow> Inl (ErrNew ''grpc/provider.New'' CodeInvalidArgument ''provider instance manager factory is required'')
           | Some m \<Rightarrow> Inr \<lparr>vhErrs = P, vhBackends = K, vhProviders = f\<rparr>))"

definition registered :: "('b, 'rq) backend_pkg \<Rightarrow> 'b provider_registry \<Rightarrow> 'b list" where
  "registered K reg = sort_key (bName K) (List.map_filter (\<lambda>b. b) (prList reg))"

record provider_instance =
  piInstanceId :: string
  piProviderId :: string
  piDisplayName :: string
  piImplementationOverride :: "string option"

text \<open>\<open>implementationOf\<close> copies what the backend reports, so that callers cannot change it.\<close>

definition implementationOf :: "('b, 'rq) backend_pkg \<Rightarrow> 'b \<Rightarrow> string option" where
  [simp]: "implementationOf K b = (case bImplementationOf K b of None \<Rightarrow> None | Some props \<Rightarrow> Some props)"

definition instanceInfo :: "('b, 'rq) backend_pkg \<Rightarrow> 'b \<Rightarrow> provider_instance" where
  "instanceInfo K b = \<lparr>piInstanceId = bName K b, piProviderId = bType K b, piDisplayName = bName K b,
     piImplementationOverride = implementationOf K b\<rparr>"

definition advertises :: "('b, 'rq) backend_pkg \<Rightarrow> 'b \<Rightarrow> string \<Rightarrow> bool" where
  "advertises K b templateID =
     (case supportedAlgorithms K b of None \<Rightarrow> False | Some ts \<Rightarrow> templateID \<in> set ts)"

definition instancesByType :: "('b, 'rq) backend_pkg \<Rightarrow> 'b list \<Rightarrow> string \<Rightarrow> 'b list" where
  "instancesByType K bs = fold (\<lambda>b m. m(bType K b := m (bType K b) @ [b])) bs (\<lambda>_. [])"

fun describedBy :: "('b, 'rq) backend_pkg \<Rightarrow> 'b list \<Rightarrow> provider_description option" where
  "describedBy K [] = None"
| "describedBy K (b # bs) = (case bInfoOf K b of Some d \<Rightarrow> Some d | None \<Rightarrow> describedBy K bs)"

record provider_info =
  pvProviderId :: string
  pvDisplayName :: string
  pvDescription :: string
  pvProviderType :: int
  pvDefaultImplementation :: "string option"
  pvTemplateSupport :: "(string \<times> string) list"

fun join_with :: "string \<Rightarrow> string list \<Rightarrow> string" where
  "join_with sep [] = []"
| "join_with sep [x] = x"
| "join_with sep (x # y # xs) = x @ sep @ join_with sep (y # xs)"

definition servedBy :: "('b, 'rq) backend_pkg \<Rightarrow> 'b list \<Rightarrow> string \<Rightarrow> string list" where
  "servedBy K bs = fold (\<lambda>b m. case supportedAlgorithms K b of
       None \<Rightarrow> m
     | Some ts \<Rightarrow> fold (\<lambda>t m'. if bName K b \<in> set (m' t) then m' else m'(t := m' t @ [bName K b])) ts m)
     bs (\<lambda>_. [])"

definition providerInfo :: "('b, 'rq) backend_pkg \<Rightarrow> string \<Rightarrow> 'b list \<Rightarrow> provider_info" where
  "providerInfo K pid bs =
     (let served = servedBy K bs;
          templates = sort (remdups (concat (List.map_filter (supportedAlgorithms K) bs)));
          support = map (\<lambda>t. (t, ''instances: '' @ join_with '', '' (served t))) templates
      in case describedBy K bs of
           None \<Rightarrow> \<lparr>pvProviderId = pid, pvDisplayName = pid, pvDescription = [], pvProviderType = 0,
                    pvDefaultImplementation = None, pvTemplateSupport = support\<rparr>
         | Some d \<Rightarrow> \<lparr>pvProviderId = pid, pvDisplayName = (if pdName d \<noteq> [] then pdName d else pid),
                      pvDescription = pdDescription d, pvProviderType = pdProviderType d,
                      pvDefaultImplementation = pdDefaultImplementation d, pvTemplateSupport = support\<rparr>)"

record list_providers_rpc =
  lpTemplateId :: string
  lpProviderId :: string
  lpRequirements :: "string option"
  lpPageSize :: "32 word"
  lpPageToken :: string

text \<open>The keys of the map \<open>byType\<close>, visited in any order and sorted afterwards.\<close>

definition ListProviders ::
  "('ctx, 'b, 'rq) provider_handler \<Rightarrow> 'ctx \<Rightarrow> list_providers_rpc \<Rightarrow> status + provider_info list \<times> string" where
  "ListProviders h ctx req =
     (let opn = providerHandlerOp @ ''.ListProviders''; st = statusOf (vhErrs h); K = vhBackends h in
      case requirementsFromProto K (lpRequirements req) of
        Inl e \<Rightarrow> Inl (st (ErrWrap opn (Some ''invalid requirements'') e))
      | Inr required \<Rightarrow>
      case vhProviders h ctx of
        Inl e \<Rightarrow> Inl (st (ErrWrap opn None e))
      | Inr reg \<Rightarrow>
      let byType = instancesByType K (registered K reg);
          ids = sort (filter (\<lambda>t. list_ex (\<lambda>b. meets K b required \<and>
                  (lpTemplateId req = [] \<or> advertises K b (lpTemplateId req))) (byType t))
                (remdups (map (bType K) (registered K reg)))) in
      case Window (int (length ids)) (lpPageSize req) (lpPageToken req) of
        Inl e \<Rightarrow> Inl (st (pageError opn e))
      | Inr (start, stop, next) \<Rightarrow> Inr (map (\<lambda>i. providerInfo K i (byType i)) (subslice ids start stop), next))"

definition GetProvider :: "('ctx, 'b, 'rq) provider_handler \<Rightarrow> 'ctx \<Rightarrow> string \<Rightarrow> status + provider_info" where
  "GetProvider h ctx pid =
     (let opn = providerHandlerOp @ ''.GetProvider''; st = statusOf (vhErrs h); K = vhBackends h in
      if pid = [] then Inl (st (ErrNew opn CodeInvalidArgument ''provider_id is required''))
      else case vhProviders h ctx of
        Inl e \<Rightarrow> Inl (st (ErrWrap opn None e))
      | Inr reg \<Rightarrow>
          let instances = instancesByType K (registered K reg) pid
          in if length instances = 0
             then Inl (st (ErrNew opn CodeProviderNotFound (''provider not found: '' @ pid)))
             else Inr (providerInfo K pid instances))"

definition ListProviderInstancesRPC ::
  "('ctx, 'b, 'rq) provider_handler \<Rightarrow> 'ctx \<Rightarrow> list_providers_rpc \<Rightarrow> status + provider_instance list \<times> string" where
  "ListProviderInstancesRPC h ctx req =
     (let opn = providerHandlerOp @ ''.ListProviderInstances''; st = statusOf (vhErrs h); K = vhBackends h in
      case requirementsFromProto K (lpRequirements req) of
        Inl e \<Rightarrow> Inl (st (ErrWrap opn (Some ''invalid requirements'') e))
      | Inr required \<Rightarrow>
      case vhProviders h ctx of
        Inl e \<Rightarrow> Inl (st (ErrWrap opn None e))
      | Inr reg \<Rightarrow>
      let matched = filter (\<lambda>b. \<not> (lpProviderId req \<noteq> [] \<and> bType K b \<noteq> lpProviderId req) \<and> meets K b required)
                      (registered K reg) in
      case Window (int (length matched)) (lpPageSize req) (lpPageToken req) of
        Inl e \<Rightarrow> Inl (st (pageError opn e))
      | Inr (start, stop, next) \<Rightarrow> Inr (map (instanceInfo K) (subslice matched start stop), next))"

definition GetProviderInstanceRPC :: "('ctx, 'b, 'rq) provider_handler \<Rightarrow> 'ctx \<Rightarrow> string \<Rightarrow> status + provider_instance" where
  "GetProviderInstanceRPC h ctx iid =
     (let opn = providerHandlerOp @ ''.GetProviderInstance''; st = statusOf (vhErrs h); K = vhBackends h in
      if iid = [] then Inl (st (ErrNew opn CodeInvalidArgument ''instance_id is required''))
      else case vhProviders h ctx of
        Inl e \<Rightarrow> Inl (st (ErrWrap opn None e))
      | Inr reg \<Rightarrow> (case prGet reg iid of Inl e \<Rightarrow> Inl (st (ErrWrap opn None e)) | Inr b \<Rightarrow> Inr (instanceInfo K b)))"

record matched_provider =
  mpInstance :: provider_instance
  mpResolvedImplementation :: "string option"
  mpMatchScore :: int

fun matchesOf :: "('b, 'rq) backend_pkg \<Rightarrow> 'b candidate list \<Rightarrow> matched_provider list" where
  "matchesOf K [] = []"
| "matchesOf K (c # cs) =
     (if \<not> cEligible c then []
      else \<lparr>mpInstance = instanceInfo K (cBackend c), mpResolvedImplementation = cImplementation c,
            mpMatchScore = (if cPreferred c then 2 else 1)\<rparr> # matchesOf K cs)"

definition MatchProviders ::
  "('ctx, 'b, 'rq) provider_handler \<Rightarrow> 'ctx \<Rightarrow> list_providers_rpc \<Rightarrow> status + matched_provider list" where
  "MatchProviders h ctx req =
     (let opn = providerHandlerOp @ ''.MatchProviders''; st = statusOf (vhErrs h); K = vhBackends h in
      if lpTemplateId req = [] then Inl (st (ErrNew opn CodeInvalidArgument ''template_id is required''))
      else case requirementsFromProto K (lpRequirements req) of
        Inl e \<Rightarrow> Inl (st (ErrWrap opn (Some ''invalid requirements'') e))
      | Inr required \<Rightarrow>
      case vhProviders h ctx of
        Inl e \<Rightarrow> Inl (st (ErrWrap opn None e))
      | Inr reg \<Rightarrow> Inr (matchesOf K (rank K (prList reg) (lpTemplateId req) required)))"

end
