(* ===== verification/Grpc_Catalog_Properties.thy ===== *)
theory Grpc_Catalog_Properties
  imports Grpc_Catalog
begin

text \<open>
  Properties of the catalogue RPCs: which scopes with which operations \<open>ListScopes\<close> reports,
  which providers \<open>ListProviders\<close> keeps, and what \<open>MatchProviders\<close> returns.
\<close>

section \<open>Scopes\<close>

text \<open>The operations a list of templates offers under a scope, one per capability that lists it.\<close>

definition cap_ops :: "'sc scope_pkg \<Rightarrow> (string option \<times> int list) list \<Rightarrow> 'sc \<Rightarrow> int set" where
  "cap_ops K caps s = {o1. \<exists>p ops. (Some p, ops) \<in> set caps \<and> scSpecFromProto K p = Inr s \<and> o1 \<in> set ops}"

definition caps_offer :: "'sc scope_pkg \<Rightarrow> (string option \<times> int list) list \<Rightarrow> 'sc \<Rightarrow> bool" where
  "caps_offer K caps s \<longleftrightarrow> (\<exists>p ops. (Some p, ops) \<in> set caps \<and> scSpecFromProto K p = Inr s)"

definition all_caps :: "template_info option list \<Rightarrow> (string option \<times> int list) list" where
  "all_caps ts = concat (map tiScopedCapabilities (List.map_filter (\<lambda>t. t) ts))"

lemma set_addOperations: "set (addOperations ops new) = set ops \<union> set new"
  unfolding addOperations_def by (induction new arbitrary: ops) auto

lemma distinct_addOperations: "distinct ops \<Longrightarrow> distinct (addOperations ops new)"
  unfolding addOperations_def by (induction new arbitrary: ops) auto

definition offers ::
  "'sc scope_pkg \<Rightarrow> (string option \<times> int list) list \<Rightarrow> ('sc \<rightharpoonup> int list) \<Rightarrow> ('sc \<rightharpoonup> int list) \<Rightarrow> bool" where
  "offers K caps m m' \<longleftrightarrow> (\<forall>s. (m' s = None \<longleftrightarrow> m s = None \<and> \<not> caps_offer K caps s) \<and>
     (\<forall>ops. m' s = Some ops \<longrightarrow> set ops = cap_ops K caps s \<union> (case m s of None \<Rightarrow> {} | Some os \<Rightarrow> set os) \<and>
        ((\<forall>os. m s = Some os \<longrightarrow> distinct os) \<longrightarrow> distinct ops)))"

lemma cap_ops_Nil [simp]: "cap_ops K [] s = {}" "\<not> caps_offer K [] s"
  by (simp_all add: cap_ops_def caps_offer_def)

lemma cap_ops_append:
  "cap_ops K (a @ b) s = cap_ops K a s \<union> cap_ops K b s"
  "caps_offer K (a @ b) s \<longleftrightarrow> caps_offer K a s \<or> caps_offer K b s"
  by (auto simp: cap_ops_def caps_offer_def)

lemma offers_refl: "offers K [] m m"
  by (simp add: offers_def)

lemma offers_trans: "offers K a m m1 \<Longrightarrow> offers K b m1 m2 \<Longrightarrow> offers K (a @ b) m m2"
  unfolding offers_def cap_ops_append
proof (intro allI conjI impI)
  fix s
  assume a: "\<forall>s. (m1 s = None \<longleftrightarrow> m s = None \<and> \<not> caps_offer K a s) \<and>
     (\<forall>ops. m1 s = Some ops \<longrightarrow> set ops = cap_ops K a s \<union> (case m s of None \<Rightarrow> {} | Some os \<Rightarrow> set os) \<and>
        ((\<forall>os. m s = Some os \<longrightarrow> distinct os) \<longrightarrow> distinct ops))"
    and b: "\<forall>s. (m2 s = None \<longleftrightarrow> m1 s = None \<and> \<not> caps_offer K b s) \<and>
     (\<forall>ops. m2 s = Some ops \<longrightarrow> set ops = cap_ops K b s \<union> (case m1 s of None \<Rightarrow> {} | Some os \<Rightarrow> set os) \<and>
        ((\<forall>os. m1 s = Some os \<longrightarrow> distinct os) \<longrightarrow> distinct ops))"
  show "m2 s = None \<longleftrightarrow> m s = None \<and> \<not> (caps_offer K a s \<or> caps_offer K b s)" using a b by auto
  fix ops assume ops: "m2 s = Some ops"
  have noa: "cap_ops K a s = {}" if "\<not> caps_offer K a s" using that by (auto simp: cap_ops_def caps_offer_def)
  show "set ops = cap_ops K a s \<union> cap_ops K b s \<union> (case m s of None \<Rightarrow> {} | Some os \<Rightarrow> set os)"
    using a [rule_format, of s] b [rule_format, of s] ops noa by (cases "m1 s") auto
  assume "\<forall>os. m s = Some os \<longrightarrow> distinct os"
  then show "distinct ops" using a [rule_format, of s] b [rule_format, of s] ops by blast
qed

lemma offers_step:
  assumes "scSpecFromProto K p = Inr s"
  shows "offers K [(Some p, ops)] m (m(s \<mapsto> addOperations (case m s of None \<Rightarrow> [] | Some os \<Rightarrow> os) ops))"
  using assms
  by (auto simp: offers_def cap_ops_def caps_offer_def set_addOperations
      intro!: distinct_addOperations split: option.splits)

lemma offers_skip: "offers K [(None, ops)] m m"
  by (auto simp: offers_def cap_ops_def caps_offer_def split: option.splits)

lemma offeredByCaps_offers:
  assumes "offeredByCaps K tid caps m = Inr m'"
  shows "offers K caps m m'"
  using assms
proof (induction caps arbitrary: m)
  case Nil
  then show ?case by (simp add: offers_refl)
next
  case (Cons c caps)
  obtain sc ops where c: "c = (sc, ops)" by fastforce
  show ?case
  proof (cases sc)
    case None
    with Cons.prems c have "offeredByCaps K tid caps m = Inr m'" by simp
    from offers_trans [OF offers_skip [of K ops m] Cons.IH [OF this]] c None show ?thesis by simp
  next
    case (Some p)
    with Cons.prems c obtain s where s: "templateScope K tid p = Inr s"
      "offeredByCaps K tid caps (m(s \<mapsto> addOperations (case m s of None \<Rightarrow> [] | Some os \<Rightarrow> os) ops)) = Inr m'"
      by (auto split: sum.splits)
    then have "scSpecFromProto K p = Inr s" by (auto simp: templateScope_def Let_def split: sum.splits if_splits)
    from offers_trans [OF offers_step [OF this] Cons.IH [OF s(2)]] c Some show ?thesis by simp
  qed
qed

lemma offeredScopes_offers:
  assumes "offeredScopes K ts m = Inr m'"
  shows "offers K (all_caps ts) m m'"
  using assms
proof (induction ts arbitrary: m)
  case Nil
  then show ?case by (simp add: all_caps_def List.map_filter_simps offers_refl)
next
  case (Cons t ts)
  show ?case
  proof (cases t)
    case None
    with Cons show ?thesis by (simp add: all_caps_def List.map_filter_simps)
  next
    case (Some x)
    with Cons.prems obtain m1 where "offeredByCaps K (tiTemplateId x) (tiScopedCapabilities x) m = Inr m1"
      "offeredScopes K ts m1 = Inr m'" by (auto split: sum.splits)
    from offers_trans [OF offeredByCaps_offers [OF this(1)] Cons.IH [OF this(2)]] Some
    show ?thesis by (simp add: all_caps_def List.map_filter_simps)
  qed
qed

lemma describeScopes_ok:
  assumes "describeScopes K offered ss = Inr is"
  shows "map siName is = map (scString K) (filter (\<lambda>s. offered s \<noteq> None) ss) \<and>
    map siSupportedOperations is = map (\<lambda>s. sort (the (offered s))) (filter (\<lambda>s. offered s \<noteq> None) ss)"
  using assms
  by (induction ss arbitrary: "is") (auto simp: scopeInfo_def split: option.splits sum.splits)

text \<open>
  \<open>ListScopes\<close> reports, in the order of the scope enumeration, exactly the scopes some
  registered template offers, each with all operations those templates allow under it, in
  order and once each.
\<close>

theorem ListScopes_exact:
  assumes "dhTemplates h ctx = Inr reg" "ListScopes h ctx = Inr is"
  shows "map siName is = map (scString (dhScopes h))
      (filter (caps_offer (dhScopes h) (all_caps (regList reg))) (scListScopes (dhScopes h))) \<and>
    list_all2 (\<lambda>i s. set (siSupportedOperations i) = cap_ops (dhScopes h) (all_caps (regList reg)) s \<and>
        sorted (siSupportedOperations i) \<and> distinct (siSupportedOperations i))
      is (filter (caps_offer (dhScopes h) (all_caps (regList reg))) (scListScopes (dhScopes h)))"
proof -
  let ?K = "dhScopes h"
  from assms obtain offered where o: "offeredScopes ?K (regList reg) Map.empty = Inr offered"
    "describeScopes ?K offered (scListScopes ?K) = Inr is"
    by (auto simp: ListScopes_def Let_def split: sum.splits)
  note of = offeredScopes_offers [OF o(1)] and d = describeScopes_ok [OF o(2)]
  have eq: "(offered s \<noteq> None) = caps_offer ?K (all_caps (regList reg)) s" for s
    using of by (simp add: offers_def)
  have ops: "set ops = cap_ops ?K (all_caps (regList reg)) s \<and> distinct ops" if "offered s = Some ops" for s ops
    using of that by (simp add: offers_def)
  have f: "filter (\<lambda>s. offered s \<noteq> None) (scListScopes ?K) =
      filter (caps_offer ?K (all_caps (regList reg))) (scListScopes ?K)" using eq by presburger
  from d have len: "length is = length (filter (caps_offer ?K (all_caps (regList reg))) (scListScopes ?K))"
    unfolding f by (metis length_map)
  have "set (siSupportedOperations (is ! j)) = cap_ops ?K (all_caps (regList reg)) s \<and>
      sorted (siSupportedOperations (is ! j)) \<and> distinct (siSupportedOperations (is ! j))"
    if "j < length is" "s = filter (caps_offer ?K (all_caps (regList reg))) (scListScopes ?K) ! j" for j s
  proof -
    from d that len have "siSupportedOperations (is ! j) = sort (the (offered s))"
      unfolding f by (metis (no_types, lifting) nth_map)
    moreover have "s \<in> set (filter (caps_offer ?K (all_caps (regList reg))) (scListScopes ?K))"
      unfolding that(2) by (rule nth_mem) (use that(1) len in simp)
    then have "caps_offer ?K (all_caps (regList reg)) s" by simp
    with eq obtain x where "offered s = Some x" by blast
    ultimately show ?thesis using ops by simp
  qed
  then have "list_all2 (\<lambda>i s. set (siSupportedOperations i) = cap_ops ?K (all_caps (regList reg)) s \<and>
        sorted (siSupportedOperations i) \<and> distinct (siSupportedOperations i))
      is (filter (caps_offer ?K (all_caps (regList reg))) (scListScopes ?K))"
    unfolding list_all2_conv_all_nth using len by blast
  with d f show ?thesis by simp
qed

definition demo_scopes :: "nat scope_pkg" where
  "demo_scopes = \<lparr>scSpecFromProto = (\<lambda>p. if p = ''sig'' then Inr 1 else if p = ''aead'' then Inr 2 else Inl (ErrPlain ''?'')),
     scIsValid = (\<lambda>s. s \<le> 3), scString = show_nat, scListScopes = [1, 2, 3],
     scNewSpecification = (\<lambda>s. Inr (show_nat s)), scSpecToProto = Inr, scMatchesScope = (\<lambda>_ _. Inr True)\<rparr>"

definition demo_templates :: template_registry where
  "demo_templates = \<lparr>regGet = (\<lambda>_. Inr None),
     regList = [Some \<lparr>tiTemplateId = ''gcm'', tiStatus = 1, tiStandards = [], tiScopedCapabilities = [(Some ''aead'', [2, 1])], tiOther = []\<rparr>,
       None,
       Some \<lparr>tiTemplateId = ''chacha'', tiStatus = 1, tiStandards = [], tiScopedCapabilities = [(Some ''aead'', [1, 3]), (None, [9])], tiOther = []\<rparr>]\<rparr>"

definition demo_discovery :: "(unit, nat) discovery_handler" where
  "demo_discovery = \<lparr>dhErrs = ref_errors, dhScopes = demo_scopes, dhTemplates = (\<lambda>_. Inr demo_templates)\<rparr>"

theorem ListScopes_exact_witness:
  "\<exists>is. ListScopes demo_discovery () = Inr is \<and> map siSupportedOperations is = [[1, 2, 3]] \<and>
     map siName is = map (scString demo_scopes) (filter (caps_offer demo_scopes (all_caps (regList demo_templates))) [1, 2, 3])"
proof -
  have 1: "\<not> isl (ListScopes demo_discovery ())"
    "map siSupportedOperations (projr (ListScopes demo_discovery ())) = [[1, 2, 3]]" by code_simp+
  then obtain "is" where l: "ListScopes demo_discovery () = Inr is" by (cases "ListScopes demo_discovery ()") auto
  have "dhTemplates demo_discovery () = Inr demo_templates" by (simp add: demo_discovery_def)
  from ListScopes_exact [OF this l] l 1 show ?thesis
    by (simp add: demo_discovery_def) (simp add: demo_scopes_def)
qed

section \<open>Providers\<close>

lemma instancesByType_filter: "instancesByType K bs t = filter (\<lambda>b. bType K b = t) bs"
proof -
  have "fold (\<lambda>b m. m(bType K b := m (bType K b) @ [b])) bs m t = m t @ filter (\<lambda>b. bType K b = t) bs" for m
    by (induction bs arbitrary: m) auto
  then show ?thesis by (simp add: instancesByType_def)
qed

lemma pvProviderId_providerInfo [simp]: "pvProviderId (providerInfo K t bs) = t"
  by (simp add: providerInfo_def Let_def split: option.splits)

lemma set_registered: "set (registered K reg) = {b. Some b \<in> set (prList reg)}"
  by (force simp: registered_def List.map_filter_def image_iff)

text \<open>
  An unpaged \<open>ListProviders\<close> names, in order and once each, exactly the providers with a
  registered instance that meets the requirements and, when a template is given, advertises
  it: both on the same instance.
\<close>

theorem ListProviders_exact:
  assumes "requirementsFromProto (vhBackends h) (lpRequirements req) = Inr required"
    and "vhProviders h ctx = Inr reg" "lpPageSize req = 0" "lpPageToken req = []"
  shows "\<exists>ps. ListProviders h ctx req = Inr (ps, []) \<and>
    sorted (map pvProviderId ps) \<and> distinct (map pvProviderId ps) \<and>
    set (map pvProviderId ps) = {bType (vhBackends h) b | b. Some b \<in> set (prList reg) \<and> meets (vhBackends h) b required \<and>
      (lpTemplateId req = [] \<or> advertises (vhBackends h) b (lpTemplateId req))}"
proof -
  let ?K = "vhBackends h" and ?bs = "registered (vhBackends h) reg"
  define ok where "ok b \<longleftrightarrow> meets ?K b required \<and> (lpTemplateId req = [] \<or> advertises ?K b (lpTemplateId req))" for b
  define ids where "ids = sort (filter (\<lambda>t. list_ex ok (instancesByType ?K ?bs t)) (remdups (map (bType ?K) ?bs)))"
  have w: "Window (int (length xs)) 0 [] = Inr (0, int (length xs), [])" for xs :: "string list"
    by (simp add: Window_def)
  have l: "ListProviders h ctx req = Inr (map (\<lambda>i. providerInfo ?K i (instancesByType ?K ?bs i)) ids, [])"
    using assms by (simp add: ListProviders_def Let_def w subslice_all ids_def ok_def [abs_def])
  have i: "map pvProviderId (map (\<lambda>i. providerInfo ?K i (instancesByType ?K ?bs i)) ids) = ids"
    by (simp add: comp_def)
  have "set ids = {bType ?K b | b. Some b \<in> set (prList reg) \<and> ok b}"
    by (auto simp: ids_def instancesByType_filter list_ex_iff set_registered) metis
  moreover have "sorted ids" "distinct ids" by (simp_all add: ids_def)
  ultimately have "sorted ids \<and> distinct ids \<and> set ids = {bType ?K b | b. Some b \<in> set (prList reg) \<and> meets ?K b required \<and>
      (lpTemplateId req = [] \<or> advertises ?K b (lpTemplateId req))}" by (simp add: ok_def)
  then have "sorted (map pvProviderId ps) \<and> distinct (map pvProviderId ps) \<and> set (map pvProviderId ps) =
      {bType ?K b | b. Some b \<in> set (prList reg) \<and> meets ?K b required \<and>
        (lpTemplateId req = [] \<or> advertises ?K b (lpTemplateId req))}"
    if "ps = map (\<lambda>i. providerInfo ?K i (instancesByType ?K ?bs i)) ids" for ps
    unfolding that i .
  with l show ?thesis by blast
qed

text \<open>
  When the ranking puts eligible candidates first and, among them, preferred ones first,
  \<open>MatchProviders\<close> returns exactly the eligible candidates in that order, and their scores
  never increase.
\<close>

theorem MatchProviders_exact:
  assumes "requirementsFromProto (vhBackends h) (lpRequirements req) = Inr required"
    and "vhProviders h ctx = Inr reg" "lpTemplateId req \<noteq> []"
    and "sorted_wrt (\<lambda>c d. (cEligible d \<longrightarrow> cEligible c) \<and> (cEligible d \<and> cPreferred d \<longrightarrow> cPreferred c))
      (rank (vhBackends h) (prList reg) (lpTemplateId req) required)"
  shows "\<exists>ms. MatchProviders h ctx req = Inr ms \<and>
    map (\<lambda>m. (mpInstance m, mpResolvedImplementation m)) ms =
      map (\<lambda>c. (instanceInfo (vhBackends h) (cBackend c), cImplementation c))
        (filter cEligible (rank (vhBackends h) (prList reg) (lpTemplateId req) required)) \<and>
    sorted_wrt (\<lambda>m n. mpMatchScore n \<le> mpMatchScore m) ms"
proof -
  let ?K = "vhBackends h"
  let ?cs = "rank ?K (prList reg) (lpTemplateId req) required"
  define mk where "mk c = \<lparr>mpInstance = instanceInfo ?K (cBackend c), mpResolvedImplementation = cImplementation c,
     mpMatchScore = (if cPreferred c then 2 else 1)\<rparr>" for c :: "'b candidate"
  have m: "matchesOf ?K cs = map mk (filter cEligible cs)"
    if "sorted_wrt (\<lambda>c d. (cEligible d \<longrightarrow> cEligible c) \<and> (cEligible d \<and> cPreferred d \<longrightarrow> cPreferred c)) cs" for cs
    using that
  proof (induction cs)
    case (Cons c cs)
    show ?case
    proof (cases "cEligible c")
      case True
      with Cons show ?thesis by (simp add: mk_def)
    next
      case False
      with Cons.prems have "filter cEligible cs = []" by (auto simp: filter_empty_conv)
      with False show ?thesis by simp
    qed
  qed simp
  have "sorted_wrt (\<lambda>x y. mpMatchScore y \<le> mpMatchScore x) (map mk (filter cEligible ?cs))"
    unfolding sorted_wrt_map
    by (rule sorted_wrt_mono_rel [OF _ sorted_wrt_filter [OF assms(4)]]) (auto simp: mk_def)
  moreover have "MatchProviders h ctx req = Inr (map mk (filter cEligible ?cs))"
    using assms(1-3) m [OF assms(4)] by (simp add: MatchProviders_def Let_def)
  ultimately show ?thesis by (simp add: mk_def comp_def)
qed

definition demo_backends :: "(string \<times> string, unit) backend_pkg" where
  "demo_backends = \<lparr>bName = fst, bType = snd, supportedAlgorithms = (\<lambda>b. if snd b = ''openssl'' then Some [''gcm''] else None),
     bImplementationOf = (\<lambda>_. None), bInfoOf = (\<lambda>_. None), meets = (\<lambda>b _. True), requirementsFromProto = (\<lambda>_. Inr ()),
     rank = (\<lambda>bs t r. map (\<lambda>b. \<lparr>cBackend = b, cEligible = (snd b = ''openssl''), cPreferred = False, cImplementation = None\<rparr>)
       (rev (List.map_filter (\<lambda>b. b) bs)))\<rparr>"

definition demo_providers :: "(unit, string \<times> string, unit) provider_handler" where
  "demo_providers = \<lparr>vhErrs = ref_errors, vhBackends = demo_backends,
     vhProviders = (\<lambda>_. Inr \<lparr>prList = [Some (''soft'', ''software''), None, Some (''ossl'', ''openssl'')], prGet = (\<lambda>_. Inl (ErrPlain ''?''))\<rparr>)\<rparr>"

definition demo_providers_rpc :: list_providers_rpc where
  "demo_providers_rpc = \<lparr>lpTemplateId = ''gcm'', lpProviderId = [], lpRequirements = None, lpPageSize = 0, lpPageToken = []\<rparr>"

theorem ListProviders_exact_witness:
  "\<exists>ps. ListProviders demo_providers () demo_providers_rpc = Inr (ps, []) \<and> set (map pvProviderId ps) = {''openssl''}"
proof -
  have "requirementsFromProto (vhBackends demo_providers) (lpRequirements demo_providers_rpc) = Inr ()"
    "vhProviders demo_providers () = Inr \<lparr>prList = [Some (''soft'', ''software''), None, Some (''ossl'', ''openssl'')], prGet = (\<lambda>_. Inl (ErrPlain ''?''))\<rparr>"
    "lpPageSize demo_providers_rpc = 0" "lpPageToken demo_providers_rpc = []"
    by (simp_all add: demo_providers_def demo_backends_def demo_providers_rpc_def)
  from ListProviders_exact [OF this] obtain ps where
    p: "ListProviders demo_providers () demo_providers_rpc = Inr (ps, [])"
    "set (map pvProviderId ps) = {bType demo_backends b | b. Some b \<in> set [Some (''soft'', ''software''), None, Some (''ossl'', ''openssl'')] \<and>
       meets demo_backends b () \<and> advertises demo_backends b ''gcm''}"
    by (auto simp: demo_providers_def demo_providers_rpc_def)
  have "set (map pvProviderId ps) = {''openssl''}"
    unfolding p(2) by (auto simp: demo_backends_def advertises_def)
  with p(1) show ?thesis by blast
qed

theorem MatchProviders_exact_witness:
  "\<exists>ms. MatchProviders demo_providers () demo_providers_rpc = Inr ms \<and>
     map (\<lambda>m. piInstanceId (mpInstance m)) ms = [''ossl'']"
proof -
  define reg :: "(string \<times> string) provider_registry" where
    "reg = \<lparr>prList = [Some (''soft'', ''software''), None, Some (''ossl'', ''openssl'')], prGet = (\<lambda>_. Inl (ErrPlain ''?''))\<rparr>"
  have v: "vhBackends demo_providers = demo_backends" by (simp add: demo_providers_def)
  have 1: "requirementsFromProto (vhBackends demo_providers) (lpRequirements demo_providers_rpc) = Inr ()"
    by (simp add: v demo_backends_def)
  have 2: "vhProviders demo_providers () = Inr reg" by (simp add: demo_providers_def reg_def)
  have 3: "lpTemplateId demo_providers_rpc \<noteq> []" by (simp add: demo_providers_rpc_def)
  have rk: "rank (vhBackends demo_providers) (prList reg) (lpTemplateId demo_providers_rpc) () =
    [\<lparr>cBackend = (''ossl'', ''openssl''), cEligible = True, cPreferred = False, cImplementation = None\<rparr>,
     \<lparr>cBackend = (''soft'', ''software''), cEligible = False, cPreferred = False, cImplementation = None\<rparr>]"
    by (simp add: v demo_backends_def reg_def List.map_filter_simps)
  have 4: "sorted_wrt (\<lambda>c d. (cEligible d \<longrightarrow> cEligible c) \<and> (cEligible d \<and> cPreferred d \<longrightarrow> cPreferred c))
      (rank (vhBackends demo_providers) (prList reg) (lpTemplateId demo_providers_rpc) ())"
    unfolding rk by simp
  from MatchProviders_exact [OF 1 2 3 4] obtain ms where m: "MatchProviders demo_providers () demo_providers_rpc = Inr ms"
    "map (\<lambda>m. (mpInstance m, mpResolvedImplementation m)) ms =
      map (\<lambda>c. (instanceInfo (vhBackends demo_providers) (cBackend c), cImplementation c))
        (filter cEligible (rank (vhBackends demo_providers) (prList reg) (lpTemplateId demo_providers_rpc) ()))"
    by (elim exE conjE)
  from arg_cong [OF m(2), of "map (\<lambda>x. piInstanceId (fst x))"] have "map (\<lambda>m. piInstanceId (mpInstance m)) ms = [''ossl'']"
    unfolding rk by (simp add: comp_def v demo_backends_def instanceInfo_def)
  with m(1) show ?thesis by (intro exI conjI)
qed

end
