(* ===== verification/Grpc_Stubs.thy ===== *)
theory Grpc_Stubs
  imports Grpc_Common
begin

text \<open>
  The methods the handlers leave to the generated \<open>Unimplemented\<close> servers: all of
  \<open>internal/grpc/streaming\<close> and \<open>internal/grpc/keyestablishment\<close>, and the unfinished methods of the
  other services. \<open>delegatedMethods\<close> are the methods whose body in the source is the call of the
  embedded server; a method of the API without a body in the source is promoted from the embedded
  server and behaves the same. \<open>serveMethod\<close> is the dispatch of a registered service: \<open>run\<close> stands
  for the bodies modelled in the other theories and \<open>U\<close> for the status of the generated server.
\<close>

record ('c, 'k) establishment_handler =
  ehCrypto :: 'c
  ehKeys :: 'k

definition New_streaming :: "'c option \<Rightarrow> 'c result" where
  "New_streaming newCrypto =
     (case newCrypto of
        None \<Rightarrow> Inl (ErrNew ''grpc/streaming.New'' CodeInvalidArgument ''crypto orchestrator factory is required'')
      | Some c \<Rightarrow> Inr c)"

definition New_keyestablishment :: "'c option \<Rightarrow> 'k option \<Rightarrow> ('c, 'k) establishment_handler result" where
  "New_keyestablishment newCrypto newKeys =
     (let opn = ''grpc/keyestablishment.New'' in
      case newCrypto of
        None \<Rightarrow> Inl (ErrNew opn CodeInvalidArgument ''crypto orchestrator factory is required'')
      | Some c \<Rightarrow>
      case newKeys of
        None \<Rightarrow> Inl (ErrNew opn CodeInvalidArgument ''key orchestrator factory is required'')
      | Some k \<Rightarrow> Inr \<lparr>ehCrypto = c, ehKeys = k\<rparr>)"

definition streamingEncryption :: "string list" where
  "streamingEncryption =
     [''EncryptInit'', ''EncryptUpdate'', ''EncryptFinal'', ''DecryptInit'', ''DecryptUpdate'',
      ''DecryptFinal'', ''EncryptMessageInit'', ''EncryptMessage'', ''EncryptMessageBegin'',
      ''EncryptMessageNext'', ''EncryptMessageFinal'', ''DecryptMessageInit'', ''DecryptMessage'',
      ''DecryptMessageBegin'', ''DecryptMessageNext'', ''DecryptMessageFinal'']"

definition streamingSignature :: "string list" where
  "streamingSignature =
     [''SignInit'', ''SignUpdate'', ''SignFinal'', ''VerifyInit'', ''VerifyUpdate'', ''VerifyFinal'',
      ''SignMessageInit'', ''SignMessage'', ''SignMessageBegin'', ''SignMessageNext'',
      ''SignMessageFinal'', ''VerifyMessageInit'', ''VerifyMessage'', ''VerifyMessageBegin'',
      ''VerifyMessageNext'', ''VerifyMessageFinal'']"

definition streamingDigest :: "string list" where
  "streamingDigest =
     [''DigestInit'', ''DigestUpdate'', ''DigestKey'', ''DigestFinal'', ''XofInit'', ''XofUpdate'',
      ''XofFinal'', ''DigestEncryptUpdate'', ''DecryptDigestUpdate'', ''SignEncryptUpdate'',
      ''DecryptVerifyUpdate'']"

definition establishmentMethods :: "string list" where
  "establishmentMethods =
     [''WrapKey'', ''UnwrapKey'', ''DeriveKey'', ''KeyAgreement'', ''EncapsulateKey'', ''DecapsulateKey'']"

definition unfinishedKeyMethods :: "string list" where
  "unfinishedKeyMethods = [''DeleteKey'', ''RotateKey'', ''UpdateKeyPolicy'', ''ExportKey'', ''ImportKey'']"

definition unfinishedPolicyMethods :: "string list" where
  "unfinishedPolicyMethods =
     [''DeleteCryptoPolicy'', ''ListCryptoPolicies'', ''EvaluatePolicy'', ''BatchEvaluatePolicy'']"

definition unfinishedCryptoMethods :: "string list" where
  "unfinishedCryptoMethods =
     [''GenerateMAC'', ''VerifyMAC'', ''Digest'', ''Xof'', ''GenerateRandom'', ''SeedRandom'']"

definition unfinishedProviderMethods :: "string list" where
  "unfinishedProviderMethods =
     [''RegisterProviderInstance'', ''UpdateProviderInstance'', ''DeleteProviderInstance'']"

definition delegatedMethods :: "(string \<times> string list) list" where
  "delegatedMethods =
     [(''KeyManagementService'', unfinishedKeyMethods),
      (''CryptoPolicyService'', unfinishedPolicyMethods),
      (''CryptoService'', unfinishedCryptoMethods),
      (''StreamingCryptoService'', streamingEncryption @ streamingSignature @ streamingDigest),
      (''KeyEstablishmentService'', establishmentMethods),
      (''ProviderService'', unfinishedProviderMethods)]"

text \<open>The methods with a body of their own.\<close>

definition implementedMethods :: "(string \<times> string list) list" where
  "implementedMethods =
     [(''KeyManagementService'',
       [''CreateKey'', ''TransformKey'', ''MigrateKey'', ''ReadKey'', ''ListKeys'', ''ValidateKeyOperation'']),
      (''CryptoPolicyService'', [''CreateCryptoPolicy'', ''ReadCryptoPolicy'', ''UpdateCryptoPolicy'']),
      (''CryptoService'', [''Encrypt'', ''Decrypt'', ''Sign'', ''Verify'', ''DigestSign'', ''DigestVerify'']),
      (''AlgorithmDiscoveryService'', [''ListTemplates'', ''GetTemplate'', ''ListScopes'']),
      (''ProviderService'',
       [''ListProviders'', ''GetProvider'', ''MatchProviders'', ''ListProviderInstances'', ''GetProviderInstance''])]"

definition offers :: "(string \<times> string list) list \<Rightarrow> string \<Rightarrow> string \<Rightarrow> bool" where
  "offers tab s m \<longleftrightarrow> list_ex (\<lambda>(s', ms). s' = s \<and> m \<in> set ms) tab"

definition serveMethod ::
  "(string \<Rightarrow> string \<Rightarrow> status) \<Rightarrow> (string \<Rightarrow> string \<Rightarrow> 'req \<Rightarrow> 'w \<Rightarrow> ('resp, 'w) rpc_result) \<Rightarrow>
   string \<Rightarrow> string \<Rightarrow> 'req \<Rightarrow> 'w \<Rightarrow> ('resp, 'w) rpc_result" where
  "serveMethod U run s m req w = (if offers implementedMethods s m then run s m req w else unimplementedRPC (U s) m req w)"

text \<open>
  No body is both implemented and delegated, every body belongs to a method of the API, and the
  only API methods without a body of either kind are those of \<open>promoted\<close>.
\<close>

definition promoted :: "(string \<times> string list) list" where
  "promoted =
     [(''KeyManagementService'', [''UpdateKeyState'']),
      (''StreamingCryptoService'',
       [''GenerateMACInit'', ''GenerateMACUpdate'', ''GenerateMACFinal'', ''VerifyMACInit'',
        ''VerifyMACUpdate'', ''VerifyMACFinal'', ''CancelOperation''])]"

lemma services_partition:
  "list_all (\<lambda>(s, ms). list_all (\<lambda>m.
     length (filter (\<lambda>tab. offers tab s m) [implementedMethods, delegatedMethods, promoted]) = 1) ms) serviceMethods"
  by code_simp

lemma bodies_are_methods:
  "list_all (\<lambda>(s, ms). list_all (\<lambda>m. offers serviceMethods s m) ms) (implementedMethods @ delegatedMethods @ promoted)"
  by code_simp

lemma delegated_not_implemented:
  "list_all (\<lambda>(s, ms). list_all (\<lambda>m. \<not> offers implementedMethods s m) ms) (delegatedMethods @ promoted)"
  by code_simp

lemma serveMethod_delegated:
  assumes "offers (delegatedMethods @ promoted) s m"
  shows "serveMethod U run s m req w = (Inl (U s m), w)"
proof -
  from assms obtain ms where "(s, ms) \<in> set (delegatedMethods @ promoted)" "m \<in> set ms"
    unfolding offers_def list_ex_iff by blast
  with delegated_not_implemented have "\<not> offers implementedMethods s m" unfolding list_all_iff by blast
  then show ?thesis by (simp add: serveMethod_def unimplementedRPC_def)
qed

end
