(* ===== verification/Go_Bytes.thy ===== *)
theory Go_Bytes
  imports Citius_Prelude
begin

text \<open>
  What the cryptographic providers use of Go's language and standard library on byte slices:
  panics, big-endian integers (\<open>math/big\<close>), the CBC and CTR chaining of \<open>crypto/cipher\<close> over a
  block function, and the DER form of a pair of integers as \<open>encoding/asn1\<close> writes and reads it.
  The texts of \<open>encoding/asn1\<close> errors are not modelled.
\<close>

unbundle bit_operations_syntax

type_synonym byte = "8 word"
type_synonym bytes = "byte list"

section \<open>Results that may panic\<close>

text \<open>\<^const>\<open>None\<close> is a panic of the calling goroutine.\<close>

type_synonym 'a outcome = "'a result option"

abbreviation ok :: "'a \<Rightarrow> 'a outcome" where "ok x \<equiv> Some (Inr x)"
abbreviation fails :: "error \<Rightarrow> 'a outcome" where "fails e \<equiv> Some (Inl e)"

text \<open>\<open>if err != nil { return nil, err }\<close> and \<open>return nil, errors.Wrap(ctx, op, err)\<close>.\<close>

fun orReturn :: "'a outcome \<Rightarrow> ('a \<Rightarrow> 'b outcome) \<Rightarrow> 'b outcome" where
  "orReturn None f = None"
| "orReturn (Some (Inl e)) f = fails e"
| "orReturn (Some (Inr x)) f = f x"

fun orWrap :: "string \<Rightarrow> 'a outcome \<Rightarrow> ('a \<Rightarrow> 'b outcome) \<Rightarrow> 'b outcome" where
  "orWrap opn None f = None"
| "orWrap opn (Some (Inl e)) f = fails (ErrWrap opn None e)"
| "orWrap opn (Some (Inr x)) f = f x"

declare not_None_eq [simp del]

lemma orReturn_ok [simp]: "orReturn m f = ok y \<longleftrightarrow> (\<exists>x. m = ok x \<and> f x = ok y)"
  by (cases "(m, f)" rule: orReturn.cases) auto

lemma orWrap_ok [simp]: "orWrap opn m f = ok y \<longleftrightarrow> (\<exists>x. m = ok x \<and> f x = ok y)"
  by (cases "(opn, m, f)" rule: orWrap.cases) auto

lemma orReturn_None [simp]: "orReturn m f = None \<longleftrightarrow> m = None \<or> (\<exists>x. m = ok x \<and> f x = None)"
  by (cases "(m, f)" rule: orReturn.cases) auto

lemma orWrap_None [simp]: "orWrap opn m f = None \<longleftrightarrow> m = None \<or> (\<exists>x. m = ok x \<and> f x = None)"
  by (cases "(opn, m, f)" rule: orWrap.cases) auto

lemma orReturn_fails:
  "orReturn m f = fails e \<longleftrightarrow> m = fails e \<or> (\<exists>x. m = ok x \<and> f x = fails e)"
  by (cases "(m, f)" rule: orReturn.cases) auto

lemma orWrap_fails:
  "orWrap opn m f = fails e \<longleftrightarrow> (\<exists>e'. m = fails e' \<and> e = ErrWrap opn None e') \<or> (\<exists>x. m = ok x \<and> f x = fails e)"
  by (cases "(opn, m, f)" rule: orWrap.cases) auto

text \<open>An error carries over to another continuation when the rest of that continuation fails alike.\<close>

lemma orReturn_fails_cong:
  "orReturn m f = fails e \<Longrightarrow> (\<And>x. m = ok x \<Longrightarrow> f x = fails e \<Longrightarrow> g x = fails e) \<Longrightarrow> orReturn m g = fails e"
  by (cases "(m, f)" rule: orReturn.cases) auto

lemma orWrap_fails_cong:
  "orWrap opn m f = fails e \<Longrightarrow> (\<And>x. m = ok x \<Longrightarrow> f x = fails e \<Longrightarrow> g x = fails e) \<Longrightarrow> orWrap opn m g = fails e"
  by (cases "(opn, m, f)" rule: orWrap.cases) auto

text \<open>A condition that ends a function with an error.\<close>

definition refuse :: "bool \<Rightarrow> error \<Rightarrow> unit result" where
  "refuse b e = (if b then Inl e else Inr ())"

lemma refuse_simps [simp]:
  "refuse b e = Inr u \<longleftrightarrow> \<not> b" "refuse b e = Inl e' \<longleftrightarrow> b \<and> e' = e"
  by (auto simp: refuse_def)

section \<open>Big-endian integers\<close>

definition be_nat :: "bytes \<Rightarrow> nat" where
  "be_nat = foldl (\<lambda>a b. a * 256 + unat b) 0"

fun be_fill :: "nat \<Rightarrow> nat \<Rightarrow> bytes" where
  "be_fill 0 n = []"
| "be_fill (Suc k) n = be_fill k (n div 256) @ [word_of_nat n]"

fun byte_len :: "nat \<Rightarrow> nat" where
  "byte_len n = (if n = 0 then 0 else Suc (byte_len (n div 256)))"

declare byte_len.simps [simp del]

definition be_min :: "nat \<Rightarrow> bytes" where
  "be_min n = be_fill (byte_len n) n"

text \<open>\<open>(*big.Int).FillBytes\<close> panics when the value does not fit the buffer.\<close>

definition FillBytes :: "nat \<Rightarrow> nat \<Rightarrow> bytes option" where
  "FillBytes k n = (if n < 256 ^ k then Some (be_fill k n) else None)"

lemma be_nat_snoc [simp]: "be_nat (bs @ [b]) = be_nat bs * 256 + unat b"
  by (simp add: be_nat_def)

lemma be_nat_Nil [simp]: "be_nat [] = 0"
  by (simp add: be_nat_def)

lemma be_nat_append: "be_nat (xs @ ys) = be_nat xs * 256 ^ length ys + be_nat ys"
  by (induction ys rule: rev_induct) (simp_all add: algebra_simps flip: append_assoc)

lemma be_nat_Cons: "be_nat (b # bs) = unat b * 256 ^ length bs + be_nat bs"
  using be_nat_append [of "[b]" bs] be_nat_snoc [of "[]" b] by simp

lemma length_be_fill [simp]: "length (be_fill k n) = k"
  by (induction k arbitrary: n) auto

lemma unat_byte_lt: "unat (b :: byte) < 256"
  using unsigned_less [of b, where 'a = nat] by simp

lemma unat_byte_of_nat [simp]: "unat (word_of_nat n :: byte) = n mod 256"
  by (simp add: unat_of_nat)

lemma be_nat_fill: "be_nat (be_fill k n) = n mod 256 ^ k"
  by (induction k arbitrary: n) (simp_all add: mod_mult2_eq)

lemma be_nat_lt: "be_nat bs < 256 ^ length bs"
proof (induction bs rule: rev_induct)
  case (snoc b bs)
  have "be_nat bs * 256 + unat b < (be_nat bs + 1) * 256" using unat_byte_lt [of b] by simp
  also have "\<dots> \<le> 256 ^ length bs * 256" using snoc by (intro mult_right_mono) auto
  finally show ?case by simp
qed simp

lemma be_fill_nat [simp]: "be_fill (length bs) (be_nat bs) = bs"
proof (induction bs rule: rev_induct)
  case (snoc b bs)
  have "(be_nat bs * 256 + unat b) div 256 = be_nat bs" using unat_byte_lt [of b] by simp
  moreover have "(word_of_nat (be_nat bs * 256 + unat b) :: byte) = b"
    
    by (rule unsigned_word_eqI [where 'a = nat], subst unat_byte_of_nat) (simp add: unat_byte_lt mod_less)
  ultimately show ?case using snoc by simp
qed simp

lemma byte_len_bound: "n < 256 ^ byte_len n"
proof (induction n rule: byte_len.induct)
  case (1 n)
  show ?case
  proof (cases "n = 0")
    case False
    with 1 have "n div 256 < 256 ^ byte_len (n div 256)" by simp
    then have "n < 256 * 256 ^ byte_len (n div 256)" by (simp add: div_less_iff_less_mult mult.commute)
    with False show ?thesis by (simp add: byte_len.simps [of n])
  qed (simp add: byte_len.simps)
qed

lemma byte_len_le: "n < 256 ^ k \<Longrightarrow> byte_len n \<le> k"
proof (induction k arbitrary: n)
  case (Suc k)
  then have "n div 256 < 256 ^ k" by (simp add: div_less_iff_less_mult mult.commute)
  with Suc.IH have "byte_len (n div 256) \<le> k" .
  then show ?case by (simp add: byte_len.simps [of n])
qed (simp add: byte_len.simps)

lemma be_nat_min [simp]: "be_nat (be_min n) = n"
  by (simp add: be_min_def be_nat_fill byte_len_bound)

lemma length_be_min [simp]: "length (be_min n) = byte_len n"
  by (simp add: be_min_def)

lemma be_min_not_Nil [simp]: "be_min n = [] \<longleftrightarrow> n = 0"
  by (simp add: byte_len.simps flip: length_0_conv)

text \<open>The shortest form has no leading zero byte.\<close>

lemma hd_be_min: "n > 0 \<Longrightarrow> hd (be_min n) \<noteq> 0"
proof
  assume n: "n > 0" and "hd (be_min n) = 0"
  then obtain bs where m: "be_min n = 0 # bs" by (cases "be_min n") auto
  with be_nat_min [of n] have "be_nat bs = n" by (simp add: be_nat_Cons)
  with be_nat_lt [of bs] byte_len_le [of n "length bs"] have "byte_len n \<le> length bs" by simp
  with m show False using length_be_min [of n] by simp
qed

section \<open>Block cipher modes\<close>

definition xor_bytes :: "bytes \<Rightarrow> bytes \<Rightarrow> bytes" where
  "xor_bytes xs ys = map2 (XOR) xs ys"

lemma length_xor_bytes [simp]: "length (xor_bytes xs ys) = min (length xs) (length ys)"
  by (simp add: xor_bytes_def)

lemma xor_bytes_cancel: "length xs = length ys \<Longrightarrow> xor_bytes ys (xor_bytes ys xs) = xs"
  unfolding xor_bytes_def
  by (induction xs ys rule: list_induct2) (simp_all flip: xor.assoc)

lemma xor_bytes_cancel_left: "length xs \<le> length ys \<Longrightarrow> xor_bytes ys (xor_bytes ys xs) = xs"
  unfolding xor_bytes_def
  by (induction xs arbitrary: ys) (auto simp: Suc_le_length_iff simp flip: xor.assoc)

definition aesBlockSize :: nat where "aesBlockSize = 16"

lemma aesBlockSize_pos [simp]: "aesBlockSize > 0" "aesBlockSize \<noteq> 0"
  by (simp_all add: aesBlockSize_def)

text \<open>The loops of \<open>CryptBlocks\<close> and \<open>XORKeyStream\<close>, over whole blocks and over a counter.\<close>

function cbc_encrypt :: "(bytes \<Rightarrow> bytes) \<Rightarrow> bytes \<Rightarrow> bytes \<Rightarrow> bytes" where
  "cbc_encrypt E iv src =
     (if src = [] then []
      else let c = E (xor_bytes iv (take aesBlockSize src)) in c @ cbc_encrypt E c (drop aesBlockSize src))"
  by auto
termination by (relation "measure (\<lambda>(E, iv, src). length src)") auto

function cbc_decrypt :: "(bytes \<Rightarrow> bytes) \<Rightarrow> bytes \<Rightarrow> bytes \<Rightarrow> bytes" where
  "cbc_decrypt D iv src =
     (if src = [] then []
      else xor_bytes iv (D (take aesBlockSize src)) @ cbc_decrypt D (take aesBlockSize src) (drop aesBlockSize src))"
  by auto
termination by (relation "measure (\<lambda>(D, iv, src). length src)") auto

function ctr_xor :: "(bytes \<Rightarrow> bytes) \<Rightarrow> nat \<Rightarrow> bytes \<Rightarrow> bytes" where
  "ctr_xor E counter src =
     (if src = [] then []
      else xor_bytes (E (be_fill aesBlockSize counter)) (take aesBlockSize src) @
        ctr_xor E (counter + 1) (drop aesBlockSize src))"
  by auto
termination by (relation "measure (\<lambda>(E, c, src). length src)") auto

declare cbc_encrypt.simps [simp del] cbc_decrypt.simps [simp del] ctr_xor.simps [simp del]

text \<open>
  \<open>NewCBCEncrypter\<close>, \<open>NewCBCDecrypter\<close> and \<open>NewCTR\<close> panic on an IV of the wrong length, and
  \<open>CryptBlocks\<close> on input that is not whole blocks. The counter wraps with the block.
\<close>

definition CryptBlocks :: "((bytes \<Rightarrow> bytes) \<Rightarrow> bytes \<Rightarrow> bytes \<Rightarrow> bytes) \<Rightarrow> (bytes \<Rightarrow> bytes) \<Rightarrow> bytes \<Rightarrow> bytes \<Rightarrow> bytes option" where
  "CryptBlocks mode F iv src =
     (if length iv \<noteq> aesBlockSize \<or> length src mod aesBlockSize \<noteq> 0 then None else Some (mode F iv src))"

definition XORKeyStream :: "(bytes \<Rightarrow> bytes) \<Rightarrow> bytes \<Rightarrow> bytes \<Rightarrow> bytes option" where
  "XORKeyStream E iv src = (if length iv \<noteq> aesBlockSize then None else Some (ctr_xor E (be_nat iv) src))"

definition block_inverse :: "(bytes \<Rightarrow> bytes) \<Rightarrow> (bytes \<Rightarrow> bytes) \<Rightarrow> bool" where
  "block_inverse E D \<longleftrightarrow> (\<forall>b. length b = aesBlockSize \<longrightarrow> length (E b) = aesBlockSize \<and> D (E b) = b)"

lemma blocks_induct [consumes 1, case_names Nil block]:
  assumes "length (src :: bytes) mod aesBlockSize = 0" "P []"
    and step: "\<And>b rest. length b = aesBlockSize \<Longrightarrow> length rest mod aesBlockSize = 0 \<Longrightarrow> P rest \<Longrightarrow> P (b @ rest)"
  shows "P src"
  using assms(1)
proof (induction "length src" arbitrary: src rule: less_induct)
  case less
  show ?case
  proof (cases "src = []")
    case False
    with less.prems have l: "aesBlockSize \<le> length src"
      by (metis length_greater_0_conv linorder_not_le mod_less neq0_conv)
    then have "length (drop aesBlockSize src) mod aesBlockSize = 0"
      using less.prems by (simp add: le_mod_geq)
    then have "P (take aesBlockSize src @ drop aesBlockSize src)"
      using l False by (intro step less.hyps) auto
    then show ?thesis by simp
  qed (simp add: assms(2))
qed

lemma mode_Nil [simp]: "cbc_encrypt E iv [] = []" "cbc_decrypt D iv [] = []" "ctr_xor E c [] = []"
  by (simp_all add: cbc_encrypt.simps cbc_decrypt.simps ctr_xor.simps)

lemma mode_block:
  assumes "length b = aesBlockSize"
  shows "cbc_encrypt E iv (b @ rest) = E (xor_bytes iv b) @ cbc_encrypt E (E (xor_bytes iv b)) rest"
    and "cbc_decrypt D iv (b @ rest) = xor_bytes iv (D b) @ cbc_decrypt D b rest"
proof -
  from assms have "b \<noteq> []" by auto
  then show "cbc_encrypt E iv (b @ rest) = E (xor_bytes iv b) @ cbc_encrypt E (E (xor_bytes iv b)) rest"
    "cbc_decrypt D iv (b @ rest) = xor_bytes iv (D b) @ cbc_decrypt D b rest"
    using assms by (simp_all add: cbc_encrypt.simps [of E iv "b @ rest"] cbc_decrypt.simps [of D iv "b @ rest"] Let_def)
qed

lemma cbc_round_trip:
  assumes "length src mod aesBlockSize = 0" "block_inverse E D" "length iv = aesBlockSize"
  shows "length (cbc_encrypt E iv src) = length src \<and> cbc_decrypt D iv (cbc_encrypt E iv src) = src"
  using assms(1,3)
proof (induction src arbitrary: iv rule: blocks_induct)
  case (block b rest)
  let ?x = "xor_bytes iv b"
  from block have x: "length (E ?x) = aesBlockSize" "D (E ?x) = ?x"
    using assms(2) by (simp_all add: block_inverse_def)
  from block.IH [OF x(1)] show ?case
    using block x by (simp add: mode_block xor_bytes_cancel)
qed simp

lemma CryptBlocks_round_trip:
  assumes "CryptBlocks cbc_encrypt E iv src = Some ct" "block_inverse E D"
  shows "CryptBlocks cbc_decrypt D iv ct = Some src \<and> length ct = length src"
  using assms cbc_round_trip [of src E D iv] by (auto simp: CryptBlocks_def split: if_splits)

lemma ctr_round_trip:
  assumes "block_inverse E D"
  shows "ctr_xor E c (ctr_xor E c src) = src \<and> length (ctr_xor E c src) = length src"
proof (induction "length src" arbitrary: c src rule: less_induct)
  case less
  let ?k = "E (be_fill aesBlockSize c)" and ?b = "take aesBlockSize src" and ?r = "drop aesBlockSize src"
  have k: "length ?k = aesBlockSize" using assms by (simp add: block_inverse_def)
  show ?case
  proof (cases "src = []")
    case False
    then have 1: "ctr_xor E c src = xor_bytes ?k ?b @ ctr_xor E (c + 1) ?r" by (simp add: ctr_xor.simps [of E c src])
    from less False have 2: "ctr_xor E (c + 1) (ctr_xor E (c + 1) ?r) = ?r" "length (ctr_xor E (c + 1) ?r) = length ?r"
      by auto
    have l: "length (xor_bytes ?k ?b) = length ?b" by (simp add: k)
    have "length (ctr_xor E c src) > 0" using False by (simp add: 1 k)
    then have n: "ctr_xor E c src \<noteq> []" by (rule length_greater_0_conv [THEN iffD1])
    have t: "take aesBlockSize (ctr_xor E c src) = xor_bytes ?k ?b \<and> drop aesBlockSize (ctr_xor E c src) = ctr_xor E (c + 1) ?r"
    proof (cases "aesBlockSize \<le> length src")
      case True then show ?thesis by (simp add: 1 k)
    next
      case False then show ?thesis by (simp add: 1 k)
    qed
    have "ctr_xor E c (ctr_xor E c src) = xor_bytes ?k (xor_bytes ?k ?b) @ ctr_xor E (c + 1) (ctr_xor E (c + 1) ?r)"
      using n t by (subst ctr_xor.simps) simp
    also have "\<dots> = src" unfolding 2 by (simp add: xor_bytes_cancel_left k)
    finally show ?thesis using 1 2 l by simp
  qed simp
qed

lemma XORKeyStream_round_trip:
  assumes "XORKeyStream E iv src = Some ct" "block_inverse E D"
  shows "XORKeyStream E iv ct = Some src \<and> length ct = length src"
  using assms ctr_round_trip [of E D "be_nat iv" src] by (auto simp: XORKeyStream_def split: if_splits)

section \<open>DER integers\<close>

text \<open>
  \<open>asn1.Marshal\<close> of a SEQUENCE of two non-negative INTEGERs, and \<open>asn1.Unmarshal\<close> into that
  structure: tags, definite minimal lengths below \<open>2^31\<close>, minimal two's-complement integers.
  As in Go's \<open>parseField\<close>, bytes of the SEQUENCE after its last field are ignored.
\<close>

definition der_len :: "nat \<Rightarrow> bytes" where
  "der_len n = (if n < 128 then [word_of_nat n] else word_of_nat (128 + byte_len n) # be_min n)"

definition der_int :: "nat \<Rightarrow> bytes" where
  "der_int n = (if n = 0 then [0] else if 128 \<le> unat (hd (be_min n)) then 0 # be_min n else be_min n)"

definition der_tlv :: "byte \<Rightarrow> bytes \<Rightarrow> bytes" where
  "der_tlv tag body = tag # der_len (length body) @ body"

definition asn1_marshal_pair :: "nat \<Rightarrow> nat \<Rightarrow> bytes" where
  "asn1_marshal_pair r s = der_tlv 0x30 (der_tlv 2 (der_int r) @ der_tlv 2 (der_int s))"

fun der_read_long :: "nat \<Rightarrow> nat \<Rightarrow> bytes \<Rightarrow> (nat \<times> bytes) option" where
  "der_read_long 0 acc bs = (if acc < 128 then None else Some (acc, bs))"
| "der_read_long (Suc k) acc [] = None"
| "der_read_long (Suc k) acc (b # bs) =
     (if acc \<ge> 2 ^ 23 then None
      else if acc * 256 + unat b = 0 then None
      else der_read_long k (acc * 256 + unat b) bs)"

fun der_read_len :: "bytes \<Rightarrow> (nat \<times> bytes) option" where
  "der_read_len [] = None"
| "der_read_len (b # bs) =
     (if unat b < 128 then Some (unat b, bs)
      else if unat b = 128 then None
      else der_read_long (unat b - 128) 0 bs)"

fun der_read_tlv :: "byte \<Rightarrow> bytes \<Rightarrow> (bytes \<times> bytes) option" where
  "der_read_tlv tag [] = None"
| "der_read_tlv tag (t # bs) =
     (if t \<noteq> tag then None
      else case der_read_len bs of
        None \<Rightarrow> None
      | Some (n, rest) \<Rightarrow> if length rest < n then None else Some (take n rest, drop n rest))"

fun der_minimal :: "bytes \<Rightarrow> bool" where
  "der_minimal [] = False"
| "der_minimal [b] = True"
| "der_minimal (b # c # bs) = (\<not> (b = 0 \<and> unat c < 128 \<or> b = 255 \<and> unat c \<ge> 128))"

definition der_signed :: "bytes \<Rightarrow> int" where
  "der_signed bs = (if unat (hd bs) < 128 then int (be_nat bs) else int (be_nat bs) - 256 ^ length bs)"

definition der_read_int :: "bytes \<Rightarrow> (int \<times> bytes) option" where
  "der_read_int bs =
     (case der_read_tlv 2 bs of
        None \<Rightarrow> None
      | Some (body, rest) \<Rightarrow> if der_minimal body then Some (der_signed body, rest) else None)"

definition asn1_unmarshal_pair :: "bytes \<Rightarrow> (int \<times> int \<times> bytes) option" where
  "asn1_unmarshal_pair bs =
     (case der_read_tlv 0x30 bs of
        None \<Rightarrow> None
      | Some (inner, rest) \<Rightarrow>
      case der_read_int inner of
        None \<Rightarrow> None
      | Some (r, inner') \<Rightarrow>
      case der_read_int inner' of
        None \<Rightarrow> None
      | Some (s, _) \<Rightarrow> Some (r, s, rest))"

lemma byte_len_small: "0 < n \<Longrightarrow> n < 256 \<Longrightarrow> byte_len n = 1"
  by (simp add: byte_len.simps)

lemma be_min_small: "0 < n \<Longrightarrow> n < 256 \<Longrightarrow> be_min n = [word_of_nat n]"
  by (simp add: be_min_def byte_len_small)

lemma der_read_len_len: "n < 256 \<Longrightarrow> der_read_len (der_len n @ rest) = Some (n, rest)"
  by (auto simp: der_len_def be_min_small byte_len_small)

lemma der_read_tlv_tlv: "length body < 256 \<Longrightarrow> der_read_tlv tag (der_tlv tag body @ rest) = Some (body, rest)"
  by (simp add: der_tlv_def der_read_len_len)

lemma der_int_minimal: "der_minimal (der_int n)"
proof (cases "n = 0")
  case False
  then have h: "hd (be_min n) \<noteq> 0" "be_min n \<noteq> []" using hd_be_min by auto
  then obtain b bs where b: "be_min n = b # bs" "b \<noteq> 0" by (cases "be_min n") auto
  show ?thesis
  proof (cases "128 \<le> unat b")
    case True then show ?thesis using b False by (simp add: der_int_def)
  next
    case small: False
    then have "b \<noteq> 255" by auto
    then show ?thesis using small b False by (cases bs) (simp_all add: der_int_def)
  qed
qed (simp add: der_int_def)

lemma der_signed_int: "der_signed (der_int n) = int n"
proof (cases "n = 0")
  case False
  then obtain b bs where b: "be_min n = b # bs" by (cases "be_min n") auto
  then show ?thesis using False be_nat_min [of n] by (auto simp: der_int_def der_signed_def be_nat_Cons)
qed (simp add: der_int_def der_signed_def be_nat_Cons)

lemma length_der_int: "n < 256 ^ k \<Longrightarrow> length (der_int n) \<le> Suc k"
  using byte_len_le [of n k] by (simp add: der_int_def)

lemma length_der_tlv: "length body < 128 \<Longrightarrow> length (der_tlv tag body) = length body + 2"
  by (simp add: der_tlv_def der_len_def)

lemma der_read_int_int:
  assumes "n < 256 ^ 66"
  shows "der_read_int (der_tlv 2 (der_int n) @ rest) = Some (int n, rest)"
proof -
  from length_der_int [OF assms] have "length (der_int n) < 256" by simp
  then show ?thesis by (simp add: der_read_int_def der_read_tlv_tlv der_int_minimal der_signed_int)
qed

lemma asn1_round_trip:
  assumes "r < 256 ^ 66" "s < 256 ^ 66"
  shows "asn1_unmarshal_pair (asn1_marshal_pair r s @ rest) = Some (int r, int s, rest)"
proof -
  have "length (der_int r) < 128" "length (der_int s) < 128"
    using length_der_int [OF assms(1)] length_der_int [OF assms(2)] by simp_all
  then have "length (der_tlv 2 (der_int r) @ der_tlv 2 (der_int s)) < 256"
    using length_der_int [OF assms(1)] length_der_int [OF assms(2)] by (simp add: length_der_tlv)
  from der_read_tlv_tlv [OF this] show ?thesis
    using der_read_int_int [OF assms(1)] der_read_int_int [OF assms(2), of "[]"]
    by (simp add: asn1_unmarshal_pair_def asn1_marshal_pair_def)
qed

end
