(* ===== verification/Provider_Messages.thy ===== *)
theory Provider_Messages
  imports Go_Bytes
begin

text \<open>
  The messages a provider receives and returns (\<open>citius-api-go/gen/go/types\<close>,
  \<open>citius-provider-go/gen/provider\<close>), with the fields and enum values the sources of
  \<open>internal/provider\<close> name; every other value of an enum is its last constructor. A nil message
  reads as the zero value, so that an absent algorithm is \<^const>\<open>None\<close> and an absent byte field is
  empty. \<open>HashAlgorithm\<close> is a number because the sources compare its values: the order
  \<open>UNSPECIFIED < SHA256 < SHA384 < SHA512\<close> is the one they document. Unsigned 32-bit fields
  are natural numbers; the sources only compare and divide them.
\<close>

datatype private_key_encoding = PRIV_UNSPECIFIED | PRIV_PKCS8 | PRIV_SEC1 | PRIV_RAW | PRIV_PEM | PRIV_OTHER int
datatype public_key_encoding = PUB_UNSPECIFIED | PUB_SPKI | PUB_RAW | PUB_OTHER int
datatype elliptic_curve = CURVE_P256 | CURVE_P384 | CURVE_P521 | CURVE_OTHER int
datatype signature_format = SIG_UNSPECIFIED | SIG_DER | SIG_IEEE_P1363 | SIG_OTHER int
datatype padding_scheme = PADDING_PKCS7 | PADDING_OTHER int
datatype mask_generation = MGF_UNSPECIFIED | MGF_MGF1 | MGF_OTHER int
datatype salt_length_mode = SALT_HASH_LENGTH | SALT_MAX | SALT_EXPLICIT | SALT_OTHER int
datatype ed25519_variant = ED25519_UNSPECIFIED | ED25519_PURE | ED25519_PH | ED25519_OTHER int
datatype mldsa_parameter_set = ML_DSA_44 | ML_DSA_65 | ML_DSA_87 | ML_DSA_OTHER int

type_synonym hash_algorithm = int

definition HASH_UNSPECIFIED :: hash_algorithm where "HASH_UNSPECIFIED = 0"
definition HASH_SHA256 :: hash_algorithm where "HASH_SHA256 = 1"
definition HASH_SHA384 :: hash_algorithm where "HASH_SHA384 = 2"
definition HASH_SHA512 :: hash_algorithm where "HASH_SHA512 = 3"

lemmas hash_values = HASH_UNSPECIFIED_def HASH_SHA256_def HASH_SHA384_def HASH_SHA512_def

text \<open>The printed form of an enum value belongs to generated code: a parameter over these values.\<close>

datatype proto_enum =
    EnumPrivEnc private_key_encoding | EnumPubEnc public_key_encoding | EnumCurve elliptic_curve
  | EnumFormat signature_format | EnumPadding padding_scheme | EnumMgf mask_generation
  | EnumSalt salt_length_mode | EnumVariant ed25519_variant | EnumMlDsa mldsa_parameter_set
  | EnumHash hash_algorithm

record ecdsa_params =
  ecCurve :: elliptic_curve
  ecHash :: hash_algorithm
  ecFormat :: signature_format

record mldsa_params =
  mlParameterSet :: mldsa_parameter_set
  mlDeterministic :: bool

record rsa_pss_params =
  pssKeySizeBits :: nat
  pssHash :: hash_algorithm
  pssMgf :: mask_generation
  pssMgfHash :: hash_algorithm
  pssSaltMode :: salt_length_mode
  pssSaltBytes :: nat

record rsa_pkcs1_params =
  pkKeySizeBits :: nat
  pkHash :: hash_algorithm

record aes_gcm_params =
  gcmKeySizeBits :: nat
  gcmIvSizeBits :: nat
  gcmTagSizeBits :: nat

record aes_cbc_params =
  cbcKeySizeBits :: nat
  cbcIvSizeBits :: nat
  cbcPadding :: padding_scheme

record aes_ctr_params =
  ctrKeySizeBits :: nat
  ctrNonceSizeBits :: nat
  ctrCounterBits :: nat

record chacha_params =
  ccNonceSizeBits :: nat
  ccBlockCounterBits :: nat
  ccExtendedNonce :: bool

datatype algorithm_details =
    AlgEcdsa ecdsa_params | AlgMlDsa mldsa_params | AlgRsaPss rsa_pss_params
  | AlgRsaPkcs1V15 rsa_pkcs1_params | AlgEd25519 ed25519_variant | AlgAesGcm aes_gcm_params
  | AlgAesCbc aes_cbc_params | AlgAesCtr aes_ctr_params | AlgChacha20Poly1305 chacha_params
  | AlgOther string

text \<open>
  \<open>ProviderOutput\<close>: what an operation tells the caller to keep. The constructors are the helpers
  of \<open>citius-core/provider\<close> the sources call, the readers the generated getters.
\<close>

datatype provider_output =
    NoOutput string | NoOutputUnencoded | AeadOutput bytes nat string | BlockCipherOutput bytes string

fun aeadNonce :: "provider_output \<Rightarrow> bytes" where
  "aeadNonce (AeadOutput nonce _ _) = nonce"
| "aeadNonce _ = []"

fun blockCipherIv :: "provider_output \<Rightarrow> bytes" where
  "blockCipherIv (BlockCipherOutput iv _) = iv"
| "blockCipherIv _ = []"

record sign_request_p =
  sgAlgorithm :: "algorithm_details option"
  sgKeyMaterial :: bytes
  sgKeyEncoding :: private_key_encoding
  sgInput :: bytes
  sgContext :: bytes

record verify_request_p =
  vfAlgorithm :: "algorithm_details option"
  vfKeyMaterial :: bytes
  vfKeyEncoding :: public_key_encoding
  vfInput :: bytes
  vfSignature :: bytes
  vfContext :: bytes

record sign_digest_request_p =
  sdAlgorithm :: "algorithm_details option"
  sdKeyMaterial :: bytes
  sdKeyEncoding :: private_key_encoding
  sdDigest :: bytes
  sdHash :: hash_algorithm

record verify_digest_request_p =
  vdAlgorithm :: "algorithm_details option"
  vdKeyMaterial :: bytes
  vdKeyEncoding :: public_key_encoding
  vdDigest :: bytes
  vdHash :: hash_algorithm
  vdSignature :: bytes

record encrypt_request_p =
  enAlgorithm :: "algorithm_details option"
  enKeyMaterial :: bytes
  enPlaintext :: bytes
  enAad :: bytes

record decrypt_request_p =
  deAlgorithm :: "algorithm_details option"
  deKeyMaterial :: bytes
  deCiphertext :: bytes
  deAad :: bytes
  deOutput :: provider_output

datatype provider_request =
    ReqGenerate "algorithm_details option" | ReqSign sign_request_p | ReqVerify verify_request_p
  | ReqSignDigest sign_digest_request_p | ReqVerifyDigest verify_digest_request_p
  | ReqEncrypt encrypt_request_p | ReqDecrypt decrypt_request_p

record generated_key =
  gkPublicKey :: bytes
  gkKeyMaterial :: bytes
  gkOutput :: provider_output
  gkKeyEncoding :: private_key_encoding
  gkPublicEncoding :: public_key_encoding

text \<open>
  \<open>provider.Transfer\<close> of citius-core: the encodings in which a stored key can leave for another
  provider and in which one is accepted from it.
\<close>

record transfer =
  trEmit :: "private_key_encoding list"
  trAccept :: "private_key_encoding list"

text \<open>
  What both providers use of generated code and of citius-core: printed forms, the validator that
  \<open>protovalidate.New\<close> builds once (or its error), and the digest length of a hash.
\<close>

record provider_env =
  pvErrs :: errors_pkg
  enumString :: "proto_enum \<Rightarrow> string"
  typeString :: "algorithm_details option \<Rightarrow> string"
  requestValidator :: "(provider_request \<Rightarrow> string option) result"
  digestLengthForHash :: "hash_algorithm \<Rightarrow> nat option"

section \<open>Descriptions\<close>

text \<open>\<open>ImplementationProperties\<close> and \<open>ProviderInfo\<close>; an optional field that is not set is \<^const>\<open>None\<close>.\<close>

record fips140 =
  fcCertified :: bool
  fcLevel :: nat

record implementation_properties =
  ipLanguage :: string
  ipMemorySafe :: "bool option"
  ipHardwareAccelerated :: "bool option"
  ipFips140 :: "fips140 option"

datatype provider_type = PROVIDER_TYPE_SOFTWARE

record provider_info =
  piName :: string
  piVersion :: string
  piType :: string
  piDescription :: string
  piProviderType :: provider_type
  piDefault :: "implementation_properties option"

end
