(* ===== verification/Openssl_Keys.thy ===== *)
theory Openssl_Keys
  imports Provider_Messages
begin

text \<open>
  The OpenSSL provider (\<open>internal/provider/openssl\<close>): the names it gives to algorithms (\<open>names.go\<close>),
  request validation (\<open>reqvalidate.go\<close>), raw symmetric keys (\<open>symmetric.go\<close>) and the parsing of
  stored keys (\<open>sign.go\<close>).

  \<open>ossl-go\<close> is a parameter: \<open>ossl_env\<close> holds what the provider calls on one library context.
  \<open>'k\<close> is the type of its key handles and \<open>'e\<close> the state of the sources of randomness when an
  operation reads them. Names the package exports as constants are constructors; an empty name
  or an option left at its zero value is its own constructor. Closing a handle after use has no
  effect on a result and is left out.
\<close>

datatype ossl_key_algorithm =
    NoKeyAlgorithm | OsslEC | OsslRSA | OsslEd25519 | OsslMLDSA44 | OsslMLDSA65 | OsslMLDSA87 | OsslOtherKey string
datatype ossl_curve = NoCurve | OsslP256 | OsslP384 | OsslP521
datatype ossl_digest = NoDigest | OsslSHA256 | OsslSHA384 | OsslSHA512
datatype ossl_cipher_name =
    AES128GCM | AES192GCM | AES256GCM | AES128CBC | AES192CBC | AES256CBC
  | AES128CTR | AES192CTR | AES256CTR | OsslChaCha20Poly1305
datatype ossl_padding = NoPadding | PaddingPKCS7
datatype ossl_signature_format = FormatUnset | SignatureDER | SignatureP1363
datatype ossl_rsa_padding = RsaPaddingUnset | RSAPSS | RSAPKCS1v15
datatype ossl_salt_length = SaltUnset | PSSSaltLengthHash | PSSSaltLengthMax | PSSSaltLength nat
datatype ossl_key_option = NoKeyOption | WithGroup ossl_curve | WithRSABits nat

record sign_options =
  soDigest :: ossl_digest
  soFormat :: ossl_signature_format
  soPadding :: ossl_rsa_padding
  soSaltLen :: ossl_salt_length
  soPrehash :: bool
  soContext :: "bytes option"
  soDeterministic :: bool

definition no_sign_options :: sign_options where
  "no_sign_options = \<lparr>soDigest = NoDigest, soFormat = FormatUnset, soPadding = RsaPaddingUnset, soSaltLen = SaltUnset,
     soPrehash = False, soContext = None, soDeterministic = False\<rparr>"

record ossl_cipher =
  ocIVSize :: nat
  ocEncrypt :: "bytes \<Rightarrow> bytes \<Rightarrow> bytes result"
  ocDecrypt :: "bytes \<Rightarrow> bytes \<Rightarrow> bytes result"

record ossl_aead =
  oaNonceSize :: nat
  oaSealErr :: "bytes \<Rightarrow> bytes \<Rightarrow> bytes \<Rightarrow> bytes result"
  oaOpen :: "bytes \<Rightarrow> bytes \<Rightarrow> bytes \<Rightarrow> bytes result"

text \<open>
  \<open>isErrVerification\<close> is \<open>errors.Is(err, ossl.ErrVerification)\<close>; \<open>osslNewCipher\<close> takes the value of
  \<open>WithPadding\<close> and \<open>osslNewAEAD\<close> those of \<open>WithIVSize\<close> and \<open>WithTagSize\<close>, when they are given.
\<close>

record ('e, 'k) ossl_env = provider_env +
  osslRandRead :: "'e \<Rightarrow> nat \<Rightarrow> bytes result"
  isErrVerification :: "error \<Rightarrow> bool"
  keyAlgorithmString :: "ossl_key_algorithm \<Rightarrow> string"
  osslGenerateKey :: "'e \<Rightarrow> ossl_key_algorithm \<Rightarrow> ossl_key_option \<Rightarrow> 'k result"
  keyType :: "'k \<Rightarrow> ossl_key_algorithm"
  keyBits :: "'k \<Rightarrow> nat"
  parsePKCS8PrivateKey :: "bytes \<Rightarrow> 'k result"
  parseSEC1PrivateKey :: "bytes \<Rightarrow> 'k result"
  parseSPKIPublicKey :: "bytes \<Rightarrow> 'k result"
  parseRawPublicKey :: "ossl_key_algorithm \<Rightarrow> bytes \<Rightarrow> 'k result"
  marshalPKCS8 :: "'k \<Rightarrow> bytes result"
  marshalSEC1 :: "'k \<Rightarrow> bytes result"
  marshalSPKI :: "'k \<Rightarrow> bytes result"
  marshalRawPublicKey :: "'k \<Rightarrow> bytes result"
  keySign :: "'e \<Rightarrow> 'k \<Rightarrow> bytes \<Rightarrow> sign_options \<Rightarrow> bytes result"
  keyVerify :: "'k \<Rightarrow> bytes \<Rightarrow> bytes \<Rightarrow> sign_options \<Rightarrow> error option"
  keySignDigest :: "'e \<Rightarrow> 'k \<Rightarrow> bytes \<Rightarrow> sign_options \<Rightarrow> bytes result"
  keyVerifyDigest :: "'k \<Rightarrow> bytes \<Rightarrow> bytes \<Rightarrow> sign_options \<Rightarrow> error option"
  osslNewCipher :: "ossl_cipher_name \<Rightarrow> bytes \<Rightarrow> ossl_padding option \<Rightarrow> ossl_cipher result"
  osslNewAEAD :: "ossl_cipher_name \<Rightarrow> bytes \<Rightarrow> (nat \<times> nat) option \<Rightarrow> ossl_aead result"

type_synonym ('e, 'k, 'z) osslK = "('e, 'k, 'z) ossl_env_scheme"

section \<open>Names\<close>

definition curveFor :: "'z provider_env_scheme \<Rightarrow> string \<Rightarrow> elliptic_curve \<Rightarrow> ossl_curve result" where
  "curveFor K opn curve =
     (case curve of
        CURVE_P256 \<Rightarrow> Inr OsslP256
      | CURVE_P384 \<Rightarrow> Inr OsslP384
      | CURVE_P521 \<Rightarrow> Inr OsslP521
      | _ \<Rightarrow> Inl (ErrNew opn CodeNotImplemented (''unsupported ECDSA curve: '' @ enumString K (EnumCurve curve))))"

definition mlDSAKeyAlgorithmFor ::
  "'z provider_env_scheme \<Rightarrow> string \<Rightarrow> mldsa_parameter_set \<Rightarrow> (ossl_key_algorithm \<times> ossl_curve) result" where
  "mlDSAKeyAlgorithmFor K opn ps =
     (case ps of
        ML_DSA_44 \<Rightarrow> Inr (OsslMLDSA44, NoCurve)
      | ML_DSA_65 \<Rightarrow> Inr (OsslMLDSA65, NoCurve)
      | ML_DSA_87 \<Rightarrow> Inr (OsslMLDSA87, NoCurve)
      | _ \<Rightarrow> Inl (ErrNew opn CodeNotImplemented
               (''unsupported ML-DSA parameter set: '' @ enumString K (EnumMlDsa ps))))"

definition keyAlgorithmFor ::
  "'z provider_env_scheme \<Rightarrow> string \<Rightarrow> algorithm_details option \<Rightarrow> (ossl_key_algorithm \<times> ossl_curve) outcome" where
  "keyAlgorithmFor K opn alg =
     (case alg of
        Some (AlgEcdsa p) \<Rightarrow> orReturn (Some (curveFor K opn (ecCurve p))) (\<lambda>curve. ok (OsslEC, curve))
      | Some (AlgRsaPss _) \<Rightarrow> ok (OsslRSA, NoCurve)
      | Some (AlgRsaPkcs1V15 _) \<Rightarrow> ok (OsslRSA, NoCurve)
      | Some (AlgEd25519 _) \<Rightarrow> ok (OsslEd25519, NoCurve)
      | Some (AlgMlDsa p) \<Rightarrow> Some (mlDSAKeyAlgorithmFor K opn (mlParameterSet p))
      | _ \<Rightarrow> fails (ErrNew opn CodeNotImplemented
               (''unsupported algorithm for asymmetric key generation: '' @ typeString K alg)))"

definition digestNameFor :: "'z provider_env_scheme \<Rightarrow> string \<Rightarrow> hash_algorithm \<Rightarrow> ossl_digest result" where
  "digestNameFor K opn hash =
     (if hash = HASH_UNSPECIFIED then Inr NoDigest
      else if hash = HASH_SHA256 then Inr OsslSHA256
      else if hash = HASH_SHA384 then Inr OsslSHA384
      else if hash = HASH_SHA512 then Inr OsslSHA512
      else Inl (ErrNew opn CodeNotImplemented (''unsupported hash algorithm: '' @ enumString K (EnumHash hash))))"

definition aesGCMNames :: "nat \<rightharpoonup> ossl_cipher_name" where
  "aesGCMNames = [128 \<mapsto> AES128GCM, 192 \<mapsto> AES192GCM, 256 \<mapsto> AES256GCM]"

definition aesCBCNames :: "nat \<rightharpoonup> ossl_cipher_name" where
  "aesCBCNames = [128 \<mapsto> AES128CBC, 192 \<mapsto> AES192CBC, 256 \<mapsto> AES256CBC]"

definition aesCTRNames :: "nat \<rightharpoonup> ossl_cipher_name" where
  "aesCTRNames = [128 \<mapsto> AES128CTR, 192 \<mapsto> AES192CTR, 256 \<mapsto> AES256CTR]"

definition aesCipherNameFor ::
  "string \<Rightarrow> nat \<Rightarrow> (nat \<rightharpoonup> ossl_cipher_name) \<Rightarrow> ossl_cipher_name result" where
  "aesCipherNameFor opn keySizeBits table =
     (case table keySizeBits of
        None \<Rightarrow> Inl (ErrNew opn CodeNotImplemented (''unsupported AES key size: '' @ show_nat keySizeBits @ '' bits''))
      | Some name \<Rightarrow> Inr name)"

definition cipherNameFor ::
  "'z provider_env_scheme \<Rightarrow> string \<Rightarrow> algorithm_details option \<Rightarrow> ossl_cipher_name result" where
  "cipherNameFor K opn alg =
     (case alg of
        Some (AlgAesGcm p) \<Rightarrow> aesCipherNameFor opn (gcmKeySizeBits p) aesGCMNames
      | Some (AlgAesCbc p) \<Rightarrow> aesCipherNameFor opn (cbcKeySizeBits p) aesCBCNames
      | Some (AlgAesCtr p) \<Rightarrow> aesCipherNameFor opn (ctrKeySizeBits p) aesCTRNames
      | Some (AlgChacha20Poly1305 p) \<Rightarrow>
          if ccExtendedNonce p then
            Inl (ErrNew opn CodeNotImplemented
              ''XChaCha20-Poly1305 (extended nonce) is not supported: ossl-go has no cipher name for it'')
          else Inr OsslChaCha20Poly1305
      | _ \<Rightarrow> Inl (ErrNew opn CodeNotImplemented
               (''unsupported algorithm for cipher selection: '' @ typeString K alg)))"

section \<open>Request validation\<close>

definition validateRequest_ossl :: "'z provider_env_scheme \<Rightarrow> string \<Rightarrow> provider_request \<Rightarrow> unit result" where
  "validateRequest_ossl K opn req =
     (case requestValidator K of
        Inl e \<Rightarrow> Inl (ErrWrap opn (Some ''failed to construct protovalidate validator'') e)
      | Inr validate \<Rightarrow>
        (case validate req of
           Some valErr \<Rightarrow> Inl (ErrNew opn CodeInvalidArgument (''request failed constraint validation: '' @ valErr))
         | None \<Rightarrow> Inr ()))"

section \<open>Symmetric keys\<close>

definition checkAESKeySize_ossl :: "string \<Rightarrow> nat \<Rightarrow> unit result" where
  "checkAESKeySize_ossl opn keySizeBits =
     refuse (keySizeBits \<notin> {128, 192, 256})
       (ErrNew opn CodeNotImplemented (''unsupported AES key size: '' @ show_nat keySizeBits @ '' bits''))"

definition generateAESKey_ossl :: "('e, 'k, 'z) osslK \<Rightarrow> 'e \<Rightarrow> nat \<Rightarrow> bytes outcome" where
  "generateAESKey_ossl K e keySizeBits =
     (let opn = ''openssl.generateAESKey'' in
      orReturn (Some (checkAESKeySize_ossl opn keySizeBits)) (\<lambda>_.
      orWrap opn (Some (osslRandRead K e (keySizeBits div 8))) ok))"

definition generateChaCha20Key_ossl :: "('e, 'k, 'z) osslK \<Rightarrow> 'e \<Rightarrow> bytes outcome" where
  "generateChaCha20Key_ossl K e = orWrap ''openssl.generateChaCha20Key'' (Some (osslRandRead K e 32)) ok"

definition generateSymmetricKey_ossl :: "('e, 'k, 'z) osslK \<Rightarrow> 'e \<Rightarrow> algorithm_details option \<Rightarrow> bytes outcome" where
  "generateSymmetricKey_ossl K e alg =
     (case alg of
        Some (AlgAesGcm p) \<Rightarrow> generateAESKey_ossl K e (gcmKeySizeBits p)
      | Some (AlgAesCbc p) \<Rightarrow> generateAESKey_ossl K e (cbcKeySizeBits p)
      | Some (AlgAesCtr p) \<Rightarrow> generateAESKey_ossl K e (ctrKeySizeBits p)
      | Some (AlgChacha20Poly1305 p) \<Rightarrow> generateChaCha20Key_ossl K e
      | _ \<Rightarrow> fails (ErrNew ''openssl.generateSymmetricKey'' CodeNotImplemented
               (''unsupported symmetric algorithm type: '' @ typeString K alg)))"

section \<open>Stored keys\<close>

definition parsePrivateKey ::
  "('e, 'k, 'z) osslK \<Rightarrow> string \<Rightarrow> bytes \<Rightarrow> private_key_encoding \<Rightarrow> 'k outcome" where
  "parsePrivateKey K opn privDER encoding =
     (if encoding = PRIV_SEC1 then orWrap opn (Some (parseSEC1PrivateKey K privDER)) ok
      else if encoding = PRIV_PKCS8 then orWrap opn (Some (parsePKCS8PrivateKey K privDER)) ok
      else fails (ErrNew opn CodeNotImplemented
        (''unsupported private key encoding: '' @ enumString K (EnumPrivEnc encoding))))"

definition parsePublicKey ::
  "('e, 'k, 'z) osslK \<Rightarrow> string \<Rightarrow> bytes \<Rightarrow> public_key_encoding \<Rightarrow> 'k outcome" where
  "parsePublicKey K opn pubDER encoding =
     (if encoding = PUB_SPKI then orWrap opn (Some (parseSPKIPublicKey K pubDER)) ok
      else fails (ErrNew opn CodeNotImplemented
        (''unsupported public key encoding: '' @ enumString K (EnumPubEnc encoding))))"

definition verifyOutcome :: "('e, 'k, 'z) osslK \<Rightarrow> string \<Rightarrow> error option \<Rightarrow> bool outcome" where
  "verifyOutcome K opn err =
     (case err of
        None \<Rightarrow> ok True
      | Some er \<Rightarrow> if isErrVerification K er then ok False else fails (ErrWrap opn None er))"

end
