(* ===== verification/Openssl_Signatures.thy ===== *)
theory Openssl_Signatures
  imports Openssl_Keys
begin

text \<open>
  The signature algorithms of the OpenSSL provider (\<open>ecdsa.go\<close>, \<open>rsa.go\<close>, \<open>ed25519.go\<close>,
  \<open>mldsa.go\<close> under \<open>internal/provider/openssl\<close>): resolve the options \<open>ossl-go\<close> needs, check the
  stored key against the declared algorithm, make one call, and read its verdict.
\<close>

section \<open>ECDSA\<close>

definition generateECDSAKey_ossl :: "('e, 'k, 'z) osslK \<Rightarrow> 'e \<Rightarrow> elliptic_curve \<Rightarrow> (bytes \<times> bytes) outcome" where
  "generateECDSAKey_ossl K e curve =
     (let opn = ''openssl.generateECDSAKey'' in
      orReturn (Some (curveFor K opn curve)) (\<lambda>group.
      orWrap opn (Some (osslGenerateKey K e OsslEC (WithGroup group))) (\<lambda>key.
      orWrap opn (Some (marshalSPKI K key)) (\<lambda>pubDER.
      orWrap opn (Some (marshalSEC1 K key)) (\<lambda>privDER.
      ok (pubDER, privDER))))))"

fun curveBits :: "elliptic_curve \<Rightarrow> nat" where
  "curveBits CURVE_P256 = 256"
| "curveBits CURVE_P384 = 384"
| "curveBits CURVE_P521 = 521"
| "curveBits _ = 0"

definition checkCurveMatches_ossl :: "('e, 'k, 'z) osslK \<Rightarrow> string \<Rightarrow> 'k \<Rightarrow> elliptic_curve \<Rightarrow> unit result" where
  "checkCurveMatches_ossl K opn key declared =
     (let wantBits = curveBits declared in
      refuse (keyType K key \<noteq> OsslEC \<or> keyBits K key \<noteq> wantBits)
        (ErrNew opn CodeInvalidArgument
          (''key type/size '' @ keyAlgorithmString K (keyType K key) @ ''/'' @ show_nat (keyBits K key) @
           '' does not match declared algorithm curve '' @ enumString K (EnumCurve declared) @
           '' (want EC/'' @ show_nat wantBits @ '')'')))"

definition curveMinHash_ossl :: "'z provider_env_scheme \<Rightarrow> string \<Rightarrow> elliptic_curve \<Rightarrow> hash_algorithm result" where
  "curveMinHash_ossl K opn curve =
     (case curve of
        CURVE_P256 \<Rightarrow> Inr HASH_SHA256
      | CURVE_P384 \<Rightarrow> Inr HASH_SHA384
      | CURVE_P521 \<Rightarrow> Inr HASH_SHA512
      | _ \<Rightarrow> Inl (ErrNew opn CodeNotImplemented (''unsupported ECDSA curve: '' @ enumString K (EnumCurve curve))))"

definition ecdsaDigestName ::
  "'z provider_env_scheme \<Rightarrow> string \<Rightarrow> elliptic_curve \<Rightarrow> hash_algorithm \<Rightarrow> ossl_digest outcome" where
  "ecdsaDigestName K opn curve hash =
     orReturn (Some (curveMinHash_ossl K opn curve)) (\<lambda>minHash.
     if hash = HASH_UNSPECIFIED then Some (digestNameFor K opn minHash)
     else if hash < minHash then
       fails (ErrNew opn CodeInvalidArgument
         (''hash '' @ enumString K (EnumHash hash) @ '' is below the minimum strength required for curve '' @
          enumString K (EnumCurve curve) @ '' (minimum '' @ enumString K (EnumHash minHash) @ '')''))
     else Some (digestNameFor K opn hash))"

definition ecdsaSignatureFormat ::
  "'z provider_env_scheme \<Rightarrow> string \<Rightarrow> signature_format \<Rightarrow> ossl_signature_format result" where
  "ecdsaSignatureFormat K opn fmt =
     (case fmt of
        SIG_UNSPECIFIED \<Rightarrow> Inr SignatureDER
      | SIG_DER \<Rightarrow> Inr SignatureDER
      | SIG_IEEE_P1363 \<Rightarrow> Inr SignatureP1363
      | _ \<Rightarrow> Inl (ErrNew opn CodeNotImplemented
               (''unsupported ECDSA signature format: '' @ enumString K (EnumFormat fmt))))"

fun ecdsaSignatureEncodingLabel_ossl :: "signature_format \<Rightarrow> string" where
  "ecdsaSignatureEncodingLabel_ossl SIG_IEEE_P1363 = ''p1363''"
| "ecdsaSignatureEncodingLabel_ossl _ = ''der''"

definition signECDSA_ossl ::
  "('e, 'k, 'z) osslK \<Rightarrow> 'e \<Rightarrow> bytes \<Rightarrow> bytes \<Rightarrow> private_key_encoding \<Rightarrow> elliptic_curve \<Rightarrow> hash_algorithm \<Rightarrow>
   signature_format \<Rightarrow> bytes outcome" where
  "signECDSA_ossl K e privDER payload keyEncoding curve hash fmt =
     (let opn = ''openssl.signECDSA'' in
      orReturn (parsePrivateKey K opn privDER keyEncoding) (\<lambda>key.
      orReturn (Some (checkCurveMatches_ossl K opn key curve)) (\<lambda>_.
      orReturn (ecdsaDigestName K opn curve hash) (\<lambda>digest.
      orReturn (Some (ecdsaSignatureFormat K opn fmt)) (\<lambda>sigFormat.
      orWrap opn (Some (keySign K e key payload (no_sign_options\<lparr>soDigest := digest, soFormat := sigFormat\<rparr>))) ok)))))"

definition ecdsaDigestSignName ::
  "'z provider_env_scheme \<Rightarrow> string \<Rightarrow> hash_algorithm \<Rightarrow> nat \<Rightarrow> ossl_digest result" where
  "ecdsaDigestSignName K opn hash digestLen =
     (if hash \<noteq> HASH_UNSPECIFIED then digestNameFor K opn hash
      else if digestLen = 32 then Inr OsslSHA256
      else if digestLen = 48 then Inr OsslSHA384
      else if digestLen = 64 then Inr OsslSHA512
      else Inl (ErrNew opn CodeInvalidArgument
        (''cannot infer a hash algorithm for a '' @ show_nat digestLen @
         ''-byte digest; declare hash_algorithm explicitly'')))"

definition signECDSADigest_ossl ::
  "('e, 'k, 'z) osslK \<Rightarrow> 'e \<Rightarrow> bytes \<Rightarrow> bytes \<Rightarrow> private_key_encoding \<Rightarrow> elliptic_curve \<Rightarrow> hash_algorithm \<Rightarrow>
   signature_format \<Rightarrow> bytes outcome" where
  "signECDSADigest_ossl K e privDER digest keyEncoding curve hash fmt =
     (let opn = ''openssl.signECDSADigest'' in
      orReturn (parsePrivateKey K opn privDER keyEncoding) (\<lambda>key.
      orReturn (Some (checkCurveMatches_ossl K opn key curve)) (\<lambda>_.
      orReturn (Some (ecdsaDigestSignName K opn hash (length digest))) (\<lambda>digestName.
      orReturn (Some (ecdsaSignatureFormat K opn fmt)) (\<lambda>sigFormat.
      orWrap opn (Some (keySignDigest K e key digest (no_sign_options\<lparr>soDigest := digestName, soFormat := sigFormat\<rparr>))) ok)))))"

definition verifyECDSA_ossl ::
  "('e, 'k, 'z) osslK \<Rightarrow> bytes \<Rightarrow> bytes \<Rightarrow> bytes \<Rightarrow> public_key_encoding \<Rightarrow> elliptic_curve \<Rightarrow> hash_algorithm \<Rightarrow>
   signature_format \<Rightarrow> bool outcome" where
  "verifyECDSA_ossl K pubDER payload signature keyEncoding curve hash fmt =
     (let opn = ''openssl.verifyECDSA'' in
      orReturn (parsePublicKey K opn pubDER keyEncoding) (\<lambda>key.
      orReturn (Some (checkCurveMatches_ossl K opn key curve)) (\<lambda>_.
      orReturn (ecdsaDigestName K opn curve hash) (\<lambda>digest.
      orReturn (Some (ecdsaSignatureFormat K opn fmt)) (\<lambda>sigFormat.
      verifyOutcome K opn (keyVerify K key payload signature (no_sign_options\<lparr>soDigest := digest, soFormat := sigFormat\<rparr>)))))))"

definition verifyECDSADigest_ossl ::
  "('e, 'k, 'z) osslK \<Rightarrow> bytes \<Rightarrow> bytes \<Rightarrow> bytes \<Rightarrow> public_key_encoding \<Rightarrow> elliptic_curve \<Rightarrow> hash_algorithm \<Rightarrow>
   signature_format \<Rightarrow> bool outcome" where
  "verifyECDSADigest_ossl K pubDER digest signature keyEncoding curve hash fmt =
     (let opn = ''openssl.verifyECDSADigest'' in
      orReturn (parsePublicKey K opn pubDER keyEncoding) (\<lambda>key.
      orReturn (Some (checkCurveMatches_ossl K opn key curve)) (\<lambda>_.
      orReturn (Some (ecdsaDigestSignName K opn hash (length digest))) (\<lambda>digestName.
      orReturn (Some (ecdsaSignatureFormat K opn fmt)) (\<lambda>sigFormat.
      verifyOutcome K opn
        (keyVerifyDigest K key digest signature (no_sign_options\<lparr>soDigest := digestName, soFormat := sigFormat\<rparr>)))))))"

section \<open>RSA\<close>

definition generateRSAKey_ossl ::
  "('e, 'k, 'z) osslK \<Rightarrow> 'e \<Rightarrow> ossl_key_algorithm \<Rightarrow> nat \<Rightarrow> (bytes \<times> bytes) outcome" where
  "generateRSAKey_ossl K e algorithm bits =
     (let opn = ''openssl.generateRSAKey'' in
      orWrap opn (Some (osslGenerateKey K e algorithm (WithRSABits bits))) (\<lambda>key.
      orWrap opn (Some (marshalSPKI K key)) (\<lambda>pubDER.
      orWrap opn (Some (marshalPKCS8 K key)) (\<lambda>privDER.
      ok (pubDER, privDER)))))"

definition generateRSAKeyForTemplate ::
  "('e, 'k, 'z) osslK \<Rightarrow> 'e \<Rightarrow> algorithm_details option \<Rightarrow> nat \<Rightarrow> (bytes \<times> bytes) outcome" where
  "generateRSAKeyForTemplate K e details bits =
     orReturn (keyAlgorithmFor K ''openssl.generateRSAKeyForTemplate'' details) (\<lambda>(algorithm, _).
     generateRSAKey_ossl K e algorithm bits)"

definition checkRSAKeySize_ossl :: "('e, 'k, 'z) osslK \<Rightarrow> string \<Rightarrow> 'k \<Rightarrow> nat \<Rightarrow> unit result" where
  "checkRSAKeySize_ossl K opn key declaredBits =
     refuse (keyBits K key \<noteq> declaredBits)
       (ErrNew opn CodeInvalidArgument
         (''key size '' @ show_nat (keyBits K key) @ '' bits does not match declared algorithm key size '' @
          show_nat declaredBits @ '' bits''))"

definition checkRSAPSSMGF_ossl ::
  "'z provider_env_scheme \<Rightarrow> string \<Rightarrow> mask_generation \<Rightarrow> hash_algorithm \<Rightarrow> hash_algorithm \<Rightarrow> unit result" where
  "checkRSAPSSMGF_ossl K opn mgf hash mgfHash =
     (if mgf \<noteq> MGF_UNSPECIFIED \<and> mgf \<noteq> MGF_MGF1 then
        Inl (ErrNew opn CodeNotImplemented
          (''unsupported RSA-PSS mask generation function: '' @ enumString K (EnumMgf mgf)))
      else refuse (mgfHash \<noteq> HASH_UNSPECIFIED \<and> mgfHash \<noteq> hash)
        (ErrNew opn CodeNotImplemented
          (''RSA-PSS with mgf_hash ('' @ enumString K (EnumHash mgfHash) @ '') different from hash ('' @
           enumString K (EnumHash hash) @ '') is not supported'')))"

definition rsaPSSSaltLength_ossl ::
  "'z provider_env_scheme \<Rightarrow> string \<Rightarrow> salt_length_mode \<Rightarrow> nat \<Rightarrow> ossl_salt_length result" where
  "rsaPSSSaltLength_ossl K opn mode explicitBytes =
     (case mode of
        SALT_HASH_LENGTH \<Rightarrow> Inr PSSSaltLengthHash
      | SALT_MAX \<Rightarrow> Inr PSSSaltLengthMax
      | SALT_EXPLICIT \<Rightarrow>
          if explicitBytes = 0 then
            Inl (ErrNew opn CodeInvalidArgument ''SALT_LENGTH_MODE_EXPLICIT requires salt_length_bytes > 0'')
          else Inr (PSSSaltLength explicitBytes)
      | _ \<Rightarrow> Inl (ErrNew opn CodeNotImplemented
               (''unsupported RSA-PSS salt length mode: '' @ enumString K (EnumSalt mode))))"

definition rsaHashName :: "'z provider_env_scheme \<Rightarrow> string \<Rightarrow> hash_algorithm \<Rightarrow> ossl_digest result" where
  "rsaHashName K opn hash =
     (if hash = HASH_UNSPECIFIED \<or> hash = HASH_SHA256 then Inr OsslSHA256
      else if hash = HASH_SHA384 then Inr OsslSHA384
      else if hash = HASH_SHA512 then Inr OsslSHA512
      else Inl (ErrNew opn CodeNotImplemented (''unsupported RSA hash algorithm: '' @ enumString K (EnumHash hash))))"

text \<open>The options of the two RSA schemes, checked in the order of the four functions of each.\<close>

definition pssOptions ::
  "('e, 'k, 'z) osslK \<Rightarrow> string \<Rightarrow> 'k \<Rightarrow> hash_algorithm \<Rightarrow> rsa_pss_params \<Rightarrow> sign_options outcome" where
  "pssOptions K opn key hash params =
     orReturn (Some (checkRSAKeySize_ossl K opn key (pssKeySizeBits params))) (\<lambda>_.
     orReturn (Some (checkRSAPSSMGF_ossl K opn (pssMgf params) hash (pssMgfHash params))) (\<lambda>_.
     orReturn (Some (rsaHashName K opn hash)) (\<lambda>digest.
     orReturn (Some (rsaPSSSaltLength_ossl K opn (pssSaltMode params) (pssSaltBytes params))) (\<lambda>saltLen.
     ok (no_sign_options\<lparr>soDigest := digest, soPadding := RSAPSS, soSaltLen := saltLen\<rparr>)))))"

definition pkcs1Options ::
  "('e, 'k, 'z) osslK \<Rightarrow> string \<Rightarrow> 'k \<Rightarrow> hash_algorithm \<Rightarrow> rsa_pkcs1_params \<Rightarrow> sign_options outcome" where
  "pkcs1Options K opn key hash params =
     orReturn (Some (checkRSAKeySize_ossl K opn key (pkKeySizeBits params))) (\<lambda>_.
     orReturn (Some (rsaHashName K opn hash)) (\<lambda>digest.
     ok (no_sign_options\<lparr>soDigest := digest, soPadding := RSAPKCS1v15\<rparr>)))"

definition signRSAPSS_ossl ::
  "('e, 'k, 'z) osslK \<Rightarrow> 'e \<Rightarrow> bytes \<Rightarrow> bytes \<Rightarrow> private_key_encoding \<Rightarrow> rsa_pss_params \<Rightarrow> bytes outcome" where
  "signRSAPSS_ossl K e privDER payload keyEncoding params =
     (let opn = ''openssl.signRSAPSS'' in
      orReturn (parsePrivateKey K opn privDER keyEncoding) (\<lambda>key.
      orReturn (pssOptions K opn key (pssHash params) params) (\<lambda>opts.
      orWrap opn (Some (keySign K e key payload opts)) ok)))"

definition signRSAPKCS1v15_ossl ::
  "('e, 'k, 'z) osslK \<Rightarrow> 'e \<Rightarrow> bytes \<Rightarrow> bytes \<Rightarrow> private_key_encoding \<Rightarrow> rsa_pkcs1_params \<Rightarrow> bytes outcome" where
  "signRSAPKCS1v15_ossl K e privDER payload keyEncoding params =
     (let opn = ''openssl.signRSAPKCS1v15'' in
      orReturn (parsePrivateKey K opn privDER keyEncoding) (\<lambda>key.
      orReturn (pkcs1Options K opn key (pkHash params) params) (\<lambda>opts.
      orWrap opn (Some (keySign K e key payload opts)) ok)))"

definition signRSAPSSDigest_ossl ::
  "('e, 'k, 'z) osslK \<Rightarrow> 'e \<Rightarrow> bytes \<Rightarrow> bytes \<Rightarrow> private_key_encoding \<Rightarrow> hash_algorithm \<Rightarrow> rsa_pss_params \<Rightarrow> bytes outcome" where
  "signRSAPSSDigest_ossl K e privDER digest keyEncoding hashAlg params =
     (let opn = ''openssl.signRSAPSSDigest'' in
      orReturn (parsePrivateKey K opn privDER keyEncoding) (\<lambda>key.
      orReturn (pssOptions K opn key hashAlg params) (\<lambda>opts.
      orWrap opn (Some (keySignDigest K e key digest opts)) ok)))"

definition signRSAPKCS1v15Digest_ossl ::
  "('e, 'k, 'z) osslK \<Rightarrow> 'e \<Rightarrow> bytes \<Rightarrow> bytes \<Rightarrow> private_key_encoding \<Rightarrow> hash_algorithm \<Rightarrow> rsa_pkcs1_params \<Rightarrow> bytes outcome" where
  "signRSAPKCS1v15Digest_ossl K e privDER digest keyEncoding hashAlg params =
     (let opn = ''openssl.signRSAPKCS1v15Digest'' in
      orReturn (parsePrivateKey K opn privDER keyEncoding) (\<lambda>key.
      orReturn (pkcs1Options K opn key hashAlg params) (\<lambda>opts.
      orWrap opn (Some (keySignDigest K e key digest opts)) ok)))"

definition verifyRSAPSS_ossl ::
  "('e, 'k, 'z) osslK \<Rightarrow> bytes \<Rightarrow> bytes \<Rightarrow> bytes \<Rightarrow> public_key_encoding \<Rightarrow> rsa_pss_params \<Rightarrow> bool outcome" where
  "verifyRSAPSS_ossl K pubDER payload signature keyEncoding params =
     (let opn = ''openssl.verifyRSAPSS'' in
      orReturn (parsePublicKey K opn pubDER keyEncoding) (\<lambda>key.
      orReturn (pssOptions K opn key (pssHash params) params) (\<lambda>opts.
      verifyOutcome K opn (keyVerify K key payload signature opts))))"

definition verifyRSAPKCS1v15_ossl ::
  "('e, 'k, 'z) osslK \<Rightarrow> bytes \<Rightarrow> bytes \<Rightarrow> bytes \<Rightarrow> public_key_encoding \<Rightarrow> rsa_pkcs1_params \<Rightarrow> bool outcome" where
  "verifyRSAPKCS1v15_ossl K pubDER payload signature keyEncoding params =
     (let opn = ''openssl.verifyRSAPKCS1v15'' in
      orReturn (parsePublicKey K opn pubDER keyEncoding) (\<lambda>key.
      orReturn (pkcs1Options K opn key (pkHash params) params) (\<lambda>opts.
      verifyOutcome K opn (keyVerify K key payload signature opts))))"

definition verifyRSAPSSDigest_ossl ::
  "('e, 'k, 'z) osslK \<Rightarrow> bytes \<Rightarrow> bytes \<Rightarrow> bytes \<Rightarrow> public_key_encoding \<Rightarrow> hash_algorithm \<Rightarrow> rsa_pss_params \<Rightarrow> bool outcome" where
  "verifyRSAPSSDigest_ossl K pubDER digest signature keyEncoding hashAlg params =
     (let opn = ''openssl.verifyRSAPSSDigest'' in
      orReturn (parsePublicKey K opn pubDER keyEncoding) (\<lambda>key.
      orReturn (pssOptions K opn key hashAlg params) (\<lambda>opts.
      verifyOutcome K opn (keyVerifyDigest K key digest signature opts))))"

definition verifyRSAPKCS1v15Digest_ossl ::
  "('e, 'k, 'z) osslK \<Rightarrow> bytes \<Rightarrow> bytes \<Rightarrow> bytes \<Rightarrow> public_key_encoding \<Rightarrow> hash_algorithm \<Rightarrow> rsa_pkcs1_params \<Rightarrow> bool outcome" where
  "verifyRSAPKCS1v15Digest_ossl K pubDER digest signature keyEncoding hashAlg params =
     (let opn = ''openssl.verifyRSAPKCS1v15Digest'' in
      orReturn (parsePublicKey K opn pubDER keyEncoding) (\<lambda>key.
      orReturn (pkcs1Options K opn key hashAlg params) (\<lambda>opts.
      verifyOutcome K opn (keyVerifyDigest K key digest signature opts))))"

section \<open>Ed25519\<close>

definition generateEd25519Key_ossl :: "('e, 'k, 'z) osslK \<Rightarrow> 'e \<Rightarrow> (bytes \<times> bytes) outcome" where
  "generateEd25519Key_ossl K e =
     (let opn = ''openssl.generateEd25519Key'' in
      orWrap opn (Some (osslGenerateKey K e OsslEd25519 NoKeyOption)) (\<lambda>key.
      orWrap opn (Some (marshalSPKI K key)) (\<lambda>pubDER.
      orWrap opn (Some (marshalPKCS8 K key)) (\<lambda>privDER.
      ok (pubDER, privDER)))))"

definition checkEd25519VariantSupported :: "'z provider_env_scheme \<Rightarrow> string \<Rightarrow> ed25519_variant \<Rightarrow> unit result" where
  "checkEd25519VariantSupported K opn variant =
     refuse (variant \<notin> {ED25519_UNSPECIFIED, ED25519_PURE, ED25519_PH})
       (ErrNew opn CodeNotImplemented (''unsupported Ed25519 variant: '' @ enumString K (EnumVariant variant)))"

text \<open>The comparison of a parsed key with the declared algorithm, where that is not a size.\<close>

definition checkKeyType :: "('e, 'k, 'z) osslK \<Rightarrow> string \<Rightarrow> 'k \<Rightarrow> ossl_key_algorithm \<Rightarrow> string \<Rightarrow> unit result" where
  "checkKeyType K opn key algorithm name =
     refuse (keyType K key \<noteq> algorithm)
       (ErrNew opn CodeInvalidArgument
         (''key type '' @ keyAlgorithmString K (keyType K key) @ '' does not match declared algorithm '' @ name))"

definition signEd25519_ossl ::
  "('e, 'k, 'z) osslK \<Rightarrow> 'e \<Rightarrow> bytes \<Rightarrow> bytes \<Rightarrow> private_key_encoding \<Rightarrow> ed25519_variant \<Rightarrow> bytes outcome" where
  "signEd25519_ossl K e privDER payload keyEncoding variant =
     (let opn = ''openssl.signEd25519'' in
      orReturn (Some (checkEd25519VariantSupported K opn variant)) (\<lambda>_.
      orReturn (parsePrivateKey K opn privDER keyEncoding) (\<lambda>key.
      orReturn (Some (checkKeyType K opn key OsslEd25519 ''Ed25519'')) (\<lambda>_.
      orWrap opn (Some (keySign K e key payload (no_sign_options\<lparr>soPrehash := (variant = ED25519_PH)\<rparr>))) ok))))"

definition checkEd25519PHHash_ossl :: "'z provider_env_scheme \<Rightarrow> string \<Rightarrow> hash_algorithm \<Rightarrow> unit result" where
  "checkEd25519PHHash_ossl K opn hashAlg =
     refuse (hashAlg \<noteq> HASH_UNSPECIFIED \<and> hashAlg \<noteq> HASH_SHA512)
       (ErrNew opn CodeNotImplemented
         (''Ed25519ph requires a SHA-512 digest, got hash_algorithm='' @ enumString K (EnumHash hashAlg)))"

definition signEd25519PHDigest_ossl ::
  "('e, 'k, 'z) osslK \<Rightarrow> 'e \<Rightarrow> bytes \<Rightarrow> bytes \<Rightarrow> private_key_encoding \<Rightarrow> hash_algorithm \<Rightarrow> bytes outcome" where
  "signEd25519PHDigest_ossl K e privDER digest keyEncoding hashAlg =
     (let opn = ''openssl.signEd25519PHDigest'' in
      orReturn (Some (checkEd25519PHHash_ossl K opn hashAlg)) (\<lambda>_.
      orReturn (parsePrivateKey K opn privDER keyEncoding) (\<lambda>key.
      orReturn (Some (checkKeyType K opn key OsslEd25519 ''Ed25519'')) (\<lambda>_.
      orWrap opn (Some (keySignDigest K e key digest (no_sign_options\<lparr>soPrehash := True\<rparr>))) ok))))"

definition verifyEd25519_ossl ::
  "('e, 'k, 'z) osslK \<Rightarrow> bytes \<Rightarrow> bytes \<Rightarrow> bytes \<Rightarrow> public_key_encoding \<Rightarrow> ed25519_variant \<Rightarrow> bool outcome" where
  "verifyEd25519_ossl K pubDER payload signature keyEncoding variant =
     (let opn = ''openssl.verifyEd25519'' in
      orReturn (Some (checkEd25519VariantSupported K opn variant)) (\<lambda>_.
      orReturn (parsePublicKey K opn pubDER keyEncoding) (\<lambda>key.
      orReturn (Some (checkKeyType K opn key OsslEd25519 ''Ed25519'')) (\<lambda>_.
      verifyOutcome K opn
        (keyVerify K key payload signature (no_sign_options\<lparr>soPrehash := (variant = ED25519_PH)\<rparr>))))))"

definition verifyEd25519PHDigest_ossl ::
  "('e, 'k, 'z) osslK \<Rightarrow> bytes \<Rightarrow> bytes \<Rightarrow> bytes \<Rightarrow> public_key_encoding \<Rightarrow> hash_algorithm \<Rightarrow> bool outcome" where
  "verifyEd25519PHDigest_ossl K pubDER digest signature keyEncoding hashAlg =
     (let opn = ''openssl.verifyEd25519PHDigest'' in
      orReturn (Some (checkEd25519PHHash_ossl K opn hashAlg)) (\<lambda>_.
      orReturn (parsePublicKey K opn pubDER keyEncoding) (\<lambda>key.
      orReturn (Some (checkKeyType K opn key OsslEd25519 ''Ed25519'')) (\<lambda>_.
      verifyOutcome K opn (keyVerifyDigest K key digest signature (no_sign_options\<lparr>soPrehash := True\<rparr>))))))"

section \<open>ML-DSA\<close>

text \<open>An absent and an empty domain context are the same to ML-DSA: both are \<open>Some []\<close> here.\<close>

definition mldsaMaxContextLen_ossl :: nat where "mldsaMaxContextLen_ossl = 255"

definition checkMLDSAContextLength_ossl :: "string \<Rightarrow> bytes \<Rightarrow> unit result" where
  "checkMLDSAContextLength_ossl opn domainContext =
     refuse (length domainContext > mldsaMaxContextLen_ossl)
       (ErrNew opn CodeInvalidArgument
         (''domain separation context is '' @ show_nat (length domainContext) @ '' bytes, exceeds the '' @
          show_nat mldsaMaxContextLen_ossl @ ''-byte maximum''))"

definition generateMLDSAKey_ossl :: "('e, 'k, 'z) osslK \<Rightarrow> 'e \<Rightarrow> mldsa_parameter_set \<Rightarrow> (bytes \<times> bytes) outcome" where
  "generateMLDSAKey_ossl K e parameterSet =
     (let opn = ''openssl.generateMLDSAKey'' in
      orReturn (Some (mlDSAKeyAlgorithmFor K opn parameterSet)) (\<lambda>(algorithm, _).
      orWrap opn (Some (osslGenerateKey K e algorithm NoKeyOption)) (\<lambda>key.
      orWrap opn (Some (marshalRawPublicKey K key)) (\<lambda>pubDER.
      orWrap opn (Some (marshalPKCS8 K key)) (\<lambda>privDER.
      ok (pubDER, privDER))))))"

definition signMLDSA_ossl ::
  "('e, 'k, 'z) osslK \<Rightarrow> 'e \<Rightarrow> bytes \<Rightarrow> bytes \<Rightarrow> bytes \<Rightarrow> private_key_encoding \<Rightarrow> mldsa_parameter_set \<Rightarrow> bool \<Rightarrow> bytes outcome" where
  "signMLDSA_ossl K e privDER payload domainContext keyEncoding parameterSet deterministic =
     (let opn = ''openssl.signMLDSA'' in
      orReturn (Some (checkMLDSAContextLength_ossl opn domainContext)) (\<lambda>_.
      orReturn (Some (mlDSAKeyAlgorithmFor K opn parameterSet)) (\<lambda>(algorithm, _).
      orReturn (parsePrivateKey K opn privDER keyEncoding) (\<lambda>key.
      orReturn (Some (checkKeyType K opn key algorithm (keyAlgorithmString K algorithm))) (\<lambda>_.
      orWrap opn (Some (keySign K e key payload
        (no_sign_options\<lparr>soContext := Some domainContext, soDeterministic := deterministic\<rparr>))) ok)))))"

definition verifyMLDSA_ossl ::
  "('e, 'k, 'z) osslK \<Rightarrow> bytes \<Rightarrow> bytes \<Rightarrow> bytes \<Rightarrow> bytes \<Rightarrow> mldsa_parameter_set \<Rightarrow> bool outcome" where
  "verifyMLDSA_ossl K pubBytes payload signature domainContext parameterSet =
     (let opn = ''openssl.verifyMLDSA'' in
      orReturn (Some (checkMLDSAContextLength_ossl opn domainContext)) (\<lambda>_.
      orReturn (Some (mlDSAKeyAlgorithmFor K opn parameterSet)) (\<lambda>(algorithm, _).
      orWrap opn (Some (parseRawPublicKey K algorithm pubBytes)) (\<lambda>key.
      orReturn (Some (checkKeyType K opn key algorithm (keyAlgorithmString K algorithm))) (\<lambda>_.
      verifyOutcome K opn (keyVerify K key payload signature (no_sign_options\<lparr>soContext := Some domainContext\<rparr>)))))))"

end
