(* ===== verification/Openssl_Ciphers.thy ===== *)
theory Openssl_Ciphers
  imports Openssl_Keys
begin

text \<open>
  The ciphers of the OpenSSL provider (\<open>aescbc.go\<close>, \<open>aesctr.go\<close>, \<open>aesgcm.go\<close>,
  \<open>chacha20poly1305.go\<close> under \<open>internal/provider/openssl\<close>). Padding, chaining and the check of the
  key length against the cipher name belong to \<open>ossl-go\<close>. A slice expression past the length of
  the IV buffer panics, which \<^const>\<open>None\<close> stands for.
\<close>

section \<open>AES-CBC\<close>

definition checkAESCBCParamsValid_ossl :: "'z provider_env_scheme \<Rightarrow> string \<Rightarrow> nat \<Rightarrow> padding_scheme \<Rightarrow> unit result" where
  "checkAESCBCParamsValid_ossl K opn ivSizeBits padding =
     (if ivSizeBits \<noteq> 128 then
        Inl (ErrNew opn CodeNotImplemented (''unsupported AES-CBC IV size: '' @ show_nat ivSizeBits @ '' bits''))
      else refuse (padding \<noteq> PADDING_PKCS7)
        (ErrNew opn CodeNotImplemented (''unsupported AES-CBC padding scheme: '' @ enumString K (EnumPadding padding))))"

definition encryptAESCBC_ossl ::
  "('e, 'k, 'z) osslK \<Rightarrow> 'e \<Rightarrow> ossl_cipher_name \<Rightarrow> bytes \<Rightarrow> bytes \<Rightarrow> aes_cbc_params \<Rightarrow> (bytes \<times> bytes) outcome" where
  "encryptAESCBC_ossl K e name keyMaterial plaintext params =
     (let opn = ''openssl.encryptAESCBC'' in
      orReturn (Some (checkAESCBCParamsValid_ossl K opn (cbcIvSizeBits params) (cbcPadding params))) (\<lambda>_.
      orWrap opn (Some (osslNewCipher K name keyMaterial (Some PaddingPKCS7))) (\<lambda>cph.
      orWrap opn (Some (osslRandRead K e (ocIVSize cph))) (\<lambda>iv.
      orWrap opn (Some (ocEncrypt cph iv plaintext)) (\<lambda>ciphertext.
      ok (ciphertext, iv))))))"

definition decryptAESCBC_ossl ::
  "('e, 'k, 'z) osslK \<Rightarrow> ossl_cipher_name \<Rightarrow> bytes \<Rightarrow> bytes \<Rightarrow> bytes \<Rightarrow> aes_cbc_params \<Rightarrow> bytes outcome" where
  "decryptAESCBC_ossl K name keyMaterial ciphertext iv params =
     (let opn = ''openssl.decryptAESCBC'' in
      orReturn (Some (checkAESCBCParamsValid_ossl K opn (cbcIvSizeBits params) (cbcPadding params))) (\<lambda>_.
      orWrap opn (Some (osslNewCipher K name keyMaterial (Some PaddingPKCS7))) (\<lambda>cph.
      case ocDecrypt cph iv ciphertext of
        Inl er \<Rightarrow>
          if isErrVerification K er then
            fails (ErrNew opn CodeInvalidArgument ''invalid PKCS#7 padding or wrong key/IV'')
          else fails (ErrWrap opn None er)
      | Inr plaintext \<Rightarrow> ok plaintext)))"

section \<open>AES-CTR\<close>

definition checkAESCTRParamsValid_ossl :: "string \<Rightarrow> nat \<Rightarrow> nat \<Rightarrow> unit result" where
  "checkAESCTRParamsValid_ossl opn nonceSizeBits counterBits =
     refuse (nonceSizeBits \<noteq> 96 \<or> counterBits \<noteq> 32)
       (ErrNew opn CodeNotImplemented
         (''unsupported AES-CTR nonce/counter split: '' @ show_nat nonceSizeBits @ ''/'' @ show_nat counterBits @
          '' bits (only 96/32 is implemented)''))"

definition encryptAESCTR_ossl ::
  "('e, 'k, 'z) osslK \<Rightarrow> 'e \<Rightarrow> ossl_cipher_name \<Rightarrow> bytes \<Rightarrow> bytes \<Rightarrow> aes_ctr_params \<Rightarrow> (bytes \<times> bytes) outcome" where
  "encryptAESCTR_ossl K e name keyMaterial plaintext params =
     (let opn = ''openssl.encryptAESCTR'' in
      orReturn (Some (checkAESCTRParamsValid_ossl opn (ctrNonceSizeBits params) (ctrCounterBits params))) (\<lambda>_.
      orWrap opn (Some (osslNewCipher K name keyMaterial None)) (\<lambda>cph.
      let nonceSizeBytes = ctrNonceSizeBits params div 8 in
      if nonceSizeBytes > ocIVSize cph then None
      else
        orWrap opn (Some (osslRandRead K e nonceSizeBytes)) (\<lambda>nonce.
        let iv = nonce @ replicate (ocIVSize cph - nonceSizeBytes) 0 in
        orWrap opn (Some (ocEncrypt cph iv plaintext)) (\<lambda>ciphertext.
        ok (ciphertext, iv))))))"

definition decryptAESCTR_ossl ::
  "('e, 'k, 'z) osslK \<Rightarrow> ossl_cipher_name \<Rightarrow> bytes \<Rightarrow> bytes \<Rightarrow> bytes \<Rightarrow> aes_ctr_params \<Rightarrow> bytes outcome" where
  "decryptAESCTR_ossl K name keyMaterial ciphertext iv params =
     (let opn = ''openssl.decryptAESCTR'' in
      orReturn (Some (checkAESCTRParamsValid_ossl opn (ctrNonceSizeBits params) (ctrCounterBits params))) (\<lambda>_.
      orWrap opn (Some (osslNewCipher K name keyMaterial None)) (\<lambda>cph.
      orWrap opn (Some (ocDecrypt cph iv ciphertext)) ok)))"

section \<open>AES-GCM and ChaCha20-Poly1305\<close>

definition encryptAESGCM_ossl ::
  "('e, 'k, 'z) osslK \<Rightarrow> 'e \<Rightarrow> ossl_cipher_name \<Rightarrow> bytes \<Rightarrow> bytes \<Rightarrow> bytes \<Rightarrow> aes_gcm_params \<Rightarrow> (bytes \<times> bytes) outcome" where
  "encryptAESGCM_ossl K e name keyMaterial plaintext aad params =
     (let opn = ''openssl.encryptAESGCM'' in
      orWrap opn (Some (osslNewAEAD K name keyMaterial (Some (gcmIvSizeBits params div 8, gcmTagSizeBits params div 8)))) (\<lambda>aead.
      orWrap opn (Some (osslRandRead K e (oaNonceSize aead))) (\<lambda>nonce.
      orWrap opn (Some (oaSealErr aead nonce plaintext aad)) (\<lambda>ciphertext.
      ok (ciphertext, nonce)))))"

definition decryptAESGCM_ossl ::
  "('e, 'k, 'z) osslK \<Rightarrow> ossl_cipher_name \<Rightarrow> bytes \<Rightarrow> bytes \<Rightarrow> bytes \<Rightarrow> bytes \<Rightarrow> aes_gcm_params \<Rightarrow> bytes outcome" where
  "decryptAESGCM_ossl K name keyMaterial ciphertext nonce aad params =
     (let opn = ''openssl.decryptAESGCM'' in
      orWrap opn (Some (osslNewAEAD K name keyMaterial (Some (gcmIvSizeBits params div 8, gcmTagSizeBits params div 8)))) (\<lambda>aead.
      if length nonce \<noteq> oaNonceSize aead then
        fails (ErrNew opn CodeInvalidArgument
          (''nonce is '' @ show_nat (length nonce) @ '' bytes, want '' @ show_nat (oaNonceSize aead) @ '' bytes''))
      else case oaOpen aead nonce ciphertext aad of
        Inl er \<Rightarrow> fails (ErrNew opn CodeInvalidArgument ''AES-GCM authentication failed'')
      | Inr plaintext \<Rightarrow> ok plaintext))"

definition chaCha20Poly1305TagSizeBytes_ossl :: nat where "chaCha20Poly1305TagSizeBytes_ossl = 16"

definition encryptChaCha20Poly1305_ossl ::
  "('e, 'k, 'z) osslK \<Rightarrow> 'e \<Rightarrow> bytes \<Rightarrow> bytes \<Rightarrow> bytes \<Rightarrow> (bytes \<times> bytes) outcome" where
  "encryptChaCha20Poly1305_ossl K e keyMaterial plaintext aad =
     (let opn = ''openssl.encryptChaCha20Poly1305'' in
      orWrap opn (Some (osslNewAEAD K OsslChaCha20Poly1305 keyMaterial None)) (\<lambda>aead.
      orWrap opn (Some (osslRandRead K e (oaNonceSize aead))) (\<lambda>nonce.
      orWrap opn (Some (oaSealErr aead nonce plaintext aad)) (\<lambda>ciphertext.
      ok (ciphertext, nonce)))))"

definition decryptChaCha20Poly1305_ossl ::
  "('e, 'k, 'z) osslK \<Rightarrow> bytes \<Rightarrow> bytes \<Rightarrow> bytes \<Rightarrow> bytes \<Rightarrow> bytes outcome" where
  "decryptChaCha20Poly1305_ossl K keyMaterial ciphertext nonce aad =
     (let opn = ''openssl.decryptChaCha20Poly1305'' in
      orWrap opn (Some (osslNewAEAD K OsslChaCha20Poly1305 keyMaterial None)) (\<lambda>aead.
      if length nonce \<noteq> oaNonceSize aead then
        fails (ErrNew opn CodeInvalidArgument
          (''nonce is '' @ show_nat (length nonce) @ '' bytes, want '' @ show_nat (oaNonceSize aead) @ '' bytes''))
      else case oaOpen aead nonce ciphertext aad of
        Inl er \<Rightarrow> fails (ErrNew opn CodeInvalidArgument ''ChaCha20-Poly1305 authentication failed'')
      | Inr plaintext \<Rightarrow> ok plaintext))"

end
