(* ===== verification/Openssl_Provider.thy ===== *)
theory Openssl_Provider
  imports Openssl_Signatures Openssl_Ciphers
begin

text \<open>
  The OpenSSL provider (\<open>provider.go\<close>, \<open>options.go\<close>, \<open>encoding.go\<close>, \<open>capability.go\<close> under
  \<open>internal/provider/openssl\<close>): its construction on a library context, the algorithms it
  advertises, and its operations, which validate, dispatch on the algorithm and wrap errors.
\<close>

section \<open>Keys\<close>

definition privateKeyEncoding_ossl :: "algorithm_details option \<Rightarrow> private_key_encoding" where
  "privateKeyEncoding_ossl alg =
     (case alg of
        Some (AlgEcdsa _) \<Rightarrow> PRIV_SEC1
      | Some (AlgMlDsa _) \<Rightarrow> PRIV_PKCS8
      | Some (AlgRsaPss _) \<Rightarrow> PRIV_PKCS8
      | Some (AlgRsaPkcs1V15 _) \<Rightarrow> PRIV_PKCS8
      | Some (AlgEd25519 _) \<Rightarrow> PRIV_PKCS8
      | Some (AlgAesGcm _) \<Rightarrow> PRIV_RAW
      | Some (AlgAesCbc _) \<Rightarrow> PRIV_RAW
      | Some (AlgAesCtr _) \<Rightarrow> PRIV_RAW
      | Some (AlgChacha20Poly1305 _) \<Rightarrow> PRIV_RAW
      | _ \<Rightarrow> PRIV_UNSPECIFIED)"

definition TransferCapabilities_ossl :: "algorithm_details option \<Rightarrow> transfer" where
  "TransferCapabilities_ossl alg =
     (let encoding = privateKeyEncoding_ossl alg in
      if encoding = PRIV_UNSPECIFIED then \<lparr>trEmit = [], trAccept = []\<rparr>
      else \<lparr>trEmit = [encoding], trAccept = [encoding]\<rparr>)"

definition generatedKey_ossl ::
  "'z provider_env_scheme \<Rightarrow> string \<Rightarrow> algorithm_details option \<Rightarrow> bytes \<Rightarrow> bytes \<Rightarrow> public_key_encoding \<Rightarrow> generated_key outcome" where
  "generatedKey_ossl K opn alg pubDER privDER pubEnc =
     (let privEnc = privateKeyEncoding_ossl alg in
      if privEnc = PRIV_UNSPECIFIED then
        fails (ErrNew opn CodeInternal (''no private-key encoding for algorithm type '' @ typeString K alg))
      else ok \<lparr>gkPublicKey = pubDER, gkKeyMaterial = privDER, gkOutput = NoOutputUnencoded,
        gkKeyEncoding = privEnc, gkPublicEncoding = pubEnc\<rparr>)"

definition GenerateKey_ossl :: "('e, 'k, 'z) osslK \<Rightarrow> 'e \<Rightarrow> algorithm_details option \<Rightarrow> generated_key outcome" where
  "GenerateKey_ossl K e alg =
     (let opn = ''openssl.(Provider).GenerateKey'' in
      orReturn (Some (validateRequest_ossl K opn (ReqGenerate alg))) (\<lambda>_.
      case alg of
        Some (AlgEcdsa p) \<Rightarrow>
          orWrap opn (generateECDSAKey_ossl K e (ecCurve p)) (\<lambda>(pubDER, privDER).
          generatedKey_ossl K opn alg pubDER privDER PUB_SPKI)
      | Some (AlgRsaPss p) \<Rightarrow>
          orWrap opn (generateRSAKeyForTemplate K e alg (pssKeySizeBits p)) (\<lambda>(pubDER, privDER).
          generatedKey_ossl K opn alg pubDER privDER PUB_SPKI)
      | Some (AlgRsaPkcs1V15 p) \<Rightarrow>
          orWrap opn (generateRSAKeyForTemplate K e alg (pkKeySizeBits p)) (\<lambda>(pubDER, privDER).
          generatedKey_ossl K opn alg pubDER privDER PUB_SPKI)
      | Some (AlgEd25519 v) \<Rightarrow>
          orWrap opn (generateEd25519Key_ossl K e) (\<lambda>(pubDER, privDER).
          generatedKey_ossl K opn alg pubDER privDER PUB_SPKI)
      | Some (AlgMlDsa p) \<Rightarrow>
          orWrap opn (generateMLDSAKey_ossl K e (mlParameterSet p)) (\<lambda>(pubDER, privDER).
          generatedKey_ossl K opn alg pubDER privDER PUB_RAW)
      | Some (AlgOther _) \<Rightarrow>
          fails (ErrNew opn CodeNotImplemented (''unsupported algorithm type: '' @ typeString K alg))
      | None \<Rightarrow>
          fails (ErrNew opn CodeNotImplemented (''unsupported algorithm type: '' @ typeString K alg))
      | _ \<Rightarrow>
          orWrap opn (generateSymmetricKey_ossl K e alg) (\<lambda>privDER.
          generatedKey_ossl K opn alg [] privDER PUB_UNSPECIFIED)))"

section \<open>Signatures\<close>

definition Sign_ossl ::
  "('e, 'k, 'z) osslK \<Rightarrow> 'e \<Rightarrow> sign_request_p \<Rightarrow> (bytes \<times> provider_output) outcome" where
  "Sign_ossl K e req =
     (let opn = ''openssl.(Provider).Sign'' in
      orReturn (Some (validateRequest_ossl K opn (ReqSign req))) (\<lambda>_.
      case sgAlgorithm req of
        Some (AlgEcdsa p) \<Rightarrow>
          orWrap opn (signECDSA_ossl K e (sgKeyMaterial req) (sgInput req) (sgKeyEncoding req) (ecCurve p) (ecHash p) (ecFormat p)) (\<lambda>sig.
          ok (sig, NoOutput (ecdsaSignatureEncodingLabel_ossl (ecFormat p))))
      | Some (AlgMlDsa p) \<Rightarrow>
          orWrap opn (signMLDSA_ossl K e (sgKeyMaterial req) (sgInput req) (sgContext req) (sgKeyEncoding req)
            (mlParameterSet p) (mlDeterministic p)) (\<lambda>sig.
          ok (sig, NoOutput ''raw''))
      | Some (AlgRsaPss p) \<Rightarrow>
          orWrap opn (signRSAPSS_ossl K e (sgKeyMaterial req) (sgInput req) (sgKeyEncoding req) p) (\<lambda>sig.
          ok (sig, NoOutput ''raw''))
      | Some (AlgRsaPkcs1V15 p) \<Rightarrow>
          orWrap opn (signRSAPKCS1v15_ossl K e (sgKeyMaterial req) (sgInput req) (sgKeyEncoding req) p) (\<lambda>sig.
          ok (sig, NoOutput ''raw''))
      | Some (AlgEd25519 v) \<Rightarrow>
          orWrap opn (signEd25519_ossl K e (sgKeyMaterial req) (sgInput req) (sgKeyEncoding req) v) (\<lambda>sig.
          ok (sig, NoOutput ''raw''))
      | _ \<Rightarrow> fails (ErrNew opn CodeNotImplemented
               (''unsupported algorithm for sign: '' @ typeString K (sgAlgorithm req)))))"

definition Verify_ossl ::
  "('e, 'k, 'z) osslK \<Rightarrow> verify_request_p \<Rightarrow> (bool \<times> provider_output) outcome" where
  "Verify_ossl K req =
     (let opn = ''openssl.(Provider).Verify''; done = (\<lambda>valid. ok (valid, NoOutputUnencoded)) in
      orReturn (Some (validateRequest_ossl K opn (ReqVerify req))) (\<lambda>_.
      case vfAlgorithm req of
        Some (AlgEcdsa p) \<Rightarrow>
          orWrap opn (verifyECDSA_ossl K (vfKeyMaterial req) (vfInput req) (vfSignature req) (vfKeyEncoding req)
            (ecCurve p) (ecHash p) (ecFormat p)) done
      | Some (AlgMlDsa p) \<Rightarrow>
          orWrap opn (verifyMLDSA_ossl K (vfKeyMaterial req) (vfInput req) (vfSignature req) (vfContext req)
            (mlParameterSet p)) done
      | Some (AlgRsaPss p) \<Rightarrow>
          orWrap opn (verifyRSAPSS_ossl K (vfKeyMaterial req) (vfInput req) (vfSignature req) (vfKeyEncoding req) p) done
      | Some (AlgRsaPkcs1V15 p) \<Rightarrow>
          orWrap opn (verifyRSAPKCS1v15_ossl K (vfKeyMaterial req) (vfInput req) (vfSignature req) (vfKeyEncoding req) p) done
      | Some (AlgEd25519 v) \<Rightarrow>
          orWrap opn (verifyEd25519_ossl K (vfKeyMaterial req) (vfInput req) (vfSignature req) (vfKeyEncoding req) v) done
      | _ \<Rightarrow> fails (ErrNew opn CodeNotImplemented
               (''unsupported algorithm for verify: '' @ typeString K (vfAlgorithm req)))))"

definition validateDigestLength_ossl ::
  "'z provider_env_scheme \<Rightarrow> string \<Rightarrow> hash_algorithm \<Rightarrow> nat \<Rightarrow> unit result" where
  "validateDigestLength_ossl K opn hashAlg digestLen =
     (case digestLengthForHash K hashAlg of
        None \<Rightarrow> Inr ()
      | Some wantLen \<Rightarrow>
          refuse (digestLen \<noteq> wantLen)
            (ErrNew opn CodeInvalidArgument
              (''digest length '' @ show_nat digestLen @ '' bytes does not match expected length '' @
               show_nat wantLen @ '' bytes for '' @ enumString K (EnumHash hashAlg))))"

definition SignDigest_ossl ::
  "('e, 'k, 'z) osslK \<Rightarrow> 'e \<Rightarrow> sign_digest_request_p \<Rightarrow> (bytes \<times> provider_output) outcome" where
  "SignDigest_ossl K e req =
     (let opn = ''openssl.(Provider).SignDigest'' in
      orReturn (Some (validateRequest_ossl K opn (ReqSignDigest req))) (\<lambda>_.
      orReturn (Some (validateDigestLength_ossl K opn (sdHash req) (length (sdDigest req)))) (\<lambda>_.
      case sdAlgorithm req of
        Some (AlgEcdsa p) \<Rightarrow>
          orWrap opn (signECDSADigest_ossl K e (sdKeyMaterial req) (sdDigest req) (sdKeyEncoding req) (ecCurve p)
            (sdHash req) (ecFormat p)) (\<lambda>sig.
          ok (sig, NoOutput (ecdsaSignatureEncodingLabel_ossl (ecFormat p))))
      | Some (AlgMlDsa p) \<Rightarrow>
          fails (ErrNew opn CodeInvalidArgument ''SignDigest unsupported for ML-DSA: pure ML-DSA is not prehashable'')
      | Some (AlgRsaPss p) \<Rightarrow>
          orWrap opn (signRSAPSSDigest_ossl K e (sdKeyMaterial req) (sdDigest req) (sdKeyEncoding req) (sdHash req) p) (\<lambda>sig.
          ok (sig, NoOutput ''raw''))
      | Some (AlgRsaPkcs1V15 p) \<Rightarrow>
          orWrap opn (signRSAPKCS1v15Digest_ossl K e (sdKeyMaterial req) (sdDigest req) (sdKeyEncoding req) (sdHash req) p) (\<lambda>sig.
          ok (sig, NoOutput ''raw''))
      | Some (AlgEd25519 v) \<Rightarrow>
          if v \<noteq> ED25519_UNSPECIFIED \<and> v \<noteq> ED25519_PH then
            fails (ErrNew opn CodeInvalidArgument
              ''SignDigest requires Ed25519ph: pure Ed25519 and Ed25519ctx are not prehashable'')
          else
            orWrap opn (signEd25519PHDigest_ossl K e (sdKeyMaterial req) (sdDigest req) (sdKeyEncoding req) (sdHash req)) (\<lambda>sig.
            ok (sig, NoOutput ''raw''))
      | _ \<Rightarrow> fails (ErrNew opn CodeNotImplemented
               (''unsupported algorithm for digest sign: '' @ typeString K (sdAlgorithm req))))))"

definition VerifyDigest_ossl ::
  "('e, 'k, 'z) osslK \<Rightarrow> verify_digest_request_p \<Rightarrow> (bool \<times> provider_output) outcome" where
  "VerifyDigest_ossl K req =
     (let opn = ''openssl.(Provider).VerifyDigest''; done = (\<lambda>valid. ok (valid, NoOutputUnencoded)) in
      orReturn (Some (validateRequest_ossl K opn (ReqVerifyDigest req))) (\<lambda>_.
      orReturn (Some (validateDigestLength_ossl K opn (vdHash req) (length (vdDigest req)))) (\<lambda>_.
      case vdAlgorithm req of
        Some (AlgEcdsa p) \<Rightarrow>
          orWrap opn (verifyECDSADigest_ossl K (vdKeyMaterial req) (vdDigest req) (vdSignature req) (vdKeyEncoding req)
            (ecCurve p) (vdHash req) (ecFormat p)) done
      | Some (AlgMlDsa p) \<Rightarrow>
          fails (ErrNew opn CodeInvalidArgument ''VerifyDigest unsupported for ML-DSA: pure ML-DSA is not prehashable'')
      | Some (AlgRsaPss p) \<Rightarrow>
          orWrap opn (verifyRSAPSSDigest_ossl K (vdKeyMaterial req) (vdDigest req) (vdSignature req) (vdKeyEncoding req)
            (vdHash req) p) done
      | Some (AlgRsaPkcs1V15 p) \<Rightarrow>
          orWrap opn (verifyRSAPKCS1v15Digest_ossl K (vdKeyMaterial req) (vdDigest req) (vdSignature req) (vdKeyEncoding req)
            (vdHash req) p) done
      | Some (AlgEd25519 v) \<Rightarrow>
          if v \<noteq> ED25519_UNSPECIFIED \<and> v \<noteq> ED25519_PH then
            fails (ErrNew opn CodeInvalidArgument
              ''VerifyDigest requires Ed25519ph: pure Ed25519 and Ed25519ctx are not prehashable'')
          else
            orWrap opn (verifyEd25519PHDigest_ossl K (vdKeyMaterial req) (vdDigest req) (vdSignature req) (vdKeyEncoding req)
              (vdHash req)) done
      | _ \<Rightarrow> fails (ErrNew opn CodeNotImplemented
               (''unsupported algorithm for digest verify: '' @ typeString K (vdAlgorithm req))))))"

section \<open>Encryption\<close>

definition Encrypt_ossl ::
  "('e, 'k, 'z) osslK \<Rightarrow> 'e \<Rightarrow> encrypt_request_p \<Rightarrow> (bytes \<times> provider_output) outcome" where
  "Encrypt_ossl K e req =
     (let opn = ''openssl.(Provider).Encrypt''; alg = enAlgorithm req in
      orReturn (Some (validateRequest_ossl K opn (ReqEncrypt req))) (\<lambda>_.
      case alg of
        Some (AlgAesGcm p) \<Rightarrow>
          orWrap opn (Some (cipherNameFor K opn alg)) (\<lambda>name.
          orWrap opn (encryptAESGCM_ossl K e name (enKeyMaterial req) (enPlaintext req) (enAad req) p) (\<lambda>(ciphertext, nonce).
          ok (ciphertext, AeadOutput nonce (gcmTagSizeBits p div 8) ''raw'')))
      | Some (AlgAesCbc p) \<Rightarrow>
          orWrap opn (Some (cipherNameFor K opn alg)) (\<lambda>name.
          orWrap opn (encryptAESCBC_ossl K e name (enKeyMaterial req) (enPlaintext req) p) (\<lambda>(ciphertext, iv).
          ok (ciphertext, BlockCipherOutput iv ''raw'')))
      | Some (AlgAesCtr p) \<Rightarrow>
          orWrap opn (Some (cipherNameFor K opn alg)) (\<lambda>name.
          orWrap opn (encryptAESCTR_ossl K e name (enKeyMaterial req) (enPlaintext req) p) (\<lambda>(ciphertext, iv).
          ok (ciphertext, BlockCipherOutput iv ''raw'')))
      | Some (AlgChacha20Poly1305 p) \<Rightarrow>
          orWrap opn (Some (cipherNameFor K opn alg)) (\<lambda>_.
          orWrap opn (encryptChaCha20Poly1305_ossl K e (enKeyMaterial req) (enPlaintext req) (enAad req)) (\<lambda>(ciphertext, nonce).
          ok (ciphertext, AeadOutput nonce chaCha20Poly1305TagSizeBytes_ossl ''raw'')))
      | _ \<Rightarrow> fails (ErrNew opn CodeNotImplemented
               (''unsupported algorithm for encrypt: '' @ typeString K alg))))"

definition Decrypt_ossl ::
  "('e, 'k, 'z) osslK \<Rightarrow> decrypt_request_p \<Rightarrow> (bytes \<times> provider_output) outcome" where
  "Decrypt_ossl K req =
     (let opn = ''openssl.(Provider).Decrypt''; alg = deAlgorithm req;
          done = (\<lambda>plaintext. ok (plaintext, NoOutputUnencoded)) in
      orReturn (Some (validateRequest_ossl K opn (ReqDecrypt req))) (\<lambda>_.
      case alg of
        Some (AlgAesGcm p) \<Rightarrow>
          orWrap opn (Some (cipherNameFor K opn alg)) (\<lambda>name.
          orWrap opn (decryptAESGCM_ossl K name (deKeyMaterial req) (deCiphertext req) (aeadNonce (deOutput req)) (deAad req) p) done)
      | Some (AlgAesCbc p) \<Rightarrow>
          orWrap opn (Some (cipherNameFor K opn alg)) (\<lambda>name.
          orWrap opn (decryptAESCBC_ossl K name (deKeyMaterial req) (deCiphertext req) (blockCipherIv (deOutput req)) p) done)
      | Some (AlgAesCtr p) \<Rightarrow>
          orWrap opn (Some (cipherNameFor K opn alg)) (\<lambda>name.
          orWrap opn (decryptAESCTR_ossl K name (deKeyMaterial req) (deCiphertext req) (blockCipherIv (deOutput req)) p) done)
      | Some (AlgChacha20Poly1305 p) \<Rightarrow>
          orWrap opn (Some (cipherNameFor K opn alg)) (\<lambda>_.
          orWrap opn (decryptChaCha20Poly1305_ossl K (deKeyMaterial req) (deCiphertext req) (aeadNonce (deOutput req)) (deAad req)) done)
      | _ \<Rightarrow> fails (ErrNew opn CodeNotImplemented
               (''unsupported algorithm for decrypt: '' @ typeString K alg))))"

text \<open>\<open>DestroyKey\<close> does nothing and succeeds.\<close>

definition DestroyKey_ossl :: "unit result" where
  "DestroyKey_ossl = Inr ()"

definition ExportPublicKey_ossl :: "unit result" where
  "ExportPublicKey_ossl =
     Inl (ErrNew ''openssl.(Provider).ExportPublicKey'' CodeNotImplemented ''ExportPublicKey not yet implemented'')"

end
