(* ===== verification/Software_Symmetric.thy ===== *)
theory Software_Symmetric
  imports Provider_Messages
begin

text \<open>
  The symmetric algorithms of the software provider (\<open>internal/provider/software\<close>: \<open>reqvalidate.go\<close>,
  \<open>symmetric.go\<close>, \<open>aescbc.go\<close>, \<open>aesctr.go\<close>, \<open>aesgcm.go\<close>, \<open>chacha20poly1305.go\<close>).

  The primitives of \<open>crypto/aes\<close>, \<open>crypto/cipher\<close>'s GCM, \<open>crypto/rand\<close> and
  \<open>x/crypto/chacha20poly1305\<close> are fields of \<open>sw_symmetric\<close>: the AES permutation of a key, sealing and
  opening, and the bytes a source of entropy yields (\<open>'e\<close> is the state of that source when an
  operation reads it). The modes, key-size checks and constructors around them are definitions.
  \<open>Seal\<close> and \<open>Open\<close> panic on a nonce of the wrong length and past their documented length limits.
\<close>

record aead =
  aeadNonceSize :: nat
  aeadSealLimit :: nat
  aeadOpenLimit :: "nat option"
  aeadSeal :: "bytes \<Rightarrow> bytes \<Rightarrow> bytes \<Rightarrow> bytes"
  aeadOpen :: "bytes \<Rightarrow> bytes \<Rightarrow> bytes \<Rightarrow> bytes option"

definition Seal :: "aead \<Rightarrow> bytes \<Rightarrow> bytes \<Rightarrow> bytes \<Rightarrow> bytes option" where
  "Seal a nonce pt aad =
     (if length nonce \<noteq> aeadNonceSize a \<or> length pt > aeadSealLimit a then None else Some (aeadSeal a nonce pt aad))"

definition Open :: "aead \<Rightarrow> bytes \<Rightarrow> bytes \<Rightarrow> bytes \<Rightarrow> bytes option option" where
  "Open a nonce ct aad =
     (if length nonce \<noteq> aeadNonceSize a \<or> (case aeadOpenLimit a of None \<Rightarrow> False | Some l \<Rightarrow> length ct > l) then None
      else Some (aeadOpen a nonce ct aad))"

record 'e sw_symmetric = provider_env +
  randRead :: "'e \<Rightarrow> nat \<Rightarrow> bytes result"
  aesEncryptBlock :: "bytes \<Rightarrow> bytes \<Rightarrow> bytes"
  aesDecryptBlock :: "bytes \<Rightarrow> bytes \<Rightarrow> bytes"
  gcmSeal :: "bytes \<Rightarrow> nat \<Rightarrow> nat \<Rightarrow> bytes \<Rightarrow> bytes \<Rightarrow> bytes \<Rightarrow> bytes"
  gcmOpen :: "bytes \<Rightarrow> nat \<Rightarrow> nat \<Rightarrow> bytes \<Rightarrow> bytes \<Rightarrow> bytes \<Rightarrow> bytes option"
  chachaNew :: "bytes \<Rightarrow> aead result"
  chachaNewX :: "bytes \<Rightarrow> aead result"

text \<open>\<open>aes.NewCipher\<close> accepts the three AES key sizes; the block cipher is then its key.\<close>

definition aesNewCipher :: "bytes \<Rightarrow> bytes result" where
  "aesNewCipher key =
     (if length key \<in> {16, 24, 32} then Inr key
      else Inl (ErrPlain (''crypto/aes: invalid key size '' @ show_nat (length key))))"

text \<open>
  The three constructors of GCM: a nonce must not be empty and a tag is 12 to 16 bytes.
  A message longer than \<open>(2^32 - 2) * 16\<close> bytes panics in \<open>Seal\<close>.
\<close>

definition gcmAead :: "('e, 'z) sw_symmetric_scheme \<Rightarrow> bytes \<Rightarrow> nat \<Rightarrow> nat \<Rightarrow> aead" where
  "gcmAead K key ns ts =
     \<lparr>aeadNonceSize = ns, aeadSealLimit = (2 ^ 32 - 2) * 16, aeadOpenLimit = None,
      aeadSeal = gcmSeal K key ns ts, aeadOpen = gcmOpen K key ns ts\<rparr>"

definition NewGCM :: "('e, 'z) sw_symmetric_scheme \<Rightarrow> bytes \<Rightarrow> aead result" where
  "NewGCM K key = Inr (gcmAead K key 12 16)"

definition NewGCMWithTagSize :: "('e, 'z) sw_symmetric_scheme \<Rightarrow> bytes \<Rightarrow> nat \<Rightarrow> aead result" where
  "NewGCMWithTagSize K key ts =
     (if ts < 12 \<or> 16 < ts then Inl (ErrPlain ''cipher: incorrect tag size given to GCM'') else Inr (gcmAead K key 12 ts))"

definition NewGCMWithNonceSize :: "('e, 'z) sw_symmetric_scheme \<Rightarrow> bytes \<Rightarrow> nat \<Rightarrow> aead result" where
  "NewGCMWithNonceSize K key ns =
     (if ns = 0 then Inl (ErrPlain ''cipher: the nonce can't have zero length'') else Inr (gcmAead K key ns 16))"

section \<open>Request validation\<close>

definition validateRequest :: "'z provider_env_scheme \<Rightarrow> string \<Rightarrow> provider_request \<Rightarrow> unit result" where
  "validateRequest K opn req =
     (case requestValidator K of
        Inl e \<Rightarrow> Inl (ErrWrap opn (Some ''failed to construct protovalidate validator'') e)
      | Inr validate \<Rightarrow>
        (case validate req of
           Some valErr \<Rightarrow> Inl (ErrNew opn CodeInvalidArgument (''request failed constraint validation: '' @ valErr))
         | None \<Rightarrow> Inr ()))"

section \<open>Keys\<close>

definition checkAESKeySize :: "string \<Rightarrow> nat \<Rightarrow> unit result" where
  "checkAESKeySize opn keySizeBits =
     refuse (keySizeBits \<notin> {128, 192, 256})
       (ErrNew opn CodeNotImplemented (''unsupported AES key size: '' @ show_nat keySizeBits @ '' bits''))"

definition generateAESKey :: "('e, 'z) sw_symmetric_scheme \<Rightarrow> 'e \<Rightarrow> nat \<Rightarrow> bytes outcome" where
  "generateAESKey K e keySizeBits =
     (let opn = ''software.generateAESKey'' in
      orReturn (Some (checkAESKeySize opn keySizeBits)) (\<lambda>_.
      orWrap opn (Some (randRead K e (keySizeBits div 8))) ok))"

definition generateChaCha20Key :: "('e, 'z) sw_symmetric_scheme \<Rightarrow> 'e \<Rightarrow> bytes outcome" where
  "generateChaCha20Key K e = orWrap ''software.generateChaCha20Key'' (Some (randRead K e 32)) ok"

definition generateSymmetricKey :: "('e, 'z) sw_symmetric_scheme \<Rightarrow> 'e \<Rightarrow> algorithm_details option \<Rightarrow> bytes outcome" where
  "generateSymmetricKey K e alg =
     (case alg of
        Some (AlgAesGcm p) \<Rightarrow> generateAESKey K e (gcmKeySizeBits p)
      | Some (AlgAesCbc p) \<Rightarrow> generateAESKey K e (cbcKeySizeBits p)
      | Some (AlgAesCtr p) \<Rightarrow> generateAESKey K e (ctrKeySizeBits p)
      | Some (AlgChacha20Poly1305 p) \<Rightarrow> generateChaCha20Key K e
      | _ \<Rightarrow> fails (ErrNew ''software.generateSymmetricKey'' CodeNotImplemented
               (''unsupported symmetric algorithm type: '' @ typeString K alg)))"

definition checkAESKeyMatchesDeclaredSize :: "string \<Rightarrow> bytes \<Rightarrow> nat \<Rightarrow> unit result" where
  "checkAESKeyMatchesDeclaredSize opn keyMaterial keySizeBits =
     (let wantBytes = keySizeBits div 8 in
      refuse (length keyMaterial \<noteq> wantBytes)
        (ErrNew opn CodeInvalidArgument
          (''key material is '' @ show_nat (length keyMaterial) @ '' bytes, does not match declared key size '' @
           show_nat keySizeBits @ '' bits ('' @ show_nat wantBytes @ '' bytes)'')))"

section \<open>AES-CBC\<close>

definition checkAESCBCParamsValid :: "'z provider_env_scheme \<Rightarrow> string \<Rightarrow> nat \<Rightarrow> padding_scheme \<Rightarrow> unit result" where
  "checkAESCBCParamsValid K opn ivSizeBits padding =
     (if ivSizeBits \<noteq> 128 then
        Inl (ErrNew opn CodeNotImplemented (''unsupported AES-CBC IV size: '' @ show_nat ivSizeBits @ '' bits''))
      else refuse (padding \<noteq> PADDING_PKCS7)
        (ErrNew opn CodeNotImplemented (''unsupported AES-CBC padding scheme: '' @ enumString K (EnumPadding padding))))"

definition pkcs7Pad :: "bytes \<Rightarrow> nat \<Rightarrow> bytes" where
  "pkcs7Pad bs blockSize =
     (let padLen = blockSize - length bs mod blockSize; padByte = word_of_nat (padLen mod 256) in
      bs @ replicate padLen padByte)"

definition pkcs7Unpad :: "string \<Rightarrow> bytes \<Rightarrow> nat \<Rightarrow> bytes result" where
  "pkcs7Unpad opn bs blockSize =
     (if length bs = 0 \<or> length bs mod blockSize \<noteq> 0 then
        Inl (ErrNew opn CodeInvalidArgument ''ciphertext is not a multiple of the block size'')
      else let padLen = unat (bs ! (length bs - 1)) in
      if padLen = 0 \<or> padLen > blockSize \<or> padLen > length bs then
        Inl (ErrNew opn CodeInvalidArgument ''invalid PKCS#7 padding'')
      else if list_ex (\<lambda>b. unat b \<noteq> padLen) (drop (length bs - padLen) bs) then
        Inl (ErrNew opn CodeInvalidArgument ''invalid PKCS#7 padding'')
      else Inr (take (length bs - padLen) bs))"

definition wantLength :: "string \<Rightarrow> string \<Rightarrow> bytes \<Rightarrow> nat \<Rightarrow> unit result" where
  "wantLength opn what bs n =
     refuse (length bs \<noteq> n)
       (ErrNew opn CodeInvalidArgument (what @ '' is '' @ show_nat (length bs) @ '' bytes, want '' @ show_nat n @ '' bytes''))"

definition encryptAESCBC ::
  "('e, 'z) sw_symmetric_scheme \<Rightarrow> 'e \<Rightarrow> bytes \<Rightarrow> bytes \<Rightarrow> aes_cbc_params \<Rightarrow> (bytes \<times> bytes) outcome" where
  "encryptAESCBC K e keyMaterial plaintext params =
     (let opn = ''software.encryptAESCBC'' in
      orReturn (Some (checkAESKeyMatchesDeclaredSize opn keyMaterial (cbcKeySizeBits params))) (\<lambda>_.
      orReturn (Some (checkAESCBCParamsValid K opn (cbcIvSizeBits params) (cbcPadding params))) (\<lambda>_.
      orWrap opn (Some (aesNewCipher keyMaterial)) (\<lambda>block.
      orWrap opn (Some (randRead K e aesBlockSize)) (\<lambda>iv.
      let padded = pkcs7Pad plaintext aesBlockSize in
      case CryptBlocks cbc_encrypt (aesEncryptBlock K block) iv padded of
        None \<Rightarrow> None
      | Some ciphertext \<Rightarrow> ok (ciphertext, iv))))))"

definition decryptAESCBC ::
  "('e, 'z) sw_symmetric_scheme \<Rightarrow> bytes \<Rightarrow> bytes \<Rightarrow> bytes \<Rightarrow> aes_cbc_params \<Rightarrow> bytes outcome" where
  "decryptAESCBC K keyMaterial ciphertext iv params =
     (let opn = ''software.decryptAESCBC'' in
      orReturn (Some (checkAESKeyMatchesDeclaredSize opn keyMaterial (cbcKeySizeBits params))) (\<lambda>_.
      orReturn (Some (checkAESCBCParamsValid K opn (cbcIvSizeBits params) (cbcPadding params))) (\<lambda>_.
      orWrap opn (Some (aesNewCipher keyMaterial)) (\<lambda>block.
      orReturn (Some (wantLength opn ''IV'' iv aesBlockSize)) (\<lambda>_.
      if length ciphertext = 0 \<or> length ciphertext mod aesBlockSize \<noteq> 0 then
        fails (ErrNew opn CodeInvalidArgument ''ciphertext is not a multiple of the block size'')
      else case CryptBlocks cbc_decrypt (aesDecryptBlock K block) iv ciphertext of
        None \<Rightarrow> None
      | Some padded \<Rightarrow> Some (pkcs7Unpad opn padded aesBlockSize))))))"

section \<open>AES-CTR\<close>

definition checkAESCTRParamsValid :: "string \<Rightarrow> nat \<Rightarrow> nat \<Rightarrow> unit result" where
  "checkAESCTRParamsValid opn nonceSizeBits counterBits =
     refuse (nonceSizeBits \<noteq> 96 \<or> counterBits \<noteq> 32)
       (ErrNew opn CodeNotImplemented
         (''unsupported AES-CTR nonce/counter split: '' @ show_nat nonceSizeBits @ ''/'' @ show_nat counterBits @
          '' bits (only 96/32 is implemented)''))"

definition newAESCTRBlock :: "string \<Rightarrow> bytes \<Rightarrow> aes_ctr_params \<Rightarrow> bytes outcome" where
  "newAESCTRBlock opn keyMaterial params =
     orReturn (Some (checkAESKeyMatchesDeclaredSize opn keyMaterial (ctrKeySizeBits params))) (\<lambda>_.
     orReturn (Some (checkAESCTRParamsValid opn (ctrNonceSizeBits params) (ctrCounterBits params))) (\<lambda>_.
     orWrap opn (Some (aesNewCipher keyMaterial)) ok))"

definition encryptAESCTR ::
  "('e, 'z) sw_symmetric_scheme \<Rightarrow> 'e \<Rightarrow> bytes \<Rightarrow> bytes \<Rightarrow> aes_ctr_params \<Rightarrow> (bytes \<times> bytes) outcome" where
  "encryptAESCTR K e keyMaterial plaintext params =
     (let opn = ''software.encryptAESCTR'' in
      orReturn (newAESCTRBlock opn keyMaterial params) (\<lambda>block.
      orWrap opn (Some (randRead K e (ctrNonceSizeBits params div 8))) (\<lambda>nonce.
      let iv = nonce @ replicate (aesBlockSize - length nonce) 0 in
      case XORKeyStream (aesEncryptBlock K block) iv plaintext of
        None \<Rightarrow> None
      | Some ciphertext \<Rightarrow> ok (ciphertext, iv))))"

definition decryptAESCTR ::
  "('e, 'z) sw_symmetric_scheme \<Rightarrow> bytes \<Rightarrow> bytes \<Rightarrow> bytes \<Rightarrow> aes_ctr_params \<Rightarrow> bytes outcome" where
  "decryptAESCTR K keyMaterial ciphertext iv params =
     (let opn = ''software.decryptAESCTR'' in
      orReturn (newAESCTRBlock opn keyMaterial params) (\<lambda>block.
      orReturn (Some (wantLength opn ''IV'' iv aesBlockSize)) (\<lambda>_.
      case XORKeyStream (aesEncryptBlock K block) iv ciphertext of
        None \<Rightarrow> None
      | Some plaintext \<Rightarrow> ok plaintext)))"

section \<open>AES-GCM\<close>

definition aesGCMStandardIVSizeBits :: nat where "aesGCMStandardIVSizeBits = 96"
definition aesGCMStandardTagSizeBits :: nat where "aesGCMStandardTagSizeBits = 128"

definition checkAESGCMSizesValid :: "string \<Rightarrow> nat \<Rightarrow> nat \<Rightarrow> unit result" where
  "checkAESGCMSizesValid opn ivSizeBits tagSizeBits =
     (if ivSizeBits \<notin> {64, 96, 128} then
        Inl (ErrNew opn CodeNotImplemented (''unsupported AES-GCM IV size: '' @ show_nat ivSizeBits @ '' bits''))
      else refuse (tagSizeBits \<notin> {96, 104, 112, 120, 128})
        (ErrNew opn CodeNotImplemented (''unsupported AES-GCM tag size: '' @ show_nat tagSizeBits @ '' bits'')))"

definition newAESGCM :: "('e, 'z) sw_symmetric_scheme \<Rightarrow> string \<Rightarrow> bytes \<Rightarrow> nat \<Rightarrow> nat \<Rightarrow> aead outcome" where
  "newAESGCM K opn key ivSizeBits tagSizeBits =
     orReturn (Some (checkAESGCMSizesValid opn ivSizeBits tagSizeBits)) (\<lambda>_.
     orWrap opn (Some (aesNewCipher key)) (\<lambda>block.
     if ivSizeBits = aesGCMStandardIVSizeBits \<and> tagSizeBits = aesGCMStandardTagSizeBits then
       orWrap opn (Some (NewGCM K block)) ok
     else if ivSizeBits = aesGCMStandardIVSizeBits then
       orWrap opn (Some (NewGCMWithTagSize K block (tagSizeBits div 8))) ok
     else if tagSizeBits = aesGCMStandardTagSizeBits then
       orWrap opn (Some (NewGCMWithNonceSize K block (ivSizeBits div 8))) ok
     else fails (ErrNew opn CodeNotImplemented
       (''AES-GCM with both a non-standard nonce size ('' @ show_nat ivSizeBits @
        '' bits) and a non-standard tag size ('' @ show_nat tagSizeBits @ '' bits) is not supported''))))"

definition encryptAESGCM ::
  "('e, 'z) sw_symmetric_scheme \<Rightarrow> 'e \<Rightarrow> bytes \<Rightarrow> bytes \<Rightarrow> bytes \<Rightarrow> aes_gcm_params \<Rightarrow> (bytes \<times> bytes) outcome" where
  "encryptAESGCM K e keyMaterial plaintext aad params =
     (let opn = ''software.encryptAESGCM'' in
      orReturn (Some (checkAESKeyMatchesDeclaredSize opn keyMaterial (gcmKeySizeBits params))) (\<lambda>_.
      orReturn (newAESGCM K opn keyMaterial (gcmIvSizeBits params) (gcmTagSizeBits params)) (\<lambda>aead.
      orWrap opn (Some (randRead K e (aeadNonceSize aead))) (\<lambda>nonce.
      case Seal aead nonce plaintext aad of
        None \<Rightarrow> None
      | Some ciphertext \<Rightarrow> ok (ciphertext, nonce)))))"

definition decryptAESGCM ::
  "('e, 'z) sw_symmetric_scheme \<Rightarrow> bytes \<Rightarrow> bytes \<Rightarrow> bytes \<Rightarrow> bytes \<Rightarrow> aes_gcm_params \<Rightarrow> bytes outcome" where
  "decryptAESGCM K keyMaterial ciphertext nonce aad params =
     (let opn = ''software.decryptAESGCM'' in
      orReturn (Some (checkAESKeyMatchesDeclaredSize opn keyMaterial (gcmKeySizeBits params))) (\<lambda>_.
      orReturn (newAESGCM K opn keyMaterial (gcmIvSizeBits params) (gcmTagSizeBits params)) (\<lambda>aead.
      orReturn (Some (wantLength opn ''nonce'' nonce (aeadNonceSize aead))) (\<lambda>_.
      case Open aead nonce ciphertext aad of
        None \<Rightarrow> None
      | Some None \<Rightarrow> fails (ErrNew opn CodeInvalidArgument ''AES-GCM authentication failed'')
      | Some (Some plaintext) \<Rightarrow> ok plaintext))))"

section \<open>ChaCha20-Poly1305\<close>

definition ChaCha20Poly1305TagSizeBytes :: nat where "ChaCha20Poly1305TagSizeBytes = 16"

definition checkChaCha20KeySize :: "string \<Rightarrow> bytes \<Rightarrow> unit result" where
  "checkChaCha20KeySize opn keyMaterial =
     refuse (length keyMaterial \<noteq> 32)
       (ErrNew opn CodeInvalidArgument
         (''key material is '' @ show_nat (length keyMaterial) @ '' bytes, ChaCha20-Poly1305 requires a '' @
          show_nat 32 @ ''-byte (256-bit) key''))"

definition showBool :: "bool \<Rightarrow> string" where
  "showBool b = (if b then ''true'' else ''false'')"

definition newChaCha20Poly1305 :: "('e, 'z) sw_symmetric_scheme \<Rightarrow> string \<Rightarrow> bytes \<Rightarrow> chacha_params \<Rightarrow> aead outcome" where
  "newChaCha20Poly1305 K opn key params =
     (if ccNonceSizeBits params = 96 \<and> ccBlockCounterBits params = 32 \<and> \<not> ccExtendedNonce params then
        orWrap opn (Some (chachaNew K key)) ok
      else if ccNonceSizeBits params = 192 \<and> ccBlockCounterBits params = 32 \<and> ccExtendedNonce params then
        orWrap opn (Some (chachaNewX K key)) ok
      else fails (ErrNew opn CodeNotImplemented
        (''unsupported ChaCha20-Poly1305 variant: nonce_size_bits='' @ show_nat (ccNonceSizeBits params) @
         '', block_counter_bits='' @ show_nat (ccBlockCounterBits params) @
         '', extended_nonce='' @ showBool (ccExtendedNonce params))))"

definition encryptChaCha20Poly1305 ::
  "('e, 'z) sw_symmetric_scheme \<Rightarrow> 'e \<Rightarrow> bytes \<Rightarrow> bytes \<Rightarrow> bytes \<Rightarrow> chacha_params \<Rightarrow> (bytes \<times> bytes) outcome" where
  "encryptChaCha20Poly1305 K e keyMaterial plaintext aad params =
     (let opn = ''software.encryptChaCha20Poly1305'' in
      orReturn (Some (checkChaCha20KeySize opn keyMaterial)) (\<lambda>_.
      orReturn (newChaCha20Poly1305 K opn keyMaterial params) (\<lambda>aead.
      orWrap opn (Some (randRead K e (aeadNonceSize aead))) (\<lambda>nonce.
      case Seal aead nonce plaintext aad of
        None \<Rightarrow> None
      | Some ciphertext \<Rightarrow> ok (ciphertext, nonce)))))"

definition decryptChaCha20Poly1305 ::
  "('e, 'z) sw_symmetric_scheme \<Rightarrow> bytes \<Rightarrow> bytes \<Rightarrow> bytes \<Rightarrow> bytes \<Rightarrow> chacha_params \<Rightarrow> bytes outcome" where
  "decryptChaCha20Poly1305 K keyMaterial ciphertext nonce aad params =
     (let opn = ''software.decryptChaCha20Poly1305'' in
      orReturn (Some (checkChaCha20KeySize opn keyMaterial)) (\<lambda>_.
      orReturn (newChaCha20Poly1305 K opn keyMaterial params) (\<lambda>aead.
      orReturn (Some (wantLength opn ''nonce'' nonce (aeadNonceSize aead))) (\<lambda>_.
      case Open aead nonce ciphertext aad of
        None \<Rightarrow> None
      | Some None \<Rightarrow> fails (ErrNew opn CodeInvalidArgument ''ChaCha20-Poly1305 authentication failed'')
      | Some (Some plaintext) \<Rightarrow> ok plaintext))))"

end
