(* ===== verification/Software_Signatures.thy ===== *)
theory Software_Signatures
  imports Software_Symmetric
begin

text \<open>
  The signature algorithms of the software provider (\<open>internal/provider/software\<close>: \<open>ecdsa.go\<close>,
  \<open>ecdsa_signature_format.go\<close>, \<open>rsa.go\<close>, \<open>ed25519.go\<close>, \<open>mldsa.go\<close>). The primitives of \<open>crypto/ecdsa\<close>,
  \<open>crypto/rsa\<close>, \<open>crypto/ed25519\<close>, the hashes, \<open>crypto/x509\<close>'s key formats and CIRCL's ML-DSA are
  fields of \<open>sw_env\<close>; \<open>'sk\<close> and \<open>'pk\<close> are the keys \<open>crypto/x509\<close> parses, \<open>'mk\<close> and \<open>'mp\<close> those of
  CIRCL. The parsing, checking, hashing and encoding around them are definitions.
\<close>

datatype named_curve = P224 | P256 | P384 | P521
datatype key_kind = KindECDSA | KindRSA | KindEd25519 | KindOther
datatype crypto_hash = SHA256 | SHA384 | SHA512
datatype mldsa_scheme = Mldsa44 | Mldsa65 | Mldsa87 | OtherScheme int

fun curveBitSize :: "named_curve \<Rightarrow> nat" where
  "curveBitSize P224 = 224"
| "curveBitSize P256 = 256"
| "curveBitSize P384 = 384"
| "curveBitSize P521 = 521"

fun curveName :: "named_curve \<Rightarrow> string" where
  "curveName P224 = ''P-224''"
| "curveName P256 = ''P-256''"
| "curveName P384 = ''P-384''"
| "curveName P521 = ''P-521''"

record ('e, 'sk, 'pk, 'mk, 'mp) sw_env = "'e sw_symmetric" +
  sumHash :: "crypto_hash \<Rightarrow> bytes \<Rightarrow> bytes"
  x509ParsePKCS8 :: "bytes \<Rightarrow> 'sk result"
  x509ParseEC :: "bytes \<Rightarrow> 'sk result"
  x509ParsePKIX :: "bytes \<Rightarrow> 'pk result"
  x509MarshalPKCS8 :: "'sk \<Rightarrow> bytes result"
  x509MarshalEC :: "'sk \<Rightarrow> bytes result"
  x509MarshalPKIX :: "'pk \<Rightarrow> bytes result"
  privKind :: "'sk \<Rightarrow> key_kind"
  pubKind :: "'pk \<Rightarrow> key_kind"
  privType :: "'sk \<Rightarrow> string"
  publicOf :: "'sk \<Rightarrow> 'pk"
  curveOf :: "'pk \<Rightarrow> named_curve"
  modulusBits :: "'pk \<Rightarrow> nat"
  ecdsaGenerateKey :: "'e \<Rightarrow> named_curve \<Rightarrow> 'sk result"
  ecdsaSign :: "'e \<Rightarrow> 'sk \<Rightarrow> bytes \<Rightarrow> (nat \<times> nat) result"
  ecdsaVerify :: "'pk \<Rightarrow> bytes \<Rightarrow> int \<Rightarrow> int \<Rightarrow> bool"
  rsaGenerateKey :: "'e \<Rightarrow> nat \<Rightarrow> 'sk result"
  rsaSignPSS :: "'e \<Rightarrow> 'sk \<Rightarrow> crypto_hash \<Rightarrow> bytes \<Rightarrow> int \<Rightarrow> bytes result"
  rsaVerifyPSS :: "'pk \<Rightarrow> crypto_hash \<Rightarrow> bytes \<Rightarrow> bytes \<Rightarrow> int \<Rightarrow> error option"
  rsaSignPKCS1v15 :: "'e \<Rightarrow> 'sk \<Rightarrow> crypto_hash \<Rightarrow> bytes \<Rightarrow> bytes result"
  rsaVerifyPKCS1v15 :: "'pk \<Rightarrow> crypto_hash \<Rightarrow> bytes \<Rightarrow> bytes \<Rightarrow> error option"
  edGenerateKey :: "'e \<Rightarrow> ('pk \<times> 'sk) result"
  edSign :: "'sk \<Rightarrow> bytes \<Rightarrow> bytes"
  edVerify :: "'pk \<Rightarrow> bytes \<Rightarrow> bytes \<Rightarrow> bool"
  edSignPH :: "'sk \<Rightarrow> bytes \<Rightarrow> bytes result"
  edVerifyPH :: "'pk \<Rightarrow> bytes \<Rightarrow> bytes \<Rightarrow> error option"
  circlGenerateKey :: "mldsa_scheme \<Rightarrow> 'e \<Rightarrow> ('mp \<times> 'mk) result"
  circlMarshalPublic :: "'mp \<Rightarrow> bytes result"
  circlMarshalPKIX :: "'mk \<Rightarrow> bytes result"
  circlUnmarshalPKIX :: "bytes \<Rightarrow> 'mk result"
  circlSchemeOf :: "'mk \<Rightarrow> mldsa_scheme"
  circlSchemeName :: "mldsa_scheme \<Rightarrow> string"
  circlKeyType :: "'mk \<Rightarrow> string"
  circlUnmarshalPrivate :: "mldsa_scheme \<Rightarrow> bytes \<Rightarrow> 'mk result"
  circlUnmarshalPublic :: "mldsa_scheme \<Rightarrow> bytes \<Rightarrow> 'mp result"
  circlSign :: "mldsa_scheme \<Rightarrow> 'mk \<Rightarrow> bytes \<Rightarrow> bytes \<Rightarrow> bytes option"
  circlSignTo :: "mldsa_scheme \<Rightarrow> 'e \<Rightarrow> 'mk \<Rightarrow> bytes \<Rightarrow> bytes \<Rightarrow> bytes result"
  circlVerify :: "mldsa_scheme \<Rightarrow> 'mp \<Rightarrow> bytes \<Rightarrow> bytes \<Rightarrow> bytes \<Rightarrow> bool"

section \<open>ECDSA signature formats\<close>

fun ecdsaSignatureEncodingLabel :: "signature_format \<Rightarrow> string" where
  "ecdsaSignatureEncodingLabel SIG_IEEE_P1363 = ''p1363''"
| "ecdsaSignatureEncodingLabel _ = ''der''"

definition coordinateSize :: "named_curve \<Rightarrow> nat" where
  "coordinateSize c = (curveBitSize c + 7) div 8"

definition unsupportedFormat :: "'z provider_env_scheme \<Rightarrow> string \<Rightarrow> signature_format \<Rightarrow> error" where
  "unsupportedFormat K opn fmt =
     ErrNew opn CodeNotImplemented (''unsupported ECDSA signature format: '' @ enumString K (EnumFormat fmt))"

definition encodeECDSASignature ::
  "'z provider_env_scheme \<Rightarrow> string \<Rightarrow> nat \<Rightarrow> nat \<Rightarrow> named_curve \<Rightarrow> signature_format \<Rightarrow> bytes outcome" where
  "encodeECDSASignature K opn r s curve fmt =
     (if fmt = SIG_UNSPECIFIED \<or> fmt = SIG_DER then ok (asn1_marshal_pair r s)
      else if fmt = SIG_IEEE_P1363 then
        let k = coordinateSize curve in
        (case (FillBytes k r, FillBytes k s) of
           (Some rb, Some sb) \<Rightarrow> ok (rb @ sb)
         | _ \<Rightarrow> None)
      else fails (unsupportedFormat K opn fmt))"

definition decodeECDSASignature ::
  "'z provider_env_scheme \<Rightarrow> string \<Rightarrow> bytes \<Rightarrow> named_curve \<Rightarrow> signature_format \<Rightarrow> (int \<times> int) result" where
  "decodeECDSASignature K opn sig curve fmt =
     (if fmt = SIG_UNSPECIFIED \<or> fmt = SIG_DER then
        (case asn1_unmarshal_pair sig of
           None \<Rightarrow> Inl (ErrWrap opn None (ErrPlain ''asn1''))
         | Some (r, s, rest) \<Rightarrow>
             if rest \<noteq> [] then Inl (ErrNew opn CodeInvalidArgument ''trailing data after ASN.1 ECDSA signature'')
             else Inr (r, s))
      else if fmt = SIG_IEEE_P1363 then
        let k = coordinateSize curve in
        if length sig \<noteq> 2 * k then
          Inl (ErrNew opn CodeInvalidArgument
            (''IEEE P1363 signature length '' @ show_nat (length sig) @ '' does not match expected '' @
             show_nat (2 * k) @ '' bytes for curve '' @ curveName curve))
        else Inr (int (be_nat (take k sig)), int (be_nat (drop k sig)))
      else Inl (unsupportedFormat K opn fmt))"

section \<open>ECDSA\<close>

definition parseECDSAPKCS8 :: "('e, 'sk, 'pk, 'mk, 'mp, 'z) sw_env_scheme \<Rightarrow> string \<Rightarrow> bytes \<Rightarrow> 'sk outcome" where
  "parseECDSAPKCS8 K opn privDER =
     orWrap opn (Some (x509ParsePKCS8 K privDER)) (\<lambda>key.
     if privKind K key = KindECDSA then ok key
     else fails (ErrNew opn CodeInvalidArgument (''PKCS#8 key is not ECDSA: '' @ privType K key)))"

definition parseECDSASEC1 :: "('e, 'sk, 'pk, 'mk, 'mp, 'z) sw_env_scheme \<Rightarrow> string \<Rightarrow> bytes \<Rightarrow> 'sk outcome" where
  "parseECDSASEC1 K opn privDER = orWrap opn (Some (x509ParseEC K privDER)) ok"

definition parseECDSAPrivateKey ::
  "('e, 'sk, 'pk, 'mk, 'mp, 'z) sw_env_scheme \<Rightarrow> string \<Rightarrow> bytes \<Rightarrow> private_key_encoding \<Rightarrow> 'sk outcome" where
  "parseECDSAPrivateKey K opn privDER encoding =
     (if encoding = PRIV_PKCS8 then parseECDSAPKCS8 K opn privDER
      else if encoding = PRIV_SEC1 then parseECDSASEC1 K opn privDER
      else if encoding = PRIV_RAW \<or> encoding = PRIV_PEM then
        fails (ErrNew opn CodeNotImplemented
          (''unsupported ECDSA private key encoding: '' @ enumString K (EnumPrivEnc encoding)))
      else case x509ParsePKCS8 K privDER of
        Inr key \<Rightarrow>
          if privKind K key = KindECDSA then ok key
          else fails (ErrNew opn CodeInvalidArgument (''PKCS#8 key is not ECDSA: '' @ privType K key))
      | Inl _ \<Rightarrow> parseECDSASEC1 K opn privDER)"

definition parseECDSAPublicKey ::
  "('e, 'sk, 'pk, 'mk, 'mp, 'z) sw_env_scheme \<Rightarrow> string \<Rightarrow> bytes \<Rightarrow> public_key_encoding \<Rightarrow> 'pk outcome" where
  "parseECDSAPublicKey K opn pubDER encoding =
     (if encoding \<noteq> PUB_SPKI \<and> encoding \<noteq> PUB_UNSPECIFIED then
        fails (ErrNew opn CodeNotImplemented
          (''unsupported ECDSA public key encoding: '' @ enumString K (EnumPubEnc encoding)))
      else orWrap opn (Some (x509ParsePKIX K pubDER)) (\<lambda>key.
      if pubKind K key = KindECDSA then ok key
      else fails (ErrNew opn CodeInvalidArgument ''public key is not ECDSA'')))"

definition curveForAlgorithm :: "'z provider_env_scheme \<Rightarrow> string \<Rightarrow> elliptic_curve \<Rightarrow> named_curve result" where
  "curveForAlgorithm K opn curve =
     (case curve of
        CURVE_P256 \<Rightarrow> Inr P256
      | CURVE_P384 \<Rightarrow> Inr P384
      | CURVE_P521 \<Rightarrow> Inr P521
      | _ \<Rightarrow> Inl (ErrNew opn CodeNotImplemented (''unsupported ECDSA curve: '' @ enumString K (EnumCurve curve))))"

definition checkCurveMatches :: "'z provider_env_scheme \<Rightarrow> string \<Rightarrow> named_curve \<Rightarrow> elliptic_curve \<Rightarrow> unit outcome" where
  "checkCurveMatches K opn keyCurve declared =
     orReturn (Some (curveForAlgorithm K opn declared)) (\<lambda>wantCurve.
     Some (refuse (curveName keyCurve \<noteq> curveName wantCurve)
       (ErrNew opn CodeInvalidArgument
         (''key curve '' @ curveName keyCurve @ '' does not match declared algorithm curve '' @ curveName wantCurve))))"

definition curveMinHash :: "'z provider_env_scheme \<Rightarrow> string \<Rightarrow> elliptic_curve \<Rightarrow> hash_algorithm result" where
  "curveMinHash K opn curve =
     (case curve of
        CURVE_P256 \<Rightarrow> Inr HASH_SHA256
      | CURVE_P384 \<Rightarrow> Inr HASH_SHA384
      | CURVE_P521 \<Rightarrow> Inr HASH_SHA512
      | _ \<Rightarrow> Inl (ErrNew opn CodeNotImplemented (''unsupported ECDSA curve: '' @ enumString K (EnumCurve curve))))"

definition ecdsaDigest ::
  "('e, 'sk, 'pk, 'mk, 'mp, 'z) sw_env_scheme \<Rightarrow> string \<Rightarrow> elliptic_curve \<Rightarrow> hash_algorithm \<Rightarrow> bytes \<Rightarrow> bytes outcome" where
  "ecdsaDigest K opn curve hash payload =
     orReturn (Some (curveMinHash K opn curve)) (\<lambda>minHash.
     if hash \<noteq> HASH_UNSPECIFIED \<and> hash < minHash then
       fails (ErrNew opn CodeInvalidArgument
         (''hash '' @ enumString K (EnumHash hash) @ '' is below the minimum strength required for curve '' @
          enumString K (EnumCurve curve) @ '' (minimum '' @ enumString K (EnumHash minHash) @ '')''))
     else
       let resolvedHash = (if hash = HASH_UNSPECIFIED then minHash else hash) in
       if resolvedHash = HASH_SHA256 then ok (sumHash K SHA256 payload)
       else if resolvedHash = HASH_SHA384 then ok (sumHash K SHA384 payload)
       else if resolvedHash = HASH_SHA512 then ok (sumHash K SHA512 payload)
       else fails (ErrNew opn CodeNotImplemented
         (''unsupported ECDSA hash algorithm: '' @ enumString K (EnumHash resolvedHash))))"

definition generateECDSAKey ::
  "('e, 'sk, 'pk, 'mk, 'mp, 'z) sw_env_scheme \<Rightarrow> 'e \<Rightarrow> elliptic_curve \<Rightarrow> (bytes \<times> bytes) outcome" where
  "generateECDSAKey K e curve =
     (let opn = ''software.generateECDSAKey'' in
      orReturn (Some (curveForAlgorithm K opn curve)) (\<lambda>c.
      orWrap opn (Some (ecdsaGenerateKey K e c)) (\<lambda>privKey.
      orWrap opn (Some (x509MarshalPKIX K (publicOf K privKey))) (\<lambda>pubDER.
      orWrap opn (Some (x509MarshalEC K privKey)) (\<lambda>privDER.
      ok (pubDER, privDER))))))"

definition signECDSA ::
  "('e, 'sk, 'pk, 'mk, 'mp, 'z) sw_env_scheme \<Rightarrow> 'e \<Rightarrow> bytes \<Rightarrow> bytes \<Rightarrow> private_key_encoding \<Rightarrow>
   elliptic_curve \<Rightarrow> hash_algorithm \<Rightarrow> signature_format \<Rightarrow> bytes outcome" where
  "signECDSA K e privDER payload keyEncoding curve hash fmt =
     (let opn = ''software.signECDSA'' in
      orReturn (parseECDSAPrivateKey K opn privDER keyEncoding) (\<lambda>privKey.
      orReturn (checkCurveMatches K opn (curveOf K (publicOf K privKey)) curve) (\<lambda>_.
      orReturn (ecdsaDigest K opn curve hash payload) (\<lambda>digest.
      orWrap opn (Some (ecdsaSign K e privKey digest)) (\<lambda>(r, s).
      encodeECDSASignature K opn r s (curveOf K (publicOf K privKey)) fmt)))))"

definition signECDSADigest ::
  "('e, 'sk, 'pk, 'mk, 'mp, 'z) sw_env_scheme \<Rightarrow> 'e \<Rightarrow> bytes \<Rightarrow> bytes \<Rightarrow> private_key_encoding \<Rightarrow>
   elliptic_curve \<Rightarrow> signature_format \<Rightarrow> bytes outcome" where
  "signECDSADigest K e privDER digest keyEncoding curve fmt =
     (let opn = ''software.signECDSADigest'' in
      orReturn (parseECDSAPrivateKey K opn privDER keyEncoding) (\<lambda>privKey.
      orReturn (checkCurveMatches K opn (curveOf K (publicOf K privKey)) curve) (\<lambda>_.
      orWrap opn (Some (ecdsaSign K e privKey digest)) (\<lambda>(r, s).
      encodeECDSASignature K opn r s (curveOf K (publicOf K privKey)) fmt))))"

text \<open>The end of both verifications: a signature that does not decode is invalid, not an error.\<close>

definition verifyDecoded ::
  "('e, 'sk, 'pk, 'mk, 'mp, 'z) sw_env_scheme \<Rightarrow> string \<Rightarrow> 'pk \<Rightarrow> bytes \<Rightarrow> bytes \<Rightarrow> signature_format \<Rightarrow> bool outcome" where
  "verifyDecoded K opn pubKey digest signature fmt =
     (case decodeECDSASignature K opn signature (curveOf K pubKey) fmt of
        Inl err \<Rightarrow> if hasCode (pvErrs K) CodeNotImplemented err then fails err else ok False
      | Inr (r, s) \<Rightarrow> ok (ecdsaVerify K pubKey digest r s))"

definition verifyECDSA ::
  "('e, 'sk, 'pk, 'mk, 'mp, 'z) sw_env_scheme \<Rightarrow> bytes \<Rightarrow> bytes \<Rightarrow> bytes \<Rightarrow> public_key_encoding \<Rightarrow>
   elliptic_curve \<Rightarrow> hash_algorithm \<Rightarrow> signature_format \<Rightarrow> bool outcome" where
  "verifyECDSA K pubDER payload signature keyEncoding curve hash fmt =
     (let opn = ''software.verifyECDSA'' in
      orReturn (parseECDSAPublicKey K opn pubDER keyEncoding) (\<lambda>pubKey.
      orReturn (checkCurveMatches K opn (curveOf K pubKey) curve) (\<lambda>_.
      orReturn (ecdsaDigest K opn curve hash payload) (\<lambda>digest.
      verifyDecoded K opn pubKey digest signature fmt))))"

definition verifyECDSADigest ::
  "('e, 'sk, 'pk, 'mk, 'mp, 'z) sw_env_scheme \<Rightarrow> bytes \<Rightarrow> bytes \<Rightarrow> bytes \<Rightarrow> public_key_encoding \<Rightarrow>
   elliptic_curve \<Rightarrow> signature_format \<Rightarrow> bool outcome" where
  "verifyECDSADigest K pubDER digest signature keyEncoding curve fmt =
     (let opn = ''software.verifyECDSADigest'' in
      orReturn (parseECDSAPublicKey K opn pubDER keyEncoding) (\<lambda>pubKey.
      orReturn (checkCurveMatches K opn (curveOf K pubKey) curve) (\<lambda>_.
      verifyDecoded K opn pubKey digest signature fmt)))"

end
