(* ===== verification/Software_Rsa.thy ===== *)
theory Software_Rsa
  imports Software_Signatures
begin

text \<open>
  RSA, Ed25519 and ML-DSA of the software provider (\<open>rsa.go\<close>, \<open>ed25519.go\<close>, \<open>mldsa.go\<close>), over the
  primitives of \<open>sw_env\<close>. Verification by the libraries returns an error or nothing; any error is an
  invalid signature.
\<close>

section \<open>RSA\<close>

definition generateRSAKey ::
  "('e, 'sk, 'pk, 'mk, 'mp, 'z) sw_env_scheme \<Rightarrow> 'e \<Rightarrow> nat \<Rightarrow> (bytes \<times> bytes) outcome" where
  "generateRSAKey K e keySizeBits =
     (let opn = ''software.generateRSAKey'' in
      orWrap opn (Some (rsaGenerateKey K e keySizeBits)) (\<lambda>privKey.
      orWrap opn (Some (x509MarshalPKCS8 K privKey)) (\<lambda>privDER.
      orWrap opn (Some (x509MarshalPKIX K (publicOf K privKey))) (\<lambda>pubDER.
      ok (pubDER, privDER)))))"

definition parseRSAPrivateKey ::
  "('e, 'sk, 'pk, 'mk, 'mp, 'z) sw_env_scheme \<Rightarrow> string \<Rightarrow> bytes \<Rightarrow> private_key_encoding \<Rightarrow> 'sk outcome" where
  "parseRSAPrivateKey K opn privDER encoding =
     (if encoding = PRIV_PKCS8 \<or> encoding = PRIV_UNSPECIFIED then
        orWrap opn (Some (x509ParsePKCS8 K privDER)) (\<lambda>key.
        if privKind K key = KindRSA then ok key
        else fails (ErrNew opn CodeInvalidArgument (''PKCS#8 key is not RSA: '' @ privType K key)))
      else fails (ErrNew opn CodeNotImplemented
        (''unsupported RSA private key encoding: '' @ enumString K (EnumPrivEnc encoding))))"

definition parseRSAPublicKey ::
  "('e, 'sk, 'pk, 'mk, 'mp, 'z) sw_env_scheme \<Rightarrow> string \<Rightarrow> bytes \<Rightarrow> public_key_encoding \<Rightarrow> 'pk outcome" where
  "parseRSAPublicKey K opn pubDER encoding =
     (if encoding = PUB_SPKI \<or> encoding = PUB_UNSPECIFIED then
        orWrap opn (Some (x509ParsePKIX K pubDER)) (\<lambda>key.
        if pubKind K key = KindRSA then ok key
        else fails (ErrNew opn CodeInvalidArgument ''public key is not RSA''))
      else fails (ErrNew opn CodeNotImplemented
        (''unsupported RSA public key encoding: '' @ enumString K (EnumPubEnc encoding))))"

definition checkRSAKeySize ::
  "('e, 'sk, 'pk, 'mk, 'mp, 'z) sw_env_scheme \<Rightarrow> string \<Rightarrow> 'pk \<Rightarrow> nat \<Rightarrow> unit result" where
  "checkRSAKeySize K opn key declaredBits =
     (let actual = modulusBits K key in
      refuse (actual \<noteq> declaredBits)
        (ErrNew opn CodeInvalidArgument
          (''key size '' @ show_nat actual @ '' bits does not match declared algorithm key size '' @
           show_nat declaredBits @ '' bits'')))"

definition rsaHash :: "'z provider_env_scheme \<Rightarrow> string \<Rightarrow> hash_algorithm \<Rightarrow> crypto_hash result" where
  "rsaHash K opn hash =
     (if hash = HASH_UNSPECIFIED \<or> hash = HASH_SHA256 then Inr SHA256
      else if hash = HASH_SHA384 then Inr SHA384
      else if hash = HASH_SHA512 then Inr SHA512
      else Inl (ErrNew opn CodeNotImplemented (''unsupported RSA hash algorithm: '' @ enumString K (EnumHash hash))))"

definition rsaDigestBytes ::
  "('e, 'sk, 'pk, 'mk, 'mp, 'z) sw_env_scheme \<Rightarrow> hash_algorithm \<Rightarrow> bytes \<Rightarrow> bytes" where
  "rsaDigestBytes K hash payload =
     (if hash = HASH_SHA384 then sumHash K SHA384 payload
      else if hash = HASH_SHA512 then sumHash K SHA512 payload
      else sumHash K SHA256 payload)"

definition checkRSAPSSMGF ::
  "'z provider_env_scheme \<Rightarrow> string \<Rightarrow> mask_generation \<Rightarrow> hash_algorithm \<Rightarrow> hash_algorithm \<Rightarrow> unit result" where
  "checkRSAPSSMGF K opn mgf hash mgfHash =
     (if mgf \<noteq> MGF_UNSPECIFIED \<and> mgf \<noteq> MGF_MGF1 then
        Inl (ErrNew opn CodeNotImplemented
          (''unsupported RSA-PSS mask generation function: '' @ enumString K (EnumMgf mgf)))
      else refuse (mgfHash \<noteq> HASH_UNSPECIFIED \<and> mgfHash \<noteq> hash)
        (ErrNew opn CodeNotImplemented
          (''RSA-PSS with mgf_hash ('' @ enumString K (EnumHash mgfHash) @ '') different from hash ('' @
           enumString K (EnumHash hash) @ '') is not supported'')))"

text \<open>\<open>rsa.PSSSaltLengthAuto\<close> is 0 and \<open>rsa.PSSSaltLengthEqualsHash\<close> is -1.\<close>

definition rsaPSSSaltLength :: "'z provider_env_scheme \<Rightarrow> string \<Rightarrow> salt_length_mode \<Rightarrow> nat \<Rightarrow> int result" where
  "rsaPSSSaltLength K opn mode explicitBytes =
     (case mode of
        SALT_HASH_LENGTH \<Rightarrow> Inr (- 1)
      | SALT_MAX \<Rightarrow> Inr 0
      | SALT_EXPLICIT \<Rightarrow>
          if explicitBytes = 0 then
            Inl (ErrNew opn CodeInvalidArgument ''SALT_LENGTH_MODE_EXPLICIT requires salt_length_bytes > 0'')
          else Inr (int explicitBytes)
      | _ \<Rightarrow> Inl (ErrNew opn CodeNotImplemented
          (''unsupported RSA-PSS salt length mode: '' @ enumString K (EnumSalt mode))))"

definition signRSAPSSCore ::
  "('e, 'sk, 'pk, 'mk, 'mp, 'z) sw_env_scheme \<Rightarrow> string \<Rightarrow> 'e \<Rightarrow> bytes \<Rightarrow> bytes \<Rightarrow> private_key_encoding \<Rightarrow>
   hash_algorithm \<Rightarrow> rsa_pss_params \<Rightarrow> bytes outcome" where
  "signRSAPSSCore K opn e privDER digest keyEncoding hashAlg params =
     orReturn (parseRSAPrivateKey K opn privDER keyEncoding) (\<lambda>privKey.
     orReturn (Some (checkRSAKeySize K opn (publicOf K privKey) (pssKeySizeBits params))) (\<lambda>_.
     orReturn (Some (checkRSAPSSMGF K opn (pssMgf params) hashAlg (pssMgfHash params))) (\<lambda>_.
     orReturn (Some (rsaHash K opn hashAlg)) (\<lambda>h.
     orReturn (Some (rsaPSSSaltLength K opn (pssSaltMode params) (pssSaltBytes params))) (\<lambda>saltLen.
     orWrap opn (Some (rsaSignPSS K e privKey h digest saltLen)) ok)))))"

definition verifyRSAPSSCore ::
  "('e, 'sk, 'pk, 'mk, 'mp, 'z) sw_env_scheme \<Rightarrow> string \<Rightarrow> bytes \<Rightarrow> bytes \<Rightarrow> bytes \<Rightarrow> public_key_encoding \<Rightarrow>
   hash_algorithm \<Rightarrow> rsa_pss_params \<Rightarrow> bool outcome" where
  "verifyRSAPSSCore K opn pubDER digest signature keyEncoding hashAlg params =
     orReturn (parseRSAPublicKey K opn pubDER keyEncoding) (\<lambda>pubKey.
     orReturn (Some (checkRSAKeySize K opn pubKey (pssKeySizeBits params))) (\<lambda>_.
     orReturn (Some (checkRSAPSSMGF K opn (pssMgf params) hashAlg (pssMgfHash params))) (\<lambda>_.
     orReturn (Some (rsaHash K opn hashAlg)) (\<lambda>h.
     orReturn (Some (rsaPSSSaltLength K opn (pssSaltMode params) (pssSaltBytes params))) (\<lambda>saltLen.
     ok (rsaVerifyPSS K pubKey h digest signature saltLen = None))))))"

definition signRSAPSS ::
  "('e, 'sk, 'pk, 'mk, 'mp, 'z) sw_env_scheme \<Rightarrow> 'e \<Rightarrow> bytes \<Rightarrow> bytes \<Rightarrow> private_key_encoding \<Rightarrow> rsa_pss_params \<Rightarrow> bytes outcome" where
  "signRSAPSS K e privDER payload keyEncoding params =
     signRSAPSSCore K ''software.signRSAPSS'' e privDER (rsaDigestBytes K (pssHash params) payload) keyEncoding (pssHash params) params"

definition verifyRSAPSS ::
  "('e, 'sk, 'pk, 'mk, 'mp, 'z) sw_env_scheme \<Rightarrow> bytes \<Rightarrow> bytes \<Rightarrow> bytes \<Rightarrow> public_key_encoding \<Rightarrow> rsa_pss_params \<Rightarrow> bool outcome" where
  "verifyRSAPSS K pubDER payload signature keyEncoding params =
     verifyRSAPSSCore K ''software.verifyRSAPSS'' pubDER (rsaDigestBytes K (pssHash params) payload) signature keyEncoding (pssHash params) params"

definition signRSAPSSDigest ::
  "('e, 'sk, 'pk, 'mk, 'mp, 'z) sw_env_scheme \<Rightarrow> 'e \<Rightarrow> bytes \<Rightarrow> bytes \<Rightarrow> private_key_encoding \<Rightarrow> hash_algorithm \<Rightarrow>
   rsa_pss_params \<Rightarrow> bytes outcome" where
  "signRSAPSSDigest K e privDER digest keyEncoding hashAlg params =
     signRSAPSSCore K ''software.signRSAPSSDigest'' e privDER digest keyEncoding hashAlg params"

definition verifyRSAPSSDigest ::
  "('e, 'sk, 'pk, 'mk, 'mp, 'z) sw_env_scheme \<Rightarrow> bytes \<Rightarrow> bytes \<Rightarrow> bytes \<Rightarrow> public_key_encoding \<Rightarrow> hash_algorithm \<Rightarrow>
   rsa_pss_params \<Rightarrow> bool outcome" where
  "verifyRSAPSSDigest K pubDER digest signature keyEncoding hashAlg params =
     verifyRSAPSSCore K ''software.verifyRSAPSSDigest'' pubDER digest signature keyEncoding hashAlg params"

definition signRSAPKCS1v15Core ::
  "('e, 'sk, 'pk, 'mk, 'mp, 'z) sw_env_scheme \<Rightarrow> string \<Rightarrow> 'e \<Rightarrow> bytes \<Rightarrow> bytes \<Rightarrow> private_key_encoding \<Rightarrow>
   hash_algorithm \<Rightarrow> rsa_pkcs1_params \<Rightarrow> bytes outcome" where
  "signRSAPKCS1v15Core K opn e privDER digest keyEncoding hashAlg params =
     orReturn (parseRSAPrivateKey K opn privDER keyEncoding) (\<lambda>privKey.
     orReturn (Some (checkRSAKeySize K opn (publicOf K privKey) (pkKeySizeBits params))) (\<lambda>_.
     orReturn (Some (rsaHash K opn hashAlg)) (\<lambda>h.
     orWrap opn (Some (rsaSignPKCS1v15 K e privKey h digest)) ok)))"

definition verifyRSAPKCS1v15Core ::
  "('e, 'sk, 'pk, 'mk, 'mp, 'z) sw_env_scheme \<Rightarrow> string \<Rightarrow> bytes \<Rightarrow> bytes \<Rightarrow> bytes \<Rightarrow> public_key_encoding \<Rightarrow>
   hash_algorithm \<Rightarrow> rsa_pkcs1_params \<Rightarrow> bool outcome" where
  "verifyRSAPKCS1v15Core K opn pubDER digest signature keyEncoding hashAlg params =
     orReturn (parseRSAPublicKey K opn pubDER keyEncoding) (\<lambda>pubKey.
     orReturn (Some (checkRSAKeySize K opn pubKey (pkKeySizeBits params))) (\<lambda>_.
     orReturn (Some (rsaHash K opn hashAlg)) (\<lambda>h.
     ok (rsaVerifyPKCS1v15 K pubKey h digest signature = None))))"

definition signRSAPKCS1v15 ::
  "('e, 'sk, 'pk, 'mk, 'mp, 'z) sw_env_scheme \<Rightarrow> 'e \<Rightarrow> bytes \<Rightarrow> bytes \<Rightarrow> private_key_encoding \<Rightarrow> rsa_pkcs1_params \<Rightarrow> bytes outcome" where
  "signRSAPKCS1v15 K e privDER payload keyEncoding params =
     signRSAPKCS1v15Core K ''software.signRSAPKCS1v15'' e privDER (rsaDigestBytes K (pkHash params) payload) keyEncoding (pkHash params) params"

definition verifyRSAPKCS1v15 ::
  "('e, 'sk, 'pk, 'mk, 'mp, 'z) sw_env_scheme \<Rightarrow> bytes \<Rightarrow> bytes \<Rightarrow> bytes \<Rightarrow> public_key_encoding \<Rightarrow> rsa_pkcs1_params \<Rightarrow> bool outcome" where
  "verifyRSAPKCS1v15 K pubDER payload signature keyEncoding params =
     verifyRSAPKCS1v15Core K ''software.verifyRSAPKCS1v15'' pubDER (rsaDigestBytes K (pkHash params) payload) signature keyEncoding (pkHash params) params"

definition signRSAPKCS1v15Digest ::
  "('e, 'sk, 'pk, 'mk, 'mp, 'z) sw_env_scheme \<Rightarrow> 'e \<Rightarrow> bytes \<Rightarrow> bytes \<Rightarrow> private_key_encoding \<Rightarrow> hash_algorithm \<Rightarrow>
   rsa_pkcs1_params \<Rightarrow> bytes outcome" where
  "signRSAPKCS1v15Digest K e privDER digest keyEncoding hashAlg params =
     signRSAPKCS1v15Core K ''software.signRSAPKCS1v15Digest'' e privDER digest keyEncoding hashAlg params"

definition verifyRSAPKCS1v15Digest ::
  "('e, 'sk, 'pk, 'mk, 'mp, 'z) sw_env_scheme \<Rightarrow> bytes \<Rightarrow> bytes \<Rightarrow> bytes \<Rightarrow> public_key_encoding \<Rightarrow> hash_algorithm \<Rightarrow>
   rsa_pkcs1_params \<Rightarrow> bool outcome" where
  "verifyRSAPKCS1v15Digest K pubDER digest signature keyEncoding hashAlg params =
     verifyRSAPKCS1v15Core K ''software.verifyRSAPKCS1v15Digest'' pubDER digest signature keyEncoding hashAlg params"

section \<open>Ed25519\<close>

definition generateEd25519Key ::
  "('e, 'sk, 'pk, 'mk, 'mp, 'z) sw_env_scheme \<Rightarrow> 'e \<Rightarrow> (bytes \<times> bytes) outcome" where
  "generateEd25519Key K e =
     (let opn = ''software.generateEd25519Key'' in
      orWrap opn (Some (edGenerateKey K e)) (\<lambda>(pubKey, privKey).
      orWrap opn (Some (x509MarshalPKCS8 K privKey)) (\<lambda>privDER.
      orWrap opn (Some (x509MarshalPKIX K pubKey)) (\<lambda>pubDER.
      ok (pubDER, privDER)))))"

definition parseEd25519PrivateKey ::
  "('e, 'sk, 'pk, 'mk, 'mp, 'z) sw_env_scheme \<Rightarrow> string \<Rightarrow> bytes \<Rightarrow> private_key_encoding \<Rightarrow> 'sk outcome" where
  "parseEd25519PrivateKey K opn privDER encoding =
     (if encoding = PRIV_PKCS8 \<or> encoding = PRIV_UNSPECIFIED then
        orWrap opn (Some (x509ParsePKCS8 K privDER)) (\<lambda>key.
        if privKind K key = KindEd25519 then ok key
        else fails (ErrNew opn CodeInvalidArgument (''PKCS#8 key is not Ed25519: '' @ privType K key)))
      else fails (ErrNew opn CodeNotImplemented
        (''unsupported Ed25519 private key encoding: '' @ enumString K (EnumPrivEnc encoding))))"

definition parseEd25519PublicKey ::
  "('e, 'sk, 'pk, 'mk, 'mp, 'z) sw_env_scheme \<Rightarrow> string \<Rightarrow> bytes \<Rightarrow> public_key_encoding \<Rightarrow> 'pk outcome" where
  "parseEd25519PublicKey K opn pubDER encoding =
     (if encoding = PUB_SPKI \<or> encoding = PUB_UNSPECIFIED then
        orWrap opn (Some (x509ParsePKIX K pubDER)) (\<lambda>key.
        if pubKind K key = KindEd25519 then ok key
        else fails (ErrNew opn CodeInvalidArgument ''public key is not Ed25519''))
      else fails (ErrNew opn CodeNotImplemented
        (''unsupported Ed25519 public key encoding: '' @ enumString K (EnumPubEnc encoding))))"

definition checkEd25519PureVariant :: "'z provider_env_scheme \<Rightarrow> string \<Rightarrow> ed25519_variant \<Rightarrow> unit result" where
  "checkEd25519PureVariant K opn variant =
     refuse (variant \<noteq> ED25519_UNSPECIFIED \<and> variant \<noteq> ED25519_PURE)
       (ErrNew opn CodeNotImplemented
         (''unsupported Ed25519 variant for Sign/Verify: '' @ enumString K (EnumVariant variant)))"

definition signEd25519 ::
  "('e, 'sk, 'pk, 'mk, 'mp, 'z) sw_env_scheme \<Rightarrow> bytes \<Rightarrow> bytes \<Rightarrow> private_key_encoding \<Rightarrow> ed25519_variant \<Rightarrow> bytes outcome" where
  "signEd25519 K privDER payload keyEncoding variant =
     (let opn = ''software.signEd25519'' in
      orReturn (Some (checkEd25519PureVariant K opn variant)) (\<lambda>_.
      orReturn (parseEd25519PrivateKey K opn privDER keyEncoding) (\<lambda>privKey.
      ok (edSign K privKey payload))))"

definition verifyEd25519 ::
  "('e, 'sk, 'pk, 'mk, 'mp, 'z) sw_env_scheme \<Rightarrow> bytes \<Rightarrow> bytes \<Rightarrow> bytes \<Rightarrow> public_key_encoding \<Rightarrow> ed25519_variant \<Rightarrow> bool outcome" where
  "verifyEd25519 K pubDER payload signature keyEncoding variant =
     (let opn = ''software.verifyEd25519'' in
      orReturn (Some (checkEd25519PureVariant K opn variant)) (\<lambda>_.
      orReturn (parseEd25519PublicKey K opn pubDER keyEncoding) (\<lambda>pubKey.
      ok (edVerify K pubKey payload signature))))"

definition checkEd25519PHHash :: "'z provider_env_scheme \<Rightarrow> string \<Rightarrow> hash_algorithm \<Rightarrow> unit result" where
  "checkEd25519PHHash K opn hashAlg =
     refuse (hashAlg \<noteq> HASH_UNSPECIFIED \<and> hashAlg \<noteq> HASH_SHA512)
       (ErrNew opn CodeNotImplemented
         (''Ed25519ph requires a SHA-512 digest, got hash_algorithm='' @ enumString K (EnumHash hashAlg)))"

definition signEd25519PHDigest ::
  "('e, 'sk, 'pk, 'mk, 'mp, 'z) sw_env_scheme \<Rightarrow> bytes \<Rightarrow> bytes \<Rightarrow> private_key_encoding \<Rightarrow> hash_algorithm \<Rightarrow> bytes outcome" where
  "signEd25519PHDigest K privDER digest keyEncoding hashAlg =
     (let opn = ''software.signEd25519PHDigest'' in
      orReturn (Some (checkEd25519PHHash K opn hashAlg)) (\<lambda>_.
      orReturn (parseEd25519PrivateKey K opn privDER keyEncoding) (\<lambda>privKey.
      orWrap opn (Some (edSignPH K privKey digest)) ok)))"

definition verifyEd25519PHDigest ::
  "('e, 'sk, 'pk, 'mk, 'mp, 'z) sw_env_scheme \<Rightarrow> bytes \<Rightarrow> bytes \<Rightarrow> bytes \<Rightarrow> public_key_encoding \<Rightarrow> hash_algorithm \<Rightarrow> bool outcome" where
  "verifyEd25519PHDigest K pubDER digest signature keyEncoding hashAlg =
     (let opn = ''software.verifyEd25519PHDigest'' in
      orReturn (Some (checkEd25519PHHash K opn hashAlg)) (\<lambda>_.
      orReturn (parseEd25519PublicKey K opn pubDER keyEncoding) (\<lambda>pubKey.
      ok (edVerifyPH K pubKey digest signature = None))))"

section \<open>ML-DSA\<close>

definition mldsaScheme :: "'z provider_env_scheme \<Rightarrow> string \<Rightarrow> mldsa_parameter_set \<Rightarrow> mldsa_scheme result" where
  "mldsaScheme K opn parameterSet =
     (case parameterSet of
        ML_DSA_44 \<Rightarrow> Inr Mldsa44
      | ML_DSA_65 \<Rightarrow> Inr Mldsa65
      | ML_DSA_87 \<Rightarrow> Inr Mldsa87
      | _ \<Rightarrow> Inl (ErrNew opn CodeNotImplemented
          (''unsupported ML-DSA parameter set: '' @ enumString K (EnumMlDsa parameterSet))))"

definition generateMLDSAKey ::
  "('e, 'sk, 'pk, 'mk, 'mp, 'z) sw_env_scheme \<Rightarrow> 'e \<Rightarrow> mldsa_parameter_set \<Rightarrow> (bytes \<times> bytes) outcome" where
  "generateMLDSAKey K e parameterSet =
     (let opn = ''software.generateMLDSAKey'' in
      orReturn (Some (mldsaScheme K opn parameterSet)) (\<lambda>scheme.
      orWrap opn (Some (circlGenerateKey K scheme e)) (\<lambda>(pub, priv).
      orWrap opn (Some (circlMarshalPublic K pub)) (\<lambda>pubBytes.
      orWrap opn (Some (circlMarshalPKIX K priv)) (\<lambda>privBytes.
      ok (pubBytes, privBytes))))))"

definition parseMLDSAPKCS8PrivateKey ::
  "('e, 'sk, 'pk, 'mk, 'mp, 'z) sw_env_scheme \<Rightarrow> string \<Rightarrow> bytes \<Rightarrow> mldsa_scheme \<Rightarrow> mldsa_parameter_set \<Rightarrow> 'mk outcome" where
  "parseMLDSAPKCS8PrivateKey K opn privBytes scheme parameterSet =
     orWrap opn (Some (circlUnmarshalPKIX K privBytes)) (\<lambda>privKey.
     if circlSchemeOf K privKey \<noteq> scheme then
       fails (ErrNew opn CodeInvalidArgument
         (''PKCS#8 key scheme '' @ circlSchemeName K (circlSchemeOf K privKey) @
          '' does not match declared ML-DSA parameter set '' @ enumString K (EnumMlDsa parameterSet)))
     else ok privKey)"

definition parseMLDSAPrivateKey ::
  "('e, 'sk, 'pk, 'mk, 'mp, 'z) sw_env_scheme \<Rightarrow> string \<Rightarrow> bytes \<Rightarrow> private_key_encoding \<Rightarrow> mldsa_scheme \<Rightarrow>
   mldsa_parameter_set \<Rightarrow> 'mk outcome" where
  "parseMLDSAPrivateKey K opn privBytes encoding scheme parameterSet =
     (if encoding = PRIV_PKCS8 then parseMLDSAPKCS8PrivateKey K opn privBytes scheme parameterSet
      else if encoding = PRIV_RAW then orWrap opn (Some (circlUnmarshalPrivate K scheme privBytes)) ok
      else case parseMLDSAPKCS8PrivateKey K opn privBytes scheme parameterSet of
        Some (Inr privKey) \<Rightarrow> ok privKey
      | _ \<Rightarrow> orWrap opn (Some (circlUnmarshalPrivate K scheme privBytes)) ok)"

definition mldsaMaxContextLen :: nat where "mldsaMaxContextLen = 255"

definition checkMLDSAContextLength :: "string \<Rightarrow> bytes \<Rightarrow> unit result" where
  "checkMLDSAContextLength opn domainContext =
     refuse (length domainContext > mldsaMaxContextLen)
       (ErrNew opn CodeInvalidArgument
         (''domain separation context is '' @ show_nat (length domainContext) @ '' bytes, exceeds the '' @
          show_nat mldsaMaxContextLen @ ''-byte maximum''))"

text \<open>
  \<open>signMLDSARandomizedWith\<close> asserts the concrete key type of its parameter set, which is that of the
  key's scheme, and runs that set's \<open>SignTo\<close>.
\<close>

definition signMLDSARandomizedWith ::
  "('e, 'sk, 'pk, 'mk, 'mp, 'z) sw_env_scheme \<Rightarrow> string \<Rightarrow> 'e \<Rightarrow> 'mk \<Rightarrow> bytes \<Rightarrow> bytes \<Rightarrow> mldsa_scheme \<Rightarrow> string \<Rightarrow> bytes outcome" where
  "signMLDSARandomizedWith K opn e privKey payload domainContext scheme paramSetName =
     (if circlSchemeOf K privKey \<noteq> scheme then
        fails (ErrNew opn CodeInternal
          (paramSetName @ '' private key has unexpected type '' @ circlKeyType K privKey))
      else orWrap opn (Some (circlSignTo K scheme e privKey payload domainContext)) ok)"

definition signMLDSARandomized ::
  "('e, 'sk, 'pk, 'mk, 'mp, 'z) sw_env_scheme \<Rightarrow> string \<Rightarrow> 'e \<Rightarrow> 'mk \<Rightarrow> bytes \<Rightarrow> bytes \<Rightarrow> mldsa_parameter_set \<Rightarrow> bytes outcome" where
  "signMLDSARandomized K opn e privKey payload domainContext parameterSet =
     (case parameterSet of
        ML_DSA_44 \<Rightarrow> signMLDSARandomizedWith K opn e privKey payload domainContext Mldsa44 ''ML-DSA-44''
      | ML_DSA_65 \<Rightarrow> signMLDSARandomizedWith K opn e privKey payload domainContext Mldsa65 ''ML-DSA-65''
      | ML_DSA_87 \<Rightarrow> signMLDSARandomizedWith K opn e privKey payload domainContext Mldsa87 ''ML-DSA-87''
      | _ \<Rightarrow> fails (ErrNew opn CodeNotImplemented
          (''unsupported ML-DSA parameter set: '' @ enumString K (EnumMlDsa parameterSet))))"

definition signMLDSA ::
  "('e, 'sk, 'pk, 'mk, 'mp, 'z) sw_env_scheme \<Rightarrow> 'e \<Rightarrow> bytes \<Rightarrow> bytes \<Rightarrow> bytes \<Rightarrow> private_key_encoding \<Rightarrow>
   mldsa_parameter_set \<Rightarrow> bool \<Rightarrow> bytes outcome" where
  "signMLDSA K e privBytes payload domainContext keyEncoding parameterSet deterministic =
     (let opn = ''software.signMLDSA'' in
      orReturn (Some (checkMLDSAContextLength opn domainContext)) (\<lambda>_.
      orReturn (Some (mldsaScheme K opn parameterSet)) (\<lambda>scheme.
      orReturn (parseMLDSAPrivateKey K opn privBytes keyEncoding scheme parameterSet) (\<lambda>privKey.
      if deterministic then
        (case circlSign K scheme privKey payload domainContext of None \<Rightarrow> None | Some sig \<Rightarrow> ok sig)
      else signMLDSARandomized K opn e privKey payload domainContext parameterSet))))"

definition verifyMLDSA ::
  "('e, 'sk, 'pk, 'mk, 'mp, 'z) sw_env_scheme \<Rightarrow> bytes \<Rightarrow> bytes \<Rightarrow> bytes \<Rightarrow> bytes \<Rightarrow> mldsa_parameter_set \<Rightarrow> bool outcome" where
  "verifyMLDSA K pubBytes payload signature domainContext parameterSet =
     (let opn = ''software.verifyMLDSA'' in
      orReturn (Some (checkMLDSAContextLength opn domainContext)) (\<lambda>_.
      orReturn (Some (mldsaScheme K opn parameterSet)) (\<lambda>scheme.
      orWrap opn (Some (circlUnmarshalPublic K scheme pubBytes)) (\<lambda>pubKey.
      ok (circlVerify K scheme pubKey payload signature domainContext)))))"

end
