(* ===== verification/Software_Provider.thy ===== *)
theory Software_Provider
  imports Software_Rsa
begin

text \<open>
  The software provider (\<open>internal/provider/software/provider.go\<close>, \<open>encoding.go\<close>): every operation
  validates its request, dispatches on the algorithm and wraps the error of the branch it took.
  The provider keeps no state; \<open>e\<close> is the entropy an operation reads. Responses are the pair of
  the result and the output to keep.
\<close>

type_synonym ('e, 'sk, 'pk, 'mk, 'mp, 'z) swK = "('e, 'sk, 'pk, 'mk, 'mp, 'z) sw_env_scheme"

definition Name_sw :: string where "Name_sw = ''software''"
definition Type_sw :: string where "Type_sw = ''software''"

definition SupportedAlgorithms_sw :: "string list" where
  "SupportedAlgorithms_sw =
     [''ecdsa-p256-sha256-der'', ''ecdsa-p384-sha384-der'', ''ecdsa-p521-sha512-der'',
      ''ecdsa-p256-prehashed-der'', ''ecdsa-p384-prehashed-der'', ''ecdsa-p521-prehashed-der'',
      ''rsa-pss-sha256-mgf1-32-2048'', ''rsa-pss-sha256-mgf1-32-3072'', ''rsa-pss-sha384-mgf1-48-4096'',
      ''rsa-pss-2048-prehashed'', ''rsa-pss-3072-prehashed'', ''rsa-pss-4096-prehashed'',
      ''rsa-pkcs1v15-sha256-2048'', ''rsa-pkcs1v15-2048-prehashed'',
      ''ed25519'', ''ed25519ph'',
      ''ml-dsa-44'', ''ml-dsa-65'', ''ml-dsa-87'',
      ''aes-128-gcm-128-96'', ''aes-192-gcm-128-96'', ''aes-256-gcm-128-96'',
      ''aes-128-cbc-pkcs7-128'', ''aes-192-cbc-pkcs7-128'', ''aes-256-cbc-pkcs7-128'',
      ''aes-128-ctr'', ''aes-192-ctr'', ''aes-256-ctr'',
      ''chacha20-poly1305'', ''xchacha20-poly1305'']"

definition ExportPublicKey_sw :: "unit result" where
  "ExportPublicKey_sw =
     Inl (ErrNew ''software.Provider.ExportPublicKey'' CodeNotImplemented
       ''ExportPublicKey not supported: provider is stateless, orchestrator has the key bytes'')"

text \<open>\<open>DestroyKey\<close> does nothing and succeeds.\<close>

definition DestroyKey_sw :: "unit result" where
  "DestroyKey_sw = Inr ()"

section \<open>Keys\<close>

definition privateKeyEncoding :: "algorithm_details option \<Rightarrow> private_key_encoding" where
  "privateKeyEncoding alg =
     (case alg of
        Some (AlgEcdsa _) \<Rightarrow> PRIV_SEC1
      | Some (AlgMlDsa _) \<Rightarrow> PRIV_PKCS8
      | Some (AlgRsaPss _) \<Rightarrow> PRIV_PKCS8
      | Some (AlgRsaPkcs1V15 _) \<Rightarrow> PRIV_PKCS8
      | Some (AlgEd25519 _) \<Rightarrow> PRIV_PKCS8
      | Some (AlgAesGcm _) \<Rightarrow> PRIV_RAW
      | Some (AlgAesCbc _) \<Rightarrow> PRIV_RAW
      | Some (AlgAesCtr _) \<Rightarrow> PRIV_RAW
      | Some (AlgChacha20Poly1305 _) \<Rightarrow> PRIV_RAW
      | _ \<Rightarrow> PRIV_UNSPECIFIED)"

definition TransferCapabilities :: "algorithm_details option \<Rightarrow> transfer" where
  "TransferCapabilities alg =
     (let encoding = privateKeyEncoding alg in
      if encoding = PRIV_UNSPECIFIED then \<lparr>trEmit = [], trAccept = []\<rparr>
      else \<lparr>trEmit = [encoding], trAccept = [encoding]\<rparr>)"

definition generatedKey ::
  "'z provider_env_scheme \<Rightarrow> string \<Rightarrow> algorithm_details option \<Rightarrow> bytes \<Rightarrow> bytes \<Rightarrow> public_key_encoding \<Rightarrow> generated_key outcome" where
  "generatedKey K opn alg pubDER privDER pubEnc =
     (let privEnc = privateKeyEncoding alg in
      if privEnc = PRIV_UNSPECIFIED then
        fails (ErrNew opn CodeInternal (''no private-key encoding for algorithm type '' @ typeString K alg))
      else ok \<lparr>gkPublicKey = pubDER, gkKeyMaterial = privDER, gkOutput = NoOutputUnencoded,
        gkKeyEncoding = privEnc, gkPublicEncoding = pubEnc\<rparr>)"

definition GenerateKey_sw ::
  "('e, 'sk, 'pk, 'mk, 'mp, 'z) swK \<Rightarrow> 'e \<Rightarrow> algorithm_details option \<Rightarrow> generated_key outcome" where
  "GenerateKey_sw K e alg =
     (let opn = ''software.(Provider).GenerateKey'' in
      orReturn (Some (validateRequest K opn (ReqGenerate alg))) (\<lambda>_.
      case alg of
        Some (AlgEcdsa p) \<Rightarrow>
          orWrap opn (generateECDSAKey K e (ecCurve p)) (\<lambda>(pubDER, privDER).
          generatedKey K opn alg pubDER privDER PUB_SPKI)
      | Some (AlgMlDsa p) \<Rightarrow>
          orWrap opn (generateMLDSAKey K e (mlParameterSet p)) (\<lambda>(pubDER, privDER).
          generatedKey K opn alg pubDER privDER PUB_RAW)
      | Some (AlgRsaPss p) \<Rightarrow>
          orWrap opn (generateRSAKey K e (pssKeySizeBits p)) (\<lambda>(pubDER, privDER).
          generatedKey K opn alg pubDER privDER PUB_SPKI)
      | Some (AlgRsaPkcs1V15 p) \<Rightarrow>
          orWrap opn (generateRSAKey K e (pkKeySizeBits p)) (\<lambda>(pubDER, privDER).
          generatedKey K opn alg pubDER privDER PUB_SPKI)
      | Some (AlgEd25519 v) \<Rightarrow>
          orWrap opn (generateEd25519Key K e) (\<lambda>(pubDER, privDER).
          generatedKey K opn alg pubDER privDER PUB_SPKI)
      | Some (AlgOther _) \<Rightarrow>
          fails (ErrNew opn CodeNotImplemented (''unsupported algorithm type: '' @ typeString K alg))
      | None \<Rightarrow>
          fails (ErrNew opn CodeNotImplemented (''unsupported algorithm type: '' @ typeString K alg))
      | _ \<Rightarrow>
          orWrap opn (generateSymmetricKey K e alg) (\<lambda>privDER.
          generatedKey K opn alg [] privDER PUB_UNSPECIFIED)))"

section \<open>Signatures\<close>

definition Sign_sw ::
  "('e, 'sk, 'pk, 'mk, 'mp, 'z) swK \<Rightarrow> 'e \<Rightarrow> sign_request_p \<Rightarrow> (bytes \<times> provider_output) outcome" where
  "Sign_sw K e req =
     (let opn = ''software.(Provider).Sign'' in
      orReturn (Some (validateRequest K opn (ReqSign req))) (\<lambda>_.
      case sgAlgorithm req of
        Some (AlgEcdsa p) \<Rightarrow>
          orWrap opn (signECDSA K e (sgKeyMaterial req) (sgInput req) (sgKeyEncoding req) (ecCurve p) (ecHash p) (ecFormat p)) (\<lambda>sig.
          ok (sig, NoOutput (ecdsaSignatureEncodingLabel (ecFormat p))))
      | Some (AlgMlDsa p) \<Rightarrow>
          orWrap opn (signMLDSA K e (sgKeyMaterial req) (sgInput req) (sgContext req) (sgKeyEncoding req)
            (mlParameterSet p) (mlDeterministic p)) (\<lambda>sig.
          ok (sig, NoOutput ''raw''))
      | Some (AlgRsaPss p) \<Rightarrow>
          orWrap opn (signRSAPSS K e (sgKeyMaterial req) (sgInput req) (sgKeyEncoding req) p) (\<lambda>sig.
          ok (sig, NoOutput ''raw''))
      | Some (AlgRsaPkcs1V15 p) \<Rightarrow>
          orWrap opn (signRSAPKCS1v15 K e (sgKeyMaterial req) (sgInput req) (sgKeyEncoding req) p) (\<lambda>sig.
          ok (sig, NoOutput ''raw''))
      | Some (AlgEd25519 v) \<Rightarrow>
          orWrap opn (signEd25519 K (sgKeyMaterial req) (sgInput req) (sgKeyEncoding req) v) (\<lambda>sig.
          ok (sig, NoOutput ''raw''))
      | _ \<Rightarrow> fails (ErrNew opn CodeNotImplemented
               (''unsupported algorithm for sign: '' @ typeString K (sgAlgorithm req)))))"

definition Verify_sw ::
  "('e, 'sk, 'pk, 'mk, 'mp, 'z) swK \<Rightarrow> verify_request_p \<Rightarrow> (bool \<times> provider_output) outcome" where
  "Verify_sw K req =
     (let opn = ''software.(Provider).Verify''; done = (\<lambda>valid. ok (valid, NoOutputUnencoded)) in
      orReturn (Some (validateRequest K opn (ReqVerify req))) (\<lambda>_.
      case vfAlgorithm req of
        Some (AlgEcdsa p) \<Rightarrow>
          orWrap opn (verifyECDSA K (vfKeyMaterial req) (vfInput req) (vfSignature req) (vfKeyEncoding req)
            (ecCurve p) (ecHash p) (ecFormat p)) done
      | Some (AlgMlDsa p) \<Rightarrow>
          orWrap opn (verifyMLDSA K (vfKeyMaterial req) (vfInput req) (vfSignature req) (vfContext req)
            (mlParameterSet p)) done
      | Some (AlgRsaPss p) \<Rightarrow>
          orWrap opn (verifyRSAPSS K (vfKeyMaterial req) (vfInput req) (vfSignature req) (vfKeyEncoding req) p) done
      | Some (AlgRsaPkcs1V15 p) \<Rightarrow>
          orWrap opn (verifyRSAPKCS1v15 K (vfKeyMaterial req) (vfInput req) (vfSignature req) (vfKeyEncoding req) p) done
      | Some (AlgEd25519 v) \<Rightarrow>
          orWrap opn (verifyEd25519 K (vfKeyMaterial req) (vfInput req) (vfSignature req) (vfKeyEncoding req) v) done
      | _ \<Rightarrow> fails (ErrNew opn CodeNotImplemented
               (''unsupported algorithm for verify: '' @ typeString K (vfAlgorithm req)))))"

definition validateDigestLength ::
  "'z provider_env_scheme \<Rightarrow> string \<Rightarrow> hash_algorithm \<Rightarrow> nat \<Rightarrow> unit result" where
  "validateDigestLength K opn hashAlg digestLen =
     (case digestLengthForHash K hashAlg of
        None \<Rightarrow> Inr ()
      | Some wantLen \<Rightarrow>
          refuse (digestLen \<noteq> wantLen)
            (ErrNew opn CodeInvalidArgument
              (''digest length '' @ show_nat digestLen @ '' bytes does not match expected length '' @
               show_nat wantLen @ '' bytes for '' @ enumString K (EnumHash hashAlg))))"

definition SignDigest_sw ::
  "('e, 'sk, 'pk, 'mk, 'mp, 'z) swK \<Rightarrow> 'e \<Rightarrow> sign_digest_request_p \<Rightarrow> (bytes \<times> provider_output) outcome" where
  "SignDigest_sw K e req =
     (let opn = ''software.(Provider).SignDigest'' in
      orReturn (Some (validateRequest K opn (ReqSignDigest req))) (\<lambda>_.
      orReturn (Some (validateDigestLength K opn (sdHash req) (length (sdDigest req)))) (\<lambda>_.
      case sdAlgorithm req of
        Some (AlgEcdsa p) \<Rightarrow>
          orWrap opn (signECDSADigest K e (sdKeyMaterial req) (sdDigest req) (sdKeyEncoding req) (ecCurve p) (ecFormat p)) (\<lambda>sig.
          ok (sig, NoOutput (ecdsaSignatureEncodingLabel (ecFormat p))))
      | Some (AlgMlDsa p) \<Rightarrow>
          fails (ErrNew opn CodeInvalidArgument ''SignDigest unsupported for ML-DSA: pure ML-DSA is not prehashable'')
      | Some (AlgRsaPss p) \<Rightarrow>
          orWrap opn (signRSAPSSDigest K e (sdKeyMaterial req) (sdDigest req) (sdKeyEncoding req) (sdHash req) p) (\<lambda>sig.
          ok (sig, NoOutput ''raw''))
      | Some (AlgRsaPkcs1V15 p) \<Rightarrow>
          orWrap opn (signRSAPKCS1v15Digest K e (sdKeyMaterial req) (sdDigest req) (sdKeyEncoding req) (sdHash req) p) (\<lambda>sig.
          ok (sig, NoOutput ''raw''))
      | Some (AlgEd25519 v) \<Rightarrow>
          if v \<noteq> ED25519_UNSPECIFIED \<and> v \<noteq> ED25519_PH then
            fails (ErrNew opn CodeInvalidArgument
              ''SignDigest requires Ed25519ph: pure Ed25519 and Ed25519ctx are not prehashable'')
          else
            orWrap opn (signEd25519PHDigest K (sdKeyMaterial req) (sdDigest req) (sdKeyEncoding req) (sdHash req)) (\<lambda>sig.
            ok (sig, NoOutput ''raw''))
      | _ \<Rightarrow> fails (ErrNew opn CodeNotImplemented
               (''unsupported algorithm for digest sign: '' @ typeString K (sdAlgorithm req))))))"

definition VerifyDigest_sw ::
  "('e, 'sk, 'pk, 'mk, 'mp, 'z) swK \<Rightarrow> verify_digest_request_p \<Rightarrow> (bool \<times> provider_output) outcome" where
  "VerifyDigest_sw K req =
     (let opn = ''software.(Provider).VerifyDigest''; done = (\<lambda>valid. ok (valid, NoOutputUnencoded)) in
      orReturn (Some (validateRequest K opn (ReqVerifyDigest req))) (\<lambda>_.
      orReturn (Some (validateDigestLength K opn (vdHash req) (length (vdDigest req)))) (\<lambda>_.
      case vdAlgorithm req of
        Some (AlgEcdsa p) \<Rightarrow>
          orWrap opn (verifyECDSADigest K (vdKeyMaterial req) (vdDigest req) (vdSignature req) (vdKeyEncoding req)
            (ecCurve p) (ecFormat p)) done
      | Some (AlgMlDsa p) \<Rightarrow>
          fails (ErrNew opn CodeInvalidArgument ''VerifyDigest unsupported for ML-DSA: pure ML-DSA is not prehashable'')
      | Some (AlgRsaPss p) \<Rightarrow>
          orWrap opn (verifyRSAPSSDigest K (vdKeyMaterial req) (vdDigest req) (vdSignature req) (vdKeyEncoding req)
            (vdHash req) p) done
      | Some (AlgRsaPkcs1V15 p) \<Rightarrow>
          orWrap opn (verifyRSAPKCS1v15Digest K (vdKeyMaterial req) (vdDigest req) (vdSignature req) (vdKeyEncoding req)
            (vdHash req) p) done
      | Some (AlgEd25519 v) \<Rightarrow>
          if v \<noteq> ED25519_UNSPECIFIED \<and> v \<noteq> ED25519_PH then
            fails (ErrNew opn CodeInvalidArgument
              ''VerifyDigest requires Ed25519ph: pure Ed25519 and Ed25519ctx are not prehashable'')
          else
            orWrap opn (verifyEd25519PHDigest K (vdKeyMaterial req) (vdDigest req) (vdSignature req) (vdKeyEncoding req)
              (vdHash req)) done
      | _ \<Rightarrow> fails (ErrNew opn CodeNotImplemented
               (''unsupported algorithm for digest verify: '' @ typeString K (vdAlgorithm req))))))"

section \<open>Encryption\<close>

definition Encrypt_sw ::
  "('e, 'z) sw_symmetric_scheme \<Rightarrow> 'e \<Rightarrow> encrypt_request_p \<Rightarrow> (bytes \<times> provider_output) outcome" where
  "Encrypt_sw K e req =
     (let opn = ''software.(Provider).Encrypt'' in
      orReturn (Some (validateRequest K opn (ReqEncrypt req))) (\<lambda>_.
      case enAlgorithm req of
        Some (AlgAesGcm p) \<Rightarrow>
          orWrap opn (encryptAESGCM K e (enKeyMaterial req) (enPlaintext req) (enAad req) p) (\<lambda>(ciphertext, nonce).
          ok (ciphertext, AeadOutput nonce (gcmTagSizeBits p div 8) ''raw''))
      | Some (AlgAesCbc p) \<Rightarrow>
          orWrap opn (encryptAESCBC K e (enKeyMaterial req) (enPlaintext req) p) (\<lambda>(ciphertext, iv).
          ok (ciphertext, BlockCipherOutput iv ''raw''))
      | Some (AlgAesCtr p) \<Rightarrow>
          orWrap opn (encryptAESCTR K e (enKeyMaterial req) (enPlaintext req) p) (\<lambda>(ciphertext, iv).
          ok (ciphertext, BlockCipherOutput iv ''raw''))
      | Some (AlgChacha20Poly1305 p) \<Rightarrow>
          orWrap opn (encryptChaCha20Poly1305 K e (enKeyMaterial req) (enPlaintext req) (enAad req) p) (\<lambda>(ciphertext, nonce).
          ok (ciphertext, AeadOutput nonce ChaCha20Poly1305TagSizeBytes ''raw''))
      | _ \<Rightarrow> fails (ErrNew opn CodeNotImplemented
               (''unsupported algorithm for encrypt: '' @ typeString K (enAlgorithm req)))))"

definition Decrypt_sw ::
  "('e, 'z) sw_symmetric_scheme \<Rightarrow> decrypt_request_p \<Rightarrow> (bytes \<times> provider_output) outcome" where
  "Decrypt_sw K req =
     (let opn = ''software.(Provider).Decrypt''; done = (\<lambda>plaintext. ok (plaintext, NoOutputUnencoded)) in
      orReturn (Some (validateRequest K opn (ReqDecrypt req))) (\<lambda>_.
      case deAlgorithm req of
        Some (AlgAesGcm p) \<Rightarrow>
          orWrap opn (decryptAESGCM K (deKeyMaterial req) (deCiphertext req) (aeadNonce (deOutput req)) (deAad req) p) done
      | Some (AlgAesCbc p) \<Rightarrow>
          orWrap opn (decryptAESCBC K (deKeyMaterial req) (deCiphertext req) (blockCipherIv (deOutput req)) p) done
      | Some (AlgAesCtr p) \<Rightarrow>
          orWrap opn (decryptAESCTR K (deKeyMaterial req) (deCiphertext req) (blockCipherIv (deOutput req)) p) done
      | Some (AlgChacha20Poly1305 p) \<Rightarrow>
          orWrap opn (decryptChaCha20Poly1305 K (deKeyMaterial req) (deCiphertext req) (aeadNonce (deOutput req)) (deAad req) p) done
      | _ \<Rightarrow> fails (ErrNew opn CodeNotImplemented
               (''unsupported algorithm for decrypt: '' @ typeString K (deAlgorithm req)))))"

section \<open>Description\<close>

definition ImplementationProperties_sw :: implementation_properties where
  "ImplementationProperties_sw =
     \<lparr>ipLanguage = ''go'', ipMemorySafe = Some True, ipHardwareAccelerated = None, ipFips140 = None\<rparr>"

text \<open>\<open>goVersion\<close> is \<open>runtime.Version()\<close>.\<close>

definition ProviderInfo_sw :: "string \<Rightarrow> provider_info" where
  "ProviderInfo_sw goVersion =
     \<lparr>piName = ''Go cryptography (standard library and circl)'', piVersion = goVersion, piType = Type_sw,
      piDescription = ''In-process software provider: Go's crypto packages, with circl for ML-DSA.'',
      piProviderType = PROVIDER_TYPE_SOFTWARE, piDefault = Some ImplementationProperties_sw\<rparr>"

end
