(* ===== verification/Software_Symmetric_Properties.thy ===== *)
theory Software_Symmetric_Properties
  imports Software_Symmetric
begin

text \<open>
  The padding of AES-CBC is exact, and each symmetric algorithm is a \<open>cipher_mode\<close>: what it
  encrypts it decrypts, its IVs have the declared length, and no input makes it panic below the
  length limits of the libraries.
\<close>

section \<open>PKCS#7 padding\<close>

lemma pad_length_bounds:
  assumes "0 < (bl :: nat)"
  shows "0 < bl - n mod bl" "bl - n mod bl \<le> bl"
  using assms by simp_all

lemma length_pkcs7Pad_mod:
  assumes "0 < bl"
  shows "length (pkcs7Pad bs bl) mod bl = 0" "length (pkcs7Pad bs bl) > 0"
proof -
  have "length bs mod bl \<le> bl" using assms by simp
  then have "length (pkcs7Pad bs bl) = length bs - length bs mod bl + bl"
    by (simp add: pkcs7Pad_def Let_def)
  then have "length (pkcs7Pad bs bl) = bl * (length bs div bl) + bl" by (simp add: minus_mod_eq_mult_div)
  then show "length (pkcs7Pad bs bl) mod bl = 0" "length (pkcs7Pad bs bl) > 0" using assms by simp_all
qed

lemma pkcs7Unpad_Pad:
  assumes "0 < bl" "bl < 256"
  shows "pkcs7Unpad opn (pkcs7Pad bs bl) bl = Inr bs"
proof -
  define p where "p = bl - length bs mod bl"
  have p: "0 < p" "p \<le> bl" "p < 256" using assms by (auto simp: p_def)
  have e: "pkcs7Pad bs bl = bs @ replicate p (word_of_nat p)"
    using p by (simp add: pkcs7Pad_def p_def [symmetric])
  have l: "(bs @ replicate p (word_of_nat p :: byte)) ! (length bs + p - 1) = word_of_nat p"
    using p by (auto simp: nth_append)
  show ?thesis
    using length_pkcs7Pad_mod [OF assms(1), of bs] p l
    by (simp add: pkcs7Unpad_def e Let_def list_ex_iff)
qed

text \<open>
  C36: PKCS#7 unpadding accepts exactly the padded blocks: it returns \<open>d\<close> for a byte slice if and
  only if that slice is \<open>d\<close> padded, for every block size of 1 to 255 bytes.
\<close>

theorem pkcs7Unpad_exact:
  assumes "0 < bl" "bl < 256"
  shows "pkcs7Unpad opn bs bl = Inr d \<longleftrightarrow> bs = pkcs7Pad d bl"
proof
  assume a: "pkcs7Unpad opn bs bl = Inr d"
  define p where "p = unat (bs ! (length bs - 1))"
  note a' = a [unfolded pkcs7Unpad_def Let_def p_def [symmetric]]
  from a' have c: "\<not> (length bs = 0 \<or> length bs mod bl \<noteq> 0)" by (rule contrapos_pp) simp
  from a' c have c2: "\<not> (p = 0 \<or> p > bl \<or> p > length bs)" by (rule_tac ccontr) simp
  from a' c c2 have "\<not> list_ex (\<lambda>b. unat b \<noteq> p) (drop (length bs - p) bs)" by (rule_tac ccontr) simp
  with a' c c2 have p: "0 < p" "p \<le> bl" "p \<le> length bs" and m: "length bs mod bl = 0"
    and u: "\<forall>b \<in> set (drop (length bs - p) bs). unat b = p" and d: "d = take (length bs - p) bs"
    by (simp_all add: list_ex_iff)
  have r: "drop (length bs - p) bs = replicate p (word_of_nat p)"
  proof (rule replicate_eqI)
    show "length (drop (length bs - p) bs) = p" using p by simp
    show "b = word_of_nat p" if "b \<in> set (drop (length bs - p) bs)" for b using u that by auto
  qed
  have "bl - length d mod bl = p"
  proof -
    obtain q where q: "length bs = bl * q" using m by auto
    with p have "q > 0" by (cases q) auto
    then obtain q' where "q = Suc q'" by (cases q) auto
    with q d p have "length d = bl * q' + (bl - p)" by simp
    then have "length d mod bl = (bl - p) mod bl" by (simp only: mod_mult_self3 mult.commute [of bl])
    then show ?thesis using p by (cases "p = bl") auto
  qed
  then have "pkcs7Pad d bl = d @ replicate p (word_of_nat p)"
    using p assms by (simp add: pkcs7Pad_def Let_def)
  then show "bs = pkcs7Pad d bl" using r d by (metis append_take_drop_id)
qed (simp add: pkcs7Unpad_Pad assms)

theorem pkcs7Unpad_exact_witness:
  "pkcs7Unpad [] [7, 8, 2, 2] 4 = Inr [7, 8] \<and> pkcs7Unpad [] [7, 8, 1, 2] 4 \<noteq> Inr [7, 8]"
  using pkcs7Unpad_exact [of 4 "[]" "[7, 8, 2, 2]" "[7, 8]"] pkcs7Unpad_exact [of 4 "[]" "[7, 8, 1, 2]" "[7, 8]"]
  by (simp add: pkcs7Pad_def numeral_2_eq_2)

section \<open>The laws of the primitives\<close>

text \<open>
  Documented behaviour of the libraries: \<open>rand.Read\<close> fills the buffer; AES is a permutation of
  16-byte blocks for each key size; opening inverts sealing under the same nonce and additional
  data, and a sealed message is not too long to be opened; ChaCha20-Poly1305 takes 32-byte keys
  and 12-byte nonces, 24 bytes in its extended form, and messages of up to \<open>2^38 - 64\<close> bytes.
\<close>

definition aead_ok :: "aead \<Rightarrow> nat \<Rightarrow> bool" where
  "aead_ok a ns \<longleftrightarrow> aeadNonceSize a = ns \<and> (2 ^ 32 - 2) * 16 \<le> aeadSealLimit a \<and>
     (\<forall>nonce pt aad. length nonce = ns \<and> length pt \<le> aeadSealLimit a \<longrightarrow>
        aeadOpen a nonce (aeadSeal a nonce pt aad) aad = Some pt \<and>
        (\<forall>l. aeadOpenLimit a = Some l \<longrightarrow> length (aeadSeal a nonce pt aad) \<le> l)) \<and>
     (\<forall>l. aeadOpenLimit a = Some l \<longrightarrow> (2 ^ 32 - 2) * 16 \<le> l)"

definition symmetric_ok :: "('e, 'z) sw_symmetric_scheme \<Rightarrow> bool" where
  "symmetric_ok K \<longleftrightarrow>
     (\<forall>e n bs. randRead K e n = Inr bs \<longrightarrow> length bs = n) \<and>
     (\<forall>key. length key \<in> {16, 24, 32} \<longrightarrow> block_inverse (aesEncryptBlock K key) (aesDecryptBlock K key)) \<and>
     (\<forall>key ns ts nonce pt aad. length nonce = ns \<longrightarrow>
        gcmOpen K key ns ts nonce (gcmSeal K key ns ts nonce pt aad) aad = Some pt) \<and>
     (\<forall>key. length key = 32 \<longrightarrow>
        (\<exists>a. chachaNew K key = Inr a \<and> aead_ok a 12) \<and> (\<exists>a. chachaNewX K key = Inr a \<and> aead_ok a 24))"

lemma symmetric_okD:
  assumes "symmetric_ok K"
  shows "randRead K e n = Inr bs \<Longrightarrow> length bs = n"
    and "length key \<in> {16, 24, 32} \<Longrightarrow> block_inverse (aesEncryptBlock K key) (aesDecryptBlock K key)"
    and "length nonce = ns \<Longrightarrow> gcmOpen K key ns ts nonce (gcmSeal K key ns ts nonce pt aad) aad = Some pt"
    and "length key = 32 \<Longrightarrow> chachaNew K key = Inr a \<Longrightarrow> aead_ok a 12"
    and "length key = 32 \<Longrightarrow> chachaNewX K key = Inr a \<Longrightarrow> aead_ok a 24"
  using assms by (auto simp: symmetric_ok_def)

section \<open>Cipher modes\<close>

text \<open>
  \<open>good K\<close> is the contract with the libraries. \<open>limit\<close> is the length above which the libraries
  may panic: \<open>(2^32 - 2) * 16\<close> bytes, the bound of AES-GCM.
\<close>

definition cipher_limit :: nat where "cipher_limit = (2 ^ 32 - 2) * 16"

locale cipher_mode =
  fixes good :: "'k \<Rightarrow> bool"
    and enc :: "'k \<Rightarrow> 'e \<Rightarrow> bytes \<Rightarrow> bytes \<Rightarrow> bytes \<Rightarrow> 'p \<Rightarrow> (bytes \<times> bytes) outcome"
    and dec :: "'k \<Rightarrow> bytes \<Rightarrow> bytes \<Rightarrow> bytes \<Rightarrow> bytes \<Rightarrow> 'p \<Rightarrow> bytes outcome"
  assumes round_trip: "good K \<Longrightarrow> enc K e key pt aad p = ok (ct, iv) \<Longrightarrow> dec K key ct iv aad p = ok pt"
    and enc_safe: "good K \<Longrightarrow> length pt \<le> cipher_limit \<Longrightarrow> enc K e key pt aad p \<noteq> None"
    and dec_safe: "good K \<Longrightarrow> length ct \<le> cipher_limit \<Longrightarrow> dec K key ct iv aad p \<noteq> None"
begin

text \<open>Ciphertexts determine their plaintexts.\<close>

lemma injective:
  assumes "good K" "enc K e key pt aad p = ok (ct, iv)" "enc K e' key pt' aad p = ok (ct, iv)"
  shows "pt = pt'"
  using round_trip [OF assms(1,2)] round_trip [OF assms(1,3)] by simp

text \<open>A batch, each message under its own entropy, is read back message by message.\<close>

lemma batch_round_trip:
  assumes "good K" "list_all2 (\<lambda>(e, pt) (ct, iv). enc K e key pt aad p = ok (ct, iv)) ms cs"
  shows "map (\<lambda>(ct, iv). dec K key ct iv aad p) cs = map (\<lambda>(e, pt). ok pt) ms"
  using assms(2) by (induction rule: list_all2_induct) (auto dest: round_trip [OF assms(1)])

end

lemma checkAESCBCParamsValid_ok [simp]:
  "checkAESCBCParamsValid K opn b p = Inr u \<longleftrightarrow> b = 128 \<and> p = PADDING_PKCS7"
  by (auto simp: checkAESCBCParamsValid_def)

lemma checks_ok [simp]:
  "checkAESKeyMatchesDeclaredSize opn key n = Inr u \<longleftrightarrow> length key = n div 8"
  "checkAESCTRParamsValid opn a c = Inr u \<longleftrightarrow> a = 96 \<and> c = 32"
  "checkChaCha20KeySize opn key = Inr u \<longleftrightarrow> length key = 32"
  "wantLength opn w bs n = Inr u \<longleftrightarrow> length bs = n"
  "checkAESKeySize opn n = Inr u \<longleftrightarrow> n \<in> {128, 192, 256}"
  "aesNewCipher key = Inr b \<longleftrightarrow> length key \<in> {16, 24, 32} \<and> b = key"
  by (auto simp: checkAESKeyMatchesDeclaredSize_def checkAESCTRParamsValid_def checkChaCha20KeySize_def
      wantLength_def checkAESKeySize_def aesNewCipher_def Let_def)

lemma encryptAESCBC_ok:
  "encryptAESCBC K e key pt p = ok (ct, iv) \<longleftrightarrow>
     length key = cbcKeySizeBits p div 8 \<and> cbcIvSizeBits p = 128 \<and> cbcPadding p = PADDING_PKCS7 \<and>
     length key \<in> {16, 24, 32} \<and> randRead K e aesBlockSize = Inr iv \<and>
     CryptBlocks cbc_encrypt (aesEncryptBlock K key) iv (pkcs7Pad pt aesBlockSize) = Some ct"
  by (auto simp: encryptAESCBC_def Let_def split: option.splits)

interpretation aes_cbc: cipher_mode symmetric_ok
  "\<lambda>K e key pt aad p. encryptAESCBC K e key pt p" "\<lambda>K key ct iv aad p. decryptAESCBC K key ct iv p"
proof
  fix K :: "('a, 'b) sw_symmetric_scheme" and e :: 'a and key pt ct iv :: bytes and p
  assume K: "symmetric_ok K"
  note s = length_pkcs7Pad_mod [OF aesBlockSize_pos(1)]
  show "decryptAESCBC K key ct iv p = ok pt" if "encryptAESCBC K e key pt p = ok (ct, iv)"
  proof -
    from that have e: "length key = cbcKeySizeBits p div 8" "cbcIvSizeBits p = 128" "cbcPadding p = PADDING_PKCS7"
      "length key \<in> {16, 24, 32}" "randRead K e aesBlockSize = Inr iv"
      "CryptBlocks cbc_encrypt (aesEncryptBlock K key) iv (pkcs7Pad pt aesBlockSize) = Some ct"
      unfolding encryptAESCBC_ok by blast+
    from CryptBlocks_round_trip [OF e(6) symmetric_okD(2) [OF K e(4)]]
    have c: "CryptBlocks cbc_decrypt (aesDecryptBlock K key) iv ct = Some (pkcs7Pad pt aesBlockSize)"
      "length ct = length (pkcs7Pad pt aesBlockSize)" by auto
    have "pkcs7Unpad opn (pkcs7Pad pt aesBlockSize) aesBlockSize = Inr pt" for opn
      by (rule pkcs7Unpad_Pad) (simp_all add: aesBlockSize_def)
    then show ?thesis
      using e(1-4) symmetric_okD(1) [OF K e(5)] c s [of pt] by (simp add: decryptAESCBC_def Let_def)
  qed
  show "encryptAESCBC K e key pt p \<noteq> None"
    using symmetric_okD(1) [OF K] s(1) [of pt] by (auto simp: encryptAESCBC_def Let_def CryptBlocks_def split: option.splits)
  show "decryptAESCBC K key ct iv p \<noteq> None"
    by (auto simp: decryptAESCBC_def Let_def CryptBlocks_def split: option.splits)
qed

lemma newAESCTRBlock_ok [simp]:
  "newAESCTRBlock opn key p = ok b \<longleftrightarrow>
     length key = ctrKeySizeBits p div 8 \<and> ctrNonceSizeBits p = 96 \<and> ctrCounterBits p = 32 \<and>
     length key \<in> {16, 24, 32} \<and> b = key"
  by (auto simp: newAESCTRBlock_def)

lemma newAESCTRBlock_safe [simp]: "newAESCTRBlock opn key p \<noteq> None"
  by (simp add: newAESCTRBlock_def)

interpretation aes_ctr: cipher_mode symmetric_ok
  "\<lambda>K e key pt aad p. encryptAESCTR K e key pt p" "\<lambda>K key ct iv aad p. decryptAESCTR K key ct iv p"
proof
  fix K :: "('a, 'b) sw_symmetric_scheme" and e :: 'a and key pt ct iv :: bytes and p
  assume K: "symmetric_ok K"
  show "decryptAESCTR K key ct iv p = ok pt" if "encryptAESCTR K e key pt p = ok (ct, iv)"
  proof -
    from that have k: "length key \<in> {16, 24, 32}" "length key = ctrKeySizeBits p div 8"
        "ctrNonceSizeBits p = 96" "ctrCounterBits p = 32"
      and x: "XORKeyStream (aesEncryptBlock K key) iv pt = Some ct"
      by (auto simp: encryptAESCTR_def Let_def split: option.splits)
    from x have "length iv = aesBlockSize" by (auto simp: XORKeyStream_def split: if_splits)
    then show ?thesis
      using k XORKeyStream_round_trip [OF x symmetric_okD(2) [OF K k(1)]] by (simp add: decryptAESCTR_def Let_def)
  qed
  show "encryptAESCTR K e key pt p \<noteq> None"
    using symmetric_okD(1) [OF K] by (auto simp: encryptAESCTR_def Let_def XORKeyStream_def aesBlockSize_def split: option.splits)
  show "decryptAESCTR K key ct iv p \<noteq> None"
    by (auto simp: decryptAESCTR_def Let_def XORKeyStream_def split: option.splits)
qed

text \<open>The two authenticated modes share their use of an AEAD.\<close>

lemma aead_round_trip:
  assumes "aead_ok a ns" "Seal a nonce pt aad = Some ct"
  shows "Open a nonce ct aad = Some (Some pt) \<and> length nonce = aeadNonceSize a"
proof -
  from assms(2) have n: "length nonce = aeadNonceSize a" "length pt \<le> aeadSealLimit a" "ct = aeadSeal a nonce pt aad"
    by (auto simp: Seal_def split: if_splits)
  with assms(1) have "aeadOpen a nonce ct aad = Some pt" "aeadOpenLimit a = Some l \<Longrightarrow> length ct \<le> l" for l
    by (auto simp: aead_ok_def)
  then show ?thesis using n(1) by (cases "aeadOpenLimit a") (auto simp: Open_def not_less)
qed

lemma aead_safe:
  assumes "aead_ok a ns"
  shows "length nonce = aeadNonceSize a \<Longrightarrow> length pt \<le> cipher_limit \<Longrightarrow> Seal a nonce pt aad \<noteq> None"
    and "length nonce = aeadNonceSize a \<Longrightarrow> length ct \<le> cipher_limit \<Longrightarrow> Open a nonce ct aad \<noteq> None"
proof -
  from assms have "cipher_limit \<le> aeadSealLimit a" "aeadOpenLimit a = Some l \<Longrightarrow> cipher_limit \<le> l" for l
    by (auto simp: aead_ok_def cipher_limit_def)
  then show "length nonce = aeadNonceSize a \<Longrightarrow> length pt \<le> cipher_limit \<Longrightarrow> Seal a nonce pt aad \<noteq> None"
    "length nonce = aeadNonceSize a \<Longrightarrow> length ct \<le> cipher_limit \<Longrightarrow> Open a nonce ct aad \<noteq> None"
    by (fastforce simp: Seal_def Open_def split: option.splits)+
qed

lemma checkAESGCMSizesValid_ok [simp]:
  "checkAESGCMSizesValid opn i t = Inr u \<longleftrightarrow> i \<in> {64, 96, 128} \<and> t \<in> {96, 104, 112, 120, 128}"
  by (auto simp: checkAESGCMSizesValid_def)

text \<open>AES-GCM is offered for the declared sizes unless both differ from the standard ones.\<close>

lemma newAESGCM_ok:
  "newAESGCM K opn key i t = ok a \<longleftrightarrow>
     i \<in> {64, 96, 128} \<and> t \<in> {96, 104, 112, 120, 128} \<and> length key \<in> {16, 24, 32} \<and> (i = 96 \<or> t = 128) \<and>
     a = gcmAead K key (i div 8) (t div 8)"
  by (auto simp: newAESGCM_def aesGCMStandardIVSizeBits_def aesGCMStandardTagSizeBits_def NewGCM_def
      NewGCMWithTagSize_def NewGCMWithNonceSize_def)

lemma newAESGCM_safe [simp]: "newAESGCM K opn key i t \<noteq> None"
  by (simp add: newAESGCM_def)

lemma gcmAead_ok: "symmetric_ok K \<Longrightarrow> aead_ok (gcmAead K key ns ts) ns"
  by (simp add: aead_ok_def gcmAead_def symmetric_okD(3))

interpretation aes_gcm: cipher_mode symmetric_ok encryptAESGCM "\<lambda>K key ct nonce aad. decryptAESGCM K key ct nonce aad"
proof
  fix K :: "('a, 'b) sw_symmetric_scheme" and e :: 'a and key pt ct nonce aad :: bytes and p :: aes_gcm_params
  assume K: "symmetric_ok K"
  let ?a = "gcmAead K key (gcmIvSizeBits p div 8) (gcmTagSizeBits p div 8)"
  note a = gcmAead_ok [OF K, of key "gcmIvSizeBits p div 8" "gcmTagSizeBits p div 8"]
  show "decryptAESGCM K key ct nonce aad p = ok pt" if "encryptAESGCM K e key pt aad p = ok (ct, nonce)"
  proof -
    from that obtain b where b: "length key = gcmKeySizeBits p div 8"
      "newAESGCM K ''software.encryptAESGCM'' key (gcmIvSizeBits p) (gcmTagSizeBits p) = ok b" "Seal b nonce pt aad = Some ct"
      by (auto simp: encryptAESGCM_def Let_def split: option.splits)
    from b(2) have "b = ?a" by (simp add: newAESGCM_ok)
    moreover from b(2) have "newAESGCM K ''software.decryptAESGCM'' key (gcmIvSizeBits p) (gcmTagSizeBits p) = ok b"
      by (simp add: newAESGCM_ok)
    ultimately show ?thesis using aead_round_trip [OF a] b(1,3) by (simp add: decryptAESGCM_def Let_def)
  qed
  show "encryptAESGCM K e key pt aad p \<noteq> None" if "length pt \<le> cipher_limit"
  proof
    assume "encryptAESGCM K e key pt aad p = None"
    then obtain b n where b: "newAESGCM K ''software.encryptAESGCM'' key (gcmIvSizeBits p) (gcmTagSizeBits p) = ok b"
      "randRead K e (aeadNonceSize b) = Inr n" "Seal b n pt aad = None"
      by (auto simp: encryptAESGCM_def Let_def split: option.splits)
    from b(1) have "b = ?a" by (simp add: newAESGCM_ok)
    with aead_safe(1) [OF a, of n pt aad] symmetric_okD(1) [OF K b(2)] that b(3) show False by simp
  qed
  show "decryptAESGCM K key ct nonce aad p \<noteq> None" if "length ct \<le> cipher_limit"
  proof
    assume "decryptAESGCM K key ct nonce aad p = None"
    then obtain b where b: "newAESGCM K ''software.decryptAESGCM'' key (gcmIvSizeBits p) (gcmTagSizeBits p) = ok b"
      "length nonce = aeadNonceSize b" "Open b nonce ct aad = None"
      by (auto simp: decryptAESGCM_def Let_def split: option.splits)
    from b(1) have "b = ?a" by (simp add: newAESGCM_ok)
    with aead_safe(2) [OF a, of nonce ct aad] that b(2,3) show False by simp
  qed
qed

lemma newChaCha20Poly1305_ok:
  assumes "symmetric_ok K" "length key = 32" "newChaCha20Poly1305 K opn key p = ok a"
  shows "\<exists>ns. aead_ok a ns"
  using assms symmetric_okD(4,5) [OF assms(1,2)] by (auto simp: newChaCha20Poly1305_def split: if_splits)

lemma newChaCha20Poly1305_safe [simp]: "newChaCha20Poly1305 K opn key p \<noteq> None"
  by (simp add: newChaCha20Poly1305_def)

lemma newChaCha20Poly1305_op: "newChaCha20Poly1305 K opn key p = ok a \<Longrightarrow> newChaCha20Poly1305 K opn' key p = ok a"
  by (auto simp: newChaCha20Poly1305_def split: if_splits)

interpretation chacha: cipher_mode symmetric_ok encryptChaCha20Poly1305
  "\<lambda>K key ct nonce aad. decryptChaCha20Poly1305 K key ct nonce aad"
proof
  fix K :: "('a, 'b) sw_symmetric_scheme" and e :: 'a and key pt ct nonce aad :: bytes and p
  assume K: "symmetric_ok K"
  show "decryptChaCha20Poly1305 K key ct nonce aad p = ok pt"
    if "encryptChaCha20Poly1305 K e key pt aad p = ok (ct, nonce)"
  proof -
    from that obtain a where a: "length key = 32" "newChaCha20Poly1305 K ''software.encryptChaCha20Poly1305'' key p = ok a"
      "Seal a nonce pt aad = Some ct"
      by (auto simp: encryptChaCha20Poly1305_def Let_def split: option.splits)
    obtain ns where "aead_ok a ns" using newChaCha20Poly1305_ok [OF K a(1,2)] by blast
    from aead_round_trip [OF this a(3)] newChaCha20Poly1305_op [OF a(2)] a(1)
    show ?thesis by (simp add: decryptChaCha20Poly1305_def Let_def)
  qed
  show "encryptChaCha20Poly1305 K e key pt aad p \<noteq> None" if "length pt \<le> cipher_limit"
  proof
    assume "encryptChaCha20Poly1305 K e key pt aad p = None"
    then obtain a n where a: "length key = 32" "newChaCha20Poly1305 K ''software.encryptChaCha20Poly1305'' key p = ok a"
      "randRead K e (aeadNonceSize a) = Inr n" "Seal a n pt aad = None"
      by (auto simp: encryptChaCha20Poly1305_def Let_def split: option.splits)
    obtain ns where "aead_ok a ns" using newChaCha20Poly1305_ok [OF K a(1,2)] by blast
    from aead_safe(1) [OF this symmetric_okD(1) [OF K a(3)] that] a(4) show False by simp
  qed
  show "decryptChaCha20Poly1305 K key ct nonce aad p \<noteq> None" if "length ct \<le> cipher_limit"
  proof
    assume "decryptChaCha20Poly1305 K key ct nonce aad p = None"
    then obtain a where a: "length key = 32" "newChaCha20Poly1305 K ''software.decryptChaCha20Poly1305'' key p = ok a"
      "length nonce = aeadNonceSize a" "Open a nonce ct aad = None"
      by (auto simp: decryptChaCha20Poly1305_def Let_def split: option.splits)
    obtain ns where "aead_ok a ns" using newChaCha20Poly1305_ok [OF K a(1,2)] by blast
    from aead_safe(2) [OF this a(3) that] a(4) show False by simp
  qed
qed

end
