(* ===== verification/Software_Provider_Properties.thy ===== *)
theory Software_Provider_Properties
  imports Software_Provider Software_Symmetric_Properties
begin

text \<open>
  What the software provider guarantees: decryption inverts encryption, a signature made with a
  generated key verifies, a signature never turns into an error, no operation panics, and the
  ECDSA wire formats round-trip. The signature algorithms meet one interface, \<open>signature_scheme\<close>.
\<close>

declare not_None_eq [iff del]

section \<open>The laws of the signature primitives\<close>

text \<open>
  Documented behaviour of the libraries: parsing inverts marshalling, a generated key has the
  requested kind and size, its signatures verify under its public key, an ECDSA signature is two
  numbers below the curve order, and CIRCL's deterministic \<open>Sign\<close> panics only on a context of more
  than 255 bytes.
\<close>

definition x509_ok :: "('e, 'sk, 'pk, 'mk, 'mp, 'z) swK \<Rightarrow> bool" where
  "x509_ok K \<longleftrightarrow>
     (\<forall>sk b. x509MarshalPKCS8 K sk = Inr b \<longrightarrow> x509ParsePKCS8 K b = Inr sk) \<and>
     (\<forall>sk b. x509MarshalEC K sk = Inr b \<longrightarrow> x509ParseEC K b = Inr sk) \<and>
     (\<forall>pk b. x509MarshalPKIX K pk = Inr b \<longrightarrow> x509ParsePKIX K b = Inr pk)"

definition ecdsa_ok :: "('e, 'sk, 'pk, 'mk, 'mp, 'z) swK \<Rightarrow> bool" where
  "ecdsa_ok K \<longleftrightarrow>
     (\<forall>e c sk. ecdsaGenerateKey K e c = Inr sk \<longrightarrow>
        privKind K sk = KindECDSA \<and> pubKind K (publicOf K sk) = KindECDSA \<and> curveOf K (publicOf K sk) = c) \<and>
     (\<forall>e sk d r s. ecdsaSign K e sk d = Inr (r, s) \<longrightarrow>
        ecdsaVerify K (publicOf K sk) d (int r) (int s) \<and>
        r < 2 ^ curveBitSize (curveOf K (publicOf K sk)) \<and> s < 2 ^ curveBitSize (curveOf K (publicOf K sk)))"

definition rsa_ok :: "('e, 'sk, 'pk, 'mk, 'mp, 'z) swK \<Rightarrow> bool" where
  "rsa_ok K \<longleftrightarrow>
     (\<forall>e n sk. rsaGenerateKey K e n = Inr sk \<longrightarrow>
        privKind K sk = KindRSA \<and> pubKind K (publicOf K sk) = KindRSA \<and> modulusBits K (publicOf K sk) = n) \<and>
     (\<forall>e sk h d l sig. rsaSignPSS K e sk h d l = Inr sig \<longrightarrow> rsaVerifyPSS K (publicOf K sk) h d sig l = None) \<and>
     (\<forall>e sk h d sig. rsaSignPKCS1v15 K e sk h d = Inr sig \<longrightarrow> rsaVerifyPKCS1v15 K (publicOf K sk) h d sig = None)"

definition ed25519_ok :: "('e, 'sk, 'pk, 'mk, 'mp, 'z) swK \<Rightarrow> bool" where
  "ed25519_ok K \<longleftrightarrow>
     (\<forall>e pk sk. edGenerateKey K e = Inr (pk, sk) \<longrightarrow>
        privKind K sk = KindEd25519 \<and> pubKind K pk = KindEd25519 \<and> pk = publicOf K sk) \<and>
     (\<forall>sk m. edVerify K (publicOf K sk) m (edSign K sk m)) \<and>
     (\<forall>sk d sig. edSignPH K sk d = Inr sig \<longrightarrow> edVerifyPH K (publicOf K sk) d sig = None)"

text \<open>
  CIRCL's \<open>Scheme.Sign\<close> panics on a key of another scheme and on a context of more than 255 bytes;
  nothing is assumed of it there.
\<close>

definition mldsa_ok :: "('e, 'sk, 'pk, 'mk, 'mp, 'z) swK \<Rightarrow> bool" where
  "mldsa_ok K \<longleftrightarrow>
     (\<forall>sch e mp mk. circlGenerateKey K sch e = Inr (mp, mk) \<longrightarrow> circlSchemeOf K mk = sch \<and>
        (\<forall>b. circlMarshalPublic K mp = Inr b \<longrightarrow> circlUnmarshalPublic K sch b = Inr mp) \<and>
        (\<forall>m c sig. circlSign K sch mk m c = Some sig \<longrightarrow> circlVerify K sch mp m sig c) \<and>
        (\<forall>e' m c sig. circlSignTo K sch e' mk m c = Inr sig \<longrightarrow> circlVerify K sch mp m sig c)) \<and>
     (\<forall>mk b. circlMarshalPKIX K mk = Inr b \<longrightarrow> circlUnmarshalPKIX K b = Inr mk) \<and>
     (\<forall>sch b mk. circlUnmarshalPrivate K sch b = Inr mk \<longrightarrow> circlSchemeOf K mk = sch) \<and>
     (\<forall>mk m c. length c \<le> mldsaMaxContextLen \<longrightarrow> circlSign K (circlSchemeOf K mk) mk m c \<noteq> None)"

definition signature_ok :: "('e, 'sk, 'pk, 'mk, 'mp, 'z) swK \<Rightarrow> bool" where
  "signature_ok K \<longleftrightarrow> errors_pkg_ok (pvErrs K) \<and> x509_ok K \<and> ecdsa_ok K \<and> rsa_ok K \<and> ed25519_ok K \<and> mldsa_ok K"

lemma x509_okD:
  assumes "signature_ok K"
  shows "x509MarshalPKCS8 K sk = Inr b \<Longrightarrow> x509ParsePKCS8 K b = Inr sk"
    and "x509MarshalEC K sk = Inr b \<Longrightarrow> x509ParseEC K b = Inr sk"
    and "x509MarshalPKIX K pk = Inr b \<Longrightarrow> x509ParsePKIX K b = Inr pk"
  using assms by (simp_all add: signature_ok_def x509_ok_def)

section \<open>ECDSA signature formats\<close>

lemma coordinate_bound:
  assumes "(n :: nat) < 2 ^ curveBitSize c"
  shows "n < 256 ^ coordinateSize c" "n < 256 ^ 66"
proof -
  have e: "(256 :: nat) ^ k = 2 ^ (8 * k)" for k by (simp add: power_mult)
  have "curveBitSize c \<le> 8 * coordinateSize c" "curveBitSize c \<le> 8 * 66"
    by (cases c; simp add: coordinateSize_def)+
  then have "(2 :: nat) ^ curveBitSize c \<le> 256 ^ coordinateSize c" "(2 :: nat) ^ curveBitSize c \<le> 256 ^ 66"
    unfolding e by (intro power_increasing; simp)+
  then show "n < 256 ^ coordinateSize c" "n < 256 ^ 66" using assms by linarith+
qed

lemma encodeECDSASignature_safe:
  "r < 2 ^ curveBitSize c \<Longrightarrow> s < 2 ^ curveBitSize c \<Longrightarrow> encodeECDSASignature K opn r s c fmt \<noteq> None"
  using coordinate_bound(1) [of r c] coordinate_bound(1) [of s c]
  by (simp add: encodeECDSASignature_def FillBytes_def Let_def)

text \<open>
  For two numbers of a curve's size, what \<open>encodeECDSASignature\<close> writes in a format
  \<open>decodeECDSASignature\<close> reads back in that format, for DER and for IEEE P1363 alike; a P1363
  signature has exactly twice the coordinate size.
\<close>

theorem ecdsa_signature_round_trip:
  assumes "r < 2 ^ curveBitSize c" "s < 2 ^ curveBitSize c" "encodeECDSASignature K opn r s c fmt = ok sig"
  shows "decodeECDSASignature K' opn' sig c fmt = Inr (int r, int s) \<and>
    (fmt = SIG_IEEE_P1363 \<longrightarrow> length sig = 2 * coordinateSize c)"
proof (cases "fmt = SIG_IEEE_P1363")
  case True
  note b = coordinate_bound(1) [OF assms(1)] coordinate_bound(1) [OF assms(2)]
  from True b assms(3) have "sig = be_fill (coordinateSize c) r @ be_fill (coordinateSize c) s"
    by (simp add: encodeECDSASignature_def FillBytes_def Let_def)
  then show ?thesis using True b by (simp add: decodeECDSASignature_def be_nat_fill Let_def)
next
  case False
  with assms(3) have f: "fmt = SIG_UNSPECIFIED \<or> fmt = SIG_DER" "sig = asn1_marshal_pair r s"
    by (auto simp: encodeECDSASignature_def split: if_splits)
  from asn1_round_trip [OF coordinate_bound(2) [OF assms(1)] coordinate_bound(2) [OF assms(2)], of "[]"]
  show ?thesis using f False by (auto simp: decodeECDSASignature_def)
qed

definition demo_provider_env :: provider_env where
  "demo_provider_env = \<lparr>pvErrs = ref_errors, enumString = (\<lambda>_. ''?''), typeString = (\<lambda>_. ''?''),
     requestValidator = Inr (\<lambda>_. None), digestLengthForHash = (\<lambda>h. if h = HASH_SHA256 then Some 32 else None)\<rparr>"

theorem ecdsa_signature_round_trip_witness:
  "\<exists>sig. encodeECDSASignature demo_provider_env [] 300 7 P256 SIG_IEEE_P1363 = ok sig \<and>
     decodeECDSASignature demo_provider_env [] sig P256 SIG_IEEE_P1363 = Inr (300, 7) \<and> length sig = 64"
proof -
  have b: "(300 :: nat) < 2 ^ curveBitSize P256" "(7 :: nat) < 2 ^ curveBitSize P256" by simp_all
  then obtain sig where "encodeECDSASignature demo_provider_env [] 300 7 P256 SIG_IEEE_P1363 = ok sig"
    by (simp add: encodeECDSASignature_def FillBytes_def coordinateSize_def)
  then show ?thesis
    using ecdsa_signature_round_trip [OF b, of demo_provider_env "[]" SIG_IEEE_P1363 sig demo_provider_env "[]"]
    by (auto simp: coordinateSize_def)
qed

text \<open>
  The DER reader ignores bytes after the second INTEGER inside the SEQUENCE: two different byte
  strings are the same signature.
\<close>

lemma der_signature_malleable:
  "decodeECDSASignature K opn [0x30, 6, 2, 1, 1, 2, 1, 1] P256 SIG_DER = Inr (1, 1) \<and>
   decodeECDSASignature K opn [0x30, 7, 2, 1, 1, 2, 1, 1, 0] P256 SIG_DER = Inr (1, 1)"
  by (simp add: decodeECDSASignature_def asn1_unmarshal_pair_def der_read_int_def der_signed_def be_nat_def)

section \<open>The signature algorithms\<close>

text \<open>
  \<open>p\<close> collects the encodings and parameters of a request, \<open>emitted p\<close> says that its encodings are
  those key generation records.
\<close>

locale signature_scheme =
  fixes good :: "'k \<Rightarrow> bool"
    and emitted :: "'p \<Rightarrow> bool"
    and keys :: "'k \<Rightarrow> 'e \<Rightarrow> 'p \<Rightarrow> (bytes \<times> bytes) outcome"
    and sign :: "'k \<Rightarrow> 'e \<Rightarrow> bytes \<Rightarrow> bytes \<Rightarrow> 'p \<Rightarrow> bytes outcome"
    and verify :: "'k \<Rightarrow> bytes \<Rightarrow> bytes \<Rightarrow> bytes \<Rightarrow> 'p \<Rightarrow> bool outcome"
  assumes accepts: "good K \<Longrightarrow> emitted p \<Longrightarrow> keys K e p = ok (pub, priv) \<Longrightarrow> sign K e' priv m p = ok sig \<Longrightarrow>
      verify K pub m sig p = ok True"
    and verdict: "good K \<Longrightarrow> verify K pub m sig p = fails err \<Longrightarrow> verify K pub m sig' p = fails err"
    and verify_safe: "good K \<Longrightarrow> verify K pub m sig p \<noteq> None"
    and sign_safe: "good K \<Longrightarrow> sign K e priv m p \<noteq> None"
    and keys_safe: "good K \<Longrightarrow> keys K e p \<noteq> None"
begin

lemma verdict_iff: "good K \<Longrightarrow> verify K pub m sig p = fails err \<longleftrightarrow> verify K pub m sig' p = fails err"
  using verdict by blast

text \<open>Under a generated key any bytes are judged, never refused.\<close>

lemma judged:
  assumes "good K" "emitted p" "keys K e p = ok (pub, priv)" "sign K e' priv m p = ok sig"
  shows "\<exists>b. verify K pub m sig' p = ok b"
proof (cases "verify K pub m sig' p")
  case (Some r)
  then show ?thesis
    using accepts [OF assms] verdict [OF assms(1), of pub m sig' p _ sig] by (cases r) auto
qed (use verify_safe [OF assms(1)] in simp)

end

lemma parse_safe [simp]:
  "parseECDSAPrivateKey K opn d enc \<noteq> None" "parseECDSAPublicKey K opn d qenc \<noteq> None"
  "parseRSAPrivateKey K opn d enc \<noteq> None" "parseRSAPublicKey K opn d qenc \<noteq> None"
  "parseEd25519PrivateKey K opn d enc \<noteq> None" "parseEd25519PublicKey K opn d qenc \<noteq> None"
  by (auto simp: parseECDSAPrivateKey_def parseECDSAPKCS8_def parseECDSASEC1_def parseECDSAPublicKey_def
      parseRSAPrivateKey_def parseRSAPublicKey_def parseEd25519PrivateKey_def parseEd25519PublicKey_def
      split: sum.splits)

lemma checkCurveMatches_safe [simp]: "checkCurveMatches K opn c d \<noteq> None"
  by (simp add: checkCurveMatches_def)

lemma curveName_inject [simp]: "curveName c = curveName d \<longleftrightarrow> c = d"
  by (cases c; cases d) simp_all

lemma checkCurveMatches_ok:
  "checkCurveMatches K opn c d = ok u \<longleftrightarrow> curveForAlgorithm K opn d = Inr c"
  by (auto simp: checkCurveMatches_def)

lemma curveForAlgorithm_op: "curveForAlgorithm K opn d = Inr c \<Longrightarrow> curveForAlgorithm K opn' d = Inr c"
  by (auto simp: curveForAlgorithm_def split: elliptic_curve.splits)

lemma ecdsaDigest_safe [simp]: "ecdsaDigest K opn c h m \<noteq> None"
  by (auto simp: ecdsaDigest_def Let_def)

lemma ecdsaDigest_op: "ecdsaDigest K opn c h m = ok d \<Longrightarrow> ecdsaDigest K opn' c h m = ok d"
  unfolding ecdsaDigest_def curveMinHash_def Let_def by (cases c) (simp_all split: if_split_asm)

lemma generateECDSAKey_ok:
  assumes "signature_ok K" "generateECDSAKey K e c = ok (pub, priv)"
  obtains sk nc where "curveForAlgorithm K ''software.generateECDSAKey'' c = Inr nc"
    "privKind K sk = KindECDSA" "pubKind K (publicOf K sk) = KindECDSA" "curveOf K (publicOf K sk) = nc"
    "x509ParseEC K priv = Inr sk" "x509ParsePKIX K pub = Inr (publicOf K sk)"
proof -
  from assms(2) obtain nc sk where k: "curveForAlgorithm K ''software.generateECDSAKey'' c = Inr nc"
    "ecdsaGenerateKey K e nc = Inr sk" "x509MarshalPKIX K (publicOf K sk) = Inr pub" "x509MarshalEC K sk = Inr priv"
    by (auto simp: generateECDSAKey_def Let_def)
  from assms(1) k(2) have "privKind K sk = KindECDSA" "pubKind K (publicOf K sk) = KindECDSA" "curveOf K (publicOf K sk) = nc"
    by (auto simp: signature_ok_def ecdsa_ok_def)
  then show thesis using that k(1) x509_okD(2,3) [OF assms(1)] k(3,4) by blast
qed

lemma parse_generated_ecdsa:
  "x509ParseEC K priv = Inr sk \<Longrightarrow> parseECDSAPrivateKey K opn priv PRIV_SEC1 = ok sk"
  "x509ParsePKIX K pub = Inr pk \<Longrightarrow> pubKind K pk = KindECDSA \<Longrightarrow> parseECDSAPublicKey K opn pub PUB_SPKI = ok pk"
  by (simp_all add: parseECDSAPrivateKey_def parseECDSASEC1_def parseECDSAPublicKey_def)

lemma ecdsaSign_okD:
  assumes "signature_ok K" "ecdsaSign K e sk d = Inr (r, s)"
  shows "ecdsaVerify K (publicOf K sk) d (int r) (int s)"
    "r < 2 ^ curveBitSize (curveOf K (publicOf K sk))" "s < 2 ^ curveBitSize (curveOf K (publicOf K sk))"
  using assms by (auto simp: signature_ok_def ecdsa_ok_def)

lemma decode_error_indep:
  assumes "errors_pkg_ok P" "decodeECDSASignature K opn sig c fmt = Inl err" "hasCode P CodeNotImplemented err"
  shows "decodeECDSASignature K opn sig' c fmt = Inl err"
  using assms by (auto simp: decodeECDSASignature_def errors_pkg_okD unsupportedFormat_def Let_def
      split: if_splits option.splits)

lemma verifyDecoded_verdict:
  assumes "signature_ok K" "verifyDecoded K opn pk d sig fmt = fails err"
  shows "verifyDecoded K opn pk d sig' fmt = fails err"
proof -
  have P: "errors_pkg_ok (pvErrs K)" using assms(1) by (simp add: signature_ok_def)
  from assms(2) have "decodeECDSASignature K opn sig (curveOf K pk) fmt = Inl err" "hasCode (pvErrs K) CodeNotImplemented err"
    by (auto simp: verifyDecoded_def split: sum.splits if_splits)
  then show ?thesis using decode_error_indep [OF P, of K opn sig "curveOf K pk" fmt err sig'] by (simp add: verifyDecoded_def)
qed

lemma verifyDecoded_safe [simp]: "verifyDecoded K opn pk d sig fmt \<noteq> None"
  by (auto simp: verifyDecoded_def split: sum.splits)

lemma verifyDecoded_encoded:
  assumes "signature_ok K" "ecdsaSign K e sk d = Inr (r, s)"
    and "encodeECDSASignature K opn r s (curveOf K (publicOf K sk)) fmt = ok sig"
  shows "verifyDecoded K opn' (publicOf K sk) d sig fmt = ok True"
proof -
  note b = ecdsaSign_okD [OF assms(1,2)]
  have "decodeECDSASignature K opn' sig (curveOf K (publicOf K sk)) fmt = Inr (int r, int s)"
    using b assms(3) coordinate_bound [OF b(2)] coordinate_bound [OF b(3)] asn1_round_trip [of r s "[]"]
    by (auto simp: encodeECDSASignature_def decodeECDSASignature_def FillBytes_def be_nat_fill Let_def split: if_splits)
  then show ?thesis using b(1) by (simp add: verifyDecoded_def)
qed

interpretation ecdsa: signature_scheme signature_ok "\<lambda>(penc, qenc, p). penc = PRIV_SEC1 \<and> qenc = PUB_SPKI"
  "\<lambda>K e (penc, qenc, p). generateECDSAKey K e (ecCurve p)"
  "\<lambda>K e priv m (penc, qenc, p). signECDSA K e priv m penc (ecCurve p) (ecHash p) (ecFormat p)"
  "\<lambda>K pub m sig (penc, qenc, p). verifyECDSA K pub m sig qenc (ecCurve p) (ecHash p) (ecFormat p)"
proof (unfold_locales, goal_cases)
  case (1 K p e pub priv e' m sig)
  obtain penc qenc q where p: "p = (penc, qenc, q)" by (cases p)
  with 1 have g: "generateECDSAKey K e (ecCurve q) = ok (pub, priv)" and enc: "penc = PRIV_SEC1" "qenc = PUB_SPKI" by auto
  obtain sk nc where k: "curveForAlgorithm K ''software.generateECDSAKey'' (ecCurve q) = Inr nc"
    "pubKind K (publicOf K sk) = KindECDSA" "curveOf K (publicOf K sk) = nc"
    "x509ParseEC K priv = Inr sk" "x509ParsePKIX K pub = Inr (publicOf K sk)"
    by (rule generateECDSAKey_ok [OF 1(1) g])
  from 1(4) obtain d r s where d: "ecdsaDigest K ''software.signECDSA'' (ecCurve q) (ecHash q) m = ok d"
    "ecdsaSign K e' sk d = Inr (r, s)"
    "encodeECDSASignature K ''software.signECDSA'' r s (curveOf K (publicOf K sk)) (ecFormat q) = ok sig"
    by (auto simp: p enc signECDSA_def Let_def parse_generated_ecdsa(1) [OF k(4)] split: prod.splits)
  show ?case
    using verifyDecoded_encoded [OF 1(1) d(2,3)] ecdsaDigest_op [OF d(1)] curveForAlgorithm_op [OF k(1)]
    by (simp add: p enc verifyECDSA_def Let_def parse_generated_ecdsa(2) [OF k(5,2)] checkCurveMatches_ok k(3))
next
  case (2 K pub m sig p err sig')
  obtain penc qenc q where p: "p = (penc, qenc, q)" by (cases p)
  from 2(2) show ?case unfolding p split_conv verifyECDSA_def Let_def
    by (elim orReturn_fails_cong verifyDecoded_verdict [OF 2(1)])
next
  case (3 K pub m sig p)
  then show ?case by (cases p) (simp add: verifyECDSA_def Let_def)
next
  case (4 K e priv m p)
  obtain penc qenc q where p: "p = (penc, qenc, q)" by (cases p)
  show ?case unfolding p split_conv
  proof
    assume "signECDSA K e priv m penc (ecCurve q) (ecHash q) (ecFormat q) = None"
    then obtain sk d r s where d: "ecdsaSign K e sk d = Inr (r, s)"
      "encodeECDSASignature K ''software.signECDSA'' r s (curveOf K (publicOf K sk)) (ecFormat q) = None"
      by (auto simp: signECDSA_def Let_def)
    from encodeECDSASignature_safe [OF ecdsaSign_okD(2,3) [OF 4 d(1)]] d(2) show False by (rule notE)
  qed
next
  case (5 K e p)
  then show ?case by (cases p) (auto simp: generateECDSAKey_def Let_def)
qed

interpretation ecdsa_digest: signature_scheme signature_ok "\<lambda>(penc, qenc, p). penc = PRIV_SEC1 \<and> qenc = PUB_SPKI"
  "\<lambda>K e (penc, qenc, p). generateECDSAKey K e (ecCurve p)"
  "\<lambda>K e priv d (penc, qenc, p). signECDSADigest K e priv d penc (ecCurve p) (ecFormat p)"
  "\<lambda>K pub d sig (penc, qenc, p). verifyECDSADigest K pub d sig qenc (ecCurve p) (ecFormat p)"
proof (unfold_locales, goal_cases)
  case (1 K p e pub priv e' m sig)
  obtain penc qenc q where p: "p = (penc, qenc, q)" by (cases p)
  with 1 have g: "generateECDSAKey K e (ecCurve q) = ok (pub, priv)" and enc: "penc = PRIV_SEC1" "qenc = PUB_SPKI" by auto
  obtain sk nc where k: "curveForAlgorithm K ''software.generateECDSAKey'' (ecCurve q) = Inr nc"
    "pubKind K (publicOf K sk) = KindECDSA" "curveOf K (publicOf K sk) = nc"
    "x509ParseEC K priv = Inr sk" "x509ParsePKIX K pub = Inr (publicOf K sk)"
    by (rule generateECDSAKey_ok [OF 1(1) g])
  from 1(4) obtain r s where d: "ecdsaSign K e' sk m = Inr (r, s)"
    "encodeECDSASignature K ''software.signECDSADigest'' r s (curveOf K (publicOf K sk)) (ecFormat q) = ok sig"
    by (auto simp: p enc signECDSADigest_def Let_def parse_generated_ecdsa(1) [OF k(4)] split: prod.splits)
  show ?case
    using verifyDecoded_encoded [OF 1(1) d] curveForAlgorithm_op [OF k(1)]
    by (simp add: p enc verifyECDSADigest_def Let_def parse_generated_ecdsa(2) [OF k(5,2)] checkCurveMatches_ok k(3))
next
  case (2 K pub m sig p err sig')
  obtain penc qenc q where p: "p = (penc, qenc, q)" by (cases p)
  from 2(2) show ?case unfolding p split_conv verifyECDSADigest_def Let_def
    by (elim orReturn_fails_cong verifyDecoded_verdict [OF 2(1)])
next
  case (3 K pub m sig p)
  then show ?case by (cases p) (simp add: verifyECDSADigest_def Let_def)
next
  case (4 K e priv m p)
  obtain penc qenc q where p: "p = (penc, qenc, q)" by (cases p)
  show ?case unfolding p split_conv
  proof
    assume "signECDSADigest K e priv m penc (ecCurve q) (ecFormat q) = None"
    then obtain sk r s where d: "ecdsaSign K e sk m = Inr (r, s)"
      "encodeECDSASignature K ''software.signECDSADigest'' r s (curveOf K (publicOf K sk)) (ecFormat q) = None"
      by (auto simp: signECDSADigest_def Let_def)
    from encodeECDSASignature_safe [OF ecdsaSign_okD(2,3) [OF 4 d(1)]] d(2) show False by (rule notE)
  qed
next
  case (5 K e p)
  then show ?case by (cases p) (auto simp: generateECDSAKey_def Let_def)
qed

text \<open>
  RSA: hashing and direct signing share their core, so one interpretation of each scheme serves
  both; \<open>p\<close> names the operations for the error texts.
\<close>

lemma generateRSAKey_ok:
  assumes "signature_ok K" "generateRSAKey K e n = ok (pub, priv)"
  obtains sk where "privKind K sk = KindRSA" "pubKind K (publicOf K sk) = KindRSA" "modulusBits K (publicOf K sk) = n"
    "x509ParsePKCS8 K priv = Inr sk" "x509ParsePKIX K pub = Inr (publicOf K sk)"
proof -
  from assms(2) obtain sk where k: "rsaGenerateKey K e n = Inr sk" "x509MarshalPKIX K (publicOf K sk) = Inr pub"
    "x509MarshalPKCS8 K sk = Inr priv"
    by (auto simp: generateRSAKey_def Let_def)
  from assms(1) k(1) have "privKind K sk = KindRSA" "pubKind K (publicOf K sk) = KindRSA" "modulusBits K (publicOf K sk) = n"
    by (auto simp: signature_ok_def rsa_ok_def)
  then show thesis using that x509_okD(1,3) [OF assms(1)] k(2,3) by blast
qed

lemma parse_generated_rsa:
  "x509ParsePKCS8 K priv = Inr sk \<Longrightarrow> privKind K sk = KindRSA \<Longrightarrow> parseRSAPrivateKey K opn priv PRIV_PKCS8 = ok sk"
  "x509ParsePKIX K pub = Inr pk \<Longrightarrow> pubKind K pk = KindRSA \<Longrightarrow> parseRSAPublicKey K opn pub PUB_SPKI = ok pk"
  by (simp_all add: parseRSAPrivateKey_def parseRSAPublicKey_def)

lemma checkRSAKeySize_ok [simp]: "checkRSAKeySize K opn pk n = Inr u \<longleftrightarrow> modulusBits K pk = n"
  by (simp add: checkRSAKeySize_def Let_def)

lemma rsa_param_ops:
  "checkRSAPSSMGF K opn g h h' = Inr u \<Longrightarrow> checkRSAPSSMGF K opn' g h h' = Inr u"
  "rsaHash K opn h = Inr ch \<Longrightarrow> rsaHash K opn' h = Inr ch"
  "rsaPSSSaltLength K opn md n = Inr l \<Longrightarrow> rsaPSSSaltLength K opn' md n = Inr l"
  unfolding checkRSAPSSMGF_def rsaHash_def rsaPSSSaltLength_def
  by (auto split: if_split_asm salt_length_mode.split_asm)

interpretation rsa_pss: signature_scheme signature_ok "\<lambda>(sop, vop, penc, qenc, h, p). penc = PRIV_PKCS8 \<and> qenc = PUB_SPKI"
  "\<lambda>K e (sop, vop, penc, qenc, h, p). generateRSAKey K e (pssKeySizeBits p)"
  "\<lambda>K e priv d (sop, vop, penc, qenc, h, p). signRSAPSSCore K sop e priv d penc h p"
  "\<lambda>K pub d sig (sop, vop, penc, qenc, h, p). verifyRSAPSSCore K vop pub d sig qenc h p"
proof (unfold_locales, goal_cases)
  case (1 K p e pub priv e' m sig)
  obtain sop vop penc qenc h q where p: "p = (sop, vop, penc, qenc, h, q)" by (cases p)
  with 1 have g: "generateRSAKey K e (pssKeySizeBits q) = ok (pub, priv)" and enc: "penc = PRIV_PKCS8" "qenc = PUB_SPKI" by auto
  obtain sk where k: "privKind K sk = KindRSA" "pubKind K (publicOf K sk) = KindRSA" "modulusBits K (publicOf K sk) = pssKeySizeBits q"
    "x509ParsePKCS8 K priv = Inr sk" "x509ParsePKIX K pub = Inr (publicOf K sk)"
    by (rule generateRSAKey_ok [OF 1(1) g])
  from 1(4) obtain ch l where d: "checkRSAPSSMGF K sop (pssMgf q) h (pssMgfHash q) = Inr ()" "rsaHash K sop h = Inr ch"
    "rsaPSSSaltLength K sop (pssSaltMode q) (pssSaltBytes q) = Inr l" "rsaSignPSS K e' sk ch m l = Inr sig"
    by (auto simp: p enc signRSAPSSCore_def parse_generated_rsa(1) [OF k(4,1)])
  from d(4) 1(1) have "rsaVerifyPSS K (publicOf K sk) ch m sig l = None" by (auto simp: signature_ok_def rsa_ok_def)
  then show ?case
    by (simp add: p enc verifyRSAPSSCore_def parse_generated_rsa(2) [OF k(5,2)] k(3) rsa_param_ops(1) [OF d(1)]
        rsa_param_ops(2) [OF d(2)] rsa_param_ops(3) [OF d(3)])
next
  case (2 K pub m sig p err sig')
  obtain sop vop penc qenc h q where p: "p = (sop, vop, penc, qenc, h, q)" by (cases p)
  from 2(2) show ?case unfolding p split_conv verifyRSAPSSCore_def
    by (elim orReturn_fails_cong) simp
qed (auto simp: verifyRSAPSSCore_def signRSAPSSCore_def generateRSAKey_def Let_def)

interpretation rsa_pkcs1: signature_scheme signature_ok "\<lambda>(sop, vop, penc, qenc, h, p). penc = PRIV_PKCS8 \<and> qenc = PUB_SPKI"
  "\<lambda>K e (sop, vop, penc, qenc, h, p). generateRSAKey K e (pkKeySizeBits p)"
  "\<lambda>K e priv d (sop, vop, penc, qenc, h, p). signRSAPKCS1v15Core K sop e priv d penc h p"
  "\<lambda>K pub d sig (sop, vop, penc, qenc, h, p). verifyRSAPKCS1v15Core K vop pub d sig qenc h p"
proof (unfold_locales, goal_cases)
  case (1 K p e pub priv e' m sig)
  obtain sop vop penc qenc h q where p: "p = (sop, vop, penc, qenc, h, q)" by (cases p)
  with 1 have g: "generateRSAKey K e (pkKeySizeBits q) = ok (pub, priv)" and enc: "penc = PRIV_PKCS8" "qenc = PUB_SPKI" by auto
  obtain sk where k: "privKind K sk = KindRSA" "pubKind K (publicOf K sk) = KindRSA" "modulusBits K (publicOf K sk) = pkKeySizeBits q"
    "x509ParsePKCS8 K priv = Inr sk" "x509ParsePKIX K pub = Inr (publicOf K sk)"
    by (rule generateRSAKey_ok [OF 1(1) g])
  from 1(4) obtain ch where d: "rsaHash K sop h = Inr ch" "rsaSignPKCS1v15 K e' sk ch m = Inr sig"
    by (auto simp: p enc signRSAPKCS1v15Core_def parse_generated_rsa(1) [OF k(4,1)])
  from d(2) 1(1) have "rsaVerifyPKCS1v15 K (publicOf K sk) ch m sig = None" by (auto simp: signature_ok_def rsa_ok_def)
  then show ?case
    by (simp add: p enc verifyRSAPKCS1v15Core_def parse_generated_rsa(2) [OF k(5,2)] k(3) rsa_param_ops(2) [OF d(1)])
next
  case (2 K pub m sig p err sig')
  obtain sop vop penc qenc h q where p: "p = (sop, vop, penc, qenc, h, q)" by (cases p)
  from 2(2) show ?case unfolding p split_conv verifyRSAPKCS1v15Core_def
    by (elim orReturn_fails_cong) simp
qed (auto simp: verifyRSAPKCS1v15Core_def signRSAPKCS1v15Core_def generateRSAKey_def Let_def)

lemma generateEd25519Key_ok:
  assumes "signature_ok K" "generateEd25519Key K e = ok (pub, priv)"
  obtains sk where "privKind K sk = KindEd25519" "pubKind K (publicOf K sk) = KindEd25519"
    "x509ParsePKCS8 K priv = Inr sk" "x509ParsePKIX K pub = Inr (publicOf K sk)"
proof -
  from assms(2) obtain pk sk where k: "edGenerateKey K e = Inr (pk, sk)" "x509MarshalPKIX K pk = Inr pub"
    "x509MarshalPKCS8 K sk = Inr priv"
    by (auto simp: generateEd25519Key_def Let_def)
  from assms(1) k(1) have "privKind K sk = KindEd25519" "pubKind K pk = KindEd25519" "pk = publicOf K sk"
    unfolding signature_ok_def ed25519_ok_def by blast+
  then show thesis using that x509_okD(1,3) [OF assms(1)] k(2,3) by blast
qed

lemma parse_generated_ed25519:
  "x509ParsePKCS8 K priv = Inr sk \<Longrightarrow> privKind K sk = KindEd25519 \<Longrightarrow> parseEd25519PrivateKey K opn priv PRIV_PKCS8 = ok sk"
  "x509ParsePKIX K pub = Inr pk \<Longrightarrow> pubKind K pk = KindEd25519 \<Longrightarrow> parseEd25519PublicKey K opn pub PUB_SPKI = ok pk"
  by (simp_all add: parseEd25519PrivateKey_def parseEd25519PublicKey_def)

lemma ed25519_checks_ok [simp]:
  "checkEd25519PureVariant K opn v = Inr u \<longleftrightarrow> v = ED25519_UNSPECIFIED \<or> v = ED25519_PURE"
  "checkEd25519PHHash K opn h = Inr u \<longleftrightarrow> h = HASH_UNSPECIFIED \<or> h = HASH_SHA512"
  by (auto simp: checkEd25519PureVariant_def checkEd25519PHHash_def)

lemma ed25519_okD:
  assumes "signature_ok K"
  shows "edVerify K (publicOf K sk) m (edSign K sk m)"
    and "edSignPH K sk d = Inr sig \<Longrightarrow> edVerifyPH K (publicOf K sk) d sig = None"
  using assms by (simp_all add: signature_ok_def ed25519_ok_def)

interpretation ed25519: signature_scheme signature_ok "\<lambda>(penc, qenc, v). penc = PRIV_PKCS8 \<and> qenc = PUB_SPKI"
  "\<lambda>K e (penc, qenc, v). generateEd25519Key K e"
  "\<lambda>K (e :: 'e) priv m (penc, qenc, v). signEd25519 K priv m penc v"
  "\<lambda>K pub m sig (penc, qenc, v). verifyEd25519 K pub m sig qenc v"
proof (unfold_locales, goal_cases)
  case (1 K p e pub priv e' m sig)
  obtain penc qenc v where p: "p = (penc, qenc, v)" by (cases p)
  with 1 have g: "generateEd25519Key K e = ok (pub, priv)" and enc: "penc = PRIV_PKCS8" "qenc = PUB_SPKI" by auto
  obtain sk where k: "privKind K sk = KindEd25519" "pubKind K (publicOf K sk) = KindEd25519"
    "x509ParsePKCS8 K priv = Inr sk" "x509ParsePKIX K pub = Inr (publicOf K sk)"
    by (rule generateEd25519Key_ok [OF 1(1) g])
  from 1(4) have "v = ED25519_UNSPECIFIED \<or> v = ED25519_PURE" "sig = edSign K sk m"
    by (auto simp: p enc signEd25519_def Let_def parse_generated_ed25519(1) [OF k(3,1)])
  then show ?case
    using ed25519_okD(1) [OF 1(1)] by (simp add: p enc verifyEd25519_def Let_def parse_generated_ed25519(2) [OF k(4,2)])
next
  case (2 K pub m sig p err sig')
  obtain penc qenc v where p: "p = (penc, qenc, v)" by (cases p)
  from 2(2) show ?case unfolding p split_conv verifyEd25519_def Let_def
    by (elim orReturn_fails_cong) simp
qed (auto simp: verifyEd25519_def signEd25519_def generateEd25519Key_def Let_def)

interpretation ed25519ph: signature_scheme signature_ok "\<lambda>(penc, qenc, h). penc = PRIV_PKCS8 \<and> qenc = PUB_SPKI"
  "\<lambda>K e (penc, qenc, h). generateEd25519Key K e"
  "\<lambda>K (e :: 'e) priv d (penc, qenc, h). signEd25519PHDigest K priv d penc h"
  "\<lambda>K pub d sig (penc, qenc, h). verifyEd25519PHDigest K pub d sig qenc h"
proof (unfold_locales, goal_cases)
  case (1 K p e pub priv e' m sig)
  obtain penc qenc h where p: "p = (penc, qenc, h)" by (cases p)
  with 1 have g: "generateEd25519Key K e = ok (pub, priv)" and enc: "penc = PRIV_PKCS8" "qenc = PUB_SPKI" by auto
  obtain sk where k: "privKind K sk = KindEd25519" "pubKind K (publicOf K sk) = KindEd25519"
    "x509ParsePKCS8 K priv = Inr sk" "x509ParsePKIX K pub = Inr (publicOf K sk)"
    by (rule generateEd25519Key_ok [OF 1(1) g])
  from 1(4) have "h = HASH_UNSPECIFIED \<or> h = HASH_SHA512" "edSignPH K sk m = Inr sig"
    by (auto simp: p enc signEd25519PHDigest_def Let_def parse_generated_ed25519(1) [OF k(3,1)])
  then show ?case
    using ed25519_okD(2) [OF 1(1)]
    by (simp add: p enc verifyEd25519PHDigest_def Let_def parse_generated_ed25519(2) [OF k(4,2)])
next
  case (2 K pub m sig p err sig')
  obtain penc qenc h where p: "p = (penc, qenc, h)" by (cases p)
  from 2(2) show ?case unfolding p split_conv verifyEd25519PHDigest_def Let_def
    by (elim orReturn_fails_cong) simp
qed (auto simp: verifyEd25519PHDigest_def signEd25519PHDigest_def generateEd25519Key_def Let_def)

section \<open>ML-DSA\<close>

lemma checkMLDSAContextLength_ok [simp]:
  "checkMLDSAContextLength opn c = Inr u \<longleftrightarrow> length c \<le> mldsaMaxContextLen"
  by (simp add: checkMLDSAContextLength_def not_less)

lemma mldsaScheme_op: "mldsaScheme K opn s = Inr sch \<Longrightarrow> mldsaScheme K opn' s = Inr sch"
  by (auto simp: mldsaScheme_def split: mldsa_parameter_set.splits)

lemma parseMLDSA_safe [simp]: "parseMLDSAPrivateKey K opn b enc sch s \<noteq> None"
  by (auto simp: parseMLDSAPrivateKey_def parseMLDSAPKCS8PrivateKey_def split: option.splits sum.splits)

lemma signMLDSARandomized_eq:
  "mldsaScheme K opn s = Inr sch \<Longrightarrow> circlSchemeOf K mk = sch \<Longrightarrow>
   signMLDSARandomized K opn' e mk m c s = orWrap opn' (Some (circlSignTo K sch e mk m c)) ok"
  by (auto simp: mldsaScheme_def signMLDSARandomized_def signMLDSARandomizedWith_def split: mldsa_parameter_set.splits)

lemma signMLDSARandomized_safe [simp]: "signMLDSARandomized K opn e mk m c s \<noteq> None"
  by (auto simp: signMLDSARandomized_def signMLDSARandomizedWith_def split: mldsa_parameter_set.splits)

lemma mldsa_okD:
  assumes "signature_ok K"
  shows "circlGenerateKey K sch e = Inr (mp, mk) \<Longrightarrow> circlSchemeOf K mk = sch"
    and "circlGenerateKey K sch e = Inr (mp, mk) \<Longrightarrow> circlMarshalPublic K mp = Inr b \<Longrightarrow> circlUnmarshalPublic K sch b = Inr mp"
    and "circlGenerateKey K sch e = Inr (mp, mk) \<Longrightarrow> circlSign K sch mk m c = Some sig \<Longrightarrow> circlVerify K sch mp m sig c"
    and "circlGenerateKey K sch e = Inr (mp, mk) \<Longrightarrow> circlSignTo K sch e' mk m c = Inr sig \<Longrightarrow> circlVerify K sch mp m sig c"
    and "circlMarshalPKIX K mk = Inr b \<Longrightarrow> circlUnmarshalPKIX K b = Inr mk"
    and "circlUnmarshalPrivate K sch b' = Inr mk' \<Longrightarrow> circlSchemeOf K mk' = sch"
    and "length c \<le> mldsaMaxContextLen \<Longrightarrow> circlSchemeOf K mk = sch \<Longrightarrow> circlSign K sch mk m c \<noteq> None"
  using assms unfolding signature_ok_def mldsa_ok_def by blast+

text \<open>A key that was parsed has the declared scheme: the check after PKCS#8 parsing is what keeps \<open>Sign\<close> from panicking.\<close>

lemma parseMLDSA_scheme:
  assumes "signature_ok K" "parseMLDSAPrivateKey K opn b enc sch s = ok mk"
  shows "circlSchemeOf K mk = sch"
  using assms(2) mldsa_okD(6) [OF assms(1)]
  by (auto simp: parseMLDSAPrivateKey_def parseMLDSAPKCS8PrivateKey_def split: if_splits option.splits sum.splits)

interpretation mldsa: signature_scheme signature_ok "\<lambda>(penc, c, p). penc = PRIV_PKCS8"
  "\<lambda>K e (penc, c, p). generateMLDSAKey K e (mlParameterSet p)"
  "\<lambda>K e priv m (penc, c, p). signMLDSA K e priv m c penc (mlParameterSet p) (mlDeterministic p)"
  "\<lambda>K pub m sig (penc, c, p). verifyMLDSA K pub m sig c (mlParameterSet p)"
proof (unfold_locales, goal_cases)
  case (1 K p e pub priv e' m sig)
  obtain penc c q where p: "p = (penc, c, q)" by (cases p)
  with 1 have enc: "penc = PRIV_PKCS8" by auto
  from 1(3) obtain sch mp mk where g: "mldsaScheme K ''software.generateMLDSAKey'' (mlParameterSet q) = Inr sch"
    "circlGenerateKey K sch e = Inr (mp, mk)" "circlMarshalPublic K mp = Inr pub" "circlMarshalPKIX K mk = Inr priv"
    by (auto simp: p generateMLDSAKey_def Let_def)
  note ks = mldsa_okD [OF 1(1)]
  have parse: "parseMLDSAPrivateKey K opn priv PRIV_PKCS8 sch s = ok mk" for opn s
    using ks(1) [OF g(2)] ks(5) [OF g(4)] by (simp add: parseMLDSAPrivateKey_def parseMLDSAPKCS8PrivateKey_def)
  have c: "length c \<le> mldsaMaxContextLen"
    and "circlSign K sch mk m c = Some sig \<or> circlSignTo K sch e' mk m c = Inr sig"
    using 1(4) by (auto simp: p enc signMLDSA_def Let_def mldsaScheme_op [OF g(1)] parse
        signMLDSARandomized_eq [OF g(1) ks(1) [OF g(2)]] split: if_split_asm option.split_asm)
  then have "circlVerify K sch mp m sig c" using ks(3,4) [OF g(2)] by blast
  then show ?case using c by (simp add: p verifyMLDSA_def Let_def mldsaScheme_op [OF g(1)] ks(2) [OF g(2,3)])
next
  case (2 K pub m sig p err sig')
  obtain penc c q where p: "p = (penc, c, q)" by (cases p)
  from 2(2) show ?case unfolding p split_conv verifyMLDSA_def Let_def
    by (elim orReturn_fails_cong orWrap_fails_cong) simp
next
  case (4 K e priv m p)
  obtain penc c q where p: "p = (penc, c, q)" by (cases p)
  show ?case
    using mldsa_okD(7) [OF 4] parseMLDSA_scheme [OF 4] by (auto simp: p signMLDSA_def Let_def split: option.split_asm)
qed (auto simp: verifyMLDSA_def generateMLDSAKey_def Let_def)

end
