(* ===== verification/Software_Properties.thy ===== *)
theory Software_Properties
  imports Software_Provider_Properties
begin

text \<open>
  The guarantees of the software provider at the level of its operations, from the interfaces
  \<open>cipher_mode\<close> and \<open>signature_scheme\<close> its algorithms meet.
\<close>

declare not_None_eq [iff del]

definition accepts_request :: "'z provider_env_scheme \<Rightarrow> provider_request \<Rightarrow> bool" where
  "accepts_request K req \<longleftrightarrow> (case requestValidator K of Inl _ \<Rightarrow> False | Inr v \<Rightarrow> v req = None)"

lemma validateRequest_ok [simp]: "validateRequest K opn req = Inr u \<longleftrightarrow> accepts_request K req"
  by (auto simp: validateRequest_def accepts_request_def split: sum.splits option.splits)

lemma accepts_validate: "accepts_request K req \<Longrightarrow> validateRequest K opn req = Inr ()"
  by simp

section \<open>Encryption\<close>

text \<open>
  C7: Whatever \<open>Encrypt\<close> returns, \<open>Decrypt\<close> with the returned output, the same key, algorithm and
  additional data gives back the plaintext, for AES-GCM, AES-CBC, AES-CTR and ChaCha20-Poly1305.
\<close>

theorem Decrypt_sw_inverts_Encrypt_sw:
  assumes "symmetric_ok K" "Encrypt_sw K e req = ok (ct, out)"
    and "accepts_request K (ReqDecrypt \<lparr>deAlgorithm = enAlgorithm req, deKeyMaterial = enKeyMaterial req, deCiphertext = ct,
      deAad = enAad req, deOutput = out\<rparr>)"
  shows "Decrypt_sw K \<lparr>deAlgorithm = enAlgorithm req, deKeyMaterial = enKeyMaterial req, deCiphertext = ct,
      deAad = enAad req, deOutput = out\<rparr> = ok (enPlaintext req, NoOutputUnencoded)"
proof -
  note rt = aes_gcm.round_trip [OF assms(1)] aes_cbc.round_trip [OF assms(1)] aes_ctr.round_trip [OF assms(1)]
    chacha.round_trip [OF assms(1)]
  from assms(2) obtain a where a: "enAlgorithm req = Some a" by (auto simp: Encrypt_sw_def Let_def split: option.split_asm)
  show ?thesis
    using assms(2,3) unfolding Encrypt_sw_def Decrypt_sw_def Let_def a
    by (cases a) (auto dest!: rt simp: a)
qed

section \<open>Signatures\<close>

text \<open>A generated key can be transferred in the encoding it is recorded with.\<close>

lemma GenerateKey_sw_encodings:
  assumes "GenerateKey_sw K e alg = ok gk"
  shows "gkKeyEncoding gk = privateKeyEncoding alg" "gkKeyEncoding gk \<in> set (trAccept (TransferCapabilities alg))"
proof -
  have *: "gkKeyEncoding gk = privateKeyEncoding alg \<and> privateKeyEncoding alg \<noteq> PRIV_UNSPECIFIED"
    if "generatedKey K opn alg pub priv q = ok gk" for opn pub priv q
    using that by (auto simp: generatedKey_def Let_def split: if_split_asm)
  from assms have "\<exists>opn pub priv q. generatedKey K opn alg pub priv q = ok gk"
    by (auto simp: GenerateKey_sw_def Let_def split: option.split_asm algorithm_details.split_asm)
  with * show "gkKeyEncoding gk = privateKeyEncoding alg" "gkKeyEncoding gk \<in> set (trAccept (TransferCapabilities alg))"
    by (auto simp: TransferCapabilities_def Let_def)
qed

text \<open>
  C8: A message signed with generated key material, in the encoding recorded with it, verifies
  under the generated public key with the same algorithm and context, whenever the request validator
  admits the verification request: ECDSA, RSA-PSS, RSA PKCS#1 v1.5, Ed25519 and ML-DSA.
\<close>

theorem Verify_sw_accepts_Sign_sw:
  assumes "signature_ok K" "GenerateKey_sw K e alg = ok gk"
    and "Sign_sw K e' \<lparr>sgAlgorithm = alg, sgKeyMaterial = gkKeyMaterial gk, sgKeyEncoding = gkKeyEncoding gk,
      sgInput = m, sgContext = c\<rparr> = ok (sig, out)"
    and "accepts_request K (ReqVerify \<lparr>vfAlgorithm = alg, vfKeyMaterial = gkPublicKey gk, vfKeyEncoding = gkPublicEncoding gk,
      vfInput = m, vfSignature = sig, vfContext = c\<rparr>)"
  shows "Verify_sw K \<lparr>vfAlgorithm = alg, vfKeyMaterial = gkPublicKey gk, vfKeyEncoding = gkPublicEncoding gk,
      vfInput = m, vfSignature = sig, vfContext = c\<rparr> = ok (True, NoOutputUnencoded)"
proof -
  from assms(2) obtain a where a: "alg = Some a" by (auto simp: GenerateKey_sw_def Let_def split: option.split_asm)
  note v = accepts_validate [OF assms(4)]
  show ?thesis
  proof (cases a)
    case (AlgEcdsa p)
    with assms(2,3) have "generateECDSAKey K e (ecCurve p) = ok (gkPublicKey gk, gkKeyMaterial gk)"
      "gkKeyEncoding gk = PRIV_SEC1" "gkPublicEncoding gk = PUB_SPKI"
      "signECDSA K e' (gkKeyMaterial gk) m (gkKeyEncoding gk) (ecCurve p) (ecHash p) (ecFormat p) = ok sig"
      by (auto simp: a GenerateKey_sw_def Sign_sw_def generatedKey_def privateKeyEncoding_def Let_def)
    with ecdsa.accepts [OF assms(1), of "(gkKeyEncoding gk, gkPublicEncoding gk, p)"]
    show ?thesis using v by (simp add: a AlgEcdsa Verify_sw_def Let_def)
  next
    case (AlgMlDsa p)
    with assms(2,3) have "generateMLDSAKey K e (mlParameterSet p) = ok (gkPublicKey gk, gkKeyMaterial gk)"
      "gkKeyEncoding gk = PRIV_PKCS8"
      "signMLDSA K e' (gkKeyMaterial gk) m c (gkKeyEncoding gk) (mlParameterSet p) (mlDeterministic p) = ok sig"
      by (auto simp: a GenerateKey_sw_def Sign_sw_def generatedKey_def privateKeyEncoding_def Let_def)
    with mldsa.accepts [OF assms(1), of "(gkKeyEncoding gk, c, p)"]
    show ?thesis using v by (simp add: a AlgMlDsa Verify_sw_def Let_def)
  next
    case (AlgRsaPss p)
    with assms(2,3) have "generateRSAKey K e (pssKeySizeBits p) = ok (gkPublicKey gk, gkKeyMaterial gk)"
      "gkKeyEncoding gk = PRIV_PKCS8" "gkPublicEncoding gk = PUB_SPKI"
      "signRSAPSS K e' (gkKeyMaterial gk) m (gkKeyEncoding gk) p = ok sig"
      by (auto simp: a GenerateKey_sw_def Sign_sw_def generatedKey_def privateKeyEncoding_def Let_def)
    with rsa_pss.accepts [OF assms(1), of "(''software.signRSAPSS'', ''software.verifyRSAPSS'', gkKeyEncoding gk, gkPublicEncoding gk, pssHash p, p)"]
    show ?thesis using v by (simp add: a AlgRsaPss Verify_sw_def Let_def signRSAPSS_def verifyRSAPSS_def)
  next
    case (AlgRsaPkcs1V15 p)
    with assms(2,3) have "generateRSAKey K e (pkKeySizeBits p) = ok (gkPublicKey gk, gkKeyMaterial gk)"
      "gkKeyEncoding gk = PRIV_PKCS8" "gkPublicEncoding gk = PUB_SPKI"
      "signRSAPKCS1v15 K e' (gkKeyMaterial gk) m (gkKeyEncoding gk) p = ok sig"
      by (auto simp: a GenerateKey_sw_def Sign_sw_def generatedKey_def privateKeyEncoding_def Let_def)
    with rsa_pkcs1.accepts [OF assms(1), of "(''software.signRSAPKCS1v15'', ''software.verifyRSAPKCS1v15'', gkKeyEncoding gk, gkPublicEncoding gk, pkHash p, p)"]
    show ?thesis using v by (simp add: a AlgRsaPkcs1V15 Verify_sw_def Let_def signRSAPKCS1v15_def verifyRSAPKCS1v15_def)
  next
    case (AlgEd25519 w)
    with assms(2,3) have "generateEd25519Key K e = ok (gkPublicKey gk, gkKeyMaterial gk)"
      "gkKeyEncoding gk = PRIV_PKCS8" "gkPublicEncoding gk = PUB_SPKI"
      "signEd25519 K (gkKeyMaterial gk) m (gkKeyEncoding gk) w = ok sig"
      by (auto simp: a GenerateKey_sw_def Sign_sw_def generatedKey_def privateKeyEncoding_def Let_def)
    with ed25519.accepts [OF assms(1), of "(gkKeyEncoding gk, gkPublicEncoding gk, w)"]
    show ?thesis using v by (simp add: a AlgEd25519 Verify_sw_def Let_def)
  qed (use assms(3) in \<open>simp_all add: a Sign_sw_def Let_def\<close>)
qed

text \<open>
  C28: The same for prehashed signing: a digest signed with generated key material verifies under
  the generated public key with the same algorithm and hash, whenever the request validator admits the
  verification request.
\<close>

theorem VerifyDigest_sw_accepts_SignDigest_sw:
  assumes "signature_ok K" "GenerateKey_sw K e alg = ok gk"
    and "SignDigest_sw K e' \<lparr>sdAlgorithm = alg, sdKeyMaterial = gkKeyMaterial gk, sdKeyEncoding = gkKeyEncoding gk,
      sdDigest = d, sdHash = h\<rparr> = ok (sig, out)"
    and "accepts_request K (ReqVerifyDigest \<lparr>vdAlgorithm = alg, vdKeyMaterial = gkPublicKey gk, vdKeyEncoding = gkPublicEncoding gk,
      vdDigest = d, vdHash = h, vdSignature = sig\<rparr>)"
  shows "VerifyDigest_sw K \<lparr>vdAlgorithm = alg, vdKeyMaterial = gkPublicKey gk, vdKeyEncoding = gkPublicEncoding gk,
      vdDigest = d, vdHash = h, vdSignature = sig\<rparr> = ok (True, NoOutputUnencoded)"
proof -
  from assms(2) obtain a where a: "alg = Some a" by (auto simp: GenerateKey_sw_def Let_def split: option.split_asm)
  note v = accepts_validate [OF assms(4)]
  have l: "validateDigestLength K opn h (length d) = Inr ()" for opn
    using assms(3) by (auto simp: SignDigest_sw_def Let_def validateDigestLength_def split: option.splits)
  show ?thesis
  proof (cases a)
    case (AlgEcdsa p)
    with assms(2,3) have "generateECDSAKey K e (ecCurve p) = ok (gkPublicKey gk, gkKeyMaterial gk)"
      "gkKeyEncoding gk = PRIV_SEC1" "gkPublicEncoding gk = PUB_SPKI"
      "signECDSADigest K e' (gkKeyMaterial gk) d (gkKeyEncoding gk) (ecCurve p) (ecFormat p) = ok sig"
      by (auto simp: a GenerateKey_sw_def SignDigest_sw_def generatedKey_def privateKeyEncoding_def Let_def)
    with ecdsa_digest.accepts [OF assms(1), of "(gkKeyEncoding gk, gkPublicEncoding gk, p)"]
    show ?thesis using v l by (simp add: a AlgEcdsa VerifyDigest_sw_def Let_def)
  next
    case (AlgRsaPss p)
    with assms(2,3) have "generateRSAKey K e (pssKeySizeBits p) = ok (gkPublicKey gk, gkKeyMaterial gk)"
      "gkKeyEncoding gk = PRIV_PKCS8" "gkPublicEncoding gk = PUB_SPKI"
      "signRSAPSSDigest K e' (gkKeyMaterial gk) d (gkKeyEncoding gk) h p = ok sig"
      by (auto simp: a GenerateKey_sw_def SignDigest_sw_def generatedKey_def privateKeyEncoding_def Let_def)
    with rsa_pss.accepts [OF assms(1), of "(''software.signRSAPSSDigest'', ''software.verifyRSAPSSDigest'', gkKeyEncoding gk, gkPublicEncoding gk, h, p)"]
    show ?thesis using v l by (simp add: a AlgRsaPss VerifyDigest_sw_def Let_def signRSAPSSDigest_def verifyRSAPSSDigest_def)
  next
    case (AlgRsaPkcs1V15 p)
    with assms(2,3) have "generateRSAKey K e (pkKeySizeBits p) = ok (gkPublicKey gk, gkKeyMaterial gk)"
      "gkKeyEncoding gk = PRIV_PKCS8" "gkPublicEncoding gk = PUB_SPKI"
      "signRSAPKCS1v15Digest K e' (gkKeyMaterial gk) d (gkKeyEncoding gk) h p = ok sig"
      by (auto simp: a GenerateKey_sw_def SignDigest_sw_def generatedKey_def privateKeyEncoding_def Let_def)
    with rsa_pkcs1.accepts [OF assms(1), of "(''software.signRSAPKCS1v15Digest'', ''software.verifyRSAPKCS1v15Digest'', gkKeyEncoding gk, gkPublicEncoding gk, h, p)"]
    show ?thesis using v l by (simp add: a AlgRsaPkcs1V15 VerifyDigest_sw_def Let_def signRSAPKCS1v15Digest_def verifyRSAPKCS1v15Digest_def)
  next
    case (AlgEd25519 w)
    with assms(2,3) have "generateEd25519Key K e = ok (gkPublicKey gk, gkKeyMaterial gk)"
      "gkKeyEncoding gk = PRIV_PKCS8" "gkPublicEncoding gk = PUB_SPKI" "w = ED25519_UNSPECIFIED \<or> w = ED25519_PH"
      "signEd25519PHDigest K (gkKeyMaterial gk) d (gkKeyEncoding gk) h = ok sig"
      by (auto simp: a GenerateKey_sw_def SignDigest_sw_def generatedKey_def privateKeyEncoding_def Let_def split: if_split_asm)
    with ed25519ph.accepts [OF assms(1), of "(gkKeyEncoding gk, gkPublicEncoding gk, h)"]
    show ?thesis using v l by (auto simp: a AlgEd25519 VerifyDigest_sw_def Let_def)
  qed (use assms(3) in \<open>simp_all add: a SignDigest_sw_def Let_def\<close>)
qed

lemma orWrap_done_fails:
  "orWrap opn m (\<lambda>x. ok (f x)) = fails e \<longleftrightarrow> (\<exists>e'. m = fails e' \<and> e = ErrWrap opn None e')"
  by (simp add: orWrap_fails)

text \<open>
  C33: A signature never turns into an error: when a verification fails with an error, it fails with
  that error for every other signature the request validator admits. Invalid bytes are an answer.
\<close>

theorem Verify_sw_error_independent:
  assumes "signature_ok K" "accepts_request K (ReqVerify req)" "accepts_request K (ReqVerify (req\<lparr>vfSignature := sig\<rparr>))"
    and "Verify_sw K req = fails err"
  shows "Verify_sw K (req\<lparr>vfSignature := sig\<rparr>) = fails err"
proof -
  note v = accepts_validate [OF assms(2)] accepts_validate [OF assms(3)]
  from assms(4) have "vfAlgorithm req \<noteq> None \<or> ?thesis" by (auto simp: Verify_sw_def Let_def v)
  then show ?thesis
  proof (elim disjE)
    assume "vfAlgorithm req \<noteq> None"
    then obtain a where a: "vfAlgorithm req = Some a" by (cases "vfAlgorithm req") auto
    note u = Verify_sw_def Let_def a orWrap_done_fails v
    show ?thesis
    proof (cases a)
      case (AlgEcdsa p)
      then show ?thesis
        using assms(4) ecdsa.verdict [OF assms(1), of "vfKeyMaterial req" "vfInput req" "vfSignature req" "(PRIV_PKCS8, vfKeyEncoding req, p)" _ sig] by (auto simp: u)
    next
      case (AlgMlDsa p)
      then show ?thesis
        using assms(4) mldsa.verdict [OF assms(1), of "vfKeyMaterial req" "vfInput req" "vfSignature req" "(PRIV_PKCS8, vfContext req, p)" _ sig] by (auto simp: u)
    next
      case (AlgRsaPss p)
      then show ?thesis
        using assms(4) rsa_pss.verdict [OF assms(1), of "vfKeyMaterial req" "rsaDigestBytes K (pssHash p) (vfInput req)" "vfSignature req" "([], ''software.verifyRSAPSS'', PRIV_PKCS8, vfKeyEncoding req, pssHash p, p)" _ sig]
        by (auto simp: u verifyRSAPSS_def)
    next
      case (AlgRsaPkcs1V15 p)
      then show ?thesis
        using assms(4) rsa_pkcs1.verdict [OF assms(1), of "vfKeyMaterial req" "rsaDigestBytes K (pkHash p) (vfInput req)" "vfSignature req" "([], ''software.verifyRSAPKCS1v15'', PRIV_PKCS8, vfKeyEncoding req, pkHash p, p)" _ sig]
        by (auto simp: u verifyRSAPKCS1v15_def)
    next
      case (AlgEd25519 w)
      then show ?thesis
        using assms(4) ed25519.verdict [OF assms(1), of "vfKeyMaterial req" "vfInput req" "vfSignature req" "(PRIV_PKCS8, vfKeyEncoding req, w)" _ sig] by (auto simp: u)
    qed (use assms(4) in \<open>simp_all add: u\<close>)
  qed
qed

section \<open>No panics\<close>

lemma generation_safe [simp]:
  "generatedKey K opn alg pub priv q \<noteq> None" "generateSymmetricKey K e alg \<noteq> None" "generateRSAKey K e n \<noteq> None"
  "generateECDSAKey K e c \<noteq> None" "generateMLDSAKey K e s \<noteq> None" "generateEd25519Key K e \<noteq> None"
  by (auto simp: generatedKey_def generateSymmetricKey_def generateAESKey_def generateChaCha20Key_def generateRSAKey_def
      generateECDSAKey_def generateMLDSAKey_def generateEd25519Key_def Let_def split: option.splits algorithm_details.splits)

lemma signing_safe:
  assumes "signature_ok K"
  shows "signECDSA K e priv m penc c h f \<noteq> None" "verifyECDSA K pub m sig qenc c h f \<noteq> None"
    "signECDSADigest K e priv m penc c f \<noteq> None" "verifyECDSADigest K pub m sig qenc c f \<noteq> None"
    "signMLDSA K e priv m cx penc s d \<noteq> None" "verifyMLDSA K pub m sig cx s \<noteq> None"
    "signRSAPSS K e priv m penc pss \<noteq> None" "verifyRSAPSS K pub m sig qenc pss \<noteq> None"
    "signRSAPSSDigest K e priv m penc h pss \<noteq> None" "verifyRSAPSSDigest K pub m sig qenc h pss \<noteq> None"
    "signRSAPKCS1v15 K e priv m penc pk \<noteq> None" "verifyRSAPKCS1v15 K pub m sig qenc pk \<noteq> None"
    "signRSAPKCS1v15Digest K e priv m penc h pk \<noteq> None" "verifyRSAPKCS1v15Digest K pub m sig qenc h pk \<noteq> None"
    "signEd25519 K priv m penc v \<noteq> None" "verifyEd25519 K pub m sig qenc v \<noteq> None"
    "signEd25519PHDigest K priv m penc h \<noteq> None" "verifyEd25519PHDigest K pub m sig qenc h \<noteq> None"
  using ecdsa.sign_safe [OF assms, of e priv m "(penc, PUB_RAW, \<lparr>ecCurve = c, ecHash = h, ecFormat = f\<rparr>)"]
    ecdsa_digest.sign_safe [OF assms, of e priv m "(penc, PUB_RAW, \<lparr>ecCurve = c, ecHash = h, ecFormat = f\<rparr>)"]
    mldsa.sign_safe [OF assms, of e priv m "(penc, cx, \<lparr>mlParameterSet = s, mlDeterministic = d\<rparr>)"]
  by (simp_all add: verifyECDSA_def verifyECDSADigest_def verifyMLDSA_def signRSAPSS_def verifyRSAPSS_def signRSAPSSDigest_def
      verifyRSAPSSDigest_def signRSAPKCS1v15_def verifyRSAPKCS1v15_def signRSAPKCS1v15Digest_def verifyRSAPKCS1v15Digest_def
      signRSAPSSCore_def verifyRSAPSSCore_def signRSAPKCS1v15Core_def verifyRSAPKCS1v15Core_def signEd25519_def verifyEd25519_def
      signEd25519PHDigest_def verifyEd25519PHDigest_def Let_def)

text \<open>
  C34: No request makes the provider panic, whatever its key material, encodings, nonces and
  signatures, as long as plaintext and ciphertext are at most \<open>(2^32 - 2) * 16\<close> bytes: every
  operation returns a response or an error.
\<close>

theorem software_never_panics:
  assumes "symmetric_ok K" "signature_ok K"
    and "length (enPlaintext en) \<le> cipher_limit" "length (deCiphertext de) \<le> cipher_limit"
  shows "GenerateKey_sw K e alg \<noteq> None \<and> Sign_sw K e sg \<noteq> None \<and> Verify_sw K vf \<noteq> None \<and>
    SignDigest_sw K e sd \<noteq> None \<and> VerifyDigest_sw K vd \<noteq> None \<and>
    Encrypt_sw K e en \<noteq> None \<and> Decrypt_sw K de \<noteq> None"
proof (intro conjI)
  note safe = signing_safe [OF assms(2)] and ss = option.split_asm algorithm_details.split_asm if_split_asm
  show "GenerateKey_sw K e alg \<noteq> None" by (auto simp: GenerateKey_sw_def Let_def split: ss)
  show "Sign_sw K e sg \<noteq> None" by (auto simp: safe Sign_sw_def Let_def split: ss)
  show "Verify_sw K vf \<noteq> None" by (auto simp: safe Verify_sw_def Let_def split: ss)
  show "SignDigest_sw K e sd \<noteq> None" by (auto simp: safe SignDigest_sw_def Let_def split: ss)
  show "VerifyDigest_sw K vd \<noteq> None" by (auto simp: safe VerifyDigest_sw_def Let_def split: ss)
  show "Encrypt_sw K e en \<noteq> None"
    using aes_gcm.enc_safe [OF assms(1,3)] aes_cbc.enc_safe [OF assms(1,3)] aes_ctr.enc_safe [OF assms(1,3)]
      chacha.enc_safe [OF assms(1,3)]
    by (auto simp: Encrypt_sw_def Let_def split: option.split_asm algorithm_details.split_asm)
  show "Decrypt_sw K de \<noteq> None"
    using aes_gcm.dec_safe [OF assms(1,4)] aes_cbc.dec_safe [OF assms(1,4)] aes_ctr.dec_safe [OF assms(1,4)]
      chacha.dec_safe [OF assms(1,4)]
    by (auto simp: Decrypt_sw_def Let_def split: option.split_asm algorithm_details.split_asm)
qed

section \<open>Generated keys encrypt\<close>

text \<open>
  The parameters this provider implements: the IV and tag sizes of AES-GCM unless both are
  non-standard, PKCS#7 with a 128-bit IV for AES-CBC, the 96/32 split for AES-CTR, the two variants
  of ChaCha20-Poly1305.
\<close>

fun implemented_cipher :: "algorithm_details \<Rightarrow> bool" where
  "implemented_cipher (AlgAesGcm p) \<longleftrightarrow> gcmIvSizeBits p \<in> {64, 96, 128} \<and> gcmTagSizeBits p \<in> {96, 104, 112, 120, 128} \<and>
     (gcmIvSizeBits p = 96 \<or> gcmTagSizeBits p = 128)"
| "implemented_cipher (AlgAesCbc p) \<longleftrightarrow> cbcIvSizeBits p = 128 \<and> cbcPadding p = PADDING_PKCS7"
| "implemented_cipher (AlgAesCtr p) \<longleftrightarrow> ctrNonceSizeBits p = 96 \<and> ctrCounterBits p = 32"
| "implemented_cipher (AlgChacha20Poly1305 p) \<longleftrightarrow> ccBlockCounterBits p = 32 \<and>
     (ccNonceSizeBits p = 96 \<and> \<not> ccExtendedNonce p \<or> ccNonceSizeBits p = 192 \<and> ccExtendedNonce p)"
| "implemented_cipher _ \<longleftrightarrow> False"

lemma generated_key_length:
  assumes "symmetric_ok K" "generateSymmetricKey K e (Some a) = ok key"
  shows "case a of AlgAesGcm p \<Rightarrow> length key = gcmKeySizeBits p div 8 \<and> length key \<in> {16, 24, 32}
    | AlgAesCbc p \<Rightarrow> length key = cbcKeySizeBits p div 8 \<and> length key \<in> {16, 24, 32}
    | AlgAesCtr p \<Rightarrow> length key = ctrKeySizeBits p div 8 \<and> length key \<in> {16, 24, 32}
    | AlgChacha20Poly1305 p \<Rightarrow> length key = 32 | _ \<Rightarrow> True"
proof -
  have a: "length key = n div 8 \<and> length key \<in> {16, 24, 32}" if "generateAESKey K e n = ok key" for n
    using that symmetric_okD(1) [OF assms(1)] by (auto simp: generateAESKey_def Let_def)
  have c: "length key = 32" if "generateChaCha20Key K e = ok key"
    using that symmetric_okD(1) [OF assms(1)] by (auto simp: generateChaCha20Key_def)
  show ?thesis
  proof (cases a)
    case (AlgAesGcm p) with assms(2) a [of "gcmKeySizeBits p"] show ?thesis by (auto simp: generateSymmetricKey_def)
  next
    case (AlgAesCbc p) with assms(2) a [of "cbcKeySizeBits p"] show ?thesis by (auto simp: generateSymmetricKey_def)
  next
    case (AlgAesCtr p) with assms(2) a [of "ctrKeySizeBits p"] show ?thesis by (auto simp: generateSymmetricKey_def)
  next
    case (AlgChacha20Poly1305 p) with assms(2) c show ?thesis by (simp add: generateSymmetricKey_def)
  qed simp_all
qed

lemma aead_seals:
  assumes "symmetric_ok K" "aead_ok a ns" "\<forall>n. \<exists>bs. randRead K e n = Inr bs" "length pt \<le> cipher_limit"
  obtains nonce ct where "randRead K e (aeadNonceSize a) = Inr nonce" "Seal a nonce pt aad = Some ct"
proof -
  from assms(3) obtain nonce where n: "randRead K e (aeadNonceSize a) = Inr nonce" by blast
  from aead_safe(1) [OF assms(2) symmetric_okD(1) [OF assms(1) n] assms(4)] obtain ct where "Seal a nonce pt aad = Some ct"
    by (cases "Seal a nonce pt aad") auto
  with n show thesis by (rule that)
qed

lemma encryption_succeeds:
  assumes K: "symmetric_ok K" and r: "\<forall>n. \<exists>bs. randRead K e n = Inr bs" and l: "length pt \<le> cipher_limit"
  shows "implemented_cipher (AlgAesGcm g) \<Longrightarrow> length key = gcmKeySizeBits g div 8 \<Longrightarrow> length key \<in> {16, 24, 32} \<Longrightarrow>
      \<exists>ct iv. encryptAESGCM K e key pt aad g = ok (ct, iv)"
    and "implemented_cipher (AlgAesCbc c) \<Longrightarrow> length key = cbcKeySizeBits c div 8 \<Longrightarrow> length key \<in> {16, 24, 32} \<Longrightarrow>
      \<exists>ct iv. encryptAESCBC K e key pt c = ok (ct, iv)"
    and "implemented_cipher (AlgAesCtr t) \<Longrightarrow> length key = ctrKeySizeBits t div 8 \<Longrightarrow> length key \<in> {16, 24, 32} \<Longrightarrow>
      \<exists>ct iv. encryptAESCTR K e key pt t = ok (ct, iv)"
    and "implemented_cipher (AlgChacha20Poly1305 x) \<Longrightarrow> length key = 32 \<Longrightarrow>
      \<exists>ct iv. encryptChaCha20Poly1305 K e key pt aad x = ok (ct, iv)"
proof -
  assume a: "implemented_cipher (AlgAesGcm g)" "length key = gcmKeySizeBits g div 8" "length key \<in> {16, 24, 32}"
  let ?a = "gcmAead K key (gcmIvSizeBits g div 8) (gcmTagSizeBits g div 8)"
  obtain nonce ct where n: "randRead K e (aeadNonceSize ?a) = Inr nonce" "Seal ?a nonce pt aad = Some ct"
    by (rule aead_seals [OF K gcmAead_ok [OF K] r l])
  have "newAESGCM K opn key (gcmIvSizeBits g) (gcmTagSizeBits g) = ok ?a" for opn using a by (simp add: newAESGCM_ok)
  then show "\<exists>ct iv. encryptAESGCM K e key pt aad g = ok (ct, iv)"
    using a n by (simp add: encryptAESGCM_def Let_def)
next
  assume a: "implemented_cipher (AlgAesCbc c)" "length key = cbcKeySizeBits c div 8" "length key \<in> {16, 24, 32}"
  obtain iv where iv: "randRead K e aesBlockSize = Inr iv" using r by blast
  then show "\<exists>ct iv. encryptAESCBC K e key pt c = ok (ct, iv)"
    using a symmetric_okD(1) [OF K iv] length_pkcs7Pad_mod(1) [OF aesBlockSize_pos(1), of pt]
    by (simp add: encryptAESCBC_ok CryptBlocks_def)
next
  assume a: "implemented_cipher (AlgAesCtr t)" "length key = ctrKeySizeBits t div 8" "length key \<in> {16, 24, 32}"
  obtain nonce where n: "randRead K e 12 = Inr nonce" using r by blast
  have "newAESCTRBlock opn key t = ok key" for opn using a by simp
  then show "\<exists>ct iv. encryptAESCTR K e key pt t = ok (ct, iv)"
    using a n symmetric_okD(1) [OF K n] by (simp add: encryptAESCTR_def Let_def XORKeyStream_def aesBlockSize_def)
next
  assume a: "implemented_cipher (AlgChacha20Poly1305 x)" "length key = 32"
  from K a(2) obtain a1 a2 where c: "chachaNew K key = Inr a1" "aead_ok a1 12" "chachaNewX K key = Inr a2" "aead_ok a2 24"
    by (auto simp: symmetric_ok_def)
  with a obtain b ns where b: "aead_ok b ns" "\<And>opn. newChaCha20Poly1305 K opn key x = ok b"
    by (auto simp: newChaCha20Poly1305_def)
  obtain nonce ct where "randRead K e (aeadNonceSize b) = Inr nonce" "Seal b nonce pt aad = Some ct"
    by (rule aead_seals [OF K b(1) r l])
  then show "\<exists>ct iv. encryptChaCha20Poly1305 K e key pt aad x = ok (ct, iv)"
    using a b(2) by (simp add: encryptChaCha20Poly1305_def Let_def)
qed

text \<open>
  C35: With a working entropy source, key material generated for an implemented cipher encrypts
  every plaintext the libraries admit: \<open>Encrypt\<close> returns a ciphertext, never an error.
\<close>

theorem generated_keys_encrypt:
  assumes "symmetric_ok K" "GenerateKey_sw K e (Some a) = ok gk" "implemented_cipher a"
    and "\<forall>n. \<exists>bs. randRead K e' n = Inr bs" "length (enPlaintext req) \<le> cipher_limit"
    and "enAlgorithm req = Some a" "enKeyMaterial req = gkKeyMaterial gk" "accepts_request K (ReqEncrypt req)"
  shows "\<exists>ct out. Encrypt_sw K e' req = ok (ct, out)"
proof -
  from assms(2,3) have g: "generateSymmetricKey K e (Some a) = ok (enKeyMaterial req)"
    by (cases a) (auto simp: GenerateKey_sw_def Let_def generatedKey_def assms(7) split: if_split_asm)
  note l = generated_key_length [OF assms(1) g] and s = encryption_succeeds [OF assms(1,4,5)]
  show ?thesis
    using assms(3) l s accepts_validate [OF assms(8)] by (cases a) (fastforce simp: Encrypt_sw_def Let_def assms(6))+
qed

section \<open>A concrete environment\<close>

text \<open>
  An instance of the laws: AES is the identity, sealing appends nothing, a key is its kind, and
  every signature is the byte 1.
\<close>

definition demo_aead :: "nat \<Rightarrow> aead" where
  "demo_aead ns = \<lparr>aeadNonceSize = ns, aeadSealLimit = 2 ^ 38, aeadOpenLimit = Some (2 ^ 38),
     aeadSeal = (\<lambda>nonce pt aad. pt), aeadOpen = (\<lambda>nonce ct aad. Some ct)\<rparr>"

definition kind_byte :: "key_kind \<Rightarrow> byte" where
  "kind_byte k = (case k of KindECDSA \<Rightarrow> 0 | KindRSA \<Rightarrow> 1 | KindEd25519 \<Rightarrow> 2 | KindOther \<Rightarrow> 3)"

definition kind_of_bytes :: "bytes \<Rightarrow> key_kind result" where
  "kind_of_bytes b = (if b = [0] then Inr KindECDSA else if b = [1] then Inr KindRSA else if b = [2] then Inr KindEd25519
     else if b = [3] then Inr KindOther else Inl (ErrPlain ''x509''))"

lemma kind_round_trip [simp]: "kind_of_bytes [kind_byte k] = Inr k"
  by (cases k) (simp_all add: kind_of_bytes_def kind_byte_def)

definition demo_sw :: "(unit, key_kind, key_kind, mldsa_scheme, mldsa_scheme) sw_env" where
  "demo_sw = \<lparr>pvErrs = ref_errors, enumString = (\<lambda>_. ''?''), typeString = (\<lambda>_. ''?''),
     requestValidator = Inr (\<lambda>_. None), digestLengthForHash = (\<lambda>h. if h = HASH_SHA256 then Some 32 else None),
     randRead = (\<lambda>_ n. Inr (replicate n 0)), aesEncryptBlock = (\<lambda>_ b. b), aesDecryptBlock = (\<lambda>_ b. b),
     gcmSeal = (\<lambda>_ _ _ _ pt _. pt), gcmOpen = (\<lambda>_ _ _ _ ct _. Some ct),
     chachaNew = (\<lambda>_. Inr (demo_aead 12)), chachaNewX = (\<lambda>_. Inr (demo_aead 24)),
     sumHash = (\<lambda>_ b. b),
     x509ParsePKCS8 = kind_of_bytes, x509ParseEC = kind_of_bytes, x509ParsePKIX = kind_of_bytes,
     x509MarshalPKCS8 = (\<lambda>k. Inr [kind_byte k]), x509MarshalEC = (\<lambda>k. Inr [kind_byte k]), x509MarshalPKIX = (\<lambda>k. Inr [kind_byte k]),
     privKind = (\<lambda>k. k), pubKind = (\<lambda>k. k), privType = (\<lambda>_. ''?''), publicOf = (\<lambda>k. k),
     curveOf = (\<lambda>_. P256), modulusBits = (\<lambda>_. 2048),
     ecdsaGenerateKey = (\<lambda>_ c. if c = P256 then Inr KindECDSA else Inl (ErrPlain ''curve'')),
     ecdsaSign = (\<lambda>_ _ _. Inr (1, 1)), ecdsaVerify = (\<lambda>_ _ r s. r = 1 \<and> s = 1),
     rsaGenerateKey = (\<lambda>_ n. if n = 2048 then Inr KindRSA else Inl (ErrPlain ''bits'')),
     rsaSignPSS = (\<lambda>_ _ _ _ _. Inr [1]), rsaVerifyPSS = (\<lambda>_ _ _ sig _. if sig = [1] then None else Some (ErrPlain ''rsa'')),
     rsaSignPKCS1v15 = (\<lambda>_ _ _ _. Inr [1]), rsaVerifyPKCS1v15 = (\<lambda>_ _ _ sig. if sig = [1] then None else Some (ErrPlain ''rsa'')),
     edGenerateKey = (\<lambda>_. Inr (KindEd25519, KindEd25519)), edSign = (\<lambda>_ _. [1]), edVerify = (\<lambda>_ _ sig. sig = [1]),
     edSignPH = (\<lambda>_ _. Inr [1]), edVerifyPH = (\<lambda>_ _ sig. if sig = [1] then None else Some (ErrPlain ''ed'')),
     circlGenerateKey = (\<lambda>s _. Inr (s, s)), circlMarshalPublic = (\<lambda>_. Inr [1]),
     circlMarshalPKIX = (\<lambda>s. if s = Mldsa44 then Inr [1] else Inl (ErrPlain ''pki'')), circlUnmarshalPKIX = (\<lambda>_. Inr Mldsa44),
     circlSchemeOf = (\<lambda>s. s), circlSchemeName = (\<lambda>_. ''?''), circlKeyType = (\<lambda>_. ''?''),
     circlUnmarshalPrivate = (\<lambda>s _. Inr s), circlUnmarshalPublic = (\<lambda>s _. Inr s),
     circlSign = (\<lambda>s k _ c. if k = s \<and> length c \<le> 255 then Some [1] else None), circlSignTo = (\<lambda>_ _ _ _ _. Inr [1]),
     circlVerify = (\<lambda>_ _ _ sig _. sig = [1])\<rparr>"

lemma demo_symmetric_ok: "symmetric_ok demo_sw"
  by (simp add: symmetric_ok_def demo_sw_def aead_ok_def demo_aead_def block_inverse_def)

lemma demo_signature_ok: "signature_ok demo_sw"
  unfolding signature_ok_def x509_ok_def ecdsa_ok_def rsa_ok_def ed25519_ok_def mldsa_ok_def
  by (simp add: demo_sw_def mldsaMaxContextLen_def)

lemma demo_accepts [simp]: "accepts_request demo_sw req"
  by (simp add: accepts_request_def demo_sw_def)

definition demo_cbc :: aes_cbc_params where
  "demo_cbc = \<lparr>cbcKeySizeBits = 128, cbcIvSizeBits = 128, cbcPadding = PADDING_PKCS7\<rparr>"

definition demo_encrypt :: encrypt_request_p where
  "demo_encrypt = \<lparr>enAlgorithm = Some (AlgAesCbc demo_cbc), enKeyMaterial = replicate 16 0, enPlaintext = [1, 2, 3], enAad = []\<rparr>"

lemma demo_generates: "\<exists>gk. GenerateKey_sw demo_sw () (Some (AlgAesCbc demo_cbc)) = ok gk \<and> gkKeyMaterial gk = replicate 16 0"
  by (simp add: GenerateKey_sw_def Let_def accepts_validate generateSymmetricKey_def demo_cbc_def generateAESKey_def
      checkAESKeySize_def refuse_def generatedKey_def privateKeyEncoding_def) (simp add: demo_sw_def)

theorem generated_keys_encrypt_witness:
  "\<exists>ct out. Encrypt_sw demo_sw () demo_encrypt = ok (ct, out)"
proof -
  obtain gk where g: "GenerateKey_sw demo_sw () (Some (AlgAesCbc demo_cbc)) = ok gk" "gkKeyMaterial gk = replicate 16 0"
    using demo_generates by blast
  show ?thesis
    by (rule generated_keys_encrypt [OF demo_symmetric_ok g(1)])
      (simp_all add: demo_cbc_def demo_encrypt_def g(2) cipher_limit_def, simp add: demo_sw_def)
qed

theorem Decrypt_sw_inverts_Encrypt_sw_witness:
  "\<exists>ct out. Encrypt_sw demo_sw () demo_encrypt = ok (ct, out) \<and>
     Decrypt_sw demo_sw \<lparr>deAlgorithm = Some (AlgAesCbc demo_cbc), deKeyMaterial = replicate 16 0, deCiphertext = ct,
       deAad = [], deOutput = out\<rparr> = ok ([1, 2, 3], NoOutputUnencoded)"
proof -
  have "\<exists>ct iv. encryptAESCBC demo_sw () (replicate 16 0) [1, 2, 3] demo_cbc = ok (ct, iv)"
    by (rule encryption_succeeds(2) [OF demo_symmetric_ok]) (simp_all add: demo_cbc_def cipher_limit_def, simp add: demo_sw_def)
  then obtain ct out where e: "Encrypt_sw demo_sw () demo_encrypt = ok (ct, out)"
    by (auto simp: Encrypt_sw_def Let_def accepts_validate demo_encrypt_def)
  with Decrypt_sw_inverts_Encrypt_sw [OF demo_symmetric_ok e demo_accepts] show ?thesis
    by (auto simp: demo_encrypt_def)
qed

definition demo_ecdsa :: algorithm_details where
  "demo_ecdsa = AlgEcdsa \<lparr>ecCurve = CURVE_P256, ecHash = HASH_UNSPECIFIED, ecFormat = SIG_DER\<rparr>"

definition demo_key :: generated_key where
  "demo_key = \<lparr>gkPublicKey = [0], gkKeyMaterial = [0], gkOutput = NoOutputUnencoded, gkKeyEncoding = PRIV_SEC1, gkPublicEncoding = PUB_SPKI\<rparr>"

lemma demo_key_generated: "GenerateKey_sw demo_sw () (Some demo_ecdsa) = ok demo_key"
  by (simp add: GenerateKey_sw_def Let_def accepts_validate demo_ecdsa_def generateECDSAKey_def curveForAlgorithm_def generatedKey_def
      privateKeyEncoding_def demo_key_def) (simp add: demo_sw_def kind_byte_def)

lemma demo_signs:
  "Sign_sw demo_sw () \<lparr>sgAlgorithm = Some demo_ecdsa, sgKeyMaterial = gkKeyMaterial demo_key, sgKeyEncoding = gkKeyEncoding demo_key,
     sgInput = [5], sgContext = []\<rparr> = ok (asn1_marshal_pair 1 1, NoOutput ''der'')"
  "SignDigest_sw demo_sw () \<lparr>sdAlgorithm = Some demo_ecdsa, sdKeyMaterial = gkKeyMaterial demo_key, sdKeyEncoding = gkKeyEncoding demo_key,
     sdDigest = replicate 32 7, sdHash = HASH_SHA256\<rparr> = ok (asn1_marshal_pair 1 1, NoOutput ''der'')"
proof -
  have p: "parseECDSAPrivateKey demo_sw opn [0] PRIV_SEC1 = ok KindECDSA" for opn
    by (rule parse_generated_ecdsa) (simp add: demo_sw_def kind_of_bytes_def)
  have d: "ecdsaDigest demo_sw opn CURVE_P256 HASH_UNSPECIFIED m = ok m" for opn m
    by (simp add: ecdsaDigest_def curveMinHash_def Let_def hash_values) (simp add: demo_sw_def)
  have f: "curveOf demo_sw k = P256" "ecdsaSign demo_sw e k x = Inr (1, 1)" "digestLengthForHash demo_sw HASH_SHA256 = Some 32" for k e x
    by (simp_all add: demo_sw_def)
  show "Sign_sw demo_sw () \<lparr>sgAlgorithm = Some demo_ecdsa, sgKeyMaterial = gkKeyMaterial demo_key, sgKeyEncoding = gkKeyEncoding demo_key,
     sgInput = [5], sgContext = []\<rparr> = ok (asn1_marshal_pair 1 1, NoOutput ''der'')"
    by (simp add: Sign_sw_def Let_def accepts_validate demo_ecdsa_def demo_key_def signECDSA_def p d f checkCurveMatches_def
        curveForAlgorithm_def refuse_def encodeECDSASignature_def)
  show "SignDigest_sw demo_sw () \<lparr>sdAlgorithm = Some demo_ecdsa, sdKeyMaterial = gkKeyMaterial demo_key, sdKeyEncoding = gkKeyEncoding demo_key,
     sdDigest = replicate 32 7, sdHash = HASH_SHA256\<rparr> = ok (asn1_marshal_pair 1 1, NoOutput ''der'')"
    by (simp add: SignDigest_sw_def Let_def accepts_validate validateDigestLength_def demo_ecdsa_def demo_key_def signECDSADigest_def p f
        checkCurveMatches_def curveForAlgorithm_def refuse_def encodeECDSASignature_def)
qed

theorem Verify_sw_accepts_Sign_sw_witness:
  "Verify_sw demo_sw \<lparr>vfAlgorithm = Some demo_ecdsa, vfKeyMaterial = [0], vfKeyEncoding = PUB_SPKI,
      vfInput = [5], vfSignature = asn1_marshal_pair 1 1, vfContext = []\<rparr> = ok (True, NoOutputUnencoded)"
  using Verify_sw_accepts_Sign_sw [OF demo_signature_ok demo_key_generated demo_signs(1) demo_accepts] by (simp add: demo_key_def)

theorem VerifyDigest_sw_accepts_SignDigest_sw_witness:
  "VerifyDigest_sw demo_sw \<lparr>vdAlgorithm = Some demo_ecdsa, vdKeyMaterial = [0], vdKeyEncoding = PUB_SPKI,
      vdDigest = replicate 32 7, vdHash = HASH_SHA256, vdSignature = asn1_marshal_pair 1 1\<rparr> = ok (True, NoOutputUnencoded)"
  using VerifyDigest_sw_accepts_SignDigest_sw [OF demo_signature_ok demo_key_generated demo_signs(2) demo_accepts] by (simp add: demo_key_def)

theorem Verify_sw_error_independent_witness:
  "\<exists>err. Verify_sw demo_sw \<lparr>vfAlgorithm = Some demo_ecdsa, vfKeyMaterial = [9], vfKeyEncoding = PUB_SPKI,
      vfInput = [5], vfSignature = [1], vfContext = []\<rparr> = fails err \<and>
    Verify_sw demo_sw \<lparr>vfAlgorithm = Some demo_ecdsa, vfKeyMaterial = [9], vfKeyEncoding = PUB_SPKI,
      vfInput = [5], vfSignature = [9, 9], vfContext = []\<rparr> = fails err"
proof -
  let ?r = "\<lparr>vfAlgorithm = Some demo_ecdsa, vfKeyMaterial = [9], vfKeyEncoding = PUB_SPKI, vfInput = [5], vfSignature = [1], vfContext = []\<rparr>"
  have "x509ParsePKIX demo_sw [9] = Inl (ErrPlain ''x509'')" by (simp add: demo_sw_def kind_of_bytes_def)
  then obtain err where e: "Verify_sw demo_sw ?r = fails err"
    by (auto simp: Verify_sw_def Let_def accepts_validate demo_ecdsa_def verifyECDSA_def parseECDSAPublicKey_def)
  from Verify_sw_error_independent [OF demo_signature_ok demo_accepts demo_accepts e, of "[9, 9]"] e show ?thesis by auto
qed

text \<open>The library would panic on the key of another parameter set; the provider refuses it.\<close>

theorem software_never_panics_witness:
  "circlSign demo_sw Mldsa65 Mldsa44 [5] [] = None \<and> circlUnmarshalPKIX demo_sw [1] = Inr Mldsa44 \<and>
   Sign_sw demo_sw () \<lparr>sgAlgorithm = Some (AlgMlDsa \<lparr>mlParameterSet = ML_DSA_65, mlDeterministic = True\<rparr>), sgKeyMaterial = [1],
     sgKeyEncoding = PRIV_PKCS8, sgInput = [5], sgContext = []\<rparr> \<noteq> None"
proof -
  have "length (enPlaintext demo_encrypt) \<le> cipher_limit" by (simp add: demo_encrypt_def cipher_limit_def)
  moreover have "length (deCiphertext \<lparr>deAlgorithm = None, deKeyMaterial = [], deCiphertext = [], deAad = [], deOutput = NoOutputUnencoded\<rparr>) \<le> cipher_limit"
    by simp
  moreover have "circlSign demo_sw Mldsa65 Mldsa44 [5] [] = None \<and> circlUnmarshalPKIX demo_sw [1] = Inr Mldsa44" by (simp add: demo_sw_def)
  ultimately show ?thesis using software_never_panics [OF demo_symmetric_ok demo_signature_ok] by blast
qed

end
