(* ===== verification/Openssl_Signature_Properties.thy ===== *)
theory Openssl_Signature_Properties
  imports Openssl_Provider Software_Properties
begin

text \<open>
  The signature algorithms of the OpenSSL provider, under the documented laws of \<open>ossl-go\<close>, meet the
  same interface \<open>signature_scheme\<close> as those of the software provider: what is signed with a generated
  key verifies, and signature bytes never decide whether a verification is an error.
\<close>

declare not_None_eq [iff del]

section \<open>The laws of ossl-go\<close>

text \<open>
  A handle parsed from what another handle's marshalling wrote stands for the same key pair.
\<close>

definition private_handle :: "('e, 'k, 'z) osslK \<Rightarrow> 'k \<Rightarrow> 'k \<Rightarrow> bool" where
  "private_handle K k k' \<longleftrightarrow>
     (\<exists>b. marshalPKCS8 K k = Inr b \<and> parsePKCS8PrivateKey K b = Inr k') \<or>
     (\<exists>b. marshalSEC1 K k = Inr b \<and> parseSEC1PrivateKey K b = Inr k')"

definition public_handle :: "('e, 'k, 'z) osslK \<Rightarrow> 'k \<Rightarrow> 'k \<Rightarrow> bool" where
  "public_handle K k k' \<longleftrightarrow>
     (\<exists>b. marshalSPKI K k = Inr b \<and> parseSPKIPublicKey K b = Inr k') \<or>
     (\<exists>b. marshalRawPublicKey K k = Inr b \<and> parseRawPublicKey K (keyType K k) b = Inr k')"

fun groupBits :: "ossl_curve \<Rightarrow> nat" where
  "groupBits OsslP256 = 256"
| "groupBits OsslP384 = 384"
| "groupBits OsslP521 = 521"
| "groupBits NoCurve = 0"

text \<open>
  Documented behaviour: a generated key has the requested type and size, what is marshalled parses,
  a signature verifies under the public key with the same options (determinism only concerns
  signing), and a signature of any bytes is either judged or the call fails for another reason.
\<close>

definition ossl_generates :: "('e, 'k, 'z) osslK \<Rightarrow> bool" where
  "ossl_generates K \<longleftrightarrow>
     (\<forall>e a opt k. osslGenerateKey K e a opt = Inr k \<longrightarrow> keyType K k = a \<and>
        (\<forall>g. opt = WithGroup g \<longrightarrow> keyBits K k = groupBits g) \<and> (\<forall>n. opt = WithRSABits n \<longrightarrow> keyBits K k = n))"

definition ossl_parses :: "('e, 'k, 'z) osslK \<Rightarrow> bool" where
  "ossl_parses K \<longleftrightarrow>
     (\<forall>k b. marshalPKCS8 K k = Inr b \<longrightarrow> (\<exists>k'. parsePKCS8PrivateKey K b = Inr k')) \<and>
     (\<forall>k b. marshalSEC1 K k = Inr b \<longrightarrow> (\<exists>k'. parseSEC1PrivateKey K b = Inr k')) \<and>
     (\<forall>k b. marshalSPKI K k = Inr b \<longrightarrow> (\<exists>k'. parseSPKIPublicKey K b = Inr k')) \<and>
     (\<forall>k b. marshalRawPublicKey K k = Inr b \<longrightarrow> (\<exists>k'. parseRawPublicKey K (keyType K k) b = Inr k')) \<and>
     (\<forall>k k'. private_handle K k k' \<or> public_handle K k k' \<longrightarrow> keyType K k' = keyType K k \<and> keyBits K k' = keyBits K k)"

definition ossl_verifies :: "('e, 'k, 'z) osslK \<Rightarrow> bool" where
  "ossl_verifies K \<longleftrightarrow>
     (\<forall>k k1 k2 e m opt s. private_handle K k k1 \<and> public_handle K k k2 \<and> keySign K e k1 m opt = Inr s \<longrightarrow>
        keyVerify K k2 m s (opt\<lparr>soDeterministic := False\<rparr>) = None) \<and>
     (\<forall>k k1 k2 e d opt s. private_handle K k k1 \<and> public_handle K k k2 \<and> keySignDigest K e k1 d opt = Inr s \<longrightarrow>
        keyVerifyDigest K k2 d s opt = None) \<and>
     (\<forall>k m s s' opt er. keyVerify K k m s opt = Some er \<and> \<not> isErrVerification K er \<longrightarrow> keyVerify K k m s' opt = Some er) \<and>
     (\<forall>k d s s' opt er. keyVerifyDigest K k d s opt = Some er \<and> \<not> isErrVerification K er \<longrightarrow>
        keyVerifyDigest K k d s' opt = Some er)"

definition ossl_ok :: "('e, 'k, 'z) osslK \<Rightarrow> bool" where
  "ossl_ok K \<longleftrightarrow> ossl_generates K \<and> ossl_parses K \<and> ossl_verifies K"

lemma verifyOutcome_verdict:
  assumes "ossl_ok K"
  shows "verifyOutcome K opn (keyVerify K k m s opt) = fails er \<Longrightarrow> verifyOutcome K opn (keyVerify K k m s' opt) = fails er"
    and "verifyOutcome K opn (keyVerifyDigest K k m s opt) = fails er \<Longrightarrow> verifyOutcome K opn (keyVerifyDigest K k m s' opt) = fails er"
proof -
  assume "verifyOutcome K opn (keyVerify K k m s opt) = fails er"
  then obtain e' where "keyVerify K k m s opt = Some e'" "\<not> isErrVerification K e'" "er = ErrWrap opn None e'"
    by (auto simp: verifyOutcome_def split: option.split_asm if_split_asm)
  moreover from this assms have "keyVerify K k m s' opt = Some e'" unfolding ossl_ok_def ossl_verifies_def by blast
  ultimately show "verifyOutcome K opn (keyVerify K k m s' opt) = fails er" by (simp add: verifyOutcome_def)
next
  assume "verifyOutcome K opn (keyVerifyDigest K k m s opt) = fails er"
  then obtain e' where "keyVerifyDigest K k m s opt = Some e'" "\<not> isErrVerification K e'" "er = ErrWrap opn None e'"
    by (auto simp: verifyOutcome_def split: option.split_asm if_split_asm)
  moreover from this assms have "keyVerifyDigest K k m s' opt = Some e'" unfolding ossl_ok_def ossl_verifies_def by blast
  ultimately show "verifyOutcome K opn (keyVerifyDigest K k m s' opt) = fails er" by (simp add: verifyOutcome_def)
qed

lemma verifyOutcome_safe [simp]: "verifyOutcome K opn r \<noteq> None" "verifyOutcome K opn None = ok True"
  by (auto simp: verifyOutcome_def split: option.split)

text \<open>The keys an algorithm stores are read back as handles of the generated key pair.\<close>

lemma stored_private:
  assumes "ossl_ok K" "osslGenerateKey K e a opt = Inr k"
    and "penc = PRIV_PKCS8 \<and> marshalPKCS8 K k = Inr b \<or> penc = PRIV_SEC1 \<and> marshalSEC1 K k = Inr b"
  obtains k1 where "\<And>opn. parsePrivateKey K opn b penc = ok k1" "private_handle K k k1"
    "keyType K k1 = a" "keyBits K k1 = keyBits K k"
proof -
  from assms(1,3) obtain k1 where k1: "\<And>opn. parsePrivateKey K opn b penc = ok k1" "private_handle K k k1"
    unfolding ossl_ok_def ossl_parses_def parsePrivateKey_def private_handle_def by fastforce
  moreover have "keyType K k = a" using assms(1,2) unfolding ossl_ok_def ossl_generates_def by blast
  moreover have "keyType K k1 = keyType K k \<and> keyBits K k1 = keyBits K k"
    using assms(1) k1(2) unfolding ossl_ok_def ossl_parses_def by blast
  ultimately show thesis using that by simp
qed

lemma stored_public:
  assumes "ossl_ok K" "osslGenerateKey K e a opt = Inr k" "marshalSPKI K k = Inr b"
  obtains k2 where "\<And>opn. parsePublicKey K opn b PUB_SPKI = ok k2" "public_handle K k k2"
    "keyType K k2 = a" "keyBits K k2 = keyBits K k"
proof -
  from assms(1,3) obtain k2 where k2: "\<And>opn. parsePublicKey K opn b PUB_SPKI = ok k2" "public_handle K k k2"
    unfolding ossl_ok_def ossl_parses_def parsePublicKey_def public_handle_def by fastforce
  moreover have "keyType K k = a" using assms(1,2) unfolding ossl_ok_def ossl_generates_def by blast
  moreover have "keyType K k2 = keyType K k \<and> keyBits K k2 = keyBits K k"
    using assms(1) k2(2) unfolding ossl_ok_def ossl_parses_def by blast
  ultimately show thesis using that by simp
qed

lemma stored_raw_public:
  assumes "ossl_ok K" "osslGenerateKey K e a opt = Inr k" "marshalRawPublicKey K k = Inr b"
  obtains k2 where "parseRawPublicKey K a b = Inr k2" "public_handle K k k2" "keyType K k2 = a"
proof -
  have a: "keyType K k = a" using assms(1,2) unfolding ossl_ok_def ossl_generates_def by blast
  with assms(1,3) obtain k2 where k2: "parseRawPublicKey K a b = Inr k2" "public_handle K k k2"
    unfolding ossl_ok_def ossl_parses_def public_handle_def by fastforce
  moreover have "keyType K k2 = keyType K k"
    using assms(1) k2(2) unfolding ossl_ok_def ossl_parses_def by blast
  ultimately show thesis using that a by simp
qed

lemma signature_accepted:
  assumes "ossl_ok K" "private_handle K k k1" "public_handle K k k2"
  shows "keySign K e k1 m opt = Inr s \<Longrightarrow> keyVerify K k2 m s (opt\<lparr>soDeterministic := False\<rparr>) = None"
    and "keySignDigest K e k1 m opt = Inr s \<Longrightarrow> keyVerifyDigest K k2 m s opt = None"
  using assms unfolding ossl_ok_def ossl_verifies_def by (elim conjE; metis)+

lemma not_deterministic [simp]:
  "(no_sign_options\<lparr>soDigest := d, soFormat := f\<rparr>)\<lparr>soDeterministic := False\<rparr> = no_sign_options\<lparr>soDigest := d, soFormat := f\<rparr>"
  "(no_sign_options\<lparr>soPrehash := b\<rparr>)\<lparr>soDeterministic := False\<rparr> = no_sign_options\<lparr>soPrehash := b\<rparr>"
  "(no_sign_options\<lparr>soContext := c, soDeterministic := b\<rparr>)\<lparr>soDeterministic := False\<rparr> = no_sign_options\<lparr>soContext := c\<rparr>"
  by (simp_all add: no_sign_options_def)

section \<open>The signature algorithms\<close>

lemma digestNameFor_op: "digestNameFor K opn h = Inr d \<Longrightarrow> digestNameFor K opn' h = Inr d"
  by (auto simp: digestNameFor_def split: if_split_asm)

lemma ecdsaDigestName_op:
  assumes "ecdsaDigestName K opn c h = ok d"
  shows "ecdsaDigestName K opn' c h = ok d"
proof -
  from assms obtain mh where mh: "curveMinHash_ossl K opn c = Inr mh" by (auto simp: ecdsaDigestName_def)
  then have "curveMinHash_ossl K opn' c = Inr mh" by (cases c) (auto simp: curveMinHash_ossl_def)
  with mh assms show ?thesis
    by (auto simp: ecdsaDigestName_def split: if_split_asm elim: digestNameFor_op)
qed

lemma ossl_op:
  "ecdsaDigestSignName K opn h n = Inr d \<Longrightarrow> ecdsaDigestSignName K opn' h n = Inr d"
  "ecdsaSignatureFormat K opn f = Inr g \<Longrightarrow> ecdsaSignatureFormat K opn' f = Inr g"
  "mlDSAKeyAlgorithmFor K opn s = Inr a \<Longrightarrow> mlDSAKeyAlgorithmFor K opn' s = Inr a"
  "rsaHashName K opn h = Inr d \<Longrightarrow> rsaHashName K opn' h = Inr d"
  "rsaPSSSaltLength_ossl K opn sm n = Inr l \<Longrightarrow> rsaPSSSaltLength_ossl K opn' sm n = Inr l"
proof -
  show "ecdsaDigestSignName K opn h n = Inr d \<Longrightarrow> ecdsaDigestSignName K opn' h n = Inr d"
    by (auto simp: ecdsaDigestSignName_def split: if_split_asm elim: digestNameFor_op)
  show "ecdsaSignatureFormat K opn f = Inr g \<Longrightarrow> ecdsaSignatureFormat K opn' f = Inr g"
    by (cases f) (simp_all add: ecdsaSignatureFormat_def)
  show "mlDSAKeyAlgorithmFor K opn s = Inr a \<Longrightarrow> mlDSAKeyAlgorithmFor K opn' s = Inr a"
    by (cases s) (simp_all add: mlDSAKeyAlgorithmFor_def)
  show "rsaHashName K opn h = Inr d \<Longrightarrow> rsaHashName K opn' h = Inr d"
    by (auto simp: rsaHashName_def split: if_split_asm)
  show "rsaPSSSaltLength_ossl K opn sm n = Inr l \<Longrightarrow> rsaPSSSaltLength_ossl K opn' sm n = Inr l"
    by (cases sm) (auto simp: rsaPSSSaltLength_ossl_def split: if_split_asm)
qed

lemma ossl_checks_ok [simp]:
  "checkCurveMatches_ossl K opn k c = Inr u \<longleftrightarrow> keyType K k = OsslEC \<and> keyBits K k = curveBits c"
  "checkRSAKeySize_ossl K opn k n = Inr u \<longleftrightarrow> keyBits K k = n"
  "checkEd25519VariantSupported K opn v = Inr u \<longleftrightarrow> v \<in> {ED25519_UNSPECIFIED, ED25519_PURE, ED25519_PH}"
  "checkEd25519PHHash_ossl K opn h = Inr u \<longleftrightarrow> h = HASH_UNSPECIFIED \<or> h = HASH_SHA512"
  "checkKeyType K opn k a s = Inr u \<longleftrightarrow> keyType K k = a"
  "checkMLDSAContextLength_ossl opn dc = Inr u \<longleftrightarrow> length dc \<le> mldsaMaxContextLen_ossl"
  by (auto simp: checkCurveMatches_ossl_def checkRSAKeySize_ossl_def checkEd25519VariantSupported_def checkEd25519PHHash_ossl_def
      checkKeyType_def checkMLDSAContextLength_ossl_def Let_def)

lemma ossl_safe [simp]:
  "parsePrivateKey K opn b penc \<noteq> None" "parsePublicKey K opn b qenc \<noteq> None" "ecdsaDigestName K opn c h \<noteq> None"
  "pssOptions K opn k h pss \<noteq> None" "pkcs1Options K opn k h pk \<noteq> None"
  by (auto simp: parsePrivateKey_def parsePublicKey_def ecdsaDigestName_def pssOptions_def pkcs1Options_def)

lemma ossl_generated_bits:
  assumes "ossl_ok K" "osslGenerateKey K e a opt = Inr k"
  shows "opt = WithGroup g \<Longrightarrow> keyBits K k = groupBits g" "opt = WithRSABits n \<Longrightarrow> keyBits K k = n"
  using assms unfolding ossl_ok_def ossl_generates_def by blast+

lemma curveFor_bits: "curveFor K opn c = Inr g \<Longrightarrow> groupBits g = curveBits c"
  by (cases c) (auto simp: curveFor_def)

lemma generateECDSAKey_osslE:
  assumes "ossl_ok K" "generateECDSAKey_ossl K e c = ok (pub, priv)"
  obtains k k1 k2 where "\<And>opn. parsePrivateKey K opn priv PRIV_SEC1 = ok k1" "\<And>opn. parsePublicKey K opn pub PUB_SPKI = ok k2"
    "private_handle K k k1" "public_handle K k k2"
    "keyType K k1 = OsslEC" "keyType K k2 = OsslEC" "keyBits K k1 = curveBits c" "keyBits K k2 = curveBits c"
proof -
  from assms(2) obtain g k where g: "curveFor K ''openssl.generateECDSAKey'' c = Inr g"
    "osslGenerateKey K e OsslEC (WithGroup g) = Inr k" "marshalSPKI K k = Inr pub" "marshalSEC1 K k = Inr priv"
    by (auto simp: generateECDSAKey_ossl_def Let_def)
  note b = ossl_generated_bits(1) [OF assms(1) g(2) refl] curveFor_bits [OF g(1)]
  obtain k1 where k1: "\<And>opn. parsePrivateKey K opn priv PRIV_SEC1 = ok k1" "private_handle K k k1" "keyType K k1 = OsslEC"
    "keyBits K k1 = keyBits K k"
    using g(4) by (rule_tac stored_private [OF assms(1) g(2), of PRIV_SEC1 priv]) auto
  obtain k2 where "\<And>opn. parsePublicKey K opn pub PUB_SPKI = ok k2" "public_handle K k k2" "keyType K k2 = OsslEC"
    "keyBits K k2 = keyBits K k"
    by (rule stored_public [OF assms(1) g(2,3)]) (rule that)
  with k1 b show thesis using that by simp
qed

interpretation ossl_ecdsa: signature_scheme ossl_ok "\<lambda>(penc, qenc, p). penc = PRIV_SEC1 \<and> qenc = PUB_SPKI"
  "\<lambda>K e (penc, qenc, p). generateECDSAKey_ossl K e (ecCurve p)"
  "\<lambda>K e priv m (penc, qenc, p). signECDSA_ossl K e priv m penc (ecCurve p) (ecHash p) (ecFormat p)"
  "\<lambda>K pub m sig (penc, qenc, p). verifyECDSA_ossl K pub m sig qenc (ecCurve p) (ecHash p) (ecFormat p)"
proof (unfold_locales, goal_cases)
  case (1 K p e pub priv e' m sig)
  obtain penc qenc q where p: "p = (penc, qenc, q)" by (cases p)
  with 1 have enc: "penc = PRIV_SEC1" "qenc = PUB_SPKI" by auto
  from 1(3) obtain k k1 k2 where k: "\<And>opn. parsePrivateKey K opn priv PRIV_SEC1 = ok k1" "\<And>opn. parsePublicKey K opn pub PUB_SPKI = ok k2"
    "private_handle K k k1" "public_handle K k k2"
    "keyType K k1 = OsslEC" "keyType K k2 = OsslEC" "keyBits K k1 = curveBits (ecCurve q)" "keyBits K k2 = curveBits (ecCurve q)"
    by (auto simp: p elim: generateECDSAKey_osslE [OF 1(1)])
  from 1(4) obtain d f where d: "ecdsaDigestName K ''openssl.signECDSA'' (ecCurve q) (ecHash q) = ok d"
    "ecdsaSignatureFormat K ''openssl.signECDSA'' (ecFormat q) = Inr f"
    "keySign K e' k1 m (no_sign_options\<lparr>soDigest := d, soFormat := f\<rparr>) = Inr sig"
    by (auto simp: p enc k signECDSA_ossl_def Let_def)
  note v = signature_accepted(1) [OF 1(1) k(3,4) d(3)]
  show ?case using v k d by (simp add: p enc verifyECDSA_ossl_def Let_def ecdsaDigestName_op [OF d(1)] ossl_op(2) [OF d(2)])
next
  case (2 K pub m sig p err sig')
  obtain penc qenc q where p: "p = (penc, qenc, q)" by (cases p)
  from 2(2) show ?case unfolding p split_conv verifyECDSA_ossl_def Let_def
    by (elim orReturn_fails_cong) (rule verifyOutcome_verdict(1) [OF 2(1)])
qed (auto simp: signECDSA_ossl_def verifyECDSA_ossl_def generateECDSAKey_ossl_def Let_def)

interpretation ossl_ecdsa_digest: signature_scheme ossl_ok "\<lambda>(penc, qenc, h, p). penc = PRIV_SEC1 \<and> qenc = PUB_SPKI"
  "\<lambda>K e (penc, qenc, h, p). generateECDSAKey_ossl K e (ecCurve p)"
  "\<lambda>K e priv m (penc, qenc, h, p). signECDSADigest_ossl K e priv m penc (ecCurve p) h (ecFormat p)"
  "\<lambda>K pub m sig (penc, qenc, h, p). verifyECDSADigest_ossl K pub m sig qenc (ecCurve p) h (ecFormat p)"
proof (unfold_locales, goal_cases)
  case (1 K p e pub priv e' m sig)
  obtain penc qenc h q where p: "p = (penc, qenc, h, q)" by (cases p)
  with 1 have enc: "penc = PRIV_SEC1" "qenc = PUB_SPKI" by auto
  from 1(3) obtain k k1 k2 where k: "\<And>opn. parsePrivateKey K opn priv PRIV_SEC1 = ok k1" "\<And>opn. parsePublicKey K opn pub PUB_SPKI = ok k2"
    "private_handle K k k1" "public_handle K k k2"
    "keyType K k1 = OsslEC" "keyType K k2 = OsslEC" "keyBits K k1 = curveBits (ecCurve q)" "keyBits K k2 = curveBits (ecCurve q)"
    by (auto simp: p elim: generateECDSAKey_osslE [OF 1(1)])
  from 1(4) obtain d f where d: "ecdsaDigestSignName K ''openssl.signECDSADigest'' h (length m) = Inr d"
    "ecdsaSignatureFormat K ''openssl.signECDSADigest'' (ecFormat q) = Inr f"
    "keySignDigest K e' k1 m (no_sign_options\<lparr>soDigest := d, soFormat := f\<rparr>) = Inr sig"
    by (auto simp: p enc k signECDSADigest_ossl_def Let_def)
  note v = signature_accepted(2) [OF 1(1) k(3,4) d(3)]
  show ?case using v k d by (simp add: p enc verifyECDSADigest_ossl_def Let_def ossl_op(1) [OF d(1)] ossl_op(2) [OF d(2)])
next
  case (2 K pub m sig p err sig')
  obtain penc qenc h q where p: "p = (penc, qenc, h, q)" by (cases p)
  from 2(2) show ?case unfolding p split_conv verifyECDSADigest_ossl_def Let_def
    by (elim orReturn_fails_cong) (rule verifyOutcome_verdict(2) [OF 2(1)])
qed (auto simp: signECDSADigest_ossl_def verifyECDSADigest_ossl_def generateECDSAKey_ossl_def Let_def)

text \<open>RSA, whose four functions of a scheme share the resolution of their options.\<close>

lemma rsaOptions_op:
  "pssOptions K opn k1 h pss = ok opt \<Longrightarrow> keyBits K k2 = keyBits K k1 \<Longrightarrow>
     pssOptions K opn' k2 h pss = ok opt \<and> opt\<lparr>soDeterministic := False\<rparr> = opt"
  "pkcs1Options K opn k1 h pk = ok opt \<Longrightarrow> keyBits K k2 = keyBits K k1 \<Longrightarrow>
     pkcs1Options K opn' k2 h pk = ok opt \<and> opt\<lparr>soDeterministic := False\<rparr> = opt"
proof -
  have m: "checkRSAPSSMGF_ossl K opn mg h h' = Inr u \<Longrightarrow> checkRSAPSSMGF_ossl K opn' mg h h' = Inr u" for mg h h' u
    by (auto simp: checkRSAPSSMGF_ossl_def split: if_split_asm)
  assume k: "keyBits K k2 = keyBits K k1"
  { assume "pssOptions K opn k1 h pss = ok opt"
    then obtain d l where "keyBits K k1 = pssKeySizeBits pss"
      and a: "checkRSAPSSMGF_ossl K opn (pssMgf pss) h (pssMgfHash pss) = Inr ()" "rsaHashName K opn h = Inr d"
        "rsaPSSSaltLength_ossl K opn (pssSaltMode pss) (pssSaltBytes pss) = Inr l"
        "opt = no_sign_options\<lparr>soDigest := d, soPadding := RSAPSS, soSaltLen := l\<rparr>"
      by (auto simp: pssOptions_def)
    then show "pssOptions K opn' k2 h pss = ok opt \<and> opt\<lparr>soDeterministic := False\<rparr> = opt"
      using k m [OF a(1)] ossl_op(4) [OF a(2)] ossl_op(5) [OF a(3)] by (simp add: pssOptions_def no_sign_options_def) }
  { assume "pkcs1Options K opn k1 h pk = ok opt"
    then obtain d where "keyBits K k1 = pkKeySizeBits pk"
      and a: "rsaHashName K opn h = Inr d" "opt = no_sign_options\<lparr>soDigest := d, soPadding := RSAPKCS1v15\<rparr>"
      by (auto simp: pkcs1Options_def)
    then show "pkcs1Options K opn' k2 h pk = ok opt \<and> opt\<lparr>soDeterministic := False\<rparr> = opt"
      using k ossl_op(4) [OF a(1)] by (simp add: pkcs1Options_def no_sign_options_def) }
qed

lemma stored_pair:
  assumes "ossl_ok K" "osslGenerateKey K e a opt = Inr k" "marshalSPKI K k = Inr pub" "marshalPKCS8 K k = Inr priv"
  obtains k1 k2 where "\<And>opn. parsePrivateKey K opn priv PRIV_PKCS8 = ok k1" "\<And>opn. parsePublicKey K opn pub PUB_SPKI = ok k2"
    "private_handle K k k1" "public_handle K k k2" "keyType K k1 = a" "keyType K k2 = a" "keyBits K k2 = keyBits K k1"
proof -
  obtain k1 where k1: "\<And>opn. parsePrivateKey K opn priv PRIV_PKCS8 = ok k1" "private_handle K k k1" "keyType K k1 = a"
    "keyBits K k1 = keyBits K k"
    using assms(4) by (rule_tac stored_private [OF assms(1,2), of PRIV_PKCS8 priv]) auto
  obtain k2 where "\<And>opn. parsePublicKey K opn pub PUB_SPKI = ok k2" "public_handle K k k2" "keyType K k2 = a"
    "keyBits K k2 = keyBits K k"
    by (rule stored_public [OF assms(1-3)]) (rule that)
  with k1 show thesis using that by simp
qed

lemma generateRSAKeyForTemplate_osslE:
  assumes "ossl_ok K" "generateRSAKeyForTemplate K e alg n = ok (pub, priv)"
  obtains k k1 k2 where "\<And>opn. parsePrivateKey K opn priv PRIV_PKCS8 = ok k1" "\<And>opn. parsePublicKey K opn pub PUB_SPKI = ok k2"
    "private_handle K k k1" "public_handle K k k2" "keyBits K k2 = keyBits K k1"
proof -
  from assms(2) obtain a k where "osslGenerateKey K e a (WithRSABits n) = Inr k" "marshalSPKI K k = Inr pub"
    "marshalPKCS8 K k = Inr priv"
    by (auto simp: generateRSAKeyForTemplate_def generateRSAKey_ossl_def Let_def)
  then show thesis by (rule stored_pair [OF assms(1)]) (rule that)
qed

lemma keyAlgorithmFor_safe [simp]: "keyAlgorithmFor K opn alg \<noteq> None"
  by (auto simp: keyAlgorithmFor_def split: option.split algorithm_details.split)

interpretation ossl_pss: signature_scheme ossl_ok "\<lambda>(penc, qenc, p). penc = PRIV_PKCS8 \<and> qenc = PUB_SPKI"
  "\<lambda>K e (penc, qenc, p). generateRSAKeyForTemplate K e (Some (AlgRsaPss p)) (pssKeySizeBits p)"
  "\<lambda>K e priv m (penc, qenc, p). signRSAPSS_ossl K e priv m penc p"
  "\<lambda>K pub m sig (penc, qenc, p). verifyRSAPSS_ossl K pub m sig qenc p"
proof (unfold_locales, goal_cases)
  case (1 K p e pub priv e' m sig)
  obtain penc qenc q where p: "p = (penc, qenc, q)" by (cases p)
  with 1 have enc: "penc = PRIV_PKCS8" "qenc = PUB_SPKI" by auto
  from 1(3) obtain k k1 k2 where k: "\<And>opn. parsePrivateKey K opn priv PRIV_PKCS8 = ok k1" "\<And>opn. parsePublicKey K opn pub PUB_SPKI = ok k2"
    "private_handle K k k1" "public_handle K k k2" "keyBits K k2 = keyBits K k1"
    by (auto simp: p elim: generateRSAKeyForTemplate_osslE [OF 1(1)])
  from 1(4) obtain opt where d: "pssOptions K ''openssl.signRSAPSS'' k1 (pssHash q) q = ok opt"
    "keySign K e' k1 m opt = Inr sig"
    by (auto simp: p enc k signRSAPSS_ossl_def Let_def)
  show ?case using signature_accepted(1) [OF 1(1) k(3,4) d(2)] k(1,2) rsaOptions_op(1) [OF d(1) k(5)]
    by (simp add: p enc verifyRSAPSS_ossl_def Let_def)
next
  case (2 K pub m sig p err sig')
  obtain penc qenc q where p: "p = (penc, qenc, q)" by (cases p)
  from 2(2) show ?case unfolding p split_conv verifyRSAPSS_ossl_def Let_def
    by (elim orReturn_fails_cong) (rule verifyOutcome_verdict(1) [OF 2(1)])
qed (auto simp: signRSAPSS_ossl_def verifyRSAPSS_ossl_def generateRSAKeyForTemplate_def generateRSAKey_ossl_def Let_def)

interpretation ossl_pss_digest: signature_scheme ossl_ok "\<lambda>(penc, qenc, h, p). penc = PRIV_PKCS8 \<and> qenc = PUB_SPKI"
  "\<lambda>K e (penc, qenc, h, p). generateRSAKeyForTemplate K e (Some (AlgRsaPss p)) (pssKeySizeBits p)"
  "\<lambda>K e priv m (penc, qenc, h, p). signRSAPSSDigest_ossl K e priv m penc h p"
  "\<lambda>K pub m sig (penc, qenc, h, p). verifyRSAPSSDigest_ossl K pub m sig qenc h p"
proof (unfold_locales, goal_cases)
  case (1 K p e pub priv e' m sig)
  obtain penc qenc h q where p: "p = (penc, qenc, h, q)" by (cases p)
  with 1 have enc: "penc = PRIV_PKCS8" "qenc = PUB_SPKI" by auto
  from 1(3) obtain k k1 k2 where k: "\<And>opn. parsePrivateKey K opn priv PRIV_PKCS8 = ok k1" "\<And>opn. parsePublicKey K opn pub PUB_SPKI = ok k2"
    "private_handle K k k1" "public_handle K k k2" "keyBits K k2 = keyBits K k1"
    by (auto simp: p elim: generateRSAKeyForTemplate_osslE [OF 1(1)])
  from 1(4) obtain opt where d: "pssOptions K ''openssl.signRSAPSSDigest'' k1 h q = ok opt"
    "keySignDigest K e' k1 m opt = Inr sig"
    by (auto simp: p enc k signRSAPSSDigest_ossl_def Let_def)
  show ?case using signature_accepted(2) [OF 1(1) k(3,4) d(2)] k(1,2) rsaOptions_op(1) [OF d(1) k(5)]
    by (simp add: p enc verifyRSAPSSDigest_ossl_def Let_def)
next
  case (2 K pub m sig p err sig')
  obtain penc qenc h q where p: "p = (penc, qenc, h, q)" by (cases p)
  from 2(2) show ?case unfolding p split_conv verifyRSAPSSDigest_ossl_def Let_def
    by (elim orReturn_fails_cong) (rule verifyOutcome_verdict(2) [OF 2(1)])
qed (auto simp: signRSAPSSDigest_ossl_def verifyRSAPSSDigest_ossl_def generateRSAKeyForTemplate_def generateRSAKey_ossl_def Let_def)

interpretation ossl_pkcs1: signature_scheme ossl_ok "\<lambda>(penc, qenc, p). penc = PRIV_PKCS8 \<and> qenc = PUB_SPKI"
  "\<lambda>K e (penc, qenc, p). generateRSAKeyForTemplate K e (Some (AlgRsaPkcs1V15 p)) (pkKeySizeBits p)"
  "\<lambda>K e priv m (penc, qenc, p). signRSAPKCS1v15_ossl K e priv m penc p"
  "\<lambda>K pub m sig (penc, qenc, p). verifyRSAPKCS1v15_ossl K pub m sig qenc p"
proof (unfold_locales, goal_cases)
  case (1 K p e pub priv e' m sig)
  obtain penc qenc q where p: "p = (penc, qenc, q)" by (cases p)
  with 1 have enc: "penc = PRIV_PKCS8" "qenc = PUB_SPKI" by auto
  from 1(3) obtain k k1 k2 where k: "\<And>opn. parsePrivateKey K opn priv PRIV_PKCS8 = ok k1" "\<And>opn. parsePublicKey K opn pub PUB_SPKI = ok k2"
    "private_handle K k k1" "public_handle K k k2" "keyBits K k2 = keyBits K k1"
    by (auto simp: p elim: generateRSAKeyForTemplate_osslE [OF 1(1)])
  from 1(4) obtain opt where d: "pkcs1Options K ''openssl.signRSAPKCS1v15'' k1 (pkHash q) q = ok opt"
    "keySign K e' k1 m opt = Inr sig"
    by (auto simp: p enc k signRSAPKCS1v15_ossl_def Let_def)
  show ?case using signature_accepted(1) [OF 1(1) k(3,4) d(2)] k(1,2) rsaOptions_op(2) [OF d(1) k(5)]
    by (simp add: p enc verifyRSAPKCS1v15_ossl_def Let_def)
next
  case (2 K pub m sig p err sig')
  obtain penc qenc q where p: "p = (penc, qenc, q)" by (cases p)
  from 2(2) show ?case unfolding p split_conv verifyRSAPKCS1v15_ossl_def Let_def
    by (elim orReturn_fails_cong) (rule verifyOutcome_verdict(1) [OF 2(1)])
qed (auto simp: signRSAPKCS1v15_ossl_def verifyRSAPKCS1v15_ossl_def generateRSAKeyForTemplate_def generateRSAKey_ossl_def Let_def)

interpretation ossl_pkcs1_digest: signature_scheme ossl_ok "\<lambda>(penc, qenc, h, p). penc = PRIV_PKCS8 \<and> qenc = PUB_SPKI"
  "\<lambda>K e (penc, qenc, h, p). generateRSAKeyForTemplate K e (Some (AlgRsaPkcs1V15 p)) (pkKeySizeBits p)"
  "\<lambda>K e priv m (penc, qenc, h, p). signRSAPKCS1v15Digest_ossl K e priv m penc h p"
  "\<lambda>K pub m sig (penc, qenc, h, p). verifyRSAPKCS1v15Digest_ossl K pub m sig qenc h p"
proof (unfold_locales, goal_cases)
  case (1 K p e pub priv e' m sig)
  obtain penc qenc h q where p: "p = (penc, qenc, h, q)" by (cases p)
  with 1 have enc: "penc = PRIV_PKCS8" "qenc = PUB_SPKI" by auto
  from 1(3) obtain k k1 k2 where k: "\<And>opn. parsePrivateKey K opn priv PRIV_PKCS8 = ok k1" "\<And>opn. parsePublicKey K opn pub PUB_SPKI = ok k2"
    "private_handle K k k1" "public_handle K k k2" "keyBits K k2 = keyBits K k1"
    by (auto simp: p elim: generateRSAKeyForTemplate_osslE [OF 1(1)])
  from 1(4) obtain opt where d: "pkcs1Options K ''openssl.signRSAPKCS1v15Digest'' k1 h q = ok opt"
    "keySignDigest K e' k1 m opt = Inr sig"
    by (auto simp: p enc k signRSAPKCS1v15Digest_ossl_def Let_def)
  show ?case using signature_accepted(2) [OF 1(1) k(3,4) d(2)] k(1,2) rsaOptions_op(2) [OF d(1) k(5)]
    by (simp add: p enc verifyRSAPKCS1v15Digest_ossl_def Let_def)
next
  case (2 K pub m sig p err sig')
  obtain penc qenc h q where p: "p = (penc, qenc, h, q)" by (cases p)
  from 2(2) show ?case unfolding p split_conv verifyRSAPKCS1v15Digest_ossl_def Let_def
    by (elim orReturn_fails_cong) (rule verifyOutcome_verdict(2) [OF 2(1)])
qed (auto simp: signRSAPKCS1v15Digest_ossl_def verifyRSAPKCS1v15Digest_ossl_def generateRSAKeyForTemplate_def generateRSAKey_ossl_def Let_def)

text \<open>Ed25519, ph included, which the message operations of this provider also reach.\<close>

lemma generateEd25519Key_osslE:
  assumes "ossl_ok K" "generateEd25519Key_ossl K e = ok (pub, priv)"
  obtains k k1 k2 where "\<And>opn. parsePrivateKey K opn priv PRIV_PKCS8 = ok k1" "\<And>opn. parsePublicKey K opn pub PUB_SPKI = ok k2"
    "private_handle K k k1" "public_handle K k k2" "keyType K k1 = OsslEd25519" "keyType K k2 = OsslEd25519"
proof -
  from assms(2) obtain k where "osslGenerateKey K e OsslEd25519 NoKeyOption = Inr k" "marshalSPKI K k = Inr pub"
    "marshalPKCS8 K k = Inr priv"
    by (auto simp: generateEd25519Key_ossl_def Let_def)
  then show thesis by (rule stored_pair [OF assms(1)]) (rule that)
qed

interpretation ossl_ed25519: signature_scheme ossl_ok "\<lambda>(penc, qenc, v). penc = PRIV_PKCS8 \<and> qenc = PUB_SPKI"
  "\<lambda>K e (penc, qenc, v). generateEd25519Key_ossl K e"
  "\<lambda>K e priv m (penc, qenc, v). signEd25519_ossl K e priv m penc v"
  "\<lambda>K pub m sig (penc, qenc, v). verifyEd25519_ossl K pub m sig qenc v"
proof (unfold_locales, goal_cases)
  case (1 K p e pub priv e' m sig)
  obtain penc qenc v where p: "p = (penc, qenc, v)" by (cases p)
  with 1 have enc: "penc = PRIV_PKCS8" "qenc = PUB_SPKI" by auto
  from 1(3) obtain k k1 k2 where k: "\<And>opn. parsePrivateKey K opn priv PRIV_PKCS8 = ok k1" "\<And>opn. parsePublicKey K opn pub PUB_SPKI = ok k2"
    "private_handle K k k1" "public_handle K k k2" "keyType K k1 = OsslEd25519" "keyType K k2 = OsslEd25519"
    by (auto simp: p elim: generateEd25519Key_osslE [OF 1(1)])
  from 1(4) have v: "v \<in> {ED25519_UNSPECIFIED, ED25519_PURE, ED25519_PH}"
    and d: "keySign K e' k1 m (no_sign_options\<lparr>soPrehash := (v = ED25519_PH)\<rparr>) = Inr sig"
    by (auto simp: p enc k signEd25519_ossl_def Let_def)
  show ?case using signature_accepted(1) [OF 1(1) k(3,4) d] k(2,6) v by (simp add: p enc verifyEd25519_ossl_def Let_def)
next
  case (2 K pub m sig p err sig')
  obtain penc qenc v where p: "p = (penc, qenc, v)" by (cases p)
  from 2(2) show ?case unfolding p split_conv verifyEd25519_ossl_def Let_def
    by (elim orReturn_fails_cong) (rule verifyOutcome_verdict(1) [OF 2(1)])
qed (auto simp: signEd25519_ossl_def verifyEd25519_ossl_def generateEd25519Key_ossl_def Let_def)

interpretation ossl_ed25519ph: signature_scheme ossl_ok "\<lambda>(penc, qenc, h). penc = PRIV_PKCS8 \<and> qenc = PUB_SPKI"
  "\<lambda>K e (penc, qenc, h). generateEd25519Key_ossl K e"
  "\<lambda>K e priv m (penc, qenc, h). signEd25519PHDigest_ossl K e priv m penc h"
  "\<lambda>K pub m sig (penc, qenc, h). verifyEd25519PHDigest_ossl K pub m sig qenc h"
proof (unfold_locales, goal_cases)
  case (1 K p e pub priv e' m sig)
  obtain penc qenc h where p: "p = (penc, qenc, h)" by (cases p)
  with 1 have enc: "penc = PRIV_PKCS8" "qenc = PUB_SPKI" by auto
  from 1(3) obtain k k1 k2 where k: "\<And>opn. parsePrivateKey K opn priv PRIV_PKCS8 = ok k1" "\<And>opn. parsePublicKey K opn pub PUB_SPKI = ok k2"
    "private_handle K k k1" "public_handle K k k2" "keyType K k1 = OsslEd25519" "keyType K k2 = OsslEd25519"
    by (auto simp: p elim: generateEd25519Key_osslE [OF 1(1)])
  from 1(4) have h: "h = HASH_UNSPECIFIED \<or> h = HASH_SHA512"
    and d: "keySignDigest K e' k1 m (no_sign_options\<lparr>soPrehash := True\<rparr>) = Inr sig"
    by (auto simp: p enc k signEd25519PHDigest_ossl_def Let_def)
  show ?case using signature_accepted(2) [OF 1(1) k(3,4) d] k(2,6) h by (simp add: p enc verifyEd25519PHDigest_ossl_def Let_def)
next
  case (2 K pub m sig p err sig')
  obtain penc qenc h where p: "p = (penc, qenc, h)" by (cases p)
  from 2(2) show ?case unfolding p split_conv verifyEd25519PHDigest_ossl_def Let_def
    by (elim orReturn_fails_cong) (rule verifyOutcome_verdict(2) [OF 2(1)])
qed (auto simp: signEd25519PHDigest_ossl_def verifyEd25519PHDigest_ossl_def generateEd25519Key_ossl_def Let_def)

interpretation ossl_mldsa: signature_scheme ossl_ok "\<lambda>(penc, c, p). penc = PRIV_PKCS8"
  "\<lambda>K e (penc, c, p). generateMLDSAKey_ossl K e (mlParameterSet p)"
  "\<lambda>K e priv m (penc, c, p). signMLDSA_ossl K e priv m c penc (mlParameterSet p) (mlDeterministic p)"
  "\<lambda>K pub m sig (penc, c, p). verifyMLDSA_ossl K pub m sig c (mlParameterSet p)"
proof (unfold_locales, goal_cases)
  case (1 K p e pub priv e' m sig)
  obtain penc c q where p: "p = (penc, c, q)" by (cases p)
  with 1 have enc: "penc = PRIV_PKCS8" by auto
  from 1(3) obtain a cv k where g: "mlDSAKeyAlgorithmFor K ''openssl.generateMLDSAKey'' (mlParameterSet q) = Inr (a, cv)"
    "osslGenerateKey K e a NoKeyOption = Inr k" "marshalRawPublicKey K k = Inr pub" "marshalPKCS8 K k = Inr priv"
    by (auto simp: p generateMLDSAKey_ossl_def Let_def)
  obtain k1 where k1: "\<And>opn. parsePrivateKey K opn priv PRIV_PKCS8 = ok k1" "private_handle K k k1" "keyType K k1 = a"
    using g(4) by (rule_tac stored_private [OF 1(1) g(2), of PRIV_PKCS8 priv]) auto
  obtain k2 where k2: "parseRawPublicKey K a pub = Inr k2" "public_handle K k k2" "keyType K k2 = a"
    by (rule stored_raw_public [OF 1(1) g(2,3)])
  from 1(4) have c: "length c \<le> mldsaMaxContextLen_ossl"
    and d: "keySign K e' k1 m (no_sign_options\<lparr>soContext := Some c, soDeterministic := mlDeterministic q\<rparr>) = Inr sig"
    by (auto simp: p enc k1 signMLDSA_ossl_def Let_def ossl_op(3) [OF g(1)])
  show ?case using signature_accepted(1) [OF 1(1) k1(2) k2(2) d] k2 c
    by (simp add: p verifyMLDSA_ossl_def Let_def ossl_op(3) [OF g(1)])
next
  case (2 K pub m sig p err sig')
  obtain penc c q where p: "p = (penc, c, q)" by (cases p)
  from 2(2) show ?case unfolding p split_conv verifyMLDSA_ossl_def Let_def
    by (elim orReturn_fails_cong orWrap_fails_cong) (clarsimp, elim orReturn_fails_cong orWrap_fails_cong, rule verifyOutcome_verdict(1) [OF 2(1)])
qed (auto simp: signMLDSA_ossl_def verifyMLDSA_ossl_def generateMLDSAKey_ossl_def Let_def)

end
