(* ===== verification/Openssl_Context.thy ===== *)
theory Openssl_Context
  imports Openssl_Provider
begin

text \<open>
  Construction of an OpenSSL provider (\<open>New\<close>, \<open>options.go\<close>) and the algorithms it advertises
  (\<open>capability.go\<close>). \<open>'x\<close> is the type of a library context; \<open>ossl_lib\<close> holds the functions of
  \<open>ossl-go\<close> that make and ask one. \<open>New\<close> returns, beside the provider, the contexts it closed.
\<close>

datatype capability =
    SignatureCapability ossl_key_algorithm ossl_curve ossl_digest bool
  | AEADCapability ossl_cipher_name
  | CipherCapability ossl_cipher_name ossl_padding

record 'x ossl_lib =
  libCheckVersion :: "error option"
  libVersion :: string
  libNewContext :: "'x result"
  libNewFIPSContext :: "string \<Rightarrow> 'x result"
  libFIPSEnabled :: "'x \<Rightarrow> bool"
  libSupports :: "'x \<Rightarrow> capability \<Rightarrow> error option"
  libVerifyCapability :: "'x \<Rightarrow> capability option \<Rightarrow> error option"

section \<open>The catalogue\<close>

text \<open>A Go map; its iteration order is not fixed, which the sorted results do not show.\<close>

definition catalog :: "(string \<times> capability) list" where
  "catalog =
     [(''ecdsa-p256-sha256-der'', SignatureCapability OsslEC OsslP256 OsslSHA256 False),
      (''ecdsa-p384-sha384-der'', SignatureCapability OsslEC OsslP384 OsslSHA384 False),
      (''ecdsa-p521-sha512-der'', SignatureCapability OsslEC OsslP521 OsslSHA512 False),
      (''rsa-pss-sha256-mgf1-32-2048'', SignatureCapability OsslRSA NoCurve OsslSHA256 False),
      (''rsa-pss-sha256-mgf1-32-3072'', SignatureCapability OsslRSA NoCurve OsslSHA256 False),
      (''rsa-pss-sha384-mgf1-48-4096'', SignatureCapability OsslRSA NoCurve OsslSHA384 False),
      (''rsa-pkcs1v15-sha256-2048'', SignatureCapability OsslRSA NoCurve OsslSHA256 False),
      (''ed25519'', SignatureCapability OsslEd25519 NoCurve NoDigest False),
      (''ed25519ph'', SignatureCapability OsslEd25519 NoCurve NoDigest True),
      (''ml-dsa-44'', SignatureCapability OsslMLDSA44 NoCurve NoDigest False),
      (''ml-dsa-65'', SignatureCapability OsslMLDSA65 NoCurve NoDigest False),
      (''ml-dsa-87'', SignatureCapability OsslMLDSA87 NoCurve NoDigest False),
      (''aes-128-gcm-128-96'', AEADCapability AES128GCM),
      (''aes-192-gcm-128-96'', AEADCapability AES192GCM),
      (''aes-256-gcm-128-96'', AEADCapability AES256GCM),
      (''chacha20-poly1305'', AEADCapability OsslChaCha20Poly1305),
      (''aes-128-cbc-pkcs7-128'', CipherCapability AES128CBC PaddingPKCS7),
      (''aes-192-cbc-pkcs7-128'', CipherCapability AES192CBC PaddingPKCS7),
      (''aes-256-cbc-pkcs7-128'', CipherCapability AES256CBC PaddingPKCS7),
      (''aes-128-ctr'', CipherCapability AES128CTR NoPadding),
      (''aes-192-ctr'', CipherCapability AES192CTR NoPadding),
      (''aes-256-ctr'', CipherCapability AES256CTR NoPadding)]"

definition deriveAlgorithms :: "'x ossl_lib \<Rightarrow> 'x \<Rightarrow> (string \<times> capability) list \<Rightarrow> string list" where
  "deriveAlgorithms L libctx table = sort (map fst (filter (\<lambda>(_, cap). libSupports L libctx cap = None) table))"

section \<open>Construction\<close>

record ossl_config =
  cfName :: string
  cfFipsConfigPath :: string

datatype ossl_option = WithName string | WithFIPS string

fun applyOption :: "ossl_config \<Rightarrow> ossl_option \<Rightarrow> ossl_config" where
  "applyOption c (WithName name) = c\<lparr>cfName := name\<rparr>"
| "applyOption c (WithFIPS configPath) = c\<lparr>cfFipsConfigPath := configPath\<rparr>"

definition defaultName :: string where "defaultName = ''openssl''"

record 'x ossl_provider =
  opName :: string
  opLibctx :: 'x
  opAlgs :: "string list"

definition configOf :: "ossl_option list \<Rightarrow> ossl_config" where
  "configOf opts = foldl applyOption \<lparr>cfName = defaultName, cfFipsConfigPath = []\<rparr> opts"

definition New_ossl :: "'x ossl_lib \<Rightarrow> ossl_option list \<Rightarrow> 'x ossl_provider result \<times> 'x list" where
  "New_ossl L opts =
     (let opn = ''openssl.New'' in
      case libCheckVersion L of
        Some er \<Rightarrow> (Inl (ErrWrap opn None er), [])
      | None \<Rightarrow>
        let cfg = configOf opts;
            made = (if cfFipsConfigPath cfg \<noteq> [] then libNewFIPSContext L (cfFipsConfigPath cfg) else libNewContext L)
        in case made of
             Inl er \<Rightarrow> (Inl (ErrWrap opn None er), [])
           | Inr libctx \<Rightarrow>
               if cfFipsConfigPath cfg \<noteq> [] \<and> \<not> libFIPSEnabled L libctx then
                 (Inl (ErrNew opn CodeUnavailable
                    ''FIPS context construction reported success but the context is not FIPS-restricted''), [libctx])
               else
                 (Inr \<lparr>opName = cfName cfg, opLibctx = libctx, opAlgs = deriveAlgorithms L libctx catalog\<rparr>, []))"

definition Name_ossl :: "'x ossl_provider \<Rightarrow> string" where "Name_ossl p = opName p"
definition Type_ossl :: string where "Type_ossl = ''openssl''"

definition FIPSEnabled_ossl :: "'x ossl_lib \<Rightarrow> 'x ossl_provider \<Rightarrow> bool" where
  "FIPSEnabled_ossl L p = libFIPSEnabled L (opLibctx p)"

definition SupportedAlgorithms_ossl :: "'x ossl_provider \<Rightarrow> string list" where
  "SupportedAlgorithms_ossl p = opAlgs p"

text \<open>
  \<open>VerifyCapabilities\<close> stops at the first algorithm that fails; \<open>%q\<close> of a catalogue id needs no
  escaping. An id the catalogue lacks would be looked up as the nil capability.
\<close>

fun verifyEach :: "'x ossl_lib \<Rightarrow> 'x \<Rightarrow> string list \<Rightarrow> unit result" where
  "verifyEach L libctx [] = Inr ()"
| "verifyEach L libctx (i # ids) =
     (case libVerifyCapability L libctx (map_of catalog i) of
        Some er \<Rightarrow>
          Inl (ErrWrap ''openssl.(Provider).VerifyCapabilities''
            (Some (''algorithm '' @ CHR 0x22 # i @ [CHR 0x22])) er)
      | None \<Rightarrow> verifyEach L libctx ids)"

definition VerifyCapabilities :: "'x ossl_lib \<Rightarrow> 'x ossl_provider \<Rightarrow> unit result" where
  "VerifyCapabilities L p = verifyEach L (opLibctx p) (opAlgs p)"

section \<open>Description\<close>

definition fips140Certification :: fips140 where
  "fips140Certification = \<lparr>fcCertified = True, fcLevel = 1\<rparr>"

definition implementationProperties :: "bool \<Rightarrow> implementation_properties" where
  "implementationProperties fipsEnabled =
     \<lparr>ipLanguage = ''c'', ipMemorySafe = Some False, ipHardwareAccelerated = Some True,
      ipFips140 = (if fipsEnabled then Some fips140Certification else None)\<rparr>"

definition ImplementationProperties_ossl :: "'x ossl_lib \<Rightarrow> 'x ossl_provider \<Rightarrow> implementation_properties" where
  "ImplementationProperties_ossl L p = implementationProperties (FIPSEnabled_ossl L p)"

definition ProviderInfo_ossl :: "'x ossl_lib \<Rightarrow> provider_info" where
  "ProviderInfo_ossl L =
     \<lparr>piName = ''OpenSSL libcrypto'', piVersion = libVersion L, piType = Type_ossl,
      piDescription = ''In-process software provider: OpenSSL 3 libcrypto through ossl-go, one instance per library context (default, FIPS).'',
      piProviderType = PROVIDER_TYPE_SOFTWARE, piDefault = Some (implementationProperties False)\<rparr>"

section \<open>What construction guarantees\<close>

lemma catalog_distinct: "distinct (map fst catalog)"
  by (simp add: catalog_def)

lemma deriveAlgorithms_exact:
  "set (deriveAlgorithms L x table) = {i. \<exists>cap. (i, cap) \<in> set table \<and> libSupports L x cap = None}"
  "sorted (deriveAlgorithms L x table)"
  "distinct (map fst table) \<Longrightarrow> distinct (deriveAlgorithms L x table)"
  by (auto simp: deriveAlgorithms_def distinct_map_filter) force

lemma catalog_lookup: "map_of catalog i = Some cap \<longleftrightarrow> (i, cap) \<in> set catalog"
  by (rule map_of_eq_Some_iff [OF catalog_distinct])

text \<open>
  C14: A provider is built in the mode it was asked for, or not at all. With \<open>WithFIPS\<close>, a
  successful \<open>New\<close> is restricted to FIPS and says so; it never falls back to an unrestricted
  context. A failure leaves no context open. What it advertises is sorted, without repeats, and
  exactly the catalogue entries its own context supports.
\<close>

theorem New_ossl_mode:
  assumes "New_ossl L opts = (r, closed)"
  shows "(\<forall>p. r = Inr p \<longrightarrow> closed = [] \<and> Name_ossl p = cfName (configOf opts) \<and>
      (cfFipsConfigPath (configOf opts) \<noteq> [] \<longrightarrow>
         libNewFIPSContext L (cfFipsConfigPath (configOf opts)) = Inr (opLibctx p) \<and> FIPSEnabled_ossl L p \<and>
         ipFips140 (ImplementationProperties_ossl L p) = Some fips140Certification) \<and>
      sorted (SupportedAlgorithms_ossl p) \<and> distinct (SupportedAlgorithms_ossl p) \<and>
      set (SupportedAlgorithms_ossl p) =
        {i. \<exists>cap. map_of catalog i = Some cap \<and> libSupports L (opLibctx p) cap = None}) \<and>
    (\<forall>er x. r = Inl er \<and> libCheckVersion L = None \<and>
      (if cfFipsConfigPath (configOf opts) = [] then libNewContext L
       else libNewFIPSContext L (cfFipsConfigPath (configOf opts))) = Inr x \<longrightarrow> closed = [x])"
  using assms
  by (auto simp: New_ossl_def Let_def Name_ossl_def FIPSEnabled_ossl_def ImplementationProperties_ossl_def
      implementationProperties_def SupportedAlgorithms_ossl_def deriveAlgorithms_exact catalog_lookup catalog_distinct
      split: option.split_asm if_split_asm sum.split_asm)

lemma VerifyCapabilities_ok:
  "VerifyCapabilities L p = Inr () \<longleftrightarrow>
     (\<forall>i \<in> set (opAlgs p). libVerifyCapability L (opLibctx p) (map_of catalog i) = None)"
proof -
  have "verifyEach L x ids = Inr () \<longleftrightarrow> (\<forall>i \<in> set ids. libVerifyCapability L x (map_of catalog i) = None)" for x ids
    by (induction ids) (auto split: option.split)
  then show ?thesis by (simp add: VerifyCapabilities_def)
qed

definition demo_lib :: "bool ossl_lib" where
  "demo_lib = \<lparr>libCheckVersion = None, libVersion = ''3.5.0'', libNewContext = Inr False, libNewFIPSContext = (\<lambda>_. Inr True),
     libFIPSEnabled = (\<lambda>x. x), libSupports = (\<lambda>x cap. if x \<and> cap = AEADCapability OsslChaCha20Poly1305 then Some (ErrPlain ''fips'') else None),
     libVerifyCapability = (\<lambda>_ _. None)\<rparr>"

theorem New_ossl_mode_witness:
  "\<exists>p. fst (New_ossl demo_lib [WithName ''openssl-fips'', WithFIPS ''/etc/fips.cnf'']) = Inr p \<and> FIPSEnabled_ossl demo_lib p \<and>
     ''chacha20-poly1305'' \<notin> set (SupportedAlgorithms_ossl p) \<and> ''aes-128-ctr'' \<in> set (SupportedAlgorithms_ossl p)"
proof -
  let ?o = "[WithName ''openssl-fips'', WithFIPS ''/etc/fips.cnf'']"
  obtain p where p: "New_ossl demo_lib ?o = (Inr p, [])" "opLibctx p = True"
    by (simp add: New_ossl_def configOf_def demo_lib_def)
  have "map_of catalog ''aes-128-ctr'' = Some (CipherCapability AES128CTR NoPadding)"
    "map_of catalog ''chacha20-poly1305'' = Some (AEADCapability OsslChaCha20Poly1305)" by (simp_all add: catalog_def)
  then show ?thesis using New_ossl_mode [OF p(1)] p by (auto simp: configOf_def demo_lib_def)
qed

end
