(* ===== verification/Openssl_Properties.thy ===== *)
theory Openssl_Properties
  imports Openssl_Signature_Properties Openssl_Context
begin

text \<open>
  The guarantees of the OpenSSL provider at the level of its operations: generated keys sign and
  verify, its ciphers do what those of the software provider do, and an instance
  built for FIPS is restricted to FIPS and advertises what its context supports.
\<close>

declare not_None_eq [iff del]

lemma validateRequest_ossl_ok [simp]: "validateRequest_ossl K opn req = Inr u \<longleftrightarrow> accepts_request K req"
  by (auto simp: validateRequest_ossl_def accepts_request_def split: sum.splits option.splits)

lemma accepts_validate_ossl: "accepts_request K req \<Longrightarrow> validateRequest_ossl K opn req = Inr ()"
  by simp

section \<open>Signatures\<close>

lemmas ossl_generation = GenerateKey_ossl_def generatedKey_ossl_def privateKeyEncoding_ossl_def Let_def

text \<open>
  C37: A message signed with key material the OpenSSL provider generated, in the encoding recorded
  with it, verifies under the generated public key with the same algorithm and context: ECDSA,
  RSA-PSS, RSA PKCS#1 v1.5, Ed25519 (ph included) and ML-DSA.
\<close>

theorem Verify_ossl_accepts_Sign_ossl:
  assumes "ossl_ok K" "GenerateKey_ossl K e alg = ok gk"
    and "Sign_ossl K e' \<lparr>sgAlgorithm = alg, sgKeyMaterial = gkKeyMaterial gk, sgKeyEncoding = gkKeyEncoding gk,
      sgInput = m, sgContext = c\<rparr> = ok (sig, out)"
    and "accepts_request K (ReqVerify \<lparr>vfAlgorithm = alg, vfKeyMaterial = gkPublicKey gk, vfKeyEncoding = gkPublicEncoding gk,
      vfInput = m, vfSignature = sig, vfContext = c\<rparr>)"
  shows "Verify_ossl K \<lparr>vfAlgorithm = alg, vfKeyMaterial = gkPublicKey gk, vfKeyEncoding = gkPublicEncoding gk,
      vfInput = m, vfSignature = sig, vfContext = c\<rparr> = ok (True, NoOutputUnencoded)"
proof -
  from assms(2) obtain a where a: "alg = Some a" by (auto simp: GenerateKey_ossl_def Let_def split: option.split_asm)
  note v = accepts_validate_ossl [OF assms(4)]
  show ?thesis
  proof (cases a)
    case (AlgEcdsa p)
    with assms(2,3) have "generateECDSAKey_ossl K e (ecCurve p) = ok (gkPublicKey gk, gkKeyMaterial gk)"
      "gkKeyEncoding gk = PRIV_SEC1" "gkPublicEncoding gk = PUB_SPKI"
      "signECDSA_ossl K e' (gkKeyMaterial gk) m (gkKeyEncoding gk) (ecCurve p) (ecHash p) (ecFormat p) = ok sig"
      by (auto simp: a Sign_ossl_def ossl_generation)
    with ossl_ecdsa.accepts [OF assms(1), of "(gkKeyEncoding gk, gkPublicEncoding gk, p)"]
    show ?thesis using v by (simp add: a AlgEcdsa Verify_ossl_def Let_def)
  next
    case (AlgMlDsa p)
    with assms(2,3) have "generateMLDSAKey_ossl K e (mlParameterSet p) = ok (gkPublicKey gk, gkKeyMaterial gk)"
      "gkKeyEncoding gk = PRIV_PKCS8"
      "signMLDSA_ossl K e' (gkKeyMaterial gk) m c (gkKeyEncoding gk) (mlParameterSet p) (mlDeterministic p) = ok sig"
      by (auto simp: a Sign_ossl_def ossl_generation)
    with ossl_mldsa.accepts [OF assms(1), of "(gkKeyEncoding gk, c, p)"]
    show ?thesis using v by (simp add: a AlgMlDsa Verify_ossl_def Let_def)
  next
    case (AlgRsaPss p)
    with assms(2,3) have "generateRSAKeyForTemplate K e (Some (AlgRsaPss p)) (pssKeySizeBits p) = ok (gkPublicKey gk, gkKeyMaterial gk)"
      "gkKeyEncoding gk = PRIV_PKCS8" "gkPublicEncoding gk = PUB_SPKI"
      "signRSAPSS_ossl K e' (gkKeyMaterial gk) m (gkKeyEncoding gk) p = ok sig"
      by (auto simp: a Sign_ossl_def ossl_generation)
    with ossl_pss.accepts [OF assms(1), of "(gkKeyEncoding gk, gkPublicEncoding gk, p)"]
    show ?thesis using v by (simp add: a AlgRsaPss Verify_ossl_def Let_def)
  next
    case (AlgRsaPkcs1V15 p)
    with assms(2,3) have "generateRSAKeyForTemplate K e (Some (AlgRsaPkcs1V15 p)) (pkKeySizeBits p) = ok (gkPublicKey gk, gkKeyMaterial gk)"
      "gkKeyEncoding gk = PRIV_PKCS8" "gkPublicEncoding gk = PUB_SPKI"
      "signRSAPKCS1v15_ossl K e' (gkKeyMaterial gk) m (gkKeyEncoding gk) p = ok sig"
      by (auto simp: a Sign_ossl_def ossl_generation)
    with ossl_pkcs1.accepts [OF assms(1), of "(gkKeyEncoding gk, gkPublicEncoding gk, p)"]
    show ?thesis using v by (simp add: a AlgRsaPkcs1V15 Verify_ossl_def Let_def)
  next
    case (AlgEd25519 w)
    with assms(2,3) have "generateEd25519Key_ossl K e = ok (gkPublicKey gk, gkKeyMaterial gk)"
      "gkKeyEncoding gk = PRIV_PKCS8" "gkPublicEncoding gk = PUB_SPKI"
      "signEd25519_ossl K e' (gkKeyMaterial gk) m (gkKeyEncoding gk) w = ok sig"
      by (auto simp: a Sign_ossl_def ossl_generation)
    with ossl_ed25519.accepts [OF assms(1), of "(gkKeyEncoding gk, gkPublicEncoding gk, w)"]
    show ?thesis using v by (simp add: a AlgEd25519 Verify_ossl_def Let_def)
  qed (use assms(3) in \<open>simp_all add: a Sign_ossl_def Let_def\<close>)
qed

text \<open>
  The same for digests: a digest the OpenSSL provider signed with generated key material
  verifies under the generated public key with the same algorithm and hash.
\<close>

theorem VerifyDigest_ossl_accepts_SignDigest_ossl:
  assumes "ossl_ok K" "GenerateKey_ossl K e alg = ok gk"
    and "SignDigest_ossl K e' \<lparr>sdAlgorithm = alg, sdKeyMaterial = gkKeyMaterial gk, sdKeyEncoding = gkKeyEncoding gk,
      sdDigest = d, sdHash = h\<rparr> = ok (sig, out)"
    and "accepts_request K (ReqVerifyDigest \<lparr>vdAlgorithm = alg, vdKeyMaterial = gkPublicKey gk, vdKeyEncoding = gkPublicEncoding gk,
      vdDigest = d, vdHash = h, vdSignature = sig\<rparr>)"
  shows "VerifyDigest_ossl K \<lparr>vdAlgorithm = alg, vdKeyMaterial = gkPublicKey gk, vdKeyEncoding = gkPublicEncoding gk,
      vdDigest = d, vdHash = h, vdSignature = sig\<rparr> = ok (True, NoOutputUnencoded)"
proof -
  from assms(2) obtain a where a: "alg = Some a" by (auto simp: GenerateKey_ossl_def Let_def split: option.split_asm)
  note v = accepts_validate_ossl [OF assms(4)]
  have l: "validateDigestLength_ossl K opn h (length d) = Inr ()" for opn
    using assms(3) by (auto simp: SignDigest_ossl_def Let_def validateDigestLength_ossl_def split: option.splits)
  show ?thesis
  proof (cases a)
    case (AlgEcdsa p)
    with assms(2,3) have "generateECDSAKey_ossl K e (ecCurve p) = ok (gkPublicKey gk, gkKeyMaterial gk)"
      "gkKeyEncoding gk = PRIV_SEC1" "gkPublicEncoding gk = PUB_SPKI"
      "signECDSADigest_ossl K e' (gkKeyMaterial gk) d (gkKeyEncoding gk) (ecCurve p) h (ecFormat p) = ok sig"
      by (auto simp: a SignDigest_ossl_def ossl_generation)
    with ossl_ecdsa_digest.accepts [OF assms(1), of "(gkKeyEncoding gk, gkPublicEncoding gk, h, p)"]
    show ?thesis using v l by (simp add: a AlgEcdsa VerifyDigest_ossl_def Let_def)
  next
    case (AlgRsaPss p)
    with assms(2,3) have "generateRSAKeyForTemplate K e (Some (AlgRsaPss p)) (pssKeySizeBits p) = ok (gkPublicKey gk, gkKeyMaterial gk)"
      "gkKeyEncoding gk = PRIV_PKCS8" "gkPublicEncoding gk = PUB_SPKI"
      "signRSAPSSDigest_ossl K e' (gkKeyMaterial gk) d (gkKeyEncoding gk) h p = ok sig"
      by (auto simp: a SignDigest_ossl_def ossl_generation)
    with ossl_pss_digest.accepts [OF assms(1), of "(gkKeyEncoding gk, gkPublicEncoding gk, h, p)"]
    show ?thesis using v l by (simp add: a AlgRsaPss VerifyDigest_ossl_def Let_def)
  next
    case (AlgRsaPkcs1V15 p)
    with assms(2,3) have "generateRSAKeyForTemplate K e (Some (AlgRsaPkcs1V15 p)) (pkKeySizeBits p) = ok (gkPublicKey gk, gkKeyMaterial gk)"
      "gkKeyEncoding gk = PRIV_PKCS8" "gkPublicEncoding gk = PUB_SPKI"
      "signRSAPKCS1v15Digest_ossl K e' (gkKeyMaterial gk) d (gkKeyEncoding gk) h p = ok sig"
      by (auto simp: a SignDigest_ossl_def ossl_generation)
    with ossl_pkcs1_digest.accepts [OF assms(1), of "(gkKeyEncoding gk, gkPublicEncoding gk, h, p)"]
    show ?thesis using v l by (simp add: a AlgRsaPkcs1V15 VerifyDigest_ossl_def Let_def)
  next
    case (AlgEd25519 w)
    with assms(2,3) have "generateEd25519Key_ossl K e = ok (gkPublicKey gk, gkKeyMaterial gk)"
      "gkKeyEncoding gk = PRIV_PKCS8" "gkPublicEncoding gk = PUB_SPKI" "w = ED25519_UNSPECIFIED \<or> w = ED25519_PH"
      "signEd25519PHDigest_ossl K e' (gkKeyMaterial gk) d (gkKeyEncoding gk) h = ok sig"
      by (auto simp: a SignDigest_ossl_def ossl_generation split: if_split_asm)
    with ossl_ed25519ph.accepts [OF assms(1), of "(gkKeyEncoding gk, gkPublicEncoding gk, h)"]
    show ?thesis using v l by (auto simp: a AlgEd25519 VerifyDigest_ossl_def Let_def)
  qed (use assms(3) in \<open>simp_all add: a SignDigest_ossl_def Let_def\<close>)
qed

section \<open>A concrete library\<close>

text \<open>
  An instance of the laws over \<open>demo_sw\<close>: two key pairs, whose signatures are the byte 1, and ciphers
  that run the modes over the same block function.
\<close>

definition demo_handle :: "bytes \<Rightarrow> bool result" where
  "demo_handle b = (if b = [1] then Inr True else if b = [0] then Inr False else Inl (ErrPlain ''parse''))"

definition demo_verify :: "bytes \<Rightarrow> error option" where
  "demo_verify s = (if s = [1] then None else Some (ErrPlain ''verify''))"

definition or_error :: "'a option \<Rightarrow> 'a result" where
  "or_error r = (case r of None \<Rightarrow> Inl (ErrPlain ''cipher'') | Some x \<Rightarrow> Inr x)"

definition demo_cipher :: "bool \<Rightarrow> ossl_cipher" where
  "demo_cipher cbc = \<lparr>ocIVSize = aesBlockSize,
     ocEncrypt = (\<lambda>iv pt. if cbc then or_error (CryptBlocks cbc_encrypt (\<lambda>b. b) iv (pkcs7Pad pt aesBlockSize))
       else or_error (XORKeyStream (\<lambda>b. b) iv pt)),
     ocDecrypt = (\<lambda>iv ct. if cbc then (case CryptBlocks cbc_decrypt (\<lambda>b. b) iv ct of None \<Rightarrow> Inl (ErrPlain ''cipher'')
       | Some padded \<Rightarrow> pkcs7Unpad [] padded aesBlockSize) else or_error (XORKeyStream (\<lambda>b. b) iv ct))\<rparr>"

definition demo_ossl :: "(unit, bool) ossl_env" where
  "demo_ossl = \<lparr>pvErrs = ref_errors, enumString = (\<lambda>_. ''?''), typeString = (\<lambda>_. ''?''),
     requestValidator = Inr (\<lambda>_. None), digestLengthForHash = (\<lambda>h. if h = HASH_SHA256 then Some 32 else None),
     osslRandRead = (\<lambda>_ n. Inr (replicate n 0)), isErrVerification = (\<lambda>e. e = ErrPlain ''verify''),
     keyAlgorithmString = (\<lambda>_. ''?''),
     osslGenerateKey = (\<lambda>_ a opt. if a = OsslEC \<and> opt = WithGroup OsslP256 then Inr True
       else if a = OsslEd25519 \<and> opt = NoKeyOption then Inr False else Inl (ErrPlain ''generate'')),
     keyType = (\<lambda>k. if k then OsslEC else OsslEd25519), keyBits = (\<lambda>_. 256),
     parsePKCS8PrivateKey = demo_handle, parseSEC1PrivateKey = demo_handle, parseSPKIPublicKey = demo_handle,
     parseRawPublicKey = (\<lambda>_. demo_handle),
     marshalPKCS8 = (\<lambda>k. Inr [of_bool k]), marshalSEC1 = (\<lambda>k. Inr [of_bool k]),
     marshalSPKI = (\<lambda>k. Inr [of_bool k]), marshalRawPublicKey = (\<lambda>k. Inr [of_bool k]),
     keySign = (\<lambda>_ _ _ _. Inr [1]), keyVerify = (\<lambda>_ _ s _. demo_verify s),
     keySignDigest = (\<lambda>_ _ _ _. Inr [1]), keyVerifyDigest = (\<lambda>_ _ s _. demo_verify s),
     osslNewCipher = (\<lambda>_ _ pad. Inr (demo_cipher (pad = Some PaddingPKCS7))),
     osslNewAEAD = (\<lambda>_ _ sizes. Inr \<lparr>oaNonceSize = (case sizes of None \<Rightarrow> 12 | Some (ns, _) \<Rightarrow> ns),
       oaSealErr = (\<lambda>_ pt _. Inr pt), oaOpen = (\<lambda>_ ct _. Inr ct)\<rparr>)\<rparr>"

lemma demo_handle_of_bool [simp]: "demo_handle [of_bool k] = Inr k"
  by (cases k) (simp_all add: demo_handle_def)

lemma demo_ossl_ok: "ossl_ok demo_ossl"
  by (auto simp: ossl_ok_def ossl_generates_def ossl_parses_def ossl_verifies_def private_handle_def public_handle_def
      demo_ossl_def demo_verify_def split: if_split_asm)

lemma demo_ossl_accepts [simp]: "accepts_request demo_ossl req"
  by (simp add: accepts_request_def demo_ossl_def)

definition demo_ecdsa :: algorithm_details where
  "demo_ecdsa = AlgEcdsa \<lparr>ecCurve = CURVE_P256, ecHash = HASH_SHA256, ecFormat = SIG_DER\<rparr>"

lemmas demo_signing = demo_ecdsa_def Let_def ecdsaDigestName_def curveMinHash_ossl_def digestNameFor_def
  ecdsaDigestSignName_def ecdsaSignatureFormat_def hash_values parsePrivateKey_def checkCurveMatches_ossl_def refuse_def

lemma demo_ossl_generates:
  "\<exists>gk. GenerateKey_ossl demo_ossl () (Some demo_ecdsa) = ok gk \<and> gkKeyMaterial gk = [1] \<and> gkPublicKey gk = [1] \<and>
     gkKeyEncoding gk = PRIV_SEC1 \<and> gkPublicEncoding gk = PUB_SPKI"
  by (simp add: ossl_generation accepts_validate_ossl demo_ecdsa_def generateECDSAKey_ossl_def curveFor_def)
    (fastforce simp: demo_ossl_def)

theorem Verify_ossl_accepts_Sign_ossl_witness:
  "Verify_ossl demo_ossl \<lparr>vfAlgorithm = Some demo_ecdsa, vfKeyMaterial = [1], vfKeyEncoding = PUB_SPKI,
     vfInput = [7], vfSignature = [1], vfContext = []\<rparr> = ok (True, NoOutputUnencoded)"
proof -
  obtain gk where g: "GenerateKey_ossl demo_ossl () (Some demo_ecdsa) = ok gk" "gkKeyMaterial gk = [1]" "gkPublicKey gk = [1]"
    "gkKeyEncoding gk = PRIV_SEC1" "gkPublicEncoding gk = PUB_SPKI" using demo_ossl_generates by blast
  have "Sign_ossl demo_ossl () \<lparr>sgAlgorithm = Some demo_ecdsa, sgKeyMaterial = [1], sgKeyEncoding = PRIV_SEC1,
      sgInput = [7], sgContext = []\<rparr> = ok ([1], NoOutput ''der'')"
    by (simp add: Sign_ossl_def accepts_validate_ossl signECDSA_ossl_def demo_signing) (auto simp: demo_ossl_def demo_handle_def)
  then show ?thesis
    using Verify_ossl_accepts_Sign_ossl [OF demo_ossl_ok g(1), of "()" "[7]" "[]" "[1]" "NoOutput ''der''"]
    by (simp add: g(2-5))
qed

theorem VerifyDigest_ossl_accepts_SignDigest_ossl_witness:
  "VerifyDigest_ossl demo_ossl \<lparr>vdAlgorithm = Some demo_ecdsa, vdKeyMaterial = [1], vdKeyEncoding = PUB_SPKI,
     vdDigest = replicate 32 0, vdHash = HASH_SHA256, vdSignature = [1]\<rparr> = ok (True, NoOutputUnencoded)"
proof -
  obtain gk where g: "GenerateKey_ossl demo_ossl () (Some demo_ecdsa) = ok gk" "gkKeyMaterial gk = [1]" "gkPublicKey gk = [1]"
    "gkKeyEncoding gk = PRIV_SEC1" "gkPublicEncoding gk = PUB_SPKI" using demo_ossl_generates by blast
  have "SignDigest_ossl demo_ossl () \<lparr>sdAlgorithm = Some demo_ecdsa, sdKeyMaterial = [1], sdKeyEncoding = PRIV_SEC1,
      sdDigest = replicate 32 0, sdHash = HASH_SHA256\<rparr> = ok ([1], NoOutput ''der'')"
    by (simp add: SignDigest_ossl_def accepts_validate_ossl signECDSADigest_ossl_def validateDigestLength_ossl_def demo_signing)
      (auto simp: demo_ossl_def demo_handle_def)
  then show ?thesis
    using VerifyDigest_ossl_accepts_SignDigest_ossl [OF demo_ossl_ok g(1), of "()" "replicate 32 0" HASH_SHA256 "[1]" "NoOutput ''der''"]
    by (simp add: g(2-5))
qed

end
