(* ===== verification/Openssl_Interop.thy ===== *)
theory Openssl_Interop
  imports Openssl_Properties
begin

text \<open>
  The OpenSSL provider refines the software provider for symmetric keys: for every algorithm
  \<open>ossl-go\<close> has a name for, whatever the software provider generates, encrypts or decrypts, OpenSSL
  does too, with the same entropy byte for byte. OpenSSL accepts more: ChaCha20-Poly1305 parameters
  with an 8-byte nonce size, which it ignores, and AES-GCM with an 8-byte nonce and a short tag. What
  is assumed is that the instance offers the ciphers and that \<open>ossl-go\<close> computes the standard modes
  over AES (FIPS 197, SP 800-38A, SP 800-38D) and ChaCha20-Poly1305 (RFC 8439), as Go's libraries do.
\<close>

declare not_None_eq [iff del]

definition cbc_agrees :: "('e, 'y) sw_symmetric_scheme \<Rightarrow> ('e, 'k, 'z) osslK \<Rightarrow> bool" where
  "cbc_agrees S L \<longleftrightarrow> (\<forall>n name key. aesCBCNames n = Some name \<and> length key = n div 8 \<longrightarrow>
     (\<exists>c. osslNewCipher L name key (Some PaddingPKCS7) = Inr c \<and> ocIVSize c = aesBlockSize \<and>
        (\<forall>iv pt ct. CryptBlocks cbc_encrypt (aesEncryptBlock S key) iv (pkcs7Pad pt aesBlockSize) = Some ct \<longrightarrow>
           ocEncrypt c iv pt = Inr ct) \<and>
        (\<forall>opn iv ct padded pt. CryptBlocks cbc_decrypt (aesDecryptBlock S key) iv ct = Some padded \<and>
           pkcs7Unpad opn padded aesBlockSize = Inr pt \<longrightarrow> ocDecrypt c iv ct = Inr pt)))"

definition ctr_agrees :: "('e, 'y) sw_symmetric_scheme \<Rightarrow> ('e, 'k, 'z) osslK \<Rightarrow> bool" where
  "ctr_agrees S L \<longleftrightarrow> (\<forall>n name key. aesCTRNames n = Some name \<and> length key = n div 8 \<longrightarrow>
     (\<exists>c. osslNewCipher L name key None = Inr c \<and> ocIVSize c = aesBlockSize \<and>
        (\<forall>iv pt ct. XORKeyStream (aesEncryptBlock S key) iv pt = Some ct \<longrightarrow>
           ocEncrypt c iv pt = Inr ct \<and> ocDecrypt c iv pt = Inr ct)))"

text \<open>
  An AEAD of \<open>ossl-go\<close> that seals and opens as one of Go's libraries does. Contexts for AES-GCM are
  assumed for the nonce sizes of 8, 12 and 16 bytes only that the software provider admits.
\<close>

definition aead_agrees :: "aead \<Rightarrow> ossl_aead \<Rightarrow> bool" where
  "aead_agrees a b \<longleftrightarrow> oaNonceSize b = aeadNonceSize a \<and>
     (\<forall>nonce pt aad ct. Seal a nonce pt aad = Some ct \<longrightarrow> oaSealErr b nonce pt aad = Inr ct) \<and>
     (\<forall>nonce ct aad pt. Open a nonce ct aad = Some (Some pt) \<longrightarrow> oaOpen b nonce ct aad = Inr pt)"

definition aeads_agree :: "('e, 'y) sw_symmetric_scheme \<Rightarrow> ('e, 'k, 'z) osslK \<Rightarrow> bool" where
  "aeads_agree S L \<longleftrightarrow>
     (\<forall>n name key ns ts. aesGCMNames n = Some name \<and> length key = n div 8 \<and> ns \<in> {8, 12, 16} \<and> 12 \<le> ts \<and> ts \<le> 16 \<longrightarrow>
        (\<exists>b. osslNewAEAD L name key (Some (ns, ts)) = Inr b \<and> aead_agrees (gcmAead S key ns ts) b)) \<and>
     (\<forall>key a. length key = 32 \<and> chachaNew S key = Inr a \<longrightarrow>
        (\<exists>b. osslNewAEAD L OsslChaCha20Poly1305 key None = Inr b \<and> aead_agrees a b))"

text \<open>Both providers read \<open>crypto/rand\<close> and validate with \<open>protovalidate\<close>.\<close>

definition ciphers_agree :: "('e, 'y) sw_symmetric_scheme \<Rightarrow> ('e, 'k, 'z) osslK \<Rightarrow> bool" where
  "ciphers_agree S L \<longleftrightarrow> requestValidator S = requestValidator L \<and> randRead S = osslRandRead L \<and>
     (\<forall>e n bs. randRead S e n = Inr bs \<longrightarrow> length bs = n) \<and>
     cbc_agrees S L \<and> ctr_agrees S L \<and> aeads_agree S L"

lemma ciphers_agree_accepts: "ciphers_agree S L \<Longrightarrow> accepts_request S req \<longleftrightarrow> accepts_request L req"
  by (simp add: ciphers_agree_def accepts_request_def)

lemma aesCipherNameFor_ok [simp]: "aesCipherNameFor opn n table = Inr name \<longleftrightarrow> table n = Some name"
  by (auto simp: aesCipherNameFor_def split: option.split)

lemma ossl_param_checks [simp]:
  "checkAESCBCParamsValid_ossl L opn b p = Inr u \<longleftrightarrow> b = 128 \<and> p = PADDING_PKCS7"
  "checkAESCTRParamsValid_ossl opn a c = Inr u \<longleftrightarrow> a = 96 \<and> c = 32"
  "checkAESKeySize_ossl opn n = Inr u \<longleftrightarrow> n \<in> {128, 192, 256}"
  by (auto simp: checkAESCBCParamsValid_ossl_def checkAESCTRParamsValid_ossl_def checkAESKeySize_ossl_def)

section \<open>Mode by mode\<close>

lemma cbc_interop:
  assumes "ciphers_agree S L" "aesCBCNames (cbcKeySizeBits p) = Some name"
  shows "encryptAESCBC S e key pt p = ok (ct, iv) \<Longrightarrow> encryptAESCBC_ossl L e name key pt p = ok (ct, iv)"
    and "decryptAESCBC S key ct iv p = ok pt \<Longrightarrow> decryptAESCBC_ossl L name key ct iv p = ok pt"
proof -
  from assms have n: "cbc_agrees S L" "randRead S = osslRandRead L" by (simp_all add: ciphers_agree_def)
  have c: "\<exists>c. osslNewCipher L name key (Some PaddingPKCS7) = Inr c \<and> ocIVSize c = aesBlockSize \<and>
        (\<forall>iv pt ct. CryptBlocks cbc_encrypt (aesEncryptBlock S key) iv (pkcs7Pad pt aesBlockSize) = Some ct \<longrightarrow>
           ocEncrypt c iv pt = Inr ct) \<and>
        (\<forall>opn iv ct padded pt. CryptBlocks cbc_decrypt (aesDecryptBlock S key) iv ct = Some padded \<and>
           pkcs7Unpad opn padded aesBlockSize = Inr pt \<longrightarrow> ocDecrypt c iv ct = Inr pt)" if "length key = cbcKeySizeBits p div 8"
    using n(1) assms(2) that unfolding cbc_agrees_def by blast
  show "encryptAESCBC S e key pt p = ok (ct, iv) \<Longrightarrow> encryptAESCBC_ossl L e name key pt p = ok (ct, iv)"
    using c n(2) by (auto simp: encryptAESCBC_ok encryptAESCBC_ossl_def Let_def)
  assume d: "decryptAESCBC S key ct iv p = ok pt"
  then obtain padded where "length key = cbcKeySizeBits p div 8" "cbcIvSizeBits p = 128" "cbcPadding p = PADDING_PKCS7"
    "CryptBlocks cbc_decrypt (aesDecryptBlock S key) iv ct = Some padded"
    "pkcs7Unpad ''software.decryptAESCBC'' padded aesBlockSize = Inr pt"
    by (auto simp: decryptAESCBC_def Let_def split: if_split_asm option.split_asm)
  with c show "decryptAESCBC_ossl L name key ct iv p = ok pt"
    by (fastforce simp: decryptAESCBC_ossl_def Let_def)
qed

lemma ctr_interop:
  assumes "ciphers_agree S L" "aesCTRNames (ctrKeySizeBits p) = Some name"
  shows "encryptAESCTR S e key pt p = ok (ct, iv) \<Longrightarrow> encryptAESCTR_ossl L e name key pt p = ok (ct, iv)"
    and "decryptAESCTR S key ct iv p = ok pt \<Longrightarrow> decryptAESCTR_ossl L name key ct iv p = ok pt"
proof -
  from assms have n: "ctr_agrees S L" "osslRandRead L = randRead S" "\<And>e n bs. randRead S e n = Inr bs \<Longrightarrow> length bs = n"
    by (simp_all add: ciphers_agree_def)
  have c: "\<exists>c. osslNewCipher L name key None = Inr c \<and> ocIVSize c = aesBlockSize \<and>
        (\<forall>iv pt ct. XORKeyStream (aesEncryptBlock S key) iv pt = Some ct \<longrightarrow>
           ocEncrypt c iv pt = Inr ct \<and> ocDecrypt c iv pt = Inr ct)" if "length key = ctrKeySizeBits p div 8"
    using n(1) assms(2) that unfolding ctr_agrees_def by blast
  { assume "encryptAESCTR S e key pt p = ok (ct, iv)"
    then obtain nonce where r: "length key = ctrKeySizeBits p div 8" "ctrNonceSizeBits p = 96" "ctrCounterBits p = 32"
      "randRead S e 12 = Inr nonce" "iv = nonce @ replicate (aesBlockSize - length nonce) 0"
      "XORKeyStream (aesEncryptBlock S key) iv pt = Some ct"
      by (auto simp: encryptAESCTR_def Let_def not_None_eq split: option.split_asm)
    from c [OF r(1)] obtain c where "osslNewCipher L name key None = Inr c" "ocIVSize c = aesBlockSize" "ocEncrypt c iv pt = Inr ct"
      using r(6) by blast
    with r(2-5) n(3) [OF r(4)] show "encryptAESCTR_ossl L e name key pt p = ok (ct, iv)"
      by (simp add: encryptAESCTR_ossl_def Let_def n(2) aesBlockSize_def) }
  { assume "decryptAESCTR S key ct iv p = ok pt"
    then have "length key = ctrKeySizeBits p div 8" "ctrNonceSizeBits p = 96" "ctrCounterBits p = 32"
      "XORKeyStream (aesEncryptBlock S key) iv ct = Some pt"
      by (auto simp: decryptAESCTR_def Let_def split: option.split_asm)
    with c show "decryptAESCTR_ossl L name key ct iv p = ok pt" by (fastforce simp: decryptAESCTR_ossl_def Let_def) }
qed

lemma gcm_interop:
  assumes "ciphers_agree S L" "aesGCMNames (gcmKeySizeBits p) = Some name"
  shows "encryptAESGCM S e key pt aad p = ok (ct, nonce) \<Longrightarrow> encryptAESGCM_ossl L e name key pt aad p = ok (ct, nonce)"
    and "decryptAESGCM S key ct nonce aad p = ok pt \<Longrightarrow> decryptAESGCM_ossl L name key ct nonce aad p = ok pt"
proof -
  let ?a = "gcmAead S key (gcmIvSizeBits p div 8) (gcmTagSizeBits p div 8)"
  from assms have n: "aeads_agree S L" "randRead S = osslRandRead L" by (simp_all add: ciphers_agree_def)
  have c: "\<exists>b. osslNewAEAD L name key (Some (gcmIvSizeBits p div 8, gcmTagSizeBits p div 8)) = Inr b \<and> aead_agrees ?a b"
    if "length key = gcmKeySizeBits p div 8" "gcmIvSizeBits p \<in> {64, 96, 128}" "gcmTagSizeBits p \<in> {96, 104, 112, 120, 128}"
  proof -
    from that have "gcmIvSizeBits p div 8 \<in> {8, 12, 16}" "12 \<le> gcmTagSizeBits p div 8" "gcmTagSizeBits p div 8 \<le> 16" by auto
    then show ?thesis using n(1) assms(2) that(1) unfolding aeads_agree_def by blast
  qed
  { assume "encryptAESGCM S e key pt aad p = ok (ct, nonce)"
    then obtain a where k: "length key = gcmKeySizeBits p div 8"
      and g: "newAESGCM S ''software.encryptAESGCM'' key (gcmIvSizeBits p) (gcmTagSizeBits p) = ok a"
        "randRead S e (aeadNonceSize a) = Inr nonce" "Seal a nonce pt aad = Some ct"
      by (auto simp: encryptAESGCM_def Let_def not_None_eq split: option.split_asm)
    from g(1) have i: "a = ?a" "gcmIvSizeBits p \<in> {64, 96, 128}" "gcmTagSizeBits p \<in> {96, 104, 112, 120, 128}"
      unfolding newAESGCM_ok by blast+
    note r = k i(2,3) g(2,3) [unfolded i(1)]
    from c [OF r(1-3)] obtain b where b: "osslNewAEAD L name key (Some (gcmIvSizeBits p div 8, gcmTagSizeBits p div 8)) = Inr b"
      "aead_agrees ?a b" by blast
    with r show "encryptAESGCM_ossl L e name key pt aad p = ok (ct, nonce)"
      by (simp add: encryptAESGCM_ossl_def Let_def aead_agrees_def n(2)) }
  { assume "decryptAESGCM S key ct nonce aad p = ok pt"
    then obtain a where k: "length key = gcmKeySizeBits p div 8"
      and g: "newAESGCM S ''software.decryptAESGCM'' key (gcmIvSizeBits p) (gcmTagSizeBits p) = ok a"
        "length nonce = aeadNonceSize a" "Open a nonce ct aad = Some (Some pt)"
      by (auto simp: decryptAESGCM_def Let_def not_None_eq split: option.split_asm)
    from g(1) have i: "a = ?a" "gcmIvSizeBits p \<in> {64, 96, 128}" "gcmTagSizeBits p \<in> {96, 104, 112, 120, 128}"
      unfolding newAESGCM_ok by blast+
    note r = k i(2,3) g(2,3) [unfolded i(1)]
    from c [OF r(1-3)] obtain b where b: "osslNewAEAD L name key (Some (gcmIvSizeBits p div 8, gcmTagSizeBits p div 8)) = Inr b"
      "aead_agrees ?a b" by blast
    with r show "decryptAESGCM_ossl L name key ct nonce aad p = ok pt"
      by (simp add: decryptAESGCM_ossl_def Let_def aead_agrees_def) }
qed

lemma chacha_interop:
  assumes "ciphers_agree S L" "\<not> ccExtendedNonce p"
  shows "encryptChaCha20Poly1305 S e key pt aad p = ok (ct, nonce) \<Longrightarrow> encryptChaCha20Poly1305_ossl L e key pt aad = ok (ct, nonce)"
    and "decryptChaCha20Poly1305 S key ct nonce aad p = ok pt \<Longrightarrow> decryptChaCha20Poly1305_ossl L key ct nonce aad = ok pt"
proof -
  from assms have n: "aeads_agree S L" "randRead S = osslRandRead L" by (simp_all add: ciphers_agree_def)
  have new: "chachaNew S key = Inr a" if "newChaCha20Poly1305 S opn key p = ok a" for opn a
    using that assms(2) by (auto simp: newChaCha20Poly1305_def split: if_split_asm)
  { assume "encryptChaCha20Poly1305 S e key pt aad p = ok (ct, nonce)"
    then obtain a where r: "length key = 32" "newChaCha20Poly1305 S ''software.encryptChaCha20Poly1305'' key p = ok a"
      "randRead S e (aeadNonceSize a) = Inr nonce" "Seal a nonce pt aad = Some ct"
      by (auto simp: encryptChaCha20Poly1305_def Let_def not_None_eq split: option.split_asm)
    with n(1) new [OF r(2)] obtain b where "osslNewAEAD L OsslChaCha20Poly1305 key None = Inr b" "aead_agrees a b"
      unfolding aeads_agree_def by blast
    with r show "encryptChaCha20Poly1305_ossl L e key pt aad = ok (ct, nonce)"
      by (simp add: encryptChaCha20Poly1305_ossl_def Let_def aead_agrees_def n(2)) }
  { assume "decryptChaCha20Poly1305 S key ct nonce aad p = ok pt"
    then obtain a where r: "length key = 32" "newChaCha20Poly1305 S ''software.decryptChaCha20Poly1305'' key p = ok a"
      "length nonce = aeadNonceSize a" "Open a nonce ct aad = Some (Some pt)"
      by (auto simp: decryptChaCha20Poly1305_def Let_def not_None_eq split: option.split_asm)
    with n(1) new [OF r(2)] obtain b where "osslNewAEAD L OsslChaCha20Poly1305 key None = Inr b" "aead_agrees a b"
      unfolding aeads_agree_def by blast
    with r show "decryptChaCha20Poly1305_ossl L key ct nonce aad = ok pt"
      by (simp add: decryptChaCha20Poly1305_ossl_def Let_def aead_agrees_def) }
qed

lemma symmetric_key_interop:
  assumes "ciphers_agree S L" "cipherNameFor L opn alg = Inr name" "generateSymmetricKey S e alg = ok key"
  shows "generateSymmetricKey_ossl L e alg = ok key"
proof -
  have r: "osslRandRead L = randRead S" using assms(1) by (simp add: ciphers_agree_def)
  have "generateAESKey_ossl L e n = ok key" if "generateAESKey S e n = ok key" for n
    using that by (auto simp: generateAESKey_def generateAESKey_ossl_def Let_def r)
  moreover have "generateChaCha20Key_ossl L e = ok key" if "generateChaCha20Key S e = ok key"
    using that by (simp add: generateChaCha20Key_def generateChaCha20Key_ossl_def r)
  ultimately show ?thesis
    using assms(3)
    by (auto simp: generateSymmetricKey_def generateSymmetricKey_ossl_def split: option.split_asm algorithm_details.split_asm)
qed

section \<open>Operation by operation\<close>

text \<open>
  C38: For every symmetric algorithm \<open>ossl-go\<close> has a name for, whatever the software provider
  generates, encrypts or decrypts, the OpenSSL provider does too with the same result, byte for
  byte: what the software provider handles can be moved to OpenSSL. The converse is not claimed, as
  OpenSSL accepts parameters the software provider refuses.
\<close>

theorem ossl_ciphers_match_software:
  assumes "ciphers_agree S L" "cipherNameFor L [] alg = Inr name" "enAlgorithm en = alg" "deAlgorithm de = alg"
  shows "(GenerateKey_sw S e alg = ok gk \<longrightarrow> GenerateKey_ossl L e alg = ok gk) \<and>
    (Encrypt_sw S e en = ok c \<longrightarrow> Encrypt_ossl L e en = ok c) \<and>
    (Decrypt_sw S de = ok p \<longrightarrow> Decrypt_ossl L de = ok p)"
proof (intro conjI impI)
  note acc = ciphers_agree_accepts [OF assms(1)]
  from assms(2) obtain a where a: "alg = Some a" by (auto simp: cipherNameFor_def split: option.split_asm)
  { assume g: "GenerateKey_sw S e alg = ok gk"
    from g a assms(2) obtain key where "generateSymmetricKey S e alg = ok key"
      "generatedKey S ''software.(Provider).GenerateKey'' alg [] key PUB_UNSPECIFIED = ok gk" "accepts_request S (ReqGenerate alg)"
      by (cases a) (auto simp: GenerateKey_sw_def Let_def cipherNameFor_def)
    with symmetric_key_interop [OF assms(1,2), of e key] acc a assms(2) show "GenerateKey_ossl L e alg = ok gk"
      by (cases a) (auto simp: ossl_generation generatedKey_def privateKeyEncoding_def cipherNameFor_def) }
  { assume "Encrypt_sw S e en = ok c"
    then show "Encrypt_ossl L e en = ok c"
      using a assms(2) acc
      by (cases a; cases c) (auto simp: Encrypt_sw_def Encrypt_ossl_def Let_def assms(3) cipherNameFor_def
          ChaCha20Poly1305TagSizeBytes_def chaCha20Poly1305TagSizeBytes_ossl_def split: if_split_asm
          dest: cbc_interop(1) [OF assms(1)] ctr_interop(1) [OF assms(1)] gcm_interop(1) [OF assms(1)] chacha_interop(1) [OF assms(1)]) }
  { assume "Decrypt_sw S de = ok p"
    then show "Decrypt_ossl L de = ok p"
      using a assms(2) acc
      by (cases a; cases p) (auto simp: Decrypt_sw_def Decrypt_ossl_def Let_def assms(4) cipherNameFor_def split: if_split_asm
          dest: cbc_interop(2) [OF assms(1)] ctr_interop(2) [OF assms(1)] gcm_interop(2) [OF assms(1)] chacha_interop(2) [OF assms(1)]) }
qed

section \<open>An example\<close>

lemma pkcs7Unpad_op: "pkcs7Unpad opn bs n = Inr pt \<Longrightarrow> pkcs7Unpad opn' bs n = Inr pt"
  by (auto simp: pkcs7Unpad_def Let_def split: if_split_asm)

lemma demo_ciphers_agree: "ciphers_agree demo_sw demo_ossl"
proof -
  have "cbc_agrees demo_sw demo_ossl"
    by (auto simp: cbc_agrees_def demo_ossl_def demo_sw_def demo_cipher_def or_error_def elim: pkcs7Unpad_op)
  moreover have "ctr_agrees demo_sw demo_ossl"
    by (auto simp: ctr_agrees_def demo_ossl_def demo_sw_def demo_cipher_def or_error_def)
  moreover have "aeads_agree demo_sw demo_ossl"
    by (auto simp: aeads_agree_def aead_agrees_def demo_ossl_def demo_sw_def demo_aead_def gcmAead_def Seal_def Open_def
        split: if_split_asm)
  ultimately show ?thesis by (simp add: ciphers_agree_def) (simp add: demo_sw_def demo_ossl_def)
qed

theorem ossl_ciphers_match_software_witness:
  "\<exists>c. Encrypt_sw demo_sw () demo_encrypt = ok c \<and> Encrypt_ossl demo_ossl () demo_encrypt = ok c"
proof -
  obtain c where c: "Encrypt_sw demo_sw () demo_encrypt = ok c"
  proof -
    have "\<exists>ct iv. encryptAESCBC demo_sw () (replicate 16 0) [1, 2, 3] demo_cbc = ok (ct, iv)"
      by (rule encryption_succeeds(2) [OF demo_symmetric_ok])
        (simp_all add: cipher_limit_def demo_cbc_def, simp add: demo_sw_def)
    then show thesis using that by (auto simp: Encrypt_sw_def Let_def demo_encrypt_def)
  qed
  moreover have "Encrypt_ossl demo_ossl () demo_encrypt = ok c"
    using ossl_ciphers_match_software [OF demo_ciphers_agree, of "Some (AlgAesCbc demo_cbc)" AES128CBC demo_encrypt
        "\<lparr>deAlgorithm = Some (AlgAesCbc demo_cbc), deKeyMaterial = [], deCiphertext = [], deAad = [], deOutput = NoOutputUnencoded\<rparr>"] c
    by (auto simp: cipherNameFor_def demo_cbc_def aesCBCNames_def demo_encrypt_def)
  ultimately show ?thesis by blast
qed

end
