(* ===== verification/Bootstrap_Operations.thy ===== *)
theory Bootstrap_Operations
  imports Auth
begin

text \<open>
  The permission catalogue the bootstrap CLI gives to Zitadel
  (\<open>bootstrap/zitadel/setup-auth/operations.go\<close>): one operation per RPC, with the permission that
  guards it. The server has a table of its own (\<open>internal/auth/policies.go\<close>).
\<close>

definition methodPrefix_ops :: string where "methodPrefix_ops = ''/caas.crypto.v1.''"

definition permKeysCreate :: string where "permKeysCreate = ''citius:keys:create''"
definition permKeysRotate :: string where "permKeysRotate = ''citius:keys:rotate''"
definition permKeysUpdatePolicy :: string where "permKeysUpdatePolicy = ''citius:keys:update-policy''"
definition permKeysRead :: string where "permKeysRead = ''citius:keys:read''"
definition permCryptoEncrypt :: string where "permCryptoEncrypt = ''citius:crypto:encrypt''"
definition permCryptoDecrypt :: string where "permCryptoDecrypt = ''citius:crypto:decrypt''"
definition permCryptoSign :: string where "permCryptoSign = ''citius:crypto:sign''"
definition permCryptoVerify :: string where "permCryptoVerify = ''citius:crypto:verify''"
definition permCryptoMisc :: string where "permCryptoMisc = ''citius:crypto:misc''"
definition permPolicyRead :: string where "permPolicyRead = ''citius:policy:read''"
definition permPolicyWrite :: string where "permPolicyWrite = ''citius:policy:write''"
definition permDiscoveryRead :: string where "permDiscoveryRead = ''citius:discovery:read''"
definition permProviderRead :: string where "permProviderRead = ''citius:provider:read''"
definition permProviderWrite :: string where "permProviderWrite = ''citius:provider:write''"

lemmas perm_defs = permKeysCreate_def permKeysRotate_def permKeysUpdatePolicy_def permKeysRead_def permCryptoEncrypt_def permCryptoDecrypt_def permCryptoSign_def permCryptoVerify_def permCryptoMisc_def permPolicyRead_def permPolicyWrite_def permDiscoveryRead_def permProviderRead_def permProviderWrite_def

record operation =
  opMethod :: string
  opPermission :: string
  opDisplay :: string

definition mkOperation :: "string \<Rightarrow> string \<Rightarrow> string \<Rightarrow> string \<Rightarrow> operation" where
  "mkOperation svc meth perm display =
     \<lparr>opMethod = methodPrefix_ops @ svc @ ''/'' @ meth, opPermission = perm, opDisplay = display\<rparr>"

definition operationTable :: "(string \<times> string \<times> string \<times> string) list" where
  "operationTable =
     [(''KeyManagementService'', ''CreateKey'', permKeysCreate, ''Create key''),
      (''KeyManagementService'', ''DeleteKey'', permKeysCreate, ''Delete key''),
      (''KeyManagementService'', ''ImportKey'', permKeysCreate, ''Import key''),
      (''KeyManagementService'', ''RotateKey'', permKeysRotate, ''Rotate key material''),
      (''KeyManagementService'', ''TransformKey'', permKeysRotate, ''Transform key''),
      (''KeyManagementService'', ''UpdateKeyState'', permKeysRotate, ''Update key state''),
      (''KeyManagementService'', ''MigrateKey'', permKeysRotate, ''Migrate key to new provider''),
      (''KeyManagementService'', ''UpdateKeyPolicy'', permKeysUpdatePolicy, ''Rebind key to a different crypto policy''),
      (''KeyManagementService'', ''ReadKey'', permKeysRead, ''Read key metadata''),
      (''KeyManagementService'', ''ListKeys'', permKeysRead, ''List keys''),
      (''KeyManagementService'', ''ValidateKeyOperation'', permKeysRead, ''Validate key operation''),
      (''KeyManagementService'', ''ExportKey'', permKeysRead, ''Export key (subject to policy)''),
      (''CryptoPolicyService'', ''CreateCryptoPolicy'', permPolicyWrite, ''Create crypto policy''),
      (''CryptoPolicyService'', ''ReadCryptoPolicy'', permPolicyRead, ''Read crypto policy''),
      (''CryptoPolicyService'', ''DeleteCryptoPolicy'', permPolicyWrite, ''Delete crypto policy''),
      (''CryptoPolicyService'', ''UpdateCryptoPolicy'', permPolicyWrite, ''Update crypto policy''),
      (''CryptoPolicyService'', ''ListCryptoPolicies'', permPolicyRead, ''List crypto policies''),
      (''CryptoPolicyService'', ''EvaluatePolicy'', permPolicyRead, ''Evaluate crypto policy''),
      (''CryptoPolicyService'', ''BatchEvaluatePolicy'', permPolicyRead, ''Evaluate crypto policy (batch)''),
      (''CryptoService'', ''Encrypt'', permCryptoEncrypt, ''Encrypt (one-shot)''),
      (''CryptoService'', ''Decrypt'', permCryptoDecrypt, ''Decrypt (one-shot)''),
      (''CryptoService'', ''Sign'', permCryptoSign, ''Sign (one-shot)''),
      (''CryptoService'', ''Verify'', permCryptoVerify, ''Verify (one-shot)''),
      (''CryptoService'', ''Digest'', permCryptoMisc, ''Digest''),
      (''CryptoService'', ''Xof'', permCryptoMisc, ''XOF''),
      (''CryptoService'', ''DigestSign'', permCryptoSign, ''Digest-and-sign''),
      (''CryptoService'', ''DigestVerify'', permCryptoVerify, ''Digest-and-verify''),
      (''CryptoService'', ''GenerateRandom'', permCryptoMisc, ''Generate random''),
      (''CryptoService'', ''SeedRandom'', permCryptoMisc, ''Seed random''),
      (''CryptoService'', ''GenerateMAC'', permCryptoMisc, ''Generate MAC''),
      (''CryptoService'', ''VerifyMAC'', permCryptoMisc, ''Verify MAC''),
      (''StreamingCryptoService'', ''EncryptInit'', permCryptoEncrypt, ''Encrypt (multi-part init)''),
      (''StreamingCryptoService'', ''EncryptUpdate'', permCryptoEncrypt, ''Encrypt (multi-part update)''),
      (''StreamingCryptoService'', ''EncryptFinal'', permCryptoEncrypt, ''Encrypt (multi-part final)''),
      (''StreamingCryptoService'', ''EncryptMessage'', permCryptoEncrypt, ''Encrypt message''),
      (''StreamingCryptoService'', ''EncryptMessageInit'', permCryptoEncrypt, ''Encrypt message (init)''),
      (''StreamingCryptoService'', ''EncryptMessageBegin'', permCryptoEncrypt, ''Encrypt message (begin)''),
      (''StreamingCryptoService'', ''EncryptMessageNext'', permCryptoEncrypt, ''Encrypt message (next)''),
      (''StreamingCryptoService'', ''EncryptMessageFinal'', permCryptoEncrypt, ''Encrypt message (final)''),
      (''StreamingCryptoService'', ''DecryptInit'', permCryptoDecrypt, ''Decrypt (multi-part init)''),
      (''StreamingCryptoService'', ''DecryptUpdate'', permCryptoDecrypt, ''Decrypt (multi-part update)''),
      (''StreamingCryptoService'', ''DecryptFinal'', permCryptoDecrypt, ''Decrypt (multi-part final)''),
      (''StreamingCryptoService'', ''DecryptMessage'', permCryptoDecrypt, ''Decrypt message''),
      (''StreamingCryptoService'', ''DecryptMessageInit'', permCryptoDecrypt, ''Decrypt message (init)''),
      (''StreamingCryptoService'', ''DecryptMessageBegin'', permCryptoDecrypt, ''Decrypt message (begin)''),
      (''StreamingCryptoService'', ''DecryptMessageNext'', permCryptoDecrypt, ''Decrypt message (next)''),
      (''StreamingCryptoService'', ''DecryptMessageFinal'', permCryptoDecrypt, ''Decrypt message (final)''),
      (''StreamingCryptoService'', ''SignInit'', permCryptoSign, ''Sign (multi-part init)''),
      (''StreamingCryptoService'', ''SignUpdate'', permCryptoSign, ''Sign (multi-part update)''),
      (''StreamingCryptoService'', ''SignFinal'', permCryptoSign, ''Sign (multi-part final)''),
      (''StreamingCryptoService'', ''SignMessage'', permCryptoSign, ''Sign message''),
      (''StreamingCryptoService'', ''SignMessageInit'', permCryptoSign, ''Sign message (init)''),
      (''StreamingCryptoService'', ''SignMessageBegin'', permCryptoSign, ''Sign message (begin)''),
      (''StreamingCryptoService'', ''SignMessageNext'', permCryptoSign, ''Sign message (next)''),
      (''StreamingCryptoService'', ''SignMessageFinal'', permCryptoSign, ''Sign message (final)''),
      (''StreamingCryptoService'', ''VerifyInit'', permCryptoVerify, ''Verify (multi-part init)''),
      (''StreamingCryptoService'', ''VerifyUpdate'', permCryptoVerify, ''Verify (multi-part update)''),
      (''StreamingCryptoService'', ''VerifyFinal'', permCryptoVerify, ''Verify (multi-part final)''),
      (''StreamingCryptoService'', ''VerifyMessage'', permCryptoVerify, ''Verify message''),
      (''StreamingCryptoService'', ''VerifyMessageInit'', permCryptoVerify, ''Verify message (init)''),
      (''StreamingCryptoService'', ''VerifyMessageBegin'', permCryptoVerify, ''Verify message (begin)''),
      (''StreamingCryptoService'', ''VerifyMessageNext'', permCryptoVerify, ''Verify message (next)''),
      (''StreamingCryptoService'', ''VerifyMessageFinal'', permCryptoVerify, ''Verify message (final)''),
      (''StreamingCryptoService'', ''DigestInit'', permCryptoMisc, ''Digest (init)''),
      (''StreamingCryptoService'', ''DigestUpdate'', permCryptoMisc, ''Digest (update)''),
      (''StreamingCryptoService'', ''DigestFinal'', permCryptoMisc, ''Digest (final)''),
      (''StreamingCryptoService'', ''DigestKey'', permCryptoMisc, ''Digest key''),
      (''StreamingCryptoService'', ''GenerateMACInit'', permCryptoMisc, ''Generate MAC (init)''),
      (''StreamingCryptoService'', ''GenerateMACUpdate'', permCryptoMisc, ''Generate MAC (update)''),
      (''StreamingCryptoService'', ''GenerateMACFinal'', permCryptoMisc, ''Generate MAC (final)''),
      (''StreamingCryptoService'', ''VerifyMACInit'', permCryptoMisc, ''Verify MAC (init)''),
      (''StreamingCryptoService'', ''VerifyMACUpdate'', permCryptoMisc, ''Verify MAC (update)''),
      (''StreamingCryptoService'', ''VerifyMACFinal'', permCryptoMisc, ''Verify MAC (final)''),
      (''StreamingCryptoService'', ''XofInit'', permCryptoMisc, ''XOF (init)''),
      (''StreamingCryptoService'', ''XofUpdate'', permCryptoMisc, ''XOF (update)''),
      (''StreamingCryptoService'', ''XofFinal'', permCryptoMisc, ''XOF (final)''),
      (''StreamingCryptoService'', ''DigestEncryptUpdate'', permCryptoMisc, ''Digest-encrypt update''),
      (''StreamingCryptoService'', ''DecryptDigestUpdate'', permCryptoMisc, ''Decrypt-digest update''),
      (''StreamingCryptoService'', ''SignEncryptUpdate'', permCryptoMisc, ''Sign-encrypt update''),
      (''StreamingCryptoService'', ''DecryptVerifyUpdate'', permCryptoMisc, ''Decrypt-verify update''),
      (''StreamingCryptoService'', ''CancelOperation'', permCryptoMisc, ''Cancel streaming operation''),
      (''KeyEstablishmentService'', ''WrapKey'', permCryptoMisc, ''Wrap key''),
      (''KeyEstablishmentService'', ''UnwrapKey'', permCryptoMisc, ''Unwrap key''),
      (''KeyEstablishmentService'', ''DeriveKey'', permCryptoMisc, ''Derive key''),
      (''KeyEstablishmentService'', ''KeyAgreement'', permCryptoMisc, ''Key agreement''),
      (''KeyEstablishmentService'', ''EncapsulateKey'', permCryptoMisc, ''Encapsulate key (KEM)''),
      (''KeyEstablishmentService'', ''DecapsulateKey'', permCryptoMisc, ''Decapsulate key (KEM)''),
      (''AlgorithmDiscoveryService'', ''ListTemplates'', permDiscoveryRead, ''List algorithm templates''),
      (''AlgorithmDiscoveryService'', ''GetTemplate'', permDiscoveryRead, ''Get algorithm template''),
      (''AlgorithmDiscoveryService'', ''ListScopes'', permDiscoveryRead, ''List algorithm scopes''),
      (''ProviderService'', ''ListProviders'', permProviderRead, ''List providers''),
      (''ProviderService'', ''GetProvider'', permProviderRead, ''Get provider''),
      (''ProviderService'', ''MatchProviders'', permProviderRead, ''Match providers to a template''),
      (''ProviderService'', ''ListProviderInstances'', permProviderRead, ''List provider instances''),
      (''ProviderService'', ''GetProviderInstance'', permProviderRead, ''Get provider instance''),
      (''ProviderService'', ''RegisterProviderInstance'', permProviderWrite, ''Register provider instance''),
      (''ProviderService'', ''UpdateProviderInstance'', permProviderWrite, ''Update provider instance''),
      (''ProviderService'', ''DeleteProviderInstance'', permProviderWrite, ''Delete provider instance'')]"

definition citiusOperations :: "operation list" where
  "citiusOperations = map (\<lambda>(svc, meth, perm, display). mkOperation svc meth perm display) operationTable"

definition allCitiusPermissions :: "string list" where
  "allCitiusPermissions =
     [permKeysCreate, permKeysRotate, permKeysUpdatePolicy, permKeysRead, permCryptoEncrypt, permCryptoDecrypt, permCryptoSign, permCryptoVerify, permCryptoMisc, permPolicyRead, permPolicyWrite, permDiscoveryRead, permProviderRead, permProviderWrite]"

lemma catalogue_is_server: "allCitiusPermissions = AllPermissions"
  by code_simp

end
