(* ===== verification/Bootstrap_Catalogue.thy ===== *)
theory Bootstrap_Catalogue
  imports Bootstrap_Operations
begin

text \<open>
  Two tables name the permission of every RPC: the catalogue the bootstrap CLI provisions and the
  registry the server enforces. They are maintained by hand; this theory shows that they agree.
\<close>


text \<open>
  The two tables list the methods in different orders; each is a concatenation of slices of the
  other.
\<close>

definition slices :: "(nat \<times> nat) list \<Rightarrow> 'a list \<Rightarrow> 'a list" where
  "slices runs xs = concat (map (\<lambda>(i, n). take n (drop i xs)) runs)"

lemma set_slices: "set (slices runs xs) \<subseteq> set xs"
  by (auto simp: slices_def dest: in_set_takeD in_set_dropD)

definition guardedMethods :: "(string \<times> string \<times> string) list" where
  "guardedMethods = map (\<lambda>(svc, meth, perm, display). (svc, meth, perm)) operationTable"

lemma operations_slices:
  "guardedMethods = slices
     [(0, 20), (28, 1), (37, 1), (47, 1), (57, 1), (62, 1), (38, 1), (48, 1), (70, 4), (20, 8), (29, 8), (39, 8), (49, 8), (58, 4), (74, 6), (63, 7), (80, 18)] methodTable"
  by code_simp

lemma server_slices:
  "methodTable = slices
     [(0, 20), (31, 8), (20, 1), (39, 8), (21, 1), (25, 1), (47, 8), (22, 1), (26, 1), (55, 8), (23, 1), (63, 4), (24, 1), (73, 7), (27, 4), (67, 6), (80, 18)] guardedMethods"
  by code_simp

lemma tables_agree: "set guardedMethods = set methodTable"
  using set_slices operations_slices server_slices by (metis subset_antisym)

lemma operations_guarded:
  "set (map (\<lambda>operation. (opMethod operation, opPermission operation)) citiusOperations) = set methodPermissions"
proof -
  have "map (\<lambda>operation. (opMethod operation, opPermission operation)) citiusOperations =
      map (\<lambda>(s, m, p). (serviceMethod s m, p)) guardedMethods"
    by (simp add: citiusOperations_def guardedMethods_def mkOperation_def serviceMethod_def methodPrefix_ops_def
        methodPrefix_def case_prod_unfold)
  then show ?thesis using tables_agree by (simp add: methodPermissions_def)
qed

text \<open>
  C39: The catalogue the CLI provisions and the registry the server enforces list the same methods
  with the same permission, and the permissions it can grant are the ones the server knows, each
  of which guards some method.
\<close>

theorem operations_match_server_policy:
  "set (map (\<lambda>operation. (opMethod operation, opPermission operation)) citiusOperations) = set methodPermissions \<and>
   set (map opPermission citiusOperations) = set allCitiusPermissions \<and>
   set allCitiusPermissions = set AllPermissions \<and> distinct allCitiusPermissions"
proof -
  have "map opPermission citiusOperations = map (\<lambda>(s, m, p, d). p) operationTable"
    by (simp add: citiusOperations_def mkOperation_def case_prod_unfold)
  moreover have "set (map (\<lambda>(s, m, p, d). p) operationTable) = set allCitiusPermissions"
    by (auto simp: operationTable_def allCitiusPermissions_def)
  moreover have "distinct allCitiusPermissions" by code_simp
  ultimately show ?thesis using catalogue_is_server operations_guarded by simp
qed

end
