(* ===== verification/Bootstrap_Acl.thy ===== *)
theory Bootstrap_Acl
  imports Bootstrap_Operations "HOL-Library.Sublist"
begin

text \<open>
  The ACL file of the bootstrap CLI (\<open>bootstrap/zitadel/setup-auth/acl.go\<close>): its shape, its
  validation, and what it hands to Zitadel's admin API. An error is its text; \<open>acl_env\<close> holds what
  the source uses of large libraries: \<open>net/url\<close>, \<open>net/mail\<close>, \<open>net.ParseIP\<close>, Unicode lower case and
  \<open>%q\<close>. Reading and decoding the YAML file is an argument of \<open>loadACL\<close>.
\<close>

type_synonym 'a checked = "string + 'a"

record url =
  uScheme :: string
  uOpaque :: string
  uUser :: bool
  uHost :: string
  uRest :: string

record acl_env =
  quote :: "string \<Rightarrow> string"
  toLower :: "string \<Rightarrow> string"
  mailAddress :: "string \<Rightarrow> string option"
  urlParse :: "string \<Rightarrow> url checked"
  urlString :: "url \<Rightarrow> string"
  urlHostname :: "string \<Rightarrow> string"
  urlPort :: "string \<Rightarrow> string"
  isLoopbackIP :: "string \<Rightarrow> bool"

section \<open>The file\<close>

record aclAccessBlock =
  abAllow :: "string list"
  abDeny :: "string list"

record aclWebApplication =
  waName :: string
  waRedirectURIs :: "string list"
  waPostLogoutRedirectURIs :: "string list"
  waEnableRefreshTokens :: bool
  waDevMode :: bool

record aclUser =
  auUsername :: string
  auUserType :: string
  auDisplayName :: string
  auGivenName :: string
  auFamilyName :: string
  auEmail :: string
  auEmailVerified :: "bool option"
  auPasswordEnv :: string
  auPasswordChangeRequired :: "bool option"
  auPermissions :: "string list"
  auKeyAccess :: "aclAccessBlock option"
  auPolicyAccess :: "aclAccessBlock option"

record aclFile =
  afVersion :: int
  afWebApplication :: "aclWebApplication option"
  afUsers :: "aclUser list"

text \<open>\<open>admin.KeyAccess\<close> and \<open>admin.PolicyAccess\<close> are both a pair of pattern lists.\<close>

record access =
  acAllowed :: "string list"
  acDeny :: "string list"

record onboardInput =
  oiUsername :: string
  oiDisplayName :: string
  oiPermissions :: "string list"
  oiKeyAccess :: access
  oiPolicyAccess :: access

record aclHumanUser =
  huUsername :: string
  huDisplayName :: string
  huGivenName :: string
  huFamilyName :: string
  huEmail :: string
  huEmailVerified :: bool
  huPasswordEnv :: string
  huPasswordChangeRequired :: bool
  huPermissions :: "string list"
  huKeyAccess :: access
  huPolicyAccess :: access

record parsedACL =
  paWebApplication :: "aclWebApplication option"
  paMachineUsers :: "onboardInput list"
  paHumanUsers :: "aclHumanUser list"

section \<open>Web application\<close>

definition contains :: "string \<Rightarrow> string \<Rightarrow> bool" where
  "contains s t = sublist t s"

definition isLoopbackHost :: "acl_env \<Rightarrow> string \<Rightarrow> bool" where
  "isLoopbackHost B host = (host = ''localhost'' \<or> isLoopbackIP B host)"

text \<open>\<open>net.JoinHostPort\<close> brackets a host with a colon.\<close>

definition JoinHostPort :: "string \<Rightarrow> string \<Rightarrow> string" where
  "JoinHostPort host port =
     (if CHR '':'' \<in> set host then ''['' @ host @ '']:'' @ port else host @ '':'' @ port)"

definition normalizeParsedWebURI :: "acl_env \<Rightarrow> url \<Rightarrow> string \<Rightarrow> bool \<Rightarrow> string checked" where
  "normalizeParsedWebURI B parsed value devMode =
     (if uScheme parsed = [] \<or> uHost parsed = [] \<or> uOpaque parsed \<noteq> [] then
        Inl (''URI '' @ quote B value @ '' must be absolute and include a host'')
      else if uUser parsed then
        Inl (''URI '' @ quote B value @ '' must not contain user information'')
      else
        let scheme = toLower B (uScheme parsed); hostname = toLower B (urlHostname B (uHost parsed)) in
        if hostname = [] then Inl (''URI '' @ quote B value @ '' must include a host'')
        else if scheme \<noteq> ''https'' \<and> (scheme \<noteq> ''http'' \<or> \<not> devMode \<or> \<not> isLoopbackHost B hostname) then
          Inl (''URI '' @ quote B value @ '' must use HTTPS; development HTTP is limited to loopback hosts'')
        else
          let port = urlPort B (uHost parsed);
              host = (if port \<noteq> [] then JoinHostPort hostname port
                      else if CHR '':'' \<in> set hostname then ''['' @ hostname @ '']'' else hostname)
          in Inr (urlString B (parsed\<lparr>uScheme := scheme, uHost := host\<rparr>)))"

definition normalizeWebURI :: "acl_env \<Rightarrow> string \<Rightarrow> bool \<Rightarrow> string checked" where
  "normalizeWebURI B value devMode =
     (if value = [] \<or> value \<noteq> TrimSpace value then
        Inl ''URI must be non-empty and contain no surrounding whitespace''
      else if contains value ''*'' \<or> contains (toLower B value) ''%2a'' then
        Inl (''URI '' @ quote B value @ '' must not contain wildcards'')
      else if contains value ''#'' then
        Inl (''URI '' @ quote B value @ '' must not contain a fragment'')
      else case urlParse B value of
        Inl er \<Rightarrow> Inl (''URI '' @ quote B value @ '' is invalid: '' @ er)
      | Inr parsed \<Rightarrow> normalizeParsedWebURI B parsed value devMode)"

fun validateURIs :: "acl_env \<Rightarrow> string \<Rightarrow> bool \<Rightarrow> string set \<Rightarrow> string list \<Rightarrow> unit checked" where
  "validateURIs B field devMode seen [] = Inr ()"
| "validateURIs B field devMode seen (value # values) =
     (case normalizeWebURI B value devMode of
        Inl er \<Rightarrow> Inl (field @ '': '' @ er)
      | Inr normalized \<Rightarrow>
          if normalized \<in> seen then Inl (field @ '' contains duplicate URI '' @ quote B normalized)
          else validateURIs B field devMode (insert normalized seen) values)"

definition validateWebURISet :: "acl_env \<Rightarrow> string \<Rightarrow> string list \<Rightarrow> bool \<Rightarrow> unit checked" where
  "validateWebURISet B field values devMode = validateURIs B field devMode {} values"

definition validateWebApplication :: "acl_env \<Rightarrow> aclWebApplication \<Rightarrow> unit checked" where
  "validateWebApplication B app =
     (if TrimSpace (waName app) = [] then Inl ''name is required''
      else if waName app \<noteq> TrimSpace (waName app) then Inl ''name must not contain surrounding whitespace''
      else if waRedirectURIs app = [] then Inl ''at least one redirect_uri is required''
      else case validateWebURISet B ''redirect_uris'' (waRedirectURIs app) (waDevMode app) of
        Inl er \<Rightarrow> Inl er
      | Inr _ \<Rightarrow> validateWebURISet B ''post_logout_redirect_uris'' (waPostLogoutRedirectURIs app) (waDevMode app))"

section \<open>Users\<close>

definition userTypeMachine :: string where "userTypeMachine = ''machine''"
definition userTypeHuman :: string where "userTypeHuman = ''human''"

definition isLetter :: "char \<Rightarrow> bool" where
  "isLetter c = (CHR ''A'' \<le> c \<and> c \<le> CHR ''Z'' \<or> CHR ''a'' \<le> c \<and> c \<le> CHR ''z'')"

text \<open>The regular expression \<open>^[A-Za-z_][A-Za-z0-9_]*$\<close>.\<close>

definition environmentVariableName :: "string \<Rightarrow> bool" where
  "environmentVariableName s =
     (case s of [] \<Rightarrow> False
      | c # cs \<Rightarrow> (isLetter c \<or> c = CHR ''_'') \<and>
          list_all (\<lambda>d. isLetter d \<or> (CHR ''0'' \<le> d \<and> d \<le> CHR ''9'') \<or> d = CHR ''_'') cs)"

definition knownPermissionSet :: "string list" where
  "knownPermissionSet = remdups allCitiusPermissions"

fun checkPermissions :: "acl_env \<Rightarrow> string list \<Rightarrow> string list \<Rightarrow> unit checked" where
  "checkPermissions B known [] = Inr ()"
| "checkPermissions B known (p # ps) =
     (if p = ''*'' then Inl ''permission \"*\" must be the only entry when used''
      else if p \<notin> set known then
        Inl (''unknown permission '' @ quote B p @ '' (see operations.go for the catalog)'')
      else checkPermissions B known ps)"

definition expandPermissions :: "acl_env \<Rightarrow> string list \<Rightarrow> string list \<Rightarrow> string list checked" where
  "expandPermissions B perms known =
     (if perms = [''*''] then Inr (sort known)
      else case checkPermissions B known perms of Inl er \<Rightarrow> Inl er | Inr _ \<Rightarrow> Inr perms)"

definition keyAccess :: "aclAccessBlock option \<Rightarrow> access" where
  "keyAccess block =
     (case block of None \<Rightarrow> \<lparr>acAllowed = [], acDeny = []\<rparr>
      | Some b \<Rightarrow> \<lparr>acAllowed = abAllow b, acDeny = abDeny b\<rparr>)"

definition policyAccess :: "aclAccessBlock option \<Rightarrow> access" where
  "policyAccess block =
     (case block of None \<Rightarrow> \<lparr>acAllowed = [], acDeny = []\<rparr>
      | Some b \<Rightarrow> \<lparr>acAllowed = abAllow b, acDeny = abDeny b\<rparr>)"

definition validateMachineUser :: "aclUser \<Rightarrow> unit checked" where
  "validateMachineUser u =
     (if auGivenName u \<noteq> [] \<or> auFamilyName u \<noteq> [] \<or> auEmail u \<noteq> [] \<or> auEmailVerified u \<noteq> None \<or>
         auPasswordEnv u \<noteq> [] \<or> auPasswordChangeRequired u \<noteq> None
      then Inl ''machine users must not set human profile or password fields'' else Inr ())"

definition usesDemoIdentityFlags :: "aclUser \<Rightarrow> bool" where
  "usesDemoIdentityFlags u = (auEmailVerified u = Some True \<or> auPasswordChangeRequired u = Some False)"

fun checkRequired :: "(string \<times> string) list \<Rightarrow> unit checked" where
  "checkRequired [] = Inr ()"
| "checkRequired ((name, value) # others) =
     (if TrimSpace value = [] then Inl (name @ '' is required for human users'')
      else if value \<noteq> TrimSpace value then Inl (name @ '' must not contain surrounding whitespace'')
      else checkRequired others)"

text \<open>The set of e-mail addresses seen so far is passed on; a caller stops at the first error.\<close>

definition validateHumanUser ::
  "acl_env \<Rightarrow> aclUser \<Rightarrow> aclWebApplication option \<Rightarrow> string set \<Rightarrow> string set checked" where
  "validateHumanUser B u web seenEmails =
     (if TrimSpace (auUsername u) = [] then Inl ''username is required for human users''
      else if auUsername u \<noteq> TrimSpace (auUsername u) then Inl ''username must not contain surrounding whitespace''
      else case checkRequired [(''given_name'', auGivenName u), (''family_name'', auFamilyName u), (''email'', auEmail u),
          (''password_env'', auPasswordEnv u)] of
        Inl er \<Rightarrow> Inl er
      | Inr _ \<Rightarrow>
        if mailAddress B (auEmail u) \<noteq> Some (auEmail u) then Inl ''email must be a valid address''
        else let emailKey = toLower B (auEmail u) in
        if emailKey \<in> seenEmails then Inl (''duplicate email '' @ quote B (auEmail u))
        else if \<not> environmentVariableName (auPasswordEnv u) then Inl ''password_env must name an environment variable''
        else if usesDemoIdentityFlags u \<and> (case web of None \<Rightarrow> True | Some w \<Rightarrow> \<not> waDevMode w) then
          Inl ''email_verified=true or password_change_required=false requires web_application.dev_mode=true''
        else Inr (insert emailKey seenEmails))"

definition machineOnboardInput :: "aclUser \<Rightarrow> string list \<Rightarrow> onboardInput" where
  "machineOnboardInput u permissions =
     \<lparr>oiUsername = auUsername u, oiDisplayName = auDisplayName u, oiPermissions = permissions,
      oiKeyAccess = keyAccess (auKeyAccess u), oiPolicyAccess = policyAccess (auPolicyAccess u)\<rparr>"

definition humanACLInput :: "aclUser \<Rightarrow> string list \<Rightarrow> aclHumanUser" where
  "humanACLInput u permissions =
     \<lparr>huUsername = auUsername u, huDisplayName = auDisplayName u, huGivenName = auGivenName u,
      huFamilyName = auFamilyName u, huEmail = auEmail u, huEmailVerified = (auEmailVerified u = Some True),
      huPasswordEnv = auPasswordEnv u,
      huPasswordChangeRequired = (case auPasswordChangeRequired u of None \<Rightarrow> True | Some b \<Rightarrow> b),
      huPermissions = permissions, huKeyAccess = keyAccess (auKeyAccess u), huPolicyAccess = policyAccess (auPolicyAccess u)\<rparr>"

definition appendACLUser ::
  "acl_env \<Rightarrow> parsedACL \<Rightarrow> aclUser \<Rightarrow> aclWebApplication option \<Rightarrow> string set \<Rightarrow> string list \<Rightarrow>
   (parsedACL \<times> string set) checked" where
  "appendACLUser B out u web seenEmails knownPermissions =
     (case expandPermissions B (auPermissions u) knownPermissions of
        Inl er \<Rightarrow> Inl er
      | Inr permissions \<Rightarrow>
        let userType = (if auUserType u = [] then userTypeMachine else auUserType u) in
        if userType = userTypeMachine then
          (case validateMachineUser u of
             Inl er \<Rightarrow> Inl er
           | Inr _ \<Rightarrow> Inr (out\<lparr>paMachineUsers := paMachineUsers out @ [machineOnboardInput u permissions]\<rparr>, seenEmails))
        else if userType = userTypeHuman then
          (case validateHumanUser B u web seenEmails of
             Inl er \<Rightarrow> Inl er
           | Inr seen \<Rightarrow> Inr (out\<lparr>paHumanUsers := paHumanUsers out @ [humanACLInput u permissions]\<rparr>, seen))
        else Inl (''user_type must be '' @ quote B userTypeMachine @ '' or '' @ quote B userTypeHuman))"

fun appendACLUsers ::
  "acl_env \<Rightarrow> string \<Rightarrow> aclWebApplication option \<Rightarrow> nat \<Rightarrow> string set \<Rightarrow> string set \<Rightarrow> parsedACL \<Rightarrow>
   aclUser list \<Rightarrow> parsedACL checked" where
  "appendACLUsers B path web i seenUsers seenEmails out [] = Inr out"
| "appendACLUsers B path web i seenUsers seenEmails out (u # us) =
     (if auUsername u = [] then
        Inl (path @ '': users['' @ show_nat i @ '']: username is required'')
      else if auUsername u \<in> seenUsers then
        Inl (path @ '': users['' @ show_nat i @ '']: duplicate username '' @ quote B (auUsername u))
      else case appendACLUser B out u web seenEmails knownPermissionSet of
        Inl er \<Rightarrow> Inl (path @ '': user '' @ quote B (auUsername u) @ '': '' @ er)
      | Inr (out', seenEmails') \<Rightarrow>
          appendACLUsers B path web (i + 1) (insert (auUsername u) seenUsers) seenEmails' out' us)"

text \<open>
  \<open>readFile\<close> is \<open>os.ReadFile\<close> and \<open>decode\<close> the strict YAML decoder, which refuses unknown fields.
\<close>

definition loadACL ::
  "acl_env \<Rightarrow> (string \<Rightarrow> 'raw checked) \<Rightarrow> ('raw \<Rightarrow> aclFile checked) \<Rightarrow> string \<Rightarrow> parsedACL checked" where
  "loadACL B readFile decode path =
     (case readFile path of
        Inl er \<Rightarrow> Inl (''read '' @ path @ '': '' @ er)
      | Inr raw \<Rightarrow>
      case decode raw of
        Inl er \<Rightarrow> Inl (''parse '' @ path @ '': '' @ er)
      | Inr f \<Rightarrow>
        if afVersion f \<noteq> 1 then
          Inl (path @ '': unsupported version '' @ Itoa (afVersion f) @ '' (want 1)'')
        else if afUsers f = [] then Inl (path @ '': no users defined'')
        else case (case afWebApplication f of None \<Rightarrow> Inr () | Some w \<Rightarrow> validateWebApplication B w) of
          Inl er \<Rightarrow> Inl (path @ '': web_application: '' @ er)
        | Inr _ \<Rightarrow>
          appendACLUsers B path (afWebApplication f) 0 {} {}
            \<lparr>paWebApplication = afWebApplication f, paMachineUsers = [], paHumanUsers = []\<rparr> (afUsers f))"

definition userCount :: "parsedACL \<Rightarrow> nat" where
  "userCount a = length (paMachineUsers a) + length (paHumanUsers a)"

section \<open>Inputs of the admin API\<close>

record webApplicationInput =
  wiName :: string
  wiRedirectURIs :: "string list"
  wiPostLogoutRedirectURIs :: "string list"
  wiEnableRefreshTokens :: bool
  wiDevMode :: bool

definition webApplicationInputOf :: "parsedACL \<Rightarrow> webApplicationInput option" where
  "webApplicationInputOf a =
     map_option (\<lambda>w. \<lparr>wiName = waName w, wiRedirectURIs = waRedirectURIs w,
       wiPostLogoutRedirectURIs = waPostLogoutRedirectURIs w, wiEnableRefreshTokens = waEnableRefreshTokens w,
       wiDevMode = waDevMode w\<rparr>) (paWebApplication a)"

record humanConfiguration =
  hcUsername :: string
  hcDisplayName :: string
  hcGivenName :: string
  hcFamilyName :: string
  hcEmail :: string
  hcEmailVerified :: bool
  hcPasswordChangeRequired :: bool
  hcPermissions :: "string list"
  hcKeyAccess :: access
  hcPolicyAccess :: access

record humanOnboardInput = humanConfiguration +
  hiInitialPassword :: string

definition configuration :: "aclHumanUser \<Rightarrow> humanConfiguration" where
  "configuration u =
     \<lparr>hcUsername = huUsername u, hcDisplayName = huDisplayName u, hcGivenName = huGivenName u,
      hcFamilyName = huFamilyName u, hcEmail = huEmail u, hcEmailVerified = huEmailVerified u,
      hcPasswordChangeRequired = huPasswordChangeRequired u, hcPermissions = huPermissions u,
      hcKeyAccess = huKeyAccess u, hcPolicyAccess = huPolicyAccess u\<rparr>"

definition onboardInputOf :: "aclHumanUser \<Rightarrow> string \<Rightarrow> humanOnboardInput" where
  "onboardInputOf u initialPassword =
     \<lparr>hcUsername = huUsername u, hcDisplayName = huDisplayName u, hcGivenName = huGivenName u,
      hcFamilyName = huFamilyName u, hcEmail = huEmail u, hcEmailVerified = huEmailVerified u,
      hcPasswordChangeRequired = huPasswordChangeRequired u, hcPermissions = huPermissions u,
      hcKeyAccess = huKeyAccess u, hcPolicyAccess = huPolicyAccess u, hiInitialPassword = initialPassword\<rparr>"

record humanAuthConfigurationInput =
  haClaimNamespace :: string
  haHumans :: "humanConfiguration list"
  haWebApplication :: webApplicationInput

definition claimNamespace :: string where "claimNamespace = ''urn:citius''"

definition humanAuthConfigurationInputOf :: "parsedACL \<Rightarrow> humanAuthConfigurationInput checked" where
  "humanAuthConfigurationInputOf a =
     (case webApplicationInputOf a of
        None \<Rightarrow> Inl ''ACL does not declare a web_application''
      | Some web \<Rightarrow>
          Inr \<lparr>haClaimNamespace = claimNamespace, haHumans = map configuration (paHumanUsers a), haWebApplication = web\<rparr>)"

end
