(* ===== verification/Bootstrap_Setup.thy ===== *)
theory Bootstrap_Setup
  imports Bootstrap_Acl
begin

text \<open>
  The commands of the bootstrap CLI (\<open>bootstrap/zitadel/setup-auth/main.go\<close>): \<open>validate\<close>, \<open>apply\<close>,
  \<open>users\<close> and \<open>verify\<close>, what they do to Zitadel and to the files they write. \<open>'w\<close> is the state of
  Zitadel; its admin API (\<open>zitadel-grpc-auth/admin\<close>) is a parameter. Logging is left out; a command
  returns its exit code, and \<open>log.Fatalf\<close> exits with 1.
\<close>

record webApplicationResult =
  wrClientID :: string
  wrCreated :: bool
  wrUpdated :: bool

record onboardResult =
  orClientID :: string
  orClientSecret :: string

record humanOnboardResult =
  hrUserID :: string
  hrLoginName :: string
  hrCreated :: bool

record appCredentials =
  apClientID :: string
  apClientSecret :: string

record generatedConfig =
  gcProjectID :: string
  gcActionID :: string
  gcAPIApp :: appCredentials
  gcWebApplication :: "webApplicationResult option"
  gcUsers :: "string \<rightharpoonup> onboardResult"
  gcHumanUsers :: "string \<rightharpoonup> humanOnboardResult"

section \<open>Identities\<close>

text \<open>The interface \<open>identityAdmin\<close>: three calls that may change Zitadel and may fail.\<close>

record 'w identityAdmin =
  ensureWebApplication :: "webApplicationInput \<Rightarrow> 'w \<Rightarrow> webApplicationResult checked \<times> 'w"
  onboard :: "onboardInput \<Rightarrow> 'w \<Rightarrow> onboardResult checked \<times> 'w"
  onboardHuman :: "humanOnboardInput \<Rightarrow> 'w \<Rightarrow> humanOnboardResult checked \<times> 'w"

record identityResults =
  irWebApplication :: "webApplicationResult option"
  irMachineUsers :: "string \<rightharpoonup> onboardResult"
  irHumanUsers :: "string \<rightharpoonup> humanOnboardResult"

fun resolveHumanInputs ::
  "acl_env \<Rightarrow> (string \<Rightarrow> string) \<Rightarrow> aclHumanUser list \<Rightarrow> humanOnboardInput list checked" where
  "resolveHumanInputs B getenv [] = Inr []"
| "resolveHumanInputs B getenv (spec # specs) =
     (let password = getenv (huPasswordEnv spec) in
      if password = [] then
        Inl (''required password env var '' @ huPasswordEnv spec @ '' for human user '' @ quote B (huUsername spec) @ '' is empty'')
      else case resolveHumanInputs B getenv specs of
        Inl er \<Rightarrow> Inl er
      | Inr out \<Rightarrow> Inr (onboardInputOf spec password # out))"

fun onboardMachines ::
  "acl_env \<Rightarrow> 'w identityAdmin \<Rightarrow> onboardInput list \<Rightarrow> (string \<rightharpoonup> onboardResult) \<Rightarrow> 'w \<Rightarrow>
   (string \<rightharpoonup> onboardResult) checked \<times> 'w" where
  "onboardMachines B client [] out w = (Inr out, w)"
| "onboardMachines B client (spec # specs) out w =
     (case onboard client spec w of
        (Inl er, w') \<Rightarrow> (Inl (''onboard machine user '' @ quote B (oiUsername spec) @ '': '' @ er), w')
      | (Inr u, w') \<Rightarrow> onboardMachines B client specs (out(oiUsername spec \<mapsto> u)) w')"

fun onboardHumans ::
  "acl_env \<Rightarrow> 'w identityAdmin \<Rightarrow> humanOnboardInput list \<Rightarrow> (string \<rightharpoonup> humanOnboardResult) \<Rightarrow> 'w \<Rightarrow>
   (string \<rightharpoonup> humanOnboardResult) checked \<times> 'w" where
  "onboardHumans B client [] out w = (Inr out, w)"
| "onboardHumans B client (spec # specs) out w =
     (case onboardHuman client spec w of
        (Inl er, w') \<Rightarrow> (Inl (''onboard human user '' @ quote B (hcUsername spec) @ '': '' @ er), w')
      | (Inr u, w') \<Rightarrow> onboardHumans B client specs (out(hcUsername spec \<mapsto> u)) w')"

definition reconcileWeb ::
  "acl_env \<Rightarrow> 'w identityAdmin \<Rightarrow> parsedACL \<Rightarrow> 'w \<Rightarrow> webApplicationResult option checked \<times> 'w" where
  "reconcileWeb B client acl w =
     (case webApplicationInputOf acl of
        None \<Rightarrow> (Inr None, w)
      | Some web \<Rightarrow>
        (case ensureWebApplication client web w of
           (Inl er, w') \<Rightarrow> (Inl (''ensure Web application '' @ quote B (wiName web) @ '': '' @ er), w')
         | (Inr r, w') \<Rightarrow> (Inr (Some r), w')))"

definition reconcileIdentityResources ::
  "acl_env \<Rightarrow> (string \<Rightarrow> string) \<Rightarrow> 'w identityAdmin \<Rightarrow> parsedACL \<Rightarrow> 'w \<Rightarrow> identityResults checked \<times> 'w" where
  "reconcileIdentityResources B getenv client acl w =
     (case resolveHumanInputs B getenv (paHumanUsers acl) of
        Inl er \<Rightarrow> (Inl er, w)
      | Inr humanInputs \<Rightarrow>
        (case reconcileWeb B client acl w of
           (Inl er, w1) \<Rightarrow> (Inl er, w1)
         | (Inr web, w1) \<Rightarrow>
           (case onboardMachines B client (paMachineUsers acl) Map.empty w1 of
              (Inl er, w2) \<Rightarrow> (Inl er, w2)
            | (Inr machines, w2) \<Rightarrow>
              (case onboardHumans B client humanInputs Map.empty w2 of
                 (Inl er, w3) \<Rightarrow> (Inl er, w3)
               | (Inr humans, w3) \<Rightarrow>
                   (Inr \<lparr>irWebApplication = web, irMachineUsers = machines, irHumanUsers = humans\<rparr>, w3)))))"

record drift_result =
  drCurrent :: bool
  drProjectID :: string

definition verifyIdentityResources ::
  "(humanAuthConfigurationInput \<Rightarrow> 'w \<Rightarrow> drift_result checked \<times> 'w) \<Rightarrow> parsedACL \<Rightarrow> 'w \<Rightarrow> drift_result checked \<times> 'w" where
  "verifyIdentityResources verify acl w =
     (case humanAuthConfigurationInputOf acl of
        Inl er \<Rightarrow> (Inl er, w)
      | Inr inp \<Rightarrow>
        (case verify inp w of
           (Inl er, w') \<Rightarrow> (Inl (''verify human authentication configuration: '' @ er), w')
         | (Inr r, w') \<Rightarrow> (Inr r, w')))"

section \<open>Secrets\<close>

definition preserveUser :: "onboardResult option \<Rightarrow> onboardResult \<Rightarrow> onboardResult" where
  "preserveUser old user =
     (case old of
        None \<Rightarrow> user
      | Some prev \<Rightarrow>
          if orClientSecret user = [] \<and> orClientID user = orClientID prev
          then user\<lparr>orClientSecret := orClientSecret prev\<rparr> else user)"

text \<open>Both arguments are non-nil at the two call sites.\<close>

definition preserveKnownSecrets :: "generatedConfig \<Rightarrow> generatedConfig \<Rightarrow> generatedConfig" where
  "preserveKnownSecrets previous new =
     (let api = (if apClientSecret (gcAPIApp new) = [] \<and> apClientID (gcAPIApp new) = apClientID (gcAPIApp previous)
                 then (gcAPIApp new)\<lparr>apClientSecret := apClientSecret (gcAPIApp previous)\<rparr> else gcAPIApp new)
      in new\<lparr>gcAPIApp := api,
             gcUsers := (\<lambda>name. map_option (preserveUser (gcUsers previous name)) (gcUsers new name))\<rparr>)"

section \<open>The configuration for the UI\<close>

record uiWebApplicationConfig =
  uwClientID :: string
  uwRedirectURIs :: "string list"
  uwPostLogoutRedirectURIs :: "string list"
  uwEnableRefreshTokens :: bool

record uiDemoUserConfig =
  udUserID :: string
  udLoginName :: string
  udDisplayName :: string

record uiAuthConfig =
  uiProjectID :: string
  uiIssuer :: string
  uiAudience :: string
  uiWebApp :: uiWebApplicationConfig
  uiDemoUsers :: "string \<rightharpoonup> uiDemoUserConfig"

text \<open>The parts of a parsed issuer the check reads beside those of \<open>url\<close>.\<close>

record issuer_parts =
  ipQuery :: string
  ipFragment :: string

definition trimRightSlash :: "string \<Rightarrow> string" where
  "trimRightSlash s = rev (dropWhile (\<lambda>c. c = CHR ''/'') (rev s))"

definition validIssuer :: "acl_env \<Rightarrow> (string \<Rightarrow> issuer_parts) \<Rightarrow> string \<Rightarrow> bool" where
  "validIssuer B parts issuer =
     (case urlParse B issuer of
        Inl _ \<Rightarrow> False
      | Inr u \<Rightarrow> uHost u \<noteq> [] \<and> \<not> uUser u \<and> ipQuery (parts issuer) = [] \<and> ipFragment (parts issuer) = [] \<and>
          (uScheme u = ''https'' \<or> uScheme u = ''http''))"

fun demoUsers ::
  "acl_env \<Rightarrow> (string \<rightharpoonup> humanOnboardResult) \<Rightarrow> aclHumanUser list \<Rightarrow> (string \<rightharpoonup> uiDemoUserConfig) \<Rightarrow>
   (string \<rightharpoonup> uiDemoUserConfig) checked" where
  "demoUsers B results [] out = Inr out"
| "demoUsers B results (human # humans) out =
     (let missing = Inl (''cannot generate UI auth configuration: human user '' @ quote B (huUsername human) @
                         '' has no generated user_id'')
      in case results (huUsername human) of
           None \<Rightarrow> missing
         | Some r \<Rightarrow>
             if hrUserID r = [] then missing
             else demoUsers B results humans
               (out(huUsername human \<mapsto>
                  \<lparr>udUserID = hrUserID r, udLoginName = hrLoginName r, udDisplayName = huDisplayName human\<rparr>)))"

definition buildUIAuthConfig ::
  "acl_env \<Rightarrow> (string \<Rightarrow> issuer_parts) \<Rightarrow> generatedConfig \<Rightarrow> parsedACL \<Rightarrow> string \<Rightarrow> uiAuthConfig option checked" where
  "buildUIAuthConfig B parts generated acl issuer =
     (case webApplicationInputOf acl of
        None \<Rightarrow> Inr None
      | Some web \<Rightarrow>
        if gcProjectID generated = [] then Inl ''cannot generate UI auth configuration: project_id is empty''
        else
          let clientID = (case gcWebApplication generated of None \<Rightarrow> [] | Some r \<Rightarrow> wrClientID r) in
          if clientID = [] then Inl ''cannot generate UI auth configuration: Web application client_id is empty''
          else if \<not> validIssuer B parts issuer then
            Inl (''cannot generate UI auth configuration: invalid issuer '' @ quote B issuer)
          else case demoUsers B (gcHumanUsers generated) (paHumanUsers acl) Map.empty of
            Inl er \<Rightarrow> Inl er
          | Inr users \<Rightarrow>
              Inr (Some \<lparr>uiProjectID = gcProjectID generated, uiIssuer = trimRightSlash issuer,
                uiAudience = ''urn:zitadel:iam:org:project:id:'' @ gcProjectID generated @ '':aud'',
                uiWebApp = \<lparr>uwClientID = clientID, uwRedirectURIs = wiRedirectURIs web,
                  uwPostLogoutRedirectURIs = wiPostLogoutRedirectURIs web,
                  uwEnableRefreshTokens = wiEnableRefreshTokens web\<rparr>,
                uiDemoUsers = users\<rparr>))"

definition issuerFromEnvironment :: "acl_env \<Rightarrow> (string \<Rightarrow> string) \<Rightarrow> string \<Rightarrow> string \<Rightarrow> bool \<Rightarrow> string" where
  "issuerFromEnvironment B getenv domain port insecure =
     (let configured = TrimSpace (getenv ''ZITADEL_ISSUER'') in
      if configured \<noteq> [] then configured
      else
        let scheme = (if insecure then ''http'' else ''https'');
            host = (if port \<noteq> [] \<and> port \<noteq> ''443'' \<and> \<not> (scheme = ''http'' \<and> port = ''80'')
                    then JoinHostPort domain port else domain)
        in urlString B \<lparr>uScheme = scheme, uOpaque = [], uUser = False, uHost = host, uRest = []\<rparr>)"

section \<open>Files\<close>

type_synonym files = "string \<rightharpoonup> string"

text \<open>
  The steps of \<open>writeFileAtomic\<close> on the file system, each of which may fail; a failed write leaves
  a prefix of the data. \<open>writeFileAtomic\<close> returns the states it goes through, the last being the one
  it leaves: a crash leaves one of them. Permissions are not modelled.
\<close>

datatype io_step = CreateTemp | Chmod | WriteData | Sync | CloseFile | Rename

record io_faults =
  ioFault :: "io_step \<Rightarrow> string option"
  ioWritten :: nat
  ioTempName :: string

definition writeFileAtomic :: "io_faults \<Rightarrow> string \<Rightarrow> string \<Rightarrow> files \<Rightarrow> unit checked \<times> files list" where
  "writeFileAtomic io path data fs =
     (let tmp = ioTempName io; removed = (\<lambda>s :: files. s(tmp := None)) in
      case ioFault io CreateTemp of
        Some er \<Rightarrow> (Inl er, [fs])
      | None \<Rightarrow>
        let fs1 = fs(tmp \<mapsto> []) in
        (case ioFault io Chmod of
           Some er \<Rightarrow> (Inl er, [fs, fs1, removed fs1])
         | None \<Rightarrow>
           (case ioFault io WriteData of
              Some er \<Rightarrow> (let fs2 = fs1(tmp \<mapsto> take (ioWritten io) data) in (Inl er, [fs, fs1, fs2, removed fs2]))
            | None \<Rightarrow>
              let fs2 = fs1(tmp \<mapsto> data) in
              (case ioFault io Sync of
                 Some er \<Rightarrow> (Inl er, [fs, fs1, fs2, removed fs2])
               | None \<Rightarrow>
                 (case ioFault io CloseFile of
                    Some er \<Rightarrow> (Inl er, [fs, fs1, fs2, removed fs2])
                  | None \<Rightarrow>
                    (case ioFault io Rename of
                       Some er \<Rightarrow> (Inl er, [fs, fs1, fs2, removed fs2])
                     | None \<Rightarrow> (Inr (), [fs, fs1, fs2, fs2(path \<mapsto> data, tmp := None)])))))))"

definition generatedConfigPath :: string where "generatedConfigPath = ''../generated-config.json''"
definition uiAuthConfigPath :: string where "uiAuthConfigPath = ''../citius-ui-auth.json''"

text \<open>\<open>encoding/json\<close> on the two configurations, and the faults of the plain file operations.\<close>

record boot_io =
  biFaults :: io_faults
  biMarshalGenerated :: "generatedConfig \<Rightarrow> string checked"
  biUnmarshalGenerated :: "string \<Rightarrow> generatedConfig checked"
  biMarshalUI :: "uiAuthConfig \<Rightarrow> string checked"
  biRemoveUI :: "string option"
  biWriteUI :: "(string \<times> string option) option"
  biNoFile :: string

definition writeGeneratedConfig :: "boot_io \<Rightarrow> generatedConfig \<Rightarrow> files \<Rightarrow> unit checked \<times> files" where
  "writeGeneratedConfig J c fs =
     (case biMarshalGenerated J c of
        Inl er \<Rightarrow> (Inl (''marshal: '' @ er), fs)
      | Inr data \<Rightarrow>
          let (r, states) = writeFileAtomic (biFaults J) generatedConfigPath data fs in (r, last states))"

text \<open>
  Removing a file that does not exist is not an error; \<open>os.WriteFile\<close> is not atomic, and the fault
  says what it leaves.
\<close>

definition writeBootstrapConfigs ::
  "acl_env \<Rightarrow> (string \<Rightarrow> issuer_parts) \<Rightarrow> boot_io \<Rightarrow> generatedConfig \<Rightarrow> parsedACL \<Rightarrow> string \<Rightarrow> files \<Rightarrow>
   bool checked \<times> files" where
  "writeBootstrapConfigs B parts J generated acl issuer fs =
     (case buildUIAuthConfig B parts generated acl issuer of
        Inl er \<Rightarrow> (Inl er, fs)
      | Inr ui \<Rightarrow>
        (case writeGeneratedConfig J generated fs of
           (Inl er, fs1) \<Rightarrow> (Inl (''write '' @ generatedConfigPath @ '': '' @ er), fs1)
         | (Inr _, fs1) \<Rightarrow>
           (case ui of
              None \<Rightarrow>
                (case (if fs1 uiAuthConfigPath = None then None else biRemoveUI J) of
                   Some er \<Rightarrow> (Inl (''remove stale '' @ uiAuthConfigPath @ '': '' @ er), fs1)
                 | None \<Rightarrow> (Inr False, fs1(uiAuthConfigPath := None)))
            | Some cfg \<Rightarrow>
                (case biMarshalUI J cfg of
                   Inl er \<Rightarrow> (Inl (''marshal UI auth configuration: '' @ er), fs1)
                 | Inr data \<Rightarrow>
                   (case biWriteUI J of
                      Some (er, left) \<Rightarrow> (Inl (''write '' @ uiAuthConfigPath @ '': '' @ er), fs1(uiAuthConfigPath := left))
                    | None \<Rightarrow> (Inr True, fs1(uiAuthConfigPath \<mapsto> data)))))))"

definition readGeneratedConfig :: "boot_io \<Rightarrow> files \<Rightarrow> generatedConfig checked" where
  "readGeneratedConfig J fs =
     (case fs generatedConfigPath of
        None \<Rightarrow> Inl (''read '' @ generatedConfigPath @ '': '' @ biNoFile J)
      | Some raw \<Rightarrow>
        (case biUnmarshalGenerated J raw of
           Inl er \<Rightarrow> Inl (''parse '' @ generatedConfigPath @ '': '' @ er)
         | Inr c \<Rightarrow>
             if gcProjectID c = [] then Inl (generatedConfigPath @ '' has empty project_id'') else Inr c))"

section \<open>Commands\<close>

record adminConfig =
  cnDomain :: string
  cnPort :: string
  cnInsecure :: bool
  cnPAT :: string
  cnNamespace :: string
  cnProjectID :: string

record bootstrapResult =
  brProjectID :: string
  brActionID :: string
  brAPIApp :: appCredentials

record bootstrapInput =
  biProjectName :: string
  biClaimNamespace :: string
  biOperations :: "operation list"

text \<open>
  What a command uses: the environment after \<open>loadEnv\<close>, its parsed flags (the ACL path and
  \<open>-dry-run\<close>, by command), files, and the admin client.
\<close>

record ('w, 'raw) cli =
  clAcl :: acl_env
  clIssuerParts :: "string \<Rightarrow> issuer_parts"
  clIO :: boot_io
  clGetenv :: "string \<Rightarrow> string"
  clFlags :: "string \<Rightarrow> string list \<Rightarrow> (string \<times> bool) option"
  clReadFile :: "string \<Rightarrow> 'raw checked"
  clDecode :: "'raw \<Rightarrow> aclFile checked"
  clNewClient :: "adminConfig \<Rightarrow> string option"
  clBootstrap :: "bootstrapInput \<Rightarrow> 'w \<Rightarrow> bootstrapResult checked \<times> 'w"
  clClient :: "'w identityAdmin"
  clVerify :: "humanAuthConfigurationInput \<Rightarrow> 'w \<Rightarrow> drift_result checked \<times> 'w"

definition envOr :: "(string \<Rightarrow> string) \<Rightarrow> string \<Rightarrow> string \<Rightarrow> string" where
  "envOr getenv k fallback = (if getenv k \<noteq> [] then getenv k else fallback)"

definition projectName :: string where "projectName = ''citius-api''"

definition runValidate :: "('w, 'raw) cli \<Rightarrow> string list \<Rightarrow> nat" where
  "runValidate C args =
     (case clFlags C ''validate'' args of
        None \<Rightarrow> 2
      | Some (aclPath, _) \<Rightarrow> (case loadACL (clAcl C) (clReadFile C) (clDecode C) aclPath of Inl _ \<Rightarrow> 1 | Inr _ \<Rightarrow> 0))"

definition reconcileIdentities ::
  "('w, 'raw) cli \<Rightarrow> adminConfig \<Rightarrow> parsedACL \<Rightarrow> 'w \<Rightarrow> identityResults checked \<times> 'w" where
  "reconcileIdentities C cfg acl w =
     (case clNewClient C cfg of
        Some er \<Rightarrow> (Inl (''admin.NewClient: '' @ er), w)
      | None \<Rightarrow> reconcileIdentityResources (clAcl C) (clGetenv C) (clClient C) acl w)"

definition adminConfigOf :: "('w, 'raw) cli \<Rightarrow> string \<Rightarrow> adminConfig" where
  "adminConfigOf C projectID =
     \<lparr>cnDomain = envOr (clGetenv C) ''ZITADEL_DOMAIN'' ''citius-auth.localhost'', cnPort = envOr (clGetenv C) ''ZITADEL_PORT'' ''443'',
      cnInsecure = (clGetenv C ''ZITADEL_INSECURE'' = ''true''), cnPAT = clGetenv C ''ZITADEL_ADMIN_PAT'',
      cnNamespace = claimNamespace, cnProjectID = projectID\<rparr>"

definition issuerOf :: "('w, 'raw) cli \<Rightarrow> string" where
  "issuerOf C =
     (let cfg = adminConfigOf C [] in
      issuerFromEnvironment (clAcl C) (clGetenv C) (cnDomain cfg) (cnPort cfg) (cnInsecure cfg))"

definition runApply :: "('w, 'raw) cli \<Rightarrow> string list \<Rightarrow> files \<Rightarrow> 'w \<Rightarrow> nat \<times> files \<times> 'w" where
  "runApply C args fs w =
     (case clFlags C ''apply'' args of
        None \<Rightarrow> (2, fs, w)
      | Some (aclPath, dryRun) \<Rightarrow>
      case loadACL (clAcl C) (clReadFile C) (clDecode C) aclPath of
        Inl _ \<Rightarrow> (1, fs, w)
      | Inr acl \<Rightarrow>
      if clGetenv C ''ZITADEL_ADMIN_PAT'' = [] then (1, fs, w)
      else if clNewClient C (adminConfigOf C []) \<noteq> None then (1, fs, w)
      else if dryRun then (0, fs, w)
      else case clBootstrap C \<lparr>biProjectName = projectName, biClaimNamespace = claimNamespace, biOperations = citiusOperations\<rparr> w of
        (Inl _, w1) \<Rightarrow> (1, fs, w1)
      | (Inr res, w1) \<Rightarrow>
      case reconcileIdentities C (adminConfigOf C (brProjectID res)) acl w1 of
        (Inl _, w2) \<Rightarrow> (1, fs, w2)
      | (Inr identities, w2) \<Rightarrow>
        let new = \<lparr>gcProjectID = brProjectID res, gcActionID = brActionID res, gcAPIApp = brAPIApp res,
              gcWebApplication = irWebApplication identities, gcUsers = irMachineUsers identities,
              gcHumanUsers = irHumanUsers identities\<rparr>;
            out = (case readGeneratedConfig (clIO C) fs of Inl _ \<Rightarrow> new | Inr previous \<Rightarrow> preserveKnownSecrets previous new)
        in case writeBootstrapConfigs (clAcl C) (clIssuerParts C) (clIO C) out acl (issuerOf C) fs of
             (Inl _, fs1) \<Rightarrow> (1, fs1, w2)
           | (Inr _, fs1) \<Rightarrow> (0, fs1, w2))"

text \<open>What \<open>users\<close> makes of the existing configuration and the identities it reconciled.\<close>

definition mergeIdentities :: "generatedConfig \<Rightarrow> identityResults \<Rightarrow> generatedConfig" where
  "mergeIdentities existing identities =
     (let merged = existing\<lparr>gcUsers := gcUsers existing ++ irMachineUsers identities\<rparr>;
          kept = preserveKnownSecrets existing merged
      in kept\<lparr>gcHumanUsers := gcHumanUsers existing ++ irHumanUsers identities,
              gcWebApplication := (case irWebApplication identities of
                 None \<Rightarrow> gcWebApplication existing | Some web \<Rightarrow> Some web)\<rparr>)"

definition runUsers :: "('w, 'raw) cli \<Rightarrow> string list \<Rightarrow> files \<Rightarrow> 'w \<Rightarrow> nat \<times> files \<times> 'w" where
  "runUsers C args fs w =
     (case clFlags C ''users'' args of
        None \<Rightarrow> (2, fs, w)
      | Some (aclPath, dryRun) \<Rightarrow>
      case loadACL (clAcl C) (clReadFile C) (clDecode C) aclPath of
        Inl _ \<Rightarrow> (1, fs, w)
      | Inr acl \<Rightarrow>
      case readGeneratedConfig (clIO C) fs of
        Inl _ \<Rightarrow> (1, fs, w)
      | Inr existing \<Rightarrow>
      if clGetenv C ''ZITADEL_ADMIN_PAT'' = [] then (1, fs, w)
      else if dryRun then (0, fs, w)
      else case reconcileIdentities C (adminConfigOf C (gcProjectID existing)) acl w of
        (Inl _, w1) \<Rightarrow> (1, fs, w1)
      | (Inr identities, w1) \<Rightarrow>
        case writeBootstrapConfigs (clAcl C) (clIssuerParts C) (clIO C) (mergeIdentities existing identities) acl (issuerOf C) fs of
          (Inl _, fs1) \<Rightarrow> (1, fs1, w1)
        | (Inr _, fs1) \<Rightarrow> (0, fs1, w1))"

definition runVerify :: "('w, 'raw) cli \<Rightarrow> string list \<Rightarrow> files \<Rightarrow> 'w \<Rightarrow> nat \<times> 'w" where
  "runVerify C args fs w =
     (case clFlags C ''verify'' args of
        None \<Rightarrow> (2, w)
      | Some (aclPath, _) \<Rightarrow>
      case loadACL (clAcl C) (clReadFile C) (clDecode C) aclPath of
        Inl _ \<Rightarrow> (1, w)
      | Inr acl \<Rightarrow>
      case readGeneratedConfig (clIO C) fs of
        Inl _ \<Rightarrow> (1, w)
      | Inr existing \<Rightarrow>
      if clGetenv C ''ZITADEL_ADMIN_PAT'' = [] then (1, w)
      else if clNewClient C (adminConfigOf C (gcProjectID existing)) \<noteq> None then (1, w)
      else case verifyIdentityResources (clVerify C) acl w of
        (Inl _, w1) \<Rightarrow> (1, w1)
      | (Inr result, w1) \<Rightarrow> (if drCurrent result then 0 else 1, w1))"

definition main_setup :: "('w, 'raw) cli \<Rightarrow> string list \<Rightarrow> files \<Rightarrow> 'w \<Rightarrow> nat \<times> files \<times> 'w" where
  "main_setup C argv fs w =
     (case argv of
        (_ # cmd # args) \<Rightarrow>
          if cmd = ''validate'' then (runValidate C args, fs, w)
          else if cmd = ''apply'' then runApply C args fs w
          else if cmd = ''users'' then runUsers C args fs w
          else if cmd = ''verify'' then (let (code, w') = runVerify C args fs w in (code, fs, w'))
          else if cmd = ''-h'' \<or> cmd = ''--help'' \<or> cmd = ''help'' then (0, fs, w)
          else (2, fs, w)
      | _ \<Rightarrow> (2, fs, w))"

end
