(* ===== verification/Bootstrap_Acl_Properties.thy ===== *)
theory Bootstrap_Acl_Properties
  imports Bootstrap_Setup "HOL-Library.Multiset"
begin

text \<open>
  What an ACL file that \<open>loadACL\<close> accepts guarantees: whom it provisions and with which permissions
  and patterns, which identities may skip the human checks, and which redirect URIs a browser may be
  sent to.
\<close>

declare not_None_eq [iff del]

section \<open>Vocabulary\<close>

text \<open>The permissions an entry of the file asks for.\<close>

definition granted :: "string list \<Rightarrow> string set" where
  "granted perms = (if perms = [''*''] then set AllPermissions else set perms)"

text \<open>One line per provisioned user: the name, the permissions, the key and the policy patterns.\<close>

type_synonym grant = "string \<times> string set \<times> access \<times> access"

definition provisioned :: "parsedACL \<Rightarrow> grant list" where
  "provisioned a =
     map (\<lambda>u. (oiUsername u, set (oiPermissions u), oiKeyAccess u, oiPolicyAccess u)) (paMachineUsers a) @
     map (\<lambda>u. (huUsername u, set (huPermissions u), huKeyAccess u, huPolicyAccess u)) (paHumanUsers a)"

definition requested :: "aclUser \<Rightarrow> grant" where
  "requested u = (auUsername u, granted (auPermissions u), keyAccess (auKeyAccess u), policyAccess (auPolicyAccess u))"

definition devMode :: "parsedACL \<Rightarrow> bool" where
  "devMode a = (case paWebApplication a of None \<Rightarrow> False | Some w \<Rightarrow> waDevMode w)"

text \<open>A human whose password is not in the environment, or who skips a check outside development, is refused.\<close>

definition human_ok :: "bool \<Rightarrow> aclHumanUser \<Rightarrow> bool" where
  "human_ok dev u \<longleftrightarrow> environmentVariableName (huPasswordEnv u) \<and>
     (dev \<or> \<not> huEmailVerified u \<and> huPasswordChangeRequired u)"

definition emailKeys :: "acl_env \<Rightarrow> parsedACL \<Rightarrow> string list" where
  "emailKeys B a = map (\<lambda>u. toLower B (huEmail u)) (paHumanUsers a)"

definition grants_wf :: "grant list \<Rightarrow> bool" where
  "grants_wf gs \<longleftrightarrow> distinct (map fst gs) \<and> (\<forall>(name, perms, _) \<in> set gs. name \<noteq> [] \<and> perms \<subseteq> set AllPermissions)"

definition acl_wf :: "acl_env \<Rightarrow> parsedACL \<Rightarrow> bool" where
  "acl_wf B a \<longleftrightarrow> grants_wf (provisioned a) \<and> distinct (emailKeys B a) \<and>
     list_all (human_ok (devMode a)) (paHumanUsers a)"

definition secure_uri :: "acl_env \<Rightarrow> bool \<Rightarrow> string \<Rightarrow> bool" where
  "secure_uri B dev value \<longleftrightarrow> \<not> contains value ''*'' \<and> \<not> contains value ''#'' \<and>
     (case urlParse B value of
        Inl _ \<Rightarrow> False
      | Inr u \<Rightarrow> \<not> uUser u \<and> uHost u \<noteq> [] \<and>
          (toLower B (uScheme u) = ''https'' \<or>
           dev \<and> toLower B (uScheme u) = ''http'' \<and> isLoopbackHost B (toLower B (urlHostname B (uHost u)))))"

section \<open>Permissions\<close>

lemma checkPermissions_known: "checkPermissions B known ps = Inr () \<Longrightarrow> set ps \<subseteq> set known \<and> ''*'' \<notin> set ps"
  by (induction ps) (auto split: if_splits)

lemma expandPermissions_grants:
  assumes "expandPermissions B ps knownPermissionSet = Inr out"
  shows "set out = granted ps \<and> set out \<subseteq> set AllPermissions"
  using assms checkPermissions_known [of B knownPermissionSet ps]
  by (auto simp: expandPermissions_def granted_def knownPermissionSet_def catalogue_is_server split: if_splits sum.splits)

section \<open>Users\<close>

lemma validateHumanUser_ok:
  assumes "validateHumanUser B u web seen = Inr seen'"
  shows "toLower B (auEmail u) \<notin> seen \<and> seen' = insert (toLower B (auEmail u)) seen \<and>
    environmentVariableName (auPasswordEnv u) \<and>
    (usesDemoIdentityFlags u \<longrightarrow> (\<exists>w. web = Some w \<and> waDevMode w))"
  using assms by (auto simp: validateHumanUser_def Let_def not_None_eq split: if_splits sum.splits option.splits)

lemma human_ok_input:
  assumes "validateHumanUser B u web seen = Inr seen'"
  shows "human_ok (case web of None \<Rightarrow> False | Some w \<Rightarrow> waDevMode w) (humanACLInput u ps)"
  using validateHumanUser_ok [OF assms]
  by (auto simp: human_ok_def humanACLInput_def usesDemoIdentityFlags_def split: option.splits)

lemma grants_wf_add:
  assumes added: "mset gs' = add_mset g (mset gs)" and wf: "grants_wf gs"
    and g: "fst g \<noteq> []" "fst g \<notin> fst ` set gs" "fst (snd g) \<subseteq> set AllPermissions"
  shows "grants_wf gs'"
proof -
  have "mset (map fst gs') = mset (map fst (g # gs))" using added by simp
  then have "distinct (map fst gs') = distinct (map fst (g # gs))" by (rule mset_eq_imp_distinct_iff)
  moreover have "set gs' = insert g (set gs)" using arg_cong [OF added, of set_mset] by simp
  ultimately show ?thesis using wf g by (simp add: grants_wf_def case_prod_unfold)
qed

text \<open>
  The step of the loop: one user is added, as the file describes it, and the invariant is kept.
\<close>

lemma appendACLUser_adds:
  assumes step: "appendACLUser B out u web seen knownPermissionSet = Inr (out', seen')"
    and wf: "acl_wf B out" and web: "web = paWebApplication out" and seen: "seen = set (emailKeys B out)"
  shows "paWebApplication out' = web \<and> seen' = set (emailKeys B out') \<and> distinct (emailKeys B out') \<and>
    list_all (human_ok (devMode out')) (paHumanUsers out') \<and> granted (auPermissions u) \<subseteq> set AllPermissions \<and>
    mset (provisioned out') = add_mset (requested u) (mset (provisioned out))"
proof -
  obtain ps where ps: "expandPermissions B (auPermissions u) knownPermissionSet = Inr ps"
    using step by (auto simp: appendACLUser_def split: sum.splits)
  note perms = expandPermissions_grants [OF ps]
  consider
      (machine) "out' = out\<lparr>paMachineUsers := paMachineUsers out @ [machineOnboardInput u ps]\<rparr>" "seen' = seen"
    | (human) "out' = out\<lparr>paHumanUsers := paHumanUsers out @ [humanACLInput u ps]\<rparr>"
        "validateHumanUser B u web seen = Inr seen'"
    using step ps by (auto simp: appendACLUser_def Let_def split: if_splits sum.splits)
  then show ?thesis
  proof cases
    case machine
    then show ?thesis using wf web seen conjunct1 [OF perms] conjunct2 [OF perms]
      by (auto simp: acl_wf_def provisioned_def emailKeys_def devMode_def machineOnboardInput_def requested_def)
  next
    case human
    have ok: "human_ok (devMode out) (humanACLInput u ps)"
      using human_ok_input [OF human(2), of ps] web by (simp add: devMode_def)
    show ?thesis using human(1) validateHumanUser_ok [OF human(2)] ok wf web seen perms
      by (auto simp: acl_wf_def provisioned_def emailKeys_def devMode_def humanACLInput_def requested_def image_iff)
  qed
qed

lemma appendACLUser_step:
  assumes step: "appendACLUser B out u web seen knownPermissionSet = Inr (out', seen')"
    and wf: "acl_wf B out" and web: "web = paWebApplication out" and seen: "seen = set (emailKeys B out)"
    and name: "auUsername u \<noteq> []" "auUsername u \<notin> fst ` set (provisioned out)"
  shows "acl_wf B out' \<and> paWebApplication out' = web \<and> seen' = set (emailKeys B out') \<and>
    mset (provisioned out') = add_mset (requested u) (mset (provisioned out))"
proof -
  note added = appendACLUser_adds [OF step wf web seen]
  have "grants_wf (provisioned out')"
  proof (rule grants_wf_add)
    show "mset (provisioned out') = add_mset (requested u) (mset (provisioned out))" using added by blast
    show "grants_wf (provisioned out)" using wf by (simp add: acl_wf_def)
  qed (use added name in \<open>simp_all add: requested_def\<close>)
  then show ?thesis using added by (simp add: acl_wf_def)
qed

lemma appendACLUsers_sound:
  assumes "appendACLUsers B path web i seenUsers seenEmails out us = Inr a"
    and "acl_wf B out" "web = paWebApplication out" "seenEmails = set (emailKeys B out)"
    and "seenUsers = fst ` set (provisioned out)"
  shows "acl_wf B a \<and> paWebApplication a = web \<and>
    mset (provisioned a) = mset (map requested us) + mset (provisioned out)"
  using assms
proof (induction us arbitrary: i seenUsers seenEmails out)
  case (Cons u us)
  obtain out' seen' where step: "appendACLUser B out u web seenEmails knownPermissionSet = Inr (out', seen')"
    and rest: "appendACLUsers B path web (i + 1) (insert (auUsername u) seenUsers) seen' out' us = Inr a"
    and name: "auUsername u \<noteq> []" "auUsername u \<notin> seenUsers"
    using Cons.prems(1) by (auto split: if_splits sum.splits)
  note inv = appendACLUser_step [OF step Cons.prems(2,3,4) name(1)]
  have added: "mset (provisioned out') = add_mset (requested u) (mset (provisioned out))"
    using inv name(2) Cons.prems(5) by simp
  have "set (provisioned out') = insert (requested u) (set (provisioned out))"
    using arg_cong [OF added, of set_mset] by simp
  then have users: "insert (auUsername u) seenUsers = fst ` set (provisioned out')"
    using Cons.prems(5) by (simp add: requested_def)
  have "acl_wf B a \<and> paWebApplication a = web \<and> mset (provisioned a) = mset (map requested us) + mset (provisioned out')"
    using inv name(2) Cons.prems(5) by (intro Cons.IH [OF rest _ _ _ users]) simp_all
  then show ?case using added by simp
qed simp

section \<open>Web application\<close>

lemma normalizeWebURI_secure: "normalizeWebURI B value dev = Inr n \<Longrightarrow> secure_uri B dev value"
  by (auto simp: normalizeWebURI_def normalizeParsedWebURI_def secure_uri_def Let_def split: if_splits sum.splits)

lemma validateURIs_secure:
  "validateURIs B field dev seen vs = Inr () \<Longrightarrow> list_all (secure_uri B dev) vs"
  by (induction vs arbitrary: seen) (auto split: sum.splits if_splits dest: normalizeWebURI_secure)

lemma validateWebApplication_secure:
  assumes "validateWebApplication B w = Inr ()"
  shows "waRedirectURIs w \<noteq> [] \<and> list_all (secure_uri B (waDevMode w)) (waRedirectURIs w @ waPostLogoutRedirectURIs w)"
  using assms by (auto simp: validateWebApplication_def validateWebURISet_def split: if_splits sum.splits
      dest!: validateURIs_secure)

lemma loadACL_cases:
  assumes "loadACL B readFile decode path = Inr acl"
  shows "\<exists>raw f. readFile path = Inr raw \<and> decode raw = Inr f \<and>
    (case afWebApplication f of None \<Rightarrow> True | Some w \<Rightarrow> validateWebApplication B w = Inr ()) \<and>
    appendACLUsers B path (afWebApplication f) 0 {} {}
       \<lparr>paWebApplication = afWebApplication f, paMachineUsers = [], paHumanUsers = []\<rparr> (afUsers f) = Inr acl"
  using assms by (simp add: loadACL_def split: sum.splits if_splits option.splits)

lemma loadACL_exact:
  assumes "loadACL B readFile decode path = Inr acl"
  shows "acl_wf B acl \<and>
    (\<exists>raw f. readFile path = Inr raw \<and> decode raw = Inr f \<and> paWebApplication acl = afWebApplication f \<and>
       mset (provisioned acl) = mset (map requested (afUsers f))) \<and>
    (\<forall>w. paWebApplication acl = Some w \<longrightarrow>
       list_all (secure_uri B (waDevMode w)) (waRedirectURIs w @ waPostLogoutRedirectURIs w))"
proof -
  obtain raw f where f: "readFile path = Inr raw" "decode raw = Inr f"
      "case afWebApplication f of None \<Rightarrow> True | Some w \<Rightarrow> validateWebApplication B w = Inr ()"
    and users: "appendACLUsers B path (afWebApplication f) 0 {} {}
       \<lparr>paWebApplication = afWebApplication f, paMachineUsers = [], paHumanUsers = []\<rparr> (afUsers f) = Inr acl"
    using loadACL_cases [OF assms] by metis
  have "acl_wf B acl \<and> paWebApplication acl = afWebApplication f \<and>
      mset (provisioned acl) = mset (map requested (afUsers f))"
    using appendACLUsers_sound [OF users] by (simp add: acl_wf_def grants_wf_def provisioned_def emailKeys_def)
  then show ?thesis using f by (auto split: option.splits dest: validateWebApplication_secure)
qed

text \<open>
  C19: An accepted ACL provisions exactly the users of the file, each once and with exactly the
  permissions and patterns the file gives it (a lone \<open>*\<close> meaning every permission the server knows),
  lets humans skip e-mail verification or the password change only in development mode, gives no two
  humans one e-mail address, and sends browsers only to HTTPS URIs, or in development mode to
  loopback ones.
\<close>

theorem loadACL_sound:
  assumes "loadACL B readFile decode path = Inr acl"
  shows "acl_wf B acl \<and>
    (\<exists>raw f. readFile path = Inr raw \<and> decode raw = Inr f \<and> paWebApplication acl = afWebApplication f \<and>
       mset (provisioned acl) = mset (map requested (afUsers f))) \<and>
    (\<forall>w. paWebApplication acl = Some w \<longrightarrow>
       list_all (secure_uri B (waDevMode w)) (waRedirectURIs w @ waPostLogoutRedirectURIs w))"
  by (rule loadACL_exact [OF assms])

text \<open>
  A concrete environment and file for the witness: an application on HTTPS with a loopback logout
  page in development mode, a machine user and a human one.
\<close>

definition demo_env :: acl_env where
  "demo_env = \<lparr>quote = (\<lambda>s. s), toLower = (\<lambda>s. s), mailAddress = Some,
     urlParse = (\<lambda>s. Inr \<lparr>uScheme = takeWhile (\<lambda>c. c \<noteq> CHR '':'') s, uOpaque = [], uUser = False,
        uHost = takeWhile (\<lambda>c. c \<noteq> CHR ''/'') (drop 3 (dropWhile (\<lambda>c. c \<noteq> CHR '':'') s)), uRest = []\<rparr>),
     urlString = (\<lambda>u. uScheme u @ ''://'' @ uHost u), urlHostname = (\<lambda>h. h), urlPort = (\<lambda>h. []),
     isLoopbackIP = (\<lambda>h. h = ''127.0.0.1'')\<rparr>"

definition demo_machine :: aclUser where
  "demo_machine = \<lparr>auUsername = ''svc'', auUserType = [], auDisplayName = ''Service'', auGivenName = [],
     auFamilyName = [], auEmail = [], auEmailVerified = None, auPasswordEnv = [],
     auPasswordChangeRequired = None, auPermissions = [permKeysRead],
     auKeyAccess = Some \<lparr>abAllow = [''app-*''], abDeny = []\<rparr>, auPolicyAccess = None\<rparr>"

definition demo_human :: aclUser where
  "demo_human = \<lparr>auUsername = ''ann'', auUserType = userTypeHuman, auDisplayName = ''Ann'', auGivenName = ''Ann'',
     auFamilyName = ''Lee'', auEmail = ''a@x'', auEmailVerified = Some True, auPasswordEnv = ''PW'',
     auPasswordChangeRequired = None, auPermissions = [permPolicyRead],
     auKeyAccess = None, auPolicyAccess = None\<rparr>"

definition demo_file :: aclFile where
  "demo_file = \<lparr>afVersion = 1,
     afWebApplication = Some \<lparr>waName = ''ui'', waRedirectURIs = [''https://ui/cb''],
       waPostLogoutRedirectURIs = [''http://localhost/bye''], waEnableRefreshTokens = False, waDevMode = True\<rparr>,
     afUsers = [demo_machine, demo_human]\<rparr>"

definition demo_load :: "parsedACL checked" where
  "demo_load = loadACL demo_env (\<lambda>_. Inr ()) (\<lambda>_. Inr demo_file) ''acl.yaml''"

lemma demo_load_ok: "case demo_load of Inl _ \<Rightarrow> False | Inr acl \<Rightarrow> userCount acl = 2"
  by code_simp

theorem loadACL_sound_witness:
  "\<exists>acl. demo_load = Inr acl \<and> acl_wf demo_env acl \<and>
     mset (provisioned acl) = {#requested demo_machine, requested demo_human#}"
proof -
  obtain acl where acl: "demo_load = Inr acl" using demo_load_ok by (auto split: sum.splits)
  have "acl_wf demo_env acl \<and> mset (provisioned acl) = mset (map requested (afUsers demo_file))"
    using loadACL_sound [of demo_env "\<lambda>_. Inr ()" "\<lambda>_. Inr demo_file" "''acl.yaml''" acl] acl
    by (auto simp: demo_load_def)
  then show ?thesis using acl by (auto simp: demo_file_def)
qed

end
