(* ===== verification/Bootstrap_Properties.thy ===== *)
theory Bootstrap_Properties
  imports Bootstrap_Acl_Properties
begin

text \<open>
  What a run of the bootstrap CLI may do to the configuration file that holds the only copy of the
  client secrets: it is replaced atomically or not at all, and credentials are carried over.
\<close>

section \<open>Atomic replacement\<close>

text \<open>The temporary name is fresh: \<open>os.CreateTemp\<close> creates a file that did not exist.\<close>

definition fresh_temp :: "io_faults \<Rightarrow> files \<Rightarrow> bool" where
  "fresh_temp io fs \<longleftrightarrow> fs (ioTempName io) = None \<and> ioTempName io \<notin> {generatedConfigPath, uiAuthConfigPath}"

lemma no_fault_iff: "(\<forall>step. ioFault io step = None) =
    list_all (\<lambda>step. ioFault io step = None) [CreateTemp, Chmod, WriteData, Sync, CloseFile, Rename]"
  by (auto simp: list_all_iff) (metis io_step.exhaust)

lemma writeFileAtomic_effect:
  assumes "writeFileAtomic io path data fs = (r, states)" and "fs (ioTempName io) = None" "ioTempName io \<noteq> path"
  shows "last states = (if r = Inr () then fs(path \<mapsto> data) else fs) \<and> (r = Inr ()) = (\<forall>step. ioFault io step = None)"
  using assms unfolding no_fault_iff
  by (auto simp: writeFileAtomic_def Let_def fun_eq_iff split: option.splits)

text \<open>
  Whatever step fails, and wherever a run is interrupted, the target holds its old content or
  all of the new one; the call succeeds exactly when no step fails, the new content is then in
  place, and no temporary file is left when it returns.
\<close>

theorem writeFileAtomic_atomic:
  assumes "writeFileAtomic io path data fs = (r, states)" and "fs (ioTempName io) = None" "ioTempName io \<noteq> path"
  shows "(\<forall>s \<in> set states. (s path = fs path \<or> s path = Some data) \<and> (\<forall>q. q \<notin> {path, ioTempName io} \<longrightarrow> s q = fs q)) \<and>
    states \<noteq> [] \<and> last states = (if r = Inr () then fs(path \<mapsto> data) else fs) \<and>
    (r = Inr ()) = (\<forall>step. ioFault io step = None)"
proof -
  have "states \<noteq> [] \<and> (\<forall>s \<in> set states. (s path = fs path \<or> s path = Some data) \<and> (\<forall>q. q \<notin> {path, ioTempName io} \<longrightarrow> s q = fs q))"
    using assms by (auto simp: writeFileAtomic_def Let_def split: option.splits)
  then show ?thesis using writeFileAtomic_effect [OF assms] by blast
qed

section \<open>Secrets\<close>

text \<open>
  What becomes of a credential \<open>old\<close> when Zitadel answers with \<open>z\<close>: a client that keeps its id and
  comes without a secret keeps the known one; otherwise what Zitadel issued replaces it.
\<close>

definition carriedUser :: "onboardResult \<Rightarrow> onboardResult \<Rightarrow> onboardResult" where
  "carriedUser old z = (if orClientSecret z = [] \<and> orClientID z = orClientID old then z\<lparr>orClientSecret := orClientSecret old\<rparr> else z)"

definition carriedApp :: "appCredentials \<Rightarrow> appCredentials \<Rightarrow> appCredentials" where
  "carriedApp old z = (if apClientSecret z = [] \<and> apClientID z = apClientID old then z\<lparr>apClientSecret := apClientSecret old\<rparr> else z)"

text \<open>
  How the credentials of \<open>c\<close> come from those of \<open>prev\<close> when command \<open>cmd\<close> ran for \<open>acl\<close>. A known machine user
  is as before or was onboarded again; only \<open>apply\<close> drops users, those that are not in the ACL. The API
  application is as before, or \<open>apply\<close> bootstrapped it again.
\<close>

definition onboarded :: "('w, 'raw) cli \<Rightarrow> parsedACL \<Rightarrow> string \<Rightarrow> onboardResult \<Rightarrow> bool" where
  "onboarded C acl name z \<longleftrightarrow>
     (\<exists>spec \<in> set (paMachineUsers acl). oiUsername spec = name \<and> (\<exists>w w'. onboard (clClient C) spec w = (Inr z, w')))"

definition credentials_carried ::
  "('w, 'raw) cli \<Rightarrow> string \<Rightarrow> parsedACL \<Rightarrow> generatedConfig \<Rightarrow> generatedConfig \<Rightarrow> bool" where
  "credentials_carried C cmd acl prev c \<longleftrightarrow>
     (\<forall>name old. gcUsers prev name = Some old \<longrightarrow>
        (case gcUsers c name of
           None \<Rightarrow> cmd = ''apply'' \<and> name \<notin> oiUsername ` set (paMachineUsers acl)
         | Some r \<Rightarrow> r = old \<or> (\<exists>z. onboarded C acl name z \<and> r = carriedUser old z))) \<and>
     (gcAPIApp c = gcAPIApp prev \<or>
      cmd = ''apply'' \<and> (\<exists>inp res w w'. clBootstrap C inp w = (Inr res, w') \<and> gcAPIApp c = carriedApp (gcAPIApp prev) (brAPIApp res)))"

lemma onboardMachines_results:
  assumes "onboardMachines B client specs out w = (Inr m, w')"
  shows "dom m = dom out \<union> oiUsername ` set specs \<and>
    (\<forall>name z. m name = Some z \<longrightarrow> out name = Some z \<or>
       (\<exists>spec \<in> set specs. oiUsername spec = name \<and> (\<exists>wa wb. onboard client spec wa = (Inr z, wb))))"
  using assms
proof (induction specs arbitrary: out w)
  case (Cons spec specs)
  obtain r w1 where r: "onboard client spec w = (r, w1)" by fastforce
  with Cons.prems obtain u where u: "r = Inr u" by (cases r) auto
  with r Cons.prems have "onboardMachines B client specs (out(oiUsername spec \<mapsto> u)) w1 = (Inr m, w')" by simp
  from Cons.IH [OF this] r u show ?case by (auto split: if_splits) metis+
qed simp

lemma reconciled_machines:
  assumes "reconcileIdentities C cfg acl w = (Inr identities, w')"
  shows "dom (irMachineUsers identities) = oiUsername ` set (paMachineUsers acl)"
    and "irMachineUsers identities name = Some z \<Longrightarrow> onboarded C acl name z"
proof -
  obtain w1 w2 where "onboardMachines (clAcl C) (clClient C) (paMachineUsers acl) Map.empty w1 = (Inr (irMachineUsers identities), w2)"
    using assms by (auto simp: reconcileIdentities_def reconcileIdentityResources_def split: option.splits sum.splits prod.splits)
  from onboardMachines_results [OF this]
  show "dom (irMachineUsers identities) = oiUsername ` set (paMachineUsers acl)"
    "irMachineUsers identities name = Some z \<Longrightarrow> onboarded C acl name z" unfolding onboarded_def by auto
qed

lemma preserveUser_carried: "preserveUser (Some old) z = carriedUser old z"
  by (simp add: preserveUser_def carriedUser_def)

lemma carried_same [simp]: "carriedUser old old = old" "carriedApp app app = app"
  by (simp_all add: carriedUser_def carriedApp_def)

lemma preserveKnownSecrets_carried:
  "gcUsers (preserveKnownSecrets prev new) name = map_option (preserveUser (gcUsers prev name)) (gcUsers new name)"
  "gcAPIApp (preserveKnownSecrets prev new) = carriedApp (gcAPIApp prev) (gcAPIApp new)"
  by (simp_all add: preserveKnownSecrets_def carriedApp_def Let_def)

lemma apply_carries:
  assumes "clBootstrap C inp w0 = (Inr res, w1)" "reconcileIdentities C cfg acl w = (Inr identities, w')"
    and "gcUsers new = irMachineUsers identities" "gcAPIApp new = brAPIApp res"
  shows "credentials_carried C ''apply'' acl prev (preserveKnownSecrets prev new)"
proof -
  note m = reconciled_machines [OF assms(2)]
  have n: "irMachineUsers identities name = None \<Longrightarrow> name \<notin> oiUsername ` set (paMachineUsers acl)" for name using m(1) by auto
  show ?thesis
    unfolding credentials_carried_def preserveKnownSecrets_carried assms(3,4)
  proof (intro conjI allI impI)
    fix name old assume "gcUsers prev name = Some old"
    then show "case map_option (preserveUser (gcUsers prev name)) (irMachineUsers identities name) of
        None \<Rightarrow> ''apply'' = ''apply'' \<and> name \<notin> oiUsername ` set (paMachineUsers acl)
      | Some r \<Rightarrow> r = old \<or> (\<exists>z. onboarded C acl name z \<and> r = carriedUser old z)"
      using n [of name] m(2) [of name] by (cases "irMachineUsers identities name") (auto simp: preserveUser_carried)
  qed (use assms(1) in blast)
qed

lemma users_carries:
  assumes "reconcileIdentities C cfg acl w = (Inr identities, w')"
  shows "credentials_carried C ''users'' acl prev (mergeIdentities prev identities)"
proof -
  have "gcUsers (mergeIdentities prev identities) name =
      map_option (preserveUser (gcUsers prev name)) ((gcUsers prev ++ irMachineUsers identities) name)"
    "gcAPIApp (mergeIdentities prev identities) = gcAPIApp prev" for name
    by (simp_all add: mergeIdentities_def Let_def preserveKnownSecrets_carried)
  then show ?thesis
    using reconciled_machines(2) [OF assms] unfolding credentials_carried_def
    by (auto simp: preserveUser_carried map_add_def split: option.splits)
qed

lemma writeGeneratedConfig_effect:
  assumes "writeGeneratedConfig J c fs = (r, fs')" and "fresh_temp (biFaults J) fs"
  shows "if r = Inr () then (\<exists>data. biMarshalGenerated J c = Inr data \<and> fs' = fs(generatedConfigPath \<mapsto> data))
    else fs' = fs"
  using assms writeFileAtomic_effect [of "biFaults J" generatedConfigPath _ fs]
  by (auto simp: writeGeneratedConfig_def fresh_temp_def split: sum.splits prod.splits)

text \<open>What one run may leave in the configuration file, given the configuration it may write.\<close>

definition written_or_kept :: "boot_io \<Rightarrow> generatedConfig \<Rightarrow> files \<Rightarrow> files \<Rightarrow> bool" where
  "written_or_kept J c fs fs' \<longleftrightarrow> fs' generatedConfigPath = fs generatedConfigPath \<or>
     (\<exists>data. biMarshalGenerated J c = Inr data \<and> fs' generatedConfigPath = Some data)"

lemma writeBootstrapConfigs_effect:
  assumes "writeBootstrapConfigs B parts J c acl issuer fs = (r, fs')" and "fresh_temp (biFaults J) fs"
  shows "written_or_kept J c fs fs' \<and> (\<forall>q. q \<notin> {generatedConfigPath, uiAuthConfigPath} \<longrightarrow> fs' q = fs q)"
proof (cases "buildUIAuthConfig B parts c acl issuer")
  case (Inl er)
  then show ?thesis using assms by (simp add: writeBootstrapConfigs_def written_or_kept_def)
next
  case (Inr ui)
  obtain w fs1 where w: "writeGeneratedConfig J c fs = (w, fs1)" by fastforce
  have paths: "generatedConfigPath \<noteq> uiAuthConfigPath" by (simp add: generatedConfigPath_def uiAuthConfigPath_def)
  have "fs' = fs1 \<or> (\<exists>v. fs' = fs1(uiAuthConfigPath := v))"
    using assms(1) Inr w by (auto simp: writeBootstrapConfigs_def split: sum.splits option.splits if_splits)
  then show ?thesis using writeGeneratedConfig_effect [OF w assms(2)] paths
    by (auto simp: written_or_kept_def split: if_splits)
qed

text \<open>The last step of both writing commands: write, and exit with 0 or 1.\<close>

definition finish :: "('w, 'raw) cli \<Rightarrow> parsedACL \<Rightarrow> generatedConfig \<Rightarrow> files \<Rightarrow> 'w \<Rightarrow> nat \<times> files \<times> 'w" where
  "finish C acl c fs w =
     (case writeBootstrapConfigs (clAcl C) (clIssuerParts C) (clIO C) c acl (issuerOf C) fs of
        (Inl _, fs1) \<Rightarrow> (1, fs1, w) | (Inr _, fs1) \<Rightarrow> (0, fs1, w))"

lemma finish_effect:
  assumes "finish C acl c fs w = (code, fs', w')" and "fresh_temp (biFaults (clIO C)) fs"
  shows "written_or_kept (clIO C) c fs fs'"
  using assms writeBootstrapConfigs_effect [of "clAcl C" "clIssuerParts C" "clIO C" c acl "issuerOf C" fs _ fs']
  by (auto simp: finish_def split: prod.splits sum.splits)

text \<open>What the two commands write, with the calls it comes from.\<close>

definition apply_writes :: "('w, 'raw) cli \<Rightarrow> files \<Rightarrow> string \<Rightarrow> parsedACL \<Rightarrow> generatedConfig \<Rightarrow> bool" where
  "apply_writes C fs path acl c \<longleftrightarrow> loadACL (clAcl C) (clReadFile C) (clDecode C) path = Inr acl \<and>
     (\<exists>inp res identities new cfg w0 w1 w2. clBootstrap C inp w0 = (Inr res, w1) \<and>
        reconcileIdentities C cfg acl w1 = (Inr identities, w2) \<and>
        gcUsers new = irMachineUsers identities \<and> gcAPIApp new = brAPIApp res \<and>
        c = (case readGeneratedConfig (clIO C) fs of Inl _ \<Rightarrow> new | Inr previous \<Rightarrow> preserveKnownSecrets previous new))"

lemma runApply_files:
  assumes "runApply C args fs w = (code, fs', w')" "fs' \<noteq> fs"
  shows "\<exists>path acl c w2. apply_writes C fs path acl c \<and> finish C acl c fs w2 = (code, fs', w')"
proof -
  obtain path dry where f: "clFlags C ''apply'' args = Some (path, dry)"
    using assms by (auto simp: runApply_def split: option.splits)
  obtain acl where l: "loadACL (clAcl C) (clReadFile C) (clDecode C) path = Inr acl"
    using assms f by (auto simp: runApply_def split: sum.splits)
  let ?inp = "\<lparr>biProjectName = projectName, biClaimNamespace = claimNamespace, biOperations = citiusOperations\<rparr>"
  obtain res w1 where b: "clBootstrap C ?inp w = (Inr res, w1)"
    using assms f l by (auto simp: runApply_def split: if_splits sum.splits prod.splits)
  obtain identities w2 where r: "reconcileIdentities C (adminConfigOf C (brProjectID res)) acl w1 = (Inr identities, w2)"
    using assms f l b by (auto simp: runApply_def split: if_splits sum.splits prod.splits)
  let ?new = "\<lparr>gcProjectID = brProjectID res, gcActionID = brActionID res, gcAPIApp = brAPIApp res,
     gcWebApplication = irWebApplication identities, gcUsers = irMachineUsers identities, gcHumanUsers = irHumanUsers identities\<rparr>"
  let ?c = "case readGeneratedConfig (clIO C) fs of Inl _ \<Rightarrow> ?new | Inr previous \<Rightarrow> preserveKnownSecrets previous ?new"
  have "runApply C args fs w = finish C acl ?c fs w2"
    using assms f l b r unfolding runApply_def Let_def finish_def [symmetric] by (simp split: if_splits)
  moreover have "apply_writes C fs path acl ?c"
    unfolding apply_writes_def using l b r
    by (intro conjI exI [of _ ?inp] exI [of _ res] exI [of _ identities] exI [of _ ?new]
        exI [of _ "adminConfigOf C (brProjectID res)"] exI [of _ w] exI [of _ w1] exI [of _ w2]) simp_all
  ultimately show ?thesis using assms(1) by metis
qed

definition users_writes :: "('w, 'raw) cli \<Rightarrow> files \<Rightarrow> string \<Rightarrow> parsedACL \<Rightarrow> generatedConfig \<Rightarrow> bool" where
  "users_writes C fs path acl c \<longleftrightarrow> loadACL (clAcl C) (clReadFile C) (clDecode C) path = Inr acl \<and>
     (\<exists>existing identities cfg w1 w2. readGeneratedConfig (clIO C) fs = Inr existing \<and>
        reconcileIdentities C cfg acl w1 = (Inr identities, w2) \<and> c = mergeIdentities existing identities)"

lemma runUsers_files:
  assumes "runUsers C args fs w = (code, fs', w')" "fs' \<noteq> fs"
  shows "\<exists>path acl c w2. users_writes C fs path acl c \<and> finish C acl c fs w2 = (code, fs', w')"
proof -
  obtain path dry where f: "clFlags C ''users'' args = Some (path, dry)"
    using assms by (auto simp: runUsers_def split: option.splits)
  obtain acl where l: "loadACL (clAcl C) (clReadFile C) (clDecode C) path = Inr acl"
    using assms f by (auto simp: runUsers_def split: sum.splits)
  obtain existing where e: "readGeneratedConfig (clIO C) fs = Inr existing"
    using assms f l by (auto simp: runUsers_def split: sum.splits)
  obtain identities w2 where r: "reconcileIdentities C (adminConfigOf C (gcProjectID existing)) acl w = (Inr identities, w2)"
    using assms f l e by (auto simp: runUsers_def split: if_splits sum.splits prod.splits)
  have "runUsers C args fs w = finish C acl (mergeIdentities existing identities) fs w2"
    using assms f l e r unfolding runUsers_def finish_def [symmetric] by (simp split: if_splits)
  moreover have "users_writes C fs path acl (mergeIdentities existing identities)"
    unfolding users_writes_def using l e r by blast
  ultimately show ?thesis using assms(1) by metis
qed

text \<open>
  A failure after Zitadel has created the API application writes nothing: the secret Zitadel has
  just returned, and will not return again, is lost.
\<close>

lemma runApply_failure_writes_nothing:
  assumes "clFlags C ''apply'' args = Some (aclPath, False)"
    and "loadACL (clAcl C) (clReadFile C) (clDecode C) aclPath = Inr acl"
    and "clGetenv C ''ZITADEL_ADMIN_PAT'' \<noteq> []" "clNewClient C (adminConfigOf C []) = None"
    and "clBootstrap C \<lparr>biProjectName = projectName, biClaimNamespace = claimNamespace, biOperations = citiusOperations\<rparr> w = (Inr res, w1)"
    and "reconcileIdentities C (adminConfigOf C (brProjectID res)) acl w1 = (Inl er, w2)"
  shows "runApply C args fs w = (1, fs, w2)"
  using assms by (simp add: runApply_def)

text \<open>
  C13: A run of the CLI leaves the configuration file as it is, or replaces it by one complete
  configuration, written by \<open>apply\<close> or \<open>users\<close> for an accepted ACL, that carries the credentials of the
  previous one if that can be read: a machine user keeps its credential, or has the one Zitadel answered with when it was
  onboarded again, with the known secret where that answer has the same client id and no secret. Only
  \<open>apply\<close> drops a user, one that is not in its ACL, and only \<open>apply\<close> touches the API application, by the
  same rule.
\<close>

theorem setup_keeps_secrets:
  assumes "main_setup C argv fs w = (code, fs', w')" and "fresh_temp (biFaults (clIO C)) fs"
  shows "fs' generatedConfigPath = fs generatedConfigPath \<or>
     (\<exists>cmd args path acl c data. tl argv = cmd # args \<and> (cmd = ''apply'' \<or> cmd = ''users'') \<and>
        loadACL (clAcl C) (clReadFile C) (clDecode C) path = Inr acl \<and>
        biMarshalGenerated (clIO C) c = Inr data \<and> fs' generatedConfigPath = Some data \<and>
        (\<forall>prev. readGeneratedConfig (clIO C) fs = Inr prev \<longrightarrow> credentials_carried C cmd acl prev c))"
proof (cases "fs' generatedConfigPath = fs generatedConfigPath")
  case False
  then have ne: "fs' \<noteq> fs" by auto
  have "(\<exists>args. tl argv = ''apply'' # args \<and> runApply C args fs w = (code, fs', w')) \<or>
      (\<exists>args. tl argv = ''users'' # args \<and> runUsers C args fs w = (code, fs', w'))"
    using assms(1) ne by (auto simp: main_setup_def split: list.splits if_splits prod.splits)
  then show ?thesis
  proof (elim disjE exE conjE)
    fix args assume a: "tl argv = ''apply'' # args" "runApply C args fs w = (code, fs', w')"
    from runApply_files [OF a(2) ne] obtain path acl c w2
      where w: "apply_writes C fs path acl c" "finish C acl c fs w2 = (code, fs', w')" by blast
    have "credentials_carried C ''apply'' acl prev c" if "readGeneratedConfig (clIO C) fs = Inr prev" for prev
      using w(1) that unfolding apply_writes_def by (auto intro: apply_carries)
    with a(1) w(1) finish_effect [OF w(2) assms(2)] False show ?thesis
      unfolding apply_writes_def written_or_kept_def by blast
  next
    fix args assume a: "tl argv = ''users'' # args" "runUsers C args fs w = (code, fs', w')"
    from runUsers_files [OF a(2) ne] obtain path acl c w2
      where w: "users_writes C fs path acl c" "finish C acl c fs w2 = (code, fs', w')" by blast
    have "credentials_carried C ''users'' acl prev c" if "readGeneratedConfig (clIO C) fs = Inr prev" for prev
      using w(1) that unfolding users_writes_def by (auto intro: users_carries)
    with a(1) w(1) finish_effect [OF w(2) assms(2)] False show ?thesis
      unfolding users_writes_def written_or_kept_def by blast
  qed
qed simp

text \<open>
  For the witnesses: a second run of \<open>users\<close> on the ACL of the previous theory, after which Zitadel
  returns no secret for the machine user it already knows.
\<close>

definition demo_faults :: io_faults where
  "demo_faults = \<lparr>ioFault = (\<lambda>_. None), ioWritten = 0, ioTempName = ''tmp''\<rparr>"

definition demo_previous :: generatedConfig where
  "demo_previous = \<lparr>gcProjectID = ''p'', gcActionID = [], gcAPIApp = \<lparr>apClientID = ''api'', apClientSecret = ''s1''\<rparr>,
     gcWebApplication = None, gcUsers = [''svc'' \<mapsto> \<lparr>orClientID = ''c'', orClientSecret = ''s2''\<rparr>], gcHumanUsers = Map.empty\<rparr>"

definition demo_io :: boot_io where
  "demo_io = \<lparr>biFaults = demo_faults,
     biMarshalGenerated = (\<lambda>c. Inr (case gcUsers c ''svc'' of None \<Rightarrow> [] | Some u \<Rightarrow> orClientSecret u)),
     biUnmarshalGenerated = (\<lambda>_. Inr demo_previous), biMarshalUI = (\<lambda>_. Inr ''ui''), biRemoveUI = None,
     biWriteUI = None, biNoFile = ''no such file''\<rparr>"

definition demo_cli :: "(unit, unit) cli" where
  "demo_cli = \<lparr>clAcl = demo_env, clIssuerParts = (\<lambda>_. \<lparr>ipQuery = [], ipFragment = []\<rparr>), clIO = demo_io,
     clGetenv = (\<lambda>_. ''x''), clFlags = (\<lambda>_ _. Some (''acl.yaml'', False)), clReadFile = (\<lambda>_. Inr ()),
     clDecode = (\<lambda>_. Inr (demo_file\<lparr>afWebApplication := None, afUsers := [demo_machine]\<rparr>)), clNewClient = (\<lambda>_. None),
     clBootstrap = (\<lambda>_ w. (Inl ''unused'', w)),
     clClient = \<lparr>ensureWebApplication = (\<lambda>_ w. (Inl ''unused'', w)),
       onboard = (\<lambda>_ w. (Inr \<lparr>orClientID = ''c'', orClientSecret = []\<rparr>, w)),
       onboardHuman = (\<lambda>_ w. (Inl ''unused'', w))\<rparr>,
     clVerify = (\<lambda>_ w. (Inl ''unused'', w))\<rparr>"

definition demo_files :: files where
  "demo_files = [generatedConfigPath \<mapsto> ''old'']"

lemma demo_fresh: "fresh_temp (biFaults (clIO demo_cli)) demo_files"
  by (simp add: fresh_temp_def demo_cli_def demo_io_def demo_faults_def demo_files_def generatedConfigPath_def uiAuthConfigPath_def)

lemma demo_run: "case main_setup demo_cli [''setup-auth'', ''users''] demo_files () of
    (code, fs', _) \<Rightarrow> code = 0 \<and> fs' generatedConfigPath = Some ''s2''"
  by code_simp

theorem writeFileAtomic_atomic_witness:
  "\<forall>s \<in> set (snd (writeFileAtomic demo_faults generatedConfigPath ''new'' demo_files)).
     s generatedConfigPath = Some ''old'' \<or> s generatedConfigPath = Some ''new''"
  using writeFileAtomic_atomic [of demo_faults generatedConfigPath "''new''" demo_files
      "fst (writeFileAtomic demo_faults generatedConfigPath ''new'' demo_files)"
      "snd (writeFileAtomic demo_faults generatedConfigPath ''new'' demo_files)"] demo_fresh
  by (simp add: fresh_temp_def demo_cli_def demo_io_def demo_files_def)

theorem setup_keeps_secrets_witness:
  "\<exists>fs'. main_setup demo_cli [''setup-auth'', ''users''] demo_files () = (0, fs', ()) \<and>
     fs' generatedConfigPath = Some ''s2'' \<and>
     (\<exists>acl c. biMarshalGenerated demo_io c = Inr ''s2'' \<and> credentials_carried demo_cli ''users'' acl demo_previous c)"
proof -
  obtain fs' where run: "main_setup demo_cli [''setup-auth'', ''users''] demo_files () = (0, fs', ())"
      "fs' generatedConfigPath = Some ''s2''"
    using demo_run by (auto split: prod.splits)
  have io: "clIO demo_cli = demo_io" by (simp add: demo_cli_def)
  have "demo_files generatedConfigPath \<noteq> Some ''s2''" by (simp add: demo_files_def)
  moreover have "readGeneratedConfig demo_io demo_files = Inr demo_previous"
    by (simp add: readGeneratedConfig_def demo_io_def demo_files_def demo_previous_def)
  ultimately show ?thesis using setup_keeps_secrets [OF run(1) demo_fresh] run by (auto simp: io)
qed

end
