(* ===== verification/Server_Deployment.thy ===== *)
theory Server_Deployment
  imports Grpc_Crypto Grpc_Keys Grpc_Policy Grpc_Catalog Grpc_Stubs
begin

text \<open>
  The composition root of the server (\<open>internal/cmd/server/deployment.go\<close>): which services a
  deployment exposes, what each needs, and the construction of their handlers. A nil factory is
  \<^const>\<open>None\<close>. The library packages a handler's constructor is given in the theories of the services
  travel together in \<open>handler_pkgs\<close>.
\<close>

type_synonym 'ctx name_check = "'ctx \<Rightarrow> string \<Rightarrow> string \<Rightarrow> error option"

record ('ctx, 'w, 'pol, 'b, 'm) FactorySet =
  fsKeys :: "('ctx \<Rightarrow> 'w \<Rightarrow> ('ctx, 'w) key_ops result \<times> 'w) option"
  fsCrypto :: "('ctx \<Rightarrow> 'w \<Rightarrow> ('ctx, 'w) crypto_ops result \<times> 'w) option"
  fsPolicy :: "('ctx \<Rightarrow> 'w \<Rightarrow> ('ctx, 'w, 'pol) policy_ops result \<times> 'w) option"
  fsInstances :: "'m option"
  fsTemplates :: "('ctx \<Rightarrow> template_registry result) option"
  fsCatalog :: "('ctx \<Rightarrow> 'b provider_registry result) option"
  fsAuthorizeKey :: "'ctx name_check option"
  fsAuthorizePolicy :: "'ctx name_check option"

definition AllowAllKeyNames :: "'ctx name_check" where
  "AllowAllKeyNames = (\<lambda>_ _ _. None)"

definition AllowAllPolicyNames :: "'ctx name_check" where
  "AllowAllPolicyNames = (\<lambda>_ _ _. None)"

section \<open>Selected services\<close>

record Services =
  svKeyManagement :: bool
  svCrypto :: bool
  svCryptoPolicy :: bool
  svDiscovery :: bool
  svProvider :: bool
  svKeyEstablishment :: bool
  svStreaming :: bool

definition ServedServices :: Services where
  "ServedServices = \<lparr>svKeyManagement = True, svCrypto = True, svCryptoPolicy = True, svDiscovery = True,
     svProvider = True, svKeyEstablishment = False, svStreaming = False\<rparr>"

definition AllServices :: Services where
  "AllServices = \<lparr>svKeyManagement = True, svCrypto = True, svCryptoPolicy = True, svDiscovery = True,
     svProvider = True, svKeyEstablishment = True, svStreaming = True\<rparr>"

definition anyEnabled :: "Services \<Rightarrow> bool" where
  "anyEnabled s = (svKeyManagement s \<or> svCrypto s \<or> svCryptoPolicy s \<or> svDiscovery s \<or> svProvider s \<or>
     svKeyEstablishment s \<or> svStreaming s)"

definition validateOp :: string where "validateOp = ''server.(Services).Validate''"
definition registerOp :: string where "registerOp = ''server.RegisterAll''"

type_synonym requirement = "string \<times> string \<times> bool"

definition requirements :: "Services \<Rightarrow> ('ctx, 'w, 'pol, 'b, 'm) FactorySet \<Rightarrow> requirement list" where
  "requirements s f =
     (if svKeyManagement s then
        [(''KeyManagement'', ''key orchestrator factory'', fsKeys f \<noteq> None),
         (''KeyManagement'', ''key authorization check'', fsAuthorizeKey f \<noteq> None),
         (''KeyManagement'', ''policy authorization check'', fsAuthorizePolicy f \<noteq> None)] else []) @
     (if svCrypto s then
        [(''Crypto'', ''crypto orchestrator factory'', fsCrypto f \<noteq> None),
         (''Crypto'', ''key authorization check'', fsAuthorizeKey f \<noteq> None)] else []) @
     (if svCryptoPolicy s then
        [(''CryptoPolicy'', ''policy engine factory'', fsPolicy f \<noteq> None),
         (''CryptoPolicy'', ''policy authorization check'', fsAuthorizePolicy f \<noteq> None)] else []) @
     (if svDiscovery s then [(''Discovery'', ''template registry factory'', fsTemplates f \<noteq> None)] else []) @
     (if svProvider s then
        [(''Provider'', ''provider registry factory'', fsCatalog f \<noteq> None),
         (''Provider'', ''provider instance manager factory'', fsInstances f \<noteq> None)] else []) @
     (if svKeyEstablishment s then
        [(''KeyEstablishment'', ''crypto orchestrator factory'', fsCrypto f \<noteq> None),
         (''KeyEstablishment'', ''key orchestrator factory'', fsKeys f \<noteq> None)] else []) @
     (if svStreaming s then [(''Streaming'', ''crypto orchestrator factory'', fsCrypto f \<noteq> None)] else [])"

fun firstMissing :: "requirement list \<Rightarrow> error option" where
  "firstMissing [] = None"
| "firstMissing ((service, needs, present) # reqs) =
     (if \<not> present then
        Some (ErrNew validateOp CodeInvalidArgument (service @ '' is enabled but its '' @ needs @ '' is missing''))
      else firstMissing reqs)"

definition Validate :: "Services \<Rightarrow> ('ctx, 'w, 'pol, 'b, 'm) FactorySet \<Rightarrow> error option" where
  "Validate s f =
     (if \<not> anyEnabled s then
        Some (ErrNew validateOp CodeInvalidArgument
          ''no service enabled: the server would accept connections it cannot serve'')
      else firstMissing (requirements s f))"

section \<open>Handlers\<close>

record ('p, 'pol, 'sc, 'b, 'rq) handler_pkgs =
  hpErrs :: errors_pkg
  hpCodec :: "'p key_codec"
  hpPolicy :: "'pol policy_pkg"
  hpScopes :: "'sc scope_pkg"
  hpBackends :: "('b, 'rq) backend_pkg"

type_synonym ('ctx, 'w) key_factory = "'ctx \<Rightarrow> 'w \<Rightarrow> ('ctx, 'w) key_ops result \<times> 'w"
type_synonym ('ctx, 'w) crypto_factory = "'ctx \<Rightarrow> 'w \<Rightarrow> ('ctx, 'w) crypto_ops result \<times> 'w"

record ('ctx, 'w, 'p, 'pol, 'sc, 'b, 'rq) Handlers =
  hdKeyManagement :: "('ctx, 'w, 'p) key_handler option"
  hdCrypto :: "('ctx, 'w) crypto_handler option"
  hdCryptoPolicy :: "('ctx, 'w, 'pol) policy_handler option"
  hdDiscovery :: "('ctx, 'sc) discovery_handler option"
  hdProvider :: "('ctx, 'b, 'rq) provider_handler option"
  hdKeyEstablishment :: "(('ctx, 'w) crypto_factory, ('ctx, 'w) key_factory) establishment_handler option"
  hdStreaming :: "('ctx, 'w) crypto_factory option"

text \<open>One step of \<open>BuildHandlers\<close>: build the handler of a selected service, or leave it nil.\<close>

definition built :: "bool \<Rightarrow> 'h result \<Rightarrow> 'h option result" where
  "built selected h =
     (if \<not> selected then Inr None
      else case h of Inl e \<Rightarrow> Inl (ErrWrap registerOp None e) | Inr x \<Rightarrow> Inr (Some x))"

definition BuildHandlers ::
  "('p, 'pol, 'sc, 'b, 'rq) handler_pkgs \<Rightarrow> Services \<Rightarrow> ('ctx, 'w, 'pol, 'b, 'm) FactorySet
     \<Rightarrow> ('ctx, 'w, 'p, 'pol, 'sc, 'b, 'rq) Handlers result" where
  "BuildHandlers P s f =
     (case Validate s f of
        Some e \<Rightarrow> Inl (ErrWrap registerOp None e)
      | None \<Rightarrow>
      case built (svKeyManagement s) (New_keys (fsKeys f) (fsAuthorizeKey f) (fsAuthorizePolicy f) (hpErrs P) (hpCodec P)) of
        Inl e \<Rightarrow> Inl e | Inr keys \<Rightarrow>
      case built (svCrypto s) (New_crypto (fsCrypto f) (fsAuthorizeKey f) (hpErrs P)) of
        Inl e \<Rightarrow> Inl e | Inr crypto \<Rightarrow>
      case built (svCryptoPolicy s) (New_policy (fsPolicy f) (fsAuthorizePolicy f) (hpErrs P) (hpPolicy P)) of
        Inl e \<Rightarrow> Inl e | Inr pol \<Rightarrow>
      case built (svDiscovery s) (New_discovery (fsTemplates f) (hpErrs P) (hpScopes P)) of
        Inl e \<Rightarrow> Inl e | Inr disco \<Rightarrow>
      case built (svProvider s) (New_provider (fsCatalog f) (fsInstances f) (hpErrs P) (hpBackends P)) of
        Inl e \<Rightarrow> Inl e | Inr prov \<Rightarrow>
      case built (svKeyEstablishment s) (New_keyestablishment (fsCrypto f) (fsKeys f)) of
        Inl e \<Rightarrow> Inl e | Inr est \<Rightarrow>
      case built (svStreaming s) (New_streaming (fsCrypto f)) of
        Inl e \<Rightarrow> Inl e | Inr str \<Rightarrow>
      Inr \<lparr>hdKeyManagement = keys, hdCrypto = crypto, hdCryptoPolicy = pol, hdDiscovery = disco,
           hdProvider = prov, hdKeyEstablishment = est, hdStreaming = str\<rparr>)"

text \<open>A registrar is the list of the services registered on it, in order.\<close>

definition registerIf :: "'h option \<Rightarrow> string \<Rightarrow> string list \<Rightarrow> string list" where
  "registerIf h name reg = (case h of None \<Rightarrow> reg | Some _ \<Rightarrow> reg @ [name])"

definition registerHandlers :: "('ctx, 'w, 'p, 'pol, 'sc, 'b, 'rq) Handlers \<Rightarrow> string list \<Rightarrow> string list" where
  "registerHandlers h reg =
     (let r1 = registerIf (hdKeyManagement h) ''KeyManagementService'' reg;
          r2 = registerIf (hdCrypto h) ''CryptoService'' r1;
          r3 = registerIf (hdCryptoPolicy h) ''CryptoPolicyService'' r2;
          r4 = registerIf (hdDiscovery h) ''AlgorithmDiscoveryService'' r3;
          r5 = registerIf (hdProvider h) ''ProviderService'' r4;
          r6 = registerIf (hdKeyEstablishment h) ''KeyEstablishmentService'' r5
      in registerIf (hdStreaming h) ''StreamingCryptoService'' r6)"

definition RegisterAll ::
  "('p, 'pol, 'sc, 'b, 'rq) handler_pkgs \<Rightarrow> Services \<Rightarrow> ('ctx, 'w, 'pol, 'b, 'm) FactorySet \<Rightarrow> string list
     \<Rightarrow> error option \<times> string list" where
  "RegisterAll P s f reg =
     (case BuildHandlers P s f of
        Inl e \<Rightarrow> (Some e, reg)
      | Inr h \<Rightarrow> (None, registerHandlers h reg))"

section \<open>What a selected service needs\<close>

text \<open>The names of the selected services, in the order they are registered.\<close>

definition onlyIf :: "bool \<Rightarrow> 'a \<Rightarrow> 'a list" where
  "onlyIf b x = (if b then [x] else [])"

definition selected :: "Services \<Rightarrow> string list" where
  "selected s =
     onlyIf (svKeyManagement s) ''KeyManagementService'' @ onlyIf (svCrypto s) ''CryptoService'' @
     onlyIf (svCryptoPolicy s) ''CryptoPolicyService'' @ onlyIf (svDiscovery s) ''AlgorithmDiscoveryService'' @
     onlyIf (svProvider s) ''ProviderService'' @ onlyIf (svKeyEstablishment s) ''KeyEstablishmentService'' @
     onlyIf (svStreaming s) ''StreamingCryptoService''"

definition configured :: "Services \<Rightarrow> ('ctx, 'w, 'pol, 'b, 'm) FactorySet \<Rightarrow> bool" where
  "configured s f \<longleftrightarrow>
     (svKeyManagement s \<or> svKeyEstablishment s \<longrightarrow> fsKeys f \<noteq> None) \<and>
     (svCrypto s \<or> svKeyEstablishment s \<or> svStreaming s \<longrightarrow> fsCrypto f \<noteq> None) \<and>
     (svKeyManagement s \<or> svCrypto s \<longrightarrow> fsAuthorizeKey f \<noteq> None) \<and>
     (svKeyManagement s \<or> svCryptoPolicy s \<longrightarrow> fsAuthorizePolicy f \<noteq> None) \<and>
     (svCryptoPolicy s \<longrightarrow> fsPolicy f \<noteq> None) \<and>
     (svDiscovery s \<longrightarrow> fsTemplates f \<noteq> None) \<and>
     (svProvider s \<longrightarrow> fsCatalog f \<noteq> None \<and> fsInstances f \<noteq> None)"

lemma firstMissing_None: "(firstMissing reqs = None) = list_all (\<lambda>(_, _, present). present) reqs"
  by (induction reqs rule: firstMissing.induct) auto

lemma list_all_if: "list_all P (if b then xs else []) = (b \<longrightarrow> list_all P xs)"
  by simp

lemma Validate_None: "(Validate s f = None) = (anyEnabled s \<and> configured s f)"
proof -
  have "(firstMissing (requirements s f) = None) = configured s f"
    unfolding firstMissing_None requirements_def configured_def list_all_append list_all_if
    by (simp only: list.pred_inject prod.case simp_thms) blast
  then show ?thesis by (simp add: Validate_def)
qed

lemma registerIf_onlyIf: "registerIf h name reg = reg @ onlyIf (h \<noteq> None) name"
  by (cases h) (simp_all add: registerIf_def onlyIf_def)

text \<open>The constructors refuse nothing that \<open>Validate\<close> accepts.\<close>

lemma built_ok:
  assumes "b \<Longrightarrow> \<exists>x. h = Inr x"
  shows "\<exists>h'. built b h = Inr h' \<and> (h' \<noteq> None) = b"
  using assms by (cases b) (auto simp: built_def)

lemma configuredD:
  assumes "configured s f"
  shows "svKeyManagement s \<Longrightarrow> fsKeys f \<noteq> None \<and> fsAuthorizeKey f \<noteq> None \<and> fsAuthorizePolicy f \<noteq> None"
    and "svCrypto s \<Longrightarrow> fsCrypto f \<noteq> None \<and> fsAuthorizeKey f \<noteq> None"
    and "svCryptoPolicy s \<Longrightarrow> fsPolicy f \<noteq> None \<and> fsAuthorizePolicy f \<noteq> None"
    and "svDiscovery s \<Longrightarrow> fsTemplates f \<noteq> None"
    and "svProvider s \<Longrightarrow> fsCatalog f \<noteq> None \<and> fsInstances f \<noteq> None"
    and "svKeyEstablishment s \<Longrightarrow> fsCrypto f \<noteq> None \<and> fsKeys f \<noteq> None"
    and "svStreaming s \<Longrightarrow> fsCrypto f \<noteq> None"
  using assms unfolding configured_def by blast+

lemma constructors_ok:
  assumes ok: "configured s f"
  shows "\<exists>h. built (svKeyManagement s) (New_keys (fsKeys f) (fsAuthorizeKey f) (fsAuthorizePolicy f) E C) = Inr h \<and> (h \<noteq> None) = svKeyManagement s"
    and "\<exists>h. built (svCrypto s) (New_crypto (fsCrypto f) (fsAuthorizeKey f) E) = Inr h \<and> (h \<noteq> None) = svCrypto s"
    and "\<exists>h. built (svCryptoPolicy s) (New_policy (fsPolicy f) (fsAuthorizePolicy f) E K) = Inr h \<and> (h \<noteq> None) = svCryptoPolicy s"
    and "\<exists>h. built (svDiscovery s) (New_discovery (fsTemplates f) E S) = Inr h \<and> (h \<noteq> None) = svDiscovery s"
    and "\<exists>h. built (svProvider s) (New_provider (fsCatalog f) (fsInstances f) E B) = Inr h \<and> (h \<noteq> None) = svProvider s"
    and "\<exists>h. built (svKeyEstablishment s) (New_keyestablishment (fsCrypto f) (fsKeys f)) = Inr h \<and> (h \<noteq> None) = svKeyEstablishment s"
    and "\<exists>h. built (svStreaming s) (New_streaming (fsCrypto f)) = Inr h \<and> (h \<noteq> None) = svStreaming s"
proof -
  show "\<exists>h. built (svKeyManagement s) (New_keys (fsKeys f) (fsAuthorizeKey f) (fsAuthorizePolicy f) E C) = Inr h \<and> (h \<noteq> None) = svKeyManagement s"
    by (rule built_ok) (drule configuredD(1) [OF ok], auto simp: New_keys_def)
  show "\<exists>h. built (svCrypto s) (New_crypto (fsCrypto f) (fsAuthorizeKey f) E) = Inr h \<and> (h \<noteq> None) = svCrypto s"
    by (rule built_ok) (drule configuredD(2) [OF ok], auto simp: New_crypto_def)
  show "\<exists>h. built (svCryptoPolicy s) (New_policy (fsPolicy f) (fsAuthorizePolicy f) E K) = Inr h \<and> (h \<noteq> None) = svCryptoPolicy s"
    by (rule built_ok) (drule configuredD(3) [OF ok], auto simp: New_policy_def)
  show "\<exists>h. built (svDiscovery s) (New_discovery (fsTemplates f) E S) = Inr h \<and> (h \<noteq> None) = svDiscovery s"
    by (rule built_ok) (drule configuredD(4) [OF ok], auto simp: New_discovery_def)
  show "\<exists>h. built (svProvider s) (New_provider (fsCatalog f) (fsInstances f) E B) = Inr h \<and> (h \<noteq> None) = svProvider s"
    by (rule built_ok) (drule configuredD(5) [OF ok], auto simp: New_provider_def)
  show "\<exists>h. built (svKeyEstablishment s) (New_keyestablishment (fsCrypto f) (fsKeys f)) = Inr h \<and> (h \<noteq> None) = svKeyEstablishment s"
    by (rule built_ok) (drule configuredD(6) [OF ok], auto simp: New_keyestablishment_def Let_def)
  show "\<exists>h. built (svStreaming s) (New_streaming (fsCrypto f)) = Inr h \<and> (h \<noteq> None) = svStreaming s"
    by (rule built_ok) (drule configuredD(7) [OF ok], auto simp: New_streaming_def)
qed

text \<open>Exactly the selected handlers are built.\<close>

lemma BuildHandlers_fields:
  assumes "Validate s f = None"
  shows "\<exists>h. BuildHandlers P s f = Inr h \<and>
    (hdKeyManagement h \<noteq> None) = svKeyManagement s \<and> (hdCrypto h \<noteq> None) = svCrypto s \<and>
    (hdCryptoPolicy h \<noteq> None) = svCryptoPolicy s \<and> (hdDiscovery h \<noteq> None) = svDiscovery s \<and>
    (hdProvider h \<noteq> None) = svProvider s \<and> (hdKeyEstablishment h \<noteq> None) = svKeyEstablishment s \<and>
    (hdStreaming h \<noteq> None) = svStreaming s"
proof -
  have "configured s f" using assms by (simp add: Validate_None)
  note ok = constructors_ok [OF this]
  show ?thesis
    using assms ok(1) [of "hpErrs P" "hpCodec P"] ok(2) [of "hpErrs P"] ok(3) [of "hpErrs P" "hpPolicy P"]
      ok(4) [of "hpErrs P" "hpScopes P"] ok(5) [of "hpErrs P" "hpBackends P"] ok(6,7)
    by (elim exE conjE) (simp add: BuildHandlers_def)
qed

lemma BuildHandlers_cases:
  "if Validate s f = None
   then \<exists>h. BuildHandlers P s f = Inr h \<and> registerHandlers h reg = reg @ selected s
   else BuildHandlers P s f = Inl (ErrWrap registerOp None (the (Validate s f)))"
proof (cases "Validate s f")
  case None
  from BuildHandlers_fields [OF None, of P] obtain h where h: "BuildHandlers P s f = Inr h"
    "(hdKeyManagement h \<noteq> None) = svKeyManagement s" "(hdCrypto h \<noteq> None) = svCrypto s"
    "(hdCryptoPolicy h \<noteq> None) = svCryptoPolicy s" "(hdDiscovery h \<noteq> None) = svDiscovery s"
    "(hdProvider h \<noteq> None) = svProvider s" "(hdKeyEstablishment h \<noteq> None) = svKeyEstablishment s"
    "(hdStreaming h \<noteq> None) = svStreaming s" by blast
  have "registerHandlers h reg = reg @ selected s"
    unfolding registerHandlers_def Let_def registerIf_onlyIf selected_def h(2-) by (simp only: append_assoc)
  with h(1) None show ?thesis by simp
qed (simp add: BuildHandlers_def)

lemma BuildHandlers_Inr:
  assumes "BuildHandlers P s f = Inr h"
  shows "(hdKeyManagement h \<noteq> None) = svKeyManagement s \<and> (hdCrypto h \<noteq> None) = svCrypto s \<and>
    (hdCryptoPolicy h \<noteq> None) = svCryptoPolicy s \<and> (hdDiscovery h \<noteq> None) = svDiscovery s \<and>
    (hdProvider h \<noteq> None) = svProvider s \<and> (hdKeyEstablishment h \<noteq> None) = svKeyEstablishment s \<and>
    (hdStreaming h \<noteq> None) = svStreaming s"
proof -
  have "Validate s f = None" using BuildHandlers_cases [of s f P "[]"] assms by (auto split: if_splits)
  from BuildHandlers_fields [OF this, of P] assms show ?thesis by auto
qed

text \<open>
  C40: Registration succeeds exactly when some service is selected and every selected service has
  what it needs; then exactly the selected services are registered. Otherwise nothing is, and the
  error is the one \<open>Validate\<close> reports: no constructor fails on its own.
\<close>

theorem RegisterAll_exact:
  "RegisterAll P s f reg =
     (if anyEnabled s \<and> configured s f then (None, reg @ selected s)
      else (Some (ErrWrap registerOp None (the (Validate s f))), reg))"
  using BuildHandlers_cases [of s f P reg] Validate_None [of s f]
  by (auto simp: RegisterAll_def split: if_splits)

end
