(* ===== verification/Server_Wiring.thy ===== *)
theory Server_Wiring
  imports Server_Deployment Openssl_Context Software_Provider Vault_Registries Key_Repository
begin

text \<open>
  How the server is put together: the check of the providers' declarations
  (\<open>internal/app/validate.go\<close>), the dependency graph (\<open>internal/cmd/server/wire.go\<close>), the binary's
  startup (\<open>internal/cmd/server/main\<close>), the embeddable core (\<open>embed\<close>) and the test server
  (\<open>internal/cmd/server/testable.go\<close>). The registry of providers, the catalogue loader, the policy
  enforcer and the orchestrators belong to citius-core: they are fields of \<open>core_pkg\<close>. The world of
  the factories is the storage \<open>'s\<close>; the template registry is fixed after startup, so it is a view of
  the storage at that moment.
\<close>

datatype 'x backend = SoftwareBackend | OpensslBackend "'x ossl_provider"

record ('ctx, 's, 'pol, 'x, 'r) core_pkg =
  rgNew :: 'r
  rgRegister :: "'x backend \<Rightarrow> 'r \<Rightarrow> error option \<times> 'r"
  rgList :: "'r \<Rightarrow> 'x backend option list"
  rgGet :: "'r \<Rightarrow> string \<Rightarrow> 'x backend result"
  LoadStandardCatalog :: "string \<Rightarrow> 's \<Rightarrow> error option \<times> 's"
  RequiredCapabilities :: "(string option \<times> int list) list \<Rightarrow> string list"
  HasCapability :: "'x backend \<Rightarrow> string \<Rightarrow> bool"
  NewEnforcer :: "'s \<Rightarrow> ('ctx, 's, 'pol) policy_ops result"
  NewKeyOrchestrator :: "'s repo \<Rightarrow> template_registry \<Rightarrow> 'r \<Rightarrow> ('ctx, 's, 'pol) policy_ops \<Rightarrow> ('ctx, 's) key_ops result"
  NewCryptoOrchestrator :: "'s repo \<Rightarrow> ('ctx, 's, 'pol) policy_ops \<Rightarrow> 'r \<Rightarrow> template_registry \<Rightarrow> ('ctx, 's) crypto_ops result"
  coreQuote :: "string \<Rightarrow> string"

section \<open>Declared algorithms\<close>

text \<open>Both kinds of backend are \<open>AlgorithmCapabilityProvider\<close>s.\<close>

fun backendName :: "'x backend \<Rightarrow> string" where
  "backendName SoftwareBackend = Name_sw"
| "backendName (OpensslBackend p) = Name_ossl p"

fun backendAlgorithms :: "'x backend \<Rightarrow> string list" where
  "backendAlgorithms SoftwareBackend = SupportedAlgorithms_sw"
| "backendAlgorithms (OpensslBackend p) = SupportedAlgorithms_ossl p"

text \<open>\<open>%v\<close> of a slice of strings.\<close>

definition showStrings :: "string list \<Rightarrow> string" where
  "showStrings xs = ''['' @ join_with '' '' xs @ '']''"

definition missingCapabilitiesFor ::
  "('ctx, 's, 'pol, 'x, 'r) core_pkg \<Rightarrow> 'x backend \<Rightarrow> string \<Rightarrow> template_info option \<Rightarrow> string list" where
  "missingCapabilitiesFor K p algID tmpl =
     map (\<lambda>c. algID @ '' needs '' @ c)
       (filter (\<lambda>c. \<not> HasCapability K p c)
          (RequiredCapabilities K (case tmpl of None \<Rightarrow> [] | Some t \<Rightarrow> tiScopedCapabilities t)))"

fun checkAlgorithms ::
  "('ctx, 's, 'pol, 'x, 'r) core_pkg \<Rightarrow> template_registry \<Rightarrow> 'x backend \<Rightarrow> string list \<Rightarrow> string list \<times> string list" where
  "checkAlgorithms K reg p [] = ([], [])"
| "checkAlgorithms K reg p (algID # algs) =
     (let (unknown, missing) = checkAlgorithms K reg p algs in
      case regGet reg algID of
        Inl _ \<Rightarrow> (algID # unknown, missing)
      | Inr tmpl \<Rightarrow> (unknown, missingCapabilitiesFor K p algID tmpl @ missing))"

definition ValidateProviderCapabilities ::
  "('ctx, 's, 'pol, 'x, 'r) core_pkg \<Rightarrow> 'x backend option \<Rightarrow> template_registry \<Rightarrow> error option" where
  "ValidateProviderCapabilities K p0 reg =
     (case p0 of
        None \<Rightarrow> None
      | Some p \<Rightarrow>
        let opn = ''app.ValidateProviderCapabilities''; algorithms = backendAlgorithms p in
        if algorithms = [] then None
        else
          let (unknown, missing) = checkAlgorithms K reg p algorithms in
          if unknown \<noteq> [] then
            Some (ErrNew opn CodeInvalidArgument
              (''provider '' @ coreQuote K (backendName p) @ '' declares unknown algorithms: '' @ showStrings unknown))
          else if missing \<noteq> [] then
            Some (ErrNew opn CodeInvalidArgument
              (''provider '' @ coreQuote K (backendName p) @
               '' does not implement capabilities required by its declared algorithms: '' @ showStrings missing))
          else None)"

fun validateProviders ::
  "('ctx, 's, 'pol, 'x, 'r) core_pkg \<Rightarrow> template_registry \<Rightarrow> 'x backend option list \<Rightarrow> error option" where
  "validateProviders K reg [] = None"
| "validateProviders K reg (p # ps) =
     (case ValidateProviderCapabilities K p reg of
        Some e \<Rightarrow> Some (ErrWrap ''app.ValidateAllProviders'' None e)
      | None \<Rightarrow> validateProviders K reg ps)"

definition ValidateAllProviders ::
  "('ctx, 's, 'pol, 'x, 'r) core_pkg \<Rightarrow> 'r \<Rightarrow> template_registry \<Rightarrow> error option" where
  "ValidateAllProviders K providerReg reg = validateProviders K reg (rgList K providerReg)"

section \<open>Registries\<close>

definition templateRegistryOf :: "('s, template_info) registry_env \<Rightarrow> 's \<Rightarrow> template_registry" where
  "templateRegistryOf E s =
     \<lparr>regGet = (\<lambda>templateID. case fst (GetTemplate E templateID s) of Inl e \<Rightarrow> Inl e | Inr t \<Rightarrow> Inr (Some t)),
      regList = map Some (fst (ListTemplatesStored E s))\<rparr>"

definition buildTemplateRegistry ::
  "('ctx, 's, 'pol, 'x, 'r) core_pkg \<Rightarrow> ('s, template_info) registry_env \<Rightarrow> 's \<Rightarrow> string
     \<Rightarrow> template_registry result \<times> 's" where
  "buildTemplateRegistry K E store0 catalogPath =
     (let opn = ''server.buildTemplateRegistry'' in
      case NewVaultRegistry (Some store0) of
        Inl e \<Rightarrow> (Inl (ErrWrap opn None e), store0)
      | Inr s \<Rightarrow>
          if catalogPath \<noteq> [] then
            (case LoadStandardCatalog K catalogPath s of
               (Some e, s1) \<Rightarrow> (Inl (ErrWrap opn None e), s1)
             | (None, s1) \<Rightarrow> (Inr (templateRegistryOf E s1), s1))
          else (Inr (templateRegistryOf E s), s))"

definition fipsName :: string where "fipsName = ''openssl-fips''"

definition registerFIPSProvider ::
  "('ctx, 's, 'pol, 'x, 'r) core_pkg \<Rightarrow> 'x ossl_lib \<Rightarrow> 'r \<Rightarrow> string \<Rightarrow> 'r" where
  "registerFIPSProvider K L providerReg fipsConfigPath =
     (if fipsConfigPath = [] then providerReg
      else case fst (New_ossl L [WithName fipsName, WithFIPS fipsConfigPath]) of
        Inl _ \<Rightarrow> providerReg
      | Inr fipsProvider \<Rightarrow> snd (rgRegister K (OpensslBackend fipsProvider) providerReg))"

definition buildProviderRegistry ::
  "('ctx, 's, 'pol, 'x, 'r) core_pkg \<Rightarrow> 'x ossl_lib \<Rightarrow> template_registry \<Rightarrow> string \<Rightarrow> 'r result" where
  "buildProviderRegistry K L templateReg fipsConfigPath =
     (let opn = ''server.buildProviderRegistry'' in
      case rgRegister K SoftwareBackend (rgNew K) of
        (Some e, _) \<Rightarrow> Inl (ErrWrap opn None e)
      | (None, r1) \<Rightarrow>
      case fst (New_ossl L []) of
        Inl e \<Rightarrow> Inl (ErrWrap opn None e)
      | Inr osslProvider \<Rightarrow>
      case rgRegister K (OpensslBackend osslProvider) r1 of
        (Some e, _) \<Rightarrow> Inl (ErrWrap opn None e)
      | (None, r2) \<Rightarrow>
        let r3 = registerFIPSProvider K L r2 fipsConfigPath in
        case ValidateAllProviders K r3 templateReg of
          Some e \<Rightarrow> Inl (ErrWrap opn None e)
        | None \<Rightarrow> Inr r3)"

section \<open>Factories\<close>

definition buildVaultPolicyEngine :: "('ctx, 's, 'pol, 'x, 'r) core_pkg \<Rightarrow> 's \<Rightarrow> ('ctx, 's, 'pol) policy_ops result" where
  "buildVaultPolicyEngine K s =
     (case NewPolicyRepository (Some s) of Inl e \<Rightarrow> Inl e | Inr policyRepo \<Rightarrow> NewEnforcer K policyRepo)"

definition buildVaultKeyOrchestrator ::
  "('ctx, 's, 'pol, 'x, 'r) core_pkg \<Rightarrow> template_registry \<Rightarrow> 'r \<Rightarrow> 's \<Rightarrow> ('ctx, 's) key_ops result" where
  "buildVaultKeyOrchestrator K templateReg providerReg s =
     (case NewVaultRepository (Some s) [] of
        Inl e \<Rightarrow> Inl e
      | Inr repository \<Rightarrow>
        (case buildVaultPolicyEngine K s of
           Inl e \<Rightarrow> Inl e
         | Inr pol \<Rightarrow> NewKeyOrchestrator K repository templateReg providerReg pol))"

definition buildVaultCryptoOrchestrator ::
  "('ctx, 's, 'pol, 'x, 'r) core_pkg \<Rightarrow> template_registry \<Rightarrow> 'r \<Rightarrow> 's \<Rightarrow> ('ctx, 's) crypto_ops result" where
  "buildVaultCryptoOrchestrator K templateReg providerReg s =
     (case NewVaultRepository (Some s) [] of
        Inl e \<Rightarrow> Inl e
      | Inr repository \<Rightarrow>
        (case buildVaultPolicyEngine K s of
           Inl e \<Rightarrow> Inl e
         | Inr pol \<Rightarrow> NewCryptoOrchestrator K repository pol providerReg templateReg))"

text \<open>The stub of provider instance management: it accepts everything and keeps nothing.\<close>

record 'i instance_manager =
  imCreate :: "'i \<Rightarrow> 'i result"
  imRead :: "string \<Rightarrow> 'i option result"
  imList :: "'i list result"
  imDelete :: "string \<Rightarrow> unit result"

definition noopInstanceManager :: "'i instance_manager" where
  "noopInstanceManager = \<lparr>imCreate = (\<lambda>pi. Inr pi), imRead = (\<lambda>_. Inr None), imList = Inr [], imDelete = (\<lambda>_. Inr ())\<rparr>"

record server_wiring_config =
  CatalogPath :: string
  FIPSConfigPath :: string

type_synonym ('c, 's, 'pol, 'x, 'i) wired =
  "('c option, 's, 'pol, 'x backend, 'c option \<Rightarrow> 'i instance_manager result) FactorySet"

definition registryView :: "('ctx, 's, 'pol, 'x, 'r) core_pkg \<Rightarrow> 'r \<Rightarrow> 'x backend provider_registry" where
  "registryView K r = \<lparr>prList = rgList K r, prGet = rgGet K r\<rparr>"

text \<open>\<open>authEnabled\<close> is the flag of \<open>internal/auth\<close>, as \<open>Build\<close> has set it.\<close>

definition wireFactoriesWithStorage ::
  "('c option, 's, 'pol, 'x, 'r) core_pkg \<Rightarrow> 'c zauth \<Rightarrow> bool \<Rightarrow> ('s, template_info) registry_env \<Rightarrow> 'x ossl_lib
     \<Rightarrow> server_wiring_config \<Rightarrow> 's \<Rightarrow> string \<Rightarrow> ('c, 's, 'pol, 'x, 'i) wired result \<times> 's" where
  "wireFactoriesWithStorage K Z authEnabled E L cfg store0 opn =
     (case buildTemplateRegistry K E store0 (CatalogPath cfg) of
        (Inl e, s1) \<Rightarrow> (Inl (ErrWrap opn None e), s1)
      | (Inr templateReg, s1) \<Rightarrow>
      case buildProviderRegistry K L templateReg (FIPSConfigPath cfg) of
        Inl e \<Rightarrow> (Inl (ErrWrap opn None e), s1)
      | Inr providerReg \<Rightarrow>
        (Inr \<lparr>fsKeys = Some (\<lambda>_ s. (buildVaultKeyOrchestrator K templateReg providerReg s, s)),
              fsCrypto = Some (\<lambda>_ s. (buildVaultCryptoOrchestrator K templateReg providerReg s, s)),
              fsPolicy = Some (\<lambda>_ s. (buildVaultPolicyEngine K s, s)),
              fsInstances = Some (\<lambda>_. Inr noopInstanceManager),
              fsTemplates = Some (\<lambda>_. Inr templateReg),
              fsCatalog = Some (\<lambda>_. Inr (registryView K providerReg)),
              fsAuthorizeKey = Some (AuthorizeKeyName Z authEnabled),
              fsAuthorizePolicy = Some (AuthorizePolicyName Z authEnabled)\<rparr>, s1))"

text \<open>\<open>emptyStorage\<close> is a new \<open>logical.InmemStorage\<close>.\<close>

definition WireFactorySet ::
  "('c option, 's, 'pol, 'x, 'r) core_pkg \<Rightarrow> 'c zauth \<Rightarrow> bool \<Rightarrow> ('s, template_info) registry_env \<Rightarrow> 'x ossl_lib
     \<Rightarrow> server_wiring_config \<Rightarrow> 's \<Rightarrow> ('c, 's, 'pol, 'x, 'i) wired result \<times> 's" where
  "WireFactorySet K Z authEnabled E L cfg emptyStorage =
     wireFactoriesWithStorage K Z authEnabled E L cfg emptyStorage ''server.WireFactorySet''"

end
