(* ===== verification/Server_Main.thy ===== *)
theory Server_Main
  imports Server_Wiring
begin

text \<open>
  The programs built on the wiring: the server binary (\<open>internal/cmd/server/main/main.go\<close>), the
  embeddable core (\<open>embed/embed.go\<close>) and the test server (\<open>internal/cmd/server/testable.go\<close>). \<open>log.Fatalf\<close> ends the program: \<open>main_server\<close> returns
  the reason or what it serves. Flag parsing, loading the key pair, the interceptors of
  zitadel-grpc-auth, the names of the services grpc-go's reflection and health packages register, and
  the listener are parameters; logging is left out, and shutdown is in \<open>Server_Lifecycle\<close>.
\<close>

section \<open>The server\<close>

record server_flags =
  flAddr :: string
  flCatalog :: string
  flTLSCert :: string
  flTLSKey :: string
  flFIPSConfig :: string
  flReflection :: bool
  flHealth :: bool

record 'c server_os =
  osGetenv :: "string \<Rightarrow> string"
  osQuote :: "string \<Rightarrow> string"
  osInterceptors :: "'c server_config \<Rightarrow> error option"
  osLoadKeyPair :: "string \<Rightarrow> string \<Rightarrow> string option"
  osReflectionServices :: "string list"
  osHealthService :: string
  osListen :: "string \<Rightarrow> string option"

text \<open>\<open>registerHealthServer\<close> registers one more service and reports the whole server, the empty name, as serving.\<close>

datatype serving_status = UNKNOWN | SERVING | NOT_SERVING | SERVICE_UNKNOWN

definition registerHealthServer :: "string \<Rightarrow> string list \<Rightarrow> string list \<times> (string \<rightharpoonup> serving_status)" where
  "registerHealthServer healthService srv = (srv @ [healthService], [''''  \<mapsto> SERVING])"

datatype fatal =
    AuthConfig error | AuthBuild error | TLSRequired | TLSCredentials string | Wiring error
  | Registration error | Listen string

record 'c running =
  ruAuth :: "'c server_config"
  ruAuthEnabled :: bool
  ruTLS :: bool
  ruServices :: "string list"
  ruStatus :: "string \<rightharpoonup> serving_status"

definition main_server ::
  "'c server_os \<Rightarrow> 'c zauth \<Rightarrow> ('c option, 's, 'pol, 'x, 'r) core_pkg \<Rightarrow> ('s, template_info) registry_env
     \<Rightarrow> 'x ossl_lib \<Rightarrow> ('p, 'pol, 'sc, 'x backend, 'rq) handler_pkgs \<Rightarrow> 's \<Rightarrow> server_flags
     \<Rightarrow> fatal + 'c running" where
  "main_server S Z K E L P emptyStorage fl =
     (case LoadFromEnv (osQuote S) (osGetenv S) of
        Inl e \<Rightarrow> Inl (AuthConfig e)
      | Inr cfg0 \<Rightarrow>
      let authCfg = cfg0\<lparr>AllowUnauthenticatedReflection := flReflection fl\<rparr>;
          (authEnabled, interceptors) = Build Z authCfg
      in case osInterceptors S interceptors of
        Some e \<Rightarrow> Inl (AuthBuild e)
      | None \<Rightarrow>
      if Enabled authCfg \<and> (flTLSCert fl = [] \<or> flTLSKey fl = []) then Inl TLSRequired
      else
        let tls = (flTLSCert fl \<noteq> [] \<and> flTLSKey fl \<noteq> []) in
        case (if tls then osLoadKeyPair S (flTLSCert fl) (flTLSKey fl) else None) of
          Some er \<Rightarrow> Inl (TLSCredentials er)
        | None \<Rightarrow>
        case fst (WireFactorySet K Z authEnabled E L
               \<lparr>CatalogPath = flCatalog fl, FIPSConfigPath = flFIPSConfig fl\<rparr> emptyStorage
               :: ('c, 's, 'pol, 'x, provider_instance) wired result \<times> 's) of
          Inl e \<Rightarrow> Inl (Wiring e)
        | Inr factorySet \<Rightarrow>
        case RegisterAll P ServedServices factorySet [] of
          (Some e, _) \<Rightarrow> Inl (Registration e)
        | (None, services) \<Rightarrow>
        let srv = (if flReflection fl then services @ osReflectionServices S else services);
            (srv', status) = (if flHealth fl then registerHealthServer (osHealthService S) srv else (srv, Map.empty))
        in case osListen S (flAddr fl) of
          Some er \<Rightarrow> Inl (Listen er)
        | None \<Rightarrow>
          Inr \<lparr>ruAuth = interceptors, ruAuthEnabled = authEnabled, ruTLS = tls, ruServices = srv', ruStatus = status\<rparr>)"

section \<open>The embeddable core\<close>

record embed_config =
  emCatalogPath :: string
  emFIPSConfigPath :: string
  emServices :: Services

record ('ctx, 'w, 'p, 'pol, 'sc, 'b, 'rq) Core =
  coHandlers :: "('ctx, 'w, 'p, 'pol, 'sc, 'b, 'rq) Handlers"

definition New_embed ::
  "('c option, 's, 'pol, 'x, 'r) core_pkg \<Rightarrow> 'c zauth \<Rightarrow> bool \<Rightarrow> ('s, template_info) registry_env \<Rightarrow> 'x ossl_lib
     \<Rightarrow> ('p, 'pol, 'sc, 'x backend, 'rq) handler_pkgs \<Rightarrow> 's \<Rightarrow> embed_config
     \<Rightarrow> ('c option, 's, 'p, 'pol, 'sc, 'x backend, 'rq) Core result \<times> 's" where
  "New_embed K Z authEnabled E L P emptyStorage cfg =
     (case (WireFactorySet K Z authEnabled E L
              \<lparr>CatalogPath = emCatalogPath cfg, FIPSConfigPath = emFIPSConfigPath cfg\<rparr> emptyStorage
            :: ('c, 's, 'pol, 'x, provider_instance) wired result \<times> 's) of
        (Inl e, s1) \<Rightarrow> (Inl e, s1)
      | (Inr factorySet, s1) \<Rightarrow>
        (case BuildHandlers P (emServices cfg) factorySet of
           Inl e \<Rightarrow> (Inl e, s1)
         | Inr h \<Rightarrow> (Inr \<lparr>coHandlers = h\<rparr>, s1)))"

definition KeyManagementHandler :: "('ctx, 'w, 'p, 'pol, 'sc, 'b, 'rq) Core \<Rightarrow> ('ctx, 'w, 'p) key_handler option" where
  "KeyManagementHandler c = hdKeyManagement (coHandlers c)"

definition CryptoHandler :: "('ctx, 'w, 'p, 'pol, 'sc, 'b, 'rq) Core \<Rightarrow> ('ctx, 'w) crypto_handler option" where
  "CryptoHandler c = hdCrypto (coHandlers c)"

definition CryptoPolicyHandler :: "('ctx, 'w, 'p, 'pol, 'sc, 'b, 'rq) Core \<Rightarrow> ('ctx, 'w, 'pol) policy_handler option" where
  "CryptoPolicyHandler c = hdCryptoPolicy (coHandlers c)"

definition DiscoveryHandler :: "('ctx, 'w, 'p, 'pol, 'sc, 'b, 'rq) Core \<Rightarrow> ('ctx, 'sc) discovery_handler option" where
  "DiscoveryHandler c = hdDiscovery (coHandlers c)"

definition ProviderHandler :: "('ctx, 'w, 'p, 'pol, 'sc, 'b, 'rq) Core \<Rightarrow> ('ctx, 'b, 'rq) provider_handler option" where
  "ProviderHandler c = hdProvider (coHandlers c)"

definition KeyEstablishmentHandler ::
  "('ctx, 'w, 'p, 'pol, 'sc, 'b, 'rq) Core \<Rightarrow> (('ctx, 'w) crypto_factory, ('ctx, 'w) key_factory) establishment_handler option" where
  "KeyEstablishmentHandler c = hdKeyEstablishment (coHandlers c)"

definition StreamingHandler :: "('ctx, 'w, 'p, 'pol, 'sc, 'b, 'rq) Core \<Rightarrow> ('ctx, 'w) crypto_factory option" where
  "StreamingHandler c = hdStreaming (coHandlers c)"

lemmas accessor_defs = KeyManagementHandler_def CryptoHandler_def CryptoPolicyHandler_def DiscoveryHandler_def
  ProviderHandler_def KeyEstablishmentHandler_def StreamingHandler_def

text \<open>An embedded core has exactly the handlers its configuration asks for: no other accessor is non-nil.\<close>

theorem New_embed_handlers:
  fixes K :: "('c option, 's, 'pol, 'x, 'r) core_pkg"
  assumes "New_embed K Z authEnabled E L P emptyStorage cfg = (Inr c, s)"
  shows "(KeyManagementHandler c \<noteq> None) = svKeyManagement (emServices cfg) \<and>
    (CryptoHandler c \<noteq> None) = svCrypto (emServices cfg) \<and>
    (CryptoPolicyHandler c \<noteq> None) = svCryptoPolicy (emServices cfg) \<and>
    (DiscoveryHandler c \<noteq> None) = svDiscovery (emServices cfg) \<and>
    (ProviderHandler c \<noteq> None) = svProvider (emServices cfg) \<and>
    (KeyEstablishmentHandler c \<noteq> None) = svKeyEstablishment (emServices cfg) \<and>
    (StreamingHandler c \<noteq> None) = svStreaming (emServices cfg)"
proof -
  from assms obtain f :: "('c, 's, 'pol, 'x, provider_instance) wired"
    where "BuildHandlers P (emServices cfg) f = Inr (coHandlers c)"
    by (auto simp: New_embed_def split: prod.splits sum.splits)
  from BuildHandlers_Inr [OF this] show ?thesis unfolding accessor_defs .
qed

section \<open>The test server\<close>

record ('ctx, 'w, 'p, 'pol, 'sc, 'b, 'rq) TestableHandler =
  thCrypto :: "('ctx, 'w) crypto_handler"
  thKeys :: "('ctx, 'w, 'p) key_handler"
  thPolicy :: "('ctx, 'w, 'pol) policy_handler"
  thDiscovery :: "('ctx, 'sc) discovery_handler"
  thProvider :: "('ctx, 'b, 'rq) provider_handler"
  thPolicyEngineFn :: "('ctx \<Rightarrow> 'w \<Rightarrow> ('ctx, 'w, 'pol) policy_ops result \<times> 'w) option"

definition NewTestableServer ::
  "('c option, 's, 'pol, 'x, 'r) core_pkg \<Rightarrow> 'c zauth \<Rightarrow> bool \<Rightarrow> ('s, template_info) registry_env \<Rightarrow> 'x ossl_lib
     \<Rightarrow> ('p, 'pol, 'sc, 'x backend, 'rq) handler_pkgs \<Rightarrow> 's \<Rightarrow> server_wiring_config
     \<Rightarrow> ('c option, 's, 'p, 'pol, 'sc, 'x backend, 'rq) TestableHandler result \<times> 's" where
  "NewTestableServer K Z authEnabled E L P sharedStore cfg =
     (let opn = ''server.NewTestableServer'' in
      case (wireFactoriesWithStorage K Z authEnabled E L cfg sharedStore opn
            :: ('c, 's, 'pol, 'x, provider_instance) wired result \<times> 's) of
        (Inl e, s1) \<Rightarrow> (Inl e, s1)
      | (Inr fns, s1) \<Rightarrow>
        (case New_crypto (fsCrypto fns) (fsAuthorizeKey fns) (hpErrs P) of
           Inl e \<Rightarrow> Inl (ErrWrap opn None e) | Inr crypto \<Rightarrow>
         case New_keys (fsKeys fns) (fsAuthorizeKey fns) (fsAuthorizePolicy fns) (hpErrs P) (hpCodec P) of
           Inl e \<Rightarrow> Inl (ErrWrap opn None e) | Inr keys \<Rightarrow>
         case New_policy (fsPolicy fns) (fsAuthorizePolicy fns) (hpErrs P) (hpPolicy P) of
           Inl e \<Rightarrow> Inl (ErrWrap opn None e) | Inr pol \<Rightarrow>
         case New_discovery (fsTemplates fns) (hpErrs P) (hpScopes P) of
           Inl e \<Rightarrow> Inl (ErrWrap opn None e) | Inr disco \<Rightarrow>
         case New_provider (fsCatalog fns) (fsInstances fns) (hpErrs P) (hpBackends P) of
           Inl e \<Rightarrow> Inl (ErrWrap opn None e) | Inr prov \<Rightarrow>
         Inr \<lparr>thCrypto = crypto, thKeys = keys, thPolicy = pol, thDiscovery = disco, thProvider = prov,
              thPolicyEngineFn = fsPolicy fns\<rparr>, s1))"

text \<open>\<open>newID\<close> is the fresh identifier \<open>core.NewID\<close> returns. A nil engine factory cannot be called.\<close>

definition SeedPolicy ::
  "'pol policy_pkg \<Rightarrow> ('ctx, 'w, 'p, 'pol, 'sc, 'b, 'rq) TestableHandler \<Rightarrow> 'ctx \<Rightarrow> string \<Rightarrow> string \<Rightarrow> string \<Rightarrow> 'w
     \<Rightarrow> (error option \<times> 'w) option" where
  "SeedPolicy K th ctx newID name rulesJSON w =
     (let opn = ''server.TestableHandler.SeedPolicy'' in
      case thPolicyEngineFn th of
        None \<Rightarrow> None
      | Some engineFn \<Rightarrow>
        Some (case engineFn ctx w of
            (Inl e, w1) \<Rightarrow> (Some (ErrWrap opn None e), w1)
          | (Inr engine, w1) \<Rightarrow>
            (case opCreatePolicy engine ctx (newPolicy K newID name rulesJSON) w1 of
               (Inl e, w2) \<Rightarrow> (Some (ErrWrap opn None e), w2)
             | (Inr _, w2) \<Rightarrow> (None, w2))))"

end
