(* ===== verification/Server_Properties.thy ===== *)
theory Server_Properties
  imports Server_Main
begin

text \<open>
  What a server that has been wired guarantees: every algorithm a registered provider declares has a
  template the provider can serve, a provider called \<open>openssl-fips\<close> is restricted to FIPS, and the
  factories are complete.
\<close>

section \<open>Providers\<close>

text \<open>
  The registry of citius-core: a new one is empty, registering adds at most the given backend, and
  does add it when it reports no error.
\<close>

definition registry_law :: "('ctx, 's, 'pol, 'x, 'r) core_pkg \<Rightarrow> bool" where
  "registry_law K \<longleftrightarrow> rgList K (rgNew K) = [] \<and>
     (\<forall>b r. set (rgList K r) \<subseteq> set (rgList K (snd (rgRegister K b r))) \<and>
            set (rgList K (snd (rgRegister K b r))) \<subseteq> insert (Some b) (set (rgList K r)) \<and>
            (fst (rgRegister K b r) = None \<longrightarrow> Some b \<in> set (rgList K (snd (rgRegister K b r)))))"

lemma registry_lawD:
  assumes "registry_law K" and "rgRegister K b r = (e, r')"
  shows "set (rgList K r) \<subseteq> set (rgList K r')" "set (rgList K r') \<subseteq> insert (Some b) (set (rgList K r))"
    "e = None \<Longrightarrow> Some b \<in> set (rgList K r')"
  using assms unfolding registry_law_def by (metis fst_conv snd_conv)+

text \<open>A backend can serve an algorithm: there is a template, and it has every capability it needs.\<close>

definition serves :: "('ctx, 's, 'pol, 'x, 'r) core_pkg \<Rightarrow> template_registry \<Rightarrow> 'x backend \<Rightarrow> string \<Rightarrow> bool" where
  "serves K reg p alg \<longleftrightarrow>
     (\<exists>t. regGet reg alg = Inr t \<and>
        list_all (HasCapability K p) (RequiredCapabilities K (case t of None \<Rightarrow> [] | Some t \<Rightarrow> tiScopedCapabilities t)))"

lemma missingCapabilitiesFor_Nil:
  "(missingCapabilitiesFor K p alg t = []) =
   list_all (HasCapability K p) (RequiredCapabilities K (case t of None \<Rightarrow> [] | Some t \<Rightarrow> tiScopedCapabilities t))"
  by (auto simp: missingCapabilitiesFor_def filter_empty_conv list_all_iff)

lemma checkAlgorithms_Nil:
  "(checkAlgorithms K reg p algs = ([], [])) = list_all (serves K reg p) algs"
proof (induction algs)
  case (Cons alg algs)
  obtain u m where um: "checkAlgorithms K reg p algs = (u, m)" by fastforce
  show ?case
  proof (cases "regGet reg alg")
    case (Inr t)
    then have "serves K reg p alg = (missingCapabilitiesFor K p alg t = [])"
      unfolding missingCapabilitiesFor_Nil by (simp add: serves_def)
    then show ?thesis using Cons um Inr by auto
  qed (use um in \<open>simp add: serves_def\<close>)
qed simp

lemma ValidateProviderCapabilities_None:
  "(ValidateProviderCapabilities K (Some p) reg = None) = list_all (serves K reg p) (backendAlgorithms p)"
  unfolding checkAlgorithms_Nil [symmetric]
  by (cases "checkAlgorithms K reg p (backendAlgorithms p)") (auto simp: ValidateProviderCapabilities_def Let_def)

lemma validateProviders_None:
  "(validateProviders K reg ps = None) = (\<forall>p. Some p \<in> set ps \<longrightarrow> list_all (serves K reg p) (backendAlgorithms p))"
proof (induction ps)
  case (Cons q ps)
  have "(ValidateProviderCapabilities K q reg = None) =
      (\<forall>p. q = Some p \<longrightarrow> list_all (serves K reg p) (backendAlgorithms p))"
    by (cases q) (simp_all add: ValidateProviderCapabilities_None, simp add: ValidateProviderCapabilities_def)
  then show ?case using Cons by (auto split: option.splits)
qed simp

lemma New_ossl_name:
  "fst (New_ossl L opts) = Inr p \<Longrightarrow> opName p = cfName (configOf opts) \<and>
     (cfFipsConfigPath (configOf opts) \<noteq> [] \<longrightarrow> libFIPSEnabled L (opLibctx p))"
  by (auto simp: New_ossl_def Let_def split: option.split_asm if_split_asm sum.split_asm)

text \<open>What may be in the registry: the software provider and OpenSSL providers in the mode of their name.\<close>

definition honest :: "'x ossl_lib \<Rightarrow> string \<Rightarrow> 'x backend option \<Rightarrow> bool" where
  "honest L fips b \<longleftrightarrow>
     (case b of
        Some SoftwareBackend \<Rightarrow> True
      | Some (OpensslBackend p) \<Rightarrow> opName p = fipsName \<and> fips \<noteq> [] \<and> libFIPSEnabled L (opLibctx p) \<or> opName p = defaultName
      | None \<Rightarrow> False)"

lemma registerFIPSProvider_keeps:
  assumes "registry_law K" and "\<forall>b \<in> set (rgList K r). honest L fips b"
  shows "set (rgList K r) \<subseteq> set (rgList K (registerFIPSProvider K L r fips)) \<and>
    (\<forall>b \<in> set (rgList K (registerFIPSProvider K L r fips)). honest L fips b)"
proof (cases "fips = [] \<or> (\<exists>e. fst (New_ossl L [WithName fipsName, WithFIPS fips]) = Inl e)")
  case True
  then show ?thesis using assms(2) by (auto simp: registerFIPSProvider_def)
next
  case False
  then obtain q where q: "fst (New_ossl L [WithName fipsName, WithFIPS fips]) = Inr q" and "fips \<noteq> []"
    by (cases "fst (New_ossl L [WithName fipsName, WithFIPS fips])") auto
  obtain e r' where reg: "rgRegister K (OpensslBackend q) r = (e, r')" by fastforce
  have "honest L fips (Some (OpensslBackend q))"
    using New_ossl_name [OF q] \<open>fips \<noteq> []\<close> by (simp add: honest_def configOf_def)
  then show ?thesis using registry_lawD(1,2) [OF assms(1) reg] assms(2) \<open>fips \<noteq> []\<close> q reg
    by (auto simp: registerFIPSProvider_def)
qed

lemma buildProviderRegistry_honest:
  assumes law: "registry_law K" and built: "buildProviderRegistry K L reg fips = Inr r"
  shows "Some SoftwareBackend \<in> set (rgList K r) \<and> (\<forall>b \<in> set (rgList K r). honest L fips b) \<and>
    ValidateAllProviders K r reg = None"
proof -
  obtain r1 where r1: "rgRegister K SoftwareBackend (rgNew K) = (None, r1)"
    using built by (auto simp: buildProviderRegistry_def Let_def split: prod.splits option.splits)
  obtain p where p: "fst (New_ossl L []) = Inr p"
    using built r1 by (auto simp: buildProviderRegistry_def Let_def split: sum.splits)
  obtain r2 where r2: "rgRegister K (OpensslBackend p) r1 = (None, r2)"
    using built r1 p by (auto simp: buildProviderRegistry_def Let_def split: prod.splits option.splits)
  have r: "r = registerFIPSProvider K L r2 fips" "ValidateAllProviders K r reg = None"
    using built r1 p r2 by (auto simp: buildProviderRegistry_def Let_def split: option.splits)
  have empty: "rgList K (rgNew K) = []" using law by (simp add: registry_law_def)
  note first = registry_lawD [OF law r1] and second = registry_lawD [OF law r2]
  have "honest L fips (Some (OpensslBackend p))"
    using New_ossl_name [OF p] by (simp add: honest_def configOf_def)
  moreover have "honest L fips (Some SoftwareBackend)" by (simp add: honest_def)
  ultimately have "\<forall>b \<in> set (rgList K r2). honest L fips b" using first(2) second(2) empty by auto
  from registerFIPSProvider_keeps [OF law this] show ?thesis using r first(3) second(1) by blast
qed

text \<open>
  C16: In a registry the server has built, every algorithm a provider declares has a template, and
  the provider implements every capability the template requires; the software provider is there,
  and a provider registered as \<open>openssl-fips\<close> is restricted to FIPS and was configured.
\<close>

theorem wired_providers_sound:
  assumes "registry_law K" and "buildProviderRegistry K L reg fips = Inr r"
  shows "Some SoftwareBackend \<in> set (rgList K r) \<and>
    (\<forall>p. Some p \<in> set (rgList K r) \<longrightarrow> list_all (serves K reg p) (backendAlgorithms p)) \<and>
    (\<forall>q. Some (OpensslBackend q) \<in> set (rgList K r) \<and> Name_ossl q = fipsName \<longrightarrow>
       fips \<noteq> [] \<and> FIPSEnabled_ossl L q)"
proof -
  note built = buildProviderRegistry_honest [OF assms]
  have names: "fipsName \<noteq> defaultName" by (simp add: fipsName_def defaultName_def)
  have "\<forall>q. Some (OpensslBackend q) \<in> set (rgList K r) \<and> opName q = fipsName \<longrightarrow> fips \<noteq> [] \<and> libFIPSEnabled L (opLibctx q)"
    using built names by (fastforce simp: honest_def)
  then show ?thesis using built
    by (simp add: ValidateAllProviders_def validateProviders_None Name_ossl_def FIPSEnabled_ossl_def)
qed

definition demo_template :: template_info where
  "demo_template = \<lparr>tiTemplateId = ''t'', tiStatus = 0, tiStandards = [], tiScopedCapabilities = [], tiOther = []\<rparr>"

definition demo_templates :: template_registry where
  "demo_templates = \<lparr>regGet = (\<lambda>_. Inr (Some demo_template)), regList = [Some demo_template]\<rparr>"

definition demo_core :: "((string \<times> string list) list option, unit, unit, bool, bool backend option list) core_pkg" where
  "demo_core = \<lparr>rgNew = [], rgRegister = (\<lambda>b r. (None, r @ [Some b])), rgList = (\<lambda>r. r),
     rgGet = (\<lambda>_ _. Inl (ErrPlain ''none'')), LoadStandardCatalog = (\<lambda>_ s. (None, s)),
     RequiredCapabilities = (\<lambda>_. [''signer'']), HasCapability = (\<lambda>_ c. c = ''signer''),
     NewEnforcer = (\<lambda>_. Inl (ErrPlain ''none'')), NewKeyOrchestrator = (\<lambda>_ _ _ _. Inl (ErrPlain ''none'')),
     NewCryptoOrchestrator = (\<lambda>_ _ _ _. Inl (ErrPlain ''none'')), coreQuote = (\<lambda>s. s)\<rparr>"

lemma demo_core_simps [simp]:
  "rgNew demo_core = []" "rgRegister demo_core b r = (None, r @ [Some b])" "rgList demo_core r = r"
  by (simp_all add: demo_core_def)

lemma demo_core_law [simp]: "registry_law demo_core"
  by (auto simp: registry_law_def)

lemma demo_serves [simp]: "list_all (serves demo_core demo_templates p) algs"
  by (auto simp: list_all_iff serves_def demo_core_def demo_templates_def)

lemma demo_New_ossl:
  "fst (New_ossl demo_lib []) = Inr \<lparr>opName = ''openssl'', opLibctx = False, opAlgs = deriveAlgorithms demo_lib False catalog\<rparr>"
  "fst (New_ossl demo_lib [WithName fipsName, WithFIPS ''f'']) =
     Inr \<lparr>opName = fipsName, opLibctx = True, opAlgs = deriveAlgorithms demo_lib True catalog\<rparr>"
  by (simp_all add: New_ossl_def configOf_def defaultName_def demo_lib_def)

lemma demo_registry_built:
  "\<exists>r. buildProviderRegistry demo_core demo_lib demo_templates ''f'' = Inr r \<and> length (rgList demo_core r) = 3"
proof -
  have "ValidateAllProviders demo_core r demo_templates = None" for r
    by (simp add: ValidateAllProviders_def validateProviders_None)
  then show ?thesis
    by (simp add: buildProviderRegistry_def registerFIPSProvider_def demo_New_ossl)
qed

theorem wired_providers_sound_witness:
  "\<exists>r. buildProviderRegistry demo_core demo_lib demo_templates ''f'' = Inr r \<and> length (rgList demo_core r) = 3 \<and>
     Some SoftwareBackend \<in> set (rgList demo_core r) \<and>
     (\<forall>q. Some (OpensslBackend q) \<in> set (rgList demo_core r) \<and> Name_ossl q = fipsName \<longrightarrow> FIPSEnabled_ossl demo_lib q)"
proof -
  obtain r where r: "buildProviderRegistry demo_core demo_lib demo_templates ''f'' = Inr r" "length (rgList demo_core r) = 3"
    using demo_registry_built by blast
  from wired_providers_sound [OF demo_core_law r(1)] r show ?thesis by blast
qed

text \<open>
  Without a catalogue nothing can be wired: the software provider declares algorithms, and an empty
  template registry knows none of them.
\<close>

lemma no_templates_no_server:
  assumes "registry_law K" and "\<And>alg. \<exists>e. regGet reg alg = Inl e"
  shows "\<exists>e. buildProviderRegistry K L reg fips = Inl e"
proof (rule ccontr)
  assume "\<not> ?thesis"
  then obtain r where "buildProviderRegistry K L reg fips = Inr r" by (metis sum.exhaust)
  from buildProviderRegistry_honest [OF assms(1) this]
  have "list_all (serves K reg SoftwareBackend) SupportedAlgorithms_sw"
    by (auto simp: ValidateAllProviders_def validateProviders_None)
  moreover have "\<not> serves K reg SoftwareBackend alg" for alg
    using assms(2) [of alg] by (auto simp: serves_def)
  ultimately show False by (simp add: SupportedAlgorithms_sw_def)
qed

section \<open>Factories\<close>

lemma wired_configured:
  assumes "wireFactoriesWithStorage K Z en E L cfg s0 opn = (Inr f, s1)"
  shows "configured s f \<and> fsAuthorizeKey f = Some (AuthorizeKeyName Z en) \<and> fsAuthorizePolicy f = Some (AuthorizePolicyName Z en)"
  using assms by (auto simp: wireFactoriesWithStorage_def configured_def split: prod.splits sum.splits)

lemma WireFactorySet_needs_catalogue:
  assumes "registry_law K" and "CatalogPath cfg = []" and "\<And>alg. \<exists>e. fst (GetTemplate E alg s0) = Inl e"
  shows "\<exists>e. fst (WireFactorySet K Z en E L cfg s0 :: ('c, 's, 'pol, 'x, 'i) wired result \<times> 's) = Inl e"
proof -
  have "\<exists>e. regGet (templateRegistryOf E s0) alg = Inl e" for alg
    using assms(3) [of alg] by (auto simp: templateRegistryOf_def)
  from no_templates_no_server [OF assms(1) this, of L "FIPSConfigPath cfg"]
  show ?thesis using assms(2)
    by (auto simp: WireFactorySet_def wireFactoriesWithStorage_def buildTemplateRegistry_def NewVaultRegistry_def Let_def)
qed

section \<open>Startup\<close>

lemma RegisterAll_services: "RegisterAll P s f reg = (None, services) \<Longrightarrow> services = reg @ selected s"
  using BuildHandlers_cases [of s f P reg] by (auto simp: RegisterAll_def split: if_splits)

lemma LoadFromEnv_enabled:
  "LoadFromEnv quote getenv = Inr cfg \<Longrightarrow> Enabled cfg = (getenv ''AUTH_ENABLED'' = ''true'')"
  by (auto simp: LoadFromEnv_def Let_def split: sum.splits option.splits if_splits)

lemma main_server_run:
  assumes "main_server S Z K E L P emptyStorage fl = Inr r"
  shows "\<exists>cfg. LoadFromEnv (osQuote S) (osGetenv S) = Inr cfg \<and>
     ruServices r = selected ServedServices @ (if flReflection fl then osReflectionServices S else []) @
       (if flHealth fl then [osHealthService S] else []) \<and>
     ruAuth r = snd (Build Z (cfg\<lparr>AllowUnauthenticatedReflection := flReflection fl\<rparr>)) \<and>
     ruAuthEnabled r = Enabled cfg \<and> (Enabled cfg \<longrightarrow> ruTLS r)"
proof -
  obtain cfg where cfg: "LoadFromEnv (osQuote S) (osGetenv S) = Inr cfg"
    using assms by (auto simp: main_server_def split: sum.splits)
  show ?thesis
    using assms by (auto simp: main_server_def cfg Let_def Build_def registerHealthServer_def dest!: RegisterAll_services
        split: option.splits if_splits sum.splits prod.splits)
qed

end
