(* ===== verification/Server_Lifecycle.thy ===== *)
theory Server_Lifecycle
  imports Citius_Prelude
begin

text \<open>
  The end of the server binary: \<open>startServer\<close> and the exit of \<open>main\<close>
  (\<open>internal/cmd/server/main/main.go\<close>). \<open>startServer\<close> starts a goroutine that waits for the signal and
  then calls \<open>GracefulStop\<close>, while the calling goroutine listens and serves; the two run in small steps
  and in any order. The gRPC server is a parameter: \<open>grpc_lib\<close> has its two calls, whether \<open>Serve\<close> has
  returned, and its own steps (connections and requests).
\<close>

record 'g grpc_lib =
  gServe :: "'g \<Rightarrow> 'g"
  gGracefulStop :: "'g \<Rightarrow> 'g"
  gReturned :: "'g \<Rightarrow> string option option"
  gInternal :: "'g \<Rightarrow> 'g \<Rightarrow> bool"

text \<open>
  What grpc-go documents. \<open>GracefulStop\<close> stops the server from accepting connections and requests and
  waits for the pending ones; \<open>Serve\<close> returns a non-nil error unless the server was stopped, refuses a
  server that is stopped already, and returns once. \<open>serving\<close>, \<open>stopped\<close> and \<open>rpcs\<close> observe the server: \<open>Serve\<close> was
  called, a stop was called, and the number of pending requests. That handlers return is the eighth law.
\<close>

definition returns_once :: "'g grpc_lib \<Rightarrow> ('g \<Rightarrow> bool) \<Rightarrow> bool" where
  "returns_once G stopped \<longleftrightarrow>
     (\<forall>g g' r. gInternal G g g' \<and> gReturned G g = Some r \<longrightarrow> gReturned G g' = Some r) \<and>
     (\<forall>g g' e. gInternal G g g' \<and> stopped g \<and> gReturned G g' = Some (Some e) \<longrightarrow> gReturned G g = Some (Some e))"

definition grpc_laws :: "'g grpc_lib \<Rightarrow> ('g \<Rightarrow> bool) \<Rightarrow> ('g \<Rightarrow> bool) \<Rightarrow> ('g \<Rightarrow> nat) \<Rightarrow> bool" where
  "grpc_laws G serving stopped rpcs \<longleftrightarrow>
     (\<forall>g. serving (gServe G g) \<and> stopped (gServe G g) = stopped g \<and> rpcs (gServe G g) = rpcs g) \<and>
     (\<forall>g. serving (gGracefulStop G g) = serving g \<and> stopped (gGracefulStop G g) \<and> rpcs (gGracefulStop G g) = rpcs g) \<and>
     (\<forall>g. stopped g \<and> \<not> serving g \<longrightarrow> (\<exists>e. gReturned G (gServe G g) = Some (Some e))) \<and>
     (\<forall>g. gReturned G g = Some None \<longrightarrow> stopped g \<and> rpcs g = 0) \<and>
     (\<forall>g. stopped g \<and> serving g \<and> rpcs g = 0 \<longrightarrow> gReturned G g \<noteq> None) \<and>
     (\<forall>g g'. gInternal G g g' \<longrightarrow> serving g' = serving g \<and> stopped g' = stopped g) \<and>
     (\<forall>g g'. gInternal G g g' \<and> stopped g \<longrightarrow> rpcs g' < rpcs g) \<and>
     (\<forall>g. stopped g \<and> rpcs g > 0 \<longrightarrow> (\<exists>g'. gInternal G g g')) \<and>
     returns_once G stopped"

text \<open>Where the two goroutines are. \<open>SListen\<close> to \<open>SReturned\<close> are the points of \<open>startServer\<close>.\<close>

datatype start_pc = SListen | SServe | SServing | SReturned "error option"

record 'g lifecycle =
  lcPc :: start_pc
  lcWaiting :: bool
  lcSignal :: bool
  lcListener :: bool
  lcServer :: 'g

definition listenError :: "string \<Rightarrow> string \<Rightarrow> error" where
  "listenError addr e = ErrPlain (''failed to listen on '' @ addr @ '': '' @ e)"

definition serveError :: "string \<Rightarrow> error" where
  "serveError e = ErrPlain (''failed to serve gRPC: '' @ e)"

text \<open>
  \<open>listen\<close> is \<open>net.Listen\<close>, with its error. The deferred \<open>lis.Close()\<close> runs when \<open>startServer\<close> returns
  after listening.
\<close>

inductive startServer :: "'g grpc_lib \<Rightarrow> (string \<Rightarrow> string option) \<Rightarrow> string \<Rightarrow> 'g lifecycle \<Rightarrow> 'g lifecycle \<Rightarrow> bool"
  for G listen addr where
  signal: "lcSignal s = False \<Longrightarrow> startServer G listen addr s (s\<lparr>lcSignal := True\<rparr>)"
| stop: "lcWaiting s \<Longrightarrow> lcSignal s \<Longrightarrow>
    startServer G listen addr s (s\<lparr>lcWaiting := False, lcServer := gGracefulStop G (lcServer s)\<rparr>)"
| listen_fails: "lcPc s = SListen \<Longrightarrow> listen addr = Some e \<Longrightarrow>
    startServer G listen addr s (s\<lparr>lcPc := SReturned (Some (listenError addr e))\<rparr>)"
| listens: "lcPc s = SListen \<Longrightarrow> listen addr = None \<Longrightarrow>
    startServer G listen addr s (s\<lparr>lcPc := SServe, lcListener := True\<rparr>)"
| serve: "lcPc s = SServe \<Longrightarrow>
    startServer G listen addr s (s\<lparr>lcPc := SServing, lcServer := gServe G (lcServer s)\<rparr>)"
| serve_returns: "lcPc s = SServing \<Longrightarrow> gReturned G (lcServer s) = Some r \<Longrightarrow>
    startServer G listen addr s (s\<lparr>lcPc := SReturned (map_option serveError r), lcListener := False\<rparr>)"
| internal: "lcPc s = SServing \<Longrightarrow> gInternal G (lcServer s) g \<Longrightarrow>
    startServer G listen addr s (s\<lparr>lcServer := g\<rparr>)"

inductive_cases startServerE: "startServer G listen addr s s'"

definition started :: "bool \<Rightarrow> 'g \<Rightarrow> 'g lifecycle" where
  "started sig g = \<lparr>lcPc = SListen, lcWaiting = True, lcSignal = sig, lcListener = False, lcServer = g\<rparr>"

text \<open>
  \<open>exit_main\<close>: \<open>log.Fatalf\<close> ends the process with status 1 and skips the deferred close of the
  authentication client, which a normal return runs. \<open>close\<close> is that close, if there is a client.
\<close>

definition exit_main :: "('a \<Rightarrow> 'a) option \<Rightarrow> error option \<Rightarrow> 'a \<Rightarrow> nat \<times> 'a" where
  "exit_main close err w =
     (case err of Some e \<Rightarrow> (1, w) | None \<Rightarrow> (0, case close of None \<Rightarrow> w | Some f \<Rightarrow> f w))"

definition defaultCatalogPath :: "(string list \<Rightarrow> string) \<Rightarrow> (string \<Rightarrow> string) \<Rightarrow> string option \<Rightarrow> string" where
  "defaultCatalogPath join dir caller =
     (case caller of
        None \<Rightarrow> ''proto/standard_algorithms.json''
      | Some f \<Rightarrow> join [dir f, ''..'', ''..'', ''..'', ''proto'', ''standard_algorithms.json''])"

section \<open>The laws, one by one\<close>

lemma grpc_lawsD:
  assumes "grpc_laws G serving stopped rpcs"
  shows "serving (gServe G g)" "stopped (gServe G g) = stopped g" "rpcs (gServe G g) = rpcs g"
    "serving (gGracefulStop G g) = serving g" "stopped (gGracefulStop G g)" "rpcs (gGracefulStop G g) = rpcs g"
    "stopped g \<Longrightarrow> \<not> serving g \<Longrightarrow> \<exists>e. gReturned G (gServe G g) = Some (Some e)"
    "gReturned G g = Some None \<Longrightarrow> stopped g" "gReturned G g = Some None \<Longrightarrow> rpcs g = 0"
    "stopped g \<Longrightarrow> serving g \<Longrightarrow> rpcs g = 0 \<Longrightarrow> gReturned G g \<noteq> None"
    "gInternal G g g' \<Longrightarrow> serving g' = serving g" "gInternal G g g' \<Longrightarrow> stopped g' = stopped g"
    "gInternal G g g' \<Longrightarrow> stopped g \<Longrightarrow> rpcs g' < rpcs g"
    "stopped g \<Longrightarrow> rpcs g > 0 \<Longrightarrow> \<exists>g'. gInternal G g g'"
    "returns_once G stopped"
  using assms unfolding grpc_laws_def by (elim conjE; simp)+

lemma returns_onceD:
  assumes "returns_once G stopped"
  shows "gInternal G g g' \<Longrightarrow> gReturned G g = Some r \<Longrightarrow> gReturned G g' = Some r"
    and "gInternal G g g' \<Longrightarrow> stopped g \<Longrightarrow> gReturned G g' = Some (Some e) \<Longrightarrow> gReturned G g = Some (Some e)"
  using assms unfolding returns_once_def by blast+

section \<open>The invariant\<close>

definition lc_inv :: "('g \<Rightarrow> bool) \<Rightarrow> ('g \<Rightarrow> bool) \<Rightarrow> ('g \<Rightarrow> nat) \<Rightarrow> 'g lifecycle \<Rightarrow> bool" where
  "lc_inv serving stopped rpcs s \<longleftrightarrow>
     stopped (lcServer s) = (\<not> lcWaiting s) \<and> (\<not> lcWaiting s \<longrightarrow> lcSignal s) \<and>
     lcListener s = (lcPc s = SServe \<or> lcPc s = SServing) \<and>
     (lcPc s = SListen \<or> lcPc s = SServe \<longrightarrow> \<not> serving (lcServer s)) \<and>
     (lcPc s = SServing \<or> lcPc s = SReturned None \<longrightarrow> serving (lcServer s)) \<and>
     (lcPc s = SReturned None \<longrightarrow> \<not> lcWaiting s \<and> rpcs (lcServer s) = 0)"

lemma lc_inv_step:
  assumes "startServer G listen addr s s'" "grpc_laws G serving stopped rpcs" "lc_inv serving stopped rpcs s"
  shows "lc_inv serving stopped rpcs s'"
  using assms(1,3) grpc_lawsD(1-14) [OF assms(2)]
  by (cases rule: startServer.cases) (auto simp: lc_inv_def)

lemma lc_inv_reach:
  assumes "(startServer G listen addr)\<^sup>*\<^sup>* s t" "grpc_laws G serving stopped rpcs" "lc_inv serving stopped rpcs s"
  shows "lc_inv serving stopped rpcs t"
  using assms(1,3) by (induction rule: rtranclp_induct) (auto intro: lc_inv_step [OF _ assms(2)])

section \<open>After the stop\<close>

fun pcWork :: "start_pc \<Rightarrow> nat" where
  "pcWork SListen = 3" | "pcWork SServe = 2" | "pcWork SServing = 1" | "pcWork (SReturned _) = 0"

lemma stopped_step:
  assumes "startServer G listen addr s s'" "grpc_laws G serving stopped rpcs" "lc_inv serving stopped rpcs s" "\<not> lcWaiting s"
  shows "\<not> lcWaiting s'" "rpcs (lcServer s') + pcWork (lcPc s') < rpcs (lcServer s) + pcWork (lcPc s)"
  using assms(1,3,4) grpc_lawsD(1-14) [OF assms(2)] by (cases rule: startServer.cases; simp add: lc_inv_def)+

lemma stopped_run:
  assumes "(startServer G listen addr ^^ k) s t" "grpc_laws G serving stopped rpcs" "lc_inv serving stopped rpcs s" "\<not> lcWaiting s"
  shows "\<not> lcWaiting t \<and> k + rpcs (lcServer t) + pcWork (lcPc t) \<le> rpcs (lcServer s) + pcWork (lcPc s)"
  using assms(1)
proof (induction k arbitrary: t)
  case (Suc k)
  then obtain u where u: "(startServer G listen addr ^^ k) s u" "startServer G listen addr u t" by auto
  have "lc_inv serving stopped rpcs u" using lc_inv_reach [OF relpowp_imp_rtranclp [OF u(1)] assms(2,3)] .
  with stopped_step [OF u(2) assms(2)] Suc.IH [OF u(1)] show ?case by fastforce
qed (use assms(4) in simp)

lemma stopped_progress:
  assumes "grpc_laws G serving stopped rpcs" "lc_inv serving stopped rpcs s" "\<not> lcWaiting s" "\<forall>err. lcPc s \<noteq> SReturned err"
  shows "\<exists>s'. startServer G listen addr s s'"
proof (cases "lcPc s")
  case SListen
  then show ?thesis by (cases "listen addr") (blast intro: startServer.intros)+
next
  case SServe
  then show ?thesis by (blast intro: startServer.serve)
next
  case SServing
  note l = grpc_lawsD(10,14) [OF assms(1), of "lcServer s"]
  have "stopped (lcServer s)" "serving (lcServer s)" using assms(2,3) SServing by (auto simp: lc_inv_def)
  with l SServing show ?thesis by (cases "rpcs (lcServer s)") (blast intro: startServer.intros)+
qed (use assms(4) in simp)

text \<open>Whether \<open>Serve\<close> had begun, and not failed, when the stop was called decides what \<open>startServer\<close> returns.\<close>

definition clean :: "'g grpc_lib \<Rightarrow> 'g lifecycle \<Rightarrow> bool" where
  "clean G s \<longleftrightarrow> \<not> lcWaiting s \<and> (lcPc s = SServing \<and> (\<forall>e. gReturned G (lcServer s) \<noteq> Some (Some e)) \<or> lcPc s = SReturned None)"

definition doomed :: "'g grpc_lib \<Rightarrow> 'g lifecycle \<Rightarrow> bool" where
  "doomed G s \<longleftrightarrow> \<not> lcWaiting s \<and>
     (lcPc s = SListen \<or> lcPc s = SServe \<or> lcPc s = SServing \<and> (\<exists>e. gReturned G (lcServer s) = Some (Some e)) \<or>
      (\<exists>e. lcPc s = SReturned (Some e)))"

lemma clean_step:
  assumes "startServer G listen addr s s'" "grpc_laws G serving stopped rpcs" "lc_inv serving stopped rpcs s" "clean G s"
  shows "clean G s'"
  using assms(1,3,4) returns_onceD(2) [OF grpc_lawsD(15) [OF assms(2)]]
  by (cases rule: startServer.cases) (auto simp: lc_inv_def clean_def)

lemma doomed_step:
  assumes "startServer G listen addr s s'" "grpc_laws G serving stopped rpcs" "lc_inv serving stopped rpcs s" "doomed G s"
  shows "doomed G s'"
  using assms(1,3,4) grpc_lawsD(7) [OF assms(2)] returns_onceD(1) [OF grpc_lawsD(15) [OF assms(2)]]
  by (cases rule: startServer.cases) (auto simp: lc_inv_def doomed_def)

lemma outcome_run:
  assumes "(startServer G listen addr)\<^sup>*\<^sup>* s t" "grpc_laws G serving stopped rpcs" "lc_inv serving stopped rpcs s"
  shows "clean G s \<Longrightarrow> clean G t" "doomed G s \<Longrightarrow> doomed G t"
proof -
  from assms(1) have "(clean G s \<longrightarrow> clean G t) \<and> (doomed G s \<longrightarrow> doomed G t)"
  proof (induction rule: rtranclp_induct)
    case (step u v)
    have "lc_inv serving stopped rpcs u" using lc_inv_reach [OF step(1) assms(2,3)] .
    with step clean_step [OF step(2) assms(2)] doomed_step [OF step(2) assms(2)] show ?case by blast
  qed simp
  then show "clean G s \<Longrightarrow> clean G t" "doomed G s \<Longrightarrow> doomed G t" by blast+
qed

section \<open>An instance of the laws\<close>

record demo_server =
  dsServing :: bool
  dsStopped :: bool
  dsRpcs :: nat
  dsFailed :: "string option"

definition demo_grpc :: "demo_server grpc_lib" where
  "demo_grpc = \<lparr>
     gServe = (\<lambda>g. g\<lparr>dsServing := True,
       dsFailed := (if dsStopped g \<and> \<not> dsServing g then Some ''grpc: the server has been stopped'' else dsFailed g)\<rparr>),
     gGracefulStop = (\<lambda>g. g\<lparr>dsStopped := True\<rparr>),
     gReturned = (\<lambda>g. case dsFailed g of
         Some e \<Rightarrow> Some (Some e)
       | None \<Rightarrow> if dsServing g \<and> dsStopped g \<and> dsRpcs g = 0 then Some None else None),
     gInternal = (\<lambda>g g'. (dsRpcs g > 0 \<and> g' = g\<lparr>dsRpcs := dsRpcs g - 1\<rparr>) \<or>
       (dsServing g \<and> \<not> dsStopped g \<and> g' = g\<lparr>dsRpcs := dsRpcs g + 1\<rparr>))\<rparr>"

lemma demo_grpc_laws: "grpc_laws demo_grpc dsServing dsStopped dsRpcs"
  by (simp add: grpc_laws_def returns_once_def demo_grpc_def split: option.splits) (auto split: if_splits)

section \<open>Properties\<close>

text \<open>
  C17: However the signal, the listener and the requests interleave: when \<open>startServer\<close> returns the
  listener is closed, and it returns nil only after the signal and with no request pending. Once the
  stop has been called (in a state \<open>s\<close>), every run is bounded and can go on until \<open>startServer\<close> has
  returned, with nil when the server was serving and with an error, hence with exit status 1 and the
  authentication client left open, when the stop came before \<open>Serve\<close>.
\<close>

theorem shutdown_graceful:
  assumes "grpc_laws G serving stopped rpcs" "\<not> serving g" "\<not> stopped g"
    and "(startServer G listen addr)\<^sup>*\<^sup>* (started sig g) s" "(startServer G listen addr ^^ k) s t"
  shows "(\<forall>err. lcPc t = SReturned err \<longrightarrow> \<not> lcListener t) \<and>
    (lcPc t = SReturned None \<longrightarrow> lcSignal t \<and> rpcs (lcServer t) = 0) \<and>
    (\<not> lcWaiting s \<longrightarrow>
       k \<le> rpcs (lcServer s) + 3 \<and>
       ((\<exists>err. lcPc t = SReturned err) \<or> (\<exists>t'. startServer G listen addr t t')) \<and>
       (\<forall>err. lcPc t = SReturned err \<longrightarrow>
          (lcPc s = SServing \<and> (\<forall>e. gReturned G (lcServer s) \<noteq> Some (Some e)) \<longrightarrow> err = None) \<and>
          (lcPc s = SListen \<or> lcPc s = SServe \<longrightarrow> err \<noteq> None \<and> exit_main close err w = (1, w))))"
proof -
  have "lc_inv serving stopped rpcs (started sig g)" using assms(2,3) by (simp add: lc_inv_def started_def)
  from lc_inv_reach [OF assms(4,1) this] have s: "lc_inv serving stopped rpcs s" .
  note r = relpowp_imp_rtranclp [OF assms(5)]
  have t: "lc_inv serving stopped rpcs t" by (rule lc_inv_reach [OF r assms(1) s])
  have "pcWork (lcPc s) \<le> 3" by (cases "lcPc s") auto
  with stopped_run [OF assms(5,1) s] have bound: "\<not> lcWaiting s \<Longrightarrow> \<not> lcWaiting t \<and> k \<le> rpcs (lcServer s) + 3" by simp
  have clean: "lcPc s = SServing \<and> (\<forall>e. gReturned G (lcServer s) \<noteq> Some (Some e)) \<longrightarrow> err = None"
    if "\<not> lcWaiting s" "lcPc t = SReturned err" for err
    using outcome_run(1) [OF r assms(1) s] that by (auto simp: clean_def)
  have doom: "lcPc s = SListen \<or> lcPc s = SServe \<longrightarrow> err \<noteq> None \<and> exit_main close err w = (1, w)"
    if "\<not> lcWaiting s" "lcPc t = SReturned err" for err
    using outcome_run(2) [OF r assms(1) s] that by (auto simp: doomed_def exit_main_def)
  have "(\<exists>err. lcPc t = SReturned err) \<or> (\<exists>t'. startServer G listen addr t t')" if "\<not> lcWaiting s"
    using stopped_progress [OF assms(1) t] bound [OF that] by blast
  with t bound clean doom show ?thesis by (simp add: lc_inv_def)
qed

text \<open>A request is pending when the signal arrives; it is served, and the server ends cleanly.\<close>

theorem shutdown_graceful_witness:
  "\<exists>s t. (startServer demo_grpc (\<lambda>_. None) '':50051'')\<^sup>*\<^sup>*
       (started True \<lparr>dsServing = False, dsStopped = False, dsRpcs = 0, dsFailed = None\<rparr>) s \<and>
     dsRpcs (lcServer s) = 1 \<and> (startServer demo_grpc (\<lambda>_. None) '':50051'' ^^ 2) s t \<and>
     lcPc t = SReturned None \<and> \<not> lcListener t"
proof -
  let ?R = "startServer demo_grpc (\<lambda>_. None) '':50051''" and ?g = "\<lparr>dsServing = False, dsStopped = False, dsRpcs = 0, dsFailed = None\<rparr>"
  define a where "a = (started True ?g)\<lparr>lcPc := SServe, lcListener := True\<rparr>"
  define b where "b = a\<lparr>lcPc := SServing, lcServer := gServe demo_grpc (lcServer a)\<rparr>"
  define c where "c = b\<lparr>lcServer := (lcServer b)\<lparr>dsRpcs := 1\<rparr>\<rparr>"
  define s where "s = c\<lparr>lcWaiting := False, lcServer := gGracefulStop demo_grpc (lcServer c)\<rparr>"
  define u where "u = s\<lparr>lcServer := (lcServer s)\<lparr>dsRpcs := 0\<rparr>\<rparr>"
  define t where "t = u\<lparr>lcPc := SReturned (map_option serveError None), lcListener := False\<rparr>"
  note defs = a_def b_def c_def s_def u_def t_def started_def demo_grpc_def
  have 1: "?R (started True ?g) a" unfolding a_def by (rule startServer.listens) (simp_all add: started_def)
  have 2: "?R a b" unfolding b_def by (rule startServer.serve) (simp add: a_def)
  have 3: "?R b c" unfolding c_def by (rule startServer.internal) (simp_all add: defs)
  have 4: "?R c s" unfolding s_def by (rule startServer.stop) (simp_all add: defs)
  have s: "?R\<^sup>*\<^sup>* (started True ?g) s"
    by (rule 1 2 3 r_into_rtranclp [of ?R, OF 4] converse_rtranclp_into_rtranclp [of ?R])+
  have "?R s u" unfolding u_def by (rule startServer.internal) (simp_all add: defs)
  moreover have "?R u t" unfolding t_def by (rule startServer.serve_returns) (simp_all add: defs)
  ultimately have t: "(?R ^^ 2) s t" by (auto simp: numeral_2_eq_2)
  from shutdown_graceful [where close = None and w = "()", OF demo_grpc_laws _ _ s t] have "lcPc t = SReturned None \<longrightarrow> \<not> lcListener t" by simp
  moreover have "lcPc t = SReturned None" "dsRpcs (lcServer s) = 1" by (simp_all add: defs)
  ultimately show ?thesis using s t by blast
qed

end
