(* ===== verification/Vault_Service.thy ===== *)
theory Vault_Service
  imports Citius_Prelude
begin

text \<open>
  The facade of the Vault plugin (\<open>internal/app/vault\<close>): a \<open>Service\<close> holds one factory per subsystem
  and the two shared registries; \<open>ForStorage\<close> builds the subsystems of one request over that request's
  storage. The subsystems belong to citius-core and are type parameters. A nil option is skipped.
\<close>

record ('s, 'k, 'c, 'p, 'i, 't, 'v) Service =
  svcKeyOrchestratorFn :: "('s \<Rightarrow> 'k result) option"
  svcCryptoOrchestratorFn :: "('s \<Rightarrow> 'c result) option"
  svcPolicyEngineFn :: "('s \<Rightarrow> 'p result) option"
  svcProviderInstanceFn :: "('s \<Rightarrow> 'i result) option"
  svcTemplates :: "'t option"
  svcProviders :: "'v option"

datatype ('s, 'k, 'c, 'p, 'i, 't, 'v) service_option =
    WithKeyOrchestratorFactory "('s \<Rightarrow> 'k result) option"
  | WithCryptoOrchestratorFactory "('s \<Rightarrow> 'c result) option"
  | WithPolicyEngineFactory "('s \<Rightarrow> 'p result) option"
  | WithProviderInstanceManagerFactory "('s \<Rightarrow> 'i result) option"
  | WithTemplateRegistry "'t option"
  | WithProviderRegistry "'v option"

fun applyServiceOption ::
  "('s, 'k, 'c, 'p, 'i, 't, 'v) Service \<Rightarrow> ('s, 'k, 'c, 'p, 'i, 't, 'v) service_option option
     \<Rightarrow> ('s, 'k, 'c, 'p, 'i, 't, 'v) Service" where
  "applyServiceOption s None = s"
| "applyServiceOption s (Some (WithKeyOrchestratorFactory f)) = s\<lparr>svcKeyOrchestratorFn := f\<rparr>"
| "applyServiceOption s (Some (WithCryptoOrchestratorFactory f)) = s\<lparr>svcCryptoOrchestratorFn := f\<rparr>"
| "applyServiceOption s (Some (WithPolicyEngineFactory f)) = s\<lparr>svcPolicyEngineFn := f\<rparr>"
| "applyServiceOption s (Some (WithProviderInstanceManagerFactory f)) = s\<lparr>svcProviderInstanceFn := f\<rparr>"
| "applyServiceOption s (Some (WithTemplateRegistry r)) = s\<lparr>svcTemplates := r\<rparr>"
| "applyServiceOption s (Some (WithProviderRegistry r)) = s\<lparr>svcProviders := r\<rparr>"

definition opNew :: string where "opNew = ''app.(Service).NewService''"
definition opForStorage :: string where "opForStorage = ''app.(Service).ForStorage''"

definition validate_service :: "('s, 'k, 'c, 'p, 'i, 't, 'v) Service \<Rightarrow> error option" where
  "validate_service s =
     (if svcKeyOrchestratorFn s = None then Some (ErrNew opNew CodeInvalidArgument ''KeyOrchestratorFactory is required'')
      else if svcCryptoOrchestratorFn s = None then Some (ErrNew opNew CodeInvalidArgument ''CryptoOrchestratorFactory is required'')
      else if svcPolicyEngineFn s = None then Some (ErrNew opNew CodeInvalidArgument ''PolicyEngineFactory is required'')
      else if svcProviderInstanceFn s = None then Some (ErrNew opNew CodeInvalidArgument ''ProviderInstanceManagerFactory is required'')
      else if svcTemplates s = None then Some (ErrNew opNew CodeInvalidArgument ''TemplateRegistry is required'')
      else if svcProviders s = None then Some (ErrNew opNew CodeInvalidArgument ''ProviderRegistry is required'')
      else None)"

definition emptyService :: "('s, 'k, 'c, 'p, 'i, 't, 'v) Service" where
  "emptyService = \<lparr>svcKeyOrchestratorFn = None, svcCryptoOrchestratorFn = None, svcPolicyEngineFn = None,
     svcProviderInstanceFn = None, svcTemplates = None, svcProviders = None\<rparr>"

definition NewService ::
  "('s, 'k, 'c, 'p, 'i, 't, 'v) service_option option list \<Rightarrow> ('s, 'k, 'c, 'p, 'i, 't, 'v) Service result" where
  "NewService opts =
     (let s = foldl applyServiceOption emptyService opts in
      case validate_service s of Some e \<Rightarrow> Inl e | None \<Rightarrow> Inr s)"

record ('k, 'c, 'p, 'i, 't, 'v) RequestScope =
  rsKeys :: 'k
  rsCrypto :: 'c
  rsPolicy :: 'p
  rsProviderInstances :: 'i
  rsTemplates :: "'t option"
  rsProviders :: "'v option"

text \<open>Calling a nil factory panics: the outer \<^const>\<open>None\<close>.\<close>

definition callFactory :: "('s \<Rightarrow> 'a result) option \<Rightarrow> 's \<Rightarrow> ('a \<Rightarrow> 'b result option) \<Rightarrow> 'b result option" where
  "callFactory f store0 k =
     (case f of
        None \<Rightarrow> None
      | Some g \<Rightarrow> (case g store0 of Inl e \<Rightarrow> Some (Inl (ErrWrap opForStorage None e)) | Inr x \<Rightarrow> k x))"

definition ForStorage ::
  "('s, 'k, 'c, 'p, 'i, 't, 'v) Service \<Rightarrow> 's \<Rightarrow> ('k, 'c, 'p, 'i, 't, 'v) RequestScope result option" where
  "ForStorage s store0 =
     callFactory (svcKeyOrchestratorFn s) store0 (\<lambda>keys.
     callFactory (svcCryptoOrchestratorFn s) store0 (\<lambda>crypto.
     callFactory (svcPolicyEngineFn s) store0 (\<lambda>pol.
     callFactory (svcProviderInstanceFn s) store0 (\<lambda>pi.
       Some (Inr \<lparr>rsKeys = keys, rsCrypto = crypto, rsPolicy = pol, rsProviderInstances = pi,
                  rsTemplates = svcTemplates s, rsProviders = svcProviders s\<rparr>)))))"

section \<open>What a built service guarantees\<close>

lemma validate_service_None:
  "(validate_service s = None) =
   (svcKeyOrchestratorFn s \<noteq> None \<and> svcCryptoOrchestratorFn s \<noteq> None \<and> svcPolicyEngineFn s \<noteq> None \<and>
    svcProviderInstanceFn s \<noteq> None \<and> svcTemplates s \<noteq> None \<and> svcProviders s \<noteq> None)"
  by (simp add: validate_service_def)

lemma callFactory_ok:
  assumes "f \<noteq> None" and "\<And>x. the f store0 = Inr x \<Longrightarrow> k x \<noteq> None"
  shows "callFactory f store0 k \<noteq> None"
  using assms by (cases f) (auto simp: callFactory_def split: sum.splits)

lemma callFactory_Inr:
  "callFactory f store0 k = Some (Inr y) \<longleftrightarrow> (\<exists>g x. f = Some g \<and> g store0 = Inr x \<and> k x = Some (Inr y))"
  by (auto simp: callFactory_def split: option.splits sum.splits)

text \<open>
  A service that \<open>NewService\<close> returns never panics, and every subsystem of a request is built over
  that request's storage, with the registries of the service.
\<close>

theorem ForStorage_request_scoped:
  assumes "NewService opts = Inr s"
  shows "ForStorage s store0 \<noteq> None \<and>
    (\<forall>scope. ForStorage s store0 = Some (Inr scope) \<longrightarrow>
       the (svcKeyOrchestratorFn s) store0 = Inr (rsKeys scope) \<and>
       the (svcCryptoOrchestratorFn s) store0 = Inr (rsCrypto scope) \<and>
       the (svcPolicyEngineFn s) store0 = Inr (rsPolicy scope) \<and>
       the (svcProviderInstanceFn s) store0 = Inr (rsProviderInstances scope) \<and>
       rsTemplates scope = svcTemplates s \<and> rsTemplates scope \<noteq> None \<and>
       rsProviders scope = svcProviders s \<and> rsProviders scope \<noteq> None)"
proof -
  have s: "validate_service s = None" using assms by (auto simp: NewService_def Let_def split: option.splits)
  note fields = s [unfolded validate_service_None]
  have "ForStorage s store0 \<noteq> None"
    unfolding ForStorage_def using fields by (intro callFactory_ok) auto
  then show ?thesis using fields by (auto simp: ForStorage_def callFactory_Inr)
qed

section \<open>The bound factories\<close>

text \<open>
  \<open>vault_wiring.go\<close>: builders that take the storage as an argument (besides the context, which is left
  out), and the factories they are to be bound to. \<open>Bind\<close> panics, as its body does.
\<close>

record ('s, 'k, 'c, 'p, 'i, 't, 'v) VaultProviders =
  vpKeyFn :: "('s \<Rightarrow> 'k result) option"
  vpCryptoFn :: "('s \<Rightarrow> 'c result) option"
  vpPolicyFn :: "('s \<Rightarrow> 'p result) option"
  vpInstanceFn :: "('s \<Rightarrow> 'i result) option"
  vpTemplateFn :: "('s \<Rightarrow> 't result) option"
  vpCatalogFn :: "('s \<Rightarrow> 'v result) option"

record ('k, 'c, 'p, 'i, 't, 'v) BoundFactories =
  bfKeys :: "(unit \<Rightarrow> 'k result) option"
  bfCrypto :: "(unit \<Rightarrow> 'c result) option"
  bfPolicy :: "(unit \<Rightarrow> 'p result) option"
  bfInstances :: "(unit \<Rightarrow> 'i result) option"
  bfTemplates :: "(unit \<Rightarrow> 't result) option"
  bfCatalog :: "(unit \<Rightarrow> 'v result) option"

definition Bind ::
  "('s, 'k, 'c, 'p, 'i, 't, 'v) VaultProviders \<Rightarrow> 's \<Rightarrow> ('k, 'c, 'p, 'i, 't, 'v) BoundFactories option" where
  "Bind p store0 = None"

end
