(* ===== verification/Loopback_Provider.thy ===== *)
theory Loopback_Provider
  imports Provider_Messages
begin

text \<open>
  The loopback provider for tests (\<open>internal/provider/loopback/provider.go\<close>): no cryptography, every
  operation echoes its input, so that a whole key lifecycle can be exercised deterministically.
\<close>

definition asBytes :: "string \<Rightarrow> bytes" where
  "asBytes s = map (\<lambda>c. word_of_nat (of_char c)) s"

definition Name_lb :: string where "Name_lb = ''loopback''"
definition Type_lb :: string where "Type_lb = ''loopback''"

definition ProviderInfo_lb :: provider_info where
  "ProviderInfo_lb =
     \<lparr>piName = ''Loopback (testing only)'', piVersion = [], piType = Type_lb,
      piDescription = ''Deterministic in-process test provider. It performs no real cryptography; never use it in production.'',
      piProviderType = PROVIDER_TYPE_SOFTWARE, piDefault = None\<rparr>"

definition SupportedAlgorithms_lb :: "string list" where
  "SupportedAlgorithms_lb = [''ecdsa-p256-sha256-der'', ''ml-dsa-65'']"

text \<open>The encodings of a generated key are left unspecified.\<close>

definition GenerateKey_lb :: "algorithm_details option \<Rightarrow> generated_key result" where
  "GenerateKey_lb _ = Inr \<lparr>gkPublicKey = asBytes ''LOOPBACK_PUB'', gkKeyMaterial = asBytes ''LOOPBACK_PRIV'',
     gkOutput = NoOutput ''raw'', gkKeyEncoding = PRIV_UNSPECIFIED, gkPublicEncoding = PUB_UNSPECIFIED\<rparr>"

definition DestroyKey_lb :: "unit result" where
  "DestroyKey_lb = Inr ()"

definition ExportPublicKey_lb :: "(bytes \<times> provider_output) result" where
  "ExportPublicKey_lb = Inr (asBytes ''LOOPBACK_PUB'', NoOutput ''raw'')"

definition Sign_lb :: "sign_request_p \<Rightarrow> (bytes \<times> provider_output) result" where
  "Sign_lb req = Inr (sgInput req, NoOutput ''raw'')"

definition Verify_lb :: "verify_request_p \<Rightarrow> (bool \<times> provider_output) result" where
  "Verify_lb req = Inr (vfSignature req = vfInput req, NoOutputUnencoded)"

definition SignDigest_lb :: "sign_digest_request_p \<Rightarrow> (bytes \<times> provider_output) result" where
  "SignDigest_lb req = Inr (sdDigest req, NoOutput ''raw'')"

definition VerifyDigest_lb :: "verify_digest_request_p \<Rightarrow> (bool \<times> provider_output) result" where
  "VerifyDigest_lb req = Inr (vdSignature req = vdDigest req, NoOutputUnencoded)"

definition Encrypt_lb :: "encrypt_request_p \<Rightarrow> (bytes \<times> provider_output) result" where
  "Encrypt_lb req = Inr (enPlaintext req, NoOutput ''raw'')"

definition Decrypt_lb :: "decrypt_request_p \<Rightarrow> (bytes \<times> provider_output) result" where
  "Decrypt_lb req = Inr (deCiphertext req, NoOutputUnencoded)"

lemmas loopback_defs = Sign_lb_def Verify_lb_def SignDigest_lb_def VerifyDigest_lb_def Encrypt_lb_def Decrypt_lb_def

text \<open>
  The loopback invariant of the package comment: a signature verifies for exactly the input it was
  made from, and decryption returns what was encrypted.
\<close>

lemma loopback_invariant:
  "Sign_lb s = Inr (sig, out) \<Longrightarrow> Verify_lb (v\<lparr>vfSignature := sig\<rparr>) = Inr (vfInput v = sgInput s, NoOutputUnencoded)"
  "SignDigest_lb sd = Inr (dsig, dout) \<Longrightarrow>
     VerifyDigest_lb (vd\<lparr>vdSignature := dsig\<rparr>) = Inr (vdDigest vd = sdDigest sd, NoOutputUnencoded)"
  "Encrypt_lb e = Inr (ct, eout) \<Longrightarrow> Decrypt_lb (d\<lparr>deCiphertext := ct\<rparr>) = Inr (enPlaintext e, NoOutputUnencoded)"
  by (auto simp: loopback_defs)

end
