(* ===== verification/Bootstrap_Login.thy ===== *)
theory Bootstrap_Login
  imports Bootstrap_Setup
begin

text \<open>
  The login helper (\<open>bootstrap/zitadel/interactive-login/main.go\<close>): it obtains a short-lived access
  token for one of the demo users through the authorization-code flow with PKCE and writes it to a
  file. \<open>'w\<close> is the world behind the HTTP client and the random source; \<open>login_env\<close> holds what the
  source uses of \<open>net/url\<close>, \<open>net/http\<close>, \<open>encoding/json\<close>, \<open>crypto/rand\<close> and SHA-256. An error is its
  text. The requests the browser sends to the callback before the deadline are an argument; the file
  system is that of the bootstrap CLI.
\<close>

record login_url =
  luScheme :: string
  luHost :: string
  luPath :: string
  luUser :: bool
  luRawQuery :: string
  luFragment :: string

record demoUserConfig =
  duUserID :: string
  duLoginName :: string

record authConfig =
  acIssuer :: string
  acAudience :: string
  acClientID :: string
  acRedirectURIs :: "string list"
  acDemoUsers :: "string \<rightharpoonup> demoUserConfig"

record discoveryDocument =
  ddIssuer :: string
  ddAuthorizationEndpoint :: string
  ddTokenEndpoint :: string
  ddUserinfoEndpoint :: string

record tokenResponse =
  trAccessToken :: string
  trTokenType :: string

record options =
  oConfigPath :: string
  oPersona :: string
  oTokenPath :: string
  oCAPath :: string
  oTimeout :: int

record http_request =
  hqMethod :: string
  hqURL :: string
  hqHeaders :: "(string \<times> string) list"
  hqBody :: string

record http_response =
  hsStatusCode :: int
  hsStatus :: string
  hsBody :: string

type_synonym query = "(string \<times> string) list"

record 'w login_env =
  lnParse :: "string \<Rightarrow> login_url checked"
  lnURLString :: "login_url \<Rightarrow> string"
  lnHostname :: "string \<Rightarrow> string"
  lnLoopbackIP :: "string \<Rightarrow> bool"
  lnEqualFold :: "string \<Rightarrow> string \<Rightarrow> bool"
  lnQuote :: "string \<Rightarrow> string"
  lnParseQuery :: "string \<Rightarrow> query"
  lnEncode :: "query \<Rightarrow> string"
  lnNewRequest :: "string \<Rightarrow> string \<Rightarrow> string option"
  lnDo :: "http_request \<Rightarrow> 'w \<Rightarrow> http_response checked \<times> 'w"
  lnListen :: "string \<Rightarrow> string option"
  lnRandom :: "nat \<Rightarrow> 'w \<Rightarrow> string checked \<times> 'w"
  lnBase64URL :: "string \<Rightarrow> string"
  lnSHA256 :: "string \<Rightarrow> string"
  lnDecodeConfig :: "string \<Rightarrow> authConfig checked"
  lnDecodeDiscovery :: "string \<Rightarrow> discoveryDocument checked"
  lnDecodeToken :: "string \<Rightarrow> tokenResponse checked"
  lnDecodeUserinfo :: "string \<Rightarrow> string checked"
  lnCAPool :: "string \<Rightarrow> string option"
  lnParseFlags :: "string list \<Rightarrow> options checked"
  lnDir :: "string \<Rightarrow> string"
  lnMkdirAll :: "string \<Rightarrow> string option"

section \<open>Options and configuration\<close>

definition maxResponseBytes :: nat where "maxResponseBytes = 2 ^ 20"

definition parseOptions :: "'w login_env \<Rightarrow> string list \<Rightarrow> options checked" where
  "parseOptions N args =
     (case lnParseFlags N args of
        Inl er \<Rightarrow> Inl er
      | Inr opts \<Rightarrow>
          if oPersona opts = [] then Inl ''-persona is required''
          else if oTokenPath opts = [] then Inl ''-output is required''
          else if oTimeout opts \<le> 0 then Inl ''-timeout must be positive''
          else Inr opts)"

text \<open>\<open>json.NewDecoder(io.LimitReader(r, maxResponseBytes)).Decode\<close>: the decoder sees a prefix of the input.\<close>

definition decodeJSON :: "(string \<Rightarrow> 'a checked) \<Rightarrow> string \<Rightarrow> 'a checked" where
  "decodeJSON decode body = decode (take maxResponseBytes body)"

definition loadAuthConfig ::
  "'w login_env \<Rightarrow> files \<Rightarrow> string \<Rightarrow> string \<Rightarrow> (authConfig \<times> demoUserConfig) checked" where
  "loadAuthConfig N fs path persona =
     (case fs path of
        None \<Rightarrow> Inl (''open auth config '' @ path @ '': no such file'')
      | Some content \<Rightarrow>
      case decodeJSON (lnDecodeConfig N) content of
        Inl er \<Rightarrow> Inl (''decode auth config '' @ path @ '': '' @ er)
      | Inr config \<Rightarrow>
      case acDemoUsers config persona of
        None \<Rightarrow> Inl (''persona '' @ lnQuote N persona @ '' is not declared in '' @ path)
      | Some user \<Rightarrow>
          if acIssuer config = [] \<or> acAudience config = [] \<or> acClientID config = [] \<or> duUserID user = [] \<or> duLoginName user = []
          then Inl ''auth config is missing issuer, audience, client, or user identity''
          else Inr (config, user))"

text \<open>Only the CA bundle can make the client fail.\<close>

definition newHTTPClient :: "'w login_env \<Rightarrow> string \<Rightarrow> unit checked" where
  "newHTTPClient N caPath =
     (if caPath = [] then Inr () else case lnCAPool N caPath of Some er \<Rightarrow> Inl er | None \<Rightarrow> Inr ())"

section \<open>Endpoints\<close>

definition isLoopbackHost_login :: "'w login_env \<Rightarrow> string \<Rightarrow> bool" where
  "isLoopbackHost_login N host = (lnEqualFold N host ''localhost'' \<or> lnLoopbackIP N host)"

definition secureEndpoint :: "'w login_env \<Rightarrow> string \<Rightarrow> login_url checked" where
  "secureEndpoint N raw =
     (case lnParse N raw of
        Inl _ \<Rightarrow> Inl (''unsafe URL '' @ lnQuote N raw)
      | Inr parsed \<Rightarrow>
          if luHost parsed = [] \<or> luUser parsed \<or> luRawQuery parsed \<noteq> [] \<or> luFragment parsed \<noteq> []
          then Inl (''unsafe URL '' @ lnQuote N raw)
          else if luScheme parsed = ''https'' then Inr parsed
          else if luScheme parsed = ''http'' \<and> isLoopbackHost_login N (lnHostname N (luHost parsed)) then Inr parsed
          else Inl (''URL '' @ lnQuote N raw @ '' must use HTTPS (HTTP is allowed only on loopback)''))"

text \<open>The loop of \<open>discover\<close>; the source ranges over a map, so which endpoint is reported first is not fixed.\<close>

fun checkEndpoints :: "'w login_env \<Rightarrow> login_url \<Rightarrow> (string \<times> string) list \<Rightarrow> unit checked" where
  "checkEndpoints N issuerURL [] = Inr ()"
| "checkEndpoints N issuerURL ((name, endpoint) # others) =
     (case secureEndpoint N endpoint of
        Inl er \<Rightarrow> Inl (''invalid '' @ name @ '': '' @ er)
      | Inr parsed \<Rightarrow>
          if luScheme parsed \<noteq> luScheme issuerURL \<or> luHost parsed \<noteq> luHost issuerURL
          then Inl (name @ '' must use configured issuer origin'')
          else checkEndpoints N issuerURL others)"

definition discover :: "'w login_env \<Rightarrow> string \<Rightarrow> 'w \<Rightarrow> discoveryDocument checked \<times> 'w" where
  "discover N issuer0 w =
     (let issuer = trimRightSlash issuer0; url = issuer @ ''/.well-known/openid-configuration'' in
      case secureEndpoint N issuer of
        Inl er \<Rightarrow> (Inl (''invalid issuer: '' @ er), w)
      | Inr issuerURL \<Rightarrow>
      case lnNewRequest N ''GET'' url of
        Some er \<Rightarrow> (Inl (''create discovery request: '' @ er), w)
      | None \<Rightarrow>
      case lnDo N \<lparr>hqMethod = ''GET'', hqURL = url, hqHeaders = [], hqBody = []\<rparr> w of
        (Inl er, w1) \<Rightarrow> (Inl (''OIDC discovery: '' @ er), w1)
      | (Inr response, w1) \<Rightarrow>
        (if hsStatusCode response \<noteq> 200 then Inl (''OIDC discovery returned '' @ hsStatus response)
         else case decodeJSON (lnDecodeDiscovery N) (hsBody response) of
           Inl er \<Rightarrow> Inl (''decode OIDC discovery: '' @ er)
         | Inr document \<Rightarrow>
             if trimRightSlash (ddIssuer document) \<noteq> issuer then
               Inl (''discovery issuer '' @ lnQuote N (ddIssuer document) @ '' does not match configured issuer '' @ lnQuote N issuer)
             else case checkEndpoints N issuerURL
                 [(''authorization_endpoint'', ddAuthorizationEndpoint document), (''token_endpoint'', ddTokenEndpoint document),
                  (''userinfo_endpoint'', ddUserinfoEndpoint document)] of
               Inl er \<Rightarrow> Inl er
             | Inr _ \<Rightarrow> Inr document, w1))"

section \<open>The callback\<close>

definition listenForCallback :: "'w login_env \<Rightarrow> string list \<Rightarrow> string checked" where
  "listenForCallback N redirects =
     (case redirects of
        [uri] \<Rightarrow>
          (let bad = Inl (''redirect URI '' @ lnQuote N uri @ '' must be an absolute loopback HTTP URL without query or fragment'') in
           case lnParse N uri of
             Inl _ \<Rightarrow> bad
           | Inr redirect \<Rightarrow>
               if luScheme redirect \<noteq> ''http'' \<or> luHost redirect = [] \<or> luUser redirect \<or> luRawQuery redirect \<noteq> [] \<or>
                  luFragment redirect \<noteq> [] \<or> \<not> isLoopbackHost_login N (lnHostname N (luHost redirect))
               then bad
               else case lnListen N (luHost redirect) of
                 Some er \<Rightarrow> Inl (''listen on redirect URI '' @ uri @ '': '' @ er)
               | None \<Rightarrow> Inr uri)
      | _ \<Rightarrow> Inl (''interactive verifier requires exactly one redirect URI, got '' @ show_nat (length redirects)))"

text \<open>\<open>url.Values.Get\<close>: the first value of a key, or the empty string.\<close>

definition valuesGet :: "query \<Rightarrow> string \<Rightarrow> string" where
  "valuesGet values k = (case map_of values k of None \<Rightarrow> [] | Some v \<Rightarrow> v)"

type_synonym callbackResult = "string checked"

definition validateCallback :: "query \<Rightarrow> string \<Rightarrow> callbackResult" where
  "validateCallback values expectedState =
     (if valuesGet values ''error'' \<noteq> [] then Inl (''authorization failed: '' @ valuesGet values ''error'')
      else if valuesGet values ''state'' = [] \<or> valuesGet values ''state'' \<noteq> expectedState
      then Inl ''authorization callback state mismatch''
      else let code = valuesGet values ''code'' in
        if code = [] then Inl ''authorization callback has no code'' else Inr code)"

record callback_request =
  cqMethod :: string
  cqPath :: string
  cqQuery :: query

text \<open>
  The handler of \<open>callbackServer\<close>: the status it answers with, and the channel of capacity one, which
  keeps the first result that is sent.
\<close>

definition callbackHandler ::
  "string \<Rightarrow> string \<Rightarrow> callback_request \<Rightarrow> callbackResult option \<Rightarrow> int \<times> callbackResult option" where
  "callbackHandler path expectedState request chan =
     (if cqMethod request \<noteq> ''GET'' \<or> cqPath request \<noteq> path then (404, chan)
      else
        let callback = validateCallback (cqQuery request) expectedState in
        (case callback of Inl _ \<Rightarrow> 400 | Inr _ \<Rightarrow> 200,
         case chan of None \<Rightarrow> Some callback | Some c \<Rightarrow> Some c))"

fun callbackServer ::
  "string \<Rightarrow> string \<Rightarrow> callback_request list \<Rightarrow> callbackResult option \<Rightarrow> callbackResult option" where
  "callbackServer path expectedState [] chan = chan"
| "callbackServer path expectedState (request # requests) chan =
     callbackServer path expectedState requests (snd (callbackHandler path expectedState request chan))"

section \<open>The flow\<close>

definition randomBase64URL :: "'w login_env \<Rightarrow> nat \<Rightarrow> 'w \<Rightarrow> string checked \<times> 'w" where
  "randomBase64URL N n w =
     (case lnRandom N n w of (Inl er, w1) \<Rightarrow> (Inl er, w1) | (Inr value, w1) \<Rightarrow> (Inr (lnBase64URL N value), w1))"

definition pkceChallenge :: "'w login_env \<Rightarrow> string \<Rightarrow> string" where
  "pkceChallenge N verifier = lnBase64URL N (lnSHA256 N verifier)"

text \<open>\<open>url.Values.Set\<close> replaces the values of a key.\<close>

definition valuesSet :: "string \<Rightarrow> string \<Rightarrow> query \<Rightarrow> query" where
  "valuesSet k v values = filter (\<lambda>(k', _). k' \<noteq> k) values @ [(k, v)]"

definition authorizationURL ::
  "'w login_env \<Rightarrow> string \<Rightarrow> authConfig \<Rightarrow> string \<Rightarrow> string \<Rightarrow> string \<Rightarrow> string checked" where
  "authorizationURL N endpoint config redirectURI state verifier =
     (case lnParse N endpoint of
        Inl er \<Rightarrow> Inl (''parse authorization endpoint: '' @ er)
      | Inr parsed \<Rightarrow>
          let q = lnParseQuery N (luRawQuery parsed);
              scopes = ''openid profile email '' @ acAudience config;
              q' = valuesSet ''prompt'' ''login'' (valuesSet ''code_challenge_method'' ''S256''
                    (valuesSet ''code_challenge'' (pkceChallenge N verifier) (valuesSet ''state'' state
                    (valuesSet ''scope'' scopes (valuesSet ''response_type'' ''code''
                    (valuesSet ''redirect_uri'' redirectURI (valuesSet ''client_id'' (acClientID config) q)))))))
          in Inr (lnURLString N (parsed\<lparr>luRawQuery := lnEncode N q'\<rparr>)))"

definition tokenRequest :: "'w login_env \<Rightarrow> discoveryDocument \<Rightarrow> authConfig \<Rightarrow> string \<Rightarrow> string \<Rightarrow> string \<Rightarrow> http_request" where
  "tokenRequest N discovery config redirectURI verifier code =
     \<lparr>hqMethod = ''POST'', hqURL = ddTokenEndpoint discovery,
      hqHeaders = [(''Content-Type'', ''application/x-www-form-urlencoded'')],
      hqBody = lnEncode N [(''grant_type'', ''authorization_code''), (''client_id'', acClientID config),
        (''redirect_uri'', redirectURI), (''code'', code), (''code_verifier'', verifier)]\<rparr>"

definition userinfoRequest :: "discoveryDocument \<Rightarrow> string \<Rightarrow> http_request" where
  "userinfoRequest discovery accessToken =
     \<lparr>hqMethod = ''GET'', hqURL = ddUserinfoEndpoint discovery,
      hqHeaders = [(''Authorization'', ''Bearer '' @ accessToken)], hqBody = []\<rparr>"

definition exchangeAndVerify ::
  "'w login_env \<Rightarrow> discoveryDocument \<Rightarrow> authConfig \<Rightarrow> string \<Rightarrow> string \<Rightarrow> string \<Rightarrow> string \<Rightarrow> 'w \<Rightarrow> string checked \<times> 'w" where
  "exchangeAndVerify N discovery config redirectURI verifier code expectedSubject w =
     (case lnNewRequest N ''POST'' (ddTokenEndpoint discovery) of
        Some er \<Rightarrow> (Inl (''create token request: '' @ er), w)
      | None \<Rightarrow>
      case lnDo N (tokenRequest N discovery config redirectURI verifier code) w of
        (Inl er, w1) \<Rightarrow> (Inl (''exchange authorization code: '' @ er), w1)
      | (Inr response, w1) \<Rightarrow>
      if hsStatusCode response \<noteq> 200 then (Inl (''token endpoint returned '' @ hsStatus response), w1)
      else case decodeJSON (lnDecodeToken N) (hsBody response) of
        Inl er \<Rightarrow> (Inl (''decode token response: '' @ er), w1)
      | Inr token \<Rightarrow>
      if trAccessToken token = [] \<or> \<not> lnEqualFold N (trTokenType token) ''Bearer''
      then (Inl ''token response does not contain a bearer access token'', w1)
      else case lnNewRequest N ''GET'' (ddUserinfoEndpoint discovery) of
        Some er \<Rightarrow> (Inl (''create userinfo request: '' @ er), w1)
      | None \<Rightarrow>
      case lnDo N (userinfoRequest discovery (trAccessToken token)) w1 of
        (Inl er, w2) \<Rightarrow> (Inl (''request userinfo: '' @ er), w2)
      | (Inr userinfo, w2) \<Rightarrow>
        (if hsStatusCode userinfo \<noteq> 200 then Inl (''userinfo endpoint returned '' @ hsStatus userinfo)
         else case decodeJSON (lnDecodeUserinfo N) (hsBody userinfo) of
           Inl er \<Rightarrow> Inl (''decode userinfo response: '' @ er)
         | Inr subject \<Rightarrow>
             if subject \<noteq> expectedSubject
             then Inl (''authenticated subject '' @ lnQuote N subject @ '' does not match selected persona'')
             else Inr (trAccessToken token), w2))"

text \<open>
  \<open>writeToken\<close> goes through the steps of \<open>writeFileAtomic\<close> except \<open>Sync\<close>, and returns the states it
  visits.
\<close>

definition writeToken ::
  "'w login_env \<Rightarrow> io_faults \<Rightarrow> string \<Rightarrow> string \<Rightarrow> files \<Rightarrow> unit checked \<times> files list" where
  "writeToken N io path token fs =
     (let tmp = ioTempName io; removed = (\<lambda>s :: files. s(tmp := None)) in
      if token = [] then (Inl ''refusing to write an empty access token'', [fs])
      else case lnMkdirAll N (lnDir N path) of
        Some er \<Rightarrow> (Inl (''create token directory '' @ lnDir N path @ '': '' @ er), [fs])
      | None \<Rightarrow>
      case ioFault io CreateTemp of
        Some er \<Rightarrow> (Inl (''create temporary token file: '' @ er), [fs])
      | None \<Rightarrow>
        let fs1 = fs(tmp \<mapsto> []) in
        (case ioFault io Chmod of
           Some er \<Rightarrow> (Inl (''secure temporary token file: '' @ er), [fs, fs1, removed fs1])
         | None \<Rightarrow>
           (case ioFault io WriteData of
              Some er \<Rightarrow> (let fs2 = fs1(tmp \<mapsto> take (ioWritten io) token) in
                 (Inl (''write temporary token file: '' @ er), [fs, fs1, fs2, removed fs2]))
            | None \<Rightarrow>
              let fs2 = fs1(tmp \<mapsto> token) in
              (case ioFault io CloseFile of
                 Some er \<Rightarrow> (Inl (''close temporary token file: '' @ er), [fs, fs1, fs2, removed fs2])
               | None \<Rightarrow>
                 (case ioFault io Rename of
                    Some er \<Rightarrow> (Inl (''replace token file '' @ path @ '': '' @ er), [fs, fs1, fs2, removed fs2])
                  | None \<Rightarrow> (Inr (), [fs, fs1, fs2, fs2(path \<mapsto> token, tmp := None)]))))))"

text \<open>
  The middle of \<open>run\<close>: the two secrets, the URL to print, the wait for the callback, and the
  exchange.
\<close>

definition loginFlow ::
  "'w login_env \<Rightarrow> callback_request list \<Rightarrow> authConfig \<Rightarrow> demoUserConfig \<Rightarrow> discoveryDocument \<Rightarrow> string \<Rightarrow> 'w
     \<Rightarrow> string checked \<times> 'w" where
  "loginFlow N incoming config user discovery redirectURI w1 =
     (case randomBase64URL N 32 w1 of
        (Inl er, w2) \<Rightarrow> (Inl (''generate PKCE verifier: '' @ er), w2)
      | (Inr verifier, w2) \<Rightarrow>
        (case randomBase64URL N 32 w2 of
           (Inl er, w3) \<Rightarrow> (Inl (''generate OAuth state: '' @ er), w3)
         | (Inr state, w3) \<Rightarrow>
           (case authorizationURL N (ddAuthorizationEndpoint discovery) config redirectURI state verifier of
              Inl er \<Rightarrow> (Inl er, w3)
            | Inr _ \<Rightarrow>
              (case callbackServer (case lnParse N redirectURI of Inl _ \<Rightarrow> [] | Inr u \<Rightarrow> luPath u) state incoming None of
                 None \<Rightarrow> (Inl ''waiting for browser callback: context deadline exceeded'', w3)
               | Some callback \<Rightarrow>
                 (case callback of
                    Inl er \<Rightarrow> (Inl er, w3)
                  | Inr code \<Rightarrow> exchangeAndVerify N discovery config redirectURI verifier code (duUserID user) w3)))))"

definition authenticate ::
  "'w login_env \<Rightarrow> callback_request list \<Rightarrow> authConfig \<Rightarrow> demoUserConfig \<Rightarrow> 'w \<Rightarrow> string checked \<times> 'w" where
  "authenticate N incoming config user w =
     (case discover N (acIssuer config) w of
        (Inl er, w1) \<Rightarrow> (Inl er, w1)
      | (Inr discovery, w1) \<Rightarrow>
        (case listenForCallback N (acRedirectURIs config) of
           Inl er \<Rightarrow> (Inl er, w1)
         | Inr redirectURI \<Rightarrow> loginFlow N incoming config user discovery redirectURI w1))"

definition run ::
  "'w login_env \<Rightarrow> io_faults \<Rightarrow> callback_request list \<Rightarrow> string list \<Rightarrow> files \<Rightarrow> 'w \<Rightarrow> unit checked \<times> files list \<times> 'w" where
  "run N io incoming args fs w =
     (case parseOptions N args of
        Inl er \<Rightarrow> (Inl er, [fs], w)
      | Inr opts \<Rightarrow>
        (case loadAuthConfig N fs (oConfigPath opts) (oPersona opts) of
           Inl er \<Rightarrow> (Inl er, [fs], w)
         | Inr (config, user) \<Rightarrow>
           (case newHTTPClient N (oCAPath opts) of
              Inl er \<Rightarrow> (Inl er, [fs], w)
            | Inr _ \<Rightarrow>
              (case authenticate N incoming config user w of
                 (Inl er, w1) \<Rightarrow> (Inl er, [fs], w1)
               | (Inr accessToken, w1) \<Rightarrow>
                   let (r, states) = writeToken N io (oTokenPath opts) accessToken fs in (r, states, w1)))))"

end
