(* ===== verification/Bootstrap_Login_Properties.thy ===== *)
theory Bootstrap_Login_Properties
  imports Bootstrap_Login
begin

text \<open>
  What the login helper guarantees about the token it writes: whose it is, where it came from, and
  that the file is replaced as a whole.
\<close>

declare not_None_eq [iff del]

section \<open>The steps\<close>

text \<open>An endpoint on the origin of the issuer, reached over HTTPS or on the loopback interface.\<close>

definition on_origin :: "'w login_env \<Rightarrow> login_url \<Rightarrow> string \<Rightarrow> bool" where
  "on_origin N origin endpoint \<longleftrightarrow>
     (\<exists>u. secureEndpoint N endpoint = Inr u \<and> luScheme u = luScheme origin \<and> luHost u = luHost origin)"

lemma secureEndpoint_ok:
  "secureEndpoint N raw = Inr u \<Longrightarrow> lnParse N raw = Inr u \<and> \<not> luUser u \<and>
     (luScheme u = ''https'' \<or> luScheme u = ''http'' \<and> isLoopbackHost_login N (lnHostname N (luHost u)))"
  by (auto simp: secureEndpoint_def split: sum.splits if_splits)

lemma checkEndpoints_ok:
  "checkEndpoints N origin es = Inr () \<Longrightarrow> list_all (\<lambda>(_, endpoint). on_origin N origin endpoint) es"
  by (induction N origin es rule: checkEndpoints.induct) (auto simp: on_origin_def split: sum.splits if_splits)

lemma discover_ok:
  assumes "discover N issuer w = (Inr d, w')"
  shows "\<exists>origin. secureEndpoint N (trimRightSlash issuer) = Inr origin \<and> trimRightSlash (ddIssuer d) = trimRightSlash issuer \<and>
    on_origin N origin (ddAuthorizationEndpoint d) \<and> on_origin N origin (ddTokenEndpoint d) \<and>
    on_origin N origin (ddUserinfoEndpoint d)"
proof -
  obtain origin where origin: "secureEndpoint N (trimRightSlash issuer) = Inr origin"
    using assms by (auto simp: discover_def Let_def split: sum.splits)
  have d: "trimRightSlash (ddIssuer d) = trimRightSlash issuer \<and>
      checkEndpoints N origin [(''authorization_endpoint'', ddAuthorizationEndpoint d), (''token_endpoint'', ddTokenEndpoint d),
        (''userinfo_endpoint'', ddUserinfoEndpoint d)] = Inr ()"
    using assms origin
    by (auto simp: discover_def Let_def simp del: checkEndpoints.simps split: option.splits sum.splits prod.splits if_splits)
  show ?thesis using origin conjunct1 [OF d] checkEndpoints_ok [OF conjunct2 [OF d]] by simp
qed

text \<open>The result is that of the first GET request on the callback's path; what comes later changes nothing.\<close>

lemma callbackServer_full: "callbackServer path st reqs (Some r) = Some r"
  by (induction reqs) (simp_all add: callbackHandler_def Let_def)

lemma callbackServer_first:
  "callbackServer path st reqs None = Some r \<Longrightarrow>
     \<exists>pre q post. reqs = pre @ q # post \<and> cqMethod q = ''GET'' \<and> cqPath q = path \<and> validateCallback (cqQuery q) st = r \<and>
       (\<forall>p \<in> set pre. cqMethod p \<noteq> ''GET'' \<or> cqPath p \<noteq> path)"
proof (induction reqs)
  case (Cons q reqs)
  show ?case
  proof (cases "cqMethod q = ''GET'' \<and> cqPath q = path")
    case True
    with Cons.prems have "validateCallback (cqQuery q) st = r" by (simp add: callbackHandler_def Let_def callbackServer_full)
    with True show ?thesis by (intro exI [of _ "[]"] exI [of _ q] exI [of _ reqs]) simp
  next
    case False
    with Cons.prems have "callbackServer path st reqs None = Some r" by (auto simp: callbackHandler_def)
    from Cons.IH [OF this] obtain pre q' post where "reqs = pre @ q' # post" "cqMethod q' = ''GET''" "cqPath q' = path"
      "validateCallback (cqQuery q') st = r" "\<forall>p \<in> set pre. cqMethod p \<noteq> ''GET'' \<or> cqPath p \<noteq> path" by blast
    with False show ?thesis by (intro exI [of _ "q # pre"] exI [of _ q'] exI [of _ post]) auto
  qed
qed simp

lemma valuesGet_set [simp]: "valuesGet (valuesSet k v q) k' = (if k' = k then v else valuesGet q k')"
proof -
  have "map_of (filter (\<lambda>(k', _). k' \<noteq> k) q) k' = (if k' = k then None else map_of q k')" by (induction q) auto
  then show ?thesis by (auto simp: valuesGet_def valuesSet_def map_add_def split: option.splits)
qed

text \<open>The URL that is printed carries the state, the redirect URI and the challenge of the verifier.\<close>

lemma authorizationURL_ok:
  assumes "authorizationURL N endpoint config uri st verifier = Inr url"
  shows "\<exists>u q. lnParse N endpoint = Inr u \<and> url = lnURLString N (u\<lparr>luRawQuery := lnEncode N q\<rparr>) \<and>
    valuesGet q ''state'' = st \<and> valuesGet q ''redirect_uri'' = uri \<and> valuesGet q ''client_id'' = acClientID config \<and>
    valuesGet q ''code_challenge'' = lnBase64URL N (lnSHA256 N verifier) \<and> valuesGet q ''code_challenge_method'' = ''S256''"
proof -
  obtain u where u: "lnParse N endpoint = Inr u" using assms by (auto simp: authorizationURL_def split: sum.splits)
  let ?q = "valuesSet ''prompt'' ''login'' (valuesSet ''code_challenge_method'' ''S256''
      (valuesSet ''code_challenge'' (pkceChallenge N verifier) (valuesSet ''state'' st
      (valuesSet ''scope'' (''openid profile email '' @ acAudience config) (valuesSet ''response_type'' ''code''
      (valuesSet ''redirect_uri'' uri (valuesSet ''client_id'' (acClientID config) (lnParseQuery N (luRawQuery u)))))))))"
  have "url = lnURLString N (u\<lparr>luRawQuery := lnEncode N ?q\<rparr>)" using assms u by (simp add: authorizationURL_def Let_def)
  with u show ?thesis by (intro exI [of _ u] exI [of _ ?q]) (simp add: pkceChallenge_def)
qed

lemma validateCallback_ok:
  "validateCallback values st = Inr code \<Longrightarrow> valuesGet values ''state'' = st \<and> st \<noteq> [] \<and> valuesGet values ''code'' = code"
  by (auto simp: validateCallback_def Let_def split: if_splits)

text \<open>
  A token the token endpoint issued for a code and a verifier, in a request sent in world \<open>w\<close>, whose
  subject the userinfo endpoint then reports.
\<close>

definition issued ::
  "'w login_env \<Rightarrow> discoveryDocument \<Rightarrow> string \<Rightarrow> string \<Rightarrow> string \<Rightarrow> string \<Rightarrow> string \<Rightarrow> string \<Rightarrow> 'w \<Rightarrow> bool" where
  "issued N d clientID uri verifier code subject token w \<longleftrightarrow>
     (\<exists>request form resp w1 tok info w2.
        hqMethod request = ''POST'' \<and> hqURL request = ddTokenEndpoint d \<and> hqBody request = lnEncode N form \<and>
        valuesGet form ''grant_type'' = ''authorization_code'' \<and> valuesGet form ''client_id'' = clientID \<and>
        valuesGet form ''redirect_uri'' = uri \<and> valuesGet form ''code'' = code \<and> valuesGet form ''code_verifier'' = verifier \<and>
        lnDo N request w = (Inr resp, w1) \<and> hsStatusCode resp = 200 \<and>
        decodeJSON (lnDecodeToken N) (hsBody resp) = Inr tok \<and> trAccessToken tok = token \<and> token \<noteq> [] \<and>
        lnDo N \<lparr>hqMethod = ''GET'', hqURL = ddUserinfoEndpoint d, hqHeaders = [(''Authorization'', ''Bearer '' @ token)], hqBody = []\<rparr> w1
          = (Inr info, w2) \<and> hsStatusCode info = 200 \<and> decodeJSON (lnDecodeUserinfo N) (hsBody info) = Inr subject)"

lemma exchangeAndVerify_ok:
  assumes "exchangeAndVerify N d config uri verifier code subject w = (Inr token, w')"
  shows "issued N d (acClientID config) uri verifier code subject token w"
proof -
  let ?r = "tokenRequest N d config uri verifier code"
  let ?form = "[(''grant_type'', ''authorization_code''), (''client_id'', acClientID config),
        (''redirect_uri'', uri), (''code'', code), (''code_verifier'', verifier)]"
  obtain resp w1 where first: "lnDo N ?r w = (Inr resp, w1)" "hsStatusCode resp = 200"
    using assms by (auto simp: exchangeAndVerify_def split: option.splits sum.splits prod.splits if_splits)
  obtain tok where tok: "decodeJSON (lnDecodeToken N) (hsBody resp) = Inr tok" "trAccessToken tok \<noteq> []"
    using assms first by (auto simp: exchangeAndVerify_def split: option.splits sum.splits if_splits)
  obtain info where info: "lnDo N (userinfoRequest d (trAccessToken tok)) w1 = (Inr info, w')" "hsStatusCode info = 200"
      "decodeJSON (lnDecodeUserinfo N) (hsBody info) = Inr subject" "token = trAccessToken tok"
    using assms first tok by (auto simp: exchangeAndVerify_def split: option.splits sum.splits prod.splits if_splits)
  have r: "hqMethod ?r = ''POST''" "hqURL ?r = ddTokenEndpoint d" "hqBody ?r = lnEncode N ?form" by (simp_all add: tokenRequest_def)
  show ?thesis unfolding issued_def
    by (intro exI [of _ ?r] exI [of _ ?form] exI [of _ resp] exI [of _ w1] exI [of _ tok] exI [of _ info] exI [of _ w'])
      (use first tok info in \<open>simp add: r valuesGet_def userinfoRequest_def\<close>)
qed

text \<open>
  The token comes from the flow that a helper starts in world \<open>w\<close>. Every value is that of this run:
  the discovered endpoints, the redirect URI it listens on, the verifier and the state it draws one
  after the other, the URL it prints, and the code of the first callback, whose state is the one drawn.
\<close>

definition from_flow ::
  "'w login_env \<Rightarrow> callback_request list \<Rightarrow> authConfig \<Rightarrow> demoUserConfig \<Rightarrow> 'w \<Rightarrow> string \<Rightarrow> bool" where
  "from_flow N incoming config user w token \<longleftrightarrow>
     (\<exists>origin d w1 uri verifier w2 st w3 u q pre callback post path.
        secureEndpoint N (trimRightSlash (acIssuer config)) = Inr origin \<and> discover N (acIssuer config) w = (Inr d, w1) \<and>
        on_origin N origin (ddAuthorizationEndpoint d) \<and> on_origin N origin (ddTokenEndpoint d) \<and>
        on_origin N origin (ddUserinfoEndpoint d) \<and> listenForCallback N (acRedirectURIs config) = Inr uri \<and>
        randomBase64URL N 32 w1 = (Inr verifier, w2) \<and> randomBase64URL N 32 w2 = (Inr st, w3) \<and>
        lnParse N (ddAuthorizationEndpoint d) = Inr u \<and>
        authorizationURL N (ddAuthorizationEndpoint d) config uri st verifier = Inr (lnURLString N (u\<lparr>luRawQuery := lnEncode N q\<rparr>)) \<and>
        valuesGet q ''state'' = st \<and> valuesGet q ''redirect_uri'' = uri \<and> valuesGet q ''client_id'' = acClientID config \<and>
        valuesGet q ''code_challenge'' = lnBase64URL N (lnSHA256 N verifier) \<and> valuesGet q ''code_challenge_method'' = ''S256'' \<and>
        path = (case lnParse N uri of Inl _ \<Rightarrow> [] | Inr r \<Rightarrow> luPath r) \<and> incoming = pre @ callback # post \<and>
        cqMethod callback = ''GET'' \<and> cqPath callback = path \<and>
        (\<forall>p \<in> set pre. cqMethod p \<noteq> ''GET'' \<or> cqPath p \<noteq> path) \<and>
        valuesGet (cqQuery callback) ''state'' = st \<and> st \<noteq> [] \<and>
        issued N d (acClientID config) uri verifier (valuesGet (cqQuery callback) ''code'') (duUserID user) token w3)"

lemma authenticate_ok:
  assumes "authenticate N incoming config user w = (Inr token, w')"
  shows "from_flow N incoming config user w token"
proof -
  obtain d w1 where d: "discover N (acIssuer config) w = (Inr d, w1)"
    using assms by (auto simp: authenticate_def split: prod.splits sum.splits)
  obtain uri where uri: "listenForCallback N (acRedirectURIs config) = Inr uri"
    and flow: "loginFlow N incoming config user d uri w1 = (Inr token, w')"
    using assms d by (auto simp: authenticate_def split: prod.splits sum.splits)
  obtain verifier w2 where v: "randomBase64URL N 32 w1 = (Inr verifier, w2)"
    using flow by (auto simp: loginFlow_def split: prod.splits sum.splits)
  obtain st w3 where st: "randomBase64URL N 32 w2 = (Inr st, w3)"
    using flow v by (auto simp: loginFlow_def split: prod.splits sum.splits)
  obtain url where url: "authorizationURL N (ddAuthorizationEndpoint d) config uri st verifier = Inr url"
    using flow v st by (auto simp: loginFlow_def split: sum.splits)
  let ?path = "case lnParse N uri of Inl _ \<Rightarrow> [] | Inr r \<Rightarrow> luPath r"
  obtain code where code: "callbackServer ?path st incoming None = Some (Inr code)"
      "exchangeAndVerify N d config uri verifier code (duUserID user) w3 = (Inr token, w')"
    using flow v st url by (auto simp: loginFlow_def split: sum.splits option.splits)
  from callbackServer_first [OF code(1)] obtain pre q post where q: "incoming = pre @ q # post" "cqMethod q = ''GET''"
      "cqPath q = ?path" "validateCallback (cqQuery q) st = Inr code" "\<forall>p \<in> set pre. cqMethod p \<noteq> ''GET'' \<or> cqPath p \<noteq> ?path"
    by blast
  note c = validateCallback_ok [OF q(4)]
  have iss: "issued N d (acClientID config) uri verifier (valuesGet (cqQuery q) ''code'') (duUserID user) token w3"
    using exchangeAndVerify_ok [OF code(2)] c by simp
  obtain u qs where u: "lnParse N (ddAuthorizationEndpoint d) = Inr u" "url = lnURLString N (u\<lparr>luRawQuery := lnEncode N qs\<rparr>)"
      "valuesGet qs ''state'' = st" "valuesGet qs ''redirect_uri'' = uri" "valuesGet qs ''client_id'' = acClientID config"
      "valuesGet qs ''code_challenge'' = lnBase64URL N (lnSHA256 N verifier)" "valuesGet qs ''code_challenge_method'' = ''S256''"
    using authorizationURL_ok [OF url] by blast
  obtain origin where "secureEndpoint N (trimRightSlash (acIssuer config)) = Inr origin"
      "on_origin N origin (ddAuthorizationEndpoint d)" "on_origin N origin (ddTokenEndpoint d)" "on_origin N origin (ddUserinfoEndpoint d)"
    using discover_ok [OF d] by blast
  note o = this
  have url': "authorizationURL N (ddAuthorizationEndpoint d) config uri st verifier =
      Inr (lnURLString N (u\<lparr>luRawQuery := lnEncode N qs\<rparr>))" using url unfolding u(2) .
  show ?thesis unfolding from_flow_def
    by (intro exI conjI; (rule o d uri v st u(1) url' u(3-7) refl q(1-3,5) iss conjunct1 [OF c] conjunct1 [OF conjunct2 [OF c]]))
qed

section \<open>The file\<close>

lemma writeToken_states:
  assumes "writeToken N io path token fs = (r, states)" "fs (ioTempName io) = None" "ioTempName io \<noteq> path"
  shows "(\<forall>s \<in> set states. s path = fs path \<or> s path = Some token) \<and> states \<noteq> [] \<and>
    last states = (if r = Inr () then fs(path \<mapsto> token) else fs)"
proof -
  have "(\<forall>s \<in> set states. s path = fs path \<or> s path = Some token) \<and> states \<noteq> []"
    using assms by (auto simp: writeToken_def Let_def split: if_splits option.splits)
  moreover have "last states = (if r = Inr () then fs(path \<mapsto> token) else fs)"
    using assms by (auto simp: writeToken_def Let_def fun_eq_iff split: if_splits option.splits)
  ultimately show ?thesis by blast
qed

text \<open>
  C15: Whatever happens during a login, the token file holds what it held or a whole token that
  comes from this login: the code arrived in the first GET callback, which carried the state this run
  drew and put into the URL it printed; it was exchanged, with the PKCE verifier this run drew and whose
  challenge is in that URL, at an endpoint of the configured issuer's origin; and the issuer's userinfo
  endpoint names the selected persona as the subject of the token. A failed login leaves all files as
  they were.
\<close>

theorem login_token_sound:
  assumes "run N io incoming args fs w = (r, states, w')" and "parseOptions N args = Inr opts"
    and "fs (ioTempName io) = None" "ioTempName io \<noteq> oTokenPath opts"
  shows "states \<noteq> [] \<and> (r \<noteq> Inr () \<longrightarrow> last states = fs) \<and>
    (\<forall>s \<in> set states. s (oTokenPath opts) = fs (oTokenPath opts) \<or>
       (\<exists>config user token. loadAuthConfig N fs (oConfigPath opts) (oPersona opts) = Inr (config, user) \<and>
          acDemoUsers config (oPersona opts) = Some user \<and> s (oTokenPath opts) = Some token \<and>
          from_flow N incoming config user w token))"
proof (cases "states = [fs]")
  case False
  then obtain config user token w1 where c: "loadAuthConfig N fs (oConfigPath opts) (oPersona opts) = Inr (config, user)"
    and auth: "authenticate N incoming config user w = (Inr token, w1)"
    and wr: "writeToken N io (oTokenPath opts) token fs = (r, states)"
    using assms(1,2) by (auto simp: run_def split: sum.splits prod.splits)
  have "acDemoUsers config (oPersona opts) = Some user"
    using c by (auto simp: loadAuthConfig_def split: option.splits sum.splits if_splits)
  then show ?thesis using writeToken_states [OF wr assms(3,4)] authenticate_ok [OF auth] c by auto
qed simp

text \<open>A login that succeeds, after a callback with a wrong path, for the witness.\<close>

definition demo_config :: authConfig where
  "demo_config = \<lparr>acIssuer = ''https://idp'', acAudience = ''aud'', acClientID = ''ui'',
     acRedirectURIs = [''http://localhost''], acDemoUsers = [''ann'' \<mapsto> \<lparr>duUserID = ''42'', duLoginName = ''ann@x''\<rparr>]\<rparr>"

definition demo_login :: "unit login_env" where
  "demo_login = \<lparr>lnParse = (\<lambda>s. Inr \<lparr>luScheme = takeWhile (\<lambda>c. c \<noteq> CHR '':'') s, luHost = takeWhile (\<lambda>c. c \<noteq> CHR ''/'') (drop 3 (dropWhile (\<lambda>c. c \<noteq> CHR '':'') s)),
        luPath = ''/cb'', luUser = False, luRawQuery = [], luFragment = []\<rparr>),
     lnURLString = (\<lambda>u. luHost u), lnHostname = (\<lambda>h. h), lnLoopbackIP = (\<lambda>_. False), lnEqualFold = (\<lambda>a b. a = b),
     lnQuote = (\<lambda>s. s), lnParseQuery = (\<lambda>_. []), lnEncode = (\<lambda>q. concat (map snd q)), lnNewRequest = (\<lambda>_ _. None),
     lnDo = (\<lambda>request w. (Inr \<lparr>hsStatusCode = 200, hsStatus = ''OK'', hsBody = hqURL request\<rparr>, w)),
     lnListen = (\<lambda>_. None), lnRandom = (\<lambda>n w. (Inr ''rnd'', w)), lnBase64URL = (\<lambda>s. s), lnSHA256 = (\<lambda>s. s),
     lnDecodeConfig = (\<lambda>_. Inr demo_config),
     lnDecodeDiscovery = (\<lambda>_. Inr \<lparr>ddIssuer = ''https://idp/'', ddAuthorizationEndpoint = ''https://idp/a'',
        ddTokenEndpoint = ''https://idp/t'', ddUserinfoEndpoint = ''https://idp/u''\<rparr>),
     lnDecodeToken = (\<lambda>_. Inr \<lparr>trAccessToken = ''tok'', trTokenType = ''Bearer''\<rparr>), lnDecodeUserinfo = (\<lambda>_. Inr ''42''),
     lnCAPool = (\<lambda>_. None),
     lnParseFlags = (\<lambda>_. Inr \<lparr>oConfigPath = ''cfg'', oPersona = ''ann'', oTokenPath = ''token'', oCAPath = [], oTimeout = 1\<rparr>),
     lnDir = (\<lambda>_. ''.''), lnMkdirAll = (\<lambda>_. None)\<rparr>"

definition demo_incoming :: "callback_request list" where
  "demo_incoming = [\<lparr>cqMethod = ''GET'', cqPath = ''/favicon'', cqQuery = []\<rparr>,
     \<lparr>cqMethod = ''GET'', cqPath = ''/cb'', cqQuery = [(''state'', ''rnd''), (''code'', ''c'')]\<rparr>]"

definition demo_login_io :: io_faults where
  "demo_login_io = \<lparr>ioFault = (\<lambda>_. None), ioWritten = 0, ioTempName = ''tmp''\<rparr>"

definition demo_login_run :: "unit checked \<times> files list \<times> unit" where
  "demo_login_run = run demo_login demo_login_io demo_incoming [] [''cfg'' \<mapsto> ''{}''] ()"

lemma demo_login_run_ok:
  "fst demo_login_run = Inr () \<and> last (fst (snd demo_login_run)) ''token'' = Some ''tok''"
  by code_simp

theorem login_token_sound_witness:
  "last (fst (snd demo_login_run)) ''token'' = Some ''tok'' \<and>
   (\<exists>config user token. loadAuthConfig demo_login [''cfg'' \<mapsto> ''{}''] ''cfg'' ''ann'' = Inr (config, user) \<and>
      acDemoUsers config ''ann'' = Some user \<and> from_flow demo_login demo_incoming config user () token)"
proof -
  have opts: "parseOptions demo_login [] = Inr \<lparr>oConfigPath = ''cfg'', oPersona = ''ann'', oTokenPath = ''token'', oCAPath = [], oTimeout = 1\<rparr>"
    by (simp add: parseOptions_def demo_login_def)
  have run: "run demo_login demo_login_io demo_incoming [] [''cfg'' \<mapsto> ''{}''] () =
      (fst demo_login_run, fst (snd demo_login_run), snd (snd demo_login_run))"
    by (simp only: demo_login_run_def prod.collapse)
  note sound = login_token_sound [OF run opts]
  have "last (fst (snd demo_login_run)) \<in> set (fst (snd demo_login_run))"
    using sound by (simp add: demo_login_io_def)
  then show ?thesis using sound demo_login_run_ok by (fastforce simp: demo_login_io_def)
qed

end
