(* ===== verification/Spec2Isabelle.thy ===== *)
theory Spec2Isabelle
  imports Citius_Prelude Paging Lru_Cache Vault_Storage Key_Repository_Properties Repository_Concurrency
    Registry_Concurrency
    Vault_Registries Auth_Properties Auth_Config_Properties Grpc_Crypto Grpc_Keys_Properties Grpc_Policy
    Grpc_Catalog_Properties Grpc_Stubs Openssl_Interop Bootstrap_Catalogue Bootstrap_Properties
    Server_Properties Server_Lifecycle Vault_Service Loopback_Provider Bootstrap_Login_Properties
begin

text \<open>
  A verification of \<open>citius-server\<close>, the gRPC server of a key-management and cryptography service
  that is agile in its algorithms, with the tools that bootstrap its identity provider.

  \<^bold>\<open>The program and how its parts interact.\<close> A client calls one of seven gRPC services. An interceptor
  authenticates it and checks a per-method permission (\<open>internal/auth\<close>); the handler checks the key or
  policy name against the patterns of the claims (\<open>internal/grpc/authz\<close>), asks a factory for the
  orchestrator of the request and converts errors to statuses (\<open>internal/grpc\<close>). The orchestrators,
  which belong to citius-core, store keys and policies through the repositories of \<open>vault-storage\<close>,
  pick an algorithm template from a registry, and let a provider do the cryptography
  (\<open>internal/provider\<close>: Go's standard library, or OpenSSL with an optional FIPS instance). The
  composition root (\<open>internal/cmd/server\<close>) wires these parts and refuses incoherent deployments. Two
  command-line tools prepare Zitadel: \<open>bootstrap/zitadel/setup-auth\<close> provisions the permission
  catalogue and the users of an ACL file, \<open>bootstrap/zitadel/interactive-login\<close> obtains a token.

  \<^bold>\<open>Conventions.\<close> A struct is a record, an enum or a tagged union a datatype, a handler or method a
  function from its state to a result and the new state. Errors are values of \<open>error\<close>, built by
  \<open>ErrNew\<close>, \<open>ErrWrap\<close> and \<open>ErrPlain\<close> as the source builds them; \<open>'a result\<close> is \<open>error + 'a\<close>; the
  bootstrap tools, which use \<open>fmt.Errorf\<close>, have texts as errors (\<open>'a checked\<close>). A nil pointer or
  function is \<^const>\<open>None\<close>, a panic the outer \<^const>\<open>None\<close> of an \<open>outcome\<close>. Versions and page sizes are
  \<open>32 word\<close>, durations \<open>64 word\<close>, bytes \<open>8 word\<close>; Go strings are lists of 8-bit characters. Names are
  those of the source, with a suffix where two packages share one (\<open>_sw\<close>, \<open>_ossl\<close>, \<open>_lb\<close> for the
  providers, \<open>RPC\<close> for handlers, \<open>_login\<close>, \<open>_embed\<close>).

  \<^bold>\<open>Parameters.\<close> Code that is not in the repository is an argument: \<open>citius-core\<close> (errors, orchestrators,
  policy enforcer, provider registry, catalogue loader), \<open>zitadel-grpc-auth\<close> and its admin client,
  Vault's \<open>logical.Storage\<close>, \<open>ossl-go\<close>, generated protobuf code, and the parts of Go's library that
  are whole subsystems (block ciphers and signature primitives, \<open>net/url\<close>, \<open>net/http\<close>, JSON and YAML).
  What a theorem needs of them is a named predicate stating documented behaviour: \<open>errors_pkg_ok\<close>,
  \<open>storage_laws\<close>, \<open>registry_ok\<close>, \<open>zauth_ok\<close>, \<open>symmetric_ok\<close>, \<open>signature_ok\<close>, \<open>ossl_ok\<close>, \<open>registry_law\<close>, \<open>grpc_laws\<close>; each has
  a concrete instance in the examples.

  \<^bold>\<open>Shared theories.\<close> \<open>Citius_Prelude\<close> holds errors, statuses, slices, \<open>strconv\<close> at 64 bits and the
  lemma collections. \<open>Go_Bytes\<close> holds panics, \<open>math/big\<close>, the CBC and CTR chaining of \<open>crypto/cipher\<close> and
  the DER of ECDSA signatures. \<open>Provider_Messages\<close> holds the messages between orchestrator and provider.

  \<^bold>\<open>Storage.\<close> \<open>Vault_Storage\<close> states the laws of \<open>logical.Storage\<close>. \<open>Lru_Cache\<close>
  (\<open>vault-storage/key/cache.go\<close>) models the cache with its list elements and map; the interface
  \<open>name_cache\<close> is interpreted on it, and it refines the abstract LRU list. \<open>Key_Repository\<close>
  (\<open>vault-storage/key\<close>) models every operation with its error paths and rollbacks;
  \<open>Key_Repository_Effects\<close> and \<open>Key_Repository_Writes\<close> say what each does to the storage,
  \<open>Key_Repository_Spec\<close> states invariant and contracts, \<open>Key_Repository_Contract\<close> the interface
  \<open>key_repository\<close>, \<open>Key_Repository_Runs\<close> the abstract step relation \<open>a_step\<close>, the answers of each operation
  and the simulation, and \<open>Key_Repository_Properties\<close> the properties. What they need of the storage is
  stated where it matters: \<open>reads_reliable\<close> and \<open>deletes_reliable\<close> (\<open>storage_reliable\<close>: all calls)
  that these calls do not fail, \<open>plain_op\<close> and \<open>plain_versions\<close> that no version belongs to a key id with
  a colon, without which \<open>DeleteKey_takes_colon_versions\<close> shows a deletion takes too much. \<open>Vault_Registries\<close> models policies, provider instances
  and templates over the interface \<open>registry\<close>, with template selection (\<open>gets_reliable\<close>: reads do not
  fail). \<open>Repository_Locking\<close> runs calls of the methods in small
  steps under a \<open>sync.RWMutex\<close>; \<open>Locked_Repository\<close> states the interface \<open>locked_repository\<close> and shows that
  calls on one repository end and are serial; \<open>Repository_Concurrency\<close> interprets it for keys, with the
  calls that are not serial and the stale names of repositories that share a lock, and \<open>Registry_Concurrency\<close> for policies and provider instances.

  \<^bold>\<open>Requests.\<close> \<open>Paging\<close> (\<open>internal/grpc/paging\<close>) shows that following page tokens ends and covers the
  listing (interface \<open>pager\<close>; the fuel of \<open>fetch_all\<close> counts requests, and one more than there are items
  is enough). \<open>Auth\<close>, \<open>Auth_Properties\<close> and \<open>Auth_Config_Properties\<close> (\<open>internal/auth\<close>,
  \<open>internal/grpc/status\<close>, \<open>internal/grpc/authz\<close>) decide names (interface \<open>name_gate\<close>), show that every
  method has a policy, and characterise the settings that are accepted from the environment.
  \<open>Grpc_Common\<close> states \<open>guarded_rpc\<close>, the interface of a handler whose check precedes every effect; it
  is interpreted for the handlers of \<open>Grpc_Crypto\<close>, \<open>Grpc_Keys\<close> (with \<open>Grpc_Keys_Properties\<close>) and
  \<open>Grpc_Policy\<close>. \<open>Grpc_Catalog\<close> and \<open>Grpc_Catalog_Properties\<close> cover discovery and providers, \<open>Grpc_Stubs\<close>
  the methods left to the generated servers.

  \<^bold>\<open>Providers.\<close> \<open>Software_Symmetric\<close>, \<open>Software_Signatures\<close>, \<open>Software_Rsa\<close> and \<open>Software_Provider\<close> model
  \<open>internal/provider/software\<close>; the theories ending in \<open>_Properties\<close> interpret \<open>cipher_mode\<close> for the four
  ciphers and \<open>signature_scheme\<close> for seven signature schemes, and derive round trips, the absence of
  panics and the exactness of the padding. \<open>Openssl_Keys\<close>, \<open>Openssl_Ciphers\<close>, \<open>Openssl_Signatures\<close>,
  \<open>Openssl_Provider\<close> and \<open>Openssl_Context\<close> model \<open>internal/provider/openssl\<close>;
  \<open>Openssl_Signature_Properties\<close> interprets \<open>signature_scheme\<close> nine times more, \<open>Openssl_Properties\<close> states
  the round trips and \<open>Openssl_Interop\<close> that OpenSSL does byte for byte what the software ciphers do.
  \<open>Loopback_Provider\<close> is the provider for tests.

  \<^bold>\<open>Deployment.\<close> \<open>Server_Deployment\<close> (\<open>deployment.go\<close>) shows that registration succeeds exactly for
  coherent selections; \<open>Server_Wiring\<close> (\<open>wire.go\<close>, \<open>internal/app/validate.go\<close>), \<open>Server_Main\<close>
  (\<open>main.go\<close>, \<open>embed\<close>, \<open>testable.go\<close>) and \<open>Server_Properties\<close> show what a wired server guarantees;
  \<open>Server_Lifecycle\<close> (\<open>startServer\<close>) how it ends.
  \<open>Vault_Service\<close> is \<open>internal/app/vault\<close>.

  \<^bold>\<open>Bootstrap.\<close> \<open>Bootstrap_Operations\<close> and \<open>Bootstrap_Catalogue\<close> (\<open>operations.go\<close>) show that the
  provisioned catalogue is the registry the server enforces; \<open>Bootstrap_Acl\<close> and
  \<open>Bootstrap_Acl_Properties\<close> (\<open>acl.go\<close>) what an accepted ACL provisions; \<open>Bootstrap_Setup\<close> and
  \<open>Bootstrap_Properties\<close> (\<open>main.go\<close>) that no run tears the configuration file and which credentials a
  run carries over;
  \<open>Bootstrap_Login\<close> and \<open>Bootstrap_Login_Properties\<close> which token the login helper writes. Writing a file
  returns the list of the states it goes through, so that a theorem covers a crash at any point.

  \<^bold>\<open>This theory\<close> states the properties that span these parts: from an ACL entry to the decision on a
  call, and what a started server guarantees.

  \<^bold>\<open>Bounds and termination.\<close> Every model function is total. The only fuel is the one of \<open>fetch_all\<close>;
  the loops of the source range over slices, and the three chaining loops of \<open>Go_Bytes\<close> have the length
  of the input as their measure.

  The number of steps of concurrent repository calls is bounded by the length of their programs, and
  that of a shutdown by the pending requests.

  \<^bold>\<open>Not modelled.\<close> Interleaving of whole requests: the steps of concurrent repository calls are
  modelled, those of handlers and orchestrators are not; reads under the lock leave the storage as it
  is. Context cancellation inside requests, logging, audit output; file permissions; the expiry of
  caches inside zitadel-grpc-auth; the timing of cryptographic code. \<open>VaultProviders.Bind\<close> panics as
  not implemented. The order in which Go ranges over a map is fixed where only the first reported
  error depends on it. \<open>loadEnv\<close> and \<open>usage\<close> of the bootstrap tool, type aliases and compile-time
  assertions have no definition.
\<close>

section \<open>Permissions, from the ACL to the call\<close>

lemma policy_of_method:
  assumes "(m, p) \<in> set methodPermissions"
  shows "map_of (policyRegistry Z) m = Some [requirePerm Z p]"
proof -
  have "map fst (policyRegistry Z) = map fst methodPermissions"
    by (simp add: policyRegistry_def case_prod_unfold)
  then have "distinct (map fst (policyRegistry Z))" using registered_names by simp
  moreover have "(m, [requirePerm Z p]) \<in> set (policyRegistry Z)" using assms by (force simp: policyRegistry_def)
  ultimately show ?thesis by (rule map_of_is_SomeI)
qed

lemma operation_guarded:
  assumes "operation \<in> set citiusOperations"
  shows "(opMethod operation, opPermission operation) \<in> set methodPermissions"
  using assms unfolding operations_guarded [symmetric] by simp

lemma method_has_policy:
  assumes "(svc, methods) \<in> set serviceMethods" "m \<in> set methods"
  shows "\<exists>fs. map_of (policyRegistry Z) (serviceMethod svc m) = Some fs \<and> fs \<noteq> [] \<and> (\<forall>f \<in> set fs. f None \<noteq> None)"
proof -
  have "serviceMethod svc m \<in> set allMethods" using assms by (force simp: allMethods_def)
  then obtain p where "(serviceMethod svc m, p) \<in> set methodPermissions" using registered_names by fastforce
  from policy_of_method [OF this, of Z] show ?thesis by (simp add: requirePerm_def)
qed

text \<open>
  C5: A user provisioned from the ACL may call exactly the methods whose permission the ACL gives
  it. \<open>claims\<close> are the claims of a token of that user, which carry the provisioned permissions; the
  decision is that of the policy the server has registered for the method. A user with the
  permission \<open>*\<close> may call every method, and one without permissions none.
\<close>

theorem acl_grants_exactly:
  assumes "loadACL B readFile decode path = Inr acl"
    and "(name, perms, keys, policies) \<in> set (provisioned acl)"
    and "\<forall>p. hasStringInSlice Z claims ClaimPermissions p = (p \<in> perms)"
    and "operation \<in> set citiusOperations"
  shows "\<exists>policies. map_of (policyRegistry Z) (opMethod operation) = Some policies \<and>
      ((\<forall>f \<in> set policies. f (Some claims) = None) = (opPermission operation \<in> perms)) \<and>
    (\<exists>raw f u. readFile path = Inr raw \<and> decode raw = Inr f \<and> u \<in> set (afUsers f) \<and> auUsername u = name \<and>
       perms = granted (auPermissions u))"
proof -
  have "acl_wf B acl \<and> (\<exists>raw f. readFile path = Inr raw \<and> decode raw = Inr f \<and>
      mset (provisioned acl) = mset (map requested (afUsers f)))"
    using loadACL_exact [OF assms(1)] by blast
  then obtain raw f where f: "readFile path = Inr raw" "decode raw = Inr f"
      "mset (provisioned acl) = mset (map requested (afUsers f))" by blast
  have "set (provisioned acl) = set (map requested (afUsers f))" using f(3) by (rule mset_eq_setD)
  then obtain u where u: "u \<in> set (afUsers f)" "requested u = (name, perms, keys, policies)"
    using assms(2) by auto
  have "map_of (policyRegistry Z) (opMethod operation) = Some [requirePerm Z (opPermission operation)]"
    by (rule policy_of_method [OF operation_guarded [OF assms(4)]])
  then show ?thesis using assms(3) f u by (auto simp: requirePerm_def requested_def)
qed

lemma demo_provisioned:
  assumes "demo_load = Inr acl"
  shows "requested demo_machine \<in> set (provisioned acl)"
proof -
  have "mset (provisioned acl) = mset (map requested (afUsers demo_file))"
    using loadACL_exact [of demo_env "\<lambda>_. Inr ()" "\<lambda>_. Inr demo_file" "''acl.yaml''" acl] assms by (auto simp: demo_load_def)
  then have "set (provisioned acl) = set (map requested (afUsers demo_file))" by (rule mset_eq_setD)
  then show ?thesis by (simp add: demo_file_def)
qed

theorem acl_grants_exactly_witness:
  "\<exists>fs. map_of (policyRegistry demo_zauth) (opMethod (mkOperation ''KeyManagementService'' ''ListKeys'' permKeysRead ''List keys'')) = Some fs \<and>
     (\<forall>f \<in> set fs. f (Some [(ClaimPermissions, [permKeysRead])]) = None)"
proof -
  let ?op = "mkOperation ''KeyManagementService'' ''ListKeys'' permKeysRead ''List keys''"
  obtain acl where acl: "demo_load = Inr acl" using demo_load_ok by (auto split: sum.splits)
  have user: "requested demo_machine = (''svc'', {permKeysRead}, keyAccess (auKeyAccess demo_machine), policyAccess None)"
    by (simp add: requested_def demo_machine_def granted_def permKeysRead_def)
  have claims: "\<forall>p. hasStringInSlice demo_zauth [(ClaimPermissions, [permKeysRead])] ClaimPermissions p = (p \<in> {permKeysRead})"
    by (auto simp: demo_zauth_def)
  have "(''KeyManagementService'', ''ListKeys'', permKeysRead, ''List keys'') \<in> set operationTable"
    unfolding operationTable_def by simp
  then have op: "?op \<in> set citiusOperations" unfolding citiusOperations_def by force
  have perm: "opPermission ?op = permKeysRead" by (simp add: mkOperation_def)
  from acl_grants_exactly [OF acl [unfolded demo_load_def] demo_provisioned [OF acl, unfolded user] claims op]
  show ?thesis by (auto simp: perm)
qed

section \<open>Startup\<close>

text \<open>
  C4: A server that comes up accepts bearer tokens only over TLS. It serves the five services of
  \<open>ServedServices\<close> and besides them only the reflection services and the health service, each when its
  flag asks for it. Every method of the services of this repository has a policy, which no request
  without claims passes; reflection is open to anonymous callers only when it was asked for.
\<close>

theorem main_server_safe:
  assumes "main_server S Z K E L P emptyStorage fl = Inr r"
  shows "(ruAuthEnabled r \<longrightarrow> ruTLS r) \<and> RequireAuth (ruAuth r) = ruAuthEnabled r \<and>
    ruAuthEnabled r = (osGetenv S ''AUTH_ENABLED'' = ''true'') \<and>
    ruServices r = [''KeyManagementService'', ''CryptoService'', ''CryptoPolicyService'', ''AlgorithmDiscoveryService'', ''ProviderService'']
      @ (if flReflection fl then osReflectionServices S else []) @ (if flHealth fl then [osHealthService S] else []) \<and>
    sAllowUnauthenticatedReflection (ruAuth r) = flReflection fl \<and>
    (\<forall>(svc, methods) \<in> set serviceMethods. \<forall>m \<in> set methods.
       \<exists>fs. map_of (Policies (ruAuth r)) (serviceMethod svc m) = Some fs \<and> fs \<noteq> [] \<and> (\<forall>f \<in> set fs. f None \<noteq> None))"
proof -
  obtain cfg where cfg: "LoadFromEnv (osQuote S) (osGetenv S) = Inr cfg"
    and r: "ruServices r = selected ServedServices @ (if flReflection fl then osReflectionServices S else []) @
        (if flHealth fl then [osHealthService S] else [])"
      "ruAuth r = snd (Build Z (cfg\<lparr>AllowUnauthenticatedReflection := flReflection fl\<rparr>))"
      "ruAuthEnabled r = Enabled cfg" "Enabled cfg \<longrightarrow> ruTLS r"
    using main_server_run [OF assms] by blast
  have "selected ServedServices = [''KeyManagementService'', ''CryptoService'', ''CryptoPolicyService'', ''AlgorithmDiscoveryService'', ''ProviderService'']"
    by (simp add: selected_def ServedServices_def onlyIf_def)
  moreover have "RequireAuth (ruAuth r) = ruAuthEnabled r" "sAllowUnauthenticatedReflection (ruAuth r) = flReflection fl"
      "Policies (ruAuth r) = policyRegistry Z"
    using r(2,3) by (simp_all add: Build_def)
  ultimately show ?thesis using r(3,4) LoadFromEnv_enabled [OF cfg] method_has_policy unfolding r(1) by fastforce
qed

text \<open>A server with authorization and TLS, over the storage that answers every template with one.\<close>

definition demo_template_env :: "(unit, template_info) registry_env" where
  "demo_template_env = \<lparr>vGet = (\<lambda>_ _ s. (Inr (Some []), s)), vPut = (\<lambda>_ _ _ s. (Inr (), s)),
     vDelete = (\<lambda>_ _ s. (Inr (), s)), vList = (\<lambda>_ _ s. (Inr [], s)), itemName = (\<lambda>_. []),
     encodeItem = (\<lambda>_. Inr []), decodeItem = (\<lambda>_. Inr demo_template)\<rparr>"

definition demo_os :: "(string \<times> string list) list server_os" where
  "demo_os = \<lparr>osGetenv = demo_environment, osQuote = (\<lambda>s. s), osInterceptors = (\<lambda>_. None),
     osLoadKeyPair = (\<lambda>_ _. None), osReflectionServices = [''grpc.reflection.v1.ServerReflection'',
       ''grpc.reflection.v1alpha.ServerReflection''], osHealthService = ''grpc.health.v1.Health'', osListen = (\<lambda>_. None)\<rparr>"

definition demo_flags :: server_flags where
  "demo_flags = \<lparr>flAddr = '':50051'', flCatalog = ''catalog.json'', flTLSCert = ''cert'', flTLSKey = ''key'',
     flFIPSConfig = ''f'', flReflection = False, flHealth = True\<rparr>"

lemma demo_wired: "\<exists>f. WireFactorySet demo_core demo_zauth True demo_template_env demo_lib
    \<lparr>CatalogPath = ''catalog.json'', FIPSConfigPath = ''f''\<rparr> () = (Inr f, ())"
proof -
  have get: "regGet (templateRegistryOf demo_template_env ()) alg = Inr (Some demo_template)" for alg
    by (simp add: templateRegistryOf_def GetTemplate_def demo_template_env_def)
  have "serves demo_core (templateRegistryOf demo_template_env ()) p alg" for p alg
    by (simp add: serves_def get) (simp add: demo_core_def)
  then have "ValidateAllProviders demo_core r (templateRegistryOf demo_template_env ()) = None" for r
    by (simp add: ValidateAllProviders_def validateProviders_None list_all_iff)
  then have "\<exists>r. buildProviderRegistry demo_core demo_lib (templateRegistryOf demo_template_env ()) ''f'' = Inr r"
    by (simp add: buildProviderRegistry_def registerFIPSProvider_def demo_New_ossl)
  moreover have "buildTemplateRegistry demo_core demo_template_env () ''catalog.json'' =
      (Inr (templateRegistryOf demo_template_env ()), ())"
    by (simp add: buildTemplateRegistry_def NewVaultRegistry_def) (simp add: demo_core_def)
  ultimately show ?thesis by (auto simp: WireFactorySet_def wireFactoriesWithStorage_def)
qed

lemma demo_started:
  "\<exists>r. main_server demo_os demo_zauth demo_core demo_template_env demo_lib P () demo_flags = Inr r"
proof -
  obtain cfg where cfg: "LoadFromEnv (\<lambda>s. s) demo_environment = Inr cfg" "Enabled cfg"
    using demo_environment_loads by blast
  obtain f :: "((string \<times> string list) list, unit, unit, bool, provider_instance) wired" where
    f: "WireFactorySet demo_core demo_zauth True demo_template_env demo_lib \<lparr>CatalogPath = ''catalog.json'', FIPSConfigPath = ''f''\<rparr> () = (Inr f, ())"
    using demo_wired by blast
  have "configured ServedServices f"
    using wired_configured [OF f [unfolded WireFactorySet_def]] by blast
  then have "\<exists>services. RegisterAll P ServedServices f [] = (None, services)"
    using BuildHandlers_cases [of ServedServices f P "[]"]
    by (auto simp: RegisterAll_def Validate_None anyEnabled_def ServedServices_def split: if_splits)
  then show ?thesis using cfg f by (auto simp: main_server_def registerHealthServer_def demo_os_def demo_flags_def Build_def Let_def)
qed

theorem main_server_safe_witness:
  "\<forall>P :: ('p, unit, 'sc, bool backend, 'rq) handler_pkgs.
     \<exists>r. main_server demo_os demo_zauth demo_core demo_template_env demo_lib P () demo_flags = Inr r \<and>
       ruAuthEnabled r \<and> ruTLS r \<and> length (ruServices r) = 6 \<and> last (ruServices r) = ''grpc.health.v1.Health''"
proof
  fix P :: "('p, unit, 'sc, bool backend, 'rq) handler_pkgs"
  obtain r where r: "main_server demo_os demo_zauth demo_core demo_template_env demo_lib P () demo_flags = Inr r"
    using demo_started by blast
  have "osGetenv demo_os ''AUTH_ENABLED'' = ''true''" "\<not> flReflection demo_flags" "flHealth demo_flags"
    "osHealthService demo_os = ''grpc.health.v1.Health''"
    by (simp_all add: demo_os_def demo_environment_def demo_flags_def)
  with main_server_safe [OF r] r show "\<exists>r. main_server demo_os demo_zauth demo_core demo_template_env demo_lib P () demo_flags = Inr r \<and>
       ruAuthEnabled r \<and> ruTLS r \<and> length (ruServices r) = 6 \<and> last (ruServices r) = ''grpc.health.v1.Health''" by auto
qed

end
